(* ===== verification/Prelude.thy ===== *)
theory Prelude
  imports
    Complex_Main
    "HOL-Library.AList"
    "HOL-Library.Word"
    "HOL-Library.Sublist"
    "HOL-Library.Char_ord"
    "HOL-Library.List_Lexorder"
begin

text \<open>
  The vocabulary every component of the development shares: Python exceptions as values, the
  error-passing combinators (a \<^verbatim>\<open>raise\<close> is an \<open>Inl\<close>), Python's string operations on
  \<open>string\<close> (\<^verbatim>\<open>split\<close>, \<^verbatim>\<open>startswith\<close>, \<^verbatim>\<open>replace\<close>, \<^verbatim>\<open>str(int)\<close>,
  \<^verbatim>\<open>int(str)\<close>), the UTF-8 codec, and the insertion-ordered \<^verbatim>\<open>dict\<close> as an association
  list updated by \<open>AList.update\<close> and \<open>AList.delete\<close>.

  A Python \<^verbatim>\<open>str\<close> is a list of 8-bit characters read as the code points U+0000 to U+00FF;
  \<^verbatim>\<open>bytes\<close> is a list of 8-bit words. A Python \<^verbatim>\<open>float\<close> is a rational number:
  arithmetic is exact, rounding and the non-finite values are left out. What the code takes from
  outside the repository for floats and keys is a record \<open>platform\<close>, an argument of every
  definition that needs it.
\<close>

named_theorems dict_simps \<open>look-ups in the dictionaries the records are written to\<close>
named_theorems codec_simps \<open>equations of encoders and decoders used by round trips\<close>
named_theorems path_defs \<open>definitions of the bucket layout\<close>

type_synonym bytes = "8 word list"
type_synonym pyfloat = rat

subsection \<open>Exceptions as values\<close>

text \<open>
  The exceptions the modelled code raises or lets through. \<open>Untyped\<close> is no Python exception: it
  marks a run in which a field holds a value outside its annotated type (or a character above
  U+00FF, or a non-finite float), which the model does not follow further. Nor is \<open>Blocked\<close>: it marks
  a loop that is still waiting at the end of the modelled period.
\<close>

datatype pyerr =
    KeyError string
  | TypeError
  | ValueError string
  | IndexError
  | AttributeError
  | RuntimeError string
  | FileNotFoundError string
  | PreconditionFailed string
  | TimelockPending string
  | TimeoutError string
  | ImportError string
  | NotImplementedError string
  | HTTPError string
  | StopIteration
  | AssertionError string
  | StructError string
  | Untyped
  | Blocked

type_synonym 'a res = "pyerr + 'a"

definition bindE :: "'a res \<Rightarrow> ('a \<Rightarrow> 'b res) \<Rightarrow> 'b res" where
  "bindE m f = (case m of Inl e \<Rightarrow> Inl e | Inr a \<Rightarrow> f a)"

lemma bindE_simps [simp]:
  "bindE (Inl e) f = Inl e" "bindE (Inr a) f = f a"
  by (simp_all add: bindE_def)

lemma bindE_eq_Inr: "bindE m f = Inr b \<longleftrightarrow> (\<exists>a. m = Inr a \<and> f a = Inr b)"
  by (cases m) simp_all

lemma bindE_eq_Inl: "bindE m f = Inl e \<longleftrightarrow> m = Inl e \<or> (\<exists>a. m = Inr a \<and> f a = Inl e)"
  by (cases m) simp_all

lemma bindE_cong [fundef_cong]:
  "m = m' \<Longrightarrow> (\<And>a. m' = Inr a \<Longrightarrow> f a = g a) \<Longrightarrow> bindE m f = bindE m' g"
  by (cases m') (auto simp: bindE_def)

text \<open>A list comprehension whose element expression may raise stops at the first exception.\<close>

fun mapE :: "('a \<Rightarrow> 'b res) \<Rightarrow> 'a list \<Rightarrow> 'b list res" where
  "mapE f [] = Inr []"
| "mapE f (x # xs) = bindE (f x) (\<lambda>y. bindE (mapE f xs) (\<lambda>ys. Inr (y # ys)))"

lemma mapE_Inr: "(\<And>x. x \<in> set xs \<Longrightarrow> f x = Inr (g x)) \<Longrightarrow> mapE f xs = Inr (map g xs)"
  by (induction xs) auto

lemma mapE_length: "mapE f xs = Inr ys \<Longrightarrow> length ys = length xs"
  by (induction xs arbitrary: ys) (auto simp: bindE_eq_Inr)

lemma mapE_set: "mapE f xs = Inr ys \<Longrightarrow> y \<in> set ys \<Longrightarrow> \<exists>x \<in> set xs. f x = Inr y"
  by (induction xs arbitrary: ys) (auto simp: bindE_eq_Inr)

subsection \<open>State and exceptions\<close>

text \<open>A computation that may raise but keeps the changes it made to its state.\<close>

type_synonym ('s, 'a) sres = "'s \<Rightarrow> 'a res \<times> 's"

definition bindS :: "('s, 'a) sres \<Rightarrow> ('a \<Rightarrow> ('s, 'b) sres) \<Rightarrow> ('s, 'b) sres" where
  "bindS m f s = (case m s of (Inl e, s') \<Rightarrow> (Inl e, s') | (Inr a, s') \<Rightarrow> f a s')"

definition liftS :: "'a res \<Rightarrow> ('s, 'a) sres" where
  "liftS r s = (r, s)"

definition modifyS :: "('s \<Rightarrow> 's) \<Rightarrow> ('s, unit) sres" where
  "modifyS f s = (Inr (), f s)"

lemma bindS_Inr: "bindS m f s = (Inr b, s') \<longleftrightarrow> (\<exists>a s1. m s = (Inr a, s1) \<and> f a s1 = (Inr b, s'))"
  by (auto simp: bindS_def split: prod.splits sum.splits)

lemma liftS_Inr [simp]: "liftS r s = (Inr a, s') \<longleftrightarrow> r = Inr a \<and> s' = s"
  by (auto simp: liftS_def)

lemma modifyS_Inr [simp]: "modifyS f s = (Inr a, s') \<longleftrightarrow> s' = f s"
  by (auto simp: modifyS_def)

subsection \<open>Python dictionaries\<close>

text \<open>
  A \<^verbatim>\<open>dict\<close> keeps insertion order: assigning an existing key keeps its position, a new key is
  appended, \<^verbatim>\<open>del\<close> removes the key. \<open>AList.update\<close> and \<open>AList.delete\<close> are exactly
  these; look-up is \<open>map_of\<close>.
\<close>

definition setdefault :: "'k \<Rightarrow> 'v \<Rightarrow> ('k \<times> 'v) list \<Rightarrow> ('k \<times> 'v) list" where
  "setdefault k v d = (if map_of d k = None then AList.update k v d else d)"

lemma update_map_of [simp]: "map_of (AList.update k v d) = (map_of d)(k \<mapsto> v)"
  by (rule update_conv')

lemma delete_map_of [simp]: "map_of (AList.delete k d) = (map_of d)(k := None)"
  by (rule delete_conv')

lemma setdefault_map_of [simp]:
  "map_of (setdefault k v d) = (if map_of d k = None then (map_of d)(k \<mapsto> v) else map_of d)"
  by (simp add: setdefault_def)

lemma distinct_setdefault:
  "distinct (map fst d) \<Longrightarrow> distinct (map fst (setdefault k v d))"
  by (simp add: setdefault_def distinct_update)

lemma set_update_subset: "set (AList.update k v d) \<subseteq> insert (k, v) (set d)"
  by (induction d) auto

lemma set_delete_subset: "set (AList.delete k d) \<subseteq> set d"
  by (auto simp: AList.delete_eq)

lemma update_fresh: "k \<notin> fst ` set d \<Longrightarrow> AList.update k v d = d @ [(k, v)]"
  by (induction d) auto

subsection \<open>Lists and strings\<close>

definition starts_with :: "string \<Rightarrow> string \<Rightarrow> bool" where
  "starts_with s p = (take (length p) s = p)"

definition ends_with :: "string \<Rightarrow> string \<Rightarrow> bool" where
  "ends_with s p = (length p \<le> length s \<and> drop (length s - length p) s = p)"

lemma starts_with_iff: "starts_with s p \<longleftrightarrow> (\<exists>t. s = p @ t)"
  by (metis append_eq_conv_conj append_take_drop_id starts_with_def)

lemma starts_with_append [simp]: "starts_with (p @ t) p"
  by (simp add: starts_with_def)

lemma starts_with_simps [simp]:
  "starts_with s []" "starts_with (x # s) (y # p) \<longleftrightarrow> x = y \<and> starts_with s p"
  "starts_with [] (y # p) = False" "starts_with (a @ s) (a @ p) \<longleftrightarrow> starts_with s p"
  by (auto simp: starts_with_def)

lemma ends_with_iff: "ends_with s p \<longleftrightarrow> (\<exists>t. s = t @ p)"
proof
  assume "ends_with s p"
  then show "\<exists>t. s = t @ p"
    by (metis append_take_drop_id ends_with_def)
next
  assume "\<exists>t. s = t @ p"
  then show "ends_with s p" by (auto simp: ends_with_def)
qed

lemma ends_with_append [simp]: "ends_with (t @ p) p"
  by (auto simp: ends_with_iff)

text \<open>\<^verbatim>\<open>s.split(c)\<close> for a single character.\<close>

fun split_on :: "char \<Rightarrow> string \<Rightarrow> string list" where
  "split_on c [] = [[]]"
| "split_on c (x # xs) =
     (if x = c then [] # split_on c xs
      else case split_on c xs of [] \<Rightarrow> [[x]] | w # ws \<Rightarrow> (x # w) # ws)"

lemma split_on_ne [simp]: "split_on c s \<noteq> []"
  by (induction s) (auto split: list.splits)

lemma split_on_none: "c \<notin> set s \<Longrightarrow> split_on c s = [s]"
  by (induction s) auto

lemma split_on_append:
  "c \<notin> set s \<Longrightarrow> split_on c (s @ c # t) = s # split_on c t"
  by (induction s) auto

text \<open>\<^verbatim>\<open>s.replace(a, b)\<close> for single characters.\<close>

definition replace_char :: "char \<Rightarrow> char \<Rightarrow> string \<Rightarrow> string" where
  "replace_char a b s = map (\<lambda>c. if c = a then b else c) s"

fun join_with :: "string \<Rightarrow> string list \<Rightarrow> string" where
  "join_with sep [] = []"
| "join_with sep [x] = x"
| "join_with sep (x # y # zs) = x @ sep @ join_with sep (y # zs)"

text \<open>\<^verbatim>\<open>s.lower()\<close> within U+0000 to U+00FF, and \<^verbatim>\<open>p in s\<close>.\<close>

definition lower :: "string \<Rightarrow> string" where
  "lower s = map (\<lambda>c. let n = of_char c :: nat
     in if 65 \<le> n \<and> n \<le> 90 \<or> 192 \<le> n \<and> n \<le> 222 \<and> n \<noteq> 215 then char_of (n + 32) else c) s"

fun contains :: "string \<Rightarrow> string \<Rightarrow> bool" where
  "contains [] p = (p = [])"
| "contains (c # cs) p = (starts_with (c # cs) p \<or> contains cs p)"

text \<open>\<^verbatim>\<open>v or dflt\<close> for an optional string.\<close>

definition str_or :: "string option \<Rightarrow> string \<Rightarrow> string" where
  "str_or v dflt = (case v of None \<Rightarrow> dflt | Some s \<Rightarrow> if s = [] then dflt else s)"

text \<open>\<^verbatim>\<open>except Exception\<close> catches every exception; \<open>Untyped\<close> and \<open>Blocked\<close> are none and are passed on.\<close>

definition caught :: "pyerr \<Rightarrow> bool" where
  "caught e = (e \<noteq> Untyped \<and> e \<noteq> Blocked)"

text \<open>Cutting at the first occurrence of a separator that neither left part contains.\<close>

lemma append_sep_inj:
  assumes "a @ c # x = b @ c # y" "c \<notin> set a" "c \<notin> set b"
  shows "a = b \<and> x = y"
  using assms
proof (induction a arbitrary: b)
  case Nil
  then show ?case by (cases b) auto
next
  case (Cons u us)
  then show ?case by (cases b) auto
qed

subsection \<open>Decimal numbers\<close>

definition digit_char :: "nat \<Rightarrow> char" where
  "digit_char d = ''0123456789'' ! d"

definition is_digit :: "char \<Rightarrow> bool" where
  "is_digit c = (c \<in> set ''0123456789'')"

definition digit_val :: "char \<Rightarrow> nat" where
  "digit_val c = of_char c - 48"

fun show_nat :: "nat \<Rightarrow> string" where
  "show_nat n = (if n < 10 then [digit_char n] else show_nat (n div 10) @ [digit_char (n mod 10)])"

declare show_nat.simps [simp del]

definition show_int :: "int \<Rightarrow> string" where
  "show_int i = (if i < 0 then CHR ''-'' # show_nat (nat (- i)) else show_nat (nat i))"

fun read_nat :: "nat \<Rightarrow> string \<Rightarrow> nat" where
  "read_nat acc [] = acc"
| "read_nat acc (c # cs) = read_nat (10 * acc + digit_val c) cs"

lemma less_10_cases: "(d::nat) < 10 \<Longrightarrow> d \<in> {0,1,2,3,4,5,6,7,8,9}"
  by auto

lemma digit_char_digit [simp]: "d < 10 \<Longrightarrow> is_digit (digit_char d)"
  by (drule less_10_cases) (auto simp: is_digit_def digit_char_def)

lemma digit_val_char [simp]: "d < 10 \<Longrightarrow> digit_val (digit_char d) = d"
  by (drule less_10_cases) (auto simp: digit_val_def digit_char_def)

lemma show_nat_ne [simp]: "show_nat n \<noteq> []"
  by (subst show_nat.simps) simp

lemma show_nat_digits: "c \<in> set (show_nat n) \<Longrightarrow> is_digit c"
proof (induction n rule: show_nat.induct)
  case (1 n)
  then show ?case by (subst (asm) (2) show_nat.simps) (auto split: if_splits)
qed

lemma read_nat_append: "read_nat a (xs @ ys) = read_nat (read_nat a xs) ys"
  by (induction xs arbitrary: a) auto

lemma read_show_nat [simp]: "read_nat 0 (show_nat n) = n"
proof (induction n rule: show_nat.induct)
  case (1 n)
  then show ?case
    by (subst show_nat.simps) (auto simp: read_nat_append)
qed

lemma show_nat_inj [simp]: "show_nat m = show_nat n \<longleftrightarrow> m = n"
  by (metis read_show_nat)

lemma show_nat_hd: "is_digit (hd (show_nat n))"
  by (rule show_nat_digits [of _ n]) simp

lemma show_nat_lead: "n > 0 \<Longrightarrow> hd (show_nat n) \<noteq> CHR ''0''"
proof (induction n rule: show_nat.induct)
  case (1 n)
  show ?case
  proof (cases "n < 10")
    case True
    with \<open>n > 0\<close> have "n \<in> {1,2,3,4,5,6,7,8,9}" by auto
    then show ?thesis by (subst show_nat.simps) (auto simp: digit_char_def)
  next
    case False
    with 1 have "hd (show_nat (n div 10)) \<noteq> CHR ''0''" by simp
    with False show ?thesis by (subst show_nat.simps) simp
  qed
qed

lemma show_int_ne [simp]: "show_int i \<noteq> []"
  by (simp add: show_int_def)

lemma show_int_chars: "c \<in> set (show_int i) \<Longrightarrow> is_digit c \<or> c = CHR ''-''"
  by (auto simp: show_int_def dest: show_nat_digits split: if_splits)

lemma minus_not_digit [simp]: "\<not> is_digit (CHR ''-'')"
  by (simp add: is_digit_def)

lemma show_nat_not_minus: "show_nat n \<noteq> CHR ''-'' # xs"
  using show_nat_hd [of n] by (metis list.sel(1) minus_not_digit)

lemma show_int_inj [simp]: "show_int i = show_int j \<longleftrightarrow> i = j"
  using show_nat_not_minus by (auto simp: show_int_def split: if_splits) metis

text \<open>
  \<^verbatim>\<open>int(s)\<close> of a string: surrounding white space is stripped, a sign is allowed, digits may be
  grouped by single underscores; anything else is a \<^verbatim>\<open>ValueError\<close>.
\<close>

definition is_space :: "char \<Rightarrow> bool" where
  "is_space c = (of_char c \<in> {9, 10, 11, 12, 13, 28, 29, 30, 31, 32, 133, 160 :: nat})"

definition strip :: "string \<Rightarrow> string" where
  "strip s = rev (dropWhile is_space (rev (dropWhile is_space s)))"

fun grouped_digits :: "string \<Rightarrow> bool" where
  "grouped_digits [] = False"
| "grouped_digits [c] = is_digit c"
| "grouped_digits (c # d # cs) =
     (is_digit c \<and> (if d = CHR ''_'' then grouped_digits cs else grouped_digits (d # cs)))"

definition parse_int :: "string \<Rightarrow> int res" where
  "parse_int s =
     (let t = strip s;
          neg = (case t of [] \<Rightarrow> False | c # _ \<Rightarrow> c = CHR ''-'');
          body = (case t of [] \<Rightarrow> [] | c # cs \<Rightarrow> if c = CHR ''-'' \<or> c = CHR ''+'' then cs else t)
      in if grouped_digits body
         then (let n = int (read_nat 0 (filter (\<lambda>c. c \<noteq> CHR ''_'') body))
               in Inr (if neg then - n else n))
         else Inl (ValueError ''invalid literal for int()''))"

subsection \<open>UTF-8\<close>

definition encode_char :: "char \<Rightarrow> bytes" where
  "encode_char c =
     (let n = of_char c :: nat
      in if n < 128 then [of_nat n] else [of_nat (192 + n div 64), of_nat (128 + n mod 64)])"

definition utf8_encode :: "string \<Rightarrow> bytes" where
  "utf8_encode s = concat (map encode_char s)"

text \<open>
  Decoding accepts the one- and two-byte forms of U+0000 to U+00FF. A longer form encodes a
  character outside the modelled range (\<open>Untyped\<close>); a malformed one raises
  \<^verbatim>\<open>UnicodeDecodeError\<close>, a subclass of \<^verbatim>\<open>ValueError\<close>.
\<close>

fun utf8_decode :: "bytes \<Rightarrow> string res" where
  "utf8_decode [] = Inr []"
| "utf8_decode (b # bs) =
     (if unat b < 128
      then bindE (utf8_decode bs) (\<lambda>s. Inr (char_of (unat b) # s))
      else if unat b < 194 \<or> unat b \<ge> 245 then Inl (ValueError ''UnicodeDecodeError'')
      else if unat b \<ge> 196 then Inl Untyped
      else case bs of
             [] \<Rightarrow> Inl (ValueError ''UnicodeDecodeError'')
           | c # cs \<Rightarrow>
               if unat c < 128 \<or> unat c \<ge> 192 then Inl (ValueError ''UnicodeDecodeError'')
               else bindE (utf8_decode cs)
                      (\<lambda>s. Inr (char_of ((unat b - 192) * 64 + (unat c - 128)) # s)))"

lemma of_char_less [simp]: "(of_char c :: nat) < 256"
  using nat_of_char_less_256 by simp

lemma unat_byte: "n < 256 \<Longrightarrow> unat (of_nat n :: 8 word) = n"
  by (simp add: unat_of_nat)

lemma utf8_decode_char [simp]:
  "utf8_decode (encode_char c @ bs) = bindE (utf8_decode bs) (\<lambda>s. Inr (c # s))"
proof -
  have n: "(of_char c :: nat) < 256" by (rule of_char_less)
  show ?thesis
  proof (cases "(of_char c :: nat) < 128")
    case True
    then show ?thesis by (simp add: encode_char_def Let_def unat_byte)
  next
    case False
    let ?n = "of_char c :: nat"
    have "2 \<le> ?n div 64" "?n div 64 < 4" using n False by (simp_all add: less_mult_imp_div_less)
    then have d: "?n div 64 \<in> {2, 3}" by auto
    have "192 + ?n div 64 < 256" "128 + ?n mod 64 < 256" using d by auto
    then have "unat (of_nat (192 + ?n div 64) :: 8 word) = 192 + ?n div 64"
      and "unat (of_nat (128 + ?n mod 64) :: 8 word) = 128 + ?n mod 64"
      by (simp_all only: unat_byte)
    moreover have "?n div 64 * 64 + ?n mod 64 = ?n" by simp
    moreover have "192 + ?n div 64 < 196" "194 \<le> 192 + ?n div 64" using d by auto
    moreover have "\<not> 64 \<le> ?n mod 64" by (simp add: not_le)
    ultimately show ?thesis using False
      by (simp add: encode_char_def Let_def del: of_nat_add)
  qed
qed

lemma utf8_roundtrip [simp]: "utf8_decode (utf8_encode s) = Inr s"
  by (induction s) (simp_all add: utf8_encode_def)

lemma utf8_encode_inj [simp]: "utf8_encode s = utf8_encode t \<longleftrightarrow> s = t"
  by (metis utf8_roundtrip sum.inject(2))

lemma utf8_encode_append: "utf8_encode (s @ t) = utf8_encode s @ utf8_encode t"
  by (simp add: utf8_encode_def)

subsection \<open>The platform\<close>

text \<open>
  What the code uses of the interpreter and of packages outside the repository and the model
  cannot compute: \<open>float_repr\<close>/\<open>float_parse\<close> are \<^verbatim>\<open>float.__repr__\<close> and
  \<^verbatim>\<open>float(str)\<close>, \<open>math_log2\<close> is \<^verbatim>\<open>math.log2\<close>; \<open>bittensor_verify\<close>,
  \<open>substrate_verify\<close> and \<open>nacl_verify\<close> are the signature checks of \<^verbatim>\<open>bittensor_wallet\<close>,
  \<^verbatim>\<open>substrateinterface\<close> and \<^verbatim>\<open>nacl\<close> on payload, SS58 address and signature, \<open>None\<close> when
  the package is missing or raises.
\<close>

record platform =
  float_repr :: "pyfloat \<Rightarrow> string"
  float_parse :: "string \<Rightarrow> pyfloat option"
  math_log2 :: "int \<Rightarrow> pyfloat"
  bittensor_verify :: "bytes \<Rightarrow> string \<Rightarrow> bytes \<Rightarrow> bool option"
  substrate_verify :: "bytes \<Rightarrow> string \<Rightarrow> bytes \<Rightarrow> bool option"
  nacl_verify :: "bytes \<Rightarrow> string \<Rightarrow> bytes \<Rightarrow> unit option"

end
