(* ===== verification/Json.thy ===== *)
theory Json
  imports Prelude
begin

text \<open>
  JSON values and the two \<^verbatim>\<open>json\<close> functions the program uses: \<^verbatim>\<open>json.dumps\<close> with
  \<^verbatim>\<open>sort_keys=True, separators=(",", ":")\<close> (every writer of the repository passes these) and
  \<^verbatim>\<open>json.loads\<close>. A Python dict with string keys is an association list with distinct keys; a
  float is written by the platform's \<open>float_repr\<close>. The theory proves that loading what was dumped
  gives the value with its keys sorted (\<open>norm_json\<close>), so that the dumped text identifies the value up to
  key order, and that the parser's fuel is always enough. \<open>json_view\<close> is the interface through
  which the record decoders of \<^verbatim>\<open>Protocol\<close> read a value either as written or as reloaded.
\<close>

datatype json =
    JNull
  | JBool bool
  | JInt int
  | JFloat pyfloat
  | JStr string
  | JList "json list"
  | JObj "(string \<times> json) list"

type_synonym dict = "(string \<times> json) list"

subsection \<open>json.dumps\<close>

definition hex_digit :: "nat \<Rightarrow> char" where
  "hex_digit n = ''0123456789abcdef'' ! n"

definition esc_char :: "bool \<Rightarrow> char \<Rightarrow> string" where
  "esc_char ensure_ascii c =
     (let n = of_char c :: nat in
      if n = 34 then [CHR 0x5C, CHR 0x22]
      else if n = 92 then [CHR 0x5C, CHR 0x5C]
      else if n = 10 then [CHR 0x5C, CHR ''n'']
      else if n = 13 then [CHR 0x5C, CHR ''r'']
      else if n = 9 then [CHR 0x5C, CHR ''t'']
      else if n = 8 then [CHR 0x5C, CHR ''b'']
      else if n = 12 then [CHR 0x5C, CHR ''f'']
      else if 32 \<le> n \<and> (n < 127 \<or> \<not> ensure_ascii) then [c]
      else [CHR 0x5C, CHR ''u'', CHR ''0'', CHR ''0'', hex_digit (n div 16), hex_digit (n mod 16)])"

definition quote_str :: "bool \<Rightarrow> string \<Rightarrow> string" where
  "quote_str ea s = CHR 0x22 # concat (map (esc_char ea) s) @ [CHR 0x22]"

fun dumps :: "platform \<Rightarrow> bool \<Rightarrow> json \<Rightarrow> string" where
  "dumps P ea JNull = ''null''"
| "dumps P ea (JBool b) = (if b then ''true'' else ''false'')"
| "dumps P ea (JInt i) = show_int i"
| "dumps P ea (JFloat x) = float_repr P x"
| "dumps P ea (JStr s) = quote_str ea s"
| "dumps P ea (JList xs) = ''['' @ join_with '','' (map (dumps P ea) xs) @ '']''"
| "dumps P ea (JObj d) =
     ''{'' @ join_with '','' (map (\<lambda>(k, t). quote_str ea k @ '':'' @ t)
               (sort_key fst (map (\<lambda>(k, v). (k, dumps P ea v)) d))) @ ''}''"

subsection \<open>json.loads\<close>

definition json_error :: pyerr where
  "json_error = ValueError ''JSONDecodeError''"

definition out_of_fuel :: pyerr where
  "out_of_fuel = RuntimeError ''parser fuel''"

definition is_ws :: "char \<Rightarrow> bool" where
  "is_ws c = (c = CHR '' '' \<or> c = CHR 0x09 \<or> c = CHR 0x0A \<or> c = CHR 0x0D)"

definition skip_ws :: "string \<Rightarrow> string" where
  "skip_ws s = dropWhile is_ws s"

definition hd_is :: "char \<Rightarrow> string \<Rightarrow> bool" where
  "hd_is c s = (case s of [] \<Rightarrow> False | x # _ \<Rightarrow> x = c)"

definition hex_val :: "char \<Rightarrow> nat option" where
  "hex_val c =
     (let n = of_char c :: nat in
      if 48 \<le> n \<and> n \<le> 57 then Some (n - 48)
      else if 97 \<le> n \<and> n \<le> 102 then Some (n - 87)
      else if 65 \<le> n \<and> n \<le> 70 then Some (n - 55)
      else None)"

definition unescape :: "char \<Rightarrow> char option" where
  "unescape c =
     (if c = CHR 0x22 then Some c
      else if c = CHR 0x5C then Some c
      else if c = CHR ''/'' then Some c
      else if c = CHR ''b'' then Some (CHR 0x08)
      else if c = CHR ''f'' then Some (CHR 0x0C)
      else if c = CHR ''n'' then Some (CHR 0x0A)
      else if c = CHR ''r'' then Some (CHR 0x0D)
      else if c = CHR ''t'' then Some (CHR 0x09)
      else None)"

definition hex4 :: "char \<Rightarrow> char \<Rightarrow> char \<Rightarrow> char \<Rightarrow> char res" where
  "hex4 h1 h2 h3 h4 =
     (case (hex_val h1, hex_val h2, hex_val h3, hex_val h4) of
        (Some a, Some b, Some x, Some y) \<Rightarrow>
          if a = 0 \<and> b = 0 then Inr (char_of (16 * x + y)) else Inl Untyped
      | _ \<Rightarrow> Inl json_error)"

text \<open>The body of a string literal, after the opening quote.\<close>

fun scan_str :: "string \<Rightarrow> (string \<times> string) res" where
  "scan_str [] = Inl json_error"
| "scan_str (c # cs) =
     (if c = CHR 0x22 then Inr ([], cs)
      else if c = CHR 0x5C then
        (case cs of
           [] \<Rightarrow> Inl json_error
         | e # es \<Rightarrow>
             (case unescape e of
                Some x \<Rightarrow> bindE (scan_str es) (\<lambda>(t, r). Inr (x # t, r))
              | None \<Rightarrow>
                  if e = CHR ''u'' then
                    (case es of
                       h1 # h2 # h3 # h4 # es' \<Rightarrow>
                         bindE (hex4 h1 h2 h3 h4) (\<lambda>x.
                           bindE (scan_str es') (\<lambda>(t, r). Inr (x # t, r)))
                     | _ \<Rightarrow> Inl json_error)
                  else Inl json_error))
      else if (of_char c :: nat) < 32 then Inl json_error
      else bindE (scan_str cs) (\<lambda>(t, r). Inr (c # t, r)))"

text \<open>Numbers: \<^verbatim>\<open>(-?(?:0|[1-9]\d*))(\.\d+)?([eE][-+]?\d+)?\<close>.\<close>

definition scan_int :: "string \<Rightarrow> (string \<times> string) option" where
  "scan_int s =
     (case s of
        [] \<Rightarrow> None
      | c # cs \<Rightarrow>
          if c = CHR ''0'' then Some ([c], cs)
          else if is_digit c then Some (takeWhile is_digit s, dropWhile is_digit s)
          else None)"

definition scan_frac :: "string \<Rightarrow> string \<times> string" where
  "scan_frac s =
     (if hd_is (CHR ''.'') s \<and> tl s \<noteq> [] \<and> is_digit (hd (tl s))
      then (CHR ''.'' # takeWhile is_digit (tl s), dropWhile is_digit (tl s))
      else ([], s))"

definition scan_exp :: "string \<Rightarrow> string \<times> string" where
  "scan_exp s =
     (if hd_is (CHR ''e'') s \<or> hd_is (CHR ''E'') s
      then (let sg = (if hd_is (CHR ''+'') (tl s) \<or> hd_is (CHR ''-'') (tl s) then [hd (tl s)] else []);
                r = drop (length sg) (tl s)
            in if r \<noteq> [] \<and> is_digit (hd r)
               then (hd s # sg @ takeWhile is_digit r, dropWhile is_digit r)
               else ([], s))
      else ([], s))"

definition scan_number :: "string \<Rightarrow> (bool \<times> string \<times> string) option" where
  "scan_number s =
     (let sg = (if hd_is (CHR ''-'') s then ''-'' else []);
          s1 = drop (length sg) s
      in case scan_int s1 of
           None \<Rightarrow> None
         | Some (ip, s2) \<Rightarrow>
             (let (fr, s3) = scan_frac s2; (ex, s4) = scan_exp s3
              in Some (fr \<noteq> [] \<or> ex \<noteq> [], sg @ ip @ fr @ ex, s4)))"

definition read_int_token :: "string \<Rightarrow> int" where
  "read_int_token t =
     (if hd_is (CHR ''-'') t then - int (read_nat 0 (tl t)) else int (read_nat 0 t))"

definition parse_number :: "platform \<Rightarrow> string \<Rightarrow> (json \<times> string) res" where
  "parse_number P s =
     (case scan_number s of
        Some (False, t, r) \<Rightarrow> Inr (JInt (read_int_token t), r)
      | Some (True, t, r) \<Rightarrow>
          (case float_parse P t of Some x \<Rightarrow> Inr (JFloat x, r) | None \<Rightarrow> Inl Untyped)
      | None \<Rightarrow>
          if starts_with s ''NaN'' \<or> starts_with s ''Infinity'' \<or> starts_with s ''-Infinity''
          then Inl Untyped else Inl json_error)"

fun parse_value :: "platform \<Rightarrow> nat \<Rightarrow> string \<Rightarrow> (json \<times> string) res"
and parse_elems :: "platform \<Rightarrow> nat \<Rightarrow> json list \<Rightarrow> string \<Rightarrow> (json \<times> string) res"
and parse_members :: "platform \<Rightarrow> nat \<Rightarrow> dict \<Rightarrow> string \<Rightarrow> (json \<times> string) res" where
  "parse_value P 0 s = Inl out_of_fuel"
| "parse_value P (Suc n) s =
     (if hd_is (CHR 0x22) s then bindE (scan_str (tl s)) (\<lambda>(t, r). Inr (JStr t, r))
      else if hd_is (CHR 0x7B) s then
        (let r = skip_ws (tl s)
         in if hd_is (CHR 0x7D) r then Inr (JObj [], tl r) else parse_members P n [] r)
      else if hd_is (CHR 0x5B) s then
        (let r = skip_ws (tl s)
         in if hd_is (CHR 0x5D) r then Inr (JList [], tl r) else parse_elems P n [] r)
      else if starts_with s ''null'' then Inr (JNull, drop 4 s)
      else if starts_with s ''true'' then Inr (JBool True, drop 4 s)
      else if starts_with s ''false'' then Inr (JBool False, drop 5 s)
      else parse_number P s)"
| "parse_elems P 0 acc s = Inl out_of_fuel"
| "parse_elems P (Suc n) acc s =
     bindE (parse_value P n s) (\<lambda>(v, r).
       let r1 = skip_ws r
       in if hd_is (CHR '','') r1 then parse_elems P n (acc @ [v]) (skip_ws (tl r1))
          else if hd_is (CHR 0x5D) r1 then Inr (JList (acc @ [v]), tl r1)
          else Inl json_error)"
| "parse_members P 0 acc s = Inl out_of_fuel"
| "parse_members P (Suc n) acc s =
     (if hd_is (CHR 0x22) s then
        bindE (scan_str (tl s)) (\<lambda>(k, r).
          let r1 = skip_ws r
          in if hd_is (CHR '':'') r1 then
               bindE (parse_value P n (skip_ws (tl r1))) (\<lambda>(v, r2).
                 let r3 = skip_ws r2
                 in if hd_is (CHR '','') r3
                    then parse_members P n (AList.update k v acc) (skip_ws (tl r3))
                    else if hd_is (CHR 0x7D) r3 then Inr (JObj (AList.update k v acc), tl r3)
                    else Inl json_error)
             else Inl json_error)
      else Inl json_error)"

definition loads :: "platform \<Rightarrow> string \<Rightarrow> json res" where
  "loads P s =
     bindE (parse_value P (2 * length s + 2) (skip_ws s)) (\<lambda>(v, r).
       if skip_ws r = [] then Inr v else Inl json_error)"

subsection \<open>Canonical form and well-formedness\<close>

text \<open>Sorting the keys of every object: what a value looks like after a write and a read.\<close>

fun norm_json :: "json \<Rightarrow> json" where
  "norm_json (JList xs) = JList (map norm_json xs)"
| "norm_json (JObj d) = JObj (sort_key fst (map (\<lambda>(k, v). (k, norm_json v)) d))"
| "norm_json v = v"

definition norm_dict :: "dict \<Rightarrow> dict" where
  "norm_dict d = sort_key fst (map (\<lambda>(k, v). (k, norm_json v)) d)"

text \<open>A Python dict has distinct keys, at every depth.\<close>

fun wf_json :: "json \<Rightarrow> bool" where
  "wf_json (JList xs) = (\<forall>x \<in> set xs. wf_json x)"
| "wf_json (JObj d) = (distinct (map fst d) \<and> (\<forall>kv \<in> set d. wf_json (snd kv)))"
| "wf_json _ = True"

definition wf_dict :: "dict \<Rightarrow> bool" where
  "wf_dict d = (distinct (map fst d) \<and> (\<forall>kv \<in> set d. wf_json (snd kv)))"


subsection \<open>Strings\<close>

lemma char_eq_code: "c = d \<longleftrightarrow> of_char c = (of_char d :: nat)"
  by (metis char_of_char)

lemma less_16_cases: "(d::nat) < 16 \<Longrightarrow> d \<in> {0,1,2,3,4,5,6,7,8,9,10,11,12,13,14,15}"
  by (simp only: insert_iff empty_iff) presburger

lemma char_of_codes:
  "char_of (34::nat) = CHR 0x22" "char_of (92::nat) = CHR 0x5C" "char_of (10::nat) = CHR 0x0A"
  "char_of (13::nat) = CHR 0x0D" "char_of (9::nat) = CHR 0x09" "char_of (8::nat) = CHR 0x08"
  "char_of (12::nat) = CHR 0x0C"
  by (simp_all add: char_of_def bit_0)

lemma hex_val_digit [simp]: "k < 16 \<Longrightarrow> hex_val (hex_digit k) = Some k"
  by (drule less_16_cases) (auto simp: hex_val_def hex_digit_def)

lemma hex_val_0 [simp]: "hex_val (CHR ''0'') = Some 0"
  by (simp add: hex_val_def)

lemma unescape_u [simp]: "unescape (CHR ''u'') = None"
  by (simp add: unescape_def)

lemma scan_str_esc:
  "scan_str (esc_char ea c @ t) = bindE (scan_str t) (\<lambda>(u, r). Inr (c # u, r))"
proof -
  define n where "n = (of_char c :: nat)"
  have c: "c = char_of n" by (simp add: n_def)
  have n: "n < 256" by (simp add: n_def)
  have split: "16 * (n div 16) + n mod 16 = n" by simp
  have d: "n div 16 < 16" "n mod 16 < 16" using n by (simp_all add: less_mult_imp_div_less)
  consider "n \<in> {34, 92, 10, 13, 9, 8, 12}"
    | (plain) "n \<notin> {34, 92, 10, 13, 9, 8, 12}" "32 \<le> n \<and> (n < 127 \<or> \<not> ea)"
    | (hex) "n \<notin> {34, 92, 10, 13, 9, 8, 12}" "\<not> (32 \<le> n \<and> (n < 127 \<or> \<not> ea))"
    by blast
  then show ?thesis
  proof cases
    case 1
    then show ?thesis by (auto simp: c esc_char_def unescape_def char_of_codes)
  next
    case plain
    then have "esc_char ea c = [c]" by (simp add: esc_char_def n_def Let_def)
    moreover have "c \<noteq> CHR 0x22" "c \<noteq> CHR 0x5C" "\<not> (of_char c :: nat) < 32"
      using plain by (auto simp: n_def)
    ultimately show ?thesis by simp
  next
    case hex
    then have "esc_char ea c =
        [CHR 0x5C, CHR ''u'', CHR ''0'', CHR ''0'', hex_digit (n div 16), hex_digit (n mod 16)]"
      by (simp add: esc_char_def n_def Let_def)
    then show ?thesis using d split by (simp add: c hex4_def)
  qed
qed

lemma scan_str_quote:
  "scan_str (concat (map (esc_char ea) s) @ CHR 0x22 # r) = Inr (s, r)"
  by (induction s) (simp_all add: scan_str_esc)

lemma scan_str_shorter: "scan_str s = Inr (t, r) \<Longrightarrow> length r < length s"
proof (induction s arbitrary: t r rule: scan_str.induct)
  case 1
  then show ?case by simp
next
  case (2 c cs)
  then show ?case
    by (fastforce simp: bindE_eq_Inr split: if_splits list.splits option.splits)
qed


subsection \<open>Numbers\<close>

text \<open>
  The shape of a number token. \<open>float_codec\<close> is what the code relies on of
  \<^verbatim>\<open>float.__repr__\<close>: the text of a finite float is a JSON number with a fraction or an
  exponent, and reading it back gives the same float.
\<close>

definition all_digits :: "string \<Rightarrow> bool" where
  "all_digits ds = (ds \<noteq> [] \<and> (\<forall>c \<in> set ds. is_digit c))"

definition int_part :: "string \<Rightarrow> bool" where
  "int_part ip = (ip = ''0'' \<or> (all_digits ip \<and> hd ip \<noteq> CHR ''0''))"

definition frac_part :: "string \<Rightarrow> bool" where
  "frac_part fr = (fr = [] \<or> (hd fr = CHR ''.'' \<and> all_digits (tl fr)))"

definition exp_part :: "string \<Rightarrow> bool" where
  "exp_part ex = (ex = [] \<or> ((hd ex = CHR ''e'' \<or> hd ex = CHR ''E'') \<and>
     (all_digits (tl ex) \<or>
      (tl ex \<noteq> [] \<and> (hd (tl ex) = CHR ''+'' \<or> hd (tl ex) = CHR ''-'') \<and> all_digits (tl (tl ex))))))"

definition float_token :: "string \<Rightarrow> bool" where
  "float_token t = (\<exists>sg ip fr ex. t = sg @ ip @ fr @ ex \<and> (sg = [] \<or> sg = ''-'') \<and>
     int_part ip \<and> frac_part fr \<and> exp_part ex \<and> (fr \<noteq> [] \<or> ex \<noteq> []))"

definition float_codec :: "platform \<Rightarrow> bool" where
  "float_codec P =
     (\<forall>x. float_token (float_repr P x) \<and> float_parse P (float_repr P x) = Some x)"

definition number_stop :: "string \<Rightarrow> bool" where
  "number_stop r =
     (r = [] \<or> (\<not> is_digit (hd r) \<and> hd r \<noteq> CHR ''.'' \<and> hd r \<noteq> CHR ''e'' \<and> hd r \<noteq> CHR ''E''))"

lemma digits_span:
  assumes "\<forall>c \<in> set ds. is_digit c" "r = [] \<or> \<not> is_digit (hd r)"
  shows "takeWhile is_digit (ds @ r) = ds" "dropWhile is_digit (ds @ r) = r"
  using assms by (cases r; simp)+

lemma non_digits [simp]:
  "\<not> is_digit (CHR ''.'')" "\<not> is_digit (CHR ''e'')" "\<not> is_digit (CHR ''E'')"
  "\<not> is_digit (CHR ''+'')" "\<not> is_digit (CHR 0x22)" "\<not> is_digit (CHR 0x7B)"
  "\<not> is_digit (CHR 0x7D)" "\<not> is_digit (CHR 0x5B)" "\<not> is_digit (CHR 0x5D)"
  "\<not> is_digit (CHR ''n'')" "\<not> is_digit (CHR ''t'')" "\<not> is_digit (CHR ''f'')"
  "\<not> is_digit (CHR '' '')" "\<not> is_digit (CHR 0x09)" "\<not> is_digit (CHR 0x0A)"
  "\<not> is_digit (CHR 0x0D)" "\<not> is_digit (CHR '','')" "\<not> is_digit (CHR '':'')"
  by (simp_all add: is_digit_def)

lemma zero_digit [simp]: "is_digit (CHR ''0'')"
  by (simp add: is_digit_def)

lemma hd_is_simps [simp]: "hd_is c [] = False" "hd_is c (x # xs) = (x = c)"
  by (simp_all add: hd_is_def)

lemma hd_is_append: "s \<noteq> [] \<Longrightarrow> hd_is c (s @ r) = hd_is c s"
  by (cases s) simp_all

lemma scan_int_part:
  assumes "int_part ip" "r = [] \<or> \<not> is_digit (hd r)"
  shows "scan_int (ip @ r) = Some (ip, r)"
proof (cases "ip = ''0''")
  case True
  then show ?thesis by (simp add: scan_int_def)
next
  case False
  with assms(1) have ip: "ip \<noteq> []" "\<forall>c \<in> set ip. is_digit c" "hd ip \<noteq> CHR ''0''"
    by (auto simp: int_part_def all_digits_def)
  then obtain c cs where "ip = c # cs" by (cases ip) auto
  with ip digits_span [OF ip(2) assms(2)] show ?thesis
    by (simp add: scan_int_def)
qed

lemma scan_frac_part:
  assumes "frac_part fr" "r = [] \<or> (\<not> is_digit (hd r) \<and> hd r \<noteq> CHR ''.'')"
  shows "scan_frac (fr @ r) = (fr, r)"
proof (cases fr)
  case Nil
  with assms(2) show ?thesis by (cases r) (auto simp: scan_frac_def)
next
  case (Cons c ds)
  with assms(1) have ds: "c = CHR ''.''" "ds \<noteq> []" "\<forall>c \<in> set ds. is_digit c"
    by (auto simp: frac_part_def all_digits_def)
  moreover have "r = [] \<or> \<not> is_digit (hd r)" using assms(2) by auto
  ultimately show ?thesis
    using digits_span [OF ds(3)] Cons by (simp add: scan_frac_def)
qed

lemma scan_exp_part:
  assumes "exp_part ex" "r = [] \<or> (\<not> is_digit (hd r) \<and> hd r \<noteq> CHR ''e'' \<and> hd r \<noteq> CHR ''E'')"
  shows "scan_exp (ex @ r) = (ex, r)"
proof (cases ex)
  case Nil
  with assms(2) show ?thesis by (cases r) (auto simp: scan_exp_def)
next
  case (Cons e us)
  have r: "r = [] \<or> \<not> is_digit (hd r)" using assms(2) by auto
  from assms(1) Cons have e: "e = CHR ''e'' \<or> e = CHR ''E''" by (auto simp: exp_part_def)
  from assms(1) Cons consider (plain) "all_digits us"
    | (signed) s ds where "us = s # ds" "s = CHR ''+'' \<or> s = CHR ''-''" "all_digits ds"
    by (auto simp: exp_part_def) (metis list.exhaust_sel)+
  then show ?thesis
  proof cases
    case plain
    then obtain d ds where us: "us = d # ds" "is_digit d" "\<forall>c \<in> set us. is_digit c"
      by (cases us) (auto simp: all_digits_def)
    then have "d \<noteq> CHR ''+''" "d \<noteq> CHR ''-''" by auto
    with us e Cons digits_span [OF us(3) r] show ?thesis by (auto simp: scan_exp_def)
  next
    case signed
    then have ds: "ds \<noteq> []" "\<forall>c \<in> set ds. is_digit c" by (auto simp: all_digits_def)
    with signed e Cons digits_span [OF ds(2) r] show ?thesis by (auto simp: scan_exp_def)
  qed
qed

lemma scan_number_parts:
  assumes "sg = [] \<or> sg = ''-''" "int_part ip" "frac_part fr" "exp_part ex" "number_stop r"
  shows "scan_number (sg @ ip @ fr @ ex @ r) = Some (fr \<noteq> [] \<or> ex \<noteq> [], sg @ ip @ fr @ ex, r)"
proof -
  have ip: "ip \<noteq> []" "\<not> hd_is (CHR ''-'') ip"
    using assms(2) by (auto simp: int_part_def all_digits_def hd_is_def split: list.splits)
  have a: "ex @ r = [] \<or> (\<not> is_digit (hd (ex @ r)) \<and> hd (ex @ r) \<noteq> CHR ''.'')"
    using assms(4,5) by (cases ex) (auto simp: exp_part_def number_stop_def)
  have b: "fr @ ex @ r = [] \<or> \<not> is_digit (hd (fr @ ex @ r))"
    using assms(3) a by (cases fr) (auto simp: frac_part_def)
  have c: "r = [] \<or> (\<not> is_digit (hd r) \<and> hd r \<noteq> CHR ''e'' \<and> hd r \<noteq> CHR ''E'')"
    using assms(5) by (auto simp: number_stop_def)
  note parts = scan_int_part [OF assms(2) b] scan_frac_part [OF assms(3) a] scan_exp_part [OF assms(4) c]
  from assms(1) show ?thesis
    using parts ip by (auto simp: scan_number_def hd_is_append)
qed

lemma int_part_show: "int_part (show_nat n)"
proof (cases "n = 0")
  case True
  then show ?thesis by (simp add: int_part_def show_nat.simps [of 0] digit_char_def)
next
  case False
  then show ?thesis
    by (auto simp: int_part_def all_digits_def show_nat_lead dest: show_nat_digits)
qed

lemma show_nat_not_hd_minus [simp]: "\<not> hd_is (CHR ''-'') (show_nat n)"
  using show_nat_not_minus by (auto simp: hd_is_def split: list.splits)

lemma read_int_token_show [simp]: "read_int_token (show_int i) = i"
  by (auto simp: read_int_token_def show_int_def)

lemma parse_number_int: "number_stop r \<Longrightarrow> parse_number P (show_int i @ r) = Inr (JInt i, r)"
proof -
  assume r: "number_stop r"
  define sg where "sg = (if i < 0 then ''-'' else [])"
  define ip where "ip = show_nat (nat \<bar>i\<bar>)"
  have e: "show_int i = sg @ ip @ [] @ []" by (simp add: sg_def ip_def show_int_def)
  have "scan_number (show_int i @ r) = Some (False, show_int i, r)"
    using scan_number_parts [of sg ip "[]" "[]" r] r
    by (simp add: e int_part_show ip_def sg_def frac_part_def exp_part_def)
  then show ?thesis by (simp add: parse_number_def)
qed

lemma parse_number_float:
  assumes "float_codec P" "number_stop r"
  shows "parse_number P (float_repr P x @ r) = Inr (JFloat x, r)"
proof -
  from assms(1) have "float_token (float_repr P x)" and p: "float_parse P (float_repr P x) = Some x"
    by (auto simp: float_codec_def)
  then obtain sg ip fr ex where t: "float_repr P x = sg @ ip @ fr @ ex" "sg = [] \<or> sg = ''-''"
    "int_part ip" "frac_part fr" "exp_part ex" "fr \<noteq> [] \<or> ex \<noteq> []"
    by (auto simp: float_token_def)
  with scan_number_parts [OF t(2-5) assms(2)]
  have "scan_number (float_repr P x @ r) = Some (True, float_repr P x, r)" by simp
  then show ?thesis by (simp add: parse_number_def p)
qed

lemma length_drop_digits: "length (dropWhile is_digit s) \<le> length s"
  by (rule length_dropWhile_le)

lemma scan_int_shorter: "scan_int s = Some (ip, r) \<Longrightarrow> length r < length s"
  using length_drop_digits [of "tl s"]
  by (auto simp: scan_int_def split: list.splits if_splits)

lemma scan_frac_le: "length (snd (scan_frac s)) \<le> length s"
  using length_drop_digits [of "tl s"] by (auto simp: scan_frac_def)

lemma scan_exp_le: "length (snd (scan_exp s)) \<le> length s"
  using length_drop_digits [of "tl s"] length_drop_digits [of "tl (tl s)"]
  by (auto simp: scan_exp_def Let_def drop_Suc)

lemma scan_number_shorter:
  assumes "scan_number s = Some (b, t, r)"
  shows "length r < length s"
proof -
  define s1 where "s1 = (if hd_is (CHR ''-'') s then tl s else s)"
  have "drop (length (if hd_is (CHR ''-'') s then ''-'' else [])) s = s1"
    by (simp add: s1_def drop_Suc)
  with assms obtain ip s2 where h: "scan_int s1 = Some (ip, s2)"
    "r = snd (scan_exp (snd (scan_frac s2)))"
    by (auto simp: scan_number_def Let_def split: option.splits prod.splits)
  have "length s1 \<le> length s" by (simp add: s1_def)
  with scan_int_shorter [OF h(1)] scan_frac_le [of s2] scan_exp_le [of "snd (scan_frac s2)"] h(2)
  show ?thesis by simp
qed


subsection \<open>Sorting of keys\<close>

lemma insort_key_map_snd:
  "insort_key fst (k, h v) (map (\<lambda>(k, v). (k, h v)) d) = map (\<lambda>(k, v). (k, h v)) (insort_key fst (k, v) d)"
  by (induction d) auto

lemma sort_key_map_snd:
  "sort_key fst (map (\<lambda>(k, v). (k, h v)) d) = map (\<lambda>(k, v). (k, h v)) (sort_key fst d)"
  by (induction d) (auto simp: insort_key_map_snd)

lemmas sort_key_map_unfold = sort_key_map_snd [unfolded case_prod_unfold]

lemma dumps_JObj:
  "dumps P ea (JObj d) =
     ''{'' @ join_with '','' (map (\<lambda>(k, v). quote_str ea k @ '':'' @ dumps P ea v) (sort_key fst d)) @ ''}''"
  by (simp add: sort_key_map_unfold case_prod_unfold comp_def)

lemma norm_json_JObj: "norm_json (JObj d) = JObj (map (\<lambda>(k, v). (k, norm_json v)) (sort_key fst d))"
  by (simp add: sort_key_map_snd)

lemma norm_JObj_dict: "norm_json (JObj d) = JObj (norm_dict d)"
  by (simp add: norm_dict_def)

lemma map_of_filter_hd:
  "map_of d k = (case filter (\<lambda>y. fst y = k) d of [] \<Rightarrow> None | x # _ \<Rightarrow> Some (snd x))"
  by (induction d) auto

lemma map_of_sort_key [simp]: "map_of (sort_key fst d) k = map_of d k"
  by (simp add: map_of_filter_hd [of _ k] sort_key_stable)

lemma map_of_map_snd [simp]: "map_of (map (\<lambda>(k, v). (k, h v)) d) k = map_option h (map_of d k)"
  by (induction d) auto

lemma map_of_norm_dict [dict_simps]: "map_of (norm_dict d) k = map_option norm_json (map_of d k)"
  by (simp add: norm_dict_def)

lemma map_fst_map_snd [simp]: "map fst (map (\<lambda>(k, v). (k, h v)) d) = map fst d"
  by (induction d) auto

lemma sorted_items: "sorted (map fst d) \<Longrightarrow> sort_key fst d = d"
  by (simp add: sort_key_id_if_sorted)

lemma sort_key_idem [simp]: "sort_key fst (sort_key fst d) = sort_key fst d"
  by (rule sorted_items) simp

lemma map_snd_cong:
  "(\<And>kv. kv \<in> set d \<Longrightarrow> h (snd kv) = g (snd kv)) \<Longrightarrow>
     map (\<lambda>(k, v). (k, h v)) d = map (\<lambda>(k, v). (k, g v)) d"
  by (rule map_cong) auto

lemma map_snd_comp: "map (\<lambda>(k, v). (k, h v)) (map (\<lambda>(k, v). (k, g v)) d) = map (\<lambda>(k, v). (k, h (g v))) d"
  by (simp add: case_prod_unfold)

lemma norm_json_idem [simp]: "norm_json (norm_json v) = norm_json v"
proof (induction v)
  case (JObj d)
  have "norm_json (norm_json (JObj d)) =
      JObj (map (\<lambda>(k, v). (k, norm_json (norm_json v))) (sort_key fst d))"
    by (simp only: norm_json_JObj sort_key_map_snd sort_key_idem map_snd_comp)
  also have "\<dots> = norm_json (JObj d)"
    using JObj by (simp only: norm_json_JObj json.inject) (rule map_snd_cong, auto simp: prod_set_simps)
  finally show ?case .
qed simp_all

lemma dumps_norm [simp]: "dumps P ea (norm_json v) = dumps P ea v"
proof (induction v)
  case (JList xs)
  then show ?case by (simp add: comp_def cong: map_cong)
next
  case (JObj d)
  have "map (\<lambda>(k, v). (k, dumps P ea (norm_json v))) d = map (\<lambda>(k, v). (k, dumps P ea v)) d"
    using JObj by (intro map_snd_cong) auto
  then show ?case
    by (simp only: norm_json.simps dumps.simps sort_key_map_snd sort_key_idem map_snd_comp)
       (simp only: sort_key_map_snd [symmetric])
qed simp_all

subsection \<open>Loading what was dumped\<close>

lemma starts_with_hd: "starts_with s p \<Longrightarrow> p \<noteq> [] \<Longrightarrow> s \<noteq> [] \<and> hd s = hd p"
  by (auto simp: starts_with_iff)

lemma skip_ws_noop: "s \<noteq> [] \<Longrightarrow> \<not> is_ws (hd s) \<Longrightarrow> skip_ws s = s"
  by (cases s) (auto simp: skip_ws_def)

lemma number_first:
  assumes "int_part ip" "sg = [] \<or> sg = ''-''" "s = sg @ ip @ r"
  shows "s \<noteq> [] \<and> (is_digit (hd s) \<or> hd s = CHR ''-'')"
  using assms by (auto simp: int_part_def all_digits_def)

lemma show_int_first: "is_digit (hd (show_int i)) \<or> hd (show_int i) = CHR ''-''"
  by (metis hd_in_set show_int_chars show_int_ne)

lemma float_first:
  assumes "float_codec P"
  shows "float_repr P x \<noteq> [] \<and> (is_digit (hd (float_repr P x)) \<or> hd (float_repr P x) = CHR ''-'')"
proof -
  from assms have "float_token (float_repr P x)" by (simp add: float_codec_def)
  then obtain sg ip fr ex where "int_part ip" "sg = [] \<or> sg = ''-''" "float_repr P x = sg @ ip @ (fr @ ex)"
    by (auto simp: float_token_def)
  then show ?thesis by (rule number_first)
qed

lemma quote_first [simp]: "quote_str ea s \<noteq> []" "hd (quote_str ea s) = CHR 0x22"
  by (simp_all add: quote_str_def)

lemma dumps_first:
  assumes "float_codec P"
  shows "dumps P ea v \<noteq> [] \<and> \<not> is_ws (hd (dumps P ea v)) \<and> hd (dumps P ea v) \<noteq> CHR 0x5D"
proof (cases v)
  case (JInt i)
  then show ?thesis using show_int_first [of i] by (auto simp: is_ws_def)
next
  case (JFloat x)
  then show ?thesis using float_first [OF assms, of x] by (auto simp: is_ws_def)
qed (auto simp: is_ws_def)

lemma skip_ws_dumps: "float_codec P \<Longrightarrow> skip_ws (dumps P ea v @ r) = dumps P ea v @ r"
  using dumps_first [of P ea v] by (intro skip_ws_noop) auto

lemma parse_value_number:
  assumes "s \<noteq> []" "is_digit (hd s) \<or> hd s = CHR ''-''"
  shows "parse_value P (Suc n) s = parse_number P s"
proof -
  have "\<not> hd_is c s" if "\<not> is_digit c" "c \<noteq> CHR ''-''" for c
    using assms that by (cases s) auto
  moreover have "\<not> starts_with s (c # cs)" if "\<not> is_digit c" "c \<noteq> CHR ''-''" for c cs
    using assms that starts_with_hd [of s "c # cs"] by auto
  ultimately show ?thesis by simp
qed

lemma parse_value_str: "parse_value P (Suc n) (quote_str ea s @ r) = Inr (JStr s, r)"
  by (simp add: quote_str_def scan_str_quote)

definition parses :: "platform \<Rightarrow> bool \<Rightarrow> json \<Rightarrow> bool" where
  "parses P ea v =
     (\<forall>n r. 2 * length (dumps P ea v) \<le> n \<longrightarrow> number_stop r \<longrightarrow>
        parse_value P n (dumps P ea v @ r) = Inr (norm_json v, r))"

lemma parsesD:
  "parses P ea v \<Longrightarrow> 2 * length (dumps P ea v) \<le> n \<Longrightarrow> number_stop r \<Longrightarrow>
     parse_value P n (dumps P ea v @ r) = Inr (norm_json v, r)"
  by (simp add: parses_def)

lemma number_stop_simps [simp]:
  "number_stop []" "number_stop (CHR '','' # r)" "number_stop (CHR 0x5D # r)" "number_stop (CHR 0x7D # r)"
  by (simp_all add: number_stop_def)

lemma skip_ws_punct [simp]:
  "skip_ws (CHR '','' # r) = CHR '','' # r" "skip_ws (CHR 0x5D # r) = CHR 0x5D # r"
  "skip_ws (CHR 0x7D # r) = CHR 0x7D # r" "skip_ws (CHR '':'' # r) = CHR '':'' # r"
  "skip_ws (quote_str ea k @ r) = quote_str ea k @ r"
  by (simp_all add: skip_ws_def is_ws_def quote_str_def)

lemma parse_elems_dumps:
  assumes "float_codec P" "xs \<noteq> []" "\<And>x. x \<in> set xs \<Longrightarrow> parses P ea x"
    and "sum_list (map (\<lambda>x. 1 + 2 * length (dumps P ea x)) xs) \<le> n"
  shows "parse_elems P n acc (join_with '','' (map (dumps P ea) xs) @ CHR 0x5D # r)
       = Inr (JList (acc @ map norm_json xs), r)"
  using assms(2-4)
proof (induction xs arbitrary: n acc)
  case Nil
  then show ?case by simp
next
  case (Cons x xs)
  then obtain m where n: "n = Suc m" "2 * length (dumps P ea x) \<le> m"
    "sum_list (map (\<lambda>x. 1 + 2 * length (dumps P ea x)) xs) \<le> m"
    by (cases n) auto
  have x: "parses P ea x" using Cons.prems(2) by simp
  show ?case
  proof (cases xs)
    case Nil
    then show ?thesis using parsesD [OF x n(2)] n(1) by simp
  next
    case (Cons y ys)
    define t where "t = join_with '','' (map (dumps P ea) xs) @ CHR 0x5D # r"
    have t: "skip_ws t = t"
      using skip_ws_dumps [OF assms(1), of ea y] Cons by (cases ys) (simp_all add: t_def)
    have "parse_elems P m (acc @ [norm_json x]) t
        = Inr (JList ((acc @ [norm_json x]) @ map norm_json xs), r)"
      unfolding t_def using Cons Cons.prems n(3) by (intro Cons.IH) auto
    moreover have "join_with '','' (map (dumps P ea) (x # xs)) @ CHR 0x5D # r
        = dumps P ea x @ CHR '','' # t"
      using Cons by (simp add: t_def)
    ultimately show ?thesis using parsesD [OF x n(2)] n(1) t by simp
  qed
qed


definition member_text :: "platform \<Rightarrow> bool \<Rightarrow> string \<times> json \<Rightarrow> string" where
  "member_text P ea kv = quote_str ea (fst kv) @ '':'' @ dumps P ea (snd kv)"

lemma scan_str_key: "quote_str ea k @ r = CHR 0x22 # u \<Longrightarrow> scan_str u = Inr (k, r)"
  using scan_str_quote [of ea k r] by (simp add: quote_str_def)

lemma parse_members_step:
  assumes "float_codec P" "parses P ea v" "2 * length (dumps P ea v) \<le> m" "number_stop t" "skip_ws t = t"
  shows "parse_members P (Suc m) acc (member_text P ea (k, v) @ t) =
     (if hd_is (CHR '','') t then parse_members P m (AList.update k (norm_json v) acc) (skip_ws (tl t))
      else if hd_is (CHR 0x7D) t then Inr (JObj (AList.update k (norm_json v) acc), tl t)
      else Inl json_error)"
proof -
  have "scan_str (tl (member_text P ea (k, v) @ t)) = Inr (k, CHR '':'' # dumps P ea v @ t)"
    by (rule scan_str_key [of ea]) (simp add: member_text_def quote_str_def)
  moreover have "hd_is (CHR 0x22) (member_text P ea (k, v) @ t)"
    by (simp add: member_text_def quote_str_def)
  ultimately show ?thesis
    using parsesD [OF assms(2,3,4)] skip_ws_dumps [OF assms(1), of ea v t] assms(5) by simp
qed

lemma parse_members_dumps:
  assumes "float_codec P" "kvs \<noteq> []" "\<And>kv. kv \<in> set kvs \<Longrightarrow> parses P ea (snd kv)"
    and "distinct (map fst acc @ map fst kvs)"
    and "sum_list (map (\<lambda>kv. 1 + 2 * length (member_text P ea kv)) kvs) \<le> n"
  shows "parse_members P n acc (join_with '','' (map (member_text P ea) kvs) @ CHR 0x7D # r)
       = Inr (JObj (acc @ map (\<lambda>(k, v). (k, norm_json v)) kvs), r)"
  using assms(2-5)
proof (induction kvs arbitrary: n acc)
  case Nil
  then show ?case by simp
next
  case (Cons kv kvs)
  obtain k v where kv: "kv = (k, v)" by (cases kv)
  from Cons.prems(4) obtain m where n: "n = Suc m" "2 * length (dumps P ea v) \<le> m"
    "sum_list (map (\<lambda>kv. 1 + 2 * length (member_text P ea kv)) kvs) \<le> m"
    by (cases n) (auto simp: kv member_text_def)
  have v: "parses P ea v" using Cons.prems(2) [of kv] by (simp add: kv)
  have fresh: "AList.update k (norm_json v) acc = acc @ [(k, norm_json v)]"
    using Cons.prems(3) by (intro update_fresh) (auto simp: kv)
  note step = parse_members_step [OF assms(1) v n(2), of _ acc k]
  show ?case
  proof (cases kvs)
    case Nil
    then show ?thesis using step [of "CHR 0x7D # r"] n(1) fresh kv by simp
  next
    case (Cons kv' kvs')
    define t where "t = join_with '','' (map (member_text P ea) kvs) @ CHR 0x7D # r"
    have t: "skip_ws t = t"
      using Cons by (cases kvs') (simp_all add: t_def member_text_def)
    have "parse_members P m (acc @ [(k, norm_json v)]) t
        = Inr (JObj ((acc @ [(k, norm_json v)]) @ map (\<lambda>(k, v). (k, norm_json v)) kvs), r)"
      unfolding t_def using Cons Cons.prems n(3) kv by (intro Cons.IH) auto
    moreover have "join_with '','' (map (member_text P ea) (kv # kvs)) @ CHR 0x7D # r
        = member_text P ea (k, v) @ CHR '','' # t"
      using Cons by (simp add: t_def kv)
    ultimately show ?thesis using step [of "CHR '','' # t"] n(1) t fresh kv by simp
  qed
qed

lemma length_join:
  "xs \<noteq> [] \<Longrightarrow> Suc (length (join_with '','' xs)) = sum_list (map (\<lambda>x. Suc (length x)) xs)"
  by (induction xs rule: induct_list012) auto

lemma sum_list_double: "sum_list (map (\<lambda>x. 1 + 2 * f x) xs) \<le> 2 * sum_list (map (\<lambda>x. Suc (f x)) (xs :: 'a list))"
  by (induction xs) auto

lemma parse_list_dumps:
  assumes "float_codec P" "\<And>x. x \<in> set xs \<Longrightarrow> parses P ea x"
  shows "parses P ea (JList xs)"
  unfolding parses_def
proof (intro allI impI)
  fix n r assume n: "2 * length (dumps P ea (JList xs)) \<le> n" and "number_stop r"
  then obtain m where m: "n = Suc m" by (cases n) auto
  show "parse_value P n (dumps P ea (JList xs) @ r) = Inr (norm_json (JList xs), r)"
  proof (cases "xs = []")
    case True
    then show ?thesis using m by (simp add: skip_ws_def is_ws_def starts_with_def)
  next
    case False
    let ?j = "join_with '','' (map (dumps P ea) xs)"
    have "Suc (length ?j) = sum_list (map (\<lambda>x. Suc (length (dumps P ea x))) xs)"
      using length_join [of "map (dumps P ea) xs"] False by (simp add: comp_def)
    then have "sum_list (map (\<lambda>x. 1 + 2 * length (dumps P ea x)) xs) \<le> m"
      using sum_list_double [of "\<lambda>x. length (dumps P ea x)" xs] n m by simp
    then have e: "parse_elems P m [] (?j @ CHR 0x5D # r) = Inr (JList (map norm_json xs), r)"
      using parse_elems_dumps [OF assms(1) False assms(2), of m "[]" r] by simp
    obtain x ys where xs: "xs = x # ys" using False by (cases xs) auto
    have hd: "?j \<noteq> [] \<and> \<not> is_ws (hd ?j) \<and> hd ?j \<noteq> CHR 0x5D"
      using dumps_first [OF assms(1), of ea x] xs by (cases ys) auto
    then have "skip_ws (?j @ CHR 0x5D # r) = ?j @ CHR 0x5D # r"
      by (intro skip_ws_noop) auto
    moreover have "\<not> hd_is (CHR 0x5D) (?j @ CHR 0x5D # r)" using hd by (cases ?j) auto
    ultimately show ?thesis using m e by simp
  qed
qed

lemma parse_obj_dumps:
  assumes "float_codec P" "distinct (map fst d)" "\<And>kv. kv \<in> set d \<Longrightarrow> parses P ea (snd kv)"
  shows "parses P ea (JObj d)"
  unfolding parses_def
proof (intro allI impI)
  define kvs where "kvs = sort_key fst d"
  have dtext: "dumps P ea (JObj d) = CHR 0x7B # join_with '','' (map (member_text P ea) kvs) @ [CHR 0x7D]"
    by (simp add: dumps_JObj kvs_def member_text_def [abs_def] case_prod_unfold del: dumps.simps)
  fix n r assume n: "2 * length (dumps P ea (JObj d)) \<le> n" and "number_stop r"
  then obtain m where m: "n = Suc m" by (cases n) (auto simp: dtext)
  show "parse_value P n (dumps P ea (JObj d) @ r) = Inr (norm_json (JObj d), r)"
  proof (cases "kvs = []")
    case True
    then have "d = []" by (simp add: kvs_def flip: set_empty)
    then show ?thesis using m by (simp add: skip_ws_def is_ws_def)
  next
    case False
    let ?j = "join_with '','' (map (member_text P ea) kvs)"
    have "Suc (length ?j) = sum_list (map (\<lambda>kv. Suc (length (member_text P ea kv))) kvs)"
      using length_join [of "map (member_text P ea) kvs"] False by (simp add: comp_def)
    then have len: "sum_list (map (\<lambda>kv. 1 + 2 * length (member_text P ea kv)) kvs) \<le> m"
      using sum_list_double [of "\<lambda>kv. length (member_text P ea kv)" kvs] n m
      by (simp add: dtext del: dumps.simps)
    have dist: "distinct (map fst kvs)"
      using assms(2) by (simp add: kvs_def distinct_map)
    have e: "parse_members P m [] (?j @ CHR 0x7D # r)
        = Inr (JObj (map (\<lambda>(k, v). (k, norm_json v)) kvs), r)"
      using parse_members_dumps [OF assms(1) False, of ea "[]" m r] assms(3) dist len
      by (simp add: kvs_def)
    obtain kv ys where kvs: "kvs = kv # ys" using False by (cases kvs) auto
    have hd: "?j \<noteq> [] \<and> hd ?j = CHR 0x22" using kvs by (cases ys) (auto simp: member_text_def)
    then have "skip_ws (?j @ CHR 0x7D # r) = ?j @ CHR 0x7D # r"
      by (intro skip_ws_noop) (auto simp: is_ws_def)
    moreover have "\<not> hd_is (CHR 0x7D) (?j @ CHR 0x7D # r)" using hd by (cases ?j) auto
    ultimately show ?thesis
      using m e by (simp add: dtext norm_json_JObj kvs_def del: dumps.simps norm_json.simps)
  qed
qed

lemma parses_atom:
  assumes "\<And>n r. number_stop r \<Longrightarrow> parse_value P (Suc n) (dumps P ea v @ r) = Inr (norm_json v, r)"
    and "dumps P ea v \<noteq> []"
  shows "parses P ea v"
  unfolding parses_def
proof (intro allI impI)
  fix n r assume "2 * length (dumps P ea v) \<le> n" "number_stop r"
  moreover have "0 < length (dumps P ea v)" using assms(2) by simp
  ultimately show "parse_value P n (dumps P ea v @ r) = Inr (norm_json v, r)"
    using assms(1) by (cases n) auto
qed

lemma parse_value_lit:
  "parse_value P (Suc n) (''null'' @ r) = Inr (JNull, r)"
  "parse_value P (Suc n) (''true'' @ r) = Inr (JBool True, r)"
  "parse_value P (Suc n) (''false'' @ r) = Inr (JBool False, r)"
  by (simp_all add: starts_with_def)

lemma wf_parses:
  assumes "float_codec P"
  shows "wf_json v \<Longrightarrow> parses P ea v"
proof (induction v)
  case (JInt i)
  show ?case
    using show_int_first [of i]
    by (intro parses_atom) (auto simp: parse_number_int parse_value_number simp del: parse_value.simps)
next
  case (JFloat x)
  show ?case
    using float_first [OF assms, of x] parse_number_float [OF assms]
    by (intro parses_atom) (auto simp: parse_value_number simp del: parse_value.simps)
next
  case (JList xs)
  then show ?case by (intro parse_list_dumps [OF assms]) auto
next
  case (JObj d)
  then show ?case by (intro parse_obj_dumps [OF assms]) auto
next
  case JNull
  show ?case using parse_value_lit by (intro parses_atom) auto
next
  case (JBool b)
  show ?case using parse_value_lit by (intro parses_atom) (auto simp del: parse_value.simps)
next
  case (JStr s)
  show ?case by (intro parses_atom) (auto simp: parse_value_str simp del: parse_value.simps)
qed

theorem loads_dumps:
  assumes "float_codec P" "wf_json v"
  shows "loads P (dumps P ea v) = Inr (norm_json v)"
proof -
  have "skip_ws (dumps P ea v) = dumps P ea v"
    using skip_ws_dumps [OF assms(1), of ea v "[]"] by simp
  then show ?thesis
    using parsesD [OF wf_parses [OF assms(1,2), of ea], of "2 * length (dumps P ea v) + 2" "[]"]
    by (simp add: loads_def skip_ws_def del: parse_value.simps)
qed

corollary dumps_inj:
  assumes "float_codec P" "wf_json v" "wf_json w"
  shows "dumps P ea v = dumps P ea w \<longleftrightarrow> norm_json v = norm_json w"
  by (metis assms dumps_norm loads_dumps sum.inject(2))


subsection \<open>The parser's fuel is enough\<close>

lemma skip_ws_le: "length (skip_ws s) \<le> length s"
  by (simp add: skip_ws_def length_dropWhile_le)

lemma skip_ws_tl_less: "hd_is c (skip_ws s) \<Longrightarrow> length (skip_ws (tl (skip_ws s))) < length s"
  using skip_ws_le [of s] skip_ws_le [of "tl (skip_ws s)"]
  by (cases "skip_ws s") auto

lemma parse_number_shorter: "parse_number P s = Inr (v, r) \<Longrightarrow> length r < length s"
  by (auto simp: parse_number_def dest: scan_number_shorter split: option.splits bool.splits if_splits)

lemma drop_lit_less: "starts_with s p \<Longrightarrow> p \<noteq> [] \<Longrightarrow> length (drop (length p) s) < length s"
  by (auto simp: starts_with_iff)

lemma parse_shorter:
  "parse_value P n s = Inr (v, r) \<Longrightarrow> length r < length s"
  "parse_elems P n acc s = Inr (v, r) \<Longrightarrow> length r < length s"
  "parse_members P n dacc s = Inr (v, r) \<Longrightarrow> length r < length s"
proof (induction P n s and P n acc s and P n dacc s arbitrary: v r and v r and v r
    rule: parse_value_parse_elems_parse_members.induct)
  case (2 P n s)
  have tl: "length (tl s) < length s" if "hd_is c s" for c using that by (cases s) auto
  have lit: "length (drop 4 s) < length s" if "starts_with s ''null'' \<or> starts_with s ''true''"
    using that drop_lit_less [of s "''null''"] drop_lit_less [of s "''true''"] by auto
  have lit': "length (drop 5 s) < length s" if "starts_with s ''false''"
    using that drop_lit_less [of s "''false''"] by simp
  have br: "length (tl (skip_ws (tl s))) < length s" "length (skip_ws (tl s)) < length s" if "hd_is c s" for c
    using tl [OF that] skip_ws_le [of "tl s"] by auto
  show ?case
    using "2.prems" "2.IH" tl lit lit' br
    by (auto simp: bindE_eq_Inr Let_def split: if_splits
        dest!: scan_str_shorter parse_number_shorter) (meson less_trans)+
next
  case (4 P n acc s)
  from "4.prems" obtain v' r' where v': "parse_value P n s = Inr (v', r')"
    by (auto simp: bindE_eq_Inr)
  have r': "length r' < length s" using "4.IH"(1) v' by blast
  have "length (tl (skip_ws r')) \<le> length r'" using skip_ws_le [of r'] by simp
  moreover have "length r < length r'" if "hd_is (CHR '','') (skip_ws r')"
    "parse_elems P n (acc @ [v']) (skip_ws (tl (skip_ws r'))) = Inr (v, r)"
    using "4.IH"(2) [OF v' refl refl that] skip_ws_tl_less [OF that(1)] by simp
  ultimately show ?case
    using "4.prems" v' r' by (auto simp: Let_def split: if_splits)
next
  case (6 P n acc s)
  from "6.prems" obtain k r1 where q: "hd_is (CHR 0x22) s" and k: "scan_str (tl s) = Inr (k, r1)"
    by (auto simp: bindE_eq_Inr split: if_splits)
  from "6.prems" q k obtain v' r2 where c: "hd_is (CHR '':'') (skip_ws r1)"
    and v': "parse_value P n (skip_ws (tl (skip_ws r1))) = Inr (v', r2)"
    by (auto simp: bindE_eq_Inr Let_def split: if_splits)
  have "length r1 < length s" using scan_str_shorter [OF k] by (cases s) auto
  moreover have "length r2 < length r1"
    using "6.IH"(1) [OF q k refl refl c v'] skip_ws_tl_less [OF c] by simp
  moreover have "length (tl (skip_ws r2)) \<le> length r2" using skip_ws_le [of r2] by simp
  moreover have "length r < length r2" if h: "hd_is (CHR '','') (skip_ws r2)"
    "parse_members P n (AList.update k v' acc) (skip_ws (tl (skip_ws r2))) = Inr (v, r)"
    using "6.IH"(2) [OF q k refl refl c v' refl refl h] skip_ws_tl_less [OF h(1)] by simp
  ultimately show ?case
    using "6.prems" q k c v' by (auto simp: Let_def split: if_splits)
qed simp_all

lemma hex4_error: "hex4 a b c d = Inl e \<Longrightarrow> e = json_error \<or> e = Untyped"
  by (auto simp: hex4_def split: option.splits if_splits)

lemma case_prod_Inr_ne: "(case p of (t, r) \<Rightarrow> Inr (f t r)) \<noteq> (Inl e :: 'a res)"
  by (cases p) simp

lemma scan_str_error: "scan_str s = Inl e \<Longrightarrow> e \<in> {json_error, Untyped}"
proof (induction s arbitrary: e rule: scan_str.induct)
  case (2 c cs)
  note simps = bindE_eq_Inl case_prod_Inr_ne
  show ?case
  proof (cases "c = CHR 0x5C")
    case bs: True
    show ?thesis
    proof (cases cs)
      case (Cons x es)
      show ?thesis
      proof (cases "unescape x")
        case None
        then show ?thesis
          using bs "2.prems" "2.IH"(1) [OF _ bs Cons None] Cons
          by (auto simp: simps dest!: hex4_error split: if_splits list.splits) blast
      next
        case (Some y)
        then show ?thesis
          using bs "2.prems" "2.IH"(2) [OF _ bs Cons Some] Cons by (auto simp: simps)
      qed
    qed (use bs "2.prems" in simp)
  next
    case False
    then show ?thesis
      using "2.prems" "2.IH"(3) by (auto simp: simps split: if_splits)
  qed
qed simp

lemma scan_str_no_fuel: "scan_str s \<noteq> Inl out_of_fuel"
  by (auto dest!: scan_str_error simp: json_error_def out_of_fuel_def)

lemma parse_number_no_fuel: "parse_number P s \<noteq> Inl out_of_fuel"
  by (auto simp: parse_number_def json_error_def out_of_fuel_def split: option.splits bool.splits)

lemma parse_enough_fuel:
  "2 * length s < n \<Longrightarrow> parse_value P n s \<noteq> Inl out_of_fuel"
  "2 * length s + 1 < n \<Longrightarrow> parse_elems P n acc s \<noteq> Inl out_of_fuel"
  "2 * length s + 1 < n \<Longrightarrow> parse_members P n dacc s \<noteq> Inl out_of_fuel"
proof (induction P n s and P n acc s and P n dacc s rule: parse_value_parse_elems_parse_members.induct)
  case (2 P n s)
  have "2 * length (skip_ws (tl s)) + 1 < n" if "hd_is c s" for c
    using that "2.prems" skip_ws_le [of "tl s"] by (cases s) auto
  then show ?case
    using "2.IH" scan_str_no_fuel [of "tl s"] parse_number_no_fuel [of P s]
    by (auto simp: Let_def bindE_eq_Inl)
next
  case (4 P n acc s)
  have "parse_value P n s \<noteq> Inl out_of_fuel" using "4.IH"(1) "4.prems" by simp
  moreover have "2 * length (skip_ws (tl (skip_ws r))) + 1 < n"
    if "parse_value P n s = Inr (v, r)" "hd_is (CHR '','') (skip_ws r)" for v r
    using "4.prems" parse_shorter(1) [OF that(1)] skip_ws_tl_less [OF that(2)] by simp
  ultimately show ?case
    using "4.IH"(2) by (auto simp: Let_def json_error_def out_of_fuel_def bindE_eq_Inl split: if_splits)
next
  case (6 P n acc s)
  show ?case
  proof
    assume a: "parse_members P (Suc n) acc s = Inl out_of_fuel"
    then obtain k r1 where q: "hd_is (CHR 0x22) s" and k: "scan_str (tl s) = Inr (k, r1)"
      using scan_str_no_fuel [of "tl s"]
      by (auto simp: bindE_eq_Inl json_error_def out_of_fuel_def split: if_splits)
    have r1: "length r1 < length s" using scan_str_shorter [OF k] by (cases s) auto
    from a q k have c: "hd_is (CHR '':'') (skip_ws r1)"
      by (auto simp: Let_def json_error_def out_of_fuel_def split: if_splits)
    have "parse_value P n (skip_ws (tl (skip_ws r1))) \<noteq> Inl out_of_fuel"
      using "6.IH"(1) [OF q k refl refl c] "6.prems" r1 skip_ws_tl_less [OF c] by simp
    with a q k c obtain v r2 where v: "parse_value P n (skip_ws (tl (skip_ws r1))) = Inr (v, r2)"
      and h: "hd_is (CHR '','') (skip_ws r2)"
      and m: "parse_members P n (AList.update k v acc) (skip_ws (tl (skip_ws r2))) = Inl out_of_fuel"
      by (auto simp: Let_def bindE_eq_Inl json_error_def out_of_fuel_def split: if_splits)
    have "2 * length (skip_ws (tl (skip_ws r2))) + 1 < n"
      using "6.prems" r1 skip_ws_tl_less [OF c] parse_shorter(1) [OF v] skip_ws_tl_less [OF h] by simp
    with "6.IH"(2) [OF q k refl refl c v refl refl h] m show False by simp
  qed
qed simp_all

text \<open>So \<open>loads\<close> never stops for want of fuel: what it returns is a value or an exception of the code.\<close>

lemma loads_no_fuel: "loads P s \<noteq> Inl out_of_fuel"
  using parse_enough_fuel(1) [of "skip_ws s" "2 * length s + 2" P] skip_ws_le [of s]
  by (auto simp: loads_def bindE_eq_Inl json_error_def out_of_fuel_def
      simp del: parse_value.simps split: if_splits)

end
