(* ===== verification/Json_Fields.thy ===== *)
theory Json_Fields
  imports Json
begin

text \<open>
  How the decoders of the program read a JSON object: \<^verbatim>\<open>d["k"]\<close>, \<^verbatim>\<open>d.get("k")\<close>,
  \<^verbatim>\<open>d.get("k", default)\<close>, truth value testing, \<^verbatim>\<open>int(v)\<close>, \<^verbatim>\<open>float(v)\<close>,
  \<^verbatim>\<open>str(v)\<close>, \<^verbatim>\<open>dict(v or {})\<close> and iteration. Where the code copies a value into a field
  without converting it, the field's annotation is taken as its type and a value outside it ends in
  \<open>Untyped\<close>.

  The locale \<open>json_view\<close> is the interface between the JSON layer and the record decoders: a
  \<^emph>\<open>view\<close> maps a value to one with the same atoms and the same look-ups. It is interpreted twice,
  on the identity (a value as built in memory) and on \<open>norm_json\<close> (a value as reloaded from the
  bucket), so each record's round trip is proved once for both.
\<close>

subsection \<open>Conversions\<close>

fun truthy :: "json \<Rightarrow> bool" where
  "truthy JNull = False"
| "truthy (JBool b) = b"
| "truthy (JInt i) = (i \<noteq> 0)"
| "truthy (JFloat x) = (x \<noteq> 0)"
| "truthy (JStr s) = (s \<noteq> [])"
| "truthy (JList xs) = (xs \<noteq> [])"
| "truthy (JObj d) = (d \<noteq> [])"

fun py_int :: "json \<Rightarrow> int res" where
  "py_int (JInt i) = Inr i"
| "py_int (JBool b) = Inr (if b then 1 else 0)"
| "py_int (JFloat x) = Inr (if x \<ge> 0 then \<lfloor>x\<rfloor> else \<lceil>x\<rceil>)"
| "py_int (JStr s) = parse_int s"
| "py_int _ = Inl TypeError"

fun py_float :: "platform \<Rightarrow> json \<Rightarrow> pyfloat res" where
  "py_float P (JFloat x) = Inr x"
| "py_float P (JInt i) = Inr (of_int i)"
| "py_float P (JBool b) = Inr (if b then 1 else 0)"
| "py_float P (JStr s) =
     (case float_parse P s of Some x \<Rightarrow> Inr x | None \<Rightarrow> Inl (ValueError ''could not convert string to float''))"
| "py_float P _ = Inl TypeError"

fun py_str :: "platform \<Rightarrow> json \<Rightarrow> string res" where
  "py_str P (JStr s) = Inr s"
| "py_str P (JInt i) = Inr (show_int i)"
| "py_str P JNull = Inr ''None''"
| "py_str P (JBool b) = Inr (if b then ''True'' else ''False'')"
| "py_str P (JFloat x) = Inr (float_repr P x)"
| "py_str P _ = Inl Untyped"

subsection \<open>Look-ups\<close>

definition get_req :: "dict \<Rightarrow> string \<Rightarrow> json res" where
  "get_req d k = (case map_of d k of None \<Rightarrow> Inl (KeyError k) | Some v \<Rightarrow> Inr v)"

definition get_or :: "dict \<Rightarrow> string \<Rightarrow> json \<Rightarrow> json" where
  "get_or d k dflt = (case map_of d k of None \<Rightarrow> dflt | Some v \<Rightarrow> v)"

abbreviation get_none :: "dict \<Rightarrow> string \<Rightarrow> json" where
  "get_none d k \<equiv> get_or d k JNull"

definition or_else :: "json \<Rightarrow> json \<Rightarrow> json" where
  "or_else v w = (if truthy v then v else w)"

fun as_str :: "json \<Rightarrow> string res" where
  "as_str (JStr s) = Inr s"
| "as_str _ = Inl Untyped"

fun as_opt_str :: "json \<Rightarrow> string option res" where
  "as_opt_str JNull = Inr None"
| "as_opt_str (JStr s) = Inr (Some s)"
| "as_opt_str _ = Inl Untyped"

fun as_opt_int :: "json \<Rightarrow> int option res" where
  "as_opt_int JNull = Inr None"
| "as_opt_int (JInt i) = Inr (Some i)"
| "as_opt_int _ = Inl Untyped"

fun as_opt_float :: "json \<Rightarrow> pyfloat option res" where
  "as_opt_float JNull = Inr None"
| "as_opt_float (JFloat x) = Inr (Some x)"
| "as_opt_float (JInt i) = Inr (Some (of_int i))"
| "as_opt_float _ = Inl Untyped"

text \<open>\<^verbatim>\<open>int(v) if v is not None else None\<close>.\<close>

definition opt_py_int :: "json \<Rightarrow> int option res" where
  "opt_py_int v = (if v = JNull then Inr None else bindE (py_int v) (\<lambda>i. Inr (Some i)))"

text \<open>A value indexed like a dict; anything else raises \<^verbatim>\<open>TypeError\<close>.\<close>

fun as_dict :: "json \<Rightarrow> dict res" where
  "as_dict (JObj d) = Inr d"
| "as_dict _ = Inl TypeError"

text \<open>A value whose first use is \<^verbatim>\<open>.get\<close>; anything else raises \<^verbatim>\<open>AttributeError\<close>.\<close>

fun as_mapping :: "json \<Rightarrow> dict res" where
  "as_mapping (JObj d) = Inr d"
| "as_mapping _ = Inl AttributeError"

text \<open>\<^verbatim>\<open>dict(v or {})\<close>.\<close>

definition dict_or_empty :: "json \<Rightarrow> dict res" where
  "dict_or_empty v =
     (if truthy v then (case v of JObj d \<Rightarrow> Inr d | _ \<Rightarrow> Inl Untyped) else Inr [])"

text \<open>\<^verbatim>\<open>for x in v\<close>.\<close>

fun iter_items :: "json \<Rightarrow> json list res" where
  "iter_items (JList xs) = Inr xs"
| "iter_items (JObj d) = Inr (map (JStr \<circ> fst) d)"
| "iter_items (JStr s) = Inr (map (\<lambda>c. JStr [c]) s)"
| "iter_items _ = Inl TypeError"

text \<open>
  Nested records: \<^verbatim>\<open>[R.from_dict(x) for x in v]\<close>, \<^verbatim>\<open>R.from_dict(v) if v else None\<close> and
  \<^verbatim>\<open>[int(x) for x in v]\<close>.
\<close>

definition records_of :: "(dict \<Rightarrow> 'a res) \<Rightarrow> json \<Rightarrow> 'a list res" where
  "records_of dec v = bindE (iter_items v) (mapE (\<lambda>x. bindE (as_dict x) dec))"

definition opt_record :: "(json \<Rightarrow> dict res) \<Rightarrow> (dict \<Rightarrow> 'a res) \<Rightarrow> json \<Rightarrow> 'a option res" where
  "opt_record as dec v =
     (if truthy v then bindE (bindE (as v) dec) (\<lambda>r. Inr (Some r)) else Inr None)"

definition ints_of :: "json \<Rightarrow> int list res" where
  "ints_of v = bindE (iter_items v) (mapE py_int)"

subsection \<open>Writing\<close>

text \<open>\<^verbatim>\<open>if value is not None: out[key] = value\<close> for a key not yet in \<^verbatim>\<open>out\<close>.\<close>

definition opt_field :: "string \<Rightarrow> json option \<Rightarrow> dict" where
  "opt_field k v = (case v of None \<Rightarrow> [] | Some x \<Rightarrow> [(k, x)])"

definition opt_json :: "('a \<Rightarrow> json) \<Rightarrow> 'a option \<Rightarrow> json" where
  "opt_json f v = (case v of None \<Rightarrow> JNull | Some x \<Rightarrow> f x)"

text \<open>\<^verbatim>\<open>if value: out[key] = dict(value)\<close>, and the same for a list of ints.\<close>

definition nonempty_dict :: "dict \<Rightarrow> json option" where
  "nonempty_dict d = (if d = [] then None else Some (JObj d))"

definition nonempty_ints :: "int list \<Rightarrow> json option" where
  "nonempty_ints xs = (if xs = [] then None else Some (JList (map JInt xs)))"

lemma map_of_opt_field [dict_simps]:
  "map_of (opt_field k v) k' = (if k' = k then v else None)"
  by (auto simp: opt_field_def split: option.splits)

lemma map_add_opt_field [dict_simps]:
  "k \<noteq> k' \<Longrightarrow> (m ++ map_of (opt_field k' v)) k = m k"
  "m k = None \<Longrightarrow> (m ++ map_of (opt_field k v)) k = v"
  by (simp_all add: map_add_def map_of_opt_field split: option.splits)

lemma keys_opt_field [dict_simps]: "k \<in> fst ` set (opt_field k' v) \<longleftrightarrow> k = k' \<and> v \<noteq> None"
  by (auto simp: opt_field_def split: option.splits)

lemma opt_field_mem [dict_simps]: "(a, b) \<in> set (opt_field k v) \<longleftrightarrow> a = k \<and> v = Some b"
  by (auto simp: opt_field_def split: option.splits)

lemma wf_dict_Nil [dict_simps]: "wf_dict []"
  and wf_dict_Cons [dict_simps]:
    "wf_dict ((k, v) # d) \<longleftrightarrow> k \<notin> fst ` set d \<and> wf_json v \<and> wf_dict d"
  by (auto simp: wf_dict_def)

lemma wf_dict_opt_append [dict_simps]:
  "wf_dict (opt_field k v @ d) \<longleftrightarrow>
     (\<forall>x. v = Some x \<longrightarrow> k \<notin> fst ` set d \<and> wf_json x) \<and> wf_dict d"
  by (auto simp: wf_dict_def opt_field_def split: option.splits)

lemma wf_dict_opt_field [dict_simps]: "wf_dict (opt_field k v) \<longleftrightarrow> (\<forall>x. v = Some x \<longrightarrow> wf_json x)"
  by (auto simp: wf_dict_def opt_field_def split: option.splits)

lemma wf_json_JObj [simp]: "wf_json (JObj d) = wf_dict d"
  by (simp add: wf_dict_def)

declare wf_json.simps(2) [simp del]

lemma opt_field_None [simp]: "opt_field k None = []"
  and opt_field_Some [simp]: "opt_field k (Some x) = [(k, x)]"
  by (simp_all add: opt_field_def)

lemma opt_json_simps [simp]: "opt_json f None = JNull" "opt_json f (Some x) = f x"
  by (simp_all add: opt_json_def)

lemma wf_opt_json [dict_simps]: "wf_json (opt_json f v) \<longleftrightarrow> (\<forall>x. v = Some x \<longrightarrow> wf_json (f x))"
  by (simp add: opt_json_def split: option.splits)

subsection \<open>Views\<close>

locale json_view =
  fixes view :: "json \<Rightarrow> json" and view_dict :: "dict \<Rightarrow> dict"
  assumes view_null: "view JNull = JNull"
    and view_bool: "view (JBool b) = JBool b"
    and view_int: "view (JInt i) = JInt i"
    and view_float: "view (JFloat x) = JFloat x"
    and view_str: "view (JStr s) = JStr s"
    and view_list: "view (JList xs) = JList (map view xs)"
    and view_obj: "view (JObj d) = JObj (view_dict d)"
    and view_get: "map_of (view_dict d) k = map_option view (map_of d k)"
begin

lemmas view_atoms = view_null view_bool view_int view_float view_str view_list view_obj

lemma view_dict_Nil_iff: "view_dict d = [] \<longleftrightarrow> d = []"
proof
  assume "view_dict d = []"
  then have "map_of d = Map.empty" using view_get [of d] by (auto simp: fun_eq_iff)
  then show "d = []" by simp
next
  assume "d = []"
  then have "map_of (view_dict d) = Map.empty" using view_get [of d] by (auto simp: fun_eq_iff)
  then show "view_dict d = []" by (metis map_of_eq_empty_iff)
qed

lemma view_dict_Nil: "view_dict [] = []"
  by (simp add: view_dict_Nil_iff)

lemma view_req: "get_req (view_dict d) k = (case map_of d k of None \<Rightarrow> Inl (KeyError k) | Some v \<Rightarrow> Inr (view v))"
  by (simp add: get_req_def view_get split: option.splits)

lemma view_or: "get_or (view_dict d) k dflt = (case map_of d k of None \<Rightarrow> dflt | Some v \<Rightarrow> view v)"
  by (simp add: get_or_def view_get split: option.splits)

lemma view_truthy: "truthy (view v) = truthy v"
  by (cases v) (simp_all add: view_atoms view_dict_Nil_iff)

lemma view_dict_or_empty: "dict_or_empty (JObj (view_dict d)) = Inr (view_dict d)"
  by (simp add: dict_or_empty_def)

lemma view_opt: "view (opt_json f v) = opt_json (\<lambda>x. view (f x)) v"
  by (simp add: opt_json_def view_null split: option.splits)

lemma view_opt_str:
  "as_opt_str (opt_json (\<lambda>x. JStr x) s) = Inr s"
  "as_opt_str (case_option JNull (view \<circ> JStr) s) = Inr s"
  by (cases s; simp add: view_atoms)+

lemma view_opt_int:
  "as_opt_int (opt_json (\<lambda>x. JInt x) i) = Inr i"
  "as_opt_int (case_option JNull (view \<circ> JInt) i) = Inr i"
  "opt_py_int (case_option JNull (view \<circ> JInt) i) = Inr i"
  by (cases i; simp add: view_atoms opt_py_int_def)+

lemma view_opt_float: "as_opt_float (case_option JNull (view \<circ> JFloat) x) = Inr x"
  by (cases x; simp add: view_atoms)

lemma view_nonempty:
  "dict_or_empty (case nonempty_dict d of None \<Rightarrow> JNull | Some v \<Rightarrow> view v) = Inr (view_dict d)"
  by (simp add: nonempty_dict_def view_atoms dict_or_empty_def view_dict_Nil)

lemma view_ints:
  "ints_of (JList (map (view \<circ> JInt) xs)) = Inr xs"
  "ints_of (case nonempty_ints xs of None \<Rightarrow> JList [] | Some v \<Rightarrow> view v) = Inr xs"
proof -
  show 1: "ints_of (JList (map (view \<circ> JInt) xs)) = Inr xs" for xs
    by (induction xs) (simp_all add: ints_of_def view_atoms)
  then show "ints_of (case nonempty_ints xs of None \<Rightarrow> JList [] | Some v \<Rightarrow> view v) = Inr xs"
    using 1 [of "[]"] by (simp add: nonempty_ints_def view_atoms)
qed

lemma view_records:
  assumes "\<And>r. dec (view_dict (enc r)) = Inr r"
  shows "records_of dec (JList (map (view \<circ> (\<lambda>r. JObj (enc r))) rs)) = Inr rs"
  using assms by (induction rs) (simp_all add: records_of_def view_atoms)

lemma view_record_opt:
  assumes "\<And>r. dec (view_dict (enc r)) = Inr r" "\<And>r. enc r \<noteq> []"
  shows "opt_record as_dict dec (case_option JNull (view \<circ> (\<lambda>r. JObj (enc r))) x) = Inr x"
    and "opt_record dict_or_empty dec (case_option JNull (view \<circ> (\<lambda>r. JObj (enc r))) x) = Inr x"
    and "opt_record as_dict dec (opt_json (\<lambda>r. JObj (view_dict (enc r))) x) = Inr x"
  using assms
  by (cases x; simp add: opt_record_def view_atoms view_dict_Nil_iff dict_or_empty_def)+

lemmas view_codec = view_opt_str view_opt_int view_opt_float view_nonempty view_ints

lemmas view_simps = view_atoms view_dict_Nil view_dict_Nil_iff view_req view_or view_truthy view_dict_or_empty view_opt view_codec

end

interpretation plain: json_view "\<lambda>v. v" "\<lambda>d. d"
  by unfold_locales (simp_all add: option.map_ident)

interpretation canon: json_view norm_json norm_dict
  by unfold_locales (simp_all add: norm_dict_def)

declare norm_json.simps(2) [simp del]
declare dumps.simps [simp del]
declare norm_JObj_dict [simp]

lemma norm_dict_Nil [simp]: "norm_dict [] = []"
  by (rule canon.view_dict_Nil)

subsection \<open>Equality up to key order\<close>

lemma norm_dict_idem [simp]: "norm_dict (norm_dict d) = norm_dict d"
  by (metis json.inject(6) norm_JObj_dict norm_json_idem)

lemma norm_dict_cong_vals:
  "map (\<lambda>(k, v). (k, norm_json v)) d = map (\<lambda>(k, v). (k, norm_json v)) e \<Longrightarrow> norm_dict d = norm_dict e"
  by (simp add: norm_dict_def)

lemma set_norm_dict: "set (norm_dict d) = (\<lambda>(k, v). (k, norm_json v)) ` set d"
  by (simp add: norm_dict_def)

lemma distinct_norm_dict: "distinct (map fst (norm_dict d)) = distinct (map fst d)"
proof -
  have "map fst (norm_dict d) = map fst (sort_key fst d)"
    by (simp only: norm_dict_def sort_key_map_snd map_fst_map_snd)
  then show ?thesis by (simp add: distinct_map)
qed

lemma wf_norm: "wf_json v \<Longrightarrow> wf_json (norm_json v)"
proof (induction v)
  case (JObj d)
  then have "distinct (map fst (norm_dict d))"
    by (simp add: distinct_norm_dict wf_dict_def)
  moreover have "\<forall>kv \<in> set (norm_dict d). wf_json (snd kv)"
    using JObj by (fastforce simp: set_norm_dict wf_dict_def)
  ultimately show ?case by (simp only: norm_JObj_dict wf_json_JObj wf_dict_def simp_thms)
qed auto

lemma wf_norm_dict: "wf_dict d \<Longrightarrow> wf_dict (norm_dict d)"
  using wf_norm [of "JObj d"] by (simp only: norm_JObj_dict wf_json_JObj)

subsection \<open>What the parser returns is well formed\<close>

lemma parse_number_wf: "parse_number P s = Inr (v, r) \<Longrightarrow> wf_json v"
  by (auto simp: parse_number_def split: option.splits bool.splits if_splits)

lemma wf_dict_update: "wf_dict d \<Longrightarrow> wf_json v \<Longrightarrow> wf_dict (AList.update k v d)"
  using set_update_subset [of k v d] by (auto simp: wf_dict_def distinct_update)

lemma parse_wf:
  "parse_value P n s = Inr (v, r) \<Longrightarrow> wf_json v"
  "parse_elems P n acc s = Inr (v, r) \<Longrightarrow> (\<forall>x \<in> set acc. wf_json x) \<Longrightarrow> wf_json v"
  "parse_members P n d s = Inr (v, r) \<Longrightarrow> wf_dict d \<Longrightarrow> wf_json v"
proof (induction P n s and P n acc s and P n d s arbitrary: v r and v r and v r rule: parse_value_parse_elems_parse_members.induct)
  case (2 P n s)
  have "wf_dict []" by (simp add: wf_dict_def)
  with 2 show ?case by (auto simp: bindE_eq_Inr Let_def dest: parse_number_wf split: if_splits)
next
  case (4 P n acc s)
  from 4(3) obtain x t where x: "parse_value P n s = Inr (x, t)" by (auto simp: bindE_eq_Inr)
  with 4(1) have "wf_json x" by blast
  with 4 x show ?case by (fastforce simp: Let_def split: if_splits)
next
  case (6 P n d s)
  from 6(3) obtain k r1 where k: "hd_is (CHR 0x22) s" "scan_str (tl s) = Inr (k, r1)" by (auto simp: bindE_eq_Inr split: if_splits)
  with 6(3) obtain x t where x: "hd_is (CHR '':'') (skip_ws r1)" "parse_value P n (skip_ws (tl (skip_ws r1))) = Inr (x, t)"
    by (auto simp: bindE_eq_Inr Let_def split: if_splits)
  with 6(1) [OF k refl refl x(1)] have "wf_dict (AList.update k x d)" using 6(4) by (intro wf_dict_update) auto
  with 6(3) 6(2) [OF k refl refl x refl refl] k x show ?case by (fastforce simp: Let_def split: if_splits)
qed simp_all

lemma loads_wf: "loads P s = Inr v \<Longrightarrow> wf_json v"
  by (auto simp: loads_def bindE_eq_Inr dest: parse_wf(1) split: if_splits simp del: parse_value.simps)

end
