(* ===== verification/Sha256.thy ===== *)
theory Sha256
  imports Prelude
begin

text \<open>
  SHA-256 (FIPS 180-4) and HMAC-SHA-256 (RFC 2104) as the \<^verbatim>\<open>hashlib\<close> and \<^verbatim>\<open>hmac\<close> calls
  of the program compute them, over 32-bit words. The rest of the development uses that digests have
  32 bytes, that hex digests are 64 lower-case hexadecimal ASCII characters, and that equal digests of
  different inputs are, by name, a \<open>collision\<close>: theorems that need collision resistance say so by
  offering the collision as the alternative.
\<close>

unbundle bit_operations_syntax

type_synonym w32 = "32 word"

text \<open>The round constants and the initial state of the standard, in decimal.\<close>

definition sha_k :: "w32 list" where
  "sha_k =
   [1116352408, 1899447441, 3049323471, 3921009573, 961987163, 1508970993, 2453635748, 2870763221,
    3624381080, 310598401, 607225278, 1426881987, 1925078388, 2162078206, 2614888103, 3248222580,
    3835390401, 4022224774, 264347078, 604807628, 770255983, 1249150122, 1555081692, 1996064986,
    2554220882, 2821834349, 2952996808, 3210313671, 3336571891, 3584528711, 113926993, 338241895,
    666307205, 773529912, 1294757372, 1396182291, 1695183700, 1986661051, 2177026350, 2456956037,
    2730485921, 2820302411, 3259730800, 3345764771, 3516065817, 3600352804, 4094571909, 275423344,
    430227734, 506948616, 659060556, 883997877, 958139571, 1322822218, 1537002063, 1747873779,
    1955562222, 2024104815, 2227730452, 2361852424, 2428436474, 2756734187, 3204031479, 3329325298]"

definition sha_init :: "w32 list" where
  "sha_init = [1779033703, 3144134277, 1013904242, 2773480762, 1359893119, 2600822924, 528734635, 1541459225]"

definition be32 :: "8 word \<Rightarrow> 8 word \<Rightarrow> 8 word \<Rightarrow> 8 word \<Rightarrow> w32" where
  "be32 a b c d = push_bit 24 (ucast a) OR push_bit 16 (ucast b) OR push_bit 8 (ucast c) OR ucast d"

definition bytes32 :: "w32 \<Rightarrow> bytes" where
  "bytes32 w = [ucast (drop_bit 24 w), ucast (drop_bit 16 w), ucast (drop_bit 8 w), ucast w]"

fun words_of :: "bytes \<Rightarrow> w32 list" where
  "words_of (a # b # c # d # bs) = be32 a b c d # words_of bs"
| "words_of _ = []"

definition sha_pad :: "bytes \<Rightarrow> bytes" where
  "sha_pad m =
     m @ [0x80] @ replicate ((119 - length m mod 64) mod 64) 0 @
     bytes32 (of_nat (8 * length m div 2 ^ 32)) @ bytes32 (of_nat (8 * length m))"

text \<open>The message schedule, newest word first: \<open>n\<close> more words are added in front.\<close>

fun sha_extend :: "nat \<Rightarrow> w32 list \<Rightarrow> w32 list" where
  "sha_extend 0 ws = ws"
| "sha_extend (Suc n) ws =
     (let w2 = ws ! 1; w7 = ws ! 6; w15 = ws ! 14; w16 = ws ! 15;
          s0 = word_rotr 7 w15 XOR word_rotr 18 w15 XOR drop_bit 3 w15;
          s1 = word_rotr 17 w2 XOR word_rotr 19 w2 XOR drop_bit 10 w2
      in sha_extend n ((w16 + s0 + w7 + s1) # ws))"

fun sha_round :: "w32 \<times> w32 \<Rightarrow> w32 list \<Rightarrow> w32 list" where
  "sha_round (k, w) [a, b, c, d, e, f, g, h] =
     (let s1 = word_rotr 6 e XOR word_rotr 11 e XOR word_rotr 25 e;
          ch = (e AND f) XOR (NOT e AND g);
          t1 = h + s1 + ch + k + w;
          s0 = word_rotr 2 a XOR word_rotr 13 a XOR word_rotr 22 a;
          maj = (a AND b) XOR (a AND c) XOR (b AND c);
          t2 = s0 + maj
      in [t1 + t2, a, b, c, d + t1, e, f, g])"
| "sha_round _ st = st"

definition sha_block :: "w32 list \<Rightarrow> w32 list \<Rightarrow> w32 list" where
  "sha_block block st =
     map2 (+) st (fold sha_round (zip sha_k (rev (sha_extend 48 (rev block)))) st)"

function sha_blocks :: "w32 list \<Rightarrow> w32 list \<Rightarrow> w32 list" where
  "sha_blocks ws st =
     (if length ws < 16 then st else sha_blocks (drop 16 ws) (sha_block (take 16 ws) st))"
  by pat_completeness auto
termination
  by (relation "measure (\<lambda>(ws, st). length ws)") auto

declare sha_blocks.simps [simp del]

definition sha256 :: "bytes \<Rightarrow> bytes" where
  "sha256 m = concat (map bytes32 (sha_blocks (words_of (sha_pad m)) sha_init))"

definition hex_nibble :: "nat \<Rightarrow> char" where
  "hex_nibble n = ''0123456789abcdef'' ! n"

definition to_hex :: "bytes \<Rightarrow> string" where
  "to_hex bs = concat (map (\<lambda>b. [hex_nibble (unat b div 16), hex_nibble (unat b mod 16)]) bs)"

definition sha256_hex :: "bytes \<Rightarrow> string" where
  "sha256_hex m = to_hex (sha256 m)"

definition hmac_block :: "8 word \<Rightarrow> bytes \<Rightarrow> bytes" where
  "hmac_block p key =
     (let k = (if length key > 64 then sha256 key else key)
      in map (\<lambda>b. b XOR p) (k @ replicate (64 - length k) 0))"

definition hmac_sha256 :: "bytes \<Rightarrow> bytes \<Rightarrow> bytes" where
  "hmac_sha256 key m = sha256 (hmac_block 0x5c key @ sha256 (hmac_block 0x36 key @ m))"

definition hmac_hex :: "bytes \<Rightarrow> bytes \<Rightarrow> string" where
  "hmac_hex key m = to_hex (hmac_sha256 key m)"

definition collision :: "(bytes \<Rightarrow> bytes) \<Rightarrow> bytes \<Rightarrow> bytes \<Rightarrow> bool" where
  "collision h x y \<longleftrightarrow> x \<noteq> y \<and> h x = h y"

subsection \<open>Shape of digests\<close>

lemma length_sha_round: "length (sha_round kw st) = length st"
  by (induction kw st rule: sha_round.induct) (simp_all add: Let_def)

lemma length_fold_round: "length (fold sha_round kws st) = length st"
  by (induction kws arbitrary: st) (simp_all add: length_sha_round)

lemma length_sha_block: "length (sha_block b st) = length st"
  by (simp add: sha_block_def length_fold_round)

lemma length_sha_blocks: "length (sha_blocks ws st) = length st"
proof (induction ws st rule: sha_blocks.induct)
  case (1 ws st)
  then show ?case by (subst sha_blocks.simps) (simp add: length_sha_block)
qed

lemma length_concat_4: "length (concat (map bytes32 ws)) = 4 * length ws"
  by (induction ws) (simp_all add: bytes32_def)

lemma length_sha256 [simp]: "length (sha256 m) = 32"
  by (simp add: sha256_def length_concat_4 length_sha_blocks sha_init_def)

lemma length_to_hex [simp]: "length (to_hex bs) = 2 * length bs"
  by (induction bs) (simp_all add: to_hex_def)

lemma length_sha256_hex [simp]: "length (sha256_hex m) = 64"
  by (simp add: sha256_hex_def)

lemma length_hmac_hex [simp]: "length (hmac_hex k m) = 64"
  by (simp add: hmac_hex_def hmac_sha256_def)

lemma hmac_hex_ne [simp]: "hmac_hex k m \<noteq> []"
  by (metis length_hmac_hex list.size(3) zero_neq_numeral)

definition is_ascii :: "string \<Rightarrow> bool" where
  "is_ascii s = (\<forall>c \<in> set s. (of_char c :: nat) < 128)"

lemma hex_nibble_ascii: "n < 16 \<Longrightarrow> (of_char (hex_nibble n) :: nat) < 128"
proof -
  assume "n < 16"
  then have "hex_nibble n \<in> set ''0123456789abcdef''"
    unfolding hex_nibble_def by (intro nth_mem) simp
  then show ?thesis by auto
qed

lemma unat_byte_less: "unat (b :: 8 word) < 256"
  using unsigned_less [of b, where ?'a = nat] by simp

lemma byte_nibbles: "unat (b :: 8 word) div 16 < 16" "unat (b :: 8 word) mod 16 < 16"
  using unat_byte_less [of b] by (simp_all add: less_mult_imp_div_less)

lemma to_hex_ascii: "is_ascii (to_hex bs)"
  by (auto simp: is_ascii_def to_hex_def hex_nibble_ascii byte_nibbles)

lemma hmac_hex_ascii [simp]: "is_ascii (hmac_hex k m)"
  by (simp add: hmac_hex_def to_hex_ascii)

lemma sha256_hex_ascii [simp]: "is_ascii (sha256_hex m)"
  by (simp add: sha256_hex_def to_hex_ascii)

lemma hex_nibble_inj: "m < 16 \<Longrightarrow> n < 16 \<Longrightarrow> hex_nibble m = hex_nibble n \<longleftrightarrow> m = n"
  unfolding hex_nibble_def by (subst nth_eq_iff_index_eq) auto

lemma to_hex_inj [simp]: "to_hex a = to_hex b \<longleftrightarrow> a = b"
proof (induction a arbitrary: b)
  case Nil
  then show ?case by (cases b) (simp_all add: to_hex_def)
next
  case (Cons x xs)
  show ?case
  proof (cases b)
    case Nil
    then show ?thesis by (simp add: to_hex_def)
  next
    case (Cons y ys)
    have "unat x = unat y" if "unat x div 16 = unat y div 16" "unat x mod 16 = unat y mod 16"
      using that by (metis div_mult_mod_eq)
    then show ?thesis
      using Cons.IH [of ys] Cons byte_nibbles
      by (auto simp: to_hex_def hex_nibble_inj) (metis unsigned_word_eqI)
  qed
qed

lemma sha256_hex_eq:
  "sha256_hex x = sha256_hex y \<longleftrightarrow> x = y \<or> collision sha256 x y"
  by (auto simp: sha256_hex_def collision_def)

end
