(* ===== verification/Signatures.thy ===== *)
theory Signatures
  imports Json_Fields Sha256
begin

text \<open>
  \<^verbatim>\<open>teuton_core/signatures.py\<close>: the canonical bytes of a record, its digest, the shared-secret
  HMAC signature, and verification against a hotkey identity with the HMAC fallback. A signature that is
  not ASCII makes \<^verbatim>\<open>hmac.compare_digest\<close> raise \<^verbatim>\<open>TypeError\<close>, so verification is a
  \<open>bool res\<close>. A signer is either a bare secret string or an object with a \<^verbatim>\<open>sign\<close> method.

  Shown: the canonical bytes identify a value up to key order; a signature made with a secret verifies
  with it; verification accepts exactly the HMAC of the canonical bytes.
\<close>

subsection \<open>Definitions\<close>

definition canonical_json :: "platform \<Rightarrow> json \<Rightarrow> bytes" where
  "canonical_json P v = utf8_encode (dumps P True v)"

definition digest_dict :: "platform \<Rightarrow> dict \<Rightarrow> string" where
  "digest_dict P d = sha256_hex (canonical_json P (JObj d))"

definition sign_payload :: "bytes \<Rightarrow> string \<Rightarrow> string" where
  "sign_payload payload secret = hmac_hex (utf8_encode secret) payload"

definition sign_dict :: "platform \<Rightarrow> dict \<Rightarrow> string \<Rightarrow> string" where
  "sign_dict P d secret = hmac_hex (utf8_encode secret) (canonical_json P (JObj d))"

text \<open>\<^verbatim>\<open>hmac.compare_digest\<close> of two strings: \<^verbatim>\<open>TypeError\<close> unless both are ASCII.\<close>

definition compare_digest :: "string \<Rightarrow> string \<Rightarrow> bool res" where
  "compare_digest a b = (if is_ascii a \<and> is_ascii b then Inr (a = b) else Inl TypeError)"

definition verify_dict :: "platform \<Rightarrow> dict \<Rightarrow> string \<Rightarrow> string \<Rightarrow> bool res" where
  "verify_dict P d secret signature = compare_digest (sign_dict P d secret) signature"

definition verify_payload :: "bytes \<Rightarrow> string \<Rightarrow> string \<Rightarrow> bool res" where
  "verify_payload payload secret signature = compare_digest (sign_payload payload secret) signature"

datatype signer = Secret string | SignerObj (identity: string) (sign_fn: "bytes \<Rightarrow> string")

definition HmacSigner :: "string \<Rightarrow> string \<Rightarrow> signer" where
  "HmacSigner secret ident = SignerObj ident (\<lambda>payload. sign_payload payload secret)"

text \<open>\<^verbatim>\<open>bytes.fromhex\<close>: pairs of hexadecimal digits, white space allowed between pairs.\<close>

fun fromhex :: "string \<Rightarrow> bytes option" where
  "fromhex [] = Some []"
| "fromhex (c # cs) =
     (if is_space c \<and> is_ascii [c] then fromhex cs
      else case cs of
             [] \<Rightarrow> None
           | d # ds \<Rightarrow>
               (case (hex_val c, hex_val d) of
                  (Some x, Some y) \<Rightarrow> map_option ((#) (of_nat (16 * x + y))) (fromhex ds)
                | _ \<Rightarrow> None))"

definition is_hex :: "string \<Rightarrow> bool" where
  "is_hex s = (fromhex s \<noteq> None)"

definition removeprefix_0x :: "string \<Rightarrow> string" where
  "removeprefix_0x s = (if starts_with s ''0x'' then drop 2 s else s)"

definition signature_bytes :: "string \<Rightarrow> bytes" where
  "signature_bytes signature =
     (case fromhex (removeprefix_0x signature) of Some b \<Rightarrow> b | None \<Rightarrow> utf8_encode signature)"

definition verify_hotkey_payload :: "platform \<Rightarrow> bytes \<Rightarrow> string \<Rightarrow> string \<Rightarrow> bool" where
  "verify_hotkey_payload P payload ident signature =
     (let sig = signature_bytes signature
      in if bittensor_verify P payload ident sig = Some True then True
         else if substrate_verify P payload ident sig = Some True then True
         else nacl_verify P payload ident sig \<noteq> None)"

definition verify_identity_payload :: "platform \<Rightarrow> bytes \<Rightarrow> string \<Rightarrow> string \<Rightarrow> bool \<Rightarrow> bool res" where
  "verify_identity_payload P payload ident signature allow_dev_hmac =
     (if verify_hotkey_payload P payload ident signature then Inr True
      else if allow_dev_hmac then verify_payload payload ident signature else Inr False)"

definition verify_identity_dict :: "platform \<Rightarrow> dict \<Rightarrow> string \<Rightarrow> string \<Rightarrow> bool \<Rightarrow> bool res" where
  "verify_identity_dict P d ident signature allow_dev_hmac =
     verify_identity_payload P (canonical_json P (JObj d)) ident signature allow_dev_hmac"

definition IdentityVerifier_verify :: "platform \<Rightarrow> bytes \<Rightarrow> string \<Rightarrow> string option \<Rightarrow> bool res" where
  "IdentityVerifier_verify P payload signature ident =
     (case ident of
        None \<Rightarrow> Inr False
      | Some i \<Rightarrow> if i = [] then Inr False else verify_identity_payload P payload i signature True)"

text \<open>
  \<^verbatim>\<open>NativeEd25519HotkeySigner.from_keyfile\<close>, from the parsed JSON of the key file: the seed and the
  identity. \<^verbatim>\<open>!= 0\<close> compares by value, so \<^verbatim>\<open>0\<close>, \<^verbatim>\<open>0.0\<close> and \<^verbatim>\<open>false\<close> pass.
\<close>

fun json_is_zero :: "json \<Rightarrow> bool" where
  "json_is_zero (JInt i) = (i = 0)"
| "json_is_zero (JFloat x) = (x = 0)"
| "json_is_zero (JBool b) = (\<not> b)"
| "json_is_zero _ = False"

definition NativeEd25519HotkeySigner_from_keyfile :: "platform \<Rightarrow> dict \<Rightarrow> (bytes \<times> string) res" where
  "NativeEd25519HotkeySigner_from_keyfile P d =
     (if \<not> json_is_zero (get_none d ''cryptoType'') then Inl (ValueError ''expected native ED25519 cryptoType 0 hotkey'')
      else bindE (py_str P (or_else (get_none d ''secretSeed'') (JStr []))) (\<lambda>s.
        let seed_hex = removeprefix_0x s
        in if seed_hex = [] then Inl (ValueError ''native ED25519 hotkey file is missing secretSeed'')
           else case fromhex seed_hex of
                  None \<Rightarrow> Inl (ValueError ''non-hexadecimal number found in fromhex() arg'')
                | Some seed \<Rightarrow>
                    if length seed \<noteq> 32 then Inl (ValueError ''expected 32-byte ED25519 seed'')
                    else bindE (py_str P (or_else (get_none d ''ss58Address'') (JStr []))) (\<lambda>ident.
                      if ident = [] then Inl (ValueError ''native ED25519 hotkey file is missing ss58Address'')
                      else Inr (seed, ident))))"

text \<open>\<^verbatim>\<open>protocol._record_signature\<close>.\<close>

definition record_signature :: "platform \<Rightarrow> dict \<Rightarrow> signer \<Rightarrow> string" where
  "record_signature P d s =
     (case s of
        Secret secret \<Rightarrow> sign_dict P d secret
      | SignerObj _ sign \<Rightarrow> sign (canonical_json P (JObj d)))"

subsection \<open>Canonical bytes\<close>

lemma canonical_json_eq:
  assumes "float_codec P" "wf_json v" "wf_json w"
  shows "canonical_json P v = canonical_json P w \<longleftrightarrow> norm_json v = norm_json w"
  by (simp add: canonical_json_def dumps_inj [OF assms])

lemma canonical_json_norm [simp]: "canonical_json P (norm_json v) = canonical_json P v"
  by (simp add: canonical_json_def)

lemma canonical_json_norm_dict [simp]: "canonical_json P (JObj (norm_dict d)) = canonical_json P (JObj d)"
  using canonical_json_norm [of P "JObj d"] by (simp only: norm_JObj_dict)

lemma canonical_json_cong: "norm_dict d = norm_dict d' \<Longrightarrow> canonical_json P (JObj d) = canonical_json P (JObj d')"
  by (metis canonical_json_norm_dict)

lemma digest_dict_norm [simp]: "digest_dict P (norm_dict d) = digest_dict P d"
  by (simp add: digest_dict_def)

lemma sign_dict_norm [simp]: "sign_dict P (norm_dict d) s = sign_dict P d s"
  by (simp add: sign_dict_def)

lemma record_signature_cong:
  "canonical_json P (JObj d) = canonical_json P (JObj d') \<Longrightarrow> record_signature P d s = record_signature P d' s"
  by (auto simp: record_signature_def sign_dict_def split: signer.splits)

lemma digest_dict_eq:
  assumes "float_codec P" "wf_dict d" "wf_dict e"
  shows "digest_dict P d = digest_dict P e \<longleftrightarrow>
    norm_dict d = norm_dict e \<or>
    collision sha256 (canonical_json P (JObj d)) (canonical_json P (JObj e))"
proof -
  have "canonical_json P (JObj d) = canonical_json P (JObj e) \<longleftrightarrow> norm_dict d = norm_dict e"
    using canonical_json_eq [of P "JObj d" "JObj e"] assms
    by (simp only: norm_JObj_dict wf_json_JObj json.inject simp_thms)
  then show ?thesis by (simp add: digest_dict_def sha256_hex_eq)
qed

subsection \<open>Signatures\<close>

lemma sign_dict_ascii [simp]: "is_ascii (sign_dict P d s)"
  by (simp add: sign_dict_def)

lemma sign_dict_ne [simp]: "sign_dict P d s \<noteq> []"
  by (simp add: sign_dict_def)

lemma sign_payload_ascii [simp]: "is_ascii (sign_payload p s)"
  by (simp add: sign_payload_def)

lemma verify_sign_dict [simp]: "verify_dict P d s (sign_dict P d s) = Inr True"
  by (simp add: verify_dict_def compare_digest_def)

lemma verify_dict_iff:
  "verify_dict P d s sig = Inr True \<longleftrightarrow> sig = sign_dict P d s"
  by (auto simp: verify_dict_def compare_digest_def)

lemma verify_dict_TypeError: "\<not> is_ascii sig \<Longrightarrow> verify_dict P d s sig = Inl TypeError"
  by (simp add: verify_dict_def compare_digest_def)

lemma verify_identity_hmac:
  "verify_identity_dict P d ident (sign_dict P d ident) True = Inr True"
  by (simp add: verify_identity_dict_def verify_identity_payload_def verify_payload_def
      sign_payload_def sign_dict_def compare_digest_def)

lemma verify_identity_iff:
  "verify_identity_dict P d ident sig True = Inr True \<longleftrightarrow>
     verify_hotkey_payload P (canonical_json P (JObj d)) ident sig \<or> sig = sign_dict P d ident"
  by (auto simp: verify_identity_dict_def verify_identity_payload_def verify_payload_def
      sign_payload_def sign_dict_def compare_digest_def split: if_splits)

lemma verify_identity_norm [simp]:
  "verify_identity_dict P (norm_dict d) i s a = verify_identity_dict P d i s a"
  by (simp add: verify_identity_dict_def)

lemma verify_dict_norm [simp]: "verify_dict P (norm_dict d) i s = verify_dict P d i s"
  by (simp add: verify_dict_def)

end
