(* ===== verification/Protocol.thy ===== *)
theory Protocol
  imports Signatures
begin

text \<open>
  \<^verbatim>\<open>teuton_core/protocol.py\<close>: the records written to the bucket and read back from it. Each
  dataclass is a \<open>record\<close> (fields in the source's order, prefixed by two letters per class), with
  \<^verbatim>\<open>to_dict\<close>, \<^verbatim>\<open>from_dict\<close>, \<^verbatim>\<open>unsigned_dict\<close>, \<^verbatim>\<open>sign\<close> and
  \<^verbatim>\<open>manifest_hash\<close> as functions named after the class. Optional keys are written in the order
  of the source; decoding evaluates the constructor's arguments in the order of the call, so the first
  exception is the one Python raises.
\<close>

record ArtifactCryptoPolicy =
  cp_mode :: string
  cp_required_signer :: "string option"
  cp_recipient :: "string option"
  cp_cipher_suite :: string
  cp_key_id :: "string option"
  cp_drand_round :: "int option"
  cp_drand_chain_hash :: "string option"
  cp_drand_public_key :: "string option"

definition ArtifactCryptoPolicy_to_dict :: "ArtifactCryptoPolicy \<Rightarrow> dict" where
  "ArtifactCryptoPolicy_to_dict x =
     [(''mode'', JStr (cp_mode x)),
      (''cipher_suite'', JStr (cp_cipher_suite x))] @
     opt_field ''required_signer'' (map_option JStr (cp_required_signer x)) @
     opt_field ''recipient'' (map_option JStr (cp_recipient x)) @
     opt_field ''key_id'' (map_option JStr (cp_key_id x)) @
     opt_field ''drand_round'' (map_option JInt (cp_drand_round x)) @
     opt_field ''drand_chain_hash'' (map_option JStr (cp_drand_chain_hash x)) @
     opt_field ''drand_public_key'' (map_option JStr (cp_drand_public_key x))"

definition ArtifactCryptoPolicy_from_dict :: "dict \<Rightarrow> ArtifactCryptoPolicy res" where
  "ArtifactCryptoPolicy_from_dict d =
     bindE (as_str (get_or d ''mode'' (JStr ''none''))) (\<lambda>mode.
     bindE (as_opt_str (get_none d ''required_signer'')) (\<lambda>required_signer.
     bindE (as_opt_str (get_none d ''recipient'')) (\<lambda>recipient.
     bindE (as_str (get_or d ''cipher_suite'' (JStr ''xor-dev-v1''))) (\<lambda>cipher_suite.
     bindE (as_opt_str (get_none d ''key_id'')) (\<lambda>key_id.
     bindE (as_opt_int (get_none d ''drand_round'')) (\<lambda>drand_round.
     bindE (as_opt_str (get_none d ''drand_chain_hash'')) (\<lambda>drand_chain_hash.
     bindE (as_opt_str (get_none d ''drand_public_key'')) (\<lambda>drand_public_key.
     Inr \<lparr>cp_mode = mode, cp_required_signer = required_signer, cp_recipient = recipient,
          cp_cipher_suite = cipher_suite, cp_key_id = key_id, cp_drand_round = drand_round,
          cp_drand_chain_hash = drand_chain_hash, cp_drand_public_key = drand_public_key\<rparr>))))))))"

record ArtifactEnvelope =
  en_crypto_mode :: string
  en_payload_b64 :: string
  en_plaintext_sha256 :: string
  en_ciphertext_sha256 :: string
  en_signer :: "string option"
  en_signature :: "string option"
  en_cipher_suite :: "string option"
  en_key_id :: "string option"
  en_drand_round :: "int option"
  en_drand_chain_hash :: "string option"
  en_drand_public_key :: "string option"
  en_schema_version :: int

definition ArtifactEnvelope_signed_payload_dict :: "ArtifactEnvelope \<Rightarrow> dict" where
  "ArtifactEnvelope_signed_payload_dict x =
     [(''schema_version'', JInt (en_schema_version x)),
      (''crypto_mode'', JStr (en_crypto_mode x)),
      (''payload_b64'', JStr (en_payload_b64 x)),
      (''plaintext_sha256'', JStr (en_plaintext_sha256 x)),
      (''ciphertext_sha256'', JStr (en_ciphertext_sha256 x)),
      (''signer'', opt_json JStr (en_signer x)),
      (''cipher_suite'', opt_json JStr (en_cipher_suite x)),
      (''key_id'', opt_json JStr (en_key_id x)),
      (''drand_round'', opt_json JInt (en_drand_round x)),
      (''drand_chain_hash'', opt_json JStr (en_drand_chain_hash x)),
      (''drand_public_key'', opt_json JStr (en_drand_public_key x))]"

definition ArtifactEnvelope_to_dict :: "ArtifactEnvelope \<Rightarrow> dict" where
  "ArtifactEnvelope_to_dict x = ArtifactEnvelope_signed_payload_dict x @ [(''signature'', opt_json JStr (en_signature x))]"

definition ArtifactEnvelope_from_dict :: "dict \<Rightarrow> ArtifactEnvelope res" where
  "ArtifactEnvelope_from_dict d =
     bindE (py_int (get_or d ''schema_version'' (JInt 1))) (\<lambda>schema_version.
     bindE (as_str (get_or d ''crypto_mode'' (JStr ''none''))) (\<lambda>crypto_mode.
     bindE (bindE (get_req d ''payload_b64'') as_str) (\<lambda>payload_b64.
     bindE (bindE (get_req d ''plaintext_sha256'') as_str) (\<lambda>plaintext_sha256.
     bindE (bindE (get_req d ''ciphertext_sha256'') as_str) (\<lambda>ciphertext_sha256.
     bindE (as_opt_str (get_none d ''signer'')) (\<lambda>signer.
     bindE (as_opt_str (get_none d ''signature'')) (\<lambda>signature.
     bindE (as_opt_str (get_none d ''cipher_suite'')) (\<lambda>cipher_suite.
     bindE (as_opt_str (get_none d ''key_id'')) (\<lambda>key_id.
     bindE (as_opt_int (get_none d ''drand_round'')) (\<lambda>drand_round.
     bindE (as_opt_str (get_none d ''drand_chain_hash'')) (\<lambda>drand_chain_hash.
     bindE (as_opt_str (get_none d ''drand_public_key'')) (\<lambda>drand_public_key.
     Inr \<lparr>en_crypto_mode = crypto_mode, en_payload_b64 = payload_b64,
          en_plaintext_sha256 = plaintext_sha256, en_ciphertext_sha256 = ciphertext_sha256,
          en_signer = signer, en_signature = signature, en_cipher_suite = cipher_suite,
          en_key_id = key_id, en_drand_round = drand_round,
          en_drand_chain_hash = drand_chain_hash, en_drand_public_key = drand_public_key,
          en_schema_version = schema_version\<rparr>))))))))))))"

record MetagraphMinerIdentity =
  mg_netuid :: int
  mg_uid :: int
  mg_hotkey_ss58 :: string
  mg_coldkey_ss58 :: "string option"
  mg_stake :: "pyfloat option"
  mg_metagraph_block :: "int option"

definition MetagraphMinerIdentity_to_dict :: "MetagraphMinerIdentity \<Rightarrow> dict" where
  "MetagraphMinerIdentity_to_dict x =
     [(''netuid'', JInt (mg_netuid x)),
      (''uid'', JInt (mg_uid x)),
      (''hotkey_ss58'', JStr (mg_hotkey_ss58 x))] @
     opt_field ''coldkey_ss58'' (map_option JStr (mg_coldkey_ss58 x)) @
     opt_field ''stake'' (map_option JFloat (mg_stake x)) @
     opt_field ''metagraph_block'' (map_option JInt (mg_metagraph_block x))"

definition MetagraphMinerIdentity_from_dict :: "dict \<Rightarrow> MetagraphMinerIdentity res" where
  "MetagraphMinerIdentity_from_dict d =
     bindE (bindE (get_req d ''netuid'') py_int) (\<lambda>netuid.
     bindE (bindE (get_req d ''uid'') py_int) (\<lambda>uid.
     bindE (bindE (get_req d ''hotkey_ss58'') as_str) (\<lambda>hotkey_ss58.
     bindE (as_opt_str (get_none d ''coldkey_ss58'')) (\<lambda>coldkey_ss58.
     bindE (as_opt_float (get_none d ''stake'')) (\<lambda>stake.
     bindE (as_opt_int (get_none d ''metagraph_block'')) (\<lambda>metagraph_block.
     Inr \<lparr>mg_netuid = netuid, mg_uid = uid, mg_hotkey_ss58 = hotkey_ss58,
          mg_coldkey_ss58 = coldkey_ss58, mg_stake = stake,
          mg_metagraph_block = metagraph_block\<rparr>))))))"

record PresignedUrlGrant =
  pg_method :: string
  pg_canonical_uri :: string
  pg_url :: string
  pg_expires_unix :: int
  pg_content_sha256 :: "string option"

definition PresignedUrlGrant_to_dict :: "PresignedUrlGrant \<Rightarrow> dict" where
  "PresignedUrlGrant_to_dict x =
     [(''method'', JStr (pg_method x)),
      (''canonical_uri'', JStr (pg_canonical_uri x)),
      (''url'', JStr (pg_url x)),
      (''expires_unix'', JInt (pg_expires_unix x))] @
     opt_field ''content_sha256'' (map_option JStr (pg_content_sha256 x))"

definition PresignedUrlGrant_from_dict :: "dict \<Rightarrow> PresignedUrlGrant res" where
  "PresignedUrlGrant_from_dict d =
     bindE (bindE (get_req d ''method'') as_str) (\<lambda>method.
     bindE (bindE (get_req d ''canonical_uri'') as_str) (\<lambda>canonical_uri.
     bindE (bindE (get_req d ''url'') as_str) (\<lambda>url.
     bindE (bindE (get_req d ''expires_unix'') py_int) (\<lambda>expires_unix.
     bindE (as_opt_str (get_none d ''content_sha256'')) (\<lambda>content_sha256.
     Inr \<lparr>pg_method = method, pg_canonical_uri = canonical_uri, pg_url = url,
          pg_expires_unix = expires_unix, pg_content_sha256 = content_sha256\<rparr>)))))"

record AssignmentGrantV3 =
  ag_job_id :: string
  ag_run_id :: string
  ag_assigned_hotkey :: string
  ag_input_gets :: "PresignedUrlGrant list"
  ag_output_puts :: "PresignedUrlGrant list"
  ag_receipt_put :: "PresignedUrlGrant option"
  ag_created_unix :: int
  ag_expires_unix :: int
  ag_schema_version :: int

definition AssignmentGrantV3_to_dict :: "AssignmentGrantV3 \<Rightarrow> dict" where
  "AssignmentGrantV3_to_dict x =
     [(''schema_version'', JInt (ag_schema_version x)),
      (''job_id'', JStr (ag_job_id x)),
      (''run_id'', JStr (ag_run_id x)),
      (''assigned_hotkey'', JStr (ag_assigned_hotkey x)),
      (''input_gets'', JList (map (\<lambda>r. JObj (PresignedUrlGrant_to_dict r)) (ag_input_gets x))),
      (''output_puts'', JList (map (\<lambda>r. JObj (PresignedUrlGrant_to_dict r)) (ag_output_puts x))),
      (''receipt_put'', opt_json (\<lambda>g. JObj (PresignedUrlGrant_to_dict g)) (ag_receipt_put x)),
      (''created_unix'', JInt (ag_created_unix x)),
      (''expires_unix'', JInt (ag_expires_unix x))]"

definition AssignmentGrantV3_from_dict :: "dict \<Rightarrow> AssignmentGrantV3 res" where
  "AssignmentGrantV3_from_dict d =
     bindE (py_int (get_or d ''schema_version'' (JInt 1))) (\<lambda>schema_version.
     bindE (bindE (get_req d ''job_id'') as_str) (\<lambda>job_id.
     bindE (bindE (get_req d ''run_id'') as_str) (\<lambda>run_id.
     bindE (bindE (get_req d ''assigned_hotkey'') as_str) (\<lambda>assigned_hotkey.
     bindE (records_of PresignedUrlGrant_from_dict (get_or d ''input_gets'' (JList []))) (\<lambda>input_gets.
     bindE (records_of PresignedUrlGrant_from_dict (get_or d ''output_puts'' (JList []))) (\<lambda>output_puts.
     bindE (opt_record as_dict PresignedUrlGrant_from_dict (get_none d ''receipt_put'')) (\<lambda>receipt_put.
     bindE (py_int (get_or d ''created_unix'' (JInt 0))) (\<lambda>created_unix.
     bindE (py_int (get_or d ''expires_unix'' (JInt 0))) (\<lambda>expires_unix.
     Inr \<lparr>ag_job_id = job_id, ag_run_id = run_id, ag_assigned_hotkey = assigned_hotkey,
          ag_input_gets = input_gets, ag_output_puts = output_puts,
          ag_receipt_put = receipt_put, ag_created_unix = created_unix,
          ag_expires_unix = expires_unix, ag_schema_version = schema_version\<rparr>)))))))))"

record EncryptedAssignmentGrantV3 =
  eg_job_id :: string
  eg_run_id :: string
  eg_recipient_hotkey :: string
  eg_ciphertext_b64 :: string
  eg_crypto_scheme :: string
  eg_recipient_uid :: "int option"
  eg_metagraph_block :: "int option"
  eg_metagraph_hash :: "string option"
  eg_sender_hotkey :: "string option"
  eg_sender_public_key_hex :: "string option"
  eg_recipient_public_key_hex :: "string option"
  eg_schema_version :: int

definition EncryptedAssignmentGrantV3_to_dict :: "EncryptedAssignmentGrantV3 \<Rightarrow> dict" where
  "EncryptedAssignmentGrantV3_to_dict x =
     [(''schema_version'', JInt (eg_schema_version x)),
      (''job_id'', JStr (eg_job_id x)),
      (''run_id'', JStr (eg_run_id x)),
      (''recipient_hotkey'', JStr (eg_recipient_hotkey x)),
      (''ciphertext_b64'', JStr (eg_ciphertext_b64 x)),
      (''crypto_scheme'', JStr (eg_crypto_scheme x))] @
     opt_field ''recipient_uid'' (map_option JInt (eg_recipient_uid x)) @
     opt_field ''metagraph_block'' (map_option JInt (eg_metagraph_block x)) @
     opt_field ''metagraph_hash'' (map_option JStr (eg_metagraph_hash x)) @
     opt_field ''sender_hotkey'' (map_option JStr (eg_sender_hotkey x)) @
     opt_field ''sender_public_key_hex'' (map_option JStr (eg_sender_public_key_hex x)) @
     opt_field ''recipient_public_key_hex'' (map_option JStr (eg_recipient_public_key_hex x))"

definition EncryptedAssignmentGrantV3_from_dict :: "dict \<Rightarrow> EncryptedAssignmentGrantV3 res" where
  "EncryptedAssignmentGrantV3_from_dict d =
     bindE (py_int (get_or d ''schema_version'' (JInt 1))) (\<lambda>schema_version.
     bindE (bindE (get_req d ''job_id'') as_str) (\<lambda>job_id.
     bindE (bindE (get_req d ''run_id'') as_str) (\<lambda>run_id.
     bindE (bindE (get_req d ''recipient_hotkey'') as_str) (\<lambda>recipient_hotkey.
     bindE (bindE (get_req d ''ciphertext_b64'') as_str) (\<lambda>ciphertext_b64.
     bindE (as_str (get_or d ''crypto_scheme'' (JStr ''dev-xor-v1''))) (\<lambda>crypto_scheme.
     bindE (as_opt_int (get_none d ''recipient_uid'')) (\<lambda>recipient_uid.
     bindE (as_opt_int (get_none d ''metagraph_block'')) (\<lambda>metagraph_block.
     bindE (as_opt_str (get_none d ''metagraph_hash'')) (\<lambda>metagraph_hash.
     bindE (as_opt_str (get_none d ''sender_hotkey'')) (\<lambda>sender_hotkey.
     bindE (as_opt_str (get_none d ''sender_public_key_hex'')) (\<lambda>sender_public_key_hex.
     bindE (as_opt_str (get_none d ''recipient_public_key_hex'')) (\<lambda>recipient_public_key_hex.
     Inr \<lparr>eg_job_id = job_id, eg_run_id = run_id, eg_recipient_hotkey = recipient_hotkey,
          eg_ciphertext_b64 = ciphertext_b64, eg_crypto_scheme = crypto_scheme,
          eg_recipient_uid = recipient_uid, eg_metagraph_block = metagraph_block,
          eg_metagraph_hash = metagraph_hash, eg_sender_hotkey = sender_hotkey,
          eg_sender_public_key_hex = sender_public_key_hex,
          eg_recipient_public_key_hex = recipient_public_key_hex,
          eg_schema_version = schema_version\<rparr>))))))))))))"

record ArtifactRef =
  ar_name :: string
  ar_uri :: string
  ar_sha256 :: "string option"
  ar_size_bytes :: "int option"
  ar_crypto :: "ArtifactCryptoPolicy option"

definition ArtifactRef_to_dict :: "ArtifactRef \<Rightarrow> dict" where
  "ArtifactRef_to_dict x =
     [(''name'', JStr (ar_name x)),
      (''uri'', JStr (ar_uri x))] @
     opt_field ''sha256'' (map_option JStr (ar_sha256 x)) @
     opt_field ''size_bytes'' (map_option JInt (ar_size_bytes x)) @
     opt_field ''crypto'' (map_option (\<lambda>c. JObj (ArtifactCryptoPolicy_to_dict c)) (ar_crypto x))"

definition ArtifactRef_from_dict :: "dict \<Rightarrow> ArtifactRef res" where
  "ArtifactRef_from_dict d =
     bindE (bindE (get_req d ''name'') as_str) (\<lambda>name.
     bindE (bindE (get_req d ''uri'') as_str) (\<lambda>uri.
     bindE (as_opt_str (get_none d ''sha256'')) (\<lambda>sha.
     bindE (as_opt_int (get_none d ''size_bytes'')) (\<lambda>size_bytes.
     bindE (opt_record dict_or_empty ArtifactCryptoPolicy_from_dict (get_none d ''crypto'')) (\<lambda>crypto.
     Inr \<lparr>ar_name = name, ar_uri = uri, ar_sha256 = sha, ar_size_bytes = size_bytes,
          ar_crypto = crypto\<rparr>)))))"

record ShardSpec =
  sh_rank :: int
  sh_uri :: string
  sh_offset :: int
  sh_length :: "int option"
  sh_sha256 :: "string option"
  sh_size_bytes :: "int option"

definition ShardSpec_to_dict :: "ShardSpec \<Rightarrow> dict" where
  "ShardSpec_to_dict x =
     [(''rank'', JInt (sh_rank x)),
      (''uri'', JStr (sh_uri x)),
      (''offset'', JInt (sh_offset x))] @
     opt_field ''length'' (map_option JInt (sh_length x)) @
     opt_field ''sha256'' (map_option JStr (sh_sha256 x)) @
     opt_field ''size_bytes'' (map_option JInt (sh_size_bytes x))"

definition ShardSpec_from_dict :: "dict \<Rightarrow> ShardSpec res" where
  "ShardSpec_from_dict d =
     bindE (bindE (get_req d ''rank'') py_int) (\<lambda>rank.
     bindE (bindE (get_req d ''uri'') as_str) (\<lambda>uri.
     bindE (py_int (get_or d ''offset'' (JInt 0))) (\<lambda>offset.
     bindE (opt_py_int (get_none d ''length'')) (\<lambda>len.
     bindE (as_opt_str (get_none d ''sha256'')) (\<lambda>sha.
     bindE (opt_py_int (get_none d ''size_bytes'')) (\<lambda>size_bytes.
     Inr \<lparr>sh_rank = rank, sh_uri = uri, sh_offset = offset, sh_length = len, sh_sha256 = sha,
          sh_size_bytes = size_bytes\<rparr>))))))"

record ShardedTensorManifest =
  st_name :: string
  st_shape :: "int list"
  st_dtype :: string
  st_partition_dim :: int
  st_world_size :: int
  st_shards :: "ShardSpec list"
  st_layout :: string

definition ShardedTensorManifest_to_dict :: "ShardedTensorManifest \<Rightarrow> dict" where
  "ShardedTensorManifest_to_dict x =
     [(''name'', JStr (st_name x)),
      (''shape'', JList (map JInt (st_shape x))),
      (''dtype'', JStr (st_dtype x)),
      (''partition_dim'', JInt (st_partition_dim x)),
      (''world_size'', JInt (st_world_size x)),
      (''layout'', JStr (st_layout x)),
      (''shards'', JList (map (\<lambda>r. JObj (ShardSpec_to_dict r)) (st_shards x)))]"

definition ShardedTensorManifest_from_dict :: "dict \<Rightarrow> ShardedTensorManifest res" where
  "ShardedTensorManifest_from_dict d =
     bindE (bindE (get_req d ''name'') as_str) (\<lambda>name.
     bindE (ints_of (get_or d ''shape'' (JList []))) (\<lambda>shape.
     bindE (bindE (get_req d ''dtype'') as_str) (\<lambda>dtype.
     bindE (py_int (get_or d ''partition_dim'' (JInt 0))) (\<lambda>partition_dim.
     bindE (bindE (get_req d ''world_size'') py_int) (\<lambda>world_size.
     bindE (as_str (get_or d ''layout'' (JStr ''rank_sharded_v1''))) (\<lambda>layout.
     bindE (records_of ShardSpec_from_dict (get_or d ''shards'' (JList []))) (\<lambda>shards.
     Inr \<lparr>st_name = name, st_shape = shape, st_dtype = dtype, st_partition_dim = partition_dim,
          st_world_size = world_size, st_shards = shards, st_layout = layout\<rparr>)))))))"

record ArtifactDigest =
  ad_name :: string
  ad_uri :: string
  ad_sha256 :: string
  ad_size_bytes :: int
  ad_plaintext_sha256 :: "string option"
  ad_ciphertext_sha256 :: "string option"
  ad_envelope_sha256 :: "string option"
  ad_signature :: "string option"
  ad_crypto_mode :: string
  ad_sharded :: "ShardedTensorManifest option"

definition ArtifactDigest_to_dict :: "ArtifactDigest \<Rightarrow> dict" where
  "ArtifactDigest_to_dict x =
     [(''name'', JStr (ad_name x)),
      (''uri'', JStr (ad_uri x)),
      (''sha256'', JStr (ad_sha256 x)),
      (''size_bytes'', JInt (ad_size_bytes x)),
      (''crypto_mode'', JStr (ad_crypto_mode x))] @
     opt_field ''plaintext_sha256'' (map_option JStr (ad_plaintext_sha256 x)) @
     opt_field ''ciphertext_sha256'' (map_option JStr (ad_ciphertext_sha256 x)) @
     opt_field ''envelope_sha256'' (map_option JStr (ad_envelope_sha256 x)) @
     opt_field ''signature'' (map_option JStr (ad_signature x)) @
     opt_field ''sharded'' (map_option (\<lambda>c. JObj (ShardedTensorManifest_to_dict c)) (ad_sharded x))"

definition ArtifactDigest_from_dict :: "dict \<Rightarrow> ArtifactDigest res" where
  "ArtifactDigest_from_dict d =
     bindE (bindE (get_req d ''name'') as_str) (\<lambda>name.
     bindE (bindE (get_req d ''uri'') as_str) (\<lambda>uri.
     bindE (bindE (get_req d ''sha256'') as_str) (\<lambda>sha.
     bindE (bindE (get_req d ''size_bytes'') py_int) (\<lambda>size_bytes.
     bindE (as_opt_str (get_none d ''plaintext_sha256'')) (\<lambda>plaintext_sha256.
     bindE (as_opt_str (get_none d ''ciphertext_sha256'')) (\<lambda>ciphertext_sha256.
     bindE (as_opt_str (get_none d ''envelope_sha256'')) (\<lambda>envelope_sha256.
     bindE (as_opt_str (get_none d ''signature'')) (\<lambda>signature.
     bindE (as_str (get_or d ''crypto_mode'' (JStr ''none''))) (\<lambda>crypto_mode.
     bindE (opt_record as_dict ShardedTensorManifest_from_dict (get_none d ''sharded'')) (\<lambda>sharded.
     Inr \<lparr>ad_name = name, ad_uri = uri, ad_sha256 = sha, ad_size_bytes = size_bytes,
          ad_plaintext_sha256 = plaintext_sha256, ad_ciphertext_sha256 = ciphertext_sha256,
          ad_envelope_sha256 = envelope_sha256, ad_signature = signature,
          ad_crypto_mode = crypto_mode, ad_sharded = sharded\<rparr>))))))))))"

record GraphRef =
  gr_sha256 :: string
  gr_uri :: string

definition GraphRef_to_dict :: "GraphRef \<Rightarrow> dict" where
  "GraphRef_to_dict x =
     [(''sha256'', JStr (gr_sha256 x)),
      (''uri'', JStr (gr_uri x))]"

definition GraphRef_from_dict :: "dict \<Rightarrow> GraphRef res" where
  "GraphRef_from_dict d =
     bindE (bindE (get_req d ''sha256'') as_str) (\<lambda>sha.
     bindE (bindE (get_req d ''uri'') as_str) (\<lambda>uri.
     Inr \<lparr>gr_sha256 = sha, gr_uri = uri\<rparr>))"

record MinerIdentity =
  mi_netuid :: int
  mi_hotkey_ss58 :: string
  mi_uid :: "int option"
  mi_endpoint :: "string option"
  mi_commitment_hash :: "string option"
  mi_capabilities :: dict

definition MinerIdentity_to_dict :: "MinerIdentity \<Rightarrow> dict" where
  "MinerIdentity_to_dict x =
     [(''netuid'', JInt (mi_netuid x)),
      (''hotkey_ss58'', JStr (mi_hotkey_ss58 x)),
      (''uid'', opt_json JInt (mi_uid x)),
      (''endpoint'', opt_json JStr (mi_endpoint x)),
      (''commitment_hash'', opt_json JStr (mi_commitment_hash x)),
      (''capabilities'', JObj (mi_capabilities x))]"

definition MinerIdentity_from_dict :: "dict \<Rightarrow> MinerIdentity res" where
  "MinerIdentity_from_dict d =
     bindE (bindE (get_req d ''netuid'') py_int) (\<lambda>netuid.
     bindE (bindE (get_req d ''hotkey_ss58'') as_str) (\<lambda>hotkey_ss58.
     bindE (as_opt_int (get_none d ''uid'')) (\<lambda>uid.
     bindE (as_opt_str (get_none d ''endpoint'')) (\<lambda>endpoint.
     bindE (as_opt_str (get_none d ''commitment_hash'')) (\<lambda>commitment_hash.
     bindE (dict_or_empty (get_none d ''capabilities'')) (\<lambda>capabilities.
     Inr \<lparr>mi_netuid = netuid, mi_hotkey_ss58 = hotkey_ss58, mi_uid = uid,
          mi_endpoint = endpoint, mi_commitment_hash = commitment_hash,
          mi_capabilities = capabilities\<rparr>))))))"

record WorkerIdentity =
  wi_hotkey_ss58 :: string
  wi_worker_id :: string
  wi_host_id :: string
  wi_gpu_index :: "int option"
  wi_session_nonce :: string
  wi_software_hash :: string
  wi_device_group :: "int list"
  wi_worker_group_id :: "string option"
  wi_capabilities :: dict

definition WorkerIdentity_to_dict :: "WorkerIdentity \<Rightarrow> dict" where
  "WorkerIdentity_to_dict x =
     [(''hotkey_ss58'', JStr (wi_hotkey_ss58 x)),
      (''worker_id'', JStr (wi_worker_id x)),
      (''host_id'', JStr (wi_host_id x)),
      (''gpu_index'', opt_json JInt (wi_gpu_index x)),
      (''session_nonce'', JStr (wi_session_nonce x)),
      (''software_hash'', JStr (wi_software_hash x))] @
     opt_field ''device_group'' (nonempty_ints (wi_device_group x)) @
     opt_field ''worker_group_id'' (map_option JStr (wi_worker_group_id x)) @
     opt_field ''capabilities'' (nonempty_dict (wi_capabilities x))"

definition WorkerIdentity_from_dict :: "dict \<Rightarrow> WorkerIdentity res" where
  "WorkerIdentity_from_dict d =
     bindE (bindE (get_req d ''hotkey_ss58'') as_str) (\<lambda>hotkey_ss58.
     bindE (bindE (get_req d ''worker_id'') as_str) (\<lambda>worker_id.
     bindE (as_str (get_or d ''host_id'' (JStr ''unknown''))) (\<lambda>host_id.
     bindE (as_opt_int (get_none d ''gpu_index'')) (\<lambda>gpu_index.
     bindE (as_str (get_or d ''session_nonce'' (JStr ''unknown''))) (\<lambda>session_nonce.
     bindE (as_str (get_or d ''software_hash'' (JStr ''dev''))) (\<lambda>software_hash.
     bindE (ints_of (get_or d ''device_group'' (JList []))) (\<lambda>device_group.
     bindE (as_opt_str (get_none d ''worker_group_id'')) (\<lambda>worker_group_id.
     bindE (dict_or_empty (get_none d ''capabilities'')) (\<lambda>capabilities.
     Inr \<lparr>wi_hotkey_ss58 = hotkey_ss58, wi_worker_id = worker_id, wi_host_id = host_id,
          wi_gpu_index = gpu_index, wi_session_nonce = session_nonce,
          wi_software_hash = software_hash, wi_device_group = device_group,
          wi_worker_group_id = worker_group_id, wi_capabilities = capabilities\<rparr>)))))))))"

record ResourceRequirements =
  rr_min_gpus :: int
  rr_placement :: string
  rr_parallelism :: dict

definition ResourceRequirements_is_default :: "ResourceRequirements \<Rightarrow> bool" where
  "ResourceRequirements_is_default r =
     (rr_min_gpus r = 1 \<and> rr_placement r = ''single_worker'' \<and> rr_parallelism r = [])"

definition ResourceRequirements_to_dict :: "ResourceRequirements \<Rightarrow> dict" where
  "ResourceRequirements_to_dict x =
     [(''min_gpus'', JInt (rr_min_gpus x)),
      (''placement'', JStr (rr_placement x))] @
     opt_field ''parallelism'' (nonempty_dict (rr_parallelism x))"

definition ResourceRequirements_from_dict :: "dict \<Rightarrow> ResourceRequirements res" where
  "ResourceRequirements_from_dict d =
     bindE (py_int (get_or d ''min_gpus'' (JInt 1))) (\<lambda>min_gpus.
     bindE (as_str (get_or d ''placement'' (JStr ''single_worker''))) (\<lambda>placement.
     bindE (dict_or_empty (get_none d ''parallelism'')) (\<lambda>parallelism.
     Inr \<lparr>rr_min_gpus = min_gpus, rr_placement = placement, rr_parallelism = parallelism\<rparr>)))"

record VerificationPolicy =
  vp_method :: string
  vp_comparator :: string
  vp_rtol :: pyfloat
  vp_atol :: pyfloat
  vp_max_sample_elements :: int
  vp_sample_seed :: int
  vp_critical :: bool

definition VerificationPolicy_to_dict :: "VerificationPolicy \<Rightarrow> dict" where
  "VerificationPolicy_to_dict x =
     [(''method'', JStr (vp_method x)),
      (''comparator'', JStr (vp_comparator x)),
      (''rtol'', JFloat (vp_rtol x)),
      (''atol'', JFloat (vp_atol x)),
      (''max_sample_elements'', JInt (vp_max_sample_elements x)),
      (''sample_seed'', JInt (vp_sample_seed x)),
      (''critical'', JBool (vp_critical x))]"

definition VerificationPolicy_from_dict :: "platform \<Rightarrow> dict \<Rightarrow> VerificationPolicy res" where
  "VerificationPolicy_from_dict P d =
     bindE (as_str (get_or d ''method'' (JStr ''replay_ir_v1''))) (\<lambda>method.
     bindE (as_str (get_or d ''comparator'' (JStr ''auto''))) (\<lambda>comparator.
     bindE (py_float P (get_or d ''rtol'' (JFloat (1 / 1000)))) (\<lambda>rtol.
     bindE (py_float P (get_or d ''atol'' (JFloat (1 / 10000)))) (\<lambda>atol.
     bindE (py_int (get_or d ''max_sample_elements'' (JInt 4096))) (\<lambda>max_sample_elements.
     bindE (py_int (get_or d ''sample_seed'' (JInt 0))) (\<lambda>sample_seed.
     bindE (Inr (truthy (get_or d ''critical'' (JBool False)))) (\<lambda>critical.
     Inr \<lparr>vp_method = method, vp_comparator = comparator, vp_rtol = rtol, vp_atol = atol,
          vp_max_sample_elements = max_sample_elements, vp_sample_seed = sample_seed,
          vp_critical = critical\<rparr>)))))))"

record JobManifestV3 =
  mf_job_id :: string
  mf_run_id :: string
  mf_step_id :: int
  mf_kind :: string
  mf_graph_ref :: GraphRef
  mf_params :: dict
  mf_inputs :: "ArtifactRef list"
  mf_outputs :: "ArtifactRef list"
  mf_assigned_hotkey :: string
  mf_assigned_worker :: "string option"
  mf_attempt :: int
  mf_deadline_unix :: int
  mf_created_unix :: int
  mf_resource_requirements :: ResourceRequirements
  mf_verification_policy :: VerificationPolicy
  mf_owner_signature :: "string option"
  mf_schema_version :: int

definition JobManifestV3_unsigned_dict :: "JobManifestV3 \<Rightarrow> dict" where
  "JobManifestV3_unsigned_dict x =
     [(''schema_version'', JInt (mf_schema_version x)),
      (''job_id'', JStr (mf_job_id x)),
      (''run_id'', JStr (mf_run_id x)),
      (''step_id'', JInt (mf_step_id x)),
      (''kind'', JStr (mf_kind x)),
      (''graph_ref'', JObj (GraphRef_to_dict (mf_graph_ref x))),
      (''params'', JObj (mf_params x)),
      (''inputs'', JList (map (\<lambda>r. JObj (ArtifactRef_to_dict r)) (mf_inputs x))),
      (''outputs'', JList (map (\<lambda>r. JObj (ArtifactRef_to_dict r)) (mf_outputs x))),
      (''assigned_hotkey'', JStr (mf_assigned_hotkey x)),
      (''assigned_worker'', opt_json JStr (mf_assigned_worker x)),
      (''attempt'', JInt (mf_attempt x)),
      (''deadline_unix'', JInt (mf_deadline_unix x)),
      (''created_unix'', JInt (mf_created_unix x)),
      (''verification_policy'', JObj (VerificationPolicy_to_dict (mf_verification_policy x)))] @
     opt_field ''resource_requirements'' (if ResourceRequirements_is_default (mf_resource_requirements x) then None
        else Some (JObj (ResourceRequirements_to_dict (mf_resource_requirements x))))"

definition manifest_hash :: "platform \<Rightarrow> JobManifestV3 \<Rightarrow> string" where
  "manifest_hash P m = digest_dict P (JobManifestV3_unsigned_dict m)"

definition JobManifestV3_to_dict :: "platform \<Rightarrow> JobManifestV3 \<Rightarrow> dict" where
  "JobManifestV3_to_dict P x =
     JobManifestV3_unsigned_dict x @
     [(''manifest_hash'', JStr (manifest_hash P x)), (''owner_signature'', opt_json JStr (mf_owner_signature x))]"

definition JobManifestV3_from_dict :: "platform \<Rightarrow> dict \<Rightarrow> JobManifestV3 res" where
  "JobManifestV3_from_dict P d =
     bindE (py_int (get_or d ''schema_version'' (JInt 3))) (\<lambda>schema_version.
     bindE (bindE (get_req d ''job_id'') as_str) (\<lambda>job_id.
     bindE (bindE (get_req d ''run_id'') as_str) (\<lambda>run_id.
     bindE (bindE (get_req d ''step_id'') py_int) (\<lambda>step_id.
     bindE (bindE (get_req d ''kind'') as_str) (\<lambda>kind.
     bindE (bindE (bindE (get_req d ''graph_ref'') as_dict) GraphRef_from_dict) (\<lambda>graph_ref.
     bindE (dict_or_empty (get_none d ''params'')) (\<lambda>params.
     bindE (bindE (get_req d ''inputs'') (records_of ArtifactRef_from_dict)) (\<lambda>inputs.
     bindE (bindE (get_req d ''outputs'') (records_of ArtifactRef_from_dict)) (\<lambda>outputs.
     bindE (bindE (get_req d ''assigned_hotkey'') as_str) (\<lambda>assigned_hotkey.
     bindE (as_opt_str (get_none d ''assigned_worker'')) (\<lambda>assigned_worker.
     bindE (py_int (get_or d ''attempt'' (JInt 0))) (\<lambda>attempt.
     bindE (bindE (get_req d ''deadline_unix'') py_int) (\<lambda>deadline_unix.
     bindE (bindE (get_req d ''created_unix'') py_int) (\<lambda>created_unix.
     bindE (bindE (dict_or_empty (get_none d ''resource_requirements'')) ResourceRequirements_from_dict) (\<lambda>resource_requirements.
     bindE (bindE (dict_or_empty (get_none d ''verification_policy'')) (VerificationPolicy_from_dict P)) (\<lambda>verification_policy.
     bindE (as_opt_str (get_none d ''owner_signature'')) (\<lambda>owner_signature.
     Inr \<lparr>mf_job_id = job_id, mf_run_id = run_id, mf_step_id = step_id, mf_kind = kind,
          mf_graph_ref = graph_ref, mf_params = params, mf_inputs = inputs,
          mf_outputs = outputs, mf_assigned_hotkey = assigned_hotkey,
          mf_assigned_worker = assigned_worker, mf_attempt = attempt,
          mf_deadline_unix = deadline_unix, mf_created_unix = created_unix,
          mf_resource_requirements = resource_requirements,
          mf_verification_policy = verification_policy, mf_owner_signature = owner_signature,
          mf_schema_version = schema_version\<rparr>)))))))))))))))))"

record JobReceiptV3 =
  rc_receipt_id :: string
  rc_manifest_hash :: string
  rc_job_id :: string
  rc_run_id :: string
  rc_step_id :: int
  rc_kind :: string
  rc_worker :: WorkerIdentity
  rc_input_digests :: "ArtifactDigest list"
  rc_output_digests :: "ArtifactDigest list"
  rc_started_unix :: pyfloat
  rc_finished_unix :: pyfloat
  rc_compute_sec :: pyfloat
  rc_claimed_bytes_read :: int
  rc_claimed_bytes_written :: int
  rc_execution :: dict
  rc_miner_signature :: "string option"
  rc_schema_version :: int

definition JobReceiptV3_unsigned_dict :: "JobReceiptV3 \<Rightarrow> dict" where
  "JobReceiptV3_unsigned_dict x =
     [(''schema_version'', JInt (rc_schema_version x)),
      (''receipt_id'', JStr (rc_receipt_id x)),
      (''manifest_hash'', JStr (rc_manifest_hash x)),
      (''job_id'', JStr (rc_job_id x)),
      (''run_id'', JStr (rc_run_id x)),
      (''step_id'', JInt (rc_step_id x)),
      (''kind'', JStr (rc_kind x)),
      (''worker'', JObj (WorkerIdentity_to_dict (rc_worker x))),
      (''input_digests'', JList (map (\<lambda>r. JObj (ArtifactDigest_to_dict r)) (rc_input_digests x))),
      (''output_digests'', JList (map (\<lambda>r. JObj (ArtifactDigest_to_dict r)) (rc_output_digests x))),
      (''started_unix'', JFloat (rc_started_unix x)),
      (''finished_unix'', JFloat (rc_finished_unix x)),
      (''compute_sec'', JFloat (rc_compute_sec x)),
      (''claimed_bytes_read'', JInt (rc_claimed_bytes_read x)),
      (''claimed_bytes_written'', JInt (rc_claimed_bytes_written x))] @
     opt_field ''execution'' (nonempty_dict (rc_execution x))"

definition JobReceiptV3_to_dict :: "JobReceiptV3 \<Rightarrow> dict" where
  "JobReceiptV3_to_dict x = JobReceiptV3_unsigned_dict x @ [(''miner_signature'', opt_json JStr (rc_miner_signature x))]"

definition JobReceiptV3_from_dict :: "platform \<Rightarrow> dict \<Rightarrow> JobReceiptV3 res" where
  "JobReceiptV3_from_dict P d =
     bindE (py_int (get_or d ''schema_version'' (JInt 3))) (\<lambda>schema_version.
     bindE (bindE (get_req d ''receipt_id'') as_str) (\<lambda>receipt_id.
     bindE (bindE (get_req d ''manifest_hash'') as_str) (\<lambda>manifest_hash.
     bindE (bindE (get_req d ''job_id'') as_str) (\<lambda>job_id.
     bindE (bindE (get_req d ''run_id'') as_str) (\<lambda>run_id.
     bindE (bindE (get_req d ''step_id'') py_int) (\<lambda>step_id.
     bindE (bindE (get_req d ''kind'') as_str) (\<lambda>kind.
     bindE (bindE (bindE (get_req d ''worker'') as_dict) WorkerIdentity_from_dict) (\<lambda>worker.
     bindE (records_of ArtifactDigest_from_dict (get_or d ''input_digests'' (JList []))) (\<lambda>input_digests.
     bindE (records_of ArtifactDigest_from_dict (get_or d ''output_digests'' (JList []))) (\<lambda>output_digests.
     bindE (py_float P (get_or d ''started_unix'' (JFloat 0))) (\<lambda>started_unix.
     bindE (py_float P (get_or d ''finished_unix'' (JFloat 0))) (\<lambda>finished_unix.
     bindE (py_float P (get_or d ''compute_sec'' (JFloat 0))) (\<lambda>compute_sec.
     bindE (py_int (get_or d ''claimed_bytes_read'' (JInt 0))) (\<lambda>claimed_bytes_read.
     bindE (py_int (get_or d ''claimed_bytes_written'' (JInt 0))) (\<lambda>claimed_bytes_written.
     bindE (dict_or_empty (get_none d ''execution'')) (\<lambda>execution.
     bindE (as_opt_str (get_none d ''miner_signature'')) (\<lambda>miner_signature.
     Inr \<lparr>rc_receipt_id = receipt_id, rc_manifest_hash = manifest_hash, rc_job_id = job_id,
          rc_run_id = run_id, rc_step_id = step_id, rc_kind = kind, rc_worker = worker,
          rc_input_digests = input_digests, rc_output_digests = output_digests,
          rc_started_unix = started_unix, rc_finished_unix = finished_unix,
          rc_compute_sec = compute_sec, rc_claimed_bytes_read = claimed_bytes_read,
          rc_claimed_bytes_written = claimed_bytes_written, rc_execution = execution,
          rc_miner_signature = miner_signature, rc_schema_version = schema_version\<rparr>)))))))))))))))))"

record VerificationVerdictV3 =
  vv_verdict_id :: string
  vv_receipt_id :: string
  vv_manifest_hash :: string
  vv_job_id :: string
  vv_run_id :: string
  vv_miner_hotkey :: string
  vv_validator_hotkey :: string
  vv_status :: string
  vv_reason :: string
  vv_estimated_cu :: pyfloat
  vv_replay_compute_sec :: pyfloat
  vv_checked_unix :: pyfloat
  vv_comparison :: dict
  vv_validator_signature :: "string option"
  vv_schema_version :: int

definition VerificationVerdictV3_unsigned_dict :: "VerificationVerdictV3 \<Rightarrow> dict" where
  "VerificationVerdictV3_unsigned_dict x =
     [(''schema_version'', JInt (vv_schema_version x)),
      (''verdict_id'', JStr (vv_verdict_id x)),
      (''receipt_id'', JStr (vv_receipt_id x)),
      (''manifest_hash'', JStr (vv_manifest_hash x)),
      (''job_id'', JStr (vv_job_id x)),
      (''run_id'', JStr (vv_run_id x)),
      (''miner_hotkey'', JStr (vv_miner_hotkey x)),
      (''validator_hotkey'', JStr (vv_validator_hotkey x)),
      (''status'', JStr (vv_status x)),
      (''reason'', JStr (vv_reason x)),
      (''estimated_cu'', JFloat (vv_estimated_cu x)),
      (''replay_compute_sec'', JFloat (vv_replay_compute_sec x)),
      (''checked_unix'', JFloat (vv_checked_unix x)),
      (''comparison'', JObj (vv_comparison x))]"

definition VerificationVerdictV3_to_dict :: "VerificationVerdictV3 \<Rightarrow> dict" where
  "VerificationVerdictV3_to_dict x = VerificationVerdictV3_unsigned_dict x @ [(''validator_signature'', opt_json JStr (vv_validator_signature x))]"

definition VerificationVerdictV3_from_dict :: "platform \<Rightarrow> dict \<Rightarrow> VerificationVerdictV3 res" where
  "VerificationVerdictV3_from_dict P d =
     bindE (py_int (get_or d ''schema_version'' (JInt 3))) (\<lambda>schema_version.
     bindE (bindE (get_req d ''verdict_id'') as_str) (\<lambda>verdict_id.
     bindE (bindE (get_req d ''receipt_id'') as_str) (\<lambda>receipt_id.
     bindE (bindE (get_req d ''manifest_hash'') as_str) (\<lambda>manifest_hash.
     bindE (bindE (get_req d ''job_id'') as_str) (\<lambda>job_id.
     bindE (bindE (get_req d ''run_id'') as_str) (\<lambda>run_id.
     bindE (bindE (get_req d ''miner_hotkey'') as_str) (\<lambda>miner_hotkey.
     bindE (bindE (get_req d ''validator_hotkey'') as_str) (\<lambda>validator_hotkey.
     bindE (bindE (get_req d ''status'') as_str) (\<lambda>status.
     bindE (as_str (get_or d ''reason'' (JStr []))) (\<lambda>reason.
     bindE (py_float P (get_or d ''estimated_cu'' (JFloat 0))) (\<lambda>estimated_cu.
     bindE (py_float P (get_or d ''replay_compute_sec'' (JFloat 0))) (\<lambda>replay_compute_sec.
     bindE (py_float P (get_or d ''checked_unix'' (JFloat 0))) (\<lambda>checked_unix.
     bindE (dict_or_empty (get_none d ''comparison'')) (\<lambda>comparison.
     bindE (as_opt_str (get_none d ''validator_signature'')) (\<lambda>validator_signature.
     Inr \<lparr>vv_verdict_id = verdict_id, vv_receipt_id = receipt_id,
          vv_manifest_hash = manifest_hash, vv_job_id = job_id, vv_run_id = run_id,
          vv_miner_hotkey = miner_hotkey, vv_validator_hotkey = validator_hotkey,
          vv_status = status, vv_reason = reason, vv_estimated_cu = estimated_cu,
          vv_replay_compute_sec = replay_compute_sec, vv_checked_unix = checked_unix,
          vv_comparison = comparison, vv_validator_signature = validator_signature,
          vv_schema_version = schema_version\<rparr>)))))))))))))))"

record AuditResultV3 =
  au_audit_id :: string
  au_receipt_id :: string
  au_manifest_hash :: string
  au_job_id :: string
  au_run_id :: string
  au_miner_hotkey :: string
  au_auditor_hotkey :: string
  au_status :: string
  au_reason :: string
  au_replay_compute_sec :: pyfloat
  au_checked_unix :: pyfloat
  au_comparison :: dict
  au_auditor_signature :: "string option"
  au_schema_version :: int

definition AuditResultV3_unsigned_dict :: "AuditResultV3 \<Rightarrow> dict" where
  "AuditResultV3_unsigned_dict x =
     [(''schema_version'', JInt (au_schema_version x)),
      (''audit_id'', JStr (au_audit_id x)),
      (''receipt_id'', JStr (au_receipt_id x)),
      (''manifest_hash'', JStr (au_manifest_hash x)),
      (''job_id'', JStr (au_job_id x)),
      (''run_id'', JStr (au_run_id x)),
      (''miner_hotkey'', JStr (au_miner_hotkey x)),
      (''auditor_hotkey'', JStr (au_auditor_hotkey x)),
      (''status'', JStr (au_status x)),
      (''reason'', JStr (au_reason x)),
      (''replay_compute_sec'', JFloat (au_replay_compute_sec x)),
      (''checked_unix'', JFloat (au_checked_unix x)),
      (''comparison'', JObj (au_comparison x))]"

definition AuditResultV3_to_dict :: "AuditResultV3 \<Rightarrow> dict" where
  "AuditResultV3_to_dict x = AuditResultV3_unsigned_dict x @ [(''auditor_signature'', opt_json JStr (au_auditor_signature x))]"

definition AuditResultV3_from_dict :: "platform \<Rightarrow> dict \<Rightarrow> AuditResultV3 res" where
  "AuditResultV3_from_dict P d =
     bindE (py_int (get_or d ''schema_version'' (JInt 1))) (\<lambda>schema_version.
     bindE (bindE (get_req d ''audit_id'') as_str) (\<lambda>audit_id.
     bindE (bindE (get_req d ''receipt_id'') as_str) (\<lambda>receipt_id.
     bindE (bindE (get_req d ''manifest_hash'') as_str) (\<lambda>manifest_hash.
     bindE (bindE (get_req d ''job_id'') as_str) (\<lambda>job_id.
     bindE (bindE (get_req d ''run_id'') as_str) (\<lambda>run_id.
     bindE (bindE (get_req d ''miner_hotkey'') as_str) (\<lambda>miner_hotkey.
     bindE (bindE (get_req d ''auditor_hotkey'') as_str) (\<lambda>auditor_hotkey.
     bindE (bindE (get_req d ''status'') as_str) (\<lambda>status.
     bindE (as_str (get_or d ''reason'' (JStr []))) (\<lambda>reason.
     bindE (py_float P (get_or d ''replay_compute_sec'' (JFloat 0))) (\<lambda>replay_compute_sec.
     bindE (py_float P (get_or d ''checked_unix'' (JFloat 0))) (\<lambda>checked_unix.
     bindE (dict_or_empty (get_none d ''comparison'')) (\<lambda>comparison.
     bindE (as_opt_str (get_none d ''auditor_signature'')) (\<lambda>auditor_signature.
     Inr \<lparr>au_audit_id = audit_id, au_receipt_id = receipt_id, au_manifest_hash = manifest_hash,
          au_job_id = job_id, au_run_id = run_id, au_miner_hotkey = miner_hotkey,
          au_auditor_hotkey = auditor_hotkey, au_status = status, au_reason = reason,
          au_replay_compute_sec = replay_compute_sec, au_checked_unix = checked_unix,
          au_comparison = comparison, au_auditor_signature = auditor_signature,
          au_schema_version = schema_version\<rparr>))))))))))))))"

definition JobManifestV3_sign :: "platform \<Rightarrow> signer \<Rightarrow> JobManifestV3 \<Rightarrow> JobManifestV3" where
  "JobManifestV3_sign P s x =
     x\<lparr>mf_owner_signature := Some (record_signature P (JobManifestV3_unsigned_dict x) s)\<rparr>"

definition JobReceiptV3_sign :: "platform \<Rightarrow> signer \<Rightarrow> JobReceiptV3 \<Rightarrow> JobReceiptV3" where
  "JobReceiptV3_sign P s x =
     x\<lparr>rc_miner_signature := Some (record_signature P (JobReceiptV3_unsigned_dict x) s)\<rparr>"

definition VerificationVerdictV3_sign :: "platform \<Rightarrow> signer \<Rightarrow> VerificationVerdictV3 \<Rightarrow> VerificationVerdictV3" where
  "VerificationVerdictV3_sign P s x =
     x\<lparr>vv_validator_signature := Some (record_signature P (VerificationVerdictV3_unsigned_dict x) s)\<rparr>"

definition AuditResultV3_sign :: "platform \<Rightarrow> signer \<Rightarrow> AuditResultV3 \<Rightarrow> AuditResultV3" where
  "AuditResultV3_sign P s x =
     x\<lparr>au_auditor_signature := Some (record_signature P (AuditResultV3_unsigned_dict x) s)\<rparr>"

record MinerScoreWindow =
  sw_netuid :: int
  sw_window_id :: string
  sw_hotkey_ss58 :: string
  sw_receipts :: int
  sw_verdicts :: int
  sw_pass_cu :: pyfloat
  sw_fail_cu :: pyfloat
  sw_unsampled_cu :: pyfloat
  sw_trust_multiplier :: pyfloat
  sw_score :: pyfloat

definition MinerScoreWindow_to_dict :: "MinerScoreWindow \<Rightarrow> dict" where
  "MinerScoreWindow_to_dict x =
     [(''netuid'', JInt (sw_netuid x)),
      (''window_id'', JStr (sw_window_id x)),
      (''hotkey_ss58'', JStr (sw_hotkey_ss58 x)),
      (''receipts'', JInt (sw_receipts x)),
      (''verdicts'', JInt (sw_verdicts x)),
      (''pass_cu'', JFloat (sw_pass_cu x)),
      (''fail_cu'', JFloat (sw_fail_cu x)),
      (''unsampled_cu'', JFloat (sw_unsampled_cu x)),
      (''trust_multiplier'', JFloat (sw_trust_multiplier x)),
      (''score'', JFloat (sw_score x))]"

end
