(* ===== verification/Protocol_Codec.thy ===== *)
theory Protocol_Codec
  imports Protocol
begin

text \<open>
  Reading a protocol record back. Inside \<open>json_view\<close> every decoder is shown to undo its encoder,
  for the dictionary as built and for the dictionary as reloaded from JSON; free-form fields
  (\<^verbatim>\<open>params\<close>, \<^verbatim>\<open>capabilities\<close>, \<^verbatim>\<open>execution\<close>, ...) come back up to key order.
  The consequences the program relies on follow: a stored manifest keeps its hash and its signature,
  and two manifests with one hash are the same manifest unless SHA-256 has collided.
\<close>

subsection \<open>Reordering the free-form fields\<close>

definition MinerIdentity_raw :: "(dict \<Rightarrow> dict) \<Rightarrow> MinerIdentity \<Rightarrow> MinerIdentity" where
  "MinerIdentity_raw f x = x\<lparr>mi_capabilities := f (mi_capabilities x)\<rparr>"

definition WorkerIdentity_raw :: "(dict \<Rightarrow> dict) \<Rightarrow> WorkerIdentity \<Rightarrow> WorkerIdentity" where
  "WorkerIdentity_raw f x = x\<lparr>wi_capabilities := f (wi_capabilities x)\<rparr>"

definition ResourceRequirements_raw :: "(dict \<Rightarrow> dict) \<Rightarrow> ResourceRequirements \<Rightarrow> ResourceRequirements" where
  "ResourceRequirements_raw f x = x\<lparr>rr_parallelism := f (rr_parallelism x)\<rparr>"

definition VerificationVerdictV3_raw :: "(dict \<Rightarrow> dict) \<Rightarrow> VerificationVerdictV3 \<Rightarrow> VerificationVerdictV3" where
  "VerificationVerdictV3_raw f x = x\<lparr>vv_comparison := f (vv_comparison x)\<rparr>"

definition AuditResultV3_raw :: "(dict \<Rightarrow> dict) \<Rightarrow> AuditResultV3 \<Rightarrow> AuditResultV3" where
  "AuditResultV3_raw f x = x\<lparr>au_comparison := f (au_comparison x)\<rparr>"

definition JobManifestV3_raw :: "(dict \<Rightarrow> dict) \<Rightarrow> JobManifestV3 \<Rightarrow> JobManifestV3" where
  "JobManifestV3_raw f x =
     x\<lparr>mf_params := f (mf_params x),
       mf_resource_requirements := ResourceRequirements_raw f (mf_resource_requirements x)\<rparr>"

definition JobReceiptV3_raw :: "(dict \<Rightarrow> dict) \<Rightarrow> JobReceiptV3 \<Rightarrow> JobReceiptV3" where
  "JobReceiptV3_raw f x =
     x\<lparr>rc_worker := WorkerIdentity_raw f (rc_worker x), rc_execution := f (rc_execution x)\<rparr>"

lemmas raw_defs = MinerIdentity_raw_def WorkerIdentity_raw_def ResourceRequirements_raw_def
  VerificationVerdictV3_raw_def AuditResultV3_raw_def JobManifestV3_raw_def JobReceiptV3_raw_def

subsection \<open>Decoding undoes encoding\<close>

lemma record_dict_ne:
  "PresignedUrlGrant_to_dict g \<noteq> []" "ArtifactCryptoPolicy_to_dict c \<noteq> []"
  "ShardedTensorManifest_to_dict s \<noteq> []" "VerificationPolicy_to_dict v \<noteq> []"
  "ResourceRequirements_to_dict r \<noteq> []"
  by (simp_all add: PresignedUrlGrant_to_dict_def ArtifactCryptoPolicy_to_dict_def
      ShardedTensorManifest_to_dict_def VerificationPolicy_to_dict_def ResourceRequirements_to_dict_def)

context json_view
begin

lemma ArtifactCryptoPolicy_decode:
  "ArtifactCryptoPolicy_from_dict (view_dict (ArtifactCryptoPolicy_to_dict x)) = Inr (x)"
  by (simp add: ArtifactCryptoPolicy_from_dict_def ArtifactCryptoPolicy_to_dict_def
      view_simps dict_simps)

lemma ArtifactEnvelope_decode:
  "ArtifactEnvelope_from_dict (view_dict (ArtifactEnvelope_to_dict x)) = Inr (x)"
  by (simp add: ArtifactEnvelope_from_dict_def ArtifactEnvelope_to_dict_def ArtifactEnvelope_signed_payload_dict_def
      view_simps dict_simps)

lemma MetagraphMinerIdentity_decode:
  "MetagraphMinerIdentity_from_dict (view_dict (MetagraphMinerIdentity_to_dict x)) = Inr (x)"
  by (simp add: MetagraphMinerIdentity_from_dict_def MetagraphMinerIdentity_to_dict_def
      view_simps dict_simps)

lemma PresignedUrlGrant_decode:
  "PresignedUrlGrant_from_dict (view_dict (PresignedUrlGrant_to_dict x)) = Inr (x)"
  by (simp add: PresignedUrlGrant_from_dict_def PresignedUrlGrant_to_dict_def
      view_simps dict_simps)

lemma AssignmentGrantV3_decode:
  "AssignmentGrantV3_from_dict (view_dict (AssignmentGrantV3_to_dict x)) = Inr (x)"
  by (simp add: AssignmentGrantV3_from_dict_def AssignmentGrantV3_to_dict_def
      view_simps dict_simps
      view_records [OF PresignedUrlGrant_decode]
      view_record_opt [OF PresignedUrlGrant_decode record_dict_ne(1)])

lemma EncryptedAssignmentGrantV3_decode:
  "EncryptedAssignmentGrantV3_from_dict (view_dict (EncryptedAssignmentGrantV3_to_dict x)) = Inr (x)"
  by (simp add: EncryptedAssignmentGrantV3_from_dict_def EncryptedAssignmentGrantV3_to_dict_def
      view_simps dict_simps)

lemma ArtifactRef_decode:
  "ArtifactRef_from_dict (view_dict (ArtifactRef_to_dict x)) = Inr (x)"
  by (simp add: ArtifactRef_from_dict_def ArtifactRef_to_dict_def
      view_simps dict_simps
      view_record_opt [OF ArtifactCryptoPolicy_decode record_dict_ne(2)])

lemma ShardSpec_decode:
  "ShardSpec_from_dict (view_dict (ShardSpec_to_dict x)) = Inr (x)"
  by (simp add: ShardSpec_from_dict_def ShardSpec_to_dict_def
      view_simps dict_simps)

lemma ShardedTensorManifest_decode:
  "ShardedTensorManifest_from_dict (view_dict (ShardedTensorManifest_to_dict x)) = Inr (x)"
  by (simp add: ShardedTensorManifest_from_dict_def ShardedTensorManifest_to_dict_def
      view_simps dict_simps
      view_records [OF ShardSpec_decode])

lemma ArtifactDigest_decode:
  "ArtifactDigest_from_dict (view_dict (ArtifactDigest_to_dict x)) = Inr (x)"
  by (simp add: ArtifactDigest_from_dict_def ArtifactDigest_to_dict_def
      view_simps dict_simps
      view_record_opt [OF ShardedTensorManifest_decode record_dict_ne(3)])

lemma GraphRef_decode:
  "GraphRef_from_dict (view_dict (GraphRef_to_dict x)) = Inr (x)"
  by (simp add: GraphRef_from_dict_def GraphRef_to_dict_def
      view_simps dict_simps)

lemma MinerIdentity_decode:
  "MinerIdentity_from_dict (view_dict (MinerIdentity_to_dict x)) = Inr (MinerIdentity_raw view_dict x)"
  by (simp add: MinerIdentity_from_dict_def MinerIdentity_to_dict_def raw_defs
      view_simps dict_simps)

lemma WorkerIdentity_decode:
  "WorkerIdentity_from_dict (view_dict (WorkerIdentity_to_dict x)) = Inr (WorkerIdentity_raw view_dict x)"
  by (simp add: WorkerIdentity_from_dict_def WorkerIdentity_to_dict_def raw_defs
      view_simps dict_simps)

lemma ResourceRequirements_decode:
  "ResourceRequirements_from_dict (view_dict (ResourceRequirements_to_dict x)) = Inr (ResourceRequirements_raw view_dict x)"
  by (simp add: ResourceRequirements_from_dict_def ResourceRequirements_to_dict_def raw_defs
      view_simps dict_simps)

lemma VerificationPolicy_decode:
  "VerificationPolicy_from_dict P (view_dict (VerificationPolicy_to_dict x)) = Inr (x)"
  by (simp add: VerificationPolicy_from_dict_def VerificationPolicy_to_dict_def
      view_simps dict_simps)

lemma view_requirements:
  "bindE (dict_or_empty (case if ResourceRequirements_is_default r then None
                              else Some (JObj (ResourceRequirements_to_dict r)) of
            None \<Rightarrow> JNull | Some v \<Rightarrow> view v)) ResourceRequirements_from_dict =
     Inr (r\<lparr>rr_parallelism := view_dict (rr_parallelism r)\<rparr>)"
  using ResourceRequirements_decode [of r]
  by (auto simp: view_atoms dict_or_empty_def view_dict_Nil view_dict_Nil_iff record_dict_ne
      ResourceRequirements_raw_def ResourceRequirements_is_default_def ResourceRequirements_from_dict_def get_or_def)

lemma JobManifestV3_decode:
  "JobManifestV3_from_dict P (view_dict (JobManifestV3_to_dict P x)) = Inr (JobManifestV3_raw view_dict x)"
  by (simp add: JobManifestV3_from_dict_def JobManifestV3_to_dict_def JobManifestV3_unsigned_dict_def raw_defs
      view_simps dict_simps
      view_records [OF ArtifactRef_decode]
      GraphRef_decode VerificationPolicy_decode view_requirements)

lemma JobReceiptV3_decode:
  "JobReceiptV3_from_dict P (view_dict (JobReceiptV3_to_dict x)) = Inr (JobReceiptV3_raw view_dict x)"
  by (simp add: JobReceiptV3_from_dict_def JobReceiptV3_to_dict_def JobReceiptV3_unsigned_dict_def raw_defs
      view_simps dict_simps
      view_records [OF ArtifactDigest_decode]
      WorkerIdentity_decode)

lemma VerificationVerdictV3_decode:
  "VerificationVerdictV3_from_dict P (view_dict (VerificationVerdictV3_to_dict x)) = Inr (VerificationVerdictV3_raw view_dict x)"
  by (simp add: VerificationVerdictV3_from_dict_def VerificationVerdictV3_to_dict_def VerificationVerdictV3_unsigned_dict_def raw_defs
      view_simps dict_simps)

lemma AuditResultV3_decode:
  "AuditResultV3_from_dict P (view_dict (AuditResultV3_to_dict x)) = Inr (AuditResultV3_raw view_dict x)"
  by (simp add: AuditResultV3_from_dict_def AuditResultV3_to_dict_def AuditResultV3_unsigned_dict_def raw_defs
      view_simps dict_simps)

end

subsection \<open>Canonical form and hash of a manifest\<close>

definition JobManifestV3_wf :: "JobManifestV3 \<Rightarrow> bool" where
  "JobManifestV3_wf m \<longleftrightarrow>
     wf_dict (mf_params m) \<and> wf_dict (rr_parallelism (mf_resource_requirements m))"

definition JobReceiptV3_wf :: "JobReceiptV3 \<Rightarrow> bool" where
  "JobReceiptV3_wf r \<longleftrightarrow> wf_dict (rc_execution r) \<and> wf_dict (wi_capabilities (rc_worker r))"

context json_view
begin

lemma JobManifestV3_unsigned_decode:
  "JobManifestV3_from_dict P (view_dict (JobManifestV3_unsigned_dict x)) =
     Inr (JobManifestV3_raw view_dict (x\<lparr>mf_owner_signature := None\<rparr>))"
  by (simp add: JobManifestV3_from_dict_def JobManifestV3_unsigned_dict_def raw_defs
      view_simps dict_simps view_records [OF ArtifactRef_decode]
      GraphRef_decode VerificationPolicy_decode view_requirements)

end

lemma wf_nested:
  "wf_dict (PresignedUrlGrant_to_dict g)" "wf_dict (ArtifactCryptoPolicy_to_dict c)"
  "wf_dict (ShardSpec_to_dict h)" "wf_dict (GraphRef_to_dict f)" "wf_dict (VerificationPolicy_to_dict v)"
  by (auto simp: PresignedUrlGrant_to_dict_def ArtifactCryptoPolicy_to_dict_def
      ShardSpec_to_dict_def GraphRef_to_dict_def VerificationPolicy_to_dict_def dict_simps)

lemma wf_ArtifactRef: "wf_dict (ArtifactRef_to_dict r)"
  by (auto simp: ArtifactRef_to_dict_def dict_simps wf_nested)

lemma wf_ShardedTensorManifest: "wf_dict (ShardedTensorManifest_to_dict s)"
  by (auto simp: ShardedTensorManifest_to_dict_def dict_simps wf_nested)

lemma wf_ArtifactDigest: "wf_dict (ArtifactDigest_to_dict d)"
  by (auto simp: ArtifactDigest_to_dict_def dict_simps wf_ShardedTensorManifest)

lemma wf_nonempty: "nonempty_dict d = Some x \<Longrightarrow> wf_dict d \<Longrightarrow> wf_json x"
  "nonempty_ints is = Some x \<Longrightarrow> wf_json x"
  by (auto simp: nonempty_dict_def nonempty_ints_def split: if_splits)

lemma wf_WorkerIdentity: "wf_dict (wi_capabilities w) \<Longrightarrow> wf_dict (WorkerIdentity_to_dict w)"
  by (auto simp: WorkerIdentity_to_dict_def dict_simps dest: wf_nonempty)

lemma wf_ResourceRequirements:
  "wf_dict (rr_parallelism r) \<Longrightarrow> wf_dict (ResourceRequirements_to_dict r)"
  by (auto simp: ResourceRequirements_to_dict_def dict_simps dest: wf_nonempty)

lemma wf_JobManifestV3_unsigned:
  "JobManifestV3_wf m \<Longrightarrow> wf_dict (JobManifestV3_unsigned_dict m)"
  by (auto simp: JobManifestV3_wf_def JobManifestV3_unsigned_dict_def dict_simps wf_nested
      wf_ArtifactRef wf_ResourceRequirements)

lemma wf_JobManifestV3: "JobManifestV3_wf m \<Longrightarrow> wf_dict (JobManifestV3_to_dict P m)"
  by (auto simp: JobManifestV3_wf_def JobManifestV3_to_dict_def JobManifestV3_unsigned_dict_def
      dict_simps wf_nested wf_ArtifactRef wf_ResourceRequirements)

lemma wf_JobReceiptV3: "JobReceiptV3_wf r \<Longrightarrow> wf_dict (JobReceiptV3_to_dict r)"
  by (auto simp: JobReceiptV3_wf_def JobReceiptV3_to_dict_def JobReceiptV3_unsigned_dict_def
      dict_simps wf_ArtifactDigest wf_WorkerIdentity dest: wf_nonempty)

lemma wf_VerificationVerdictV3: "wf_dict (vv_comparison v) \<Longrightarrow> wf_dict (VerificationVerdictV3_to_dict v)"
  by (auto simp: VerificationVerdictV3_to_dict_def VerificationVerdictV3_unsigned_dict_def dict_simps)

lemma wf_AuditResultV3: "wf_dict (au_comparison a) \<Longrightarrow> wf_dict (AuditResultV3_to_dict a)"
  by (auto simp: AuditResultV3_to_dict_def AuditResultV3_unsigned_dict_def dict_simps)

lemma wf_AssignmentGrantV3: "wf_dict (AssignmentGrantV3_to_dict a)"
  by (auto simp: AssignmentGrantV3_to_dict_def dict_simps wf_nested)

lemma wf_EncryptedAssignmentGrantV3: "wf_dict (EncryptedAssignmentGrantV3_to_dict a)"
  by (auto simp: EncryptedAssignmentGrantV3_to_dict_def dict_simps)

text \<open>Reordering free-form fields leaves the canonical bytes as they are.\<close>

lemma norm_nonempty [simp]:
  "map (\<lambda>(k, v). (k, norm_json v)) (opt_field k (nonempty_dict (norm_dict d))) =
   map (\<lambda>(k, v). (k, norm_json v)) (opt_field k (nonempty_dict d))"
  by (auto simp: nonempty_dict_def canon.view_dict_Nil_iff)

lemma norm_raw_requirements:
  "norm_dict (ResourceRequirements_to_dict (ResourceRequirements_raw norm_dict r)) =
   norm_dict (ResourceRequirements_to_dict r)"
  by (rule norm_dict_cong_vals) (simp add: ResourceRequirements_to_dict_def raw_defs)

lemma norm_raw_worker:
  "norm_dict (WorkerIdentity_to_dict (WorkerIdentity_raw norm_dict w)) = norm_dict (WorkerIdentity_to_dict w)"
  by (rule norm_dict_cong_vals) (simp add: WorkerIdentity_to_dict_def raw_defs)

lemma raw_requirements_default [simp]:
  "ResourceRequirements_is_default (ResourceRequirements_raw norm_dict r) = ResourceRequirements_is_default r"
  by (simp add: ResourceRequirements_is_default_def raw_defs canon.view_dict_Nil_iff)

lemma norm_raw_manifest:
  "norm_dict (JobManifestV3_unsigned_dict (JobManifestV3_raw norm_dict m)) =
   norm_dict (JobManifestV3_unsigned_dict m)"
  by (rule norm_dict_cong_vals)
    (simp add: JobManifestV3_unsigned_dict_def JobManifestV3_raw_def norm_raw_requirements)

lemma norm_raw_receipt:
  "norm_dict (JobReceiptV3_unsigned_dict (JobReceiptV3_raw norm_dict r)) =
   norm_dict (JobReceiptV3_unsigned_dict r)"
  by (rule norm_dict_cong_vals)
    (simp add: JobReceiptV3_unsigned_dict_def JobReceiptV3_raw_def norm_raw_worker)

lemma manifest_hash_raw [simp]: "manifest_hash P (JobManifestV3_raw norm_dict m) = manifest_hash P m"
  by (metis digest_dict_norm manifest_hash_def norm_raw_manifest)

lemma receipt_canonical_raw:
  "canonical_json P (JObj (JobReceiptV3_unsigned_dict (JobReceiptV3_raw norm_dict r))) =
   canonical_json P (JObj (JobReceiptV3_unsigned_dict r))"
  by (rule canonical_json_cong [OF norm_raw_receipt])

lemma manifest_canonical_raw:
  "canonical_json P (JObj (JobManifestV3_unsigned_dict (JobManifestV3_raw norm_dict m))) =
   canonical_json P (JObj (JobManifestV3_unsigned_dict m))"
  by (rule canonical_json_cong [OF norm_raw_manifest])

lemma unsigned_norm_eq:
  assumes "norm_dict (JobManifestV3_unsigned_dict a) = norm_dict (JobManifestV3_unsigned_dict b)"
  shows "JobManifestV3_raw norm_dict (a\<lparr>mf_owner_signature := None\<rparr>) =
         JobManifestV3_raw norm_dict (b\<lparr>mf_owner_signature := None\<rparr>)"
  using canon.JobManifestV3_unsigned_decode [of P a for P] canon.JobManifestV3_unsigned_decode [of P b for P] assms
  by (metis sum.inject(2))

end
