(* ===== verification/Paths.thy ===== *)
theory Paths
  imports Prelude
begin

text \<open>
  \<^verbatim>\<open>teuton_core/paths.py\<close>: the versioned bucket layout. Every function is an f-string over its
  arguments. Shown: the keys of two runs never meet below a prefix of \<^verbatim>\<open>run_prefixes\<close>, receipt,
  manifest, grant and artifact keys are injective in their identifiers, and the sanitised verdict and
  audit-result keys are not.
\<close>

subsection \<open>Keys\<close>

definition root :: "int \<Rightarrow> string" where
  "root netuid = ''v3/netuid='' @ show_int netuid"

definition run_root :: "int \<Rightarrow> string \<Rightarrow> string" where
  "run_root netuid run_id = root netuid @ ''/runs/'' @ run_id"

definition graphs_prefix :: "int \<Rightarrow> string \<Rightarrow> string" where
  "graphs_prefix netuid run_id = run_root netuid run_id @ ''/graphs/''"

definition graph_key :: "int \<Rightarrow> string \<Rightarrow> string \<Rightarrow> string" where
  "graph_key netuid run_id sha = graphs_prefix netuid run_id @ sha @ ''.json''"

definition state_key :: "int \<Rightarrow> string \<Rightarrow> string" where
  "state_key netuid run_id = run_root netuid run_id @ ''/state.json''"

definition manifest_config_key :: "int \<Rightarrow> string \<Rightarrow> string" where
  "manifest_config_key netuid run_id = run_root netuid run_id @ ''/manifest/config.json''"

definition miners_prefix :: "int \<Rightarrow> string" where
  "miners_prefix netuid = root netuid @ ''/miners/''"

definition worker_heartbeat_key :: "int \<Rightarrow> string \<Rightarrow> string \<Rightarrow> string" where
  "worker_heartbeat_key netuid hotkey worker_id =
     miners_prefix netuid @ hotkey @ ''/workers/'' @ worker_id @ ''/heartbeat.json''"

definition jobs_prefix :: "int \<Rightarrow> string \<Rightarrow> string" where
  "jobs_prefix netuid run_id = root netuid @ ''/jobs/'' @ run_id @ ''/''"

definition job_manifest_key :: "int \<Rightarrow> string \<Rightarrow> string \<Rightarrow> string" where
  "job_manifest_key netuid run_id job_id = jobs_prefix netuid run_id @ job_id @ ''/manifest.json''"

definition audit_root :: "int \<Rightarrow> string \<Rightarrow> string" where
  "audit_root netuid run_id = root netuid @ ''/audits/'' @ run_id"

definition audit_jobs_prefix :: "int \<Rightarrow> string \<Rightarrow> string" where
  "audit_jobs_prefix netuid run_id = audit_root netuid run_id @ ''/jobs/''"

definition queue_key :: "int \<Rightarrow> string \<Rightarrow> string \<Rightarrow> string res" where
  "queue_key netuid run_id role =
     (if role = ''train'' then Inr (jobs_prefix netuid run_id @ ''queue.json'')
      else if role = ''audit'' then Inr (audit_jobs_prefix netuid run_id @ ''queue.json'')
      else Inl (ValueError ''queue_key: unknown role''))"

definition assignment_key :: "int \<Rightarrow> string \<Rightarrow> string \<Rightarrow> string \<Rightarrow> string" where
  "assignment_key netuid run_id job_id hotkey =
     root netuid @ ''/assignments/'' @ run_id @ ''/'' @ job_id @ ''/hotkey='' @ hotkey @ ''.json''"

definition weights_key :: "int \<Rightarrow> string \<Rightarrow> int \<Rightarrow> int \<Rightarrow> string" where
  "weights_key netuid run_id step_id ub =
     run_root netuid run_id @ ''/weights/step='' @ show_int step_id @ ''/UB-'' @ show_int ub @ ''.bin''"

definition target_key :: "int \<Rightarrow> string \<Rightarrow> int \<Rightarrow> int \<Rightarrow> string" where
  "target_key netuid run_id step_id ub =
     run_root netuid run_id @ ''/targets/step='' @ show_int step_id @ ''/cut-'' @ show_int ub @ ''.bin''"

definition artifact_prefix :: "int \<Rightarrow> string \<Rightarrow> string \<Rightarrow> string \<Rightarrow> string \<Rightarrow> int \<Rightarrow> string" where
  "artifact_prefix netuid run_id job_id hotkey worker_id attempt =
     root netuid @ ''/artifacts/'' @ run_id @ ''/'' @ job_id @ ''/hotkey='' @ hotkey @
     ''/worker='' @ worker_id @ ''/attempt='' @ show_int attempt @ ''/''"

definition artifact_key ::
  "int \<Rightarrow> string \<Rightarrow> string \<Rightarrow> string \<Rightarrow> string \<Rightarrow> int \<Rightarrow> string \<Rightarrow> string \<Rightarrow> string" where
  "artifact_key netuid run_id job_id hotkey worker_id attempt name sfx =
     artifact_prefix netuid run_id job_id hotkey worker_id attempt @ name @ sfx"

definition receipts_prefix :: "int \<Rightarrow> string \<Rightarrow> string" where
  "receipts_prefix netuid run_id = root netuid @ ''/receipts/'' @ run_id @ ''/''"

definition receipt_key :: "int \<Rightarrow> string \<Rightarrow> string \<Rightarrow> string \<Rightarrow> int \<Rightarrow> string" where
  "receipt_key netuid run_id hotkey job_id attempt =
     receipts_prefix netuid run_id @ ''hotkey='' @ hotkey @ ''/'' @ job_id @
     ''/attempt='' @ show_int attempt @ ''.json''"

definition verdicts_prefix :: "int \<Rightarrow> string \<Rightarrow> string" where
  "verdicts_prefix netuid run_id = root netuid @ ''/verdicts/'' @ run_id @ ''/''"

text \<open>\<^verbatim>\<open>receipt_id.replace("/", "_").replace(":", "_")\<close>, in both sanitised keys.\<close>

definition safe_id :: "string \<Rightarrow> string" where
  "safe_id s = replace_char (CHR '':'') (CHR ''_'') (replace_char (CHR ''/'') (CHR ''_'') s)"

definition verdict_key :: "int \<Rightarrow> string \<Rightarrow> string \<Rightarrow> string \<Rightarrow> string" where
  "verdict_key netuid run_id validator_hotkey receipt_id =
     verdicts_prefix netuid run_id @ ''validator='' @ validator_hotkey @ ''/'' @ safe_id receipt_id @ ''.json''"

definition auditors_prefix :: "int \<Rightarrow> string" where
  "auditors_prefix netuid = root netuid @ ''/auditors/''"

definition auditor_heartbeat_key :: "int \<Rightarrow> string \<Rightarrow> string \<Rightarrow> string" where
  "auditor_heartbeat_key netuid auditor_hotkey worker_id =
     auditors_prefix netuid @ auditor_hotkey @ ''/workers/'' @ worker_id @ ''/heartbeat.json''"

definition audit_job_manifest_key :: "int \<Rightarrow> string \<Rightarrow> string \<Rightarrow> string" where
  "audit_job_manifest_key netuid run_id job_id =
     audit_jobs_prefix netuid run_id @ job_id @ ''/manifest.json''"

definition audit_assignment_key :: "int \<Rightarrow> string \<Rightarrow> string \<Rightarrow> string \<Rightarrow> string" where
  "audit_assignment_key netuid run_id job_id auditor_hotkey =
     audit_root netuid run_id @ ''/assignments/'' @ job_id @ ''/hotkey='' @ auditor_hotkey @ ''.json''"

definition audit_result_key :: "int \<Rightarrow> string \<Rightarrow> string \<Rightarrow> string \<Rightarrow> string" where
  "audit_result_key netuid run_id auditor_hotkey receipt_id =
     audit_root netuid run_id @ ''/results/auditor='' @ auditor_hotkey @ ''/'' @ safe_id receipt_id @ ''.json''"

definition audit_results_prefix :: "int \<Rightarrow> string \<Rightarrow> string" where
  "audit_results_prefix netuid run_id = audit_root netuid run_id @ ''/results/''"

definition scores_key :: "int \<Rightarrow> string \<Rightarrow> string" where
  "scores_key netuid window_id = root netuid @ ''/scores/window='' @ window_id @ ''/scores.json''"

definition telemetry_run_prefix :: "int \<Rightarrow> string \<Rightarrow> string" where
  "telemetry_run_prefix netuid run_id = root netuid @ ''/telemetry/'' @ run_id @ ''/''"

definition run_prefixes :: "int \<Rightarrow> string \<Rightarrow> string list" where
  "run_prefixes netuid run_id =
     [run_root netuid run_id @ ''/'',
      jobs_prefix netuid run_id,
      root netuid @ ''/artifacts/'' @ run_id @ ''/'',
      receipts_prefix netuid run_id,
      verdicts_prefix netuid run_id,
      audit_root netuid run_id @ ''/'',
      telemetry_run_prefix netuid run_id]"

definition telemetry_stream_prefix :: "int \<Rightarrow> string \<Rightarrow> string \<Rightarrow> string" where
  "telemetry_stream_prefix netuid run_id stream = telemetry_run_prefix netuid run_id @ stream @ ''/''"

text \<open>\<^verbatim>\<open>f"{i:010d}"\<close>: zero-padded to ten characters, the sign first and counted.\<close>

definition format_010d :: "int \<Rightarrow> string" where
  "format_010d i =
     (if i < 0 then CHR ''-'' # replicate (9 - length (show_nat (nat (- i)))) (CHR ''0'') @ show_nat (nat (- i))
      else replicate (10 - length (show_nat (nat i))) (CHR ''0'') @ show_nat (nat i))"

definition telemetry_event_key :: "int \<Rightarrow> string \<Rightarrow> string \<Rightarrow> int \<Rightarrow> string" where
  "telemetry_event_key netuid run_id stream when_unix =
     telemetry_stream_prefix netuid run_id stream @ format_010d when_unix @ ''.json''"

definition telemetry_chain_key :: "int \<Rightarrow> string \<Rightarrow> int \<Rightarrow> string" where
  "telemetry_chain_key netuid run_id when_unix = telemetry_event_key netuid run_id ''chain'' when_unix"

definition telemetry_scores_key :: "int \<Rightarrow> string \<Rightarrow> int \<Rightarrow> string" where
  "telemetry_scores_key netuid run_id when_unix = telemetry_event_key netuid run_id ''scores'' when_unix"

definition telemetry_audits_key :: "int \<Rightarrow> string \<Rightarrow> int \<Rightarrow> string" where
  "telemetry_audits_key netuid run_id when_unix = telemetry_event_key netuid run_id ''audits'' when_unix"

definition telemetry_orchestrator_key :: "int \<Rightarrow> string \<Rightarrow> int \<Rightarrow> string" where
  "telemetry_orchestrator_key netuid run_id when_unix =
     telemetry_event_key netuid run_id ''orchestrator'' when_unix"

definition telemetry_monitor_key :: "int \<Rightarrow> string \<Rightarrow> int \<Rightarrow> string" where
  "telemetry_monitor_key netuid run_id when_unix = telemetry_event_key netuid run_id ''monitor'' when_unix"

lemmas key_defs [path_defs] = run_root_def graphs_prefix_def graph_key_def state_key_def
  manifest_config_key_def jobs_prefix_def job_manifest_key_def audit_root_def audit_jobs_prefix_def
  assignment_key_def weights_key_def target_key_def artifact_prefix_def artifact_key_def
  receipts_prefix_def receipt_key_def verdicts_prefix_def verdict_key_def audit_job_manifest_key_def
  audit_assignment_key_def audit_result_key_def audit_results_prefix_def telemetry_run_prefix_def
  telemetry_stream_prefix_def telemetry_event_key_def telemetry_chain_key_def telemetry_scores_key_def
  telemetry_audits_key_def telemetry_orchestrator_key_def telemetry_monitor_key_def

subsection \<open>The shape of a key\<close>

definition segment :: "string \<Rightarrow> bool" where
  "segment s \<longleftrightarrow> CHR ''/'' \<notin> set s"

definition run_sections :: "string list" where
  "run_sections = [''runs'', ''jobs'', ''artifacts'', ''receipts'', ''verdicts'', ''audits'', ''telemetry'']"

definition run_prefix :: "int \<Rightarrow> string \<Rightarrow> string \<Rightarrow> string" where
  "run_prefix netuid sec run_id =
     (''v3'' @ CHR ''/'' # (''netuid='' @ show_int netuid) @ CHR ''/'' # sec @ CHR ''/'' # run_id @ [CHR ''/''])"

lemma show_int_segment [simp]: "CHR ''/'' \<notin> set (show_int i)"
  using show_int_chars [of "CHR ''/''" i] by (auto simp: is_digit_def)

lemma segment_safe_id [simp]: "segment (safe_id s)"
  by (auto simp: segment_def safe_id_def replace_char_def)

lemma section_segment: "s \<in> set run_sections \<Longrightarrow> CHR ''/'' \<notin> set s"
  by (auto simp: run_sections_def)

lemma run_prefixes_sections: "run_prefixes n r = map (\<lambda>s. run_prefix n s r) run_sections"
  by (simp add: run_prefixes_def run_sections_def run_prefix_def path_defs root_def)

lemma run_prefix_inj:
  assumes "run_prefix n s r @ t = run_prefix n' s' r' @ t'"
    and "CHR ''/'' \<notin> set s" "CHR ''/'' \<notin> set s'" "segment r" "segment r'"
  shows "n = n' \<and> s = s' \<and> r = r' \<and> t = t'"
proof -
  from assms(1) have "(''netuid='' @ show_int n) @ CHR ''/'' # s @ CHR ''/'' # r @ CHR ''/'' # t =
      (''netuid='' @ show_int n') @ CHR ''/'' # s' @ CHR ''/'' # r' @ CHR ''/'' # t'"
    by (simp add: run_prefix_def)
  from append_sep_inj [OF this] have n: "n = n'"
    and "s @ CHR ''/'' # r @ CHR ''/'' # t = s' @ CHR ''/'' # r' @ CHR ''/'' # t'" by auto
  from append_sep_inj [OF this(2)] assms(2,3)
  have s: "s = s'" and "r @ CHR ''/'' # t = r' @ CHR ''/'' # t'" by auto
  from append_sep_inj [OF this(2)] assms(4,5) n s show ?thesis by (auto simp: segment_def)
qed

lemma receipts_prefix_shape: "receipts_prefix n r = run_prefix n ''receipts'' r"
  and jobs_prefix_shape: "jobs_prefix n r = run_prefix n ''jobs'' r"
  by (simp_all add: path_defs root_def run_prefix_def)

text \<open>A segment written before a fixed tag that starts with a slash can be read off.\<close>

lemma segment_tag_inj:
  assumes "a @ CHR ''/'' # x = b @ CHR ''/'' # y" "segment a" "segment b"
  shows "a = b \<and> x = y"
  using append_sep_inj [OF assms(1)] assms(2,3) by (simp add: segment_def)

lemma receipt_key_inj:
  assumes "receipt_key n r h j a = receipt_key n' r' h' j' a'"
    and "segment r" "segment r'" "segment h" "segment h'" "segment j" "segment j'"
  shows "n = n' \<and> r = r' \<and> h = h' \<and> j = j' \<and> a = a'"
proof -
  have "run_prefix n ''receipts'' r @ ''hotkey='' @ h @ CHR ''/'' # j @ CHR ''/'' # ''attempt='' @ show_int a @ ''.json'' =
        run_prefix n' ''receipts'' r' @ ''hotkey='' @ h' @ CHR ''/'' # j' @ CHR ''/'' # ''attempt='' @ show_int a' @ ''.json''"
    using assms(1) by (simp add: receipt_key_def receipts_prefix_shape)
  from run_prefix_inj [OF this] assms
  have nr: "n = n'" "r = r'" and "h @ CHR ''/'' # j @ CHR ''/'' # ''attempt='' @ show_int a @ ''.json'' =
        h' @ CHR ''/'' # j' @ CHR ''/'' # ''attempt='' @ show_int a' @ ''.json''" by auto
  from segment_tag_inj [OF this(3)] assms
  have h: "h = h'" and "j @ CHR ''/'' # ''attempt='' @ show_int a @ ''.json'' =
        j' @ CHR ''/'' # ''attempt='' @ show_int a' @ ''.json''" by auto
  from segment_tag_inj [OF this(2)] assms nr h show ?thesis by auto
qed

lemma artifact_key_inj:
  assumes "artifact_key n r j h w a m s = artifact_key n' r' j' h' w' a' m' s"
    and "segment r" "segment r'" "segment h" "segment h'" "segment j" "segment j'" "segment w" "segment w'"
  shows "n = n' \<and> r = r' \<and> j = j' \<and> h = h' \<and> w = w' \<and> a = a' \<and> m = m'"
proof -
  have "run_prefix n ''artifacts'' r @ j @ CHR ''/'' # ''hotkey='' @ h @ CHR ''/'' # ''worker='' @ w @
          CHR ''/'' # ''attempt='' @ show_int a @ CHR ''/'' # m @ s =
        run_prefix n' ''artifacts'' r' @ j' @ CHR ''/'' # ''hotkey='' @ h' @ CHR ''/'' # ''worker='' @ w' @
          CHR ''/'' # ''attempt='' @ show_int a' @ CHR ''/'' # m' @ s"
    using assms(1) by (simp add: artifact_key_def artifact_prefix_def root_def run_prefix_def)
  from run_prefix_inj [OF this] assms
  have nr: "n = n'" "r = r'" and "j @ CHR ''/'' # ''hotkey='' @ h @ CHR ''/'' # ''worker='' @ w @
          CHR ''/'' # ''attempt='' @ show_int a @ CHR ''/'' # m @ s =
        j' @ CHR ''/'' # ''hotkey='' @ h' @ CHR ''/'' # ''worker='' @ w' @
          CHR ''/'' # ''attempt='' @ show_int a' @ CHR ''/'' # m' @ s" by auto
  from segment_tag_inj [OF this(3)] assms
  have j: "j = j'" and "h @ CHR ''/'' # ''worker='' @ w @ CHR ''/'' # ''attempt='' @ show_int a @ CHR ''/'' # m @ s =
        h' @ CHR ''/'' # ''worker='' @ w' @ CHR ''/'' # ''attempt='' @ show_int a' @ CHR ''/'' # m' @ s" by auto
  from segment_tag_inj [OF this(2)] assms
  have h: "h = h'" and "w @ CHR ''/'' # ''attempt='' @ show_int a @ CHR ''/'' # m @ s =
        w' @ CHR ''/'' # ''attempt='' @ show_int a' @ CHR ''/'' # m' @ s" by auto
  from segment_tag_inj [OF this(2)] assms
  have w: "w = w'" and "show_int a @ CHR ''/'' # m @ s = show_int a' @ CHR ''/'' # m' @ s" by auto
  from append_sep_inj [OF this(2)] nr j h w show ?thesis by auto
qed

lemma queue_key_role: "queue_key n r role = Inr k \<Longrightarrow>
   k = jobs_prefix n r @ ''queue.json'' \<or> k = audit_jobs_prefix n r @ ''queue.json''"
  by (auto simp: queue_key_def split: if_splits)

subsection \<open>Properties\<close>

text \<open>
  Runs do not share keys: no key lies below a prefix of \<^verbatim>\<open>run_prefixes\<close> of two different
  runs (or of one run id under two netuids), as long as run ids contain no slash. Tearing one run down
  by its prefixes therefore cannot delete another run's objects.
\<close>

theorem run_prefixes_disjoint:
  assumes "segment r" and "segment r'" and "(n, r) \<noteq> (n', r')"
    and "p \<in> set (run_prefixes n r)" and "p' \<in> set (run_prefixes n' r')"
  shows "\<not> (starts_with k p \<and> starts_with k p')"
proof
  assume "starts_with k p \<and> starts_with k p'"
  then obtain t t' where t: "k = p @ t" "k = p' @ t'" by (meson starts_with_iff)
  obtain s s' where s: "s \<in> set run_sections" "p = run_prefix n s r" "s' \<in> set run_sections" "p' = run_prefix n' s' r'"
    using assms(4,5) by (auto simp: run_prefixes_sections)
  from t s have "run_prefix n s r @ t = run_prefix n' s' r' @ t'" by simp
  from run_prefix_inj [OF this] s assms section_segment show False by blast
qed

theorem run_prefixes_disjoint_witness:
  "\<not> (starts_with (job_manifest_key 3 ''run-a'' ''j1'') (jobs_prefix 3 ''run-a'') \<and>
      starts_with (job_manifest_key 3 ''run-a'' ''j1'') (jobs_prefix 3 ''run-b''))"
  by (rule run_prefixes_disjoint [of "''run-a''" "''run-b''" 3 3]) (simp_all add: segment_def run_prefixes_def)

text \<open>
  Which keys of a run its teardown prefixes cover: graphs, state, config, weights, targets, manifests,
  both queues, artifacts, receipts, verdicts, every audit object and telemetry lie below a prefix of
  \<^verbatim>\<open>run_prefixes\<close>; the encrypted grants written at \<^verbatim>\<open>assignment_key\<close> lie below none, although
  the function's docstring says "all v3 prefixes owned by a run".
\<close>

theorem run_prefixes_cover:
  "list_all (\<lambda>k. list_ex (starts_with k) (run_prefixes n r))
     [graph_key n r s, state_key n r, manifest_config_key n r, weights_key n r i ub, target_key n r i ub,
      job_manifest_key n r j, jobs_prefix n r @ ''queue.json'', audit_jobs_prefix n r @ ''queue.json'',
      artifact_key n r j h w a m e, receipt_key n r h j a, verdict_key n r v rid,
      audit_job_manifest_key n r j, audit_assignment_key n r j h, audit_result_key n r h rid,
      telemetry_event_key n r st when] \<and>
   \<not> list_ex (starts_with (assignment_key n r j h)) (run_prefixes n r)"
proof
  show "list_all (\<lambda>k. list_ex (starts_with k) (run_prefixes n r))
     [graph_key n r s, state_key n r, manifest_config_key n r, weights_key n r i ub, target_key n r i ub,
      job_manifest_key n r j, jobs_prefix n r @ ''queue.json'', audit_jobs_prefix n r @ ''queue.json'',
      artifact_key n r j h w a m e, receipt_key n r h j a, verdict_key n r v rid,
      audit_job_manifest_key n r j, audit_assignment_key n r j h, audit_result_key n r h rid,
      telemetry_event_key n r st when]"
    by (simp add: run_prefixes_def path_defs root_def)
  show "\<not> list_ex (starts_with (assignment_key n r j h)) (run_prefixes n r)"
    by (simp add: run_prefixes_def path_defs root_def)
qed

text \<open>
  A receipt's key determines the receipt's run, hotkey, job and attempt, and an artifact's key
  determines run, job, hotkey, worker, attempt and name, as long as the identifiers contain no slash: two
  miners, two attempts or two jobs never write to the same object.
\<close>

theorem object_keys_injective:
  assumes "segment r" and "segment r'" and "segment h" and "segment h'" and "segment j" and "segment j'"
    and "segment w" and "segment w'"
  shows "(receipt_key n r h j a = receipt_key n' r' h' j' a' \<longleftrightarrow>
      n = n' \<and> r = r' \<and> h = h' \<and> j = j' \<and> a = a') \<and>
    (artifact_key n r j h w a m s = artifact_key n' r' j' h' w' a' m' s \<longleftrightarrow>
      n = n' \<and> r = r' \<and> j = j' \<and> h = h' \<and> w = w' \<and> a = a' \<and> m = m')"
  using assms receipt_key_inj [of n r h j a n' r' h' j' a'] artifact_key_inj [of n r j h w a m s n' r' j' h' w' a' m']
  by blast

theorem object_keys_injective_witness:
  "receipt_key 3 ''run'' ''hk1'' ''job-1'' 0 \<noteq> receipt_key 3 ''run'' ''hk1'' ''job-1'' 1"
  using object_keys_injective [of "''run''" "''run''" "''hk1''" "''hk1''" "''job-1''" "''job-1''" "''w''" "''w''"
      3 0 3 1] by (simp add: segment_def)

text \<open>
  The sanitised keys are not injective: \<^verbatim>\<open>/\<close>, \<^verbatim>\<open>:\<close> and \<^verbatim>\<open>_\<close> are identified, and
  they identify nothing else, so two receipts share a verdict object exactly when their ids agree after
  the replacement.
\<close>

theorem verdict_key_collision:
  "(verdict_key n r v x = verdict_key n r v y \<longleftrightarrow> safe_id x = safe_id y) \<and>
   (audit_result_key n r v x = audit_result_key n r v y \<longleftrightarrow> safe_id x = safe_id y) \<and>
   (safe_id x = safe_id y \<longleftrightarrow>
      list_all2 (\<lambda>c d. c = d \<or> {c, d} \<subseteq> {CHR ''/'', CHR '':'', CHR ''_''}) x y)"
proof -
  have "safe_id x = safe_id y \<longleftrightarrow>
      list_all2 (\<lambda>c d. c = d \<or> {c, d} \<subseteq> {CHR ''/'', CHR '':'', CHR ''_''}) x y"
  proof (induction x arbitrary: y)
    case Nil
    then show ?case by (auto simp: safe_id_def replace_char_def)
  next
    case (Cons c x)
    then show ?case by (cases y) (auto simp: safe_id_def replace_char_def)
  qed
  then show ?thesis by (simp add: path_defs)
qed

end
