(* ===== verification/Reference_Platform.thy ===== *)
theory Reference_Platform
  imports Json_Fields "HOL-Library.Log_Nat"
begin

text \<open>
  A concrete, executable \<open>platform\<close>: floats are written as \<^verbatim>\<open><numerator>.0e<denominator>\<close> and read
  back exactly, \<^verbatim>\<open>log2\<close> is the integer logarithm, and no wallet key verifies. It shows that the
  hypotheses about the platform can hold and is the platform of the worked examples.
\<close>

definition rat_repr :: "rat \<Rightarrow> string" where
  "rat_repr q = (case quotient_of q of (n, d) \<Rightarrow> show_int n @ ''.0e'' @ show_nat (nat d))"

definition read_int :: "string \<Rightarrow> int" where
  "read_int s = (if starts_with s ''-'' then - int (read_nat 0 (tl s)) else int (read_nat 0 s))"

definition rat_parse :: "string \<Rightarrow> rat option" where
  "rat_parse s =
     (let ip = takeWhile (\<lambda>c. c \<noteq> CHR ''.'') s; rest = drop (length ip) s
      in if starts_with rest ''.0e''
         then Some (of_int (read_int ip) / of_nat (read_nat 0 (drop 3 rest)))
         else None)"

definition reference_platform :: platform where
  "reference_platform =
     \<lparr>float_repr = rat_repr, float_parse = rat_parse,
      math_log2 = (\<lambda>n. if n \<le> 0 then 0 else of_nat (floorlog 2 (nat n) - 1)),
      bittensor_verify = (\<lambda>_ _ _. None), substrate_verify = (\<lambda>_ _ _. None), nacl_verify = (\<lambda>_ _ _. None)\<rparr>"

lemma read_show_int [simp]: "read_int (show_int i) = i"
proof (cases "i < 0")
  case False
  then show ?thesis
    using show_nat_not_minus [of "nat i"] by (auto simp: read_int_def show_int_def starts_with_iff)
qed (simp add: read_int_def show_int_def starts_with_def)

lemma show_nat_all_digits: "all_digits (show_nat n)"
  by (auto simp: all_digits_def show_nat_digits)

lemma show_nat_int_part: "int_part (show_nat n)"
proof (cases "n = 0")
  case True
  then show ?thesis by (simp add: int_part_def show_nat.simps digit_char_def)
next
  case False
  then show ?thesis using show_nat_lead [of n] show_nat_all_digits [of n] by (simp add: int_part_def)
qed

lemma show_int_sign_split: "\<exists>sg ip. show_int n = sg @ ip \<and> (sg = [] \<or> sg = ''-'') \<and> int_part ip"
proof (cases "n < 0")
  case True
  then have "show_int n = ''-'' @ show_nat (nat (- n))" by (simp add: show_int_def)
  then show ?thesis using show_nat_int_part by blast
next
  case False
  then have "show_int n = [] @ show_nat (nat n)" by (simp add: show_int_def)
  then show ?thesis using show_nat_int_part by blast
qed

lemma float_token_repr: "float_token (rat_repr q)"
proof -
  obtain n d where q: "quotient_of q = (n, d)" by fastforce
  obtain sg ip where s: "show_int n = sg @ ip" "sg = [] \<or> sg = ''-''" "int_part ip"
    using show_int_sign_split by blast
  have "exp_part (CHR ''e'' # show_nat (nat d))"
    using show_nat_all_digits [of "nat d"] by (simp add: exp_part_def)
  moreover have "frac_part ''.0''" by (simp add: frac_part_def all_digits_def is_digit_def)
  moreover have "rat_repr q = sg @ ip @ ''.0'' @ CHR ''e'' # show_nat (nat d)"
    using q s by (simp add: rat_repr_def)
  ultimately show ?thesis unfolding float_token_def using s by blast
qed

lemma rat_parse_repr: "rat_parse (rat_repr q) = Some q"
proof -
  obtain n d where q: "quotient_of q = (n, d)" by fastforce
  have d: "d > 0" using q quotient_of_denom_pos by blast
  have "c \<noteq> CHR ''.''" if "c \<in> set (show_int n)" for c
    using show_int_chars [OF that] by (auto simp: is_digit_def)
  then have "takeWhile (\<lambda>c. c \<noteq> CHR ''.'') (show_int n @ ''.0e'' @ show_nat (nat d)) = show_int n"
    by (simp add: takeWhile_append)
  moreover have "of_int n / of_nat (nat d) = q"
    using quotient_of_div [OF q] d by simp
  ultimately show ?thesis using q
    by (simp add: rat_parse_def rat_repr_def Let_def starts_with_def)
qed

lemma reference_float_codec [simp]: "float_codec reference_platform"
  by (simp add: float_codec_def reference_platform_def float_token_repr rat_parse_repr)

end
