(* ===== verification/Storage.thy ===== *)
theory Storage
  imports Json_Fields Paths Reference_Platform
begin

text \<open>
  \<^verbatim>\<open>teuton_runtime/storage.py\<close>: object URIs and the file-backed \<^verbatim>\<open>LocalBucket\<close> that mirrors
  S3. A bucket is the set of its objects, each with its body and its modification time in nanoseconds;
  the clock is an argument of every write. The key space is flat: keys are taken to have no empty,
  \<^verbatim>\<open>.\<close> or \<^verbatim>\<open>..\<close> segment and no object is a directory of another, and directories left empty
  are not represented. The interface is the pair of locales \<open>object_store\<close> and \<open>etag_store\<close>;
  \<^verbatim>\<open>LocalBucket\<close> is shown to satisfy both.
\<close>

subsection \<open>URIs\<close>

text \<open>\<^verbatim>\<open>^s3://([^/]+)/(.+)$\<close>: the dot stops at a newline, the dollar allows one final newline.\<close>

definition parse_uri :: "string \<Rightarrow> (string \<times> string) res" where
  "parse_uri uri =
     (let r = drop 5 uri;
          b = takeWhile (\<lambda>c. c \<noteq> CHR ''/'') r;
          k = drop (length b + 1) r;
          line = takeWhile (\<lambda>c. c \<noteq> CHR 0x0A) k;
          rest = dropWhile (\<lambda>c. c \<noteq> CHR 0x0A) k
      in if starts_with uri ''s3://'' \<and> b \<noteq> [] \<and> length b < length r \<and> line \<noteq> [] \<and>
            (rest = [] \<or> rest = [CHR 0x0A])
         then Inr (b, line) else Inl (ValueError ''not an s3:// URI''))"

definition join_uri :: "string \<Rightarrow> string \<Rightarrow> string" where
  "join_uri bucket key = ''s3://'' @ bucket @ ''/'' @ key"

definition bucket_name :: "string \<Rightarrow> bool" where
  "bucket_name b \<longleftrightarrow> b \<noteq> [] \<and> CHR ''/'' \<notin> set b"

definition object_key :: "string \<Rightarrow> bool" where
  "object_key k \<longleftrightarrow> k \<noteq> [] \<and> CHR 0x0A \<notin> set k"

lemma parse_join_uri [simp]: "bucket_name b \<Longrightarrow> object_key k \<Longrightarrow> parse_uri (join_uri b k) = Inr (b, k)"
proof -
  assume b: "bucket_name b" and k: "object_key k"
  have tb: "takeWhile (\<lambda>c. c \<noteq> CHR ''/'') (b @ CHR ''/'' # k) = b"
    using b by (auto simp: bucket_name_def takeWhile_append)
  have tk: "takeWhile (\<lambda>c. c \<noteq> CHR 0x0A) k = k" "dropWhile (\<lambda>c. c \<noteq> CHR 0x0A) k = []"
    using k by (auto simp: object_key_def)
  show ?thesis
    using b k by (simp add: parse_uri_def join_uri_def bucket_name_def object_key_def starts_with_def Let_def tb tk)
qed

lemma parse_uri_shape: "parse_uri u = Inr (b, k) \<Longrightarrow> bucket_name b \<and> object_key k"
  by (auto simp: parse_uri_def Let_def bucket_name_def object_key_def split: if_splits dest: set_takeWhileD)

lemma join_uri_inj:
  "bucket_name b \<Longrightarrow> bucket_name b' \<Longrightarrow> join_uri b k = join_uri b' k' \<longleftrightarrow> b = b' \<and> k = k'"
  using append_sep_inj [of b "CHR ''/''" k b' k'] by (auto simp: join_uri_def bucket_name_def)

subsection \<open>LocalBucket\<close>

type_synonym obj = "bytes \<times> int"

record LocalBucket =
  lb_bucket :: string
  lb_objects :: "((string \<times> string) \<times> obj) list"

definition LocalBucket_init :: "string \<Rightarrow> LocalBucket" where
  "LocalBucket_init bucket = \<lparr>lb_bucket = bucket, lb_objects = []\<rparr>"

definition uri_for_key :: "LocalBucket \<Rightarrow> string \<Rightarrow> string" where
  "uri_for_key st key = join_uri (lb_bucket st) key"

definition obj_at :: "string \<Rightarrow> LocalBucket \<Rightarrow> obj option res" where
  "obj_at uri st = bindE (parse_uri uri) (\<lambda>a. Inr (map_of (lb_objects st) a))"

definition LocalBucket_put :: "int \<Rightarrow> string \<Rightarrow> bytes \<Rightarrow> LocalBucket \<Rightarrow> LocalBucket res" where
  "LocalBucket_put now_ns uri data st =
     bindE (parse_uri uri) (\<lambda>a. Inr (st\<lparr>lb_objects := AList.update a (data, now_ns) (lb_objects st)\<rparr>))"

definition LocalBucket_get :: "string \<Rightarrow> LocalBucket \<Rightarrow> bytes res" where
  "LocalBucket_get uri st =
     bindE (obj_at uri st) (\<lambda>ob. case ob of None \<Rightarrow> Inl (FileNotFoundError uri) | Some (d, _) \<Rightarrow> Inr d)"

text \<open>\<^verbatim>\<open>os.path.isdir\<close> of the path of a key: some object lies below it.\<close>

definition dir_key :: "string \<Rightarrow> string" where
  "dir_key key = (if key = [] then [] else if ends_with key ''/'' then key else key @ ''/'')"

definition is_dir :: "string \<Rightarrow> string \<Rightarrow> LocalBucket \<Rightarrow> bool" where
  "is_dir bucket key st =
     (key = [] \<or> (\<exists>((b, k), _) \<in> set (lb_objects st). b = bucket \<and> starts_with k (dir_key key)))"

definition LocalBucket_exists :: "string \<Rightarrow> LocalBucket \<Rightarrow> bool res" where
  "LocalBucket_exists uri st =
     bindE (parse_uri uri) (\<lambda>(b, k). Inr (map_of (lb_objects st) (b, k) \<noteq> None \<or> is_dir b k st))"

definition mtime_unix :: "int \<Rightarrow> int" where
  "mtime_unix ns = ns div 1000000000"

definition LocalBucket_head :: "string \<Rightarrow> LocalBucket \<Rightarrow> (nat \<times> int) option res" where
  "LocalBucket_head uri st =
     bindE (obj_at uri st) (\<lambda>ob. Inr (map_option (\<lambda>(d, t). (length d, mtime_unix t)) ob))"

definition LocalBucket_delete :: "string \<Rightarrow> LocalBucket \<Rightarrow> LocalBucket res" where
  "LocalBucket_delete uri st =
     bindE (parse_uri uri) (\<lambda>a. Inr (st\<lparr>lb_objects := AList.delete a (lb_objects st)\<rparr>))"

definition prefix_target :: "string \<Rightarrow> LocalBucket \<Rightarrow> string \<times> string" where
  "prefix_target prefix_uri st =
     (case parse_uri prefix_uri of Inr a \<Rightarrow> a | Inl _ \<Rightarrow> (lb_bucket st, prefix_uri))"

definition LocalBucket_list :: "string \<Rightarrow> LocalBucket \<Rightarrow> string list" where
  "LocalBucket_list prefix_uri st =
     (let (bucket, key) = prefix_target prefix_uri st;
          keys = map (snd \<circ> fst) (filter (\<lambda>((b, _), _). b = bucket) (lb_objects st));
          hits = (if is_dir bucket key st then filter (\<lambda>k. starts_with k (dir_key key)) keys
                  else filter (\<lambda>k. starts_with k key) keys)
      in sort (map (join_uri bucket) hits))"

definition LocalBucket_list_with_meta :: "string \<Rightarrow> LocalBucket \<Rightarrow> (string \<times> int \<times> nat) list res" where
  "LocalBucket_list_with_meta prefix_uri st =
     bindE (mapE (\<lambda>uri. bindE (obj_at uri st)
                    (\<lambda>ob. Inr (map_option (\<lambda>(d, t). (uri, mtime_unix t, length d)) ob)))
             (LocalBucket_list prefix_uri st))
       (\<lambda>metas. Inr (List.map_filter id metas))"

definition etag_of :: "obj \<Rightarrow> string" where
  "etag_of ob = (case ob of (d, t) \<Rightarrow> show_int t @ ''-'' @ show_nat (length d))"

definition LocalBucket_get_with_etag ::
  "string \<Rightarrow> string option \<Rightarrow> LocalBucket \<Rightarrow> (bytes option \<times> string option) res" where
  "LocalBucket_get_with_etag uri if_none_match st =
     bindE (obj_at uri st) (\<lambda>ob.
       case ob of
         None \<Rightarrow> Inr (None, None)
       | Some (d, t) \<Rightarrow>
           if if_none_match = Some (etag_of (d, t)) then Inr (None, Some (etag_of (d, t)))
           else Inr (Some d, Some (etag_of (d, t))))"

definition current_etag :: "string \<Rightarrow> LocalBucket \<Rightarrow> string" where
  "current_etag uri st = (case obj_at uri st of Inr (Some ob) \<Rightarrow> etag_of ob | _ \<Rightarrow> [])"

definition LocalBucket_put_with_etag ::
  "int \<Rightarrow> string \<Rightarrow> bytes \<Rightarrow> string option \<Rightarrow> LocalBucket \<Rightarrow> (string \<times> LocalBucket) res" where
  "LocalBucket_put_with_etag now_ns uri data if_match st =
     bindE (parse_uri uri) (\<lambda>_.
       if if_match \<noteq> None \<and> if_match \<noteq> Some (current_etag uri st)
       then Inl (PreconditionFailed uri)
       else bindE (LocalBucket_put now_ns uri data st) (\<lambda>st'. Inr (current_etag uri st', st')))"

definition LocalBucket_wipe :: "LocalBucket \<Rightarrow> LocalBucket" where
  "LocalBucket_wipe st = st\<lparr>lb_objects := filter (\<lambda>((b, _), _). b \<noteq> lb_bucket st) (lb_objects st)\<rparr>"

definition LocalBucket_wipe_run :: "string \<Rightarrow> LocalBucket \<Rightarrow> nat \<times> LocalBucket" where
  "LocalBucket_wipe_run run_id st =
     (let below = (\<lambda>((b, k), _). b = lb_bucket st \<and> starts_with k (''runs/'' @ run_id @ ''/''))
      in (length (filter below (lb_objects st)),
          st\<lparr>lb_objects := filter (\<lambda>e. \<not> below e) (lb_objects st)\<rparr>))"

text \<open>
  \<^verbatim>\<open>put_json\<close> and \<^verbatim>\<open>get_json\<close> are the same code on every backend: they are written over its
  \<^verbatim>\<open>put\<close> and \<^verbatim>\<open>get\<close>.
\<close>

definition put_json :: "platform \<Rightarrow> (string \<Rightarrow> bytes \<Rightarrow> 's \<Rightarrow> 's res) \<Rightarrow> string \<Rightarrow> json \<Rightarrow> 's \<Rightarrow> 's res" where
  "put_json P put uri v st = put uri (utf8_encode (dumps P True v)) st"

definition get_json :: "platform \<Rightarrow> (string \<Rightarrow> 's \<Rightarrow> bytes res) \<Rightarrow> string \<Rightarrow> 's \<Rightarrow> json res" where
  "get_json P get uri st = bindE (bindE (get uri st) utf8_decode) (loads P)"

subsection \<open>The interface of an object store\<close>

locale object_store =
  fixes addr :: "string \<Rightarrow> 'a res"
    and put :: "'t \<Rightarrow> string \<Rightarrow> bytes \<Rightarrow> 's \<Rightarrow> 's res"
    and get :: "string \<Rightarrow> 's \<Rightarrow> bytes res"
  assumes put_total: "addr u = Inr a \<Longrightarrow> \<exists>s'. put now u d s = Inr s'"
    and put_addr: "put now u d s = Inr s' \<Longrightarrow> \<exists>a. addr u = Inr a"
    and get_put_same: "put now u d s = Inr s' \<Longrightarrow> addr v = addr u \<Longrightarrow> get v s' = Inr d"
    and get_put_other: "put now u d s = Inr s' \<Longrightarrow> addr v \<noteq> addr u \<Longrightarrow> get v s' = get v s"
begin

lemma get_json_put_json:
  assumes "float_codec P" "wf_json v" "put_json P (put now) u v s = Inr s'"
  shows "get_json P get u s' = Inr (norm_json v)"
proof -
  have "get u s' = Inr (utf8_encode (dumps P True v))"
    using get_put_same [of now u "utf8_encode (dumps P True v)" s s' u] assms(3) by (simp add: put_json_def)
  then show ?thesis by (simp add: get_json_def loads_dumps [OF assms(1,2)])
qed

lemma get_json_put_other:
  assumes "put now u d s = Inr s'" "addr v \<noteq> addr u"
  shows "get_json P get v s' = get_json P get v s"
  using get_put_other [OF assms] by (simp add: get_json_def)

lemma put_json_total: "addr u = Inr a \<Longrightarrow> \<exists>s'. put_json P (put now) u v s = Inr s'"
  unfolding put_json_def by (rule put_total)

end

locale etag_store = object_store addr put get
  for addr :: "string \<Rightarrow> 'a res" and put :: "'t \<Rightarrow> string \<Rightarrow> bytes \<Rightarrow> 's \<Rightarrow> 's res"
    and get :: "string \<Rightarrow> 's \<Rightarrow> bytes res" +
  fixes etag :: "string \<Rightarrow> 's \<Rightarrow> string"
    and get_with_etag :: "string \<Rightarrow> string option \<Rightarrow> 's \<Rightarrow> (bytes option \<times> string option) res"
    and put_with_etag :: "'t \<Rightarrow> string \<Rightarrow> bytes \<Rightarrow> string option \<Rightarrow> 's \<Rightarrow> (string \<times> 's) res"
  assumes cas: "put_with_etag now u d m s =
      (if (\<exists>a. addr u = Inr a) \<and> m \<noteq> None \<and> m \<noteq> Some (etag u s) then Inl (PreconditionFailed u)
       else bindE (put now u d s) (\<lambda>s'. Inr (etag u s', s')))"
    and read_etag: "addr u = Inr a \<Longrightarrow> get u s = Inr d \<Longrightarrow>
      get_with_etag u m s =
        (if m = Some (etag u s) then Inr (None, Some (etag u s)) else Inr (Some d, Some (etag u s)))"
    and read_missing: "addr u = Inr a \<Longrightarrow> get u s = Inl e \<Longrightarrow> get_with_etag u m s = Inr (None, None) \<and> etag u s = []"
begin

lemma cas_success_iff:
  assumes "addr u = Inr a"
  shows "(\<exists>e s'. put_with_etag now u d (Some m) s = Inr (e, s')) \<longleftrightarrow> m = etag u s"
proof -
  obtain s' where "put now u d s = Inr s'" using put_total [OF assms] by blast
  then show ?thesis using assms by (auto simp: cas)
qed

lemma cas_read_back:
  assumes "put_with_etag now u d m s = Inr (e, s')"
  shows "get u s' = Inr d \<and> e = etag u s' \<and> get_with_etag u None s' = Inr (Some d, Some e)"
proof -
  from assms have p: "put now u d s = Inr s'" and e: "e = etag u s'"
    by (auto simp: cas bindE_eq_Inr split: if_splits)
  from put_addr [OF p] obtain a where "addr u = Inr a" by blast
  with get_put_same [OF p refl] e show ?thesis by (simp add: read_etag)
qed

lemma cas_put: "put_with_etag now u d m s = Inr (e, s') \<Longrightarrow> put now u d s = Inr s'"
  by (auto simp: cas bindE_eq_Inr split: if_splits)

end

subsection \<open>LocalBucket is an object store with etags\<close>

interpretation lb: etag_store parse_uri LocalBucket_put LocalBucket_get
    current_etag LocalBucket_get_with_etag LocalBucket_put_with_etag
proof (unfold_locales, goal_cases)
  case (1 u a now d s)
  then show ?case by (simp add: LocalBucket_put_def)
next
  case (2 now u d s s')
  then show ?case by (auto simp: LocalBucket_put_def bindE_eq_Inr)
next
  case (3 now u d s s' v)
  then show ?case by (auto simp: LocalBucket_put_def LocalBucket_get_def obj_at_def bindE_eq_Inr)
next
  case (4 now u d s s' v)
  then show ?case by (cases "parse_uri v") (auto simp: LocalBucket_put_def LocalBucket_get_def obj_at_def bindE_eq_Inr)
next
  case (5 now u d m s)
  then show ?case by (cases "parse_uri u") (auto simp: LocalBucket_put_with_etag_def LocalBucket_put_def)
next
  case (6 u a s d m)
  then show ?case
    by (auto simp: LocalBucket_get_def LocalBucket_get_with_etag_def obj_at_def current_etag_def split: option.splits)
next
  case (7 u a s e m)
  then show ?case
    by (auto simp: LocalBucket_get_def LocalBucket_get_with_etag_def obj_at_def current_etag_def split: option.splits)
qed

lemma etag_of_inj: "etag_of (d, t) = etag_of (d', t') \<longleftrightarrow> t = t' \<and> length d = length d'"
proof
  assume "etag_of (d, t) = etag_of (d', t')"
  then have e: "rev (show_nat (length d)) @ CHR ''-'' # rev (show_int t) =
      rev (show_nat (length d')) @ CHR ''-'' # rev (show_int t')"
    by (simp add: etag_of_def) (metis append.assoc append_Cons append_Nil rev.simps(2) rev_append rev_rev_ident)
  have "CHR ''-'' \<notin> set (show_nat n)" for n using show_nat_digits minus_not_digit by blast
  with append_sep_inj [OF e] show "t = t' \<and> length d = length d'" by simp
qed (simp add: etag_of_def)

lemma etag_of_ne [simp]: "etag_of ob \<noteq> []"
  by (simp add: etag_of_def split: prod.splits)

lemma current_etag_put:
  "LocalBucket_put now u d s = Inr s' \<Longrightarrow> current_etag u s' = etag_of (d, now)"
  by (auto simp: LocalBucket_put_def current_etag_def obj_at_def bindE_eq_Inr)

definition LocalBucket_wf :: "LocalBucket \<Rightarrow> bool" where
  "LocalBucket_wf st \<longleftrightarrow> distinct (map fst (lb_objects st)) \<and>
     (\<forall>((b, k), _) \<in> set (lb_objects st). bucket_name b \<and> object_key k)"

lemma LocalBucket_put_wf:
  assumes "LocalBucket_wf s" "LocalBucket_put now u d s = Inr s'"
  shows "LocalBucket_wf s'"
proof -
  obtain b k where p: "parse_uri u = Inr (b, k)"
    and s': "s' = s\<lparr>lb_objects := AList.update (b, k) (d, now) (lb_objects s)\<rparr>"
    using assms(2) by (auto simp: LocalBucket_put_def bindE_eq_Inr)
  have "set (lb_objects s') \<subseteq> insert ((b, k), (d, now)) (set (lb_objects s))"
    unfolding s' using set_update_subset by force
  with assms(1) parse_uri_shape [OF p] s' show ?thesis
    by (fastforce simp: LocalBucket_wf_def distinct_update)
qed

lemma LocalBucket_delete_wf:
  "LocalBucket_wf s \<Longrightarrow> LocalBucket_delete u s = Inr s' \<Longrightarrow> LocalBucket_wf s'"
  by (auto simp: LocalBucket_wf_def LocalBucket_delete_def bindE_eq_Inr distinct_delete
      dest!: set_delete_subset [THEN subsetD])

lemma dir_key_slash: "ends_with p ''/'' \<Longrightarrow> p \<noteq> [] \<Longrightarrow> dir_key p = p"
  by (simp add: dir_key_def)

lemma list_dir:
  assumes "ends_with p ''/''" "p \<noteq> []" "prefix_target u st = (b, p)"
  shows "LocalBucket_list u st =
    sort (map (join_uri b) (filter (\<lambda>k. starts_with k p) (map (snd \<circ> fst) (filter (\<lambda>((c, _), _). c = b) (lb_objects st)))))"
  using assms by (simp add: LocalBucket_list_def dir_key_slash Let_def)

lemma set_bucket_keys:
  "set (map (snd \<circ> fst) (filter (\<lambda>((c, _), _). c = b) os)) = {k. map_of os (b, k) \<noteq> None}"
  by (auto simp: map_of_eq_None_iff image_iff) force+

lemma distinct_bucket_keys:
  assumes "distinct (map fst os)"
  shows "distinct (map (snd \<circ> fst) (filter (\<lambda>((c, _), _). c = b) os))"
  using assms by (induction os) (auto simp: image_iff)

lemma set_map_filter_id: "set (List.map_filter id os) = {x. Some x \<in> set os}"
  by (force simp: List.map_filter_def)

lemma listed_meta:
  assumes "LocalBucket_wf st" "bucket_name b" "object_key p" "ends_with p ''/''"
  shows "\<exists>ms. LocalBucket_list_with_meta (join_uri b p) st = Inr ms \<and>
    set ms = {(join_uri b k, mtime_unix t, length d) | k d t. map_of (lb_objects st) (b, k) = Some (d, t) \<and> starts_with k p} \<and>
    length ms \<le> length (lb_objects st)"
proof -
  have pt: "prefix_target (join_uri b p) st = (b, p)" using assms by (simp add: prefix_target_def)
  have pn: "p \<noteq> []" using assms(3) by (simp add: object_key_def)
  define ks where "ks = filter (\<lambda>k. starts_with k p) (map (snd \<circ> fst) (filter (\<lambda>((c, _), _). c = b) (lb_objects st)))"
  have l: "LocalBucket_list (join_uri b p) st = sort (map (join_uri b) ks)"
    using list_dir [OF assms(4) pn pt] by (simp add: ks_def)
  have ks: "k \<in> set ks \<longleftrightarrow> map_of (lb_objects st) (b, k) \<noteq> None \<and> starts_with k p" for k
    using set_bucket_keys [of b "lb_objects st"] unfolding ks_def by auto
  define g where "g uri = map_option (\<lambda>(d, t). (uri, mtime_unix t, length d)) (map_of (lb_objects st) (projr (parse_uri uri)))"
    for uri
  have ok: "parse_uri (join_uri b k) = Inr (b, k)" if "k \<in> set ks" for k
  proof -
    from that ks have "map_of (lb_objects st) (b, k) \<noteq> None" by simp
    then obtain ob where "((b, k), ob) \<in> set (lb_objects st)" by (metis map_of_SomeD not_Some_eq)
    then have "object_key k" using assms(1) by (auto simp: LocalBucket_wf_def)
    then show ?thesis using assms(2) by simp
  qed
  then have g_eq: "g (join_uri b k) = map_option (\<lambda>(d, t). (join_uri b k, mtime_unix t, length d)) (map_of (lb_objects st) (b, k))"
    if "k \<in> set ks" for k using that by (simp add: g_def)
  have m: "mapE (\<lambda>uri. bindE (obj_at uri st) (\<lambda>ob. Inr (map_option (\<lambda>(d, t). (uri, mtime_unix t, length d)) ob)))
      (LocalBucket_list (join_uri b p) st) = Inr (map g (LocalBucket_list (join_uri b p) st))"
    by (rule mapE_Inr) (auto simp: l g_def obj_at_def ok)
  let ?ms = "List.map_filter id (map g (LocalBucket_list (join_uri b p) st))"
  have "set ?ms = {x. \<exists>k \<in> set ks. g (join_uri b k) = Some x}"
    by (auto simp: l set_map_filter_id image_iff) metis
  also have "\<dots> = {(join_uri b k, mtime_unix t, length d) | k d t. map_of (lb_objects st) (b, k) = Some (d, t) \<and> starts_with k p}"
    using ks by (fastforce simp: g_eq)
  finally have "set ?ms = {(join_uri b k, mtime_unix t, length d) | k d t. map_of (lb_objects st) (b, k) = Some (d, t) \<and> starts_with k p}" .
  moreover have "length ?ms \<le> length (lb_objects st)"
  proof -
    have "length ?ms \<le> length (map g (LocalBucket_list (join_uri b p) st))"
      by (simp add: List.map_filter_def)
    also have "\<dots> \<le> length (lb_objects st)"
      by (simp add: l ks_def)
    finally show ?thesis .
  qed
  moreover have "LocalBucket_list_with_meta (join_uri b p) st = Inr ?ms"
    by (simp add: LocalBucket_list_with_meta_def m)
  ultimately show ?thesis by blast
qed

subsection \<open>Properties\<close>

text \<open>
  Writing a JSON value to a well-formed URI always succeeds; reading the URI back gives the value
  with its keys sorted, and what every other object reads as is unchanged.
\<close>

theorem lb_json_roundtrip:
  assumes "float_codec P" and "wf_json v" and "parse_uri u = Inr a"
  shows "\<exists>s'. put_json P (LocalBucket_put now) u v s = Inr s' \<and>
    get_json P LocalBucket_get u s' = Inr (norm_json v) \<and>
    (\<forall>w. parse_uri w = Inr a \<or> get_json P LocalBucket_get w s' = get_json P LocalBucket_get w s)"
proof -
  obtain s' where s': "put_json P (LocalBucket_put now) u v s = Inr s'"
    using lb.put_json_total [OF assms(3)] by blast
  moreover have "get_json P LocalBucket_get w s' = get_json P LocalBucket_get w s" if "parse_uri w \<noteq> Inr a" for w
    using lb.get_json_put_other s' that assms(3) unfolding put_json_def by metis
  ultimately show ?thesis using lb.get_json_put_json [OF assms(1,2) s'] by blast
qed

theorem lb_json_roundtrip_witness:
  "\<exists>s'. put_json reference_platform (LocalBucket_put 7) ''s3://b/x/k.json'' (JObj [(''n'', JInt 1), (''a'', JFloat 2)])
      (LocalBucket_init ''b'') = Inr s' \<and>
    get_json reference_platform LocalBucket_get ''s3://b/x/k.json'' s' = Inr (JObj [(''a'', JFloat 2), (''n'', JInt 1)])"
proof -
  have "parse_uri ''s3://b/x/k.json'' = Inr (''b'', ''x/k.json'')" by code_simp
  moreover have "norm_json (JObj [(''n'', JInt 1), (''a'', JFloat 2)]) = JObj [(''a'', JFloat 2), (''n'', JInt 1)]"
    by code_simp
  moreover have "wf_json (JObj [(''n'', JInt 1), (''a'', JFloat 2)])" by (simp add: wf_dict_def)
  ultimately show ?thesis
    using lb_json_roundtrip [of reference_platform "JObj [(''n'', JInt 1), (''a'', JFloat 2)]"
        "''s3://b/x/k.json''" _ 7 "LocalBucket_init ''b''"] by fastforce
qed

text \<open>
  No lost update: a conditional write succeeds exactly when the etag it carries is the object's
  current one. After one writer's conditional write with the etag both writers read, made at a clock value
  other than the object's old modification time, the other writer's write with that etag is refused, and
  the first writer's body is what is stored.
\<close>

theorem lb_no_lost_update:
  assumes "parse_uri u = Inr a" and "map_of (lb_objects s) a = Some (b, t)" and "now1 \<noteq> t"
  shows "\<exists>e e1 s1. LocalBucket_get_with_etag u None s = Inr (Some b, Some e) \<and>
    LocalBucket_put_with_etag now1 u d1 (Some e) s = Inr (e1, s1) \<and>
    LocalBucket_put_with_etag now2 u d2 (Some e) s1 = Inl (PreconditionFailed u) \<and>
    LocalBucket_get u s1 = Inr d1"
proof -
  have e: "current_etag u s = etag_of (b, t)" using assms by (simp add: current_etag_def obj_at_def)
  have g: "LocalBucket_get_with_etag u None s = Inr (Some b, Some (etag_of (b, t)))"
    using assms by (simp add: LocalBucket_get_with_etag_def obj_at_def)
  from e obtain e1 s1 where w: "LocalBucket_put_with_etag now1 u d1 (Some (etag_of (b, t))) s = Inr (e1, s1)"
    using lb.cas_success_iff [OF assms(1)] by metis
  have "current_etag u s1 = etag_of (d1, now1)"
    by (rule current_etag_put [OF lb.cas_put [OF w]])
  then have "etag_of (b, t) \<noteq> current_etag u s1" using assms(3) by (simp add: etag_of_inj)
  then have "LocalBucket_put_with_etag now2 u d2 (Some (etag_of (b, t))) s1 = Inl (PreconditionFailed u)"
    using assms(1) by (simp add: LocalBucket_put_with_etag_def)
  with g w lb.cas_read_back [OF w] show ?thesis by blast
qed

theorem lb_no_lost_update_witness:
  "\<exists>e e1 s1. LocalBucket_get_with_etag ''s3://b/k'' None \<lparr>lb_bucket = ''b'', lb_objects = [((''b'', ''k''), ([1], 5))]\<rparr>
       = Inr (Some [1], Some e) \<and>
    LocalBucket_put_with_etag 6 ''s3://b/k'' [2] (Some e) \<lparr>lb_bucket = ''b'', lb_objects = [((''b'', ''k''), ([1], 5))]\<rparr>
       = Inr (e1, s1) \<and>
    LocalBucket_put_with_etag 7 ''s3://b/k'' [3] (Some e) s1 = Inl (PreconditionFailed ''s3://b/k'') \<and>
    LocalBucket_get ''s3://b/k'' s1 = Inr [2]"
proof (rule lb_no_lost_update [where a = "(''b'', ''k'')" and t = 5])
  show "parse_uri ''s3://b/k'' = Inr (''b'', ''k'')" by code_simp
qed simp_all

text \<open>
  Listing a prefix that ends in a slash gives, sorted and without repetition, exactly the URIs of the
  objects of the bucket whose key starts with the prefix.
\<close>

theorem lb_list_exact:
  assumes "LocalBucket_wf st" and "bucket_name b" and "object_key p" and "ends_with p ''/''"
  shows "set (LocalBucket_list (join_uri b p) st) =
      {join_uri b k | k. map_of (lb_objects st) (b, k) \<noteq> None \<and> starts_with k p} \<and>
    sorted (LocalBucket_list (join_uri b p) st) \<and> distinct (LocalBucket_list (join_uri b p) st)"
proof -
  have pt: "prefix_target (join_uri b p) st = (b, p)" using assms by (simp add: prefix_target_def)
  have pn: "p \<noteq> []" using assms(3) by (simp add: object_key_def)
  let ?ks = "map (snd \<circ> fst) (filter (\<lambda>((c, _), _). c = b) (lb_objects st))"
  have l: "LocalBucket_list (join_uri b p) st = sort (map (join_uri b) (filter (\<lambda>k. starts_with k p) ?ks))"
    by (rule list_dir [OF assms(4) pn pt])
  have "distinct (map (join_uri b) (filter (\<lambda>k. starts_with k p) ?ks))"
    using distinct_bucket_keys [of "lb_objects st" b] assms(1,2)
    by (simp add: LocalBucket_wf_def distinct_map inj_on_def join_uri_inj)
  moreover have "set (map (join_uri b) (filter (\<lambda>k. starts_with k p) ?ks)) =
      {join_uri b k | k. map_of (lb_objects st) (b, k) \<noteq> None \<and> starts_with k p}"
    using set_bucket_keys [of b "lb_objects st"] by auto
  ultimately show ?thesis unfolding l by simp
qed

theorem lb_list_exact_witness:
  "sorted (LocalBucket_list (join_uri ''b'' ''p/'')
     \<lparr>lb_bucket = ''b'', lb_objects = [((''b'', ''p/z''), ([1], 5)), ((''b'', ''p/a''), ([], 6)), ((''b'', ''q''), ([], 6))]\<rparr>) \<and>
   LocalBucket_list (join_uri ''b'' ''p/'')
     \<lparr>lb_bucket = ''b'', lb_objects = [((''b'', ''p/z''), ([1], 5)), ((''b'', ''p/a''), ([], 6)), ((''b'', ''q''), ([], 6))]\<rparr>
     = [''s3://b/p/a'', ''s3://b/p/z'']"
proof
  let ?st = "\<lparr>lb_bucket = ''b'', lb_objects = [((''b'', ''p/z''), ([1], 5)), ((''b'', ''p/a''), ([], 6)), ((''b'', ''q''), ([], 6))]\<rparr> :: LocalBucket"
  show "sorted (LocalBucket_list (join_uri ''b'' ''p/'') ?st)"
    using lb_list_exact [of ?st "''b''" "''p/''"]
    by (simp add: LocalBucket_wf_def bucket_name_def object_key_def ends_with_def)
  show "LocalBucket_list (join_uri ''b'' ''p/'') ?st = [''s3://b/p/a'', ''s3://b/p/z'']" by code_simp
qed

end
