(* ===== verification/Record_Store.thy ===== *)
theory Record_Store
  imports Protocol_Codec Storage
begin

text \<open>
  Protocol records in the bucket: \<^verbatim>\<open>bucket.put_json(uri, record.to_dict())\<close> and
  \<^verbatim>\<open>Record.from_dict(bucket.get_json(uri))\<close>, the idiom by which orchestrator, miner, auditor and
  validator exchange manifests, receipts, audit results and verdicts. Shown: what one component stores
  another loads with the same hash, the same signed bytes and the same signature.
\<close>

subsection \<open>Loading a record\<close>

definition load_record :: "platform \<Rightarrow> (dict \<Rightarrow> 'r res) \<Rightarrow> string \<Rightarrow> LocalBucket \<Rightarrow> 'r res" where
  "load_record P dec uri st = bindE (bindE (get_json P LocalBucket_get uri st) as_mapping) dec"

definition load_manifest :: "platform \<Rightarrow> string \<Rightarrow> LocalBucket \<Rightarrow> JobManifestV3 res" where
  "load_manifest P = load_record P (JobManifestV3_from_dict P)"

definition load_receipt :: "platform \<Rightarrow> string \<Rightarrow> LocalBucket \<Rightarrow> JobReceiptV3 res" where
  "load_receipt P = load_record P (JobReceiptV3_from_dict P)"

definition load_audit_result :: "platform \<Rightarrow> string \<Rightarrow> LocalBucket \<Rightarrow> AuditResultV3 res" where
  "load_audit_result P = load_record P (AuditResultV3_from_dict P)"

definition load_verdict :: "platform \<Rightarrow> string \<Rightarrow> LocalBucket \<Rightarrow> VerificationVerdictV3 res" where
  "load_verdict P = load_record P (VerificationVerdictV3_from_dict P)"

abbreviation store_dict :: "platform \<Rightarrow> int \<Rightarrow> string \<Rightarrow> dict \<Rightarrow> LocalBucket \<Rightarrow> LocalBucket res" where
  "store_dict P now uri d st \<equiv> put_json P (LocalBucket_put now) uri (JObj d) st"

lemma load_stored:
  assumes "float_codec P" "wf_dict d" "store_dict P now u d s = Inr s'"
  shows "load_record P dec u s' = dec (norm_dict d)"
  using lb.get_json_put_json [OF assms(1) _ assms(3)] assms(2) by (simp add: load_record_def)

lemma load_other:
  assumes "store_dict P now u d s = Inr s'" "parse_uri w \<noteq> parse_uri u"
  shows "load_record P dec w s' = load_record P dec w s"
  using lb.get_json_put_other [of now u "utf8_encode (dumps P True (JObj d))" s s' w] assms
  by (simp add: load_record_def put_json_def)

lemma load_stored_manifest:
  assumes "float_codec P" "JobManifestV3_wf m" "store_dict P now u (JobManifestV3_to_dict P m) s = Inr s'"
  shows "load_manifest P u s' = Inr (JobManifestV3_raw norm_dict m)"
  by (simp add: load_manifest_def load_stored [OF assms(1) wf_JobManifestV3 [OF assms(2)] assms(3)] canon.JobManifestV3_decode)

lemma load_stored_receipt:
  assumes "float_codec P" "JobReceiptV3_wf r" "store_dict P now u (JobReceiptV3_to_dict r) s = Inr s'"
  shows "load_receipt P u s' = Inr (JobReceiptV3_raw norm_dict r)"
  by (simp add: load_receipt_def load_stored [OF assms(1) wf_JobReceiptV3 [OF assms(2)] assms(3)] canon.JobReceiptV3_decode)

lemma load_stored_audit_result:
  assumes "float_codec P" "wf_dict (au_comparison a)" "store_dict P now u (AuditResultV3_to_dict a) s = Inr s'"
  shows "load_audit_result P u s' = Inr (AuditResultV3_raw norm_dict a)"
  by (simp add: load_audit_result_def load_stored [OF assms(1) wf_AuditResultV3 [OF assms(2)] assms(3)] canon.AuditResultV3_decode)

lemma load_stored_verdict:
  assumes "float_codec P" "wf_dict (vv_comparison v)" "store_dict P now u (VerificationVerdictV3_to_dict v) s = Inr s'"
  shows "load_verdict P u s' = Inr (VerificationVerdictV3_raw norm_dict v)"
  by (simp add: load_verdict_def load_stored [OF assms(1) wf_VerificationVerdictV3 [OF assms(2)] assms(3)] canon.VerificationVerdictV3_decode)

subsection \<open>Sample records\<close>

definition sample_manifest :: JobManifestV3 where
  "sample_manifest =
     \<lparr>mf_job_id = ''run-s0-fwd'', mf_run_id = ''run'', mf_step_id = 0, mf_kind = ''fwd'',
      mf_graph_ref = \<lparr>gr_sha256 = ''ab'', gr_uri = ''s3://b/g.json''\<rparr>,
      mf_params = [(''lr'', JFloat (1 / 2)), (''bs'', JInt 8)],
      mf_inputs = [\<lparr>ar_name = ''x'', ar_uri = ''s3://b/x.bin'', ar_sha256 = None, ar_size_bytes = Some 4, ar_crypto = None\<rparr>],
      mf_outputs = [\<lparr>ar_name = ''y'', ar_uri = ''s3://b/y.bin'', ar_sha256 = None, ar_size_bytes = None, ar_crypto = None\<rparr>],
      mf_assigned_hotkey = ''hk'', mf_assigned_worker = Some ''w0'', mf_attempt = 0, mf_deadline_unix = 100,
      mf_created_unix = 10,
      mf_resource_requirements = \<lparr>rr_min_gpus = 1, rr_placement = ''single_worker'', rr_parallelism = []\<rparr>,
      mf_verification_policy = \<lparr>vp_method = ''replay_ir_v1'', vp_comparator = ''auto'', vp_rtol = 1 / 1000,
        vp_atol = 1 / 10000, vp_max_sample_elements = 4096, vp_sample_seed = 0, vp_critical = False\<rparr>,
      mf_owner_signature = None, mf_schema_version = 3\<rparr>"

definition sample_receipt :: JobReceiptV3 where
  "sample_receipt =
     \<lparr>rc_receipt_id = ''run-s0-fwd:hk:0'', rc_manifest_hash = ''00'', rc_job_id = ''run-s0-fwd'', rc_run_id = ''run'',
      rc_step_id = 0, rc_kind = ''fwd'',
      rc_worker = \<lparr>wi_hotkey_ss58 = ''hk'', wi_worker_id = ''w0'', wi_host_id = ''h'', wi_gpu_index = None,
        wi_session_nonce = ''n'', wi_software_hash = ''dev'', wi_device_group = [0, 1], wi_worker_group_id = None,
        wi_capabilities = [(''gpu'', JBool True)]\<rparr>,
      rc_input_digests = [], rc_output_digests = [], rc_started_unix = 1, rc_finished_unix = 2, rc_compute_sec = 1,
      rc_claimed_bytes_read = 0, rc_claimed_bytes_written = 0, rc_execution = [], rc_miner_signature = None,
      rc_schema_version = 3\<rparr>"

lemma sample_manifest_wf [simp]: "JobManifestV3_wf sample_manifest"
  by (simp add: JobManifestV3_wf_def sample_manifest_def wf_dict_def)

lemma sample_receipt_wf [simp]: "JobReceiptV3_wf sample_receipt"
  by (simp add: JobReceiptV3_wf_def sample_receipt_def wf_dict_def)

lemma sample_uri [simp]: "parse_uri ''s3://b/m.json'' = Inr (''b'', ''m.json'')"
  by code_simp

subsection \<open>Properties\<close>

text \<open>
  C1. A job manifest survives the bucket: writing it succeeds, and the miner or auditor that loads it gets
  the orchestrator's manifest (free-form parameters up to key order) with the same manifest hash, the same
  signature field and the same canonical bytes under that signature.
\<close>

theorem manifest_survives_store:
  assumes "float_codec P" and "JobManifestV3_wf m" and "parse_uri u = Inr a"
  shows "\<exists>s' m'. store_dict P now u (JobManifestV3_to_dict P m) s = Inr s' \<and> load_manifest P u s' = Inr m' \<and>
    m' = JobManifestV3_raw norm_dict m \<and> manifest_hash P m' = manifest_hash P m \<and>
    mf_owner_signature m' = mf_owner_signature m \<and>
    canonical_json P (JObj (JobManifestV3_unsigned_dict m')) = canonical_json P (JObj (JobManifestV3_unsigned_dict m))"
proof -
  obtain s' where s': "store_dict P now u (JobManifestV3_to_dict P m) s = Inr s'"
    using lb.put_json_total [OF assms(3)] by blast
  with load_stored_manifest [OF assms(1,2)] show ?thesis
    by (simp add: manifest_canonical_raw) (simp add: JobManifestV3_raw_def)
qed

theorem manifest_survives_store_witness:
  "\<exists>s' m'. store_dict reference_platform 7 ''s3://b/m.json'' (JobManifestV3_to_dict reference_platform sample_manifest)
       (LocalBucket_init ''b'') = Inr s' \<and>
     load_manifest reference_platform ''s3://b/m.json'' s' = Inr m' \<and>
     mf_params m' = [(''bs'', JInt 8), (''lr'', JFloat (1 / 2))] \<and>
     manifest_hash reference_platform m' = manifest_hash reference_platform sample_manifest"
proof -
  have "norm_dict [(''lr'', JFloat (1 / 2)), (''bs'', JInt 8)] = [(''bs'', JInt 8), (''lr'', JFloat (1 / 2))]"
    by code_simp
  then have "mf_params (JobManifestV3_raw norm_dict sample_manifest) = [(''bs'', JInt 8), (''lr'', JFloat (1 / 2))]"
    by (simp add: JobManifestV3_raw_def sample_manifest_def)
  then show ?thesis
    using manifest_survives_store [OF reference_float_codec sample_manifest_wf sample_uri,
        of 7 "LocalBucket_init ''b''"] by blast
qed

text \<open>
  C2. The manifest hash binds the manifest: two manifests hash alike exactly when they agree in every
  field except the owner signature, free-form parameters compared up to key order, or their canonical
  bytes are a SHA-256 collision.
\<close>

theorem manifest_hash_binding:
  assumes "float_codec P" and "JobManifestV3_wf m" and "JobManifestV3_wf m'"
  shows "manifest_hash P m = manifest_hash P m' \<longleftrightarrow>
    JobManifestV3_raw norm_dict (m\<lparr>mf_owner_signature := None\<rparr>) =
      JobManifestV3_raw norm_dict (m'\<lparr>mf_owner_signature := None\<rparr>) \<or>
    collision sha256 (canonical_json P (JObj (JobManifestV3_unsigned_dict m)))
      (canonical_json P (JObj (JobManifestV3_unsigned_dict m')))"
proof -
  have "norm_dict (JobManifestV3_unsigned_dict m) = norm_dict (JobManifestV3_unsigned_dict m') \<longleftrightarrow>
      JobManifestV3_raw norm_dict (m\<lparr>mf_owner_signature := None\<rparr>) =
      JobManifestV3_raw norm_dict (m'\<lparr>mf_owner_signature := None\<rparr>)" (is "?l \<longleftrightarrow> ?r")
  proof
    assume ?r
    moreover have "JobManifestV3_unsigned_dict (x\<lparr>mf_owner_signature := None\<rparr>) = JobManifestV3_unsigned_dict x" for x
      by (simp add: JobManifestV3_unsigned_dict_def)
    ultimately show ?l by (metis norm_raw_manifest)
  qed (rule unsigned_norm_eq)
  then show ?thesis
    using digest_dict_eq [OF assms(1) wf_JobManifestV3_unsigned [OF assms(2)] wf_JobManifestV3_unsigned [OF assms(3)]]
    by (simp add: manifest_hash_def)
qed

theorem manifest_hash_binding_witness:
  "manifest_hash reference_platform sample_manifest =
   manifest_hash reference_platform
     (sample_manifest\<lparr>mf_params := rev (mf_params sample_manifest), mf_owner_signature := Some ''sig''\<rparr>)"
proof -
  let ?m = "sample_manifest\<lparr>mf_params := rev (mf_params sample_manifest), mf_owner_signature := Some ''sig''\<rparr>"
  have wf: "JobManifestV3_wf ?m"
    using sample_manifest_wf by (simp add: JobManifestV3_wf_def sample_manifest_def wf_dict_def)
  have n: "norm_dict (mf_params sample_manifest) = norm_dict (rev (mf_params sample_manifest))"
    unfolding sample_manifest_def by code_simp
  have "JobManifestV3_raw norm_dict (sample_manifest\<lparr>mf_owner_signature := None\<rparr>) =
      JobManifestV3_raw norm_dict (?m\<lparr>mf_owner_signature := None\<rparr>)"
    by (simp add: JobManifestV3_raw_def n)
  then show ?thesis
    using manifest_hash_binding [OF reference_float_codec sample_manifest_wf wf] by blast
qed

end
