(* ===== verification/Queue.thy ===== *)
theory Queue
  imports Record_Store
begin

text \<open>
  \<^verbatim>\<open>teuton_runtime/queue.py\<close>: the outstanding-work queue. The orchestrator keeps the queue in memory
  (an insertion-ordered dict from job id to entry) and publishes snapshots of it to one bucket object
  with a conditional write; workers read the snapshot. Every operation is modelled with its lock scope: an
  operation that holds the lock is one state change, \<^verbatim>\<open>flush\<close> is three (snapshot under the lock,
  conditional write outside it, commit under the lock), so that other threads and other writers can act in
  between. An operation that may raise returns its outcome and the state it leaves behind.
\<close>

subsection \<open>Entries and snapshots\<close>

record QueueEntry =
  qe_job_id :: string
  qe_assigned_hotkey :: string
  qe_assigned_worker :: "string option"
  qe_manifest_uri :: string
  qe_grant_uri :: "string option"
  qe_deadline_unix :: int
  qe_attempt :: int
  qe_created_unix :: int

definition QueueEntry_to_dict :: "QueueEntry \<Rightarrow> dict" where
  "QueueEntry_to_dict e =
     [(''job_id'', JStr (qe_job_id e)),
      (''assigned_hotkey'', JStr (qe_assigned_hotkey e)),
      (''assigned_worker'', opt_json JStr (qe_assigned_worker e)),
      (''manifest_uri'', JStr (qe_manifest_uri e)),
      (''grant_uri'', opt_json JStr (qe_grant_uri e)),
      (''deadline_unix'', JInt (qe_deadline_unix e)),
      (''attempt'', JInt (qe_attempt e)),
      (''created_unix'', JInt (qe_created_unix e))]"

definition QueueEntry_from_dict :: "platform \<Rightarrow> dict \<Rightarrow> QueueEntry res" where
  "QueueEntry_from_dict P d =
     bindE (bindE (get_req d ''job_id'') (py_str P)) (\<lambda>job_id.
     bindE (bindE (get_req d ''assigned_hotkey'') (py_str P)) (\<lambda>assigned_hotkey.
     bindE (as_opt_str (get_none d ''assigned_worker'')) (\<lambda>assigned_worker.
     bindE (bindE (get_req d ''manifest_uri'') (py_str P)) (\<lambda>manifest_uri.
     bindE (as_opt_str (get_none d ''grant_uri'')) (\<lambda>grant_uri.
     bindE (py_int (or_else (get_none d ''deadline_unix'') (JInt 0))) (\<lambda>deadline_unix.
     bindE (py_int (or_else (get_none d ''attempt'') (JInt 0))) (\<lambda>attempt.
     bindE (py_int (or_else (get_none d ''created_unix'') (JInt 0))) (\<lambda>created_unix.
     Inr \<lparr>qe_job_id = job_id, qe_assigned_hotkey = assigned_hotkey, qe_assigned_worker = assigned_worker,
          qe_manifest_uri = manifest_uri, qe_grant_uri = grant_uri, qe_deadline_unix = deadline_unix,
          qe_attempt = attempt, qe_created_unix = created_unix\<rparr>))))))))"

definition QueueEntry_from_manifest :: "JobManifestV3 \<Rightarrow> string \<Rightarrow> string option \<Rightarrow> QueueEntry" where
  "QueueEntry_from_manifest m manifest_uri grant_uri =
     \<lparr>qe_job_id = mf_job_id m, qe_assigned_hotkey = mf_assigned_hotkey m,
      qe_assigned_worker = mf_assigned_worker m, qe_manifest_uri = manifest_uri, qe_grant_uri = grant_uri,
      qe_deadline_unix = mf_deadline_unix m, qe_attempt = mf_attempt m, qe_created_unix = mf_created_unix m\<rparr>"

record QueueState =
  qs_role :: string
  qs_snapshot_unix :: int
  qs_snapshot_id :: int
  qs_outstanding :: "QueueEntry list"
  qs_etag :: "string option"
  qs_version :: int

text \<open>\<^verbatim>\<open>entry.assigned_worker not in (None, "", worker_id)\<close> skips the entry.\<close>

definition QueueState_filter_for_worker :: "string \<Rightarrow> string option \<Rightarrow> QueueState \<Rightarrow> QueueEntry list" where
  "QueueState_filter_for_worker hotkey worker_id qs =
     filter (\<lambda>e. qe_assigned_hotkey e = hotkey \<and> qe_assigned_worker e \<in> {None, Some [], worker_id})
       (qs_outstanding qs)"

definition QueueState_to_payload :: "QueueState \<Rightarrow> dict" where
  "QueueState_to_payload qs =
     [(''version'', JInt (qs_version qs)),
      (''role'', JStr (qs_role qs)),
      (''snapshot_unix'', JInt (qs_snapshot_unix qs)),
      (''snapshot_id'', JInt (qs_snapshot_id qs)),
      (''outstanding'', JList (map (\<lambda>e. JObj (QueueEntry_to_dict e)) (qs_outstanding qs)))]"

definition QueueState_from_payload :: "platform \<Rightarrow> dict \<Rightarrow> string option \<Rightarrow> QueueState res" where
  "QueueState_from_payload P d etag =
     bindE (records_of (QueueEntry_from_dict P) (or_else (get_none d ''outstanding'') (JList []))) (\<lambda>outstanding.
     bindE (py_str P (or_else (get_none d ''role'') (JStr ''train''))) (\<lambda>role.
     bindE (py_int (or_else (get_none d ''snapshot_unix'') (JInt 0))) (\<lambda>snapshot_unix.
     bindE (py_int (or_else (get_none d ''snapshot_id'') (JInt 0))) (\<lambda>snapshot_id.
     bindE (py_int (or_else (get_none d ''version'') (JInt 1))) (\<lambda>version.
     Inr \<lparr>qs_role = role, qs_snapshot_unix = snapshot_unix, qs_snapshot_id = snapshot_id,
          qs_outstanding = outstanding, qs_etag = etag, qs_version = version\<rparr>)))))"

definition queue_uri :: "LocalBucket \<Rightarrow> int \<Rightarrow> string \<Rightarrow> string \<Rightarrow> string res" where
  "queue_uri st netuid run_id role = bindE (queue_key netuid run_id role) (\<lambda>k. Inr (uri_for_key st k))"

definition read_queue ::
  "platform \<Rightarrow> LocalBucket \<Rightarrow> int \<Rightarrow> string \<Rightarrow> string \<Rightarrow> string option \<Rightarrow> QueueState option res" where
  "read_queue P st netuid run_id role if_none_match =
     bindE (queue_uri st netuid run_id role) (\<lambda>uri.
     bindE (LocalBucket_get_with_etag uri if_none_match st) (\<lambda>(body, etag).
       case body of
         None \<Rightarrow> Inr None
       | Some b \<Rightarrow>
           (case bindE (utf8_decode b) (loads P) of
              Inl e \<Rightarrow> if e = Untyped then Inl Untyped else Inr None
            | Inr (JObj payload) \<Rightarrow> bindE (QueueState_from_payload P payload etag) (\<lambda>qs. Inr (Some qs))
            | Inr _ \<Rightarrow> Inr None)))"

subsection \<open>The orchestrator's queue\<close>

record OrchestratorQueue =
  oq_netuid :: int
  oq_run_id :: string
  oq_role :: string
  oq_flush_max_changes :: int
  oq_outstanding :: "(string \<times> QueueEntry) list"
  oq_snapshot_id :: int
  oq_etag :: "string option"
  oq_dirty :: bool
  oq_pending_changes :: int

definition OrchestratorQueue_init :: "int \<Rightarrow> string \<Rightarrow> string \<Rightarrow> int \<Rightarrow> OrchestratorQueue" where
  "OrchestratorQueue_init netuid run_id role flush_max_changes =
     \<lparr>oq_netuid = netuid, oq_run_id = run_id, oq_role = role, oq_flush_max_changes = flush_max_changes,
      oq_outstanding = [], oq_snapshot_id = 0, oq_etag = None, oq_dirty = False, oq_pending_changes = 0\<rparr>"

definition mark_dirty :: "int \<Rightarrow> OrchestratorQueue \<Rightarrow> OrchestratorQueue" where
  "mark_dirty n q = q\<lparr>oq_dirty := True, oq_pending_changes := oq_pending_changes q + n\<rparr>"

definition add :: "QueueEntry \<Rightarrow> OrchestratorQueue \<Rightarrow> OrchestratorQueue" where
  "add e q = mark_dirty 1 (q\<lparr>oq_outstanding := AList.update (qe_job_id e) e (oq_outstanding q)\<rparr>)"

definition remove :: "string \<Rightarrow> OrchestratorQueue \<Rightarrow> bool \<times> OrchestratorQueue" where
  "remove job_id q =
     (if map_of (oq_outstanding q) job_id \<noteq> None
      then (True, mark_dirty 1 (q\<lparr>oq_outstanding := AList.delete job_id (oq_outstanding q)\<rparr>))
      else (False, q))"

text \<open>The loop of \<^verbatim>\<open>remove_many\<close>: the remaining entries and how many were removed.\<close>

fun remove_loop :: "string list \<Rightarrow> (string \<times> QueueEntry) list \<times> int \<Rightarrow> (string \<times> QueueEntry) list \<times> int" where
  "remove_loop [] (d, n) = (d, n)"
| "remove_loop (j # js) (d, n) =
     remove_loop js (if map_of d j \<noteq> None then (AList.delete j d, n + 1) else (d, n))"

definition remove_many :: "string list \<Rightarrow> OrchestratorQueue \<Rightarrow> int \<times> OrchestratorQueue" where
  "remove_many job_ids q =
     (case remove_loop job_ids (oq_outstanding q, 0) of
        (d, removed) \<Rightarrow>
          (removed, if removed \<noteq> 0 then mark_dirty removed (q\<lparr>oq_outstanding := d\<rparr>) else q\<lparr>oq_outstanding := d\<rparr>))"

definition replay :: "string \<Rightarrow> int \<Rightarrow> int \<Rightarrow> OrchestratorQueue \<Rightarrow> OrchestratorQueue" where
  "replay job_id attempt deadline_unix q =
     (case map_of (oq_outstanding q) job_id of
        None \<Rightarrow> q
      | Some e \<Rightarrow>
          mark_dirty 1 (q\<lparr>oq_outstanding :=
            AList.update job_id (e\<lparr>qe_deadline_unix := deadline_unix, qe_attempt := attempt\<rparr>) (oq_outstanding q)\<rparr>))"

definition expired :: "pyfloat \<Rightarrow> QueueEntry \<Rightarrow> bool" where
  "expired now e = (qe_deadline_unix e \<noteq> 0 \<and> of_int (qe_deadline_unix e) < now)"

text \<open>The loop of \<^verbatim>\<open>prune_expired\<close> runs over a copy of the items and deletes from the dict.\<close>

fun prune_loop ::
  "pyfloat \<Rightarrow> (string \<times> QueueEntry) list \<Rightarrow> (string \<times> QueueEntry) list \<times> QueueEntry list \<Rightarrow>
   (string \<times> QueueEntry) list \<times> QueueEntry list" where
  "prune_loop now [] (d, dropped) = (d, dropped)"
| "prune_loop now ((j, e) # items) (d, dropped) =
     prune_loop now items (if expired now e then (AList.delete j d, dropped @ [e]) else (d, dropped))"

definition prune_expired :: "pyfloat \<Rightarrow> OrchestratorQueue \<Rightarrow> QueueEntry list \<times> OrchestratorQueue" where
  "prune_expired now q =
     (case prune_loop now (oq_outstanding q) (oq_outstanding q, []) of
        (d, dropped) \<Rightarrow>
          (dropped, if dropped \<noteq> [] then mark_dirty (int (length dropped)) (q\<lparr>oq_outstanding := d\<rparr>)
                    else q\<lparr>oq_outstanding := d\<rparr>))"

definition load_entries :: "QueueEntry list \<Rightarrow> (string \<times> QueueEntry) list \<Rightarrow> (string \<times> QueueEntry) list" where
  "load_entries es d = fold (\<lambda>e d. AList.update (qe_job_id e) e d) es d"

definition reconcile_from_bucket ::
  "platform \<Rightarrow> LocalBucket \<Rightarrow> string list \<Rightarrow> OrchestratorQueue \<Rightarrow> unit res \<times> OrchestratorQueue" where
  "reconcile_from_bucket P st recent_receipt_job_ids q =
     (case read_queue P st (oq_netuid q) (oq_run_id q) (oq_role q) None of
        Inl e \<Rightarrow> (Inl e, q)
      | Inr state \<Rightarrow>
          (let loaded = (case state of None \<Rightarrow> [] | Some qs \<Rightarrow> load_entries (qs_outstanding qs) []);
               sid = (case state of None \<Rightarrow> oq_snapshot_id q | Some qs \<Rightarrow> max (oq_snapshot_id q) (qs_snapshot_id qs));
               etag = (case state of None \<Rightarrow> None | Some qs \<Rightarrow> qs_etag qs)
           in (Inr (), q\<lparr>oq_outstanding := fold AList.delete recent_receipt_job_ids loaded,
                         oq_snapshot_id := sid, oq_etag := etag,
                         oq_dirty := (state = None \<or> recent_receipt_job_ids \<noteq> []),
                         oq_pending_changes := 0\<rparr>)))"

definition depth :: "string option \<Rightarrow> OrchestratorQueue \<Rightarrow> nat" where
  "depth hotkey q =
     (case hotkey of
        None \<Rightarrow> length (oq_outstanding q)
      | Some hk \<Rightarrow> length (filter (\<lambda>(_, e). qe_assigned_hotkey e = hk) (oq_outstanding q)))"

definition outstanding_job_ids :: "OrchestratorQueue \<Rightarrow> string list" where
  "outstanding_job_ids q = map fst (oq_outstanding q)"

subsection \<open>Publishing\<close>

text \<open>The snapshot taken under the lock: the counter moves, the payload and the prior etag are kept.\<close>

definition snapshot :: "int \<Rightarrow> OrchestratorQueue \<Rightarrow> (dict \<times> string option) \<times> OrchestratorQueue" where
  "snapshot now_unix q =
     (let q' = q\<lparr>oq_snapshot_id := oq_snapshot_id q + 1\<rparr>
      in ((QueueState_to_payload
             \<lparr>qs_role = oq_role q', qs_snapshot_unix = now_unix, qs_snapshot_id = oq_snapshot_id q',
              qs_outstanding = map snd (oq_outstanding q'), qs_etag = None, qs_version = 1\<rparr>, oq_etag q'), q'))"

definition flush_begin ::
  "bool \<Rightarrow> int \<Rightarrow> OrchestratorQueue \<Rightarrow> ((dict \<times> string option) \<times> OrchestratorQueue) option" where
  "flush_begin force now_unix q = (if oq_dirty q \<or> force then Some (snapshot now_unix q) else None)"

definition flush_put ::
  "platform \<Rightarrow> int \<Rightarrow> string \<Rightarrow> dict \<times> string option \<Rightarrow> LocalBucket \<Rightarrow> (string \<times> LocalBucket) res" where
  "flush_put P now_ns uri snap st =
     (case snap of
        (payload, prior) \<Rightarrow>
          LocalBucket_put_with_etag now_ns uri (utf8_encode (dumps P True (JObj payload)))
            (Some (case prior of None \<Rightarrow> [] | Some e \<Rightarrow> e)) st)"

definition flush_commit :: "string \<Rightarrow> OrchestratorQueue \<Rightarrow> OrchestratorQueue" where
  "flush_commit new_etag q = q\<lparr>oq_etag := Some new_etag, oq_dirty := False, oq_pending_changes := 0\<rparr>"

definition merge_entries :: "QueueEntry list \<Rightarrow> (string \<times> QueueEntry) list \<Rightarrow> (string \<times> QueueEntry) list" where
  "merge_entries es d = fold (\<lambda>e d. setdefault (qe_job_id e) e d) es d"

definition merge_from_bucket :: "platform \<Rightarrow> LocalBucket \<Rightarrow> OrchestratorQueue \<Rightarrow> OrchestratorQueue res" where
  "merge_from_bucket P st q =
     bindE (read_queue P st (oq_netuid q) (oq_run_id q) (oq_role q) None) (\<lambda>state.
       Inr (case state of
              None \<Rightarrow> q\<lparr>oq_etag := None\<rparr>
            | Some qs \<Rightarrow> q\<lparr>oq_outstanding := merge_entries (qs_outstanding qs) (oq_outstanding q),
                          oq_snapshot_id := max (oq_snapshot_id q) (qs_snapshot_id qs),
                          oq_etag := qs_etag qs\<rparr>))"

text \<open>The clock readings of one \<^verbatim>\<open>flush\<close>: each snapshot's second, each write's nanosecond.\<close>

record flush_clock =
  fc_snapshot1 :: int
  fc_write1 :: int
  fc_snapshot2 :: int
  fc_write2 :: int

definition flush_retry ::
  "platform \<Rightarrow> flush_clock \<Rightarrow> string \<Rightarrow> OrchestratorQueue \<Rightarrow> LocalBucket \<Rightarrow> bool res \<times> OrchestratorQueue \<times> LocalBucket" where
  "flush_retry P c uri q st =
     (case merge_from_bucket P st q of
        Inl e \<Rightarrow> (Inl e, q, st)
      | Inr q2 \<Rightarrow>
          (case snapshot (fc_snapshot2 c) q2 of
             (snap, q3) \<Rightarrow>
               (case flush_put P (fc_write2 c) uri snap st of
                  Inl e \<Rightarrow> (Inl e, q3, st)
                | Inr (etag, st') \<Rightarrow> (Inr True, flush_commit etag q3, st'))))"

definition flush ::
  "platform \<Rightarrow> flush_clock \<Rightarrow> bool \<Rightarrow> OrchestratorQueue \<Rightarrow> LocalBucket \<Rightarrow> bool res \<times> OrchestratorQueue \<times> LocalBucket" where
  "flush P c force q st =
     (case flush_begin force (fc_snapshot1 c) q of
        None \<Rightarrow> (Inr False, q, st)
      | Some (snap, q1) \<Rightarrow>
          (case queue_uri st (oq_netuid q) (oq_run_id q) (oq_role q) of
             Inl e \<Rightarrow> (Inl e, q1, st)
           | Inr uri \<Rightarrow>
               (case flush_put P (fc_write1 c) uri snap st of
                  Inr (etag, st') \<Rightarrow> (Inr True, flush_commit etag q1, st')
                | Inl (PreconditionFailed _) \<Rightarrow> flush_retry P c uri q1 st
                | Inl e \<Rightarrow> (Inl e, q1, st))))"

text \<open>One round of the background thread: exceptions of \<^verbatim>\<open>flush\<close> are logged and dropped.\<close>

definition flush_loop_due :: "OrchestratorQueue \<Rightarrow> bool" where
  "flush_loop_due q =
     (oq_dirty q \<and> (oq_pending_changes q \<ge> oq_flush_max_changes q \<or> oq_pending_changes q > 0))"

definition flush_loop_round ::
  "platform \<Rightarrow> flush_clock \<Rightarrow> OrchestratorQueue \<Rightarrow> LocalBucket \<Rightarrow> OrchestratorQueue \<times> LocalBucket" where
  "flush_loop_round P c q st =
     (if flush_loop_due q then (case flush P c False q st of (_, q', st') \<Rightarrow> (q', st')) else (q, st))"

text \<open>\<^verbatim>\<open>stop(final_flush=...)\<close>, after the thread has ended.\<close>

definition stop_queue ::
  "platform \<Rightarrow> flush_clock \<Rightarrow> bool \<Rightarrow> OrchestratorQueue \<Rightarrow> LocalBucket \<Rightarrow> OrchestratorQueue \<times> LocalBucket" where
  "stop_queue P c final_flush q st =
     (if final_flush then (case flush P c False q st of (_, q', st') \<Rightarrow> (q', st')) else (q, st))"

subsection \<open>Receipts seen in the bucket\<close>

fun job_id_from_parts :: "string list \<Rightarrow> string option" where
  "job_id_from_parts (p # q # rest) =
     (if starts_with p ''hotkey='' then (if q = [] then None else Some q) else job_id_from_parts (q # rest))"
| "job_id_from_parts _ = None"

definition job_id_from_receipt_uri :: "string \<Rightarrow> string option" where
  "job_id_from_receipt_uri uri = job_id_from_parts (split_on (CHR ''/'') uri)"

text \<open>The result set is built in listing order; \<open>count\<close> counts receipts, not distinct jobs.\<close>

fun scan_loop :: "int option \<Rightarrow> nat \<Rightarrow> nat \<Rightarrow> (string \<times> int \<times> nat) list \<Rightarrow> string list \<Rightarrow> string list" where
  "scan_loop since limit count [] out = out"
| "scan_loop since limit count ((uri, mtime, _) # entries) out =
     (if count \<ge> limit then out
      else if \<not> ends_with uri ''.json'' \<or> (case since of None \<Rightarrow> False | Some s \<Rightarrow> mtime < s)
      then scan_loop since limit count entries out
      else case job_id_from_receipt_uri uri of
             None \<Rightarrow> scan_loop since limit count entries out
           | Some j \<Rightarrow> scan_loop since limit (count + 1) entries (List.insert j out))"

definition scan_recent_receipt_job_ids ::
  "LocalBucket \<Rightarrow> int \<Rightarrow> string \<Rightarrow> pyfloat option \<Rightarrow> nat \<Rightarrow> string list res" where
  "scan_recent_receipt_job_ids st netuid run_id since_unix limit =
     bindE (LocalBucket_list_with_meta (uri_for_key st (receipts_prefix netuid run_id)) st)
       (\<lambda>entries. Inr (scan_loop
          (map_option (\<lambda>s. if s \<ge> 0 then \<lfloor>s\<rfloor> else \<lceil>s\<rceil>) since_unix) limit 0 entries []))"

subsection \<open>Encoding\<close>

context json_view
begin

lemma QueueEntry_decode: "QueueEntry_from_dict P (view_dict (QueueEntry_to_dict e)) = Inr e"
  by (simp add: QueueEntry_from_dict_def QueueEntry_to_dict_def view_simps or_else_def)

lemma QueueState_decode:
  assumes "qs_role qs \<noteq> []" "qs_version qs \<noteq> 0"
  shows "QueueState_from_payload P (view_dict (QueueState_to_payload qs)) etag = Inr (qs\<lparr>qs_etag := etag\<rparr>)"
proof -
  have "records_of (QueueEntry_from_dict P)
      (or_else (JList (map (view \<circ> (\<lambda>e. JObj (QueueEntry_to_dict e))) es)) (JList [])) = Inr es" for es
    using view_records [OF QueueEntry_decode [of P], of es] by (cases es) (simp_all add: or_else_def)
  with assms show ?thesis
    by (simp add: QueueState_from_payload_def QueueState_to_payload_def view_simps or_else_def [of "JInt _"]
        or_else_def [of "JStr _"])
qed

end

lemma wf_QueueEntry: "wf_dict (QueueEntry_to_dict e)"
  by (auto simp: QueueEntry_to_dict_def dict_simps)

lemma wf_QueueState: "wf_dict (QueueState_to_payload qs)"
  by (auto simp: QueueState_to_payload_def dict_simps wf_QueueEntry)

subsection \<open>The dict of outstanding entries\<close>

definition queue_inv :: "OrchestratorQueue \<Rightarrow> bool" where
  "queue_inv q \<longleftrightarrow> distinct (map fst (oq_outstanding q)) \<and> (\<forall>(j, e) \<in> set (oq_outstanding q). qe_job_id e = j)"

definition keyed :: "(string \<times> QueueEntry) list \<Rightarrow> bool" where
  "keyed d \<longleftrightarrow> distinct (map fst d) \<and> (\<forall>(j, e) \<in> set d. qe_job_id e = j)"

lemma queue_inv_keyed: "queue_inv q \<longleftrightarrow> keyed (oq_outstanding q)"
  by (simp add: queue_inv_def keyed_def)

lemma keyed_Nil [simp]: "keyed []"
  by (simp add: keyed_def)

lemma keyed_update: "keyed d \<Longrightarrow> qe_job_id e = j \<Longrightarrow> keyed (AList.update j e d)"
  using set_update_subset [of j e d] by (fastforce simp: keyed_def distinct_update)

lemma keyed_setdefault: "keyed d \<Longrightarrow> keyed (setdefault (qe_job_id e) e d)"
  by (simp add: setdefault_def keyed_update)

lemma keyed_delete: "keyed d \<Longrightarrow> keyed (AList.delete j d)"
  using set_delete_subset [of j d] by (fastforce simp: keyed_def distinct_delete)

lemma keyed_load: "keyed d \<Longrightarrow> keyed (load_entries es d)"
  unfolding load_entries_def by (induction es arbitrary: d) (simp_all add: keyed_update)

lemma keyed_merge: "keyed d \<Longrightarrow> keyed (merge_entries es d)"
  unfolding merge_entries_def by (induction es arbitrary: d) (simp_all add: keyed_setdefault)

lemma delete_then_filter:
  "filter (\<lambda>(k, _). k \<notin> set js) (AList.delete j d) = filter (\<lambda>(k, _). k \<notin> set (j # js)) d"
  unfolding AList.delete_eq by (induction d) auto

lemma fold_delete_filter: "fold AList.delete js d = filter (\<lambda>(k, _). k \<notin> set js) d"
proof (induction js arbitrary: d)
  case Nil
  then show ?case by (simp add: case_prod_unfold)
next
  case (Cons j js)
  then show ?case by (simp only: fold.simps comp_apply delete_then_filter)
qed

lemma keyed_filter: "keyed d \<Longrightarrow> keyed (filter Q d)"
  by (auto simp: keyed_def distinct_map_filter)

lemma keyed_load_self: "keyed d \<Longrightarrow> load_entries (map snd d) [] = d"
proof -
  have "keyed (acc @ d) \<Longrightarrow> load_entries (map snd d) acc = acc @ d" for acc
  proof (induction d arbitrary: acc)
    case (Cons je d)
    obtain j e where je: "je = (j, e)" by fastforce
    from Cons.prems je have "qe_job_id e = j" "j \<notin> fst ` set acc" by (auto simp: keyed_def)
    with Cons.IH [of "acc @ [je]"] Cons.prems je show ?case
      by (simp add: load_entries_def update_fresh)
  qed (simp add: load_entries_def)
  from this [of "[]"] show "keyed d \<Longrightarrow> ?thesis" by simp
qed

lemma map_of_merge:
  "map_of (merge_entries es d) j =
     (case map_of d j of Some e \<Rightarrow> Some e | None \<Rightarrow> List.find (\<lambda>e. qe_job_id e = j) es)"
  unfolding merge_entries_def
  by (induction es arbitrary: d) (auto split: option.splits)

lemma remove_loop_filter:
  assumes "distinct (map fst d)"
  shows "remove_loop js (d, n) =
    (filter (\<lambda>(k, _). k \<notin> set js) d, n + int (card (set js \<inter> fst ` set d)))"
  using assms
proof (induction js arbitrary: d n)
  case Nil
  then show ?case by (simp add: case_prod_unfold)
next
  case (Cons j js)
  let ?d = "AList.delete j d"
  note f = delete_then_filter [of js j d]
  show ?case
  proof (cases "map_of d j = None")
    case True
    then have j: "j \<notin> fst ` set d" by (simp add: map_of_eq_None_iff)
    then have "?d = d" by (auto simp: AList.delete_eq image_iff intro!: filter_True)
    with True Cons j f show ?thesis by (simp add: Int_insert_left)
  next
    case False
    then have j: "j \<in> fst ` set d" by (metis map_of_eq_None_iff)
    have "set js \<inter> fst ` set ?d = (set js \<inter> fst ` set d) - {j}"
      by (auto simp: AList.delete_eq)
    moreover have "set (j # js) \<inter> fst ` set d = insert j (set js \<inter> fst ` set d)" using j by auto
    ultimately have "card (set (j # js) \<inter> fst ` set d) = Suc (card (set js \<inter> fst ` set ?d))"
      by (simp add: card.insert_remove)
    with False Cons.IH [of ?d "n + 1"] Cons.prems f show ?thesis by (simp add: distinct_delete)
  qed
qed

lemma prune_loop_filter:
  assumes "distinct (map fst items)" "distinct (map fst d)" "set items \<subseteq> set d"
  shows "prune_loop now items (d, dropped) =
    (filter (\<lambda>je. \<not> (je \<in> set items \<and> expired now (snd je))) d,
     dropped @ filter (expired now) (map snd items))"
  using assms
proof (induction items arbitrary: d dropped)
  case Nil
  then show ?case by simp
next
  case (Cons je items)
  obtain j e where je: "je = (j, e)" by fastforce
  show ?case
  proof (cases "expired now e")
    case True
    have u: "(k, v) = (j, e)" if "(k, v) \<in> set d" "k = j" for k v
      using that Cons.prems je by (metis eq_key_imp_eq_value list.set_intros(1) subset_iff)
    have del: "AList.delete j d = filter (\<lambda>x. x \<noteq> (j, e)) d"
      unfolding AList.delete_eq using u by (intro filter_cong) auto
    have "set items \<subseteq> set (AList.delete j d)"
      using Cons.prems je by (force simp: AList.delete_eq)
    moreover have "distinct (map fst (AList.delete j d))" using Cons.prems by (simp add: distinct_delete)
    ultimately have "prune_loop now items (AList.delete j d, dropped @ [e]) =
        (filter (\<lambda>x. \<not> (x \<in> set items \<and> expired now (snd x))) (AList.delete j d),
         (dropped @ [e]) @ filter (expired now) (map snd items))"
      using Cons by simp
    moreover have "filter (\<lambda>x. \<not> (x \<in> set items \<and> expired now (snd x))) (AList.delete j d) =
        filter (\<lambda>x. \<not> (x \<in> set (je # items) \<and> expired now (snd x))) d"
      unfolding del filter_filter using True je by (intro filter_cong) auto
    ultimately show ?thesis using True je by simp
  next
    case False
    with Cons.IH [of d dropped] Cons.prems je show ?thesis by (auto intro!: filter_cong)
  qed
qed

subsection \<open>Publishing\<close>

lemma put_bucket_name: "LocalBucket_put now u d s = Inr s' \<Longrightarrow> lb_bucket s' = lb_bucket s"
  by (auto simp: LocalBucket_put_def bindE_eq_Inr)

lemma queue_uri_put [simp]:
  "LocalBucket_put now u d s = Inr s' \<Longrightarrow> queue_uri s' n r role = queue_uri s n r role"
  by (simp add: queue_uri_def uri_for_key_def put_bucket_name)

definition queue_slot :: "LocalBucket \<Rightarrow> OrchestratorQueue \<Rightarrow> string \<Rightarrow> bool" where
  "queue_slot st q uri \<longleftrightarrow>
     queue_uri st (oq_netuid q) (oq_run_id q) (oq_role q) = Inr uri \<and> (\<exists>a. parse_uri uri = Inr a)"

lemma queue_slot_role: "queue_slot st q uri \<Longrightarrow> oq_role q \<noteq> []"
  by (auto simp: queue_slot_def queue_uri_def queue_key_def bindE_eq_Inr split: if_splits)

lemma flush_put_put: "flush_put P w uri snap st = Inr (e, st') \<Longrightarrow>
   LocalBucket_put w uri (utf8_encode (dumps P True (JObj (fst snap)))) st = Inr st' \<and>
   current_etag uri st' = e"
  using lb.cas_put lb.cas_read_back by (auto simp: flush_put_def split: prod.splits)

lemma flush_put_uri:
  "flush_put P w uri snap st = Inr (e, st') \<Longrightarrow> queue_uri st' n r role = queue_uri st n r role"
  using flush_put_put by (metis queue_uri_put)

lemma read_published:
  assumes P: "float_codec P" and uri: "queue_uri st n r role = Inr uri"
    and w: "flush_put P w uri (QueueState_to_payload qs, prior) st = Inr (e, st')"
    and ne: "qs_role qs \<noteq> []" "qs_version qs \<noteq> 0"
  shows "read_queue P st' n r role None = Inr (Some (qs\<lparr>qs_etag := Some e\<rparr>))"
proof -
  have b: "LocalBucket_get_with_etag uri None st' =
      Inr (Some (utf8_encode (dumps P True (JObj (QueueState_to_payload qs)))), Some e)"
    using lb.cas_read_back w by (auto simp: flush_put_def)
  have u: "queue_uri st' n r role = Inr uri"
    using flush_put_uri [OF w] uri by simp
  have "loads P (dumps P True (JObj (QueueState_to_payload qs))) = Inr (JObj (norm_dict (QueueState_to_payload qs)))"
    using loads_dumps [OF P, of "JObj (QueueState_to_payload qs)"] wf_QueueState by simp
  then show ?thesis
    using u b by (simp add: read_queue_def canon.QueueState_decode [OF ne])
qed

text \<open>What the snapshot of a queue publishes.\<close>

definition published :: "int \<Rightarrow> OrchestratorQueue \<Rightarrow> QueueState" where
  "published now q = \<lparr>qs_role = oq_role q, qs_snapshot_unix = now, qs_snapshot_id = oq_snapshot_id q + 1,
     qs_outstanding = map snd (oq_outstanding q), qs_etag = None, qs_version = 1\<rparr>"

lemma snapshot_eq:
  "snapshot now q = ((QueueState_to_payload (published now q), oq_etag q), q\<lparr>oq_snapshot_id := oq_snapshot_id q + 1\<rparr>)"
  by (simp add: snapshot_def published_def Let_def)

lemma flush_put_cas:
  assumes "parse_uri uri = Inr a"
  shows "flush_put P w uri (payload, prior) st =
    (if (case prior of None \<Rightarrow> [] | Some e \<Rightarrow> e) = current_etag uri st
     then Inr (let st' = projr (LocalBucket_put w uri (utf8_encode (dumps P True (JObj payload))) st)
               in (current_etag uri st', st'))
     else Inl (PreconditionFailed uri))"
  using assms by (cases a)
    (auto simp: flush_put_def LocalBucket_put_with_etag_def LocalBucket_put_def Let_def)

text \<open>The stored etag of the slot, as the queue remembers it when nobody else has written.\<close>

definition in_sync :: "string \<Rightarrow> OrchestratorQueue \<Rightarrow> LocalBucket \<Rightarrow> bool" where
  "in_sync uri q st \<longleftrightarrow> (case oq_etag q of None \<Rightarrow> [] | Some e \<Rightarrow> e) = current_etag uri st"

lemma flush_in_sync:
  assumes P: "float_codec P" and slot: "queue_slot st q uri" and sync: "in_sync uri q st"
    and due: "oq_dirty q \<or> force"
  obtains q' st' e where "flush P c force q st = (Inr True, q', st')"
    "q' = q\<lparr>oq_snapshot_id := oq_snapshot_id q + 1, oq_etag := Some e, oq_dirty := False, oq_pending_changes := 0\<rparr>"
    "read_queue P st' (oq_netuid q) (oq_run_id q) (oq_role q) None =
       Inr (Some ((published (fc_snapshot1 c) q)\<lparr>qs_etag := Some e\<rparr>))"
    "in_sync uri q' st'" "queue_slot st' q' uri" "e \<noteq> []"
proof -
  from slot obtain a where uri: "queue_uri st (oq_netuid q) (oq_run_id q) (oq_role q) = Inr uri"
    and a: "parse_uri uri = Inr a" by (auto simp: queue_slot_def)
  obtain e st' where w: "flush_put P (fc_write1 c) uri (QueueState_to_payload (published (fc_snapshot1 c) q), oq_etag q) st
      = Inr (e, st')"
    using sync by (auto simp: flush_put_cas [OF a] in_sync_def Let_def)
  let ?q' = "flush_commit e (q\<lparr>oq_snapshot_id := oq_snapshot_id q + 1\<rparr>)"
  have "flush P c force q st = (Inr True, ?q', st')"
    using due uri w by (simp add: flush_def flush_begin_def snapshot_eq)
  moreover have "read_queue P st' (oq_netuid q) (oq_run_id q) (oq_role q) None =
       Inr (Some ((published (fc_snapshot1 c) q)\<lparr>qs_etag := Some e\<rparr>))"
    using queue_slot_role [OF slot] by (intro read_published [OF P uri w]) (simp_all add: published_def)
  moreover have "in_sync uri ?q' st'" using flush_put_put [OF w] by (simp add: in_sync_def flush_commit_def)
  moreover have "queue_slot st' ?q' uri"
    using flush_put_uri [OF w] uri a by (simp add: queue_slot_def flush_commit_def)
  moreover have "e \<noteq> []" using flush_put_put [OF w] current_etag_put by force
  ultimately show thesis by (intro that) (simp_all add: flush_commit_def)
qed

lemma flush_conflict:
  assumes P: "float_codec P" and slot: "queue_slot st q uri" and stale: "\<not> in_sync uri q st"
    and due: "oq_dirty q \<or> force"
    and held: "read_queue P st (oq_netuid q) (oq_run_id q) (oq_role q) None = Inr (Some qs)"
  obtains q' st' e where "flush P c force q st = (Inr True, q', st')"
    "q' = q\<lparr>oq_outstanding := merge_entries (qs_outstanding qs) (oq_outstanding q),
            oq_snapshot_id := max (oq_snapshot_id q + 1) (qs_snapshot_id qs) + 1,
            oq_etag := Some e, oq_dirty := False, oq_pending_changes := 0\<rparr>"
    "read_queue P st' (oq_netuid q) (oq_run_id q) (oq_role q) None =
       Inr (Some \<lparr>qs_role = oq_role q, qs_snapshot_unix = fc_snapshot2 c, qs_snapshot_id = oq_snapshot_id q',
                  qs_outstanding = map snd (oq_outstanding q'), qs_etag = Some e, qs_version = 1\<rparr>)"
proof -
  from slot obtain a where uri: "queue_uri st (oq_netuid q) (oq_run_id q) (oq_role q) = Inr uri"
    and a: "parse_uri uri = Inr a" by (auto simp: queue_slot_def)
  have w1: "flush_put P (fc_write1 c) uri (payload, oq_etag q) st = Inl (PreconditionFailed uri)" for payload
    using stale by (simp add: flush_put_cas [OF a] in_sync_def)
  have tag: "qs_etag qs = Some (current_etag uri st)"
    using held uri lb.read_etag [OF a, of st] lb.read_missing [OF a, of st]
    by (cases "LocalBucket_get uri st")
      (auto simp: read_queue_def bindE_eq_Inr QueueState_from_payload_def split: sum.splits json.splits if_splits)
  let ?q2 = "q\<lparr>oq_outstanding := merge_entries (qs_outstanding qs) (oq_outstanding q),
     oq_snapshot_id := max (oq_snapshot_id q + 1) (qs_snapshot_id qs), oq_etag := qs_etag qs\<rparr>"
  have m: "merge_from_bucket P st (q\<lparr>oq_snapshot_id := oq_snapshot_id q + 1\<rparr>) = Inr ?q2"
    using held by (simp add: merge_from_bucket_def)
  obtain e st' where w2: "flush_put P (fc_write2 c) uri (QueueState_to_payload (published (fc_snapshot2 c) ?q2), oq_etag ?q2) st
      = Inr (e, st')"
    by (auto simp: flush_put_cas [OF a] tag Let_def)
  have "read_queue P st' (oq_netuid q) (oq_run_id q) (oq_role q) None =
       Inr (Some ((published (fc_snapshot2 c) ?q2)\<lparr>qs_etag := Some e\<rparr>))"
    using queue_slot_role [OF slot] by (intro read_published [OF P uri w2]) (simp_all add: published_def)
  moreover have "flush P c force q st =
      (Inr True, flush_commit e (?q2\<lparr>oq_snapshot_id := oq_snapshot_id ?q2 + 1\<rparr>), st')"
    using due uri w1 w2 m by (simp add: flush_def flush_begin_def flush_retry_def snapshot_eq)
  ultimately show thesis
    by (intro that [of "flush_commit e (?q2\<lparr>oq_snapshot_id := oq_snapshot_id ?q2 + 1\<rparr>)" st' e])
      (simp_all add: flush_commit_def published_def)
qed

end
