(* ===== verification/Queue_Steps.thy ===== *)
theory Queue_Steps
  imports Queue
begin

text \<open>
  The queue as a state machine. The threads of the orchestrator act on one \<^verbatim>\<open>OrchestratorQueue\<close>:
  mutators and \<^verbatim>\<open>reconcile_from_bucket\<close> at any time, one flusher that goes through
  \<^verbatim>\<open>flush\<close>'s lock regions and bucket calls one by one, and other writers of the bucket. \<open>qstep\<close>
  is one such action with arbitrary clock readings; a run of \<^verbatim>\<open>flush\<close> without interference is shown
  to be a path of steps, so what holds of every reachable state holds of the sequential operations too.
\<close>

subsection \<open>Steps\<close>

datatype flush_pc =
    Idle
  | Snapped "dict \<times> string option" bool
  | Conflicted
  | Fetched "QueueState option"
  | Merged
  | Written string

type_synonym qworld = "OrchestratorQueue \<times> LocalBucket \<times> flush_pc"

definition merge_state :: "QueueState option \<Rightarrow> OrchestratorQueue \<Rightarrow> OrchestratorQueue" where
  "merge_state state q =
     (case state of
        None \<Rightarrow> q\<lparr>oq_etag := None\<rparr>
      | Some qs \<Rightarrow> q\<lparr>oq_outstanding := merge_entries (qs_outstanding qs) (oq_outstanding q),
                    oq_snapshot_id := max (oq_snapshot_id q) (qs_snapshot_id qs),
                    oq_etag := qs_etag qs\<rparr>)"

inductive qstep :: "platform \<Rightarrow> qworld \<Rightarrow> qworld \<Rightarrow> bool" for P :: platform where
  step_add: "qstep P (q, st, pc) (add e q, st, pc)"
| step_remove: "qstep P (q, st, pc) (snd (remove j q), st, pc)"
| step_remove_many: "qstep P (q, st, pc) (snd (remove_many js q), st, pc)"
| step_replay: "qstep P (q, st, pc) (replay j attempt deadline q, st, pc)"
| step_prune: "qstep P (q, st, pc) (snd (prune_expired now q), st, pc)"
| step_reconcile: "qstep P (q, st, pc) (snd (reconcile_from_bucket P st js q), st, pc)"
| step_begin: "flush_begin force now q = Some (snap, q1) \<Longrightarrow> qstep P (q, st, Idle) (q1, st, Snapped snap False)"
| step_put: "queue_uri st (oq_netuid q) (oq_run_id q) (oq_role q) = Inr uri \<Longrightarrow>
     flush_put P w uri snap st = Inr (e, st') \<Longrightarrow> qstep P (q, st, Snapped snap b) (q, st', Written e)"
| step_conflict: "queue_uri st (oq_netuid q) (oq_run_id q) (oq_role q) = Inr uri \<Longrightarrow>
     flush_put P w uri snap st = Inl (PreconditionFailed u) \<Longrightarrow>
     qstep P (q, st, Snapped snap False) (q, st, Conflicted)"
| step_raise: "qstep P (q, st, Snapped snap b) (q, st, Idle)"
| step_fetch: "read_queue P st (oq_netuid q) (oq_run_id q) (oq_role q) None = Inr state \<Longrightarrow>
     qstep P (q, st, Conflicted) (q, st, Fetched state)"
| step_merge: "qstep P (q, st, Fetched state) (merge_state state q, st, Merged)"
| step_retry: "snapshot now q = (snap, q1) \<Longrightarrow> qstep P (q, st, Merged) (q1, st, Snapped snap True)"
| step_commit: "qstep P (q, st, Written e) (flush_commit e q, st, Idle)"
| step_other: "LocalBucket_put w u d st = Inr st' \<Longrightarrow> qstep P (q, st, pc) (q, st', pc)"

abbreviation qsteps :: "platform \<Rightarrow> qworld \<Rightarrow> qworld \<Rightarrow> bool" where
  "qsteps P \<equiv> (qstep P)\<^sup>*\<^sup>*"

subsection \<open>Every operation keeps the invariant\<close>

definition counters_ok :: "OrchestratorQueue \<Rightarrow> bool" where
  "counters_ok q \<longleftrightarrow> 0 \<le> oq_pending_changes q \<and> (\<not> oq_dirty q \<longrightarrow> oq_pending_changes q = 0)"

lemma remove_many_eq:
  assumes "queue_inv q"
  shows "remove_many js q =
    (let n = int (card (set js \<inter> fst ` set (oq_outstanding q)));
         q' = q\<lparr>oq_outstanding := filter (\<lambda>(k, _). k \<notin> set js) (oq_outstanding q)\<rparr>
     in (n, if n \<noteq> 0 then mark_dirty n q' else q'))"
  using assms remove_loop_filter [of "oq_outstanding q" js 0]
  by (simp add: remove_many_def queue_inv_def Let_def)

lemma prune_expired_eq:
  assumes "queue_inv q"
  shows "prune_expired now q =
    (let dropped = filter (expired now) (map snd (oq_outstanding q));
         q' = q\<lparr>oq_outstanding := filter (\<lambda>je. \<not> expired now (snd je)) (oq_outstanding q)\<rparr>
     in (dropped, if dropped \<noteq> [] then mark_dirty (int (length dropped)) q' else q'))"
proof -
  have "filter (\<lambda>je. \<not> (je \<in> set d \<and> expired now (snd je))) d = filter (\<lambda>je. \<not> expired now (snd je)) d"
    for d :: "(string \<times> QueueEntry) list" by (rule filter_cong) auto
  then show ?thesis
    using assms prune_loop_filter [of "oq_outstanding q" "oq_outstanding q" now "[]"]
    by (simp add: prune_expired_def queue_inv_def Let_def)
qed

lemma queue_inv_ops:
  assumes "queue_inv q"
  shows "queue_inv (add e q)" "queue_inv (snd (remove j q))" "queue_inv (snd (remove_many js q))"
    "queue_inv (replay j attempt deadline q)" "queue_inv (snd (prune_expired now q))"
    "queue_inv (snd (reconcile_from_bucket P st js q))" "queue_inv (merge_state state q)"
    "queue_inv (flush_commit tag q)" "queue_inv (snd (snapshot t q))"
proof -
  have k: "keyed (oq_outstanding q)" using assms by (simp add: queue_inv_keyed)
  show "queue_inv (add e q)" using k by (simp add: add_def mark_dirty_def queue_inv_keyed keyed_update)
  show "queue_inv (snd (remove j q))"
    using k by (simp add: remove_def mark_dirty_def queue_inv_keyed keyed_delete)
  show "queue_inv (snd (remove_many js q))"
    using k by (simp add: remove_many_eq [OF assms] Let_def mark_dirty_def queue_inv_keyed keyed_filter)
  show "queue_inv (snd (prune_expired now q))"
    using k by (simp add: prune_expired_eq [OF assms] Let_def mark_dirty_def queue_inv_keyed keyed_filter)
  show "queue_inv (replay j attempt deadline q)"
  proof (cases "map_of (oq_outstanding q) j")
    case (Some e)
    with k have "qe_job_id e = j" by (auto simp: keyed_def dest: map_of_SomeD)
    with k Some show ?thesis by (simp add: replay_def mark_dirty_def queue_inv_keyed keyed_update)
  qed (simp add: replay_def assms)
  show "queue_inv (snd (reconcile_from_bucket P st js q))"
    using assms
    by (auto simp: reconcile_from_bucket_def queue_inv_keyed fold_delete_filter keyed_filter keyed_load Let_def
        split: sum.splits option.splits)
  show "queue_inv (merge_state state q)"
    using k by (simp add: merge_state_def queue_inv_keyed keyed_merge split: option.splits)
  show "queue_inv (flush_commit tag q)" using k by (simp add: flush_commit_def queue_inv_keyed)
  show "queue_inv (snd (snapshot t q))" using k by (simp add: snapshot_eq queue_inv_keyed)
qed

lemma counters_ok_ops:
  assumes "counters_ok q" "queue_inv q"
  shows "counters_ok (add e q)" "counters_ok (snd (remove j q))" "counters_ok (snd (remove_many js q))"
    "counters_ok (replay j attempt deadline q)" "counters_ok (snd (prune_expired now q))"
    "counters_ok (snd (reconcile_from_bucket P st js q))" "counters_ok (merge_state state q)"
    "counters_ok (flush_commit tag q)" "counters_ok (snd (snapshot t q))"
  using assms
  by (auto simp: counters_ok_def add_def remove_def remove_many_eq prune_expired_eq replay_def mark_dirty_def
      reconcile_from_bucket_def merge_state_def flush_commit_def snapshot_eq Let_def split: option.splits sum.splits)

lemma snapshot_id_mono_ops:
  "oq_snapshot_id (add e q) = oq_snapshot_id q" "oq_snapshot_id (snd (remove j q)) = oq_snapshot_id q"
  "oq_snapshot_id (snd (remove_many js q)) = oq_snapshot_id q"
  "oq_snapshot_id (replay j attempt deadline q) = oq_snapshot_id q"
  "oq_snapshot_id (snd (prune_expired now q)) = oq_snapshot_id q"
  "oq_snapshot_id q \<le> oq_snapshot_id (snd (reconcile_from_bucket P st js q))"
  "oq_snapshot_id q \<le> oq_snapshot_id (merge_state state q)"
  "oq_snapshot_id (flush_commit tag q) = oq_snapshot_id q"
  "oq_snapshot_id (snd (snapshot t q)) = oq_snapshot_id q + 1"
  by (auto simp: add_def remove_def remove_many_def prune_expired_def replay_def mark_dirty_def
      reconcile_from_bucket_def merge_state_def flush_commit_def snapshot_eq Let_def
      split: option.splits sum.splits prod.splits)

lemma qstep_invariant:
  assumes "qstep P (q, st, pc) (q', st', pc')" "queue_inv q" "counters_ok q"
  shows "queue_inv q' \<and> counters_ok q' \<and> oq_snapshot_id q \<le> oq_snapshot_id q'"
  using assms(1)
proof (cases rule: qstep.cases)
  case (step_begin force now snap)
  then have "q' = snd (snapshot now q)" by (auto simp: flush_begin_def split: if_splits)
  then show ?thesis using assms(2,3) by (simp add: queue_inv_ops counters_ok_ops snapshot_id_mono_ops)
next
  case (step_retry now snap)
  then have "q' = snd (snapshot now q)" by (metis snd_conv)
  then show ?thesis using assms(2,3) by (simp add: queue_inv_ops counters_ok_ops snapshot_id_mono_ops)
qed (use assms(2,3) in \<open>auto simp: queue_inv_ops counters_ok_ops snapshot_id_mono_ops\<close>)

lemma qsteps_invariant:
  assumes "qsteps P w w'" "queue_inv (fst w)" "counters_ok (fst w)"
  shows "queue_inv (fst w') \<and> counters_ok (fst w') \<and> oq_snapshot_id (fst w) \<le> oq_snapshot_id (fst w')"
  using assms
proof (induction rule: rtranclp_induct)
  case (step w1 w2)
  obtain q1 s1 p1 q2 s2 p2 where "w1 = (q1, s1, p1)" "w2 = (q2, s2, p2)" by (metis prod_cases3)
  with step qstep_invariant [of P q1 s1 p1 q2 s2 p2] show ?case by fastforce
qed simp

lemma qsteps_cons: "qstep P a b \<Longrightarrow> qsteps P b c \<Longrightarrow> qsteps P a c"
  by (rule converse_rtranclp_into_rtranclp)

lemma merge_from_bucket_state:
  "merge_from_bucket P st q = bindE (read_queue P st (oq_netuid q) (oq_run_id q) (oq_role q) None) (\<lambda>s. Inr (merge_state s q))"
  by (simp add: merge_from_bucket_def merge_state_def)

lemma snapshot_config [simp]:
  "oq_netuid (snd (snapshot t q)) = oq_netuid q" "oq_run_id (snd (snapshot t q)) = oq_run_id q"
  "oq_role (snd (snapshot t q)) = oq_role q"
  by (simp_all add: snapshot_eq)

lemma merge_config [simp]:
  "oq_netuid (merge_state s q) = oq_netuid q" "oq_run_id (merge_state s q) = oq_run_id q"
  "oq_role (merge_state s q) = oq_role q"
  by (simp_all add: merge_state_def split: option.splits)

lemma flush_retry_steps:
  assumes uri: "queue_uri st (oq_netuid q) (oq_run_id q) (oq_role q) = Inr uri"
    and r: "flush_retry P c uri q st = (Inr True, q', st')"
  shows "qsteps P (q, st, Conflicted) (q', st', Idle)"
proof -
  from r obtain state snap q3 e
    where f: "read_queue P st (oq_netuid q) (oq_run_id q) (oq_role q) None = Inr state"
    and s: "snapshot (fc_snapshot2 c) (merge_state state q) = (snap, q3)"
    and w: "flush_put P (fc_write2 c) uri snap st = Inr (e, st')" and q': "q' = flush_commit e q3"
    by (auto simp: flush_retry_def merge_from_bucket_state bindE_eq_Inr bindE_eq_Inl split: sum.splits prod.splits)
  have q3: "q3 = snd (snapshot (fc_snapshot2 c) (merge_state state q))" using s by simp
  have u3: "queue_uri st (oq_netuid q3) (oq_run_id q3) (oq_role q3) = Inr uri" using uri by (simp add: q3)
  show ?thesis
    unfolding q'
    by (rule qsteps_cons [OF step_fetch [OF f]] qsteps_cons [OF step_merge] qsteps_cons [OF step_retry [OF s]]
        qsteps_cons [OF step_put [OF u3 w]] qsteps_cons [OF step_commit] rtranclp.rtrancl_refl)+
qed

lemma flush_steps:
  assumes "flush P c force q st = (Inr b, q', st')"
  shows "qsteps P (q, st, Idle) (q', st', Idle)"
proof (cases "flush_begin force (fc_snapshot1 c) q")
  case None
  with assms show ?thesis by (simp add: flush_def)
next
  case (Some sq)
  obtain snap q1 where sq: "sq = (snap, q1)" by fastforce
  have q1: "q1 = snd (snapshot (fc_snapshot1 c) q)" using Some sq by (auto simp: flush_begin_def split: if_splits)
  from assms Some sq obtain uri where uri: "queue_uri st (oq_netuid q) (oq_run_id q) (oq_role q) = Inr uri"
    by (auto simp: flush_def split: sum.splits)
  then have u1: "queue_uri st (oq_netuid q1) (oq_run_id q1) (oq_role q1) = Inr uri" by (simp add: q1)
  note start = qsteps_cons [OF step_begin [OF Some [unfolded sq]]]
  show ?thesis
  proof (cases "flush_put P (fc_write1 c) uri snap st")
    case (Inr es)
    obtain e s1 where es: "es = (e, s1)" by fastforce
    with assms Some sq uri Inr have "q' = flush_commit e q1" "st' = s1" by (auto simp: flush_def)
    then show ?thesis
      by (simp add: start qsteps_cons [OF step_put [OF u1 Inr [unfolded es]]] r_into_rtranclp step_commit)
  next
    case (Inl x)
    with assms Some sq uri obtain u where x: "x = PreconditionFailed u"
      and r: "flush_retry P c uri q1 st = (Inr b, q', st')"
      by (auto simp: flush_def split: pyerr.splits)
    from r have "b = True"
      by (auto simp: flush_retry_def split: sum.splits prod.splits)
    with r have "qsteps P (q1, st, Conflicted) (q', st', Idle)" by (intro flush_retry_steps [OF u1]) simp
    with start qsteps_cons [OF step_conflict [OF u1 Inl [unfolded x]]] show ?thesis by blast
  qed
qed

subsection \<open>The queue as a table of jobs\<close>

text \<open>
  What the emitting and draining sides rely on: an emitted job is outstanding until it is dropped, and
  other jobs are untouched.
\<close>

datatype 'e table_op = Emit 'e | Drop string

fun last_effect :: "('e \<Rightarrow> string) \<Rightarrow> 'e table_op list \<Rightarrow> string \<Rightarrow> 'e option \<Rightarrow> 'e option" where
  "last_effect key [] j v = v"
| "last_effect key (Emit e # ops) j v = last_effect key ops j (if key e = j then Some e else v)"
| "last_effect key (Drop k # ops) j v = last_effect key ops j (if k = j then None else v)"

locale job_table =
  fixes key :: "'e \<Rightarrow> string" and lookup :: "'q \<Rightarrow> string \<Rightarrow> 'e option"
    and emit :: "'e \<Rightarrow> 'q \<Rightarrow> 'q" and drop :: "string \<Rightarrow> 'q \<Rightarrow> 'q"
  assumes lookup_emit: "lookup (emit e q) j = (if key e = j then Some e else lookup q j)"
    and lookup_drop: "lookup (drop k q) j = (if k = j then None else lookup q j)"
begin

definition run_op :: "'e table_op \<Rightarrow> 'q \<Rightarrow> 'q" where
  "run_op op q = (case op of Emit e \<Rightarrow> emit e q | Drop k \<Rightarrow> drop k q)"

lemma lookup_run: "lookup (fold run_op ops q) j = last_effect key ops j (lookup q j)"
proof (induction ops arbitrary: q)
  case (Cons op ops)
  then show ?case by (cases op) (simp_all add: run_op_def lookup_emit lookup_drop)
qed simp

end

interpretation oq: job_table qe_job_id "\<lambda>q. map_of (oq_outstanding q)" add "\<lambda>j q. snd (remove j q)"
  by unfold_locales (auto simp: add_def remove_def mark_dirty_def)

definition apply_op :: "QueueEntry table_op \<Rightarrow> OrchestratorQueue \<Rightarrow> OrchestratorQueue" where
  "apply_op op q = (case op of Emit e \<Rightarrow> add e q | Drop k \<Rightarrow> snd (remove k q))"

lemma apply_op_run: "apply_op = oq.run_op"
  by (simp add: fun_eq_iff apply_op_def oq.run_op_def)

subsection \<open>Receipt URIs\<close>

lemma job_id_from_parts_skip:
  "\<not> starts_with p ''hotkey='' \<Longrightarrow> q \<noteq> [] \<Longrightarrow> job_id_from_parts (p # q) = job_id_from_parts q"
  by (cases q) auto

lemma split_on_receipt:
  assumes "bucket_name b" "segment r" "segment h" "segment j"
  shows "split_on (CHR ''/'') (join_uri b (receipt_key n r h j a)) =
    [''s3:'', [], b, ''v3'', ''netuid='' @ show_int n, ''receipts'', r, ''hotkey='' @ h, j,
     ''attempt='' @ show_int a @ ''.json'']"
proof -
  have s: "CHR ''/'' \<notin> set (''netuid='' @ show_int n)" "CHR ''/'' \<notin> set b" "CHR ''/'' \<notin> set r"
    "CHR ''/'' \<notin> set (''hotkey='' @ h)" "CHR ''/'' \<notin> set j" "CHR ''/'' \<notin> set (''attempt='' @ show_int a @ ''.json'')"
    using assms by (auto simp: bucket_name_def segment_def)
  have u: "join_uri b (receipt_key n r h j a) =
      ''s3:'' @ CHR ''/'' # [] @ CHR ''/'' # b @ CHR ''/'' # ''v3'' @ CHR ''/'' # (''netuid='' @ show_int n) @
      CHR ''/'' # ''receipts'' @ CHR ''/'' # r @ CHR ''/'' # (''hotkey='' @ h) @ CHR ''/'' # j @
      CHR ''/'' # (''attempt='' @ show_int a @ ''.json'')"
    by (simp add: join_uri_def receipt_key_def receipts_prefix_def root_def)
  show ?thesis unfolding u
    using s by (simp only: split_on_append split_on_none append_Nil) (simp add: split_on_append split_on_none)
qed

lemma job_id_of_receipt:
  assumes "bucket_name b" "segment r" "segment h" "segment j" "j \<noteq> []"
    and "\<not> starts_with b ''hotkey=''" "\<not> starts_with r ''hotkey=''"
  shows "job_id_from_receipt_uri (join_uri b (receipt_key n r h j a)) = Some j"
  using assms by (simp add: job_id_from_receipt_uri_def split_on_receipt)

definition recent :: "int option \<Rightarrow> int \<Rightarrow> bool" where
  "recent since mtime \<longleftrightarrow> (case since of None \<Rightarrow> True | Some s \<Rightarrow> s \<le> mtime)"

lemma set_scan_loop:
  assumes "count + length entries \<le> limit"
  shows "set (scan_loop since limit count entries out) = set out \<union>
    {j. \<exists>(uri, mtime, size) \<in> set entries. ends_with uri ''.json'' \<and> recent since mtime \<and>
        job_id_from_receipt_uri uri = Some j}"
  using assms
proof (induction entries arbitrary: count out)
  case (Cons x entries)
  obtain uri mtime size where x: "x = (uri, mtime, size)" by (metis prod_cases3)
  have r: "(case since of None \<Rightarrow> False | Some s \<Rightarrow> mtime < s) \<longleftrightarrow> \<not> recent since mtime"
    by (auto simp: recent_def split: option.splits)
  show ?case
  proof (cases "ends_with uri ''.json'' \<and> recent since mtime \<and> job_id_from_receipt_uri uri \<noteq> None")
    case True
    then obtain j where j: "job_id_from_receipt_uri uri = Some j" by auto
    with True Cons.IH [of "count + 1" "List.insert j out"] Cons.prems x r show ?thesis by auto
  next
    case False
    with Cons.IH [of count out] Cons.prems x r show ?thesis by (auto split: option.splits)
  qed
qed simp

lemma receipt_key_below: "starts_with (receipt_key n r h j a) (receipts_prefix n r)"
  by (simp add: receipt_key_def)

lemma receipts_prefix_slash: "ends_with (receipts_prefix n r) ''/''"
proof -
  have "receipts_prefix n r = (root n @ ''/receipts/'' @ r) @ ''/''" by (simp add: receipts_prefix_def)
  then show ?thesis by (metis ends_with_append)
qed

lemma receipt_uri_json: "ends_with (join_uri b (receipt_key n r h j a)) ''.json''"
proof -
  have "join_uri b (receipt_key n r h j a) =
      (''s3://'' @ b @ ''/'' @ receipts_prefix n r @ ''hotkey='' @ h @ ''/'' @ j @ ''/attempt='' @ show_int a) @ ''.json''"
    by (simp add: join_uri_def receipt_key_def)
  then show ?thesis by (metis ends_with_append)
qed

definition since_int :: "pyfloat option \<Rightarrow> int option" where
  "since_int since_unix = map_option (\<lambda>s. if s \<ge> 0 then \<lfloor>s\<rfloor> else \<lceil>s\<rceil>) since_unix"

lemma scan_receipts:
  assumes "LocalBucket_wf st" "bucket_name (lb_bucket st)" "object_key (receipts_prefix n r)"
    and "length (lb_objects st) \<le> limit"
  obtains ids where "scan_recent_receipt_job_ids st n r since limit = Inr ids"
    "set ids = {j. \<exists>k d t. map_of (lb_objects st) (lb_bucket st, k) = Some (d, t) \<and> starts_with k (receipts_prefix n r) \<and>
        ends_with (join_uri (lb_bucket st) k) ''.json'' \<and> recent (since_int since) (mtime_unix t) \<and>
        job_id_from_receipt_uri (join_uri (lb_bucket st) k) = Some j}"
proof -
  obtain ms where ms: "LocalBucket_list_with_meta (join_uri (lb_bucket st) (receipts_prefix n r)) st = Inr ms"
    "set ms = {(join_uri (lb_bucket st) k, mtime_unix t, length d) | k d t.
       map_of (lb_objects st) (lb_bucket st, k) = Some (d, t) \<and> starts_with k (receipts_prefix n r)}"
    "length ms \<le> length (lb_objects st)"
    using listed_meta [OF assms(1-3) receipts_prefix_slash] by blast
  let ?ids = "scan_loop (since_int since) limit 0 ms []"
  have "scan_recent_receipt_job_ids st n r since limit = Inr ?ids"
    using ms(1) by (simp add: scan_recent_receipt_job_ids_def uri_for_key_def since_int_def)
  moreover have "set ?ids = {j. \<exists>(uri, mtime, size) \<in> set ms. ends_with uri ''.json'' \<and>
      recent (since_int since) mtime \<and> job_id_from_receipt_uri uri = Some j}"
    using set_scan_loop [of 0 ms limit "since_int since" "[]"] ms(3) assms(4) by simp
  ultimately show thesis unfolding ms(2) by (intro that [of ?ids]) blast+
qed

end
