(* ===== verification/Queue_Properties.thy ===== *)
theory Queue_Properties
  imports Queue_Steps
begin

text \<open>
  What the outstanding-work queue promises and where it falls short: the invariant of every interleaving,
  what a flush publishes with and without a competing writer, recovery after a restart, the effect of the
  mutators, how landed receipts drain the queue, and three behaviours of \<^verbatim>\<open>flush\<close> and its background
  loop that lose or withhold updates.
\<close>

subsection \<open>Sample data\<close>

definition sample_entry :: "string \<Rightarrow> QueueEntry" where
  "sample_entry j =
     \<lparr>qe_job_id = j, qe_assigned_hotkey = ''hk'', qe_assigned_worker = None, qe_manifest_uri = ''s3://b/m.json'',
      qe_grant_uri = None, qe_deadline_unix = 100, qe_attempt = 0, qe_created_unix = 10\<rparr>"

definition sample_queue :: OrchestratorQueue where
  "sample_queue = OrchestratorQueue_init 3 ''run'' ''train'' 32"

definition sample_clock :: flush_clock where
  "sample_clock = \<lparr>fc_snapshot1 = 50, fc_write1 = 51, fc_snapshot2 = 52, fc_write2 = 53\<rparr>"

definition sample_slot :: string where
  "sample_slot = ''s3://b/v3/netuid=3/jobs/run/queue.json''"

lemma sample_slot_ok [simp]:
  "queue_slot (LocalBucket_init ''b'') sample_queue sample_slot"
  "queue_slot (LocalBucket_init ''b'') (add e sample_queue) sample_slot"
proof -
  have "queue_uri (LocalBucket_init ''b'') 3 ''run'' ''train'' = Inr sample_slot" by code_simp
  moreover have "parse_uri sample_slot = Inr (''b'', ''v3/netuid=3/jobs/run/queue.json'')" by code_simp
  ultimately show "queue_slot (LocalBucket_init ''b'') sample_queue sample_slot"
    "queue_slot (LocalBucket_init ''b'') (add e sample_queue) sample_slot"
    by (simp_all add: queue_slot_def sample_queue_def OrchestratorQueue_init_def add_def mark_dirty_def)
qed

lemma sample_in_sync [simp]: "in_sync sample_slot (add e sample_queue) (LocalBucket_init ''b'')"
  by (simp add: in_sync_def sample_queue_def OrchestratorQueue_init_def add_def mark_dirty_def current_etag_def
      obj_at_def LocalBucket_init_def split: sum.splits)
    (simp add: bindE_eq_Inr)

lemma queue_inv_init [simp]: "queue_inv (OrchestratorQueue_init n r role m)"
  "counters_ok (OrchestratorQueue_init n r role m)"
  by (simp_all add: queue_inv_def counters_ok_def OrchestratorQueue_init_def)

lemma sample_conflict:
  obtains st qs where "queue_slot st (add (sample_entry ''j2'') sample_queue) sample_slot"
    "\<not> in_sync sample_slot (add (sample_entry ''j2'') sample_queue) st"
    "read_queue reference_platform st 3 ''run'' ''train'' None = Inr (Some qs)" "qs_outstanding qs = [sample_entry ''j1'']"
proof -
  let ?a = "add (sample_entry ''j1'') sample_queue"
  have d: "oq_dirty ?a \<or> False" by (simp add: add_def mark_dirty_def)
  from flush_in_sync [OF reference_float_codec sample_slot_ok(2) sample_in_sync d, of sample_clock]
  obtain q' st' e where f: "in_sync sample_slot q' st'" "queue_slot st' q' sample_slot"
    "q' = ?a\<lparr>oq_snapshot_id := oq_snapshot_id ?a + 1, oq_etag := Some e, oq_dirty := False, oq_pending_changes := 0\<rparr>" "e \<noteq> []"
    and r: "read_queue reference_platform st' (oq_netuid ?a) (oq_run_id ?a) (oq_role ?a) None =
      Inr (Some ((published (fc_snapshot1 sample_clock) ?a)\<lparr>qs_etag := Some e\<rparr>))" by metis
  have c: "oq_netuid ?a = 3" "oq_run_id ?a = ''run''" "oq_role ?a = ''train''"
    by (simp_all add: add_def mark_dirty_def sample_queue_def OrchestratorQueue_init_def)
  have "\<not> in_sync sample_slot (add (sample_entry ''j2'') sample_queue) st'"
    using f(1,3,4) by (simp add: in_sync_def add_def mark_dirty_def sample_queue_def OrchestratorQueue_init_def)
  moreover have "queue_slot st' (add (sample_entry ''j2'') sample_queue) sample_slot"
    using f(2,3) by (simp add: queue_slot_def add_def mark_dirty_def)
  moreover have "map snd (oq_outstanding ?a) = [sample_entry ''j1'']"
    by (simp add: add_def mark_dirty_def sample_queue_def OrchestratorQueue_init_def)
  ultimately show thesis using r c by (intro that [of st']) (auto simp: published_def)
qed

subsection \<open>Correctness\<close>

text \<open>
  C3. In every state any interleaving of mutators, flushes, merges, reconciliations and foreign bucket
  writes can reach, the outstanding dict has one entry per job id, stored under that entry's own id, the
  pending-change count is not negative and is zero when the queue is not dirty, and the snapshot counter
  has not gone down.
\<close>

theorem queue_reachable_invariant:
  assumes "qsteps P (OrchestratorQueue_init n r role m, st0, Idle) (q, st, pc)"
  shows "queue_inv q \<and> counters_ok q \<and> 0 \<le> oq_snapshot_id q"
  using qsteps_invariant [OF assms] by (simp add: OrchestratorQueue_init_def [of n r role m])
    (simp add: queue_inv_def counters_ok_def)

theorem queue_reachable_invariant_witness:
  "queue_inv (add (sample_entry ''j2'') (add (sample_entry ''j1'') sample_queue))"
proof -
  have "qsteps reference_platform (sample_queue, LocalBucket_init ''b'', Idle)
      (add (sample_entry ''j2'') (add (sample_entry ''j1'') sample_queue), LocalBucket_init ''b'', Idle)"
    by (rule qsteps_cons [OF step_add], rule qsteps_cons [OF step_add], rule rtranclp.rtrancl_refl)
  then show ?thesis unfolding sample_queue_def by (rule queue_reachable_invariant [THEN conjunct1])
qed



text \<open>
  C20. Publishing without a competing writer: a due flush returns true, and what workers then read is
  exactly the outstanding entries in insertion order, under the next snapshot id and the etag the queue
  now holds; the queue is clean and keeps its entries, and a flush that is not due changes nothing.
\<close>

theorem flush_publishes:
  assumes "float_codec P" and "queue_slot st q uri" and "in_sync uri q st"
  shows "if oq_dirty q \<or> force
    then \<exists>q' st' e qs. flush P c force q st = (Inr True, q', st') \<and>
      read_queue P st' (oq_netuid q) (oq_run_id q) (oq_role q) None = Inr (Some qs) \<and>
      qs_outstanding qs = map snd (oq_outstanding q) \<and> qs_snapshot_id qs = oq_snapshot_id q + 1 \<and>
      qs_etag qs = Some e \<and> oq_etag q' = Some e \<and> \<not> oq_dirty q' \<and> oq_outstanding q' = oq_outstanding q \<and>
      in_sync uri q' st'
    else flush P c force q st = (Inr False, q, st)"
proof (cases "oq_dirty q \<or> force")
  case True
  from flush_in_sync [OF assms True, of c] obtain q' st' e where
    f: "flush P c force q st = (Inr True, q', st')" "in_sync uri q' st'" and
    q': "q' = q\<lparr>oq_snapshot_id := oq_snapshot_id q + 1, oq_etag := Some e, oq_dirty := False, oq_pending_changes := 0\<rparr>" and
    r: "read_queue P st' (oq_netuid q) (oq_run_id q) (oq_role q) None =
       Inr (Some ((published (fc_snapshot1 c) q)\<lparr>qs_etag := Some e\<rparr>))" by metis
  from True have "?thesis = (\<exists>q' st' e qs. flush P c force q st = (Inr True, q', st') \<and>
      read_queue P st' (oq_netuid q) (oq_run_id q) (oq_role q) None = Inr (Some qs) \<and>
      qs_outstanding qs = map snd (oq_outstanding q) \<and> qs_snapshot_id qs = oq_snapshot_id q + 1 \<and>
      qs_etag qs = Some e \<and> oq_etag q' = Some e \<and> \<not> oq_dirty q' \<and> oq_outstanding q' = oq_outstanding q \<and>
      in_sync uri q' st')" by simp
  moreover have \<dots>
    using f q' r by (intro exI [of _ q'] exI [of _ st'] exI [of _ e] exI conjI) (auto simp: published_def)
  ultimately show ?thesis by blast
qed (simp add: flush_def flush_begin_def)

theorem flush_publishes_witness:
  "\<exists>q' st' qs. flush reference_platform sample_clock False (add (sample_entry ''j1'') sample_queue)
      (LocalBucket_init ''b'') = (Inr True, q', st') \<and>
    read_queue reference_platform st' 3 ''run'' ''train'' None = Inr (Some qs) \<and>
    qs_outstanding qs = [sample_entry ''j1'']"
  using flush_publishes [OF reference_float_codec sample_slot_ok(2) sample_in_sync,
      of "sample_entry ''j1''" False sample_clock]
  by (auto simp: add_def mark_dirty_def sample_queue_def OrchestratorQueue_init_def)

text \<open>
  Publishing against a competing writer: when the object holds another valid snapshot, the flush
  still returns true; every local entry is published unchanged, every entry only the other writer had is
  pulled in, nothing else appears, and the snapshot id exceeds both counters.
\<close>

theorem flush_merges:
  assumes "float_codec P" and "queue_slot st q uri" and "\<not> in_sync uri q st" and "oq_dirty q \<or> force"
    and "queue_inv q" and "read_queue P st (oq_netuid q) (oq_run_id q) (oq_role q) None = Inr (Some qs)"
  shows "\<exists>q' st' qs'. flush P c force q st = (Inr True, q', st') \<and> queue_inv q' \<and> \<not> oq_dirty q' \<and>
    (\<forall>j. map_of (oq_outstanding q') j =
       (case map_of (oq_outstanding q) j of
          Some e \<Rightarrow> Some e | None \<Rightarrow> List.find (\<lambda>e. qe_job_id e = j) (qs_outstanding qs))) \<and>
    read_queue P st' (oq_netuid q) (oq_run_id q) (oq_role q) None = Inr (Some qs') \<and>
    qs_outstanding qs' = map snd (oq_outstanding q') \<and>
    qs_snapshot_id qs' > oq_snapshot_id q \<and> qs_snapshot_id qs' > qs_snapshot_id qs"
proof -
  from flush_conflict [OF assms(1-4,6), of c] obtain q' st' e where
    f: "flush P c force q st = (Inr True, q', st')" and
    q': "q' = q\<lparr>oq_outstanding := merge_entries (qs_outstanding qs) (oq_outstanding q),
            oq_snapshot_id := max (oq_snapshot_id q + 1) (qs_snapshot_id qs) + 1,
            oq_etag := Some e, oq_dirty := False, oq_pending_changes := 0\<rparr>" and
    r: "read_queue P st' (oq_netuid q) (oq_run_id q) (oq_role q) None =
       Inr (Some \<lparr>qs_role = oq_role q, qs_snapshot_unix = fc_snapshot2 c, qs_snapshot_id = oq_snapshot_id q',
                  qs_outstanding = map snd (oq_outstanding q'), qs_etag = Some e, qs_version = 1\<rparr>)" by metis
  have "queue_inv q'" using assms(5) q' by (simp add: queue_inv_keyed keyed_merge)
  then show ?thesis
    using f r q' by (intro exI [of _ q'] exI [of _ st'] exI conjI) (auto simp: map_of_merge)
qed

theorem flush_merges_witness:
  "\<exists>st q' st' qs'. flush reference_platform sample_clock False (add (sample_entry ''j2'') sample_queue) st = (Inr True, q', st') \<and>
    map_of (oq_outstanding q') ''j1'' = Some (sample_entry ''j1'') \<and>
    map_of (oq_outstanding q') ''j2'' = Some (sample_entry ''j2'') \<and>
    read_queue reference_platform st' 3 ''run'' ''train'' None = Inr (Some qs') \<and>
    qs_outstanding qs' = map snd (oq_outstanding q')"
proof -
  let ?q = "add (sample_entry ''j2'') sample_queue"
  obtain st qs where s: "queue_slot st ?q sample_slot" "\<not> in_sync sample_slot ?q st"
    and r: "read_queue reference_platform st 3 ''run'' ''train'' None = Inr (Some qs)" "qs_outstanding qs = [sample_entry ''j1'']"
    by (rule sample_conflict)
  have c: "oq_netuid ?q = 3" "oq_run_id ?q = ''run''" "oq_role ?q = ''train''" "oq_dirty ?q \<or> False" "queue_inv ?q"
    "map_of (oq_outstanding ?q) ''j1'' = None" "map_of (oq_outstanding ?q) ''j2'' = Some (sample_entry ''j2'')"
    using queue_inv_ops(1) [of sample_queue]
    by (simp_all add: add_def mark_dirty_def sample_queue_def OrchestratorQueue_init_def sample_entry_def queue_inv_def)
  have j: "qe_job_id (sample_entry ''j1'') = ''j1''" by (simp add: sample_entry_def)
  have h: "read_queue reference_platform st (oq_netuid ?q) (oq_run_id ?q) (oq_role ?q) None = Inr (Some qs)"
    by (simp only: c r(1))
  from flush_merges [OF reference_float_codec s c(4,5) h, of sample_clock] obtain q' st' qs' where
    f: "flush reference_platform sample_clock False ?q st = (Inr True, q', st')" and
    m: "\<And>i. map_of (oq_outstanding q') i = (case map_of (oq_outstanding ?q) i of
          Some e \<Rightarrow> Some e | None \<Rightarrow> List.find (\<lambda>e. qe_job_id e = i) (qs_outstanding qs))" and
    p: "read_queue reference_platform st' 3 ''run'' ''train'' None = Inr (Some qs')"
    "qs_outstanding qs' = map snd (oq_outstanding q')"
    unfolding c by blast
  have "map_of (oq_outstanding q') ''j1'' = Some (sample_entry ''j1'')"
    "map_of (oq_outstanding q') ''j2'' = Some (sample_entry ''j2'')"
    using m [of "''j1''"] m [of "''j2''"] c r(2) j by simp_all
  with f p show ?thesis by blast
qed

text \<open>
  Crash recovery: after a flush, a restarted orchestrator that reconciles from the bucket has exactly
  the flushed entries, in their order, less those whose receipts it found, and holds the etag of the
  snapshot it read, so its next flush is not refused.
\<close>

theorem restart_recovers:
  assumes "float_codec P" and "queue_slot st q uri" and "in_sync uri q st" and "oq_dirty q" and "queue_inv q"
  shows "\<exists>q' st' q2. flush P c False q st = (Inr True, q', st') \<and>
    reconcile_from_bucket P st' receipts (OrchestratorQueue_init (oq_netuid q) (oq_run_id q) (oq_role q) m) = (Inr (), q2) \<and>
    oq_outstanding q2 = filter (\<lambda>(j, _). j \<notin> set receipts) (oq_outstanding q) \<and>
    in_sync uri q2 st' \<and> (oq_dirty q2 \<longleftrightarrow> receipts \<noteq> [])"
proof -
  from assms(4) have due: "oq_dirty q \<or> False" by simp
  from flush_in_sync [OF assms(1-3) due, of c] obtain q' st' e where
    f: "flush P c False q st = (Inr True, q', st')" and s: "in_sync uri q' st'" and
    q': "q' = q\<lparr>oq_snapshot_id := oq_snapshot_id q + 1, oq_etag := Some e, oq_dirty := False, oq_pending_changes := 0\<rparr>" and
    r: "read_queue P st' (oq_netuid q) (oq_run_id q) (oq_role q) None =
       Inr (Some ((published (fc_snapshot1 c) q)\<lparr>qs_etag := Some e\<rparr>))" by metis
  have k: "load_entries (map snd (oq_outstanding q)) [] = oq_outstanding q"
    using assms(5) by (simp add: queue_inv_keyed keyed_load_self)
  show ?thesis
    using f s q' r k
    by (intro exI [of _ q'] exI [of _ st'] exI conjI)
      (auto simp: reconcile_from_bucket_def OrchestratorQueue_init_def published_def fold_delete_filter in_sync_def Let_def)
qed

theorem restart_recovers_witness:
  "\<exists>q' st' q2. flush reference_platform sample_clock False
      (add (sample_entry ''j2'') (add (sample_entry ''j1'') sample_queue)) (LocalBucket_init ''b'') = (Inr True, q', st') \<and>
    reconcile_from_bucket reference_platform st' [''j1''] sample_queue = (Inr (), q2) \<and>
    oq_outstanding q2 = [(''j2'', sample_entry ''j2'')]"
proof -
  let ?q = "add (sample_entry ''j2'') (add (sample_entry ''j1'') sample_queue)"
  have "queue_inv ?q" by (intro queue_inv_ops) (simp add: sample_queue_def)
  moreover have "queue_slot (LocalBucket_init ''b'') ?q sample_slot"
    using sample_slot_ok(1) by (simp add: queue_slot_def add_def mark_dirty_def)
  moreover have "in_sync sample_slot ?q (LocalBucket_init ''b'')"
    using sample_in_sync [of "sample_entry ''j1''"] by (simp add: in_sync_def add_def mark_dirty_def)
  moreover have "oq_outstanding ?q = [(''j1'', sample_entry ''j1''), (''j2'', sample_entry ''j2'')]" "oq_dirty ?q"
    "oq_netuid ?q = 3" "oq_run_id ?q = ''run''" "oq_role ?q = ''train''"
    by (simp_all add: add_def mark_dirty_def sample_queue_def OrchestratorQueue_init_def sample_entry_def)
  ultimately show ?thesis
    using restart_recovers [OF reference_float_codec, of "LocalBucket_init ''b''" ?q sample_slot sample_clock "[''j1'']" 32]
    by (auto simp: sample_queue_def)
qed

text \<open>
  The outstanding table is the history of emissions and removals: after any sequence of adds and
  removes, a job is outstanding exactly when its last operation was an add, with the entry of that add.
\<close>

theorem outstanding_history:
  "map_of (oq_outstanding (fold apply_op ops q)) j = last_effect qe_job_id ops j (map_of (oq_outstanding q) j)"
  using oq.lookup_run [of ops q j] by (simp add: apply_op_run)

text \<open>
  Pruning and bulk removal do exactly what they report: \<^verbatim>\<open>prune_expired\<close> returns, in order, the
  entries whose non-zero deadline has passed and keeps all others in order; \<^verbatim>\<open>remove_many\<close> removes
  exactly the named jobs, returns how many of them were outstanding, and the depth falls by that number.
\<close>

theorem prune_and_remove_exact:
  assumes "queue_inv q"
  shows "fst (prune_expired now q) = filter (expired now) (map snd (oq_outstanding q)) \<and>
    oq_outstanding (snd (prune_expired now q)) = filter (\<lambda>je. \<not> expired now (snd je)) (oq_outstanding q) \<and>
    oq_outstanding (snd (remove_many js q)) = filter (\<lambda>(k, _). k \<notin> set js) (oq_outstanding q) \<and>
    fst (remove_many js q) = int (card (set js \<inter> set (outstanding_job_ids q))) \<and>
    int (depth None q) = int (depth None (snd (remove_many js q))) + fst (remove_many js q)"
proof -
  let ?d = "oq_outstanding q"
  have d: "distinct (map fst ?d)" using assms by (simp add: queue_inv_def)
  have "card (set js \<inter> fst ` set ?d) = length (filter (\<lambda>(k, _). k \<in> set js) ?d)"
  proof -
    have "set js \<inter> fst ` set ?d = set (map fst (filter (\<lambda>(k, _). k \<in> set js) ?d))" by force
    moreover have "distinct (map fst (filter (\<lambda>(k, _). k \<in> set js) ?d))" using d by (rule distinct_map_filter)
    ultimately show ?thesis by (metis distinct_card length_map)
  qed
  moreover have "length ?d = length (filter (\<lambda>(k, _). k \<in> set js) ?d) + length (filter (\<lambda>(k, _). k \<notin> set js) ?d)"
    using sum_length_filter_compl [of "\<lambda>(k, _). k \<in> set js" ?d] by (simp add: case_prod_unfold)
  ultimately show ?thesis
    by (simp add: prune_expired_eq [OF assms] remove_many_eq [OF assms] Let_def mark_dirty_def depth_def outstanding_job_ids_def)
qed

theorem prune_and_remove_exact_witness:
  "fst (remove_many [''j1'', ''j9''] (add (sample_entry ''j1'') sample_queue)) = 1"
proof -
  have "queue_inv (add (sample_entry ''j1'') sample_queue)" by (intro queue_inv_ops) (simp add: sample_queue_def)
  from prune_and_remove_exact [OF this, of 0 "[''j1'', ''j9'']"] show ?thesis
    by (simp add: add_def mark_dirty_def sample_queue_def OrchestratorQueue_init_def sample_entry_def outstanding_job_ids_def)
qed



subsection \<open>Updates that are lost or withheld\<close>



text \<open>
  The reconciled queue is not published by the background loop: after \<^verbatim>\<open>reconcile_from_bucket\<close> the
  loop's round does nothing, even when receipts were removed and the queue is marked dirty, because the loop
  waits for a positive change count that reconciliation has set to zero.
\<close>

theorem reconcile_is_not_flushed:
  assumes "reconcile_from_bucket P st receipts q = (Inr (), q')" and "0 < oq_flush_max_changes q"
  shows "flush_loop_round P c q' st = (q', st) \<and>
    (receipts = [] \<or> oq_dirty q')"
  using assms
  by (auto simp: reconcile_from_bucket_def flush_loop_round_def flush_loop_due_def Let_def split: sum.splits)

theorem reconcile_is_not_flushed_witness:
  "\<exists>q'. reconcile_from_bucket reference_platform (LocalBucket_init ''b'') [''j1''] sample_queue = (Inr (), q') \<and>
    oq_dirty q' \<and> flush_loop_round reference_platform sample_clock q' (LocalBucket_init ''b'') = (q', LocalBucket_init ''b'')"
proof -
  obtain q' where r: "reconcile_from_bucket reference_platform (LocalBucket_init ''b'') [''j1''] sample_queue = (Inr (), q')"
    using sample_slot_ok(1)
    by (auto simp: reconcile_from_bucket_def read_queue_def queue_slot_def LocalBucket_get_with_etag_def obj_at_def
        LocalBucket_init_def)
  with reconcile_is_not_flushed [OF r, of sample_clock] show ?thesis
    by (simp add: sample_queue_def OrchestratorQueue_init_def)
qed

text \<open>
  A queue object that is not a JSON object wedges the queue: a flush whose etag is stale raises
  \<^verbatim>\<open>PreconditionFailed\<close>, leaves the bucket as it is, and leaves the queue stale, so every later flush
  raises as well.
\<close>

theorem corrupt_queue_object_wedges_flush:
  assumes "queue_slot st q uri" and "LocalBucket_get uri st = Inr body" and "\<not> in_sync uri q st"
    and "read_queue P st (oq_netuid q) (oq_run_id q) (oq_role q) None = Inr None" and "oq_dirty q"
  shows "\<exists>q'. flush P c force q st = (Inl (PreconditionFailed uri), q', st) \<and>
    oq_dirty q' \<and> \<not> in_sync uri q' st \<and> oq_outstanding q' = oq_outstanding q"
proof -
  from assms(1) obtain a where uri: "queue_uri st (oq_netuid q) (oq_run_id q) (oq_role q) = Inr uri"
    and a: "parse_uri uri = Inr a" by (auto simp: queue_slot_def)
  have ne: "current_etag uri st \<noteq> []"
    using assms(2) a by (auto simp: LocalBucket_get_def obj_at_def current_etag_def split: option.splits)
  have w: "flush_put P w uri (payload, oq_etag q) st = Inl (PreconditionFailed uri)"
    "flush_put P w uri (payload, None) st = Inl (PreconditionFailed uri)" for payload w
    using assms(3) ne by (simp_all add: flush_put_cas [OF a] in_sync_def)
  show ?thesis
    using assms(4,5) uri w ne
    by (simp add: flush_def flush_begin_def snapshot_eq flush_retry_def merge_from_bucket_def in_sync_def)
qed

theorem corrupt_queue_object_wedges_flush_witness:
  "\<exists>q'. flush reference_platform sample_clock False (add (sample_entry ''j1'') sample_queue)
      \<lparr>lb_bucket = ''b'', lb_objects = [((''b'', ''v3/netuid=3/jobs/run/queue.json''), (utf8_encode ''[]'', 7))]\<rparr>
    = (Inl (PreconditionFailed sample_slot), q',
       \<lparr>lb_bucket = ''b'', lb_objects = [((''b'', ''v3/netuid=3/jobs/run/queue.json''), (utf8_encode ''[]'', 7))]\<rparr>)"
proof -
  let ?st = "\<lparr>lb_bucket = ''b'', lb_objects = [((''b'', ''v3/netuid=3/jobs/run/queue.json''), (utf8_encode ''[]'', 7))]\<rparr> :: LocalBucket"
  let ?q = "add (sample_entry ''j1'') sample_queue"
  have p: "parse_uri sample_slot = Inr (''b'', ''v3/netuid=3/jobs/run/queue.json'')"
    and u: "queue_uri ?st 3 ''run'' ''train'' = Inr sample_slot" by code_simp+
  have c: "oq_netuid ?q = 3" "oq_run_id ?q = ''run''" "oq_role ?q = ''train''" "oq_dirty ?q" "oq_etag ?q = None"
    by (simp_all add: add_def mark_dirty_def sample_queue_def OrchestratorQueue_init_def)
  have l: "loads reference_platform ''[]'' = Inr (JList [])"
    using loads_dumps [OF reference_float_codec, of "JList []" True] by (simp add: dumps.simps)
  have "queue_slot ?st ?q sample_slot" using p u c by (simp add: queue_slot_def)
  moreover have "LocalBucket_get sample_slot ?st = Inr (utf8_encode ''[]'')"
    using p by (simp add: LocalBucket_get_def obj_at_def)
  moreover have "\<not> in_sync sample_slot ?q ?st" using p c etag_of_ne [symmetric] by (simp add: in_sync_def current_etag_def obj_at_def)
  moreover have "read_queue reference_platform ?st (oq_netuid ?q) (oq_run_id ?q) (oq_role ?q) None = Inr None"
    using p u c l by (simp add: read_queue_def LocalBucket_get_with_etag_def obj_at_def)
  ultimately show ?thesis
    using corrupt_queue_object_wedges_flush [of ?st ?q sample_slot _ reference_platform sample_clock False] c by blast
qed

end
