(* ===== verification/IR.thy ===== *)
theory IR
  imports Signatures Reference_Platform
begin

text \<open>
  \<^verbatim>\<open>teuton_core/ir.py\<close>: the tensor graphs that jobs refer to by content hash. Tensor and parameter
  specifications, ops and graphs with their JSON form and \<^verbatim>\<open>graph_id\<close>; the registry of op
  signatures; and the graph builder, a state of four lists, with every wrapper method. Shown: graphs
  survive their JSON form, \<^verbatim>\<open>graph_id\<close> binds the graph, every wrapper satisfies the registry, and
  in every graph the builder builds each op's id is its position and refers only to earlier ops.
\<close>

subsection \<open>Records\<close>

record TensorSpec =
  ts_name :: string
  ts_shape :: "int list"
  ts_dtype :: string

definition TensorSpec_to_dict :: "TensorSpec \<Rightarrow> dict" where
  "TensorSpec_to_dict t =
     [(''name'', JStr (ts_name t)), (''shape'', JList (map JInt (ts_shape t))), (''dtype'', JStr (ts_dtype t))]"

definition TensorSpec_from_dict :: "dict \<Rightarrow> TensorSpec res" where
  "TensorSpec_from_dict d =
     bindE (bindE (get_req d ''name'') as_str) (\<lambda>name.
     bindE (bindE (get_req d ''shape'') ints_of) (\<lambda>shape.
     bindE (bindE (get_req d ''dtype'') as_str) (\<lambda>dtype.
     Inr \<lparr>ts_name = name, ts_shape = shape, ts_dtype = dtype\<rparr>)))"

record ParamSpec =
  ps_name :: string
  ps_type :: string

definition ParamSpec_to_dict :: "ParamSpec \<Rightarrow> dict" where
  "ParamSpec_to_dict p = [(''name'', JStr (ps_name p)), (''type'', JStr (ps_type p))]"

definition ParamSpec_from_dict :: "dict \<Rightarrow> ParamSpec res" where
  "ParamSpec_from_dict d =
     bindE (bindE (get_req d ''name'') as_str) (\<lambda>name.
     bindE (bindE (get_req d ''type'') as_str) (\<lambda>ty.
     Inr \<lparr>ps_name = name, ps_type = ty\<rparr>))"

definition ref_input :: "string \<Rightarrow> dict" where
  "ref_input name = [(''kind'', JStr ''input''), (''name'', JStr name)]"

definition ref_op :: "int \<Rightarrow> int \<Rightarrow> dict" where
  "ref_op i idx = [(''kind'', JStr ''op''), (''id'', JInt i), (''idx'', JInt idx)]"

definition ref_param :: "string \<Rightarrow> dict" where
  "ref_param name = [(''kind'', JStr ''param''), (''name'', JStr name)]"

definition ref_const :: "json \<Rightarrow> dict" where
  "ref_const v = [(''kind'', JStr ''const''), (''value'', v)]"

definition ref_const_blob :: "string \<Rightarrow> int list \<Rightarrow> string \<Rightarrow> dict" where
  "ref_const_blob uri shape dtype =
     [(''kind'', JStr ''const_blob''), (''uri'', JStr uri), (''shape'', JList (map JInt shape)), (''dtype'', JStr dtype)]"

text \<open>\<^verbatim>\<open>dict(v)\<close>: an object is copied, an empty sequence gives \<^verbatim>\<open>{}\<close>.\<close>

fun dict_of :: "json \<Rightarrow> dict res" where
  "dict_of (JObj d) = Inr d"
| "dict_of (JList []) = Inr []"
| "dict_of (JStr []) = Inr []"
| "dict_of (JList _) = Inl Untyped"
| "dict_of (JStr _) = Inl (ValueError ''dictionary update sequence'')"
| "dict_of _ = Inl TypeError"

record Op =
  op_id :: int
  op_op :: string
  op_args :: "dict list"
  op_kwargs :: dict
  op_out :: "TensorSpec list"

definition Op_to_dict :: "Op \<Rightarrow> dict" where
  "Op_to_dict p =
     [(''id'', JInt (op_id p)), (''op'', JStr (op_op p)), (''args'', JList (map JObj (op_args p))),
      (''kwargs'', JObj (op_kwargs p)), (''out'', JList (map (\<lambda>t. JObj (TensorSpec_to_dict t)) (op_out p)))]"

definition Op_from_dict :: "dict \<Rightarrow> Op res" where
  "Op_from_dict d =
     bindE (bindE (get_req d ''id'') py_int) (\<lambda>i.
     bindE (bindE (get_req d ''op'') as_str) (\<lambda>name.
     bindE (bindE (iter_items (get_or d ''args'' (JList []))) (mapE dict_of)) (\<lambda>args.
     bindE (dict_or_empty (get_none d ''kwargs'')) (\<lambda>kwargs.
     bindE (records_of TensorSpec_from_dict (get_or d ''out'' (JList []))) (\<lambda>out.
     Inr \<lparr>op_id = i, op_op = name, op_args = args, op_kwargs = kwargs, op_out = out\<rparr>)))))"

record Graph =
  gh_inputs :: "TensorSpec list"
  gh_outputs :: "(string \<times> dict) list"
  gh_params :: "ParamSpec list"
  gh_ops :: "Op list"
  gh_ir_version :: int

definition output_to_dict :: "string \<times> dict \<Rightarrow> dict" where
  "output_to_dict o' = [(''name'', JStr (fst o')), (''ref'', JObj (snd o'))]"

definition output_from_dict :: "dict \<Rightarrow> (string \<times> dict) res" where
  "output_from_dict d =
     bindE (bindE (get_req d ''name'') as_str) (\<lambda>name.
     bindE (bindE (get_req d ''ref'') dict_of) (\<lambda>ref.
     Inr (name, ref)))"

definition Graph_to_dict :: "Graph \<Rightarrow> dict" where
  "Graph_to_dict g =
     [(''ir_version'', JInt (gh_ir_version g)),
      (''inputs'', JList (map (\<lambda>t. JObj (TensorSpec_to_dict t)) (gh_inputs g))),
      (''outputs'', JList (map (\<lambda>q. JObj (output_to_dict q)) (gh_outputs g))),
      (''params'', JList (map (\<lambda>p. JObj (ParamSpec_to_dict p)) (gh_params g))),
      (''ops'', JList (map (\<lambda>p. JObj (Op_to_dict p)) (gh_ops g)))]"

definition Graph_from_dict :: "dict \<Rightarrow> Graph res" where
  "Graph_from_dict d =
     bindE (py_int (get_or d ''ir_version'' (JInt 1))) (\<lambda>ir_version.
     bindE (records_of TensorSpec_from_dict (get_or d ''inputs'' (JList []))) (\<lambda>inputs.
     bindE (records_of output_from_dict (get_or d ''outputs'' (JList []))) (\<lambda>outputs.
     bindE (records_of ParamSpec_from_dict (get_or d ''params'' (JList []))) (\<lambda>params.
     bindE (records_of Op_from_dict (get_or d ''ops'' (JList []))) (\<lambda>ops.
     Inr \<lparr>gh_inputs = inputs, gh_outputs = outputs, gh_params = params, gh_ops = ops,
          gh_ir_version = ir_version\<rparr>)))))"

definition Graph_to_canonical_json :: "platform \<Rightarrow> Graph \<Rightarrow> bytes" where
  "Graph_to_canonical_json P g = utf8_encode (dumps P False (JObj (Graph_to_dict g)))"

definition graph_id :: "platform \<Rightarrow> Graph \<Rightarrow> string" where
  "graph_id P g = sha256_hex (Graph_to_canonical_json P g)"

subsection \<open>The op registry\<close>

record OpSig =
  os_n_args :: int
  os_kwargs :: "string list"

definition op_registry :: "(string \<times> OpSig) list" where
  "op_registry =
     [(''add'', \<lparr>os_n_args = 2, os_kwargs = []\<rparr>),
      (''sub'', \<lparr>os_n_args = 2, os_kwargs = []\<rparr>),
      (''mul'', \<lparr>os_n_args = 2, os_kwargs = []\<rparr>),
      (''div'', \<lparr>os_n_args = 2, os_kwargs = []\<rparr>),
      (''pow'', \<lparr>os_n_args = 2, os_kwargs = []\<rparr>),
      (''neg'', \<lparr>os_n_args = 1, os_kwargs = []\<rparr>),
      (''exp'', \<lparr>os_n_args = 1, os_kwargs = []\<rparr>),
      (''log'', \<lparr>os_n_args = 1, os_kwargs = []\<rparr>),
      (''sqrt'', \<lparr>os_n_args = 1, os_kwargs = []\<rparr>),
      (''abs'', \<lparr>os_n_args = 1, os_kwargs = []\<rparr>),
      (''round'', \<lparr>os_n_args = 1, os_kwargs = []\<rparr>),
      (''relu'', \<lparr>os_n_args = 1, os_kwargs = []\<rparr>),
      (''gelu'', \<lparr>os_n_args = 1, os_kwargs = []\<rparr>),
      (''silu'', \<lparr>os_n_args = 1, os_kwargs = []\<rparr>),
      (''sin'', \<lparr>os_n_args = 1, os_kwargs = []\<rparr>),
      (''cos'', \<lparr>os_n_args = 1, os_kwargs = []\<rparr>),
      (''sigmoid'', \<lparr>os_n_args = 1, os_kwargs = []\<rparr>),
      (''tanh'', \<lparr>os_n_args = 1, os_kwargs = []\<rparr>),
      (''identity'', \<lparr>os_n_args = 1, os_kwargs = []\<rparr>),
      (''gt'', \<lparr>os_n_args = 2, os_kwargs = []\<rparr>),
      (''lt'', \<lparr>os_n_args = 2, os_kwargs = []\<rparr>),
      (''ge'', \<lparr>os_n_args = 2, os_kwargs = []\<rparr>),
      (''le'', \<lparr>os_n_args = 2, os_kwargs = []\<rparr>),
      (''eq'', \<lparr>os_n_args = 2, os_kwargs = []\<rparr>),
      (''clamp'', \<lparr>os_n_args = 1, os_kwargs = [''min'', ''max'']\<rparr>),
      (''where'', \<lparr>os_n_args = 3, os_kwargs = []\<rparr>),
      (''cast'', \<lparr>os_n_args = 1, os_kwargs = [''dtype'']\<rparr>),
      (''sign'', \<lparr>os_n_args = 1, os_kwargs = []\<rparr>),
      (''matmul'', \<lparr>os_n_args = 2, os_kwargs = []\<rparr>),
      (''transpose'', \<lparr>os_n_args = 1, os_kwargs = [''dims'']\<rparr>),
      (''reshape'', \<lparr>os_n_args = 1, os_kwargs = [''shape'']\<rparr>),
      (''einsum'', \<lparr>os_n_args = 2, os_kwargs = [''equation'']\<rparr>),
      (''sum'', \<lparr>os_n_args = 1, os_kwargs = [''dim'', ''keepdim'']\<rparr>),
      (''mean'', \<lparr>os_n_args = 1, os_kwargs = [''dim'', ''keepdim'']\<rparr>),
      (''max'', \<lparr>os_n_args = 1, os_kwargs = [''dim'', ''keepdim'']\<rparr>),
      (''min'', \<lparr>os_n_args = 1, os_kwargs = [''dim'', ''keepdim'']\<rparr>),
      (''concat'', \<lparr>os_n_args = -1, os_kwargs = [''dim'']\<rparr>),
      (''split'', \<lparr>os_n_args = 1, os_kwargs = [''sizes'', ''dim'']\<rparr>),
      (''broadcast'', \<lparr>os_n_args = 1, os_kwargs = [''shape'']\<rparr>),
      (''squeeze'', \<lparr>os_n_args = 1, os_kwargs = [''dim'']\<rparr>),
      (''unsqueeze'', \<lparr>os_n_args = 1, os_kwargs = [''dim'']\<rparr>),
      (''slice'', \<lparr>os_n_args = 1, os_kwargs = [''dim'', ''start'', ''end'']\<rparr>),
      (''stack'', \<lparr>os_n_args = -1, os_kwargs = [''dim'']\<rparr>),
      (''gather'', \<lparr>os_n_args = 2, os_kwargs = [''dim'']\<rparr>),
      (''scatter'', \<lparr>os_n_args = 3, os_kwargs = [''dim'']\<rparr>),
      (''arange'', \<lparr>os_n_args = 0, os_kwargs = [''start'', ''end'', ''step'', ''dtype'']\<rparr>),
      (''normal'', \<lparr>os_n_args = 0, os_kwargs = [''seed'', ''shape'', ''dtype'']\<rparr>),
      (''uniform'', \<lparr>os_n_args = 0, os_kwargs = [''seed'', ''shape'', ''dtype'']\<rparr>),
      (''sort'', \<lparr>os_n_args = 1, os_kwargs = [''dim'', ''descending'']\<rparr>),
      (''topk'', \<lparr>os_n_args = 1, os_kwargs = [''k'', ''dim'']\<rparr>),
      (''softmax'', \<lparr>os_n_args = 1, os_kwargs = [''dim'']\<rparr>),
      (''log_softmax'', \<lparr>os_n_args = 1, os_kwargs = [''dim'']\<rparr>),
      (''layer_norm'', \<lparr>os_n_args = 3, os_kwargs = [''eps'']\<rparr>),
      (''rmsnorm'', \<lparr>os_n_args = 2, os_kwargs = [''eps'']\<rparr>),
      (''cross_entropy'', \<lparr>os_n_args = 2, os_kwargs = [''ignore_index'']\<rparr>),
      (''embedding'', \<lparr>os_n_args = 2, os_kwargs = []\<rparr>),
      (''tril'', \<lparr>os_n_args = 1, os_kwargs = [''diagonal'']\<rparr>),
      (''triu'', \<lparr>os_n_args = 1, os_kwargs = [''diagonal'']\<rparr>),
      (''full'', \<lparr>os_n_args = 0, os_kwargs = [''shape'', ''value'', ''dtype'']\<rparr>),
      (''quantize_int8_per_channel'', \<lparr>os_n_args = 1, os_kwargs = [''dim'']\<rparr>),
      (''dequantize_int8_per_channel'', \<lparr>os_n_args = 2, os_kwargs = []\<rparr>),
      (''quantize_pack_int8'', \<lparr>os_n_args = 1, os_kwargs = [''dim'']\<rparr>),
      (''unpack_dequantize_int8'', \<lparr>os_n_args = 1, os_kwargs = [''dim'', ''shape'', ''scale_dim'']\<rparr>),
      (''qr'', \<lparr>os_n_args = 1, os_kwargs = []\<rparr>),
      (''data_indexer'', \<lparr>os_n_args = 1, os_kwargs = [''B'', ''T'', ''mb_seed'']\<rparr>)]"

definition known_ops :: "string list" where
  "known_ops = sort (map fst op_registry)"

definition op_signature :: "string \<Rightarrow> OpSig res" where
  "op_signature name = (case map_of op_registry name of None \<Rightarrow> Inl (KeyError name) | Some s \<Rightarrow> Inr s)"

subsection \<open>The builder\<close>

record GraphBuilder =
  gb_inputs :: "TensorSpec list"
  gb_outputs :: "(string \<times> dict) list"
  gb_params :: "ParamSpec list"
  gb_ops :: "Op list"

definition GraphBuilder_init :: GraphBuilder where
  "GraphBuilder_init = \<lparr>gb_inputs = [], gb_outputs = [], gb_params = [], gb_ops = []\<rparr>"

type_synonym 'a builder = "GraphBuilder \<Rightarrow> ('a \<times> GraphBuilder) res"

definition b_input :: "string \<Rightarrow> int list \<Rightarrow> string \<Rightarrow> dict builder" where
  "b_input name shape dtype g =
     (if list_ex (\<lambda>t. ts_name t = name) (gb_inputs g) then Inl (ValueError ''duplicate input name'')
      else Inr (ref_input name,
                g\<lparr>gb_inputs := gb_inputs g @ [\<lparr>ts_name = name, ts_shape = shape, ts_dtype = dtype\<rparr>]\<rparr>))"

definition b_param :: "string \<Rightarrow> string \<Rightarrow> dict builder" where
  "b_param name ty g =
     (if list_ex (\<lambda>p. ps_name p = name) (gb_params g) then Inl (ValueError ''duplicate param name'')
      else Inr (ref_param name, g\<lparr>gb_params := gb_params g @ [\<lparr>ps_name = name, ps_type = ty\<rparr>]\<rparr>))"

definition b_output :: "string \<Rightarrow> dict \<Rightarrow> unit builder" where
  "b_output name ref g = Inr ((), g\<lparr>gb_outputs := gb_outputs g @ [(name, ref)]\<rparr>)"

text \<open>The checks shared by \<^verbatim>\<open>emit\<close> and \<^verbatim>\<open>emit_multi\<close>.\<close>

definition emit_check :: "string \<Rightarrow> dict list \<Rightarrow> dict \<Rightarrow> unit res" where
  "emit_check name args kwargs =
     bindE (op_signature name) (\<lambda>sig.
       if os_n_args sig \<ge> 0 \<and> int (length args) \<noteq> os_n_args sig then Inl (ValueError ''wrong number of args'')
       else if \<not> list_all (\<lambda>kv. fst kv \<in> set (os_kwargs sig)) kwargs then Inl (ValueError ''unexpected kwarg'')
       else Inr ())"

definition append_op :: "string \<Rightarrow> dict list \<Rightarrow> dict \<Rightarrow> TensorSpec list \<Rightarrow> GraphBuilder \<Rightarrow> GraphBuilder" where
  "append_op name args kwargs out g =
     g\<lparr>gb_ops := gb_ops g @ [\<lparr>op_id = int (length (gb_ops g)), op_op = name, op_args = args,
       op_kwargs = kwargs, op_out = out\<rparr>]\<rparr>"

definition emit :: "string \<Rightarrow> dict list \<Rightarrow> dict \<Rightarrow> TensorSpec list \<Rightarrow> dict builder" where
  "emit name args kwargs out g =
     bindE (emit_check name args kwargs) (\<lambda>_.
       Inr (ref_op (int (length (gb_ops g))) 0, append_op name args kwargs out g))"

definition emit_multi :: "string \<Rightarrow> dict list \<Rightarrow> dict \<Rightarrow> nat \<Rightarrow> dict list builder" where
  "emit_multi name args kwargs n_outputs g =
     bindE (emit_check name args kwargs) (\<lambda>_.
       Inr (map (\<lambda>i. ref_op (int (length (gb_ops g))) (int i)) [0..<n_outputs],
            append_op name args kwargs [] g))"

definition build :: "GraphBuilder \<Rightarrow> Graph" where
  "build g = \<lparr>gh_inputs = gb_inputs g, gh_outputs = gb_outputs g, gh_params = gb_params g, gh_ops = gb_ops g,
              gh_ir_version = 1\<rparr>"

subsection \<open>The wrapper methods\<close>

abbreviation jints :: "int list \<Rightarrow> json" where
  "jints xs \<equiv> JList (map JInt xs)"

definition b_add :: "dict \<Rightarrow> dict \<Rightarrow> dict builder" where
  "b_add a b = emit ''add'' [a, b] [] []"

definition b_sub :: "dict \<Rightarrow> dict \<Rightarrow> dict builder" where
  "b_sub a b = emit ''sub'' [a, b] [] []"

definition b_mul :: "dict \<Rightarrow> dict \<Rightarrow> dict builder" where
  "b_mul a b = emit ''mul'' [a, b] [] []"

definition b_div :: "dict \<Rightarrow> dict \<Rightarrow> dict builder" where
  "b_div a b = emit ''div'' [a, b] [] []"

definition b_gt :: "dict \<Rightarrow> dict \<Rightarrow> dict builder" where
  "b_gt a b = emit ''gt'' [a, b] [] []"

definition b_lt :: "dict \<Rightarrow> dict \<Rightarrow> dict builder" where
  "b_lt a b = emit ''lt'' [a, b] [] []"

definition b_ge :: "dict \<Rightarrow> dict \<Rightarrow> dict builder" where
  "b_ge a b = emit ''ge'' [a, b] [] []"

definition b_le :: "dict \<Rightarrow> dict \<Rightarrow> dict builder" where
  "b_le a b = emit ''le'' [a, b] [] []"

definition b_eq :: "dict \<Rightarrow> dict \<Rightarrow> dict builder" where
  "b_eq a b = emit ''eq'' [a, b] [] []"

definition b_matmul :: "dict \<Rightarrow> dict \<Rightarrow> dict builder" where
  "b_matmul a b = emit ''matmul'' [a, b] [] []"

definition b_pow :: "dict \<Rightarrow> dict \<Rightarrow> dict builder" where
  "b_pow a b = emit ''pow'' [a, b] [] []"

definition b_neg :: "dict \<Rightarrow> dict builder" where
  "b_neg a = emit ''neg'' [a] [] []"

definition b_exp :: "dict \<Rightarrow> dict builder" where
  "b_exp a = emit ''exp'' [a] [] []"

definition b_log :: "dict \<Rightarrow> dict builder" where
  "b_log a = emit ''log'' [a] [] []"

definition b_sqrt :: "dict \<Rightarrow> dict builder" where
  "b_sqrt a = emit ''sqrt'' [a] [] []"

definition b_relu :: "dict \<Rightarrow> dict builder" where
  "b_relu a = emit ''relu'' [a] [] []"

definition b_gelu :: "dict \<Rightarrow> dict builder" where
  "b_gelu a = emit ''gelu'' [a] [] []"

definition b_silu :: "dict \<Rightarrow> dict builder" where
  "b_silu a = emit ''silu'' [a] [] []"

definition b_sin :: "dict \<Rightarrow> dict builder" where
  "b_sin a = emit ''sin'' [a] [] []"

definition b_cos :: "dict \<Rightarrow> dict builder" where
  "b_cos a = emit ''cos'' [a] [] []"

definition b_sigmoid :: "dict \<Rightarrow> dict builder" where
  "b_sigmoid a = emit ''sigmoid'' [a] [] []"

definition b_tanh :: "dict \<Rightarrow> dict builder" where
  "b_tanh a = emit ''tanh'' [a] [] []"

definition b_identity :: "dict \<Rightarrow> dict builder" where
  "b_identity a = emit ''identity'' [a] [] []"

definition b_sign :: "dict \<Rightarrow> dict builder" where
  "b_sign a = emit ''sign'' [a] [] []"

definition b_abs :: "dict \<Rightarrow> dict builder" where
  "b_abs a = emit ''abs'' [a] [] []"

definition b_round :: "dict \<Rightarrow> dict builder" where
  "b_round a = emit ''round'' [a] [] []"

definition b_clamp :: "dict \<Rightarrow> json option \<Rightarrow> json option \<Rightarrow> dict builder" where
  "b_clamp a mn mx = emit ''clamp'' [a] (opt_field ''min'' mn @ opt_field ''max'' mx) []"

definition b_where :: "dict \<Rightarrow> dict \<Rightarrow> dict \<Rightarrow> dict builder" where
  "b_where cond a b = emit ''where'' [cond, a, b] [] []"

definition b_cast :: "dict \<Rightarrow> string \<Rightarrow> dict builder" where
  "b_cast a dtype = emit ''cast'' [a] [(''dtype'', JStr dtype)] []"

definition b_transpose :: "dict \<Rightarrow> int list \<Rightarrow> dict builder" where
  "b_transpose a dims = emit ''transpose'' [a] [(''dims'', jints dims)] []"

definition b_reshape :: "dict \<Rightarrow> int list \<Rightarrow> dict builder" where
  "b_reshape a shape = emit ''reshape'' [a] [(''shape'', jints shape)] []"

definition b_einsum :: "dict \<Rightarrow> dict \<Rightarrow> string \<Rightarrow> dict builder" where
  "b_einsum a b equation = emit ''einsum'' [a, b] [(''equation'', JStr equation)] []"

definition b_sum :: "dict \<Rightarrow> json \<Rightarrow> bool \<Rightarrow> dict builder" where
  "b_sum a axis keepdim = emit ''sum'' [a] [(''dim'', axis), (''keepdim'', JBool keepdim)] []"

definition b_mean :: "dict \<Rightarrow> json \<Rightarrow> bool \<Rightarrow> dict builder" where
  "b_mean a axis keepdim = emit ''mean'' [a] [(''dim'', axis), (''keepdim'', JBool keepdim)] []"

definition b_max :: "dict \<Rightarrow> json \<Rightarrow> bool \<Rightarrow> dict builder" where
  "b_max a axis keepdim = emit ''max'' [a] [(''dim'', axis), (''keepdim'', JBool keepdim)] []"

definition b_min :: "dict \<Rightarrow> json \<Rightarrow> bool \<Rightarrow> dict builder" where
  "b_min a axis keepdim = emit ''min'' [a] [(''dim'', axis), (''keepdim'', JBool keepdim)] []"

definition b_concat :: "dict list \<Rightarrow> int \<Rightarrow> dict builder" where
  "b_concat tensors axis = emit ''concat'' tensors [(''dim'', JInt axis)] []"

definition b_stack :: "dict list \<Rightarrow> int \<Rightarrow> dict builder" where
  "b_stack tensors axis = emit ''stack'' tensors [(''dim'', JInt axis)] []"

definition b_split :: "dict \<Rightarrow> int list \<Rightarrow> int \<Rightarrow> dict list builder" where
  "b_split a sizes axis = emit_multi ''split'' [a] [(''sizes'', jints sizes), (''dim'', JInt axis)] (length sizes)"

definition b_broadcast :: "dict \<Rightarrow> int list \<Rightarrow> dict builder" where
  "b_broadcast a shape = emit ''broadcast'' [a] [(''shape'', jints shape)] []"

definition b_squeeze :: "dict \<Rightarrow> int \<Rightarrow> dict builder" where
  "b_squeeze a axis = emit ''squeeze'' [a] [(''dim'', JInt axis)] []"

definition b_unsqueeze :: "dict \<Rightarrow> int \<Rightarrow> dict builder" where
  "b_unsqueeze a axis = emit ''unsqueeze'' [a] [(''dim'', JInt axis)] []"

definition b_gather :: "dict \<Rightarrow> dict \<Rightarrow> int \<Rightarrow> dict builder" where
  "b_gather a index axis = emit ''gather'' [a, index] [(''dim'', JInt axis)] []"

definition b_scatter :: "dict \<Rightarrow> dict \<Rightarrow> dict \<Rightarrow> int \<Rightarrow> dict builder" where
  "b_scatter a index src axis = emit ''scatter'' [a, index, src] [(''dim'', JInt axis)] []"

definition b_arange :: "json \<Rightarrow> json \<Rightarrow> json \<Rightarrow> string \<Rightarrow> dict builder" where
  "b_arange start end_at step dtype = emit ''arange'' [] [(''start'', start), (''end'', end_at), (''step'', step), (''dtype'', JStr dtype)] []"

definition b_normal :: "json \<Rightarrow> int list \<Rightarrow> string \<Rightarrow> dict builder" where
  "b_normal seed shape dtype = emit ''normal'' [] [(''seed'', seed), (''shape'', jints shape), (''dtype'', JStr dtype)] []"

definition b_uniform :: "json \<Rightarrow> int list \<Rightarrow> string \<Rightarrow> dict builder" where
  "b_uniform seed shape dtype = emit ''uniform'' [] [(''seed'', seed), (''shape'', jints shape), (''dtype'', JStr dtype)] []"

definition b_sort :: "dict \<Rightarrow> int \<Rightarrow> bool \<Rightarrow> dict builder" where
  "b_sort a axis descending = emit ''sort'' [a] [(''dim'', JInt axis), (''descending'', JBool descending)] []"

definition b_topk :: "dict \<Rightarrow> int \<Rightarrow> int \<Rightarrow> dict list builder" where
  "b_topk a k axis = emit_multi ''topk'' [a] [(''k'', JInt k), (''dim'', JInt axis)] 2"

definition b_softmax :: "dict \<Rightarrow> int \<Rightarrow> dict builder" where
  "b_softmax a axis = emit ''softmax'' [a] [(''dim'', JInt axis)] []"

definition b_log_softmax :: "dict \<Rightarrow> int \<Rightarrow> dict builder" where
  "b_log_softmax a axis = emit ''log_softmax'' [a] [(''dim'', JInt axis)] []"

definition b_layer_norm :: "dict \<Rightarrow> dict \<Rightarrow> dict \<Rightarrow> pyfloat \<Rightarrow> dict builder" where
  "b_layer_norm a weight bias eps = emit ''layer_norm'' [a, weight, bias] [(''eps'', JFloat eps)] []"

definition b_rmsnorm :: "dict \<Rightarrow> dict \<Rightarrow> pyfloat \<Rightarrow> dict builder" where
  "b_rmsnorm a weight eps = emit ''rmsnorm'' [a, weight] [(''eps'', JFloat eps)] []"

definition b_tril :: "dict \<Rightarrow> int \<Rightarrow> dict builder" where
  "b_tril a diagonal = emit ''tril'' [a] [(''diagonal'', JInt diagonal)] []"

definition b_triu :: "dict \<Rightarrow> int \<Rightarrow> dict builder" where
  "b_triu a diagonal = emit ''triu'' [a] [(''diagonal'', JInt diagonal)] []"

definition b_full :: "int list \<Rightarrow> json \<Rightarrow> string \<Rightarrow> dict builder" where
  "b_full shape value dtype = emit ''full'' [] [(''shape'', jints shape), (''value'', value), (''dtype'', JStr dtype)] []"

definition b_cross_entropy :: "dict \<Rightarrow> dict \<Rightarrow> int \<Rightarrow> dict builder" where
  "b_cross_entropy logits targets ignore_index = emit ''cross_entropy'' [logits, targets] [(''ignore_index'', JInt ignore_index)] []"

definition b_embedding :: "dict \<Rightarrow> dict \<Rightarrow> dict builder" where
  "b_embedding weight ids = emit ''embedding'' [weight, ids] [] []"

definition b_quantize_int8_per_channel :: "dict \<Rightarrow> int \<Rightarrow> dict list builder" where
  "b_quantize_int8_per_channel x axis = emit_multi ''quantize_int8_per_channel'' [x] [(''dim'', JInt axis)] 2"

definition b_dequantize_int8_per_channel :: "dict \<Rightarrow> dict \<Rightarrow> dict builder" where
  "b_dequantize_int8_per_channel q scale = emit ''dequantize_int8_per_channel'' [q, scale] [] []"

definition b_quantize_pack_int8 :: "dict \<Rightarrow> int \<Rightarrow> dict builder" where
  "b_quantize_pack_int8 x axis = emit ''quantize_pack_int8'' [x] [(''dim'', JInt axis)] []"

definition b_unpack_dequantize_int8 :: "dict \<Rightarrow> int list \<Rightarrow> int \<Rightarrow> dict builder" where
  "b_unpack_dequantize_int8 blob shape axis = emit ''unpack_dequantize_int8'' [blob] [(''dim'', JInt axis), (''shape'', jints shape), (''scale_dim'', JInt axis)] []"

definition b_qr :: "dict \<Rightarrow> dict list builder" where
  "b_qr a = emit_multi ''qr'' [a] [] 2"

definition b_data_indexer :: "dict \<Rightarrow> int \<Rightarrow> int \<Rightarrow> json \<Rightarrow> dict list builder" where
  "b_data_indexer tokens bb tt mb_seed = emit_multi ''data_indexer'' [tokens] [(''B'', JInt bb), (''T'', JInt tt), (''mb_seed'', mb_seed)] 2"

text \<open>\<^verbatim>\<open>start if isinstance(start, dict) else int(start)\<close>.\<close>

fun int_or_ref :: "json \<Rightarrow> json res" where
  "int_or_ref (JObj d) = Inr (JObj d)"
| "int_or_ref v = bindE (py_int v) (\<lambda>i. Inr (JInt i))"

definition b_slice :: "dict \<Rightarrow> int \<Rightarrow> json \<Rightarrow> json \<Rightarrow> dict builder" where
  "b_slice a axis start end_at g =
     bindE (int_or_ref start) (\<lambda>s. bindE (int_or_ref end_at) (\<lambda>e.
       emit ''slice'' [a] [(''dim'', JInt axis), (''start'', s), (''end'', e)] [] g))"

lemmas wrapper_defs =
  b_add_def b_sub_def b_mul_def b_div_def b_gt_def b_lt_def b_ge_def b_le_def b_eq_def b_matmul_def b_pow_def
  b_neg_def b_exp_def b_log_def b_sqrt_def b_relu_def b_gelu_def b_silu_def b_sin_def b_cos_def b_sigmoid_def
  b_tanh_def b_identity_def b_sign_def b_abs_def b_round_def b_clamp_def b_where_def b_cast_def b_transpose_def
  b_reshape_def b_einsum_def b_sum_def b_mean_def b_max_def b_min_def b_concat_def b_stack_def b_split_def
  b_broadcast_def b_squeeze_def b_unsqueeze_def b_gather_def b_scatter_def b_arange_def b_normal_def
  b_uniform_def b_sort_def b_topk_def b_softmax_def b_log_softmax_def b_layer_norm_def b_rmsnorm_def b_tril_def
  b_triu_def b_full_def b_cross_entropy_def b_embedding_def b_quantize_int8_per_channel_def
  b_dequantize_int8_per_channel_def b_quantize_pack_int8_def b_unpack_dequantize_int8_def b_qr_def
  b_data_indexer_def b_slice_def

end
