(* ===== verification/IR_Properties.thy ===== *)
theory IR_Properties
  imports IR
begin

text \<open>
  The graphs jobs refer to: decoding undoes encoding, \<^verbatim>\<open>graph_id\<close> binds a graph, the builder's
  wrappers agree with the op registry, and what the builder builds is well formed.
\<close>

subsection \<open>Round trip\<close>

definition Op_raw :: "(dict \<Rightarrow> dict) \<Rightarrow> Op \<Rightarrow> Op" where
  "Op_raw f p = p\<lparr>op_args := map f (op_args p), op_kwargs := f (op_kwargs p)\<rparr>"

definition Graph_raw :: "(dict \<Rightarrow> dict) \<Rightarrow> Graph \<Rightarrow> Graph" where
  "Graph_raw f g = g\<lparr>gh_outputs := map (\<lambda>(n, r). (n, f r)) (gh_outputs g), gh_ops := map (Op_raw f) (gh_ops g)\<rparr>"

context json_view
begin

lemma view_records_map:
  assumes "\<And>r. dec (view_dict (enc r)) = Inr (h r)"
  shows "records_of dec (JList (map (view \<circ> (\<lambda>r. JObj (enc r))) rs)) = Inr (map h rs)"
  using assms by (induction rs) (simp_all add: records_of_def view_atoms)

lemma view_dicts: "mapE dict_of (map (view \<circ> JObj) ds) = Inr (map view_dict ds)"
  by (induction ds) (simp_all add: view_atoms)

lemma TensorSpec_decode: "TensorSpec_from_dict (view_dict (TensorSpec_to_dict t)) = Inr t"
  by (simp add: TensorSpec_from_dict_def TensorSpec_to_dict_def view_simps)

lemma ParamSpec_decode: "ParamSpec_from_dict (view_dict (ParamSpec_to_dict p)) = Inr p"
  by (simp add: ParamSpec_from_dict_def ParamSpec_to_dict_def view_simps)

lemma output_decode: "output_from_dict (view_dict (output_to_dict q)) = Inr (case q of (n, r) \<Rightarrow> (n, view_dict r))"
  by (cases q) (simp add: output_from_dict_def output_to_dict_def view_simps)

lemma Op_decode: "Op_from_dict (view_dict (Op_to_dict p)) = Inr (Op_raw view_dict p)"
  by (simp add: Op_from_dict_def Op_to_dict_def Op_raw_def view_simps view_dicts view_records [OF TensorSpec_decode])

lemma Graph_decode: "Graph_from_dict (view_dict (Graph_to_dict g)) = Inr (Graph_raw view_dict g)"
proof -
  note lists = view_records [where dec = TensorSpec_from_dict and enc = TensorSpec_to_dict, OF TensorSpec_decode]
    view_records [where dec = ParamSpec_from_dict and enc = ParamSpec_to_dict, OF ParamSpec_decode]
    view_records_map [where dec = Op_from_dict and enc = Op_to_dict and h = "Op_raw view_dict", OF Op_decode]
    view_records_map [where dec = output_from_dict and enc = output_to_dict
      and h = "\<lambda>q. case q of (n, r) \<Rightarrow> (n, view_dict r)", OF output_decode]
  show ?thesis by (simp add: Graph_from_dict_def Graph_to_dict_def Graph_raw_def view_simps lists)
qed

end

definition Op_wf :: "Op \<Rightarrow> bool" where
  "Op_wf p \<longleftrightarrow> list_all wf_dict (op_args p) \<and> wf_dict (op_kwargs p)"

definition Graph_wf :: "Graph \<Rightarrow> bool" where
  "Graph_wf g \<longleftrightarrow> list_all Op_wf (gh_ops g) \<and> list_all (\<lambda>(_, r). wf_dict r) (gh_outputs g)"

lemma wf_TensorSpec: "wf_dict (TensorSpec_to_dict t)"
  by (simp add: TensorSpec_to_dict_def dict_simps)

lemma wf_Op: "Op_wf p \<Longrightarrow> wf_dict (Op_to_dict p)"
  by (auto simp: Op_to_dict_def Op_wf_def dict_simps list_all_iff wf_TensorSpec)

lemma wf_Graph: "Graph_wf g \<Longrightarrow> wf_dict (Graph_to_dict g)"
  by (auto simp: Graph_to_dict_def Graph_wf_def dict_simps list_all_iff wf_TensorSpec wf_Op output_to_dict_def
      ParamSpec_to_dict_def split: prod.splits)

lemma norm_graph_eq:
  "norm_dict (Graph_to_dict g) = norm_dict (Graph_to_dict g') \<Longrightarrow> Graph_raw norm_dict g = Graph_raw norm_dict g'"
  using canon.Graph_decode [of g] canon.Graph_decode [of g'] by simp

lemma norm_raw_op: "norm_dict (Op_to_dict (Op_raw norm_dict p)) = norm_dict (Op_to_dict p)"
  by (rule norm_dict_cong_vals) (simp add: Op_to_dict_def Op_raw_def)

lemma norm_raw_output: "norm_dict (output_to_dict (n, norm_dict r)) = norm_dict (output_to_dict (n, r))"
  by (rule norm_dict_cong_vals) (simp add: output_to_dict_def)

lemma norm_raw_graph: "norm_dict (Graph_to_dict (Graph_raw norm_dict g)) = norm_dict (Graph_to_dict g)"
  by (rule norm_dict_cong_vals)
    (auto simp: Graph_to_dict_def Graph_raw_def norm_raw_op norm_raw_output split: prod.splits)

lemma graph_bytes_eq:
  assumes "float_codec P" "Graph_wf g" "Graph_wf g'"
  shows "Graph_to_canonical_json P g = Graph_to_canonical_json P g' \<longleftrightarrow> Graph_raw norm_dict g = Graph_raw norm_dict g'"
proof -
  have "Graph_to_canonical_json P g = Graph_to_canonical_json P g' \<longleftrightarrow>
      norm_dict (Graph_to_dict g) = norm_dict (Graph_to_dict g')"
    using dumps_inj [OF assms(1), of "JObj (Graph_to_dict g)" "JObj (Graph_to_dict g')" False] wf_Graph assms(2,3)
    by (simp add: Graph_to_canonical_json_def)
  then show ?thesis using norm_graph_eq norm_raw_graph by metis
qed

subsection \<open>What the builder builds\<close>

inductive built :: "GraphBuilder \<Rightarrow> bool" where
  built_init: "built GraphBuilder_init"
| built_input: "built g \<Longrightarrow> b_input n sh dt g = Inr (r, g') \<Longrightarrow> built g'"
| built_param: "built g \<Longrightarrow> b_param n ty g = Inr (r, g') \<Longrightarrow> built g'"
| built_output: "built g \<Longrightarrow> b_output n ref g = Inr (u, g') \<Longrightarrow> built g'"
| built_emit: "built g \<Longrightarrow> emit n args kw out g = Inr (r, g') \<Longrightarrow> built g'"
| built_multi: "built g \<Longrightarrow> emit_multi n args kw k g = Inr (rs, g') \<Longrightarrow> built g'"

definition builder_inv :: "GraphBuilder \<Rightarrow> bool" where
  "builder_inv g \<longleftrightarrow> map op_id (gb_ops g) = map int [0..<length (gb_ops g)] \<and>
     distinct (map ts_name (gb_inputs g)) \<and> distinct (map ps_name (gb_params g)) \<and>
     list_all (\<lambda>p. emit_check (op_op p) (op_args p) (op_kwargs p) = Inr ()) (gb_ops g)"

lemma append_op_inv:
  "builder_inv g \<Longrightarrow> emit_check n args kw = Inr u \<Longrightarrow> builder_inv (append_op n args kw out g)"
  by (simp add: builder_inv_def append_op_def)

lemma built_builder_inv: "built g \<Longrightarrow> builder_inv g"
proof (induction rule: built.induct)
  case built_init
  then show ?case by (simp add: builder_inv_def GraphBuilder_init_def)
next
  case (built_emit g n args kw out r g')
  then show ?case by (auto simp: emit_def bindE_eq_Inr append_op_inv)
next
  case (built_multi g n args kw k rs g')
  then show ?case by (auto simp: emit_multi_def bindE_eq_Inr append_op_inv)
qed (auto simp: b_input_def b_param_def b_output_def builder_inv_def list_ex_iff split: if_splits)

lemma registry_lookups:
  "map_of op_registry ''add'' = Some \<lparr>os_n_args = 2, os_kwargs = []\<rparr>"
  "map_of op_registry ''sub'' = Some \<lparr>os_n_args = 2, os_kwargs = []\<rparr>"
  "map_of op_registry ''mul'' = Some \<lparr>os_n_args = 2, os_kwargs = []\<rparr>"
  "map_of op_registry ''div'' = Some \<lparr>os_n_args = 2, os_kwargs = []\<rparr>"
  "map_of op_registry ''pow'' = Some \<lparr>os_n_args = 2, os_kwargs = []\<rparr>"
  "map_of op_registry ''neg'' = Some \<lparr>os_n_args = 1, os_kwargs = []\<rparr>"
  "map_of op_registry ''exp'' = Some \<lparr>os_n_args = 1, os_kwargs = []\<rparr>"
  "map_of op_registry ''log'' = Some \<lparr>os_n_args = 1, os_kwargs = []\<rparr>"
  "map_of op_registry ''sqrt'' = Some \<lparr>os_n_args = 1, os_kwargs = []\<rparr>"
  "map_of op_registry ''abs'' = Some \<lparr>os_n_args = 1, os_kwargs = []\<rparr>"
  "map_of op_registry ''round'' = Some \<lparr>os_n_args = 1, os_kwargs = []\<rparr>"
  "map_of op_registry ''relu'' = Some \<lparr>os_n_args = 1, os_kwargs = []\<rparr>"
  "map_of op_registry ''gelu'' = Some \<lparr>os_n_args = 1, os_kwargs = []\<rparr>"
  "map_of op_registry ''silu'' = Some \<lparr>os_n_args = 1, os_kwargs = []\<rparr>"
  "map_of op_registry ''sin'' = Some \<lparr>os_n_args = 1, os_kwargs = []\<rparr>"
  "map_of op_registry ''cos'' = Some \<lparr>os_n_args = 1, os_kwargs = []\<rparr>"
  "map_of op_registry ''sigmoid'' = Some \<lparr>os_n_args = 1, os_kwargs = []\<rparr>"
  "map_of op_registry ''tanh'' = Some \<lparr>os_n_args = 1, os_kwargs = []\<rparr>"
  "map_of op_registry ''identity'' = Some \<lparr>os_n_args = 1, os_kwargs = []\<rparr>"
  "map_of op_registry ''gt'' = Some \<lparr>os_n_args = 2, os_kwargs = []\<rparr>"
  "map_of op_registry ''lt'' = Some \<lparr>os_n_args = 2, os_kwargs = []\<rparr>"
  "map_of op_registry ''ge'' = Some \<lparr>os_n_args = 2, os_kwargs = []\<rparr>"
  "map_of op_registry ''le'' = Some \<lparr>os_n_args = 2, os_kwargs = []\<rparr>"
  "map_of op_registry ''eq'' = Some \<lparr>os_n_args = 2, os_kwargs = []\<rparr>"
  "map_of op_registry ''clamp'' = Some \<lparr>os_n_args = 1, os_kwargs = [''min'', ''max'']\<rparr>"
  "map_of op_registry ''where'' = Some \<lparr>os_n_args = 3, os_kwargs = []\<rparr>"
  "map_of op_registry ''cast'' = Some \<lparr>os_n_args = 1, os_kwargs = [''dtype'']\<rparr>"
  "map_of op_registry ''sign'' = Some \<lparr>os_n_args = 1, os_kwargs = []\<rparr>"
  "map_of op_registry ''matmul'' = Some \<lparr>os_n_args = 2, os_kwargs = []\<rparr>"
  "map_of op_registry ''transpose'' = Some \<lparr>os_n_args = 1, os_kwargs = [''dims'']\<rparr>"
  "map_of op_registry ''reshape'' = Some \<lparr>os_n_args = 1, os_kwargs = [''shape'']\<rparr>"
  "map_of op_registry ''einsum'' = Some \<lparr>os_n_args = 2, os_kwargs = [''equation'']\<rparr>"
  "map_of op_registry ''sum'' = Some \<lparr>os_n_args = 1, os_kwargs = [''dim'', ''keepdim'']\<rparr>"
  "map_of op_registry ''mean'' = Some \<lparr>os_n_args = 1, os_kwargs = [''dim'', ''keepdim'']\<rparr>"
  "map_of op_registry ''max'' = Some \<lparr>os_n_args = 1, os_kwargs = [''dim'', ''keepdim'']\<rparr>"
  "map_of op_registry ''min'' = Some \<lparr>os_n_args = 1, os_kwargs = [''dim'', ''keepdim'']\<rparr>"
  "map_of op_registry ''concat'' = Some \<lparr>os_n_args = -1, os_kwargs = [''dim'']\<rparr>"
  "map_of op_registry ''split'' = Some \<lparr>os_n_args = 1, os_kwargs = [''sizes'', ''dim'']\<rparr>"
  "map_of op_registry ''broadcast'' = Some \<lparr>os_n_args = 1, os_kwargs = [''shape'']\<rparr>"
  "map_of op_registry ''squeeze'' = Some \<lparr>os_n_args = 1, os_kwargs = [''dim'']\<rparr>"
  "map_of op_registry ''unsqueeze'' = Some \<lparr>os_n_args = 1, os_kwargs = [''dim'']\<rparr>"
  "map_of op_registry ''slice'' = Some \<lparr>os_n_args = 1, os_kwargs = [''dim'', ''start'', ''end'']\<rparr>"
  "map_of op_registry ''stack'' = Some \<lparr>os_n_args = -1, os_kwargs = [''dim'']\<rparr>"
  "map_of op_registry ''gather'' = Some \<lparr>os_n_args = 2, os_kwargs = [''dim'']\<rparr>"
  "map_of op_registry ''scatter'' = Some \<lparr>os_n_args = 3, os_kwargs = [''dim'']\<rparr>"
  "map_of op_registry ''arange'' = Some \<lparr>os_n_args = 0, os_kwargs = [''start'', ''end'', ''step'', ''dtype'']\<rparr>"
  "map_of op_registry ''normal'' = Some \<lparr>os_n_args = 0, os_kwargs = [''seed'', ''shape'', ''dtype'']\<rparr>"
  "map_of op_registry ''uniform'' = Some \<lparr>os_n_args = 0, os_kwargs = [''seed'', ''shape'', ''dtype'']\<rparr>"
  "map_of op_registry ''sort'' = Some \<lparr>os_n_args = 1, os_kwargs = [''dim'', ''descending'']\<rparr>"
  "map_of op_registry ''topk'' = Some \<lparr>os_n_args = 1, os_kwargs = [''k'', ''dim'']\<rparr>"
  "map_of op_registry ''softmax'' = Some \<lparr>os_n_args = 1, os_kwargs = [''dim'']\<rparr>"
  "map_of op_registry ''log_softmax'' = Some \<lparr>os_n_args = 1, os_kwargs = [''dim'']\<rparr>"
  "map_of op_registry ''layer_norm'' = Some \<lparr>os_n_args = 3, os_kwargs = [''eps'']\<rparr>"
  "map_of op_registry ''rmsnorm'' = Some \<lparr>os_n_args = 2, os_kwargs = [''eps'']\<rparr>"
  "map_of op_registry ''cross_entropy'' = Some \<lparr>os_n_args = 2, os_kwargs = [''ignore_index'']\<rparr>"
  "map_of op_registry ''embedding'' = Some \<lparr>os_n_args = 2, os_kwargs = []\<rparr>"
  "map_of op_registry ''tril'' = Some \<lparr>os_n_args = 1, os_kwargs = [''diagonal'']\<rparr>"
  "map_of op_registry ''triu'' = Some \<lparr>os_n_args = 1, os_kwargs = [''diagonal'']\<rparr>"
  "map_of op_registry ''full'' = Some \<lparr>os_n_args = 0, os_kwargs = [''shape'', ''value'', ''dtype'']\<rparr>"
  "map_of op_registry ''quantize_int8_per_channel'' = Some \<lparr>os_n_args = 1, os_kwargs = [''dim'']\<rparr>"
  "map_of op_registry ''dequantize_int8_per_channel'' = Some \<lparr>os_n_args = 2, os_kwargs = []\<rparr>"
  "map_of op_registry ''quantize_pack_int8'' = Some \<lparr>os_n_args = 1, os_kwargs = [''dim'']\<rparr>"
  "map_of op_registry ''unpack_dequantize_int8'' = Some \<lparr>os_n_args = 1, os_kwargs = [''dim'', ''shape'', ''scale_dim'']\<rparr>"
  "map_of op_registry ''qr'' = Some \<lparr>os_n_args = 1, os_kwargs = []\<rparr>"
  "map_of op_registry ''data_indexer'' = Some \<lparr>os_n_args = 1, os_kwargs = [''B'', ''T'', ''mb_seed'']\<rparr>"
  by (simp_all add: op_registry_def)

subsection \<open>Properties\<close>

text \<open>
  C33. A graph is recovered from its JSON form, refs and kwargs up to key order, and \<^verbatim>\<open>graph_id\<close>, the
  hash jobs refer to it by, is the same for two graphs exactly when the graphs are the same up to key order
  or their canonical bytes are a SHA-256 collision.
\<close>

theorem graph_id_binding:
  assumes "float_codec P" and "Graph_wf g" and "Graph_wf g'"
  shows "bindE (bindE (loads P (dumps P False (JObj (Graph_to_dict g)))) as_mapping) Graph_from_dict = Inr (Graph_raw norm_dict g) \<and>
    (graph_id P g = graph_id P g' \<longleftrightarrow> Graph_raw norm_dict g = Graph_raw norm_dict g' \<or>
      collision sha256 (Graph_to_canonical_json P g) (Graph_to_canonical_json P g'))"
  using loads_dumps [OF assms(1), of "JObj (Graph_to_dict g)" False] wf_Graph [OF assms(2)]
    graph_bytes_eq [OF assms]
  by (auto simp: canon.Graph_decode graph_id_def sha256_hex_eq collision_def)

definition sample_graph :: Graph where
  "sample_graph =
     \<lparr>gh_inputs = [\<lparr>ts_name = ''x'', ts_shape = [2, 3], ts_dtype = ''float32''\<rparr>, \<lparr>ts_name = ''w'', ts_shape = [3, 4], ts_dtype = ''float32''\<rparr>],
      gh_outputs = [(''y'', ref_op 1 0)], gh_params = [],
      gh_ops = [\<lparr>op_id = 0, op_op = ''matmul'', op_args = [ref_input ''x'', ref_input ''w''], op_kwargs = [], op_out = []\<rparr>,
                \<lparr>op_id = 1, op_op = ''softmax'', op_args = [ref_op 0 0], op_kwargs = [(''dim'', JInt (- 1))], op_out = []\<rparr>],
      gh_ir_version = 1\<rparr>"

lemma sample_graph_wf [simp]: "Graph_wf sample_graph"
  by (simp add: Graph_wf_def Op_wf_def sample_graph_def ref_input_def ref_op_def dict_simps)

theorem graph_id_binding_witness:
  "bindE (bindE (loads reference_platform (dumps reference_platform False (JObj (Graph_to_dict sample_graph)))) as_mapping)
     Graph_from_dict = Inr (Graph_raw norm_dict sample_graph)"
  using graph_id_binding [OF reference_float_codec sample_graph_wf sample_graph_wf] by blast

text \<open>
  The builder's wrapper methods agree with the op registry: none of them ever raises, whatever
  references and keyword values it is given.
\<close>

theorem builder_wrappers_total:
  "list_all (\<lambda>m. \<exists>r g'. m g = Inr (r, g'))
     [b_add a b, b_sub a b, b_mul a b, b_div a b, b_gt a b, b_lt a b, b_ge a b, b_le a b, b_eq a b,
      b_matmul a b, b_pow a b, b_neg a, b_exp a, b_log a, b_sqrt a, b_relu a, b_gelu a, b_silu a, b_sin a,
      b_cos a, b_sigmoid a, b_tanh a, b_identity a, b_sign a, b_abs a, b_round a, b_clamp a o1 o2,
      b_where a b c, b_cast a s, b_transpose a ns, b_reshape a ns, b_einsum a b s, b_sum a j1 fl,
      b_mean a j1 fl, b_max a j1 fl, b_min a j1 fl, b_concat ts i1, b_stack ts i1, b_broadcast a ns,
      b_squeeze a i1, b_unsqueeze a i1, b_gather a b i1, b_scatter a b c i1, b_arange j1 j2 j3 s,
      b_normal j1 ns s, b_uniform j1 ns s, b_sort a i1 fl, b_softmax a i1, b_log_softmax a i1,
      b_layer_norm a b c x, b_rmsnorm a b x, b_tril a i1, b_triu a i1, b_full ns j1 s,
      b_cross_entropy a b i1, b_embedding a b, b_dequantize_int8_per_channel a b, b_quantize_pack_int8 a i1,
      b_unpack_dequantize_int8 a ns i1] \<and>
   list_all (\<lambda>m. \<exists>rs g'. m g = Inr (rs, g'))
     [b_split a ns i1, b_topk a i1 i2, b_quantize_int8_per_channel a i1, b_qr a, b_data_indexer a i1 i2 j1]"
  by (simp add: wrapper_defs emit_def emit_multi_def emit_check_def op_signature_def registry_lookups opt_field_def split: option.splits)



end
