(* ===== verification/Compute_Units.thy ===== *)
theory Compute_Units
  imports IR
begin

text \<open>
  \<^verbatim>\<open>teuton_validator/compute_units.py\<close>: the deterministic work estimate a verdict credits. Shapes
  are inferred op by op from the graph alone and each op is charged; Python's negative indices, slices and
  \<^verbatim>\<open>list.insert\<close> clamping are written out, and an index out of range is the \<^verbatim>\<open>IndexError\<close> the
  code lets through.
\<close>

subsection \<open>Python sequences\<close>

definition py_nth :: "'a list \<Rightarrow> int \<Rightarrow> 'a res" where
  "py_nth xs i =
     (let n = int (length xs); k = (if i < 0 then i + n else i)
      in if 0 \<le> k \<and> k < n then Inr (xs ! nat k) else Inl IndexError)"

definition py_set :: "'a list \<Rightarrow> int \<Rightarrow> 'a \<Rightarrow> 'a list res" where
  "py_set xs i v =
     (let n = int (length xs); k = (if i < 0 then i + n else i)
      in if 0 \<le> k \<and> k < n then Inr (xs[nat k := v]) else Inl IndexError)"

definition py_insert :: "'a list \<Rightarrow> int \<Rightarrow> 'a \<Rightarrow> 'a list" where
  "py_insert xs i v =
     (let n = int (length xs); k = (if i < 0 then max 0 (i + n) else min i n)
      in take (nat k) xs @ v # drop (nat k) xs)"

definition drop_last2 :: "'a list \<Rightarrow> 'a list" where
  "drop_last2 xs = take (length xs - 2) xs"

subsection \<open>Shapes\<close>

record TensorInfo =
  ti_shape :: "int list"
  ti_dtype :: string

abbreviation scalar_info :: TensorInfo where
  "scalar_info \<equiv> \<lparr>ti_shape = [], ti_dtype = ''float32''\<rparr>"

abbreviation info :: "int list \<Rightarrow> string \<Rightarrow> TensorInfo" where
  "info sh dt \<equiv> \<lparr>ti_shape = sh, ti_dtype = dt\<rparr>"

definition cu_dim :: "int \<Rightarrow> int" where
  "cu_dim v = max 1 v"

fun numel :: "int list \<Rightarrow> int" where
  "numel [] = 1"
| "numel (d # ds) = cu_dim d * numel ds"

text \<open>\<^verbatim>\<open>_broadcast_two\<close> walks both shapes from the right, missing positions counting 1.\<close>

fun broadcast_rev :: "int list \<Rightarrow> int list \<Rightarrow> int list" where
  "broadcast_rev [] [] = []"
| "broadcast_rev (a # as) [] = max (cu_dim a) (cu_dim 1) # broadcast_rev as []"
| "broadcast_rev [] (b # bs) = max (cu_dim 1) (cu_dim b) # broadcast_rev [] bs"
| "broadcast_rev (a # as) (b # bs) = max (cu_dim a) (cu_dim b) # broadcast_rev as bs"

definition broadcast_two :: "int list \<Rightarrow> int list \<Rightarrow> int list" where
  "broadcast_two a b = rev (broadcast_rev (rev a) (rev b))"

definition broadcast_all :: "int list list \<Rightarrow> int list" where
  "broadcast_all shapes = foldl broadcast_two [] shapes"

definition normalize_dim :: "int \<Rightarrow> nat \<Rightarrow> int" where
  "normalize_dim d rank = (if rank = 0 then 0 else if d < 0 then d + int rank else d)"

definition matmul_shape :: "int list \<Rightarrow> int list \<Rightarrow> int list res" where
  "matmul_shape a b =
     (if length a = 1 \<and> length b = 1 then Inr []
      else if length a = 1 then bindE (py_nth b (- 1)) (\<lambda>n. Inr (broadcast_two [] (drop_last2 b) @ [n]))
      else if length b = 1 then bindE (py_nth a (- 2)) (\<lambda>m. Inr (broadcast_two (drop_last2 a) [] @ [m]))
      else bindE (py_nth a (- 2)) (\<lambda>m. bindE (py_nth b (- 1)) (\<lambda>n.
             Inr (broadcast_two (drop_last2 a) (drop_last2 b) @ [m, n]))))"

definition matmul_ops :: "int list \<Rightarrow> int list \<Rightarrow> pyfloat res" where
  "matmul_ops a b =
     (if length a = 1 \<and> length b = 1 then Inr (2 * of_int (cu_dim (hd a)))
      else if length a = 1
      then bindE (py_nth b (- 1)) (\<lambda>n. Inr (2 * of_int (numel (drop_last2 b)) * of_int (cu_dim (hd a)) * of_int (cu_dim n)))
      else if length b = 1
      then bindE (py_nth a (- 2)) (\<lambda>m. Inr (2 * of_int (numel (drop_last2 a)) * of_int (cu_dim m) * of_int (cu_dim (hd b))))
      else bindE (py_nth a (- 2)) (\<lambda>m. bindE (py_nth a (- 1)) (\<lambda>k. bindE (py_nth b (- 1)) (\<lambda>n.
             Inr (2 * of_int (numel (broadcast_two (drop_last2 a) (drop_last2 b))) *
                  of_int (cu_dim m) * of_int (cu_dim k) * of_int (cu_dim n))))))"

text \<open>\<^verbatim>\<open>_reduce_shape\<close>: \<^verbatim>\<open>dim\<close> is missing or null, a list of ints, or one int.\<close>

definition reduce_dims :: "json \<Rightarrow> nat \<Rightarrow> int list res" where
  "reduce_dims v rank =
     bindE (case v of JList xs \<Rightarrow> mapE py_int xs | _ \<Rightarrow> bindE (py_int v) (\<lambda>i. Inr [i]))
       (\<lambda>ds. Inr (map (\<lambda>d. normalize_dim d rank) ds))"

definition reduce_shape :: "int list \<Rightarrow> json \<Rightarrow> bool \<Rightarrow> int list res" where
  "reduce_shape shape v keepdim =
     (if v = JNull then Inr (if keepdim then map (\<lambda>_. 1) shape else [])
      else bindE (reduce_dims v (length shape)) (\<lambda>dims.
        Inr (concat (map (\<lambda>(i, size). if int i \<in> set dims then (if keepdim then [1] else []) else [size])
                      (enumerate 0 shape)))))"

text \<open>
  \<^verbatim>\<open>lhs, out = equation.split("->", 1); a, b = lhs.split(",", 1)\<close>: \<open>None\<close> where unpacking raises
  \<^verbatim>\<open>ValueError\<close>.
\<close>

fun split_arrow :: "string \<Rightarrow> (string \<times> string) option" where
  "split_arrow (c # d # cs) =
     (if c = CHR ''-'' \<and> d = CHR ''>'' then Some ([], cs)
      else map_option (\<lambda>(l, r). (c # l, r)) (split_arrow (d # cs)))"
| "split_arrow _ = None"

fun split_comma :: "string \<Rightarrow> (string \<times> string) option" where
  "split_comma [] = None"
| "split_comma (c # cs) =
     (if c = CHR '','' then Some ([], cs) else map_option (\<lambda>(l, r). (c # l, r)) (split_comma cs))"

definition einsum_labels :: "string \<Rightarrow> (string \<times> string \<times> string) option" where
  "einsum_labels equation =
     (case split_arrow equation of
        None \<Rightarrow> None
      | Some (lhs, out) \<Rightarrow> map_option (\<lambda>(a, b). (a, b, out)) (split_comma lhs))"

definition einsum_sizes :: "string \<Rightarrow> string \<Rightarrow> int list \<Rightarrow> int list \<Rightarrow> (char \<times> int) list" where
  "einsum_sizes a_labels b_labels a b =
     fold (\<lambda>(l, s) d. AList.update l (max (case map_of d l of None \<Rightarrow> 1 | Some v \<Rightarrow> v) (cu_dim s)) d) (zip b_labels b)
       (fold (\<lambda>(l, s) d. AList.update l (cu_dim s) d) (zip a_labels a) [])"

definition einsum_shape :: "string \<Rightarrow> int list \<Rightarrow> int list \<Rightarrow> int list" where
  "einsum_shape equation a b =
     (case einsum_labels equation of
        None \<Rightarrow> []
      | Some (al, bl, ol) \<Rightarrow>
          (let sizes = einsum_sizes al bl a b
           in map (\<lambda>l. case map_of sizes l of None \<Rightarrow> 1 | Some v \<Rightarrow> v) ol))"

definition einsum_ops :: "string \<Rightarrow> int list \<Rightarrow> int list \<Rightarrow> int list \<Rightarrow> pyfloat res" where
  "einsum_ops equation a b out =
     (case einsum_labels equation of
        None \<Rightarrow> Inr (of_int (max (max (numel a) (numel b)) (numel out)))
      | Some (al, bl, ol) \<Rightarrow>
          (let sizes = einsum_sizes al bl a b;
               contracted = remdups (filter (\<lambda>l. l \<in> set bl \<and> l \<notin> set ol) al)
           in bindE (mapE (\<lambda>l. case map_of sizes l of None \<Rightarrow> Inl (KeyError [l]) | Some v \<Rightarrow> Inr v) contracted)
                (\<lambda>vs. Inr (2 * of_int (numel out) * of_int (prod_list vs)))))"

subsection \<open>Output shapes of an op\<close>

definition kw_int :: "dict \<Rightarrow> string \<Rightarrow> int \<Rightarrow> int res" where
  "kw_int kw k dflt = py_int (get_or kw k (JInt dflt))"

definition kw_str :: "platform \<Rightarrow> dict \<Rightarrow> string \<Rightarrow> string \<Rightarrow> string res" where
  "kw_str P kw k dflt = py_str P (get_or kw k (JStr dflt))"

definition kw_shape :: "dict \<Rightarrow> int list res" where
  "kw_shape kw = ints_of (get_or kw ''shape'' (JList []))"

definition is_obj :: "json \<Rightarrow> bool" where
  "is_obj v = (case v of JObj _ \<Rightarrow> True | _ \<Rightarrow> False)"

definition first_shape :: "int list list \<Rightarrow> int list" where
  "first_shape shapes = (case shapes of [] \<Rightarrow> [] | s # _ \<Rightarrow> s)"

definition binary_ops :: "string list" where
  "binary_ops = [''add'', ''sub'', ''mul'', ''div'', ''pow'', ''gt'', ''lt'', ''ge'', ''le'', ''eq'']"

definition unary_ops :: "string list" where
  "unary_ops = [''neg'', ''exp'', ''log'', ''sqrt'', ''abs'', ''round'', ''relu'', ''gelu'', ''silu'', ''sin'', ''cos'',
     ''sigmoid'', ''tanh'', ''identity'', ''sign'', ''clamp'', ''cast'', ''tril'', ''triu'',
     ''dequantize_int8_per_channel'']"

definition infer_transpose :: "dict \<Rightarrow> int list \<Rightarrow> int list res" where
  "infer_transpose kw sh =
     bindE (case map_of kw ''dims'' of None \<Rightarrow> Inr (map int [0..<length sh]) | Some v \<Rightarrow> ints_of v)
       (mapE (py_nth sh))"

definition infer_concat :: "dict \<Rightarrow> int list list \<Rightarrow> int list res" where
  "infer_concat kw shapes =
     bindE (kw_int kw ''dim'' 0) (\<lambda>d.
       let dm = normalize_dim d (length (first_shape shapes)); out = first_shape shapes
       in bindE (mapE (\<lambda>sh. bindE (py_nth sh dm) (\<lambda>x. Inr (cu_dim x))) (filter (\<lambda>sh. int (length sh) > dm) shapes))
            (\<lambda>xs. py_set out dm (sum_list xs)))"

definition infer_slice :: "dict \<Rightarrow> int list \<Rightarrow> int list res" where
  "infer_slice kw sh =
     bindE (kw_int kw ''dim'' 0) (\<lambda>d.
       let dm = normalize_dim d (length sh)
       in bindE (if is_obj (get_none kw ''start'') then Inr 0 else kw_int kw ''start'' 0) (\<lambda>start.
          bindE (py_nth sh dm) (\<lambda>size.
          let end_value = get_or kw ''end'' (JInt size)
          in bindE (if is_obj end_value then Inr (cu_dim size) else py_int end_value) (\<lambda>end_at.
             py_set sh dm (max 0 (end_at - start))))))"

definition infer_split :: "dict \<Rightarrow> int list \<Rightarrow> string \<Rightarrow> TensorInfo list res" where
  "infer_split kw sh dt =
     bindE (kw_int kw ''dim'' 0) (\<lambda>d.
       bindE (iter_items (get_or kw ''sizes'' (JList []))) (\<lambda>sizes.
         bindE (mapE (\<lambda>size. bindE (py_int size) (\<lambda>s.
             bindE (py_set sh (normalize_dim d (length sh)) s) (\<lambda>o'. Inr (info o' dt)))) sizes)
           (\<lambda>outs. Inr (if outs = [] then [info sh dt] else outs))))"

definition infer_qr :: "int list \<Rightarrow> string \<Rightarrow> TensorInfo list" where
  "infer_qr sh dt =
     (let r = length sh;
          m = (if r \<ge> 2 then cu_dim (sh ! (r - 2)) else numel sh);
          n = (if r \<ge> 1 then cu_dim (sh ! (r - 1)) else 1);
          k = min m n;
          batch = (if r \<ge> 2 then drop_last2 sh else [])
      in [info (batch @ [m, k]) dt, info (batch @ [k, n]) dt])"

definition infer_outputs :: "platform \<Rightarrow> Op \<Rightarrow> TensorInfo list \<Rightarrow> TensorInfo list res" where
  "infer_outputs P p args =
     (let name = op_op p; kw = op_kwargs p; shapes = map ti_shape args; sh = first_shape shapes in
      bindE (case args of [] \<Rightarrow> kw_str P kw ''dtype'' ''float32'' | a # _ \<Rightarrow> Inr (ti_dtype a)) (\<lambda>dt.
      if name \<in> set binary_ops then Inr [info (broadcast_all shapes) dt]
      else if name \<in> set unary_ops then bindE (kw_str P kw ''dtype'' dt) (\<lambda>dt'. Inr [info sh dt'])
      else if name = ''where'' then Inr [info (broadcast_all shapes) dt]
      else if name = ''matmul'' \<and> length shapes \<ge> 2
      then bindE (matmul_shape (shapes ! 0) (shapes ! 1)) (\<lambda>s. Inr [info s dt])
      else if name = ''transpose'' \<and> shapes \<noteq> [] then bindE (infer_transpose kw sh) (\<lambda>s. Inr [info s dt])
      else if name = ''reshape'' then bindE (kw_shape kw) (\<lambda>s. Inr [info s dt])
      else if name = ''einsum'' \<and> length shapes \<ge> 2
      then bindE (kw_str P kw ''equation'' []) (\<lambda>eq. Inr [info (einsum_shape eq (shapes ! 0) (shapes ! 1)) dt])
      else if name \<in> {''sum'', ''mean'', ''max'', ''min''} \<and> shapes \<noteq> []
      then bindE (reduce_shape sh (get_none kw ''dim'') (truthy (get_or kw ''keepdim'' (JBool False)))) (\<lambda>s. Inr [info s dt])
      else if name = ''concat'' then bindE (infer_concat kw shapes) (\<lambda>s. Inr [info s dt])
      else if name = ''stack''
      then bindE (kw_int kw ''dim'' 0) (\<lambda>d.
             Inr [info (py_insert sh (normalize_dim d (if shapes = [] then 1 else length sh + 1)) (int (length shapes))) dt])
      else if name = ''split'' \<and> shapes \<noteq> [] then infer_split kw sh dt
      else if name = ''broadcast'' then bindE (kw_shape kw) (\<lambda>s. Inr [info s dt])
      else if name = ''squeeze'' \<and> shapes \<noteq> []
      then bindE (kw_int kw ''dim'' 0) (\<lambda>d.
             Inr [info (map snd (filter (\<lambda>(i, _). int i \<noteq> normalize_dim d (length sh)) (enumerate 0 sh))) dt])
      else if name = ''unsqueeze'' \<and> shapes \<noteq> []
      then bindE (kw_int kw ''dim'' 0) (\<lambda>d. Inr [info (py_insert sh (normalize_dim d (length sh + 1)) 1) dt])
      else if name = ''slice'' \<and> shapes \<noteq> [] then bindE (infer_slice kw sh) (\<lambda>s. Inr [info s dt])
      else if name \<in> {''gather'', ''scatter''}
      then (if name = ''gather'' \<and> length shapes > 1 then Inr [info (shapes ! 1) dt]
            else if shapes = [] then Inl IndexError else Inr [info sh dt])
      else if name = ''arange''
      then bindE (kw_int kw ''start'' 0) (\<lambda>start. bindE (kw_int kw ''end'' start) (\<lambda>end_at.
           bindE (kw_int kw ''step'' 1) (\<lambda>st. bindE (kw_str P kw ''dtype'' ''int64'') (\<lambda>dt'.
             Inr [info [max 0 \<lceil>(of_int (end_at - start) / of_int (max 1 \<bar>st\<bar>) :: rat)\<rceil>] dt']))))
      else if name \<in> {''normal'', ''uniform'', ''full''}
      then bindE (kw_shape kw) (\<lambda>s. bindE (kw_str P kw ''dtype'' ''float32'') (\<lambda>dt'. Inr [info s dt']))
      else if name \<in> {''sort'', ''softmax'', ''log_softmax''} then Inr [info sh dt]
      else if name = ''topk'' \<and> shapes \<noteq> []
      then bindE (kw_int kw ''dim'' (- 1)) (\<lambda>d. let dm = normalize_dim d (length sh) in
           bindE (py_nth sh dm) (\<lambda>x. bindE (kw_int kw ''k'' x) (\<lambda>k. bindE (py_set sh dm k) (\<lambda>o'.
             Inr [info o' dt, info o' ''int64'']))))
      else if name \<in> {''layer_norm'', ''rmsnorm''} \<and> shapes \<noteq> [] then Inr [info sh dt]
      else if name = ''cross_entropy'' then Inr [info [] dt]
      else if name = ''embedding'' \<and> length shapes \<ge> 2 then Inr [info (shapes ! 1 @ drop 1 (shapes ! 0)) dt]
      else if name = ''data_indexer''
      then bindE (kw_int kw ''B'' 1) (\<lambda>b. bindE (kw_int kw ''T'' 1) (\<lambda>t. Inr [info [b, t] ''int64'', info [b, t] ''int64'']))
      else if name = ''quantize_int8_per_channel'' \<and> shapes \<noteq> []
      then bindE (kw_int kw ''dim'' (- 1)) (\<lambda>d.
             Inr [info sh ''int8'',
                  info (map (\<lambda>(i, size). if int i = normalize_dim d (length sh) then size else 1) (enumerate 0 sh)) ''float32''])
      else if name = ''quantize_pack_int8'' \<and> shapes \<noteq> []
      then bindE (kw_int kw ''dim'' (- 1)) (\<lambda>d. bindE (py_nth sh (normalize_dim d (length sh))) (\<lambda>x.
             Inr [info [numel sh + 4 * cu_dim x] ''uint8'']))
      else if name = ''unpack_dequantize_int8'' then bindE (kw_shape kw) (\<lambda>s. Inr [info s ''float32''])
      else if name = ''qr'' \<and> shapes \<noteq> [] then Inr (infer_qr sh dt)
      else Inr [info sh dt]))"

subsection \<open>Cost of an op and of a graph\<close>

definition or_int :: "int \<Rightarrow> int \<Rightarrow> int" where
  "or_int a b = (if a \<noteq> 0 then a else b)"

definition op_cost :: "platform \<Rightarrow> Op \<Rightarrow> TensorInfo list \<Rightarrow> TensorInfo list \<Rightarrow> pyfloat res" where
  "op_cost P p args outs =
     (let name = op_op p; kw = op_kwargs p;
          out_numel = or_int (sum_list (map (\<lambda>t. numel (ti_shape t)) outs)) 1;
          in_numel = or_int (sum_list (map (\<lambda>t. numel (ti_shape t)) args)) out_numel in
      if name = ''matmul'' \<and> length args \<ge> 2 then matmul_ops (ti_shape (args ! 0)) (ti_shape (args ! 1))
      else if name = ''einsum'' \<and> length args \<ge> 2
      then bindE (kw_str P kw ''equation'' []) (\<lambda>eq. bindE (py_nth outs 0) (\<lambda>o'.
             einsum_ops eq (ti_shape (args ! 0)) (ti_shape (args ! 1)) (ti_shape o')))
      else if name \<in> {''exp'', ''log'', ''sqrt'', ''gelu'', ''silu'', ''sin'', ''cos'', ''sigmoid'', ''tanh''}
      then Inr (4 * of_int out_numel)
      else if name \<in> {''softmax'', ''log_softmax''} then Inr (5 * of_int in_numel)
      else if name \<in> {''layer_norm'', ''rmsnorm''} then Inr (5 * of_int in_numel)
      else if name = ''cross_entropy'' then Inr (3 * of_int in_numel)
      else if name = ''qr'' \<and> args \<noteq> []
      then (let sh = ti_shape (args ! 0); r = length sh;
                m = (if r \<ge> 2 then cu_dim (sh ! (r - 2)) else numel sh);
                n = (if r \<ge> 1 then cu_dim (sh ! (r - 1)) else 1);
                batch = (if r \<ge> 2 then numel (drop_last2 sh) else 1)
            in Inr (2 * of_int batch * of_int m * of_int n * of_int (min m n)))
      else if name \<in> {''sort'', ''topk''} \<and> args \<noteq> []
      then (let sh = ti_shape (args ! 0) in
            bindE (kw_int kw ''dim'' (- 1)) (\<lambda>d.
            bindE (if sh = [] then Inr 1 else bindE (py_nth sh (normalize_dim d (length sh))) (\<lambda>x. Inr (cu_dim x))) (\<lambda>axis.
              Inr (of_int in_numel * max 1 (math_log2 P (max 2 axis))))))
      else if name \<in> {''normal'', ''uniform''} then Inr (2 * of_int out_numel)
      else if name \<in> {''quantize_int8_per_channel'', ''dequantize_int8_per_channel'', ''quantize_pack_int8'', ''unpack_dequantize_int8''}
      then Inr (2 * of_int (max in_numel out_numel))
      else Inr (of_int (max in_numel out_numel)))"

definition info_for_ref ::
  "platform \<Rightarrow> dict \<Rightarrow> (string \<times> TensorInfo) list \<Rightarrow> TensorInfo list list \<Rightarrow> TensorInfo res" where
  "info_for_ref P ref inputs op_infos =
     (let kind = get_none ref ''kind'' in
      if kind = JStr ''input''
      then bindE (py_str P (get_none ref ''name'')) (\<lambda>n. Inr (case map_of inputs n of None \<Rightarrow> scalar_info | Some t \<Rightarrow> t))
      else if kind = JStr ''op''
      then bindE (py_int (get_or ref ''id'' (JInt 0))) (\<lambda>i. bindE (py_int (get_or ref ''idx'' (JInt 0))) (\<lambda>x.
             Inr (if 0 \<le> i \<and> i < int (length op_infos) \<and> 0 \<le> x \<and> x < int (length (op_infos ! nat i))
                  then op_infos ! nat i ! nat x else scalar_info)))
      else if kind = JStr ''const_blob''
      then bindE (ints_of (get_or ref ''shape'' (JList []))) (\<lambda>s. bindE (py_str P (get_or ref ''dtype'' (JStr ''float32''))) (\<lambda>dt.
             Inr (info s dt)))
      else if (case kind of JList _ \<Rightarrow> True | JObj _ \<Rightarrow> True | _ \<Rightarrow> False) then Inl TypeError
      else Inr scalar_info)"

text \<open>One iteration of the loop of \<^verbatim>\<open>estimate_graph_ops\<close>, and the loop.\<close>

definition op_step ::
  "platform \<Rightarrow> (string \<times> TensorInfo) list \<Rightarrow> Op \<Rightarrow> TensorInfo list list \<times> pyfloat \<Rightarrow> (TensorInfo list list \<times> pyfloat) res" where
  "op_step P inputs p st =
     (case st of (op_infos, acc) \<Rightarrow>
        bindE (mapE (\<lambda>r. info_for_ref P r inputs op_infos) (op_args p)) (\<lambda>arg_infos.
        bindE (infer_outputs P p arg_infos) (\<lambda>inferred.
        let outs = (if op_out p \<noteq> [] then map (\<lambda>s. info (ts_shape s) (ts_dtype s)) (op_out p) else inferred)
        in bindE (py_set op_infos (op_id p) outs) (\<lambda>op_infos'.
           bindE (op_cost P p arg_infos outs) (\<lambda>c. Inr (op_infos', acc + c))))))"

fun op_loop ::
  "platform \<Rightarrow> (string \<times> TensorInfo) list \<Rightarrow> Op list \<Rightarrow> TensorInfo list list \<times> pyfloat \<Rightarrow> (TensorInfo list list \<times> pyfloat) res" where
  "op_loop P inputs [] st = Inr st"
| "op_loop P inputs (p # ps) st = bindE (op_step P inputs p st) (op_loop P inputs ps)"

definition graph_input_infos :: "Graph \<Rightarrow> (string \<times> TensorInfo) list" where
  "graph_input_infos g = fold (\<lambda>s d. AList.update (ts_name s) (info (ts_shape s) (ts_dtype s)) d) (gh_inputs g) []"

definition estimate_graph_ops :: "platform \<Rightarrow> Graph \<Rightarrow> pyfloat res" where
  "estimate_graph_ops P g =
     bindE (op_loop P (graph_input_infos g) (gh_ops g) (map (\<lambda>_. [scalar_info]) (gh_ops g), 0)) (\<lambda>st. Inr (snd st))"

definition min_cu :: pyfloat where
  "min_cu = 1 / 1000000"

definition expected_compute_units :: "platform \<Rightarrow> Graph \<Rightarrow> pyfloat res" where
  "expected_compute_units P g = bindE (estimate_graph_ops P g) (\<lambda>ops. Inr (max min_cu (ops / 1000000)))"

end
