(* ===== verification/Compute_Units_Properties.thy ===== *)
theory Compute_Units_Properties
  imports Compute_Units
begin

text \<open>
  Bounds and laws of the work estimate: every op costs at least one operation, the cost of a matrix
  product follows from its inferred shape, broadcasting is commutative and never shrinks, and one input on
  which the estimate raises.
\<close>

subsection \<open>Shapes have elements\<close>

lemma cu_dim_pos [simp]: "1 \<le> cu_dim d" "0 < cu_dim d"
  by (simp_all add: cu_dim_def)

lemma numel_pos: "1 \<le> numel s"
proof (induction s)
  case (Cons d s)
  then have "1 * 1 \<le> cu_dim d * numel s" by (intro mult_mono) (auto intro: order_trans [of 0 1])
  then show ?case by simp
qed simp

lemma numel_append: "numel (s @ t) = numel s * numel t"
  by (induction s) simp_all

lemma numel_rev [simp]: "numel (rev s) = numel s"
  by (induction s) (simp_all add: numel_append)

lemma broadcast_rev_Nil: "broadcast_rev [] b = map cu_dim b" "broadcast_rev a [] = map cu_dim a"
  by (induction b, simp_all) (induction a, simp_all add: cu_dim_def)+

lemma cu_dim_idem [simp]: "cu_dim (cu_dim d) = cu_dim d"
  by (simp add: cu_dim_def)

lemma numel_map_dim [simp]: "numel (map cu_dim s) = numel s"
  by (induction s) simp_all

lemma broadcast_two_Nil [simp]: "numel (broadcast_two [] b) = numel b" "numel (broadcast_two a []) = numel a"
  by (simp_all add: broadcast_two_def broadcast_rev_Nil rev_map [symmetric])

lemma broadcast_rev_commute: "broadcast_rev a b = broadcast_rev b a"
  by (induction a b rule: broadcast_rev.induct) (simp_all add: max.commute)

lemma broadcast_rev_numel: "numel a \<le> numel (broadcast_rev a b)"
proof (induction a b rule: broadcast_rev.induct)
  case (4 a as b bs)
  have "cu_dim a * numel as \<le> cu_dim (max (cu_dim a) (cu_dim b)) * numel (broadcast_rev as bs)"
    using 4 numel_pos [of as] by (intro mult_mono) (auto simp: cu_dim_def)
  then show ?case by simp
next
  case (3 b bs)
  have "1 * 1 \<le> cu_dim (max (cu_dim 1) (cu_dim b)) * numel (broadcast_rev [] bs)"
    using numel_pos by (intro mult_mono) (auto simp: cu_dim_def)
  then show ?case by simp
qed (simp_all add: broadcast_rev_Nil cu_dim_def)

subsection \<open>Every op is charged\<close>

lemma py_nth_Inr_mem: "py_nth xs i = Inr x \<Longrightarrow> x \<in> set xs"
  by (auto simp: py_nth_def Let_def split: if_splits)

lemma prod_ge_1: "(\<And>v. v \<in> set vs \<Longrightarrow> (1::int) \<le> v) \<Longrightarrow> 1 \<le> prod_list vs"
proof (induction vs)
  case (Cons v vs)
  then have "1 \<le> v" "1 \<le> prod_list vs" by auto
  then have "1 * 1 \<le> v * prod_list vs" by (intro mult_mono) auto
  then show ?case by simp
qed simp

lemma einsum_sizes_pos: "map_of (einsum_sizes al bl a b) l = Some v \<Longrightarrow> 1 \<le> v"
proof -
  have 1: "(\<And>l v. map_of d l = Some v \<Longrightarrow> (1::int) \<le> v) \<Longrightarrow>
      map_of (fold (\<lambda>(l, s) d. AList.update l (cu_dim s) d) xs d) l = Some v \<Longrightarrow> 1 \<le> v"
    for xs :: "(char \<times> int) list" and d l v
  proof (induction xs arbitrary: d)
    case (Cons x xs)
    show ?case
      by (rule Cons.IH [OF _ Cons.prems(2) [unfolded fold.simps comp_apply]])
        (auto split: if_splits prod.splits dest: Cons.prems(1))
  qed simp
  have 2: "(\<And>l v. map_of d l = Some v \<Longrightarrow> (1::int) \<le> v) \<Longrightarrow>
      map_of (fold (\<lambda>(l, s) d. AList.update l (max (case map_of d l of None \<Rightarrow> 1 | Some v \<Rightarrow> v) (cu_dim s)) d) xs d) l
        = Some v \<Longrightarrow> 1 \<le> v"
    for xs :: "(char \<times> int) list" and d l v
  proof (induction xs arbitrary: d)
    case (Cons x xs)
    show ?case
      by (rule Cons.IH [OF _ Cons.prems(2) [unfolded fold.simps comp_apply]])
        (auto split: if_splits prod.splits dest: Cons.prems(1) simp: le_max_iff_disj)
  qed simp
  show "map_of (einsum_sizes al bl a b) l = Some v \<Longrightarrow> 1 \<le> v"
    unfolding einsum_sizes_def by (rule 2 [OF 1]) auto
qed

lemma mult_ge_1: "1 \<le> (a::rat) \<Longrightarrow> 1 \<le> b \<Longrightarrow> 1 \<le> a * b"
  using mult_mono [of 1 a 1 b] by simp

lemma of_int_ge_1: "1 \<le> (of_int i :: rat) \<longleftrightarrow> 1 \<le> i"
  by simp

lemmas cost_ge_1 = mult_ge_1 numel_pos cu_dim_pos prod_ge_1 einsum_sizes_pos

lemma matmul_ops_ge_1: "matmul_ops a b = Inr c \<Longrightarrow> 1 \<le> c"
  by (auto simp: matmul_ops_def bindE_eq_Inr split: if_splits intro!: mult_ge_1 numel_pos)

lemma einsum_ops_ge_1: "einsum_ops eq a b out = Inr c \<Longrightarrow> 1 \<le> c"
proof -
  assume e: "einsum_ops eq a b out = Inr c"
  show "1 \<le> c"
  proof (cases "einsum_labels eq")
    case None
    with e numel_pos [of a] show ?thesis by (auto simp: einsum_ops_def le_max_iff_disj)
  next
    case (Some l)
    obtain al bl ol where l: "l = (al, bl, ol)" by (metis prod_cases3)
    from e Some l obtain vs where vs: "mapE (\<lambda>l. case map_of (einsum_sizes al bl a b) l of None \<Rightarrow> Inl (KeyError [l]) | Some v \<Rightarrow> Inr v)
        (remdups (filter (\<lambda>l. l \<in> set bl \<and> l \<notin> set ol) al)) = Inr vs"
      and c: "c = 2 * of_int (numel out) * of_int (prod_list vs)"
      by (auto simp: einsum_ops_def Let_def bindE_eq_Inr)
    have "1 \<le> v" if "v \<in> set vs" for v
      using mapE_set [OF vs that] einsum_sizes_pos by (auto split: option.splits)
    then show ?thesis unfolding c by (intro mult_ge_1) (simp_all add: numel_pos prod_ge_1)
  qed
qed

lemma sum_numel_pos: "ts \<noteq> [] \<Longrightarrow> 1 \<le> sum_list (map (\<lambda>t. numel (ti_shape t)) ts)"
proof (induction ts)
  case (Cons t ts)
  then show ?case using numel_pos [of "ti_shape t"] by (cases ts) auto
qed simp

lemma out_numel_pos: "1 \<le> or_int (sum_list (map (\<lambda>t. numel (ti_shape t)) ts)) 1"
  using sum_numel_pos [of ts] by (cases ts) (auto simp: or_int_def)

lemma in_numel_pos: "1 \<le> n \<Longrightarrow> 1 \<le> or_int (sum_list (map (\<lambda>t. numel (ti_shape t)) ts)) n"
  using sum_numel_pos [of ts] by (cases ts) (auto simp: or_int_def)

lemma op_cost_ge_1:
  assumes "op_cost P p args outs = Inr c"
  shows "1 \<le> c"
proof -
  define o_n where "o_n = or_int (sum_list (map (\<lambda>t. numel (ti_shape t)) outs)) 1"
  define i_n where "i_n = or_int (sum_list (map (\<lambda>t. numel (ti_shape t)) args)) o_n"
  have n: "1 \<le> o_n" "1 \<le> i_n" unfolding i_n_def o_n_def by (simp_all add: out_numel_pos in_numel_pos)
  then have n': "1 \<le> (of_int o_n :: rat)" "1 \<le> (of_int i_n :: rat)" "1 \<le> (of_int (max i_n o_n) :: rat)" by simp_all
  show ?thesis
    using assms n' unfolding op_cost_def Let_def o_n_def [symmetric] i_n_def [symmetric]
    by (auto simp: bindE_eq_Inr dest: matmul_ops_ge_1 einsum_ops_ge_1 split: if_splits
        intro!: mult_ge_1 numel_pos simp del: of_int_max)
qed

lemma op_loop_ge:
  "op_loop P inputs ps (is, t) = Inr (is', t') \<Longrightarrow> t + of_nat (length ps) \<le> t'"
proof (induction ps arbitrary: "is" t)
  case (Cons p ps)
  then obtain is1 t1 where s: "op_step P inputs p (is, t) = Inr (is1, t1)"
    and r: "op_loop P inputs ps (is1, t1) = Inr (is', t')" by (auto simp: bindE_eq_Inr)
  from s have "t + 1 \<le> t1" by (auto simp: op_step_def bindE_eq_Inr Let_def dest: op_cost_ge_1)
  with Cons.IH [OF r] show ?case by simp
qed simp

subsection \<open>Properties\<close>

text \<open>
  Every op is charged: when the estimate of a graph exists it is at least the number of its ops, and
  the compute units credited for it are at least the floor of one millionth and at least one millionth per
  op, so no verified job is worth nothing.
\<close>

theorem expected_compute_units_bounds:
  assumes "expected_compute_units P g = Inr cu"
  shows "\<exists>ops. estimate_graph_ops P g = Inr ops \<and> of_nat (length (gh_ops g)) \<le> ops \<and>
    cu = max min_cu (ops / 1000000) \<and> of_nat (length (gh_ops g)) / 1000000 \<le> cu \<and> min_cu \<le> cu"
proof -
  from assms obtain ops where e: "estimate_graph_ops P g = Inr ops" and cu: "cu = max min_cu (ops / 1000000)"
    by (auto simp: expected_compute_units_def bindE_eq_Inr)
  from e have "of_nat (length (gh_ops g)) \<le> ops"
    by (auto simp: estimate_graph_ops_def bindE_eq_Inr dest: op_loop_ge)
  with e cu show ?thesis by (simp add: le_max_iff_disj divide_right_mono)
qed

definition cu_sample :: Graph where
  "cu_sample =
     \<lparr>gh_inputs = [\<lparr>ts_name = ''x'', ts_shape = [2, 3], ts_dtype = ''float32''\<rparr>, \<lparr>ts_name = ''w'', ts_shape = [3, 4], ts_dtype = ''float32''\<rparr>],
      gh_outputs = [], gh_params = [],
      gh_ops = [\<lparr>op_id = 0, op_op = ''matmul'', op_args = [ref_input ''x'', ref_input ''w''], op_kwargs = [], op_out = []\<rparr>,
                \<lparr>op_id = 1, op_op = ''softmax'', op_args = [ref_op 0 0], op_kwargs = [(''dim'', JInt (- 1))], op_out = []\<rparr>],
      gh_ir_version = 1\<rparr>"

lemma cu_sample_estimate: "expected_compute_units reference_platform cu_sample = Inr (88 / 1000000)"
  by code_simp

theorem expected_compute_units_bounds_witness:
  "\<exists>ops. estimate_graph_ops reference_platform cu_sample = Inr ops \<and> 2 \<le> ops \<and>
    (88 / 1000000 :: rat) = max min_cu (ops / 1000000)"
  using expected_compute_units_bounds [OF cu_sample_estimate] by (auto simp: cu_sample_def)

text \<open>
  A matrix product is charged two operations per output element and inner position, whatever the
  ranks: the cost is twice the number of elements of the inferred output shape times the inner dimension,
  and shape and cost exist for the same arguments.
\<close>

theorem matmul_cost_matches_shape:
  "matmul_ops a b = bindE (matmul_shape a b) (\<lambda>s.
     Inr (2 * of_int (numel s) * of_int (cu_dim (if length b = 1 \<and> length a \<noteq> 1 then hd b else last a))))"
proof -
  have nth2: "py_nth xs (- 2) = (if 2 \<le> length xs then Inr (xs ! (length xs - 2)) else Inl IndexError)" for xs :: "int list"
    by (auto simp: py_nth_def Let_def nat_diff_distrib intro: arg_cong [where f = "(!) xs"])
  have nth1: "py_nth xs (- 1) = (if xs \<noteq> [] then Inr (last xs) else Inl IndexError)" for xs :: "int list"
    by (auto simp: py_nth_def Let_def last_conv_nth nat_diff_distrib intro!: arg_cong [where f = "(!) xs"])
  have one: "length xs = Suc 0 \<Longrightarrow> last xs = hd xs" for xs :: "int list" by (cases xs) auto
  show ?thesis
    by (auto simp: matmul_ops_def matmul_shape_def nth1 nth2 numel_append one mult_ac)
qed

text \<open>
  Broadcasting is commutative, and its result has at least as many elements as either argument: no
  pointwise op can be charged below the larger of its inputs by stating its arguments in another order.
\<close>

theorem broadcast_two_laws:
  "broadcast_two a b = broadcast_two b a \<and> numel a \<le> numel (broadcast_two a b) \<and> numel b \<le> numel (broadcast_two a b)"
  using broadcast_rev_numel [of "rev a" "rev b"] broadcast_rev_numel [of "rev b" "rev a"]
    broadcast_rev_commute [of "rev a" "rev b"]
  by (simp add: broadcast_two_def)

text \<open>
  The estimate is not total on the graphs the registry admits: a matrix product of two scalars passes
  every check of the builder and makes the estimate raise \<^verbatim>\<open>IndexError\<close>.
\<close>

theorem scalar_matmul_estimate_raises:
  "\<exists>r g. b_matmul (ref_const (JInt 2)) (ref_const (JInt 3)) GraphBuilder_init = Inr (r, g) \<and>
     expected_compute_units reference_platform (build g) = Inl IndexError"
proof -
  let ?g = "append_op ''matmul'' [ref_const (JInt 2), ref_const (JInt 3)] [] [] GraphBuilder_init"
  have "b_matmul (ref_const (JInt 2)) (ref_const (JInt 3)) GraphBuilder_init = Inr (ref_op 0 0, ?g)"
    by (simp add: b_matmul_def emit_def emit_check_def op_signature_def op_registry_def)
      (simp add: GraphBuilder_init_def)
  moreover have "expected_compute_units reference_platform (build ?g) = Inl IndexError" by code_simp
  ultimately show ?thesis by blast
qed

end
