(* ===== verification/Scheduler.thy ===== *)
theory Scheduler
  imports Protocol "HOL-Library.Product_Lexorder"
begin

text \<open>
  \<^verbatim>\<open>teuton_orchestrator/scheduler.py\<close>: the quota book that assigns jobs to miner workers. The state is
  the insertion-ordered dict of accounts; picking a worker charges its account, a receipt releases the
  charge. Shown: the quota is never exceeded, the worker picked is eligible and best by the documented
  order, picking fails only when no worker is eligible, and a release undoes its pick.
\<close>

subsection \<open>Accounts\<close>

record MinerAccount =
  ma_identity :: MinerIdentity
  ma_workers :: "(string \<times> WorkerIdentity) list"
  ma_inflight_cu :: pyfloat
  ma_verified_good_cu :: pyfloat
  ma_trust_multiplier :: pyfloat
  ma_base_quota :: pyfloat

definition MinerAccount_new :: "pyfloat \<Rightarrow> MinerIdentity \<Rightarrow> MinerAccount" where
  "MinerAccount_new default_base_quota ident =
     \<lparr>ma_identity = ident, ma_workers = [], ma_inflight_cu = 0, ma_verified_good_cu = 0, ma_trust_multiplier = 1,
      ma_base_quota = default_base_quota\<rparr>"

definition max_inflight_cu :: "MinerAccount \<Rightarrow> pyfloat" where
  "max_inflight_cu a = ma_base_quota a + ma_verified_good_cu a * (1 / 2)"

definition available_quota :: "MinerAccount \<Rightarrow> pyfloat" where
  "available_quota a = max 0 (max_inflight_cu a - ma_inflight_cu a)"

type_synonym QuotaBook = "(string \<times> MinerAccount) list"

definition bare_identity :: "string \<Rightarrow> MinerIdentity" where
  "bare_identity hotkey = \<lparr>mi_netuid = 0, mi_hotkey_ss58 = hotkey, mi_uid = None, mi_endpoint = None,
     mi_commitment_hash = None, mi_capabilities = []\<rparr>"

definition add_worker :: "pyfloat \<Rightarrow> WorkerIdentity \<Rightarrow> QuotaBook \<Rightarrow> QuotaBook" where
  "add_worker dq w qb =
     (let hk = wi_hotkey_ss58 w; qb' = setdefault hk (MinerAccount_new dq (bare_identity hk)) qb
      in case map_of qb' hk of
           None \<Rightarrow> qb'
         | Some a \<Rightarrow> AList.update hk (a\<lparr>ma_workers := AList.update (wi_worker_id w) w (ma_workers a)\<rparr>) qb')"

definition update_workers ::
  "pyfloat \<Rightarrow> MinerIdentity list \<Rightarrow> WorkerIdentity list \<Rightarrow> QuotaBook \<Rightarrow> QuotaBook" where
  "update_workers dq identities workers qb =
     fold (add_worker dq) workers
       (fold (\<lambda>i d. setdefault (mi_hotkey_ss58 i) (MinerAccount_new dq i) d) identities qb)"

subsection \<open>Picking a worker\<close>

definition default_requirements :: ResourceRequirements where
  "default_requirements = \<lparr>rr_min_gpus = 1, rr_placement = ''single_worker'', rr_parallelism = []\<rparr>"

definition worker_world_size :: "WorkerIdentity \<Rightarrow> int res" where
  "worker_world_size w =
     (let v = get_none (wi_capabilities w) ''world_size''
      in if truthy v then py_int v
         else if wi_device_group w \<noteq> [] then Inr (int (length (wi_device_group w)))
         else Inr (if wi_gpu_index w \<noteq> None then 1 else 0))"

definition worker_satisfies :: "WorkerIdentity \<Rightarrow> ResourceRequirements \<Rightarrow> bool res" where
  "worker_satisfies w r =
     bindE (worker_world_size w) (\<lambda>world_size.
       Inr (\<not> rr_min_gpus r > world_size \<and>
            \<not> (rr_placement r = ''single_host'' \<and> rr_min_gpus r > 1 \<and> wi_worker_group_id w \<in> {None, Some []})))"

text \<open>A candidate: the priority, the worker, and the dict key of its account.\<close>

type_synonym candidate = "pyfloat \<times> WorkerIdentity \<times> string"

definition account_priority :: "MinerAccount \<Rightarrow> pyfloat" where
  "account_priority a =
     ma_trust_multiplier a * (1 + of_nat (length (ma_workers a))) / max 1 (ma_inflight_cu a)"

definition account_eligible :: "pyfloat \<Rightarrow> (string \<Rightarrow> bool) option \<Rightarrow> MinerAccount \<Rightarrow> bool" where
  "account_eligible est hotkey_filter a =
     ((case hotkey_filter of None \<Rightarrow> True | Some f \<Rightarrow> f (mi_hotkey_ss58 (ma_identity a))) \<and>
      \<not> available_quota a < est \<and> ma_workers a \<noteq> [])"

fun worker_candidates ::
  "ResourceRequirements \<Rightarrow> pyfloat \<Rightarrow> string \<Rightarrow> (string \<times> WorkerIdentity) list \<Rightarrow> candidate list res" where
  "worker_candidates r prio key [] = Inr []"
| "worker_candidates r prio key ((_, w) # ws) =
     bindE (worker_satisfies w r) (\<lambda>ok. bindE (worker_candidates r prio key ws) (\<lambda>cs.
       Inr (if ok then (prio, w, key) # cs else cs)))"

fun candidates ::
  "ResourceRequirements \<Rightarrow> pyfloat \<Rightarrow> (string \<Rightarrow> bool) option \<Rightarrow> QuotaBook \<Rightarrow> candidate list res" where
  "candidates r est flt [] = Inr []"
| "candidates r est flt ((key, a) # qb) =
     bindE (if account_eligible est flt a then worker_candidates r (account_priority a) key (ma_workers a) else Inr [])
       (\<lambda>cs. bindE (candidates r est flt qb) (\<lambda>cs'. Inr (cs @ cs')))"

definition candidate_key :: "candidate \<Rightarrow> pyfloat \<times> string \<times> string" where
  "candidate_key c = (case c of (prio, w, _) \<Rightarrow> (- prio, wi_hotkey_ss58 w, wi_worker_id w))"

definition pick_worker ::
  "pyfloat \<Rightarrow> ResourceRequirements option \<Rightarrow> (string \<Rightarrow> bool) option \<Rightarrow> QuotaBook \<Rightarrow> (WorkerIdentity \<times> QuotaBook) res" where
  "pick_worker est req flt qb =
     bindE (candidates (case req of None \<Rightarrow> default_requirements | Some r \<Rightarrow> r) est flt qb) (\<lambda>cs.
       case sort_key candidate_key cs of
         [] \<Rightarrow> Inl (RuntimeError ''no miner workers have quota for assignment'')
       | (_, w, key) # _ \<Rightarrow>
           (case map_of qb key of
              None \<Rightarrow> Inl (KeyError key)
            | Some a \<Rightarrow> Inr (w, AList.update key (a\<lparr>ma_inflight_cu := ma_inflight_cu a + est\<rparr>) qb)))"

definition release :: "string \<Rightarrow> pyfloat \<Rightarrow> QuotaBook \<Rightarrow> QuotaBook" where
  "release hotkey est qb =
     (case map_of qb hotkey of
        None \<Rightarrow> qb
      | Some a \<Rightarrow> AList.update hotkey (a\<lparr>ma_inflight_cu := max 0 (ma_inflight_cu a - est)\<rparr>) qb)"

subsection \<open>The optimistic gate\<close>

definition requires_validation :: "string \<Rightarrow> bool" where
  "requires_validation kind = (kind \<in> {''outer_step'', ''checkpoint''})"

definition can_advance_optimistically :: "string \<Rightarrow> bool" where
  "can_advance_optimistically kind = (\<not> requires_validation kind)"

subsection \<open>Invariants\<close>

text \<open>Each account is stored under its hotkey, holds workers of that hotkey under their ids, and is within quota.\<close>

definition account_ok :: "string \<Rightarrow> MinerAccount \<Rightarrow> bool" where
  "account_ok key a \<longleftrightarrow> mi_hotkey_ss58 (ma_identity a) = key \<and> distinct (map fst (ma_workers a)) \<and>
     (\<forall>(i, w) \<in> set (ma_workers a). wi_worker_id w = i \<and> wi_hotkey_ss58 w = key) \<and>
     0 \<le> ma_inflight_cu a \<and> ma_inflight_cu a \<le> max_inflight_cu a"

definition book_ok :: "QuotaBook \<Rightarrow> bool" where
  "book_ok qb \<longleftrightarrow> distinct (map fst qb) \<and> (\<forall>(k, a) \<in> set qb. account_ok k a)"

lemma book_ok_update: "book_ok qb \<Longrightarrow> account_ok k a \<Longrightarrow> book_ok (AList.update k a qb)"
  using set_update_subset [of k a qb] by (fastforce simp: book_ok_def distinct_update)

lemma book_ok_setdefault: "book_ok qb \<Longrightarrow> account_ok k a \<Longrightarrow> book_ok (setdefault k a qb)"
  by (simp add: setdefault_def book_ok_update)

lemma book_ok_lookup: "book_ok qb \<Longrightarrow> map_of qb k = Some a \<Longrightarrow> account_ok k a"
  by (auto simp: book_ok_def dest: map_of_SomeD)

lemma account_new_ok: "0 \<le> dq \<Longrightarrow> account_ok (mi_hotkey_ss58 i) (MinerAccount_new dq i)"
  by (simp add: account_ok_def MinerAccount_new_def max_inflight_cu_def)

lemma bare_identity_hotkey [simp]: "mi_hotkey_ss58 (bare_identity h) = h"
  by (simp add: bare_identity_def)

lemma account_ok_add_worker:
  assumes "account_ok k a" "wi_hotkey_ss58 w = k"
  shows "account_ok k (a\<lparr>ma_workers := AList.update (wi_worker_id w) w (ma_workers a)\<rparr>)"
  using assms set_update_subset [of "wi_worker_id w" w "ma_workers a"]
  by (fastforce simp: account_ok_def distinct_update max_inflight_cu_def)

lemma add_worker_ok: "book_ok qb \<Longrightarrow> 0 \<le> dq \<Longrightarrow> book_ok (add_worker dq w qb)"
proof -
  assume b: "book_ok qb" and dq: "0 \<le> dq"
  let ?hk = "wi_hotkey_ss58 w"
  let ?qb = "setdefault ?hk (MinerAccount_new dq (bare_identity ?hk)) qb"
  have ok: "book_ok ?qb"
    using book_ok_setdefault [OF b account_new_ok [OF dq, of "bare_identity ?hk"]] by simp
  then show ?thesis
    by (auto simp: add_worker_def Let_def simp del: setdefault_map_of split: option.splits
        intro!: book_ok_update account_ok_add_worker dest: book_ok_lookup)
qed

lemma update_workers_ok: "book_ok qb \<Longrightarrow> 0 \<le> dq \<Longrightarrow> book_ok (update_workers dq ids ws qb)"
proof -
  have 1: "book_ok qb \<Longrightarrow> 0 \<le> dq \<Longrightarrow> book_ok (fold (\<lambda>i d. setdefault (mi_hotkey_ss58 i) (MinerAccount_new dq i) d) ids qb)"
    for qb by (induction ids arbitrary: qb) (auto simp: book_ok_setdefault account_new_ok)
  have 2: "book_ok qb \<Longrightarrow> 0 \<le> dq \<Longrightarrow> book_ok (fold (add_worker dq) ws qb)" for qb
    by (induction ws arbitrary: qb) (auto simp: add_worker_ok)
  show "book_ok qb \<Longrightarrow> 0 \<le> dq \<Longrightarrow> ?thesis" by (simp add: update_workers_def 1 2)
qed

subsection \<open>Candidates\<close>

lemma worker_candidates_set:
  assumes "worker_candidates r prio key ws = Inr cs"
  shows "set cs = {(prio, w, key) | i w. (i, w) \<in> set ws \<and> worker_satisfies w r = Inr True}"
  using assms
proof (induction ws arbitrary: cs)
  case (Cons iw ws)
  obtain i w where iw: "iw = (i, w)" by fastforce
  from Cons.prems iw obtain ok cs' where ok: "worker_satisfies w r = Inr ok"
    and cs': "worker_candidates r prio key ws = Inr cs'" and cs: "cs = (if ok then (prio, w, key) # cs' else cs')"
    by (auto simp: bindE_eq_Inr)
  show ?case using Cons.IH [OF cs'] ok cs iw by (cases ok) auto
qed simp

lemma candidates_set:
  assumes "candidates r est flt qb = Inr cs"
  shows "set cs = {(account_priority a, w, key) | key a i w.
    (key, a) \<in> set qb \<and> account_eligible est flt a \<and> (i, w) \<in> set (ma_workers a) \<and> worker_satisfies w r = Inr True}"
  using assms
proof (induction qb arbitrary: cs)
  case (Cons ka qb)
  obtain key a where ka: "ka = (key, a)" by fastforce
  from Cons.prems ka obtain c1 c2
    where c1: "(if account_eligible est flt a then worker_candidates r (account_priority a) key (ma_workers a) else Inr []) = Inr c1"
    and c2: "candidates r est flt qb = Inr c2" and cs: "cs = c1 @ c2" by (auto simp: bindE_eq_Inr)
  have "set c1 = (if account_eligible est flt a then {(account_priority a, w, key) | i w. (i, w) \<in> set (ma_workers a) \<and>
      worker_satisfies w r = Inr True} else {})"
    using c1 by (auto simp: worker_candidates_set split: if_splits)
  with Cons.IH [OF c2] cs ka show ?case by (auto split: if_splits)
qed simp

lemma sort_key_hd_le:
  assumes "sort_key f cs = x # xs"
  shows "x \<in> set cs \<and> (\<forall>y \<in> set cs. f x \<le> f y)"
proof -
  have "sorted (map f (x # xs))" using assms sorted_sort_key [of f cs] by metis
  moreover have "set cs = set (x # xs)" using assms set_sort [of f cs] by metis
  ultimately show ?thesis by auto
qed

lemma pick_worker_spec:
  assumes "pick_worker est req flt qb = Inr (w, qb')" "book_ok qb"
  obtains a where "map_of qb (wi_hotkey_ss58 w) = Some a" "account_eligible est flt a"
    "(wi_worker_id w, w) \<in> set (ma_workers a)"
    "worker_satisfies w (case req of None \<Rightarrow> default_requirements | Some r \<Rightarrow> r) = Inr True"
    "qb' = AList.update (wi_hotkey_ss58 w) (a\<lparr>ma_inflight_cu := ma_inflight_cu a + est\<rparr>) qb"
    "\<And>k' a' i' w'. (k', a') \<in> set qb \<Longrightarrow> account_eligible est flt a' \<Longrightarrow> (i', w') \<in> set (ma_workers a') \<Longrightarrow>
       worker_satisfies w' (case req of None \<Rightarrow> default_requirements | Some r \<Rightarrow> r) = Inr True \<Longrightarrow>
       (- account_priority a, wi_hotkey_ss58 w, wi_worker_id w) \<le> (- account_priority a', wi_hotkey_ss58 w', wi_worker_id w')"
proof -
  let ?r = "case req of None \<Rightarrow> default_requirements | Some r \<Rightarrow> r"
  from assms(1) obtain cs where cs: "candidates ?r est flt qb = Inr cs"
    and pick: "(case sort_key candidate_key cs of [] \<Rightarrow> Inl (RuntimeError ''no miner workers have quota for assignment'')
       | (_, w, key) # _ \<Rightarrow> (case map_of qb key of None \<Rightarrow> Inl (KeyError key)
            | Some a \<Rightarrow> Inr (w, AList.update key (a\<lparr>ma_inflight_cu := ma_inflight_cu a + est\<rparr>) qb))) = Inr (w, qb')"
    unfolding pick_worker_def by (auto simp only: bindE_eq_Inr)
  obtain p w0 key xs where s0: "sort_key candidate_key cs = (p, w0, key) # xs"
    using pick by (cases "sort_key candidate_key cs") auto
  obtain a where a: "map_of qb key = Some a" using pick s0 by (cases "map_of qb key") auto
  have s: "sort_key candidate_key cs = (p, w, key) # xs"
    and qb': "qb' = AList.update key (a\<lparr>ma_inflight_cu := ma_inflight_cu a + est\<rparr>) qb" using pick s0 a by auto
  from sort_key_hd_le [OF s] have m: "(p, w, key) \<in> set cs"
    and le: "\<And>c. c \<in> set cs \<Longrightarrow> candidate_key (p, w, key) \<le> candidate_key c" by auto
  from m obtain a' i where e: "(key, a') \<in> set qb" "account_eligible est flt a'" "(i, w) \<in> set (ma_workers a')"
    "worker_satisfies w ?r = Inr True" "p = account_priority a'" by (auto simp: candidates_set [OF cs])
  from e(1) a assms(2) have a': "a' = a" by (auto simp: book_ok_def map_of_is_SomeI)
  from e(1,3) assms(2) have k: "wi_hotkey_ss58 w = key" "i = wi_worker_id w"
    by (auto simp: book_ok_def account_ok_def)
  have best: "(- account_priority a, wi_hotkey_ss58 w, wi_worker_id w) \<le> (- account_priority b, wi_hotkey_ss58 v, wi_worker_id v)"
    if "(k', b) \<in> set qb" "account_eligible est flt b" "(i', v) \<in> set (ma_workers b)" "worker_satisfies v ?r = Inr True"
    for k' b i' v
  proof -
    have "(account_priority b, v, k') \<in> set cs" using that by (auto simp: candidates_set [OF cs])
    from le [OF this] show ?thesis using e(5) a' by (simp only: candidate_key_def prod.case)
  qed
  show thesis by (rule that [of a]) (use a qb' e a' k best in auto)
qed

lemma pick_worker_charges:
  assumes "pick_worker est req flt qb = Inr (w, qb')" "book_ok qb" "0 \<le> est"
  shows "book_ok qb'"
proof -
  from assms(1,2) obtain a where a: "map_of qb (wi_hotkey_ss58 w) = Some a" "account_eligible est flt a"
    and q: "qb' = AList.update (wi_hotkey_ss58 w) (a\<lparr>ma_inflight_cu := ma_inflight_cu a + est\<rparr>) qb"
    by (rule pick_worker_spec)
  have "account_ok (wi_hotkey_ss58 w) (a\<lparr>ma_inflight_cu := ma_inflight_cu a + est\<rparr>)"
    using book_ok_lookup [OF assms(2) a(1)] a(2) assms(3)
    by (auto simp: account_ok_def account_eligible_def available_quota_def max_inflight_cu_def not_less)
  then show ?thesis using assms(2) q by (simp add: book_ok_update)
qed

lemma release_ok: "book_ok qb \<Longrightarrow> 0 \<le> est \<Longrightarrow> book_ok (release hk est qb)"
proof (cases "map_of qb hk")
  case (Some a)
  assume b: "book_ok qb" and e: "0 \<le> est"
  have "account_ok hk (a\<lparr>ma_inflight_cu := max 0 (ma_inflight_cu a - est)\<rparr>)"
    using book_ok_lookup [OF b Some] e by (auto simp: account_ok_def max_inflight_cu_def)
  then show ?thesis using Some b by (simp add: release_def book_ok_update)
qed (simp add: release_def)

subsection \<open>The book as a state machine\<close>

text \<open>What an orchestrator does to its quota book, in any order: learn of workers, pick one, release a charge.\<close>

inductive book_step :: "QuotaBook \<Rightarrow> QuotaBook \<Rightarrow> bool" where
  learn: "0 \<le> dq \<Longrightarrow> book_step qb (update_workers dq ids ws qb)"
| pick: "pick_worker est req flt qb = Inr (w, qb') \<Longrightarrow> 0 \<le> est \<Longrightarrow> book_step qb qb'"
| give_back: "0 \<le> est \<Longrightarrow> book_step qb (release hk est qb)"

lemma book_step_ok: "book_step qb qb' \<Longrightarrow> book_ok qb \<Longrightarrow> book_ok qb'"
  by (induction rule: book_step.induct) (auto simp: update_workers_ok release_ok intro: pick_worker_charges)

lemma book_reachable_ok: "book_step\<^sup>*\<^sup>* qb qb' \<Longrightarrow> book_ok qb \<Longrightarrow> book_ok qb'"
  by (induction rule: rtranclp_induct) (auto intro: book_step_ok)

lemma book_ok_empty [simp]: "book_ok []"
  by (simp add: book_ok_def)

lemma pick_worker_no_candidate:
  "(\<exists>cs. candidates (case req of None \<Rightarrow> default_requirements | Some r \<Rightarrow> r) est flt qb = Inr cs \<and> cs = []) \<Longrightarrow>
   pick_worker est req flt qb = Inl (RuntimeError ''no miner workers have quota for assignment'')"
  by (auto simp: pick_worker_def)

lemma pick_worker_has_candidate:
  assumes "candidates (case req of None \<Rightarrow> default_requirements | Some r \<Rightarrow> r) est flt qb = Inr cs" "cs \<noteq> []"
  shows "\<exists>w qb'. pick_worker est req flt qb = Inr (w, qb')"
proof -
  obtain p w key xs where s: "sort_key candidate_key cs = (p, w, key) # xs"
    using assms(2) by (metis prod_cases3 list.exhaust set_empty set_sort)
  from sort_key_hd_le [OF s] assms(1) obtain a where "(key, a) \<in> set qb" by (auto simp: candidates_set)
  then obtain b where "map_of qb key = Some b" by (cases "map_of qb key") (force simp: map_of_eq_None_iff)+
  with s assms(1) show ?thesis by (simp add: pick_worker_def)
qed

lemma worker_candidates_total:
  assumes "\<And>i w. (i, w) \<in> set ws \<Longrightarrow> \<exists>b. worker_satisfies w r = Inr b"
  shows "\<exists>cs. worker_candidates r prio key ws = Inr cs"
  using assms
proof (induction ws)
  case (Cons iw ws)
  obtain i w where iw: "iw = (i, w)" by fastforce
  from Cons.prems [of i w] iw obtain b where "worker_satisfies w r = Inr b" by auto
  moreover from Cons.IH Cons.prems obtain cs where "worker_candidates r prio key ws = Inr cs" by auto
  ultimately show ?case using iw by simp
qed simp

lemma candidates_total:
  assumes "\<And>k a i w. (k, a) \<in> set qb \<Longrightarrow> (i, w) \<in> set (ma_workers a) \<Longrightarrow> \<exists>b. worker_satisfies w r = Inr b"
  shows "\<exists>cs. candidates r est flt qb = Inr cs"
  using assms
proof (induction qb)
  case (Cons ka qb)
  obtain k a where ka: "ka = (k, a)" by fastforce
  have "\<exists>b. worker_satisfies w r = Inr b" if "(i, w) \<in> set (ma_workers a)" for i w
    using Cons.prems [of k a i w] that ka by simp
  then obtain cs where "worker_candidates r (account_priority a) k (ma_workers a) = Inr cs"
    using worker_candidates_total by blast
  moreover have "\<exists>cs. candidates r est flt qb = Inr cs"
    by (rule Cons.IH) (meson Cons.prems list.set_intros(2))
  then obtain cs' where "candidates r est flt qb = Inr cs'" ..
  ultimately show ?case using ka by simp
qed simp

lemma alist_update_same: "map_of xs k = Some v \<Longrightarrow> AList.update k v xs = xs"
  by (induction xs) (auto split: if_splits)

lemma update_update_same: "AList.update k v (AList.update k u xs) = AList.update k v xs"
  by (induction xs) auto

subsection \<open>Sample data\<close>

definition sample_worker :: "string \<Rightarrow> string \<Rightarrow> WorkerIdentity" where
  "sample_worker hk wid = \<lparr>wi_hotkey_ss58 = hk, wi_worker_id = wid, wi_host_id = ''h'', wi_gpu_index = Some 0,
     wi_session_nonce = ''n'', wi_software_hash = ''s'', wi_device_group = [], wi_worker_group_id = None, wi_capabilities = []\<rparr>"

definition sample_book :: QuotaBook where
  "sample_book = update_workers 5 [bare_identity ''B''] [sample_worker ''B'' ''w1'', sample_worker ''A'' ''w2'',
     sample_worker ''B'' ''w0''] []"

lemma sample_book_eval:
  "sample_book =
     [(''B'', (MinerAccount_new 5 (bare_identity ''B''))\<lparr>ma_workers :=
         [(''w1'', sample_worker ''B'' ''w1''), (''w0'', sample_worker ''B'' ''w0'')]\<rparr>),
      (''A'', (MinerAccount_new 5 (bare_identity ''A''))\<lparr>ma_workers := [(''w2'', sample_worker ''A'' ''w2'')]\<rparr>)]"
  by (simp add: sample_book_def update_workers_def add_worker_def setdefault_def sample_worker_def Let_def
      MinerAccount_new_def bare_identity_def)

lemma sample_book_ok: "book_ok sample_book"
  by (simp add: sample_book_def update_workers_ok)

lemma sample_satisfies: "worker_satisfies (sample_worker hk wid) default_requirements = Inr True"
  by (simp add: worker_satisfies_def worker_world_size_def sample_worker_def default_requirements_def get_or_def)

lemma sample_pick:
  "\<exists>qb'. pick_worker 2 None None sample_book = Inr (sample_worker ''B'' ''w0'', qb')"
  by (simp add: pick_worker_def sample_book_eval account_eligible_def available_quota_def max_inflight_cu_def
      MinerAccount_new_def sample_satisfies account_priority_def candidate_key_def sort_key_def insort_key_def)
    (simp add: sample_worker_def)

subsection \<open>Properties\<close>

text \<open>
  C23. Quota safety. Whatever sequence of worker updates, picks and releases an orchestrator performs from the
  empty quota book, every account stays within its quota, is stored under its own hotkey and holds only
  workers of that hotkey under their own ids.
\<close>

theorem quota_never_exceeded:
  assumes "book_step\<^sup>*\<^sup>* [] qb"
  shows "distinct (map fst qb) \<and> (\<forall>(k, a) \<in> set qb. 0 \<le> ma_inflight_cu a \<and> ma_inflight_cu a \<le> max_inflight_cu a \<and>
    mi_hotkey_ss58 (ma_identity a) = k \<and> (\<forall>(i, w) \<in> set (ma_workers a). wi_worker_id w = i \<and> wi_hotkey_ss58 w = k))"
  using book_reachable_ok [OF assms] by (auto simp: book_ok_def account_ok_def)

theorem quota_never_exceeded_witness:
  "\<exists>qb. pick_worker 2 None None sample_book = Inr (sample_worker ''B'' ''w0'', qb) \<and> distinct (map fst qb)"
proof -
  obtain qb where qb: "pick_worker 2 None None sample_book = Inr (sample_worker ''B'' ''w0'', qb)" using sample_pick ..
  have "book_step [] sample_book" unfolding sample_book_def by (rule book_step.learn) simp
  moreover have "book_step sample_book qb" by (rule book_step.pick [OF qb]) simp
  ultimately have "book_step\<^sup>*\<^sup>* [] qb" by (meson converse_rtranclp_into_rtranclp r_into_rtranclp)
  from quota_never_exceeded [OF this] qb show ?thesis by blast
qed

text \<open>
  The worker picked belongs to an account that passes the filter, has quota for the job and satisfies the
  resource requirements, and no other such worker comes before it in the order by descending priority,
  hotkey and worker id; exactly its account is charged.
\<close>

theorem pick_worker_best:
  fixes req :: "ResourceRequirements option"
  defines "r \<equiv> case req of None \<Rightarrow> default_requirements | Some r \<Rightarrow> r"
  assumes "pick_worker est req flt qb = Inr (w, qb')" "book_ok qb"
  shows "\<exists>a. map_of qb (wi_hotkey_ss58 w) = Some a \<and> account_eligible est flt a \<and> est \<le> available_quota a \<and>
    (wi_worker_id w, w) \<in> set (ma_workers a) \<and> worker_satisfies w r = Inr True \<and>
    map_of qb' = (map_of qb)(wi_hotkey_ss58 w \<mapsto> a\<lparr>ma_inflight_cu := ma_inflight_cu a + est\<rparr>) \<and>
    (\<forall>(k', a') \<in> set qb. \<forall>(i', w') \<in> set (ma_workers a'). account_eligible est flt a' \<and> worker_satisfies w' r = Inr True \<longrightarrow>
       account_priority a > account_priority a' \<or> account_priority a = account_priority a' \<and>
       (wi_hotkey_ss58 w, wi_worker_id w) \<le> (wi_hotkey_ss58 w', wi_worker_id w'))"
proof -
  from assms(2,3) obtain a where a: "map_of qb (wi_hotkey_ss58 w) = Some a" "account_eligible est flt a"
    "(wi_worker_id w, w) \<in> set (ma_workers a)" "worker_satisfies w r = Inr True"
    "qb' = AList.update (wi_hotkey_ss58 w) (a\<lparr>ma_inflight_cu := ma_inflight_cu a + est\<rparr>) qb"
    and best: "\<And>k' a' i' w'. (k', a') \<in> set qb \<Longrightarrow> account_eligible est flt a' \<Longrightarrow> (i', w') \<in> set (ma_workers a') \<Longrightarrow>
       worker_satisfies w' r = Inr True \<Longrightarrow>
       (- account_priority a, wi_hotkey_ss58 w, wi_worker_id w) \<le> (- account_priority a', wi_hotkey_ss58 w', wi_worker_id w')"
    unfolding r_def by (rule pick_worker_spec) blast
  have b: "account_priority a > account_priority a' \<or> account_priority a = account_priority a' \<and>
       (wi_hotkey_ss58 w, wi_worker_id w) \<le> (wi_hotkey_ss58 w', wi_worker_id w')"
    if "(k', a') \<in> set qb" "(i', w') \<in> set (ma_workers a')" "account_eligible est flt a'" "worker_satisfies w' r = Inr True"
    for k' a' i' w' using best [OF that(1,3,2,4)] by (subst (asm) less_eq_prod_simp) auto
  have "est \<le> available_quota a" using a(2) by (simp add: account_eligible_def)
  with a b show ?thesis by (intro exI [of _ a]) (auto simp: update_conv')
qed

theorem pick_worker_best_witness:
  "\<exists>qb'. pick_worker 2 None None sample_book = Inr (sample_worker ''B'' ''w0'', qb') \<and>
     map_of qb' ''A'' = map_of sample_book ''A''"
proof -
  obtain qb where qb: "pick_worker 2 None None sample_book = Inr (sample_worker ''B'' ''w0'', qb)" using sample_pick ..
  from pick_worker_best [OF qb sample_book_ok] obtain a where
    "map_of qb = (map_of sample_book)(wi_hotkey_ss58 (sample_worker ''B'' ''w0'') \<mapsto> a)" by blast
  then show ?thesis using qb by (simp add: sample_worker_def)
qed

text \<open>
  When every worker's advertised world size is readable, picking raises \<^verbatim>\<open>RuntimeError\<close> exactly when no worker of
  an eligible account satisfies the requirements; otherwise it returns a worker.
\<close>

theorem pick_worker_fails_iff:
  fixes req :: "ResourceRequirements option"
  defines "r \<equiv> case req of None \<Rightarrow> default_requirements | Some r \<Rightarrow> r"
  assumes "\<And>k a i w. (k, a) \<in> set qb \<Longrightarrow> (i, w) \<in> set (ma_workers a) \<Longrightarrow> \<exists>b. worker_satisfies w r = Inr b"
  shows "(\<exists>w qb'. pick_worker est req flt qb = Inr (w, qb')) =
      (\<exists>(k, a) \<in> set qb. account_eligible est flt a \<and> (\<exists>(i, w) \<in> set (ma_workers a). worker_satisfies w r = Inr True)) \<and>
      (pick_worker est req flt qb = Inl (RuntimeError ''no miner workers have quota for assignment'')) =
      (\<not> (\<exists>w qb'. pick_worker est req flt qb = Inr (w, qb')))"
proof -
  obtain cs where cs: "candidates r est flt qb = Inr cs" using candidates_total [of qb r est flt] assms(2) by blast
  have e: "(cs \<noteq> []) = (\<exists>(k, a) \<in> set qb. account_eligible est flt a \<and> (\<exists>(i, w) \<in> set (ma_workers a). worker_satisfies w r = Inr True))"
    by (simp only: ex_in_conv [symmetric] set_empty [symmetric] candidates_set [OF cs]) (auto 0 4)
  have y: "cs \<noteq> [] \<Longrightarrow> \<exists>w qb'. pick_worker est req flt qb = Inr (w, qb')"
    using pick_worker_has_candidate cs unfolding r_def by blast
  have n: "cs = [] \<Longrightarrow> pick_worker est req flt qb = Inl (RuntimeError ''no miner workers have quota for assignment'')"
    using cs unfolding r_def by (intro pick_worker_no_candidate) blast
  show ?thesis unfolding e [symmetric] using y n by (metis Inl_Inr_False)
qed

theorem pick_worker_fails_iff_witness:
  "pick_worker 6 None None sample_book = Inl (RuntimeError ''no miner workers have quota for assignment'')"
proof -
  have "\<not> (\<exists>(k, a) \<in> set sample_book. account_eligible 6 None a)"
    by (simp add: sample_book_eval account_eligible_def available_quota_def max_inflight_cu_def MinerAccount_new_def)
  moreover have "\<exists>b. worker_satisfies w default_requirements = Inr b"
    if "(k, a) \<in> set sample_book" "(i, w) \<in> set (ma_workers a)" for k a i w
    by (rule exI [of _ True]) (use that sample_satisfies in \<open>auto simp: sample_book_eval\<close>)
  ultimately show ?thesis
    using pick_worker_fails_iff [of sample_book None 6 None] by (simp add: case_prod_beta)
qed

text \<open>
  Releasing a picked job's charge restores the quota book, and releasing an unknown hotkey changes nothing.
\<close>

theorem release_undoes_pick:
  assumes "pick_worker est req flt qb = Inr (w, qb')" "book_ok qb"
  shows "release (wi_hotkey_ss58 w) est qb' = qb \<and> (map_of qb hk = None \<longrightarrow> release hk est qb = qb)"
proof -
  from assms obtain a where a: "map_of qb (wi_hotkey_ss58 w) = Some a"
    and q: "qb' = AList.update (wi_hotkey_ss58 w) (a\<lparr>ma_inflight_cu := ma_inflight_cu a + est\<rparr>) qb"
    by (rule pick_worker_spec)
  have "a\<lparr>ma_inflight_cu := max 0 (ma_inflight_cu a)\<rparr> = a"
    using book_ok_lookup [OF assms(2) a] by (simp add: account_ok_def max_def)
  then show ?thesis
    using a q by (simp add: release_def update_conv' alist_update_same update_update_same)
qed

theorem release_undoes_pick_witness:
  "\<exists>qb'. pick_worker 2 None None sample_book = Inr (sample_worker ''B'' ''w0'', qb') \<and>
     release (wi_hotkey_ss58 (sample_worker ''B'' ''w0'')) 2 qb' = sample_book"
  using sample_pick release_undoes_pick [OF _ sample_book_ok] by blast

end
