(* ===== verification/Crypto.thy ===== *)
theory Crypto
  imports Protocol_Codec Reference_Platform
begin

unbundle bit_operations_syntax

text \<open>
  \<^verbatim>\<open>teuton_runtime/crypto.py\<close>: the envelope around an artifact. A policy selects one of four modes; every
  mode but \<^verbatim>\<open>none\<close> wraps the bytes as base64 in a signed JSON envelope with the digests of plaintext and
  ciphertext. The timelock providers are records of two functions; the \<^verbatim>\<open>bittensor_drand\<close> package and the
  \<^verbatim>\<open>tle\<close> program are arguments.

  Shown: decoding undoes encoding in every mode; what decoding returns was signed by the identity the
  envelope names and has the digest that was signed; the XOR cipher is an involution whose key stream does not
  depend on the data.
\<close>

subsection \<open>Base64\<close>

definition b64_alphabet :: string where
  "b64_alphabet = ''ABCDEFGHIJKLMNOPQRSTUVWXYZabcdefghijklmnopqrstuvwxyz0123456789+/''"

definition b64_char :: "nat \<Rightarrow> char" where
  "b64_char n = b64_alphabet ! n"

fun b64_index :: "string \<Rightarrow> char \<Rightarrow> nat option" where
  "b64_index [] c = None"
| "b64_index (x # xs) c = (if x = c then Some 0 else map_option Suc (b64_index xs c))"

fun b64encode :: "bytes \<Rightarrow> string" where
  "b64encode [] = []"
| "b64encode [a] = [b64_char (unat a div 4), b64_char (unat a mod 4 * 16), CHR ''='', CHR ''='']"
| "b64encode [a, b] =
     [b64_char (unat a div 4), b64_char (unat a mod 4 * 16 + unat b div 16), b64_char (unat b mod 16 * 4), CHR ''='']"
| "b64encode (a # b # c # bs) =
     [b64_char (unat a div 4), b64_char (unat a mod 4 * 16 + unat b div 16),
      b64_char (unat b mod 16 * 4 + unat c div 64), b64_char (unat c mod 64)] @ b64encode bs"

text \<open>
  \<^verbatim>\<open>base64.b64decode(s)\<close> without validation, as \<^verbatim>\<open>binascii.a2b_base64\<close> runs: the position in the quad,
  the bits left over and the number of pads seen; characters outside the alphabet are skipped, a pad that
  completes the quad ends the input.
\<close>

fun b64_loop :: "nat \<Rightarrow> nat \<Rightarrow> nat \<Rightarrow> string \<Rightarrow> bytes res" where
  "b64_loop q left pads [] =
     (if q = 0 then Inr []
      else if q = 1 then Inl (ValueError ''number of data characters cannot be 1 more than a multiple of 4'')
      else Inl (ValueError ''Incorrect padding''))"
| "b64_loop q left pads (c # cs) =
     (if c = CHR ''='' then
        (if 2 \<le> q \<and> 4 \<le> q + (pads + 1) then Inr []
         else b64_loop q left (if 2 \<le> q then pads + 1 else pads) cs)
      else case b64_index b64_alphabet c of
             None \<Rightarrow> b64_loop q left pads cs
           | Some v \<Rightarrow>
               if q = 0 then b64_loop 1 v 0 cs
               else if q = 1 then bindE (b64_loop 2 (v mod 16) 0 cs) (\<lambda>bs. Inr (of_nat (left * 4 + v div 16) # bs))
               else if q = 2 then bindE (b64_loop 3 (v mod 4) 0 cs) (\<lambda>bs. Inr (of_nat (left * 16 + v div 4) # bs))
               else bindE (b64_loop 0 0 0 cs) (\<lambda>bs. Inr (of_nat (left * 64 + v) # bs)))"

definition b64decode :: "string \<Rightarrow> bytes res" where
  "b64decode s = b64_loop 0 0 0 s"

lemma less_64: "(n::nat) < 64 \<Longrightarrow> n \<in> set [0..<64]"
  by simp

lemma b64_index_char: "n < 64 \<Longrightarrow> b64_index b64_alphabet (b64_char n) = Some n"
proof -
  have "\<forall>n \<in> set [0..<64]. b64_index b64_alphabet (b64_char n) = Some n" by code_simp
  then show "n < 64 \<Longrightarrow> ?thesis" using less_64 by blast
qed

lemma b64_char_not_pad: "n < 64 \<Longrightarrow> b64_char n \<noteq> CHR ''=''"
proof -
  have "\<forall>n \<in> set [0..<64]. b64_char n \<noteq> CHR ''=''" by code_simp
  then show "n < 64 \<Longrightarrow> ?thesis" using less_64 by blast
qed

lemma b64_char_ascii: "n < 64 \<Longrightarrow> (of_char (b64_char n) :: nat) < 128"
proof -
  have "\<forall>n \<in> set [0..<64]. (of_char (b64_char n) :: nat) < 128" by code_simp
  then show "n < 64 \<Longrightarrow> ?thesis" using less_64 by blast
qed

lemma byte_div:
  "unat (a :: 8 word) div 4 < 64" "unat (a :: 8 word) div 16 < 16" "unat (a :: 8 word) div 64 < 4"
  using unat_byte_less [of a] by (auto simp: less_mult_imp_div_less)

lemma byte_bounds:
  "unat (a :: 8 word) div 4 < 64" "unat (a :: 8 word) mod 4 * 16 + unat (b :: 8 word) div 16 < 64"
  "unat b mod 16 * 4 + unat (c :: 8 word) div 64 < 64" "unat c mod 64 < 64"
  "unat a mod 4 * 16 < 64" "unat b mod 16 * 4 < 64"
proof -
  have "unat a mod 4 < 4" "unat b mod 16 < 16" by simp_all
  then show "unat a mod 4 * 16 + unat b div 16 < 64" "unat b mod 16 * 4 + unat c div 64 < 64"
    "unat a mod 4 * 16 < 64" "unat b mod 16 * 4 < 64"
    using byte_div(2) [of b] byte_div(3) [of c] by linarith+
qed (simp_all add: byte_div)

lemma pack_div_mod: "k < n \<Longrightarrow> (m * n + k) div n = (m::nat)" "k < n \<Longrightarrow> (m * n + k) mod n = (k::nat)"
  by simp_all

lemma b64_loop_step:
  assumes "v < 64"
  shows "b64_loop 0 l p (b64_char v # cs) = b64_loop 1 v 0 cs"
    "b64_loop (Suc 0) l p (b64_char v # cs) = bindE (b64_loop 2 (v mod 16) 0 cs) (\<lambda>bs. Inr (of_nat (l * 4 + v div 16) # bs))"
    "b64_loop 2 l p (b64_char v # cs) = bindE (b64_loop 3 (v mod 4) 0 cs) (\<lambda>bs. Inr (of_nat (l * 16 + v div 4) # bs))"
    "b64_loop 3 l p (b64_char v # cs) = bindE (b64_loop 0 0 0 cs) (\<lambda>bs. Inr (of_nat (l * 64 + v) # bs))"
  using assms by (simp_all add: b64_index_char b64_char_not_pad)

lemma of_nat_unat_byte: "of_nat (unat (a :: 8 word)) = a"
  by simp

lemma b64_bytes:
  "unat (a :: 8 word) div 4 * 4 + (unat a mod 4 * 16 + unat (b :: 8 word) div 16) div 16 = unat a"
  "(unat a mod 4 * 16 + unat b div 16) mod 16 * 16 + (unat b mod 16 * 4 + unat (c :: 8 word) div 64) div 4 = unat b"
  "(unat b mod 16 * 4 + unat c div 64) mod 4 * 64 + unat c mod 64 = unat c"
  "unat a div 4 * 4 + (unat a mod 4 * 16) div 16 = unat a"
  "(unat a mod 4 * 16 + unat b div 16) mod 16 * 16 + (unat b mod 16 * 4) div 4 = unat b"
  by (simp_all only: pack_div_mod byte_div) simp_all

lemma b64_quad:
  "b64_loop 0 0 0 (b64_char (unat a div 4) # b64_char (unat a mod 4 * 16 + unat b div 16) #
     b64_char (unat b mod 16 * 4 + unat c div 64) # b64_char (unat c mod 64) # s) =
   bindE (b64_loop 0 0 0 s) (\<lambda>bs. Inr ((a :: 8 word) # (b :: 8 word) # (c :: 8 word) # bs))"
proof (cases "b64_loop 0 0 0 s")
  case (Inr bs)
  show ?thesis
    by (simp only: b64_loop_step byte_bounds One_nat_def Inr bindE_simps b64_bytes of_nat_unat_byte)
qed (simp only: b64_loop_step byte_bounds One_nat_def bindE_simps)

lemma b64_pads:
  "b64_loop 2 l 0 ''=='' = Inr []" "b64_loop 3 l 0 ''='' = Inr []"
  by simp_all

lemma b64_roundtrip [simp]: "b64decode (b64encode bs) = Inr bs"
  unfolding b64decode_def
proof (induction bs rule: b64encode.induct)
  case (2 a)
  show ?case
    by (simp only: b64encode.simps b64_loop_step byte_bounds One_nat_def b64_pads bindE_simps b64_bytes of_nat_unat_byte)
next
  case (3 a b)
  show ?case
    by (simp only: b64encode.simps b64_loop_step byte_bounds One_nat_def b64_pads bindE_simps b64_bytes of_nat_unat_byte)
next
  case (4 a b c bs)
  then show ?case by (simp only: b64encode.simps append_Cons append_Nil b64_quad bindE_simps)
qed simp

lemma b64encode_ascii: "is_ascii (b64encode bs)"
  by (induction bs rule: b64encode.induct) (simp_all add: is_ascii_def b64_char_ascii byte_bounds)

subsection \<open>The XOR cipher\<close>

fun xor_loop :: "nat \<Rightarrow> bytes \<Rightarrow> bytes \<Rightarrow> bytes" where
  "xor_loop i stream [] = []"
| "xor_loop i stream (b # bs) =
     (let stream' = (if i \<noteq> 0 \<and> i mod length stream = 0 then sha256 stream else stream)
      in (b XOR stream' ! (i mod length stream')) # xor_loop (Suc i) stream' bs)"

definition xor_crypt :: "bytes \<Rightarrow> string \<Rightarrow> bytes" where
  "xor_crypt data key = xor_loop 0 (sha256 (utf8_encode key)) data"

text \<open>The reference: block \<open>j\<close> of the key stream is the key hashed \<open>j + 1\<close> times.\<close>

definition key_byte :: "string \<Rightarrow> nat \<Rightarrow> 8 word" where
  "key_byte key i = (sha256 ^^ Suc (i div 32)) (utf8_encode key) ! (i mod 32)"

lemma length_xor_loop [simp]: "length (xor_loop i st bs) = length bs"
  by (induction i st bs rule: xor_loop.induct) (simp_all add: Let_def)

lemma xor_loop_nth:
  assumes "st = (sha256 ^^ (if i = 0 then 1 else Suc ((i - 1) div 32))) k" "j < length bs"
  shows "xor_loop i st bs ! j = bs ! j XOR (sha256 ^^ Suc ((i + j) div 32)) k ! ((i + j) mod 32)"
  using assms
proof (induction i st bs arbitrary: j rule: xor_loop.induct)
  case (2 i st b bs)
  have len: "length st = 32" using 2(2) by (cases "i = 0") simp_all
  let ?st = "if i \<noteq> 0 \<and> i mod length st = 0 then sha256 st else st"
  have st: "?st = (sha256 ^^ Suc (i div 32)) k"
  proof (cases "i = 0")
    case False
    then obtain m where m: "i = Suc m" by (cases i) auto
    show ?thesis
    proof (cases "i mod 32 = 0")
      case True
      then have "Suc (m div 32) = i div 32" using m by (simp add: div_Suc)
      then show ?thesis using 2(2) True len m by simp
    next
      case False
      then have "m div 32 = i div 32" using m by (simp add: div_Suc)
      then show ?thesis using 2(2) False len m by simp
    qed
  qed (use 2(2) in simp)
  then have st': "?st = (sha256 ^^ (if Suc i = 0 then 1 else Suc ((Suc i - 1) div 32))) k" by simp
  have lst: "length ?st = 32" using len by simp
  show ?case
  proof (cases j)
    case 0
    then show ?thesis using st lst by (simp add: Let_def)
  next
    case (Suc n)
    then show ?thesis using 2(1) [OF refl st', of n] 2(3) by (simp add: Let_def)
  qed
qed simp

lemma xor_crypt_eq: "xor_crypt data key = map2 (XOR) data (map (key_byte key) [0..<length data])"
proof (rule nth_equalityI)
  fix j assume "j < length (xor_crypt data key)"
  then show "xor_crypt data key ! j = map2 (XOR) data (map (key_byte key) [0..<length data]) ! j"
    using xor_loop_nth [of "sha256 (utf8_encode key)" 0 "utf8_encode key" j data]
    by (simp add: xor_crypt_def key_byte_def)
qed (simp add: xor_crypt_def)

lemma length_xor_crypt [simp]: "length (xor_crypt data key) = length data"
  by (simp add: xor_crypt_def)

lemma xor_crypt_involution [simp]: "xor_crypt (xor_crypt data key) key = data"
  by (rule nth_equalityI) (simp_all add: xor_crypt_eq xor.assoc)

subsection \<open>Timelock providers\<close>

text \<open>\<^verbatim>\<open>DrandTimelockProvider\<close>: \<^verbatim>\<open>encrypt\<close> and \<^verbatim>\<open>decrypt\<close> of a byte string for a round under a policy.\<close>

record timelock_provider =
  tp_encrypt :: "bytes \<Rightarrow> int \<Rightarrow> ArtifactCryptoPolicy \<Rightarrow> bytes res"
  tp_decrypt :: "bytes \<Rightarrow> int \<Rightarrow> ArtifactCryptoPolicy \<Rightarrow> bytes res"

definition DRAND_QUICKNET_CHAIN_HASH :: string where
  "DRAND_QUICKNET_CHAIN_HASH = ''52db9ba70e0cc0f6eaf7803dd07447a1f5477735fd3f661792ba94600c84e971''"

definition DRAND_QUICKNET_API :: string where
  "DRAND_QUICKNET_API = ''https://api.drand.sh/''"

definition not_revealed :: "int \<Rightarrow> pyerr" where
  "not_revealed r = TimelockPending (''drand round '' @ show_int r @ '' is not revealed'')"

definition Mock_encrypt :: "string \<Rightarrow> bytes \<Rightarrow> int \<Rightarrow> ArtifactCryptoPolicy \<Rightarrow> bytes res" where
  "Mock_encrypt secret plaintext r policy = Inr (xor_crypt plaintext (secret @ '':'' @ show_int r))"

definition Mock_decrypt :: "int \<Rightarrow> string \<Rightarrow> bytes \<Rightarrow> int \<Rightarrow> ArtifactCryptoPolicy \<Rightarrow> bytes res" where
  "Mock_decrypt revealed_round secret ciphertext r policy =
     (if revealed_round < r then Inl (not_revealed r) else Inr (xor_crypt ciphertext (secret @ '':'' @ show_int r)))"

definition MockDrandTimelockProvider :: "int \<Rightarrow> string \<Rightarrow> timelock_provider" where
  "MockDrandTimelockProvider revealed_round secret =
     \<lparr>tp_encrypt = Mock_encrypt secret, tp_decrypt = Mock_decrypt revealed_round secret\<rparr>"

text \<open>
  The \<^verbatim>\<open>bittensor_drand\<close> package: \<^verbatim>\<open>encrypt_at_round\<close> gives the ciphertext and its reveal round,
  \<^verbatim>\<open>decrypt(..., no_errors=True)\<close> the plaintext or \<^verbatim>\<open>None\<close>.
\<close>

record drand_lib =
  dl_encrypt_at_round :: "bytes \<Rightarrow> int \<Rightarrow> (bytes \<times> int) res"
  dl_decrypt :: "bytes \<Rightarrow> bytes option res"

definition validate_policy :: "ArtifactCryptoPolicy \<Rightarrow> unit res" where
  "validate_policy policy =
     (if cp_drand_chain_hash policy \<notin> {None, Some [], Some DRAND_QUICKNET_CHAIN_HASH}
      then Inl (ValueError ''bittensor-drand provider supports only the default quicknet chain'')
      else if cp_drand_public_key policy \<notin> {None, Some []}
      then Inl (ValueError ''bittensor-drand provider does not accept custom drand public keys'')
      else Inr ())"

definition Bittensor_encrypt :: "drand_lib \<Rightarrow> bytes \<Rightarrow> int \<Rightarrow> ArtifactCryptoPolicy \<Rightarrow> bytes res" where
  "Bittensor_encrypt lib plaintext r policy =
     bindE (validate_policy policy) (\<lambda>_.
       bindE (dl_encrypt_at_round lib plaintext r) (\<lambda>(ciphertext, reveal_round).
         if reveal_round \<noteq> r
         then Inl (RuntimeError (''bittensor-drand returned reveal round '' @ show_int reveal_round @ '', expected '' @ show_int r))
         else Inr ciphertext))"

definition Bittensor_decrypt :: "drand_lib \<Rightarrow> bytes \<Rightarrow> int \<Rightarrow> ArtifactCryptoPolicy \<Rightarrow> bytes res" where
  "Bittensor_decrypt lib ciphertext r policy =
     bindE (validate_policy policy) (\<lambda>_.
       bindE (dl_decrypt lib ciphertext) (\<lambda>plaintext.
         case plaintext of None \<Rightarrow> Inl (not_revealed r) | Some p \<Rightarrow> Inr p))"

text \<open>\<^verbatim>\<open>BittensorDrandTimelockProvider()\<close>; \<open>None\<close> when the package cannot be imported.\<close>

definition BittensorDrandTimelockProvider :: "drand_lib option \<Rightarrow> timelock_provider res" where
  "BittensorDrandTimelockProvider drand =
     (case drand of
        None \<Rightarrow> Inl (RuntimeError ''bittensor-drand is required for drand timelock.'')
      | Some lib \<Rightarrow> Inr \<lparr>tp_encrypt = Bittensor_encrypt lib, tp_decrypt = Bittensor_decrypt lib\<rparr>)"

text \<open>
  \<^verbatim>\<open>DrandTlockProvider\<close> runs the \<^verbatim>\<open>tle\<close> program. The host is an argument: \<^verbatim>\<open>shutil.which\<close>, the output of
  \<^verbatim>\<open>go env GOPATH\<close>, \<^verbatim>\<open>os.path.exists\<close>, and a run of a command line with the bytes of its input file, which
  gives the return code, the two output streams and the bytes of the output file, or raises on a timeout.
\<close>

record tle_result =
  tr_returncode :: int
  tr_stdout :: string
  tr_stderr :: string
  tr_output :: "bytes option"

record tle_host =
  th_which :: "string \<Rightarrow> string option"
  th_go_env :: "string \<Rightarrow> string res"
  th_exists :: "string \<Rightarrow> bool"
  th_run :: "string list \<Rightarrow> int \<Rightarrow> bytes \<Rightarrow> tle_result res"

record DrandTlockProvider =
  dt_network :: string
  dt_chain_hash :: string
  dt_tle_path :: "string option"
  dt_timeout_sec :: int
  dt_force_past_round_encrypt :: bool

definition tlock_network :: "DrandTlockProvider \<Rightarrow> ArtifactCryptoPolicy \<Rightarrow> string" where
  "tlock_network self policy = str_or (cp_key_id policy) (dt_network self)"

definition tlock_chain_hash :: "DrandTlockProvider \<Rightarrow> ArtifactCryptoPolicy \<Rightarrow> string" where
  "tlock_chain_hash self policy = str_or (cp_drand_chain_hash policy) (dt_chain_hash self)"

definition path_join :: "string \<Rightarrow> string \<Rightarrow> string" where
  "path_join a b = (if starts_with b ''/'' then b else if a = [] \<or> ends_with a ''/'' then a @ b else a @ ''/'' @ b)"

definition tlock_tle :: "tle_host \<Rightarrow> DrandTlockProvider \<Rightarrow> string res" where
  "tlock_tle H self =
     (let path = str_or (dt_tle_path self) (str_or (th_which H ''tle'') []);
          missing = Inl (RuntimeError (''drand timelock requires the official `tle` CLI. '' @
            ''Install it with: go install github.com/drand/tlock/cmd/tle@latest''))
      in if path \<noteq> [] then Inr path
         else let go_path = str_or (th_which H ''go'') []
              in if go_path = [] then missing
                 else case th_go_env H go_path of
                        Inl e \<Rightarrow> if caught e then missing else Inl e
                      | Inr out \<Rightarrow>
                          let candidate = path_join (path_join (strip out) ''bin'') ''tle''
                          in if th_exists H candidate then Inr candidate else missing)"

definition tlock_run :: "tle_result \<Rightarrow> unit res" where
  "tlock_run proc =
     (if tr_returncode proc = 0 then Inr ()
      else let msg = (if tr_stderr proc \<noteq> [] then tr_stderr proc else tr_stdout proc); low = lower msg
           in if contains low ''too early'' \<or> contains low ''no beacon'' \<or> contains low ''not found''
              then Inl (TimelockPending (if strip msg \<noteq> [] then strip msg else ''drand round is not revealed''))
              else Inl (RuntimeError (''tle command failed: '' @ strip msg)))"

definition tlock_output :: "tle_result \<Rightarrow> bytes res" where
  "tlock_output proc =
     bindE (tlock_run proc) (\<lambda>_. case tr_output proc of None \<Rightarrow> Inl (FileNotFoundError ''tle output'') | Some b \<Rightarrow> Inr b)"

definition tlock_encrypt ::
  "tle_host \<Rightarrow> string \<Rightarrow> DrandTlockProvider \<Rightarrow> bytes \<Rightarrow> int \<Rightarrow> ArtifactCryptoPolicy \<Rightarrow> bytes res" where
  "tlock_encrypt H tmp self plaintext r policy =
     bindE (tlock_tle H self) (\<lambda>path.
       bindE (th_run H ([path, ''--encrypt'', ''--network'', tlock_network self policy,
           ''--chain'', tlock_chain_hash self policy, ''--round'', show_int r, ''--output'', path_join tmp ''cipher.tle''] @
           (if dt_force_past_round_encrypt self then [''--force''] else []) @ [path_join tmp ''plain.bin''])
         (dt_timeout_sec self) plaintext) tlock_output)"

definition tlock_decrypt ::
  "tle_host \<Rightarrow> string \<Rightarrow> DrandTlockProvider \<Rightarrow> bytes \<Rightarrow> int \<Rightarrow> ArtifactCryptoPolicy \<Rightarrow> bytes res" where
  "tlock_decrypt H tmp self ciphertext r policy =
     bindE (tlock_tle H self) (\<lambda>path.
       bindE (th_run H [path, ''--decrypt'', ''--network'', tlock_network self policy,
           ''--chain'', tlock_chain_hash self policy, ''--output'', path_join tmp ''plain.bin'', path_join tmp ''cipher.tle'']
         (dt_timeout_sec self) ciphertext) tlock_output)"

definition DrandTlockProvider_provider :: "tle_host \<Rightarrow> string \<Rightarrow> DrandTlockProvider \<Rightarrow> timelock_provider" where
  "DrandTlockProvider_provider H tmp self =
     \<lparr>tp_encrypt = tlock_encrypt H tmp self, tp_decrypt = tlock_decrypt H tmp self\<rparr>"

subsection \<open>Envelopes\<close>

definition ArtifactCryptoPolicy_default :: ArtifactCryptoPolicy where
  "ArtifactCryptoPolicy_default =
     \<lparr>cp_mode = ''none'', cp_required_signer = None, cp_recipient = None, cp_cipher_suite = ''xor-dev-v1'', cp_key_id = None,
      cp_drand_round = None, cp_drand_chain_hash = None, cp_drand_public_key = None\<rparr>"

definition default_policy :: "ArtifactCryptoPolicy option \<Rightarrow> ArtifactCryptoPolicy" where
  "default_policy p = (case p of None \<Rightarrow> ArtifactCryptoPolicy_default | Some q \<Rightarrow> q)"

text \<open>
  \<^verbatim>\<open>latest_round\<close> asks a relay over HTTP; \<^verbatim>\<open>urlopen\<close> with the provider's timeout is an argument, and only an
  \<^verbatim>\<open>HTTPError\<close> leads to the second address.
\<close>

datatype url_result = Body bytes | HTTPError string | Failed pyerr

definition round_of_body :: "platform \<Rightarrow> bytes \<Rightarrow> int res" where
  "round_of_body P body =
     bindE (utf8_decode body) (\<lambda>s. bindE (loads P s) (\<lambda>v. bindE (as_mapping v) (\<lambda>d. bindE (get_req d ''round'') py_int)))"

definition rstrip_slash :: "string \<Rightarrow> string" where
  "rstrip_slash s = rev (dropWhile (\<lambda>c. c = CHR ''/'') (rev s))"

definition tlock_latest_round ::
  "platform \<Rightarrow> (string \<Rightarrow> int \<Rightarrow> url_result) \<Rightarrow> DrandTlockProvider \<Rightarrow> ArtifactCryptoPolicy option \<Rightarrow> int res" where
  "tlock_latest_round P urlopen self pol =
     (let policy = default_policy pol; base = rstrip_slash (tlock_network self policy)
      in case urlopen (base @ ''/'' @ tlock_chain_hash self policy @ ''/public/latest'') (dt_timeout_sec self) of
           Body body \<Rightarrow> round_of_body P body
         | Failed e \<Rightarrow> Inl e
         | HTTPError _ \<Rightarrow>
             (case urlopen (base @ ''/public/latest'') (dt_timeout_sec self) of
                Body body \<Rightarrow> round_of_body P body
              | HTTPError m \<Rightarrow> Inl (RuntimeError m)
              | Failed e \<Rightarrow> Inl e))"

definition provider_or_default :: "drand_lib option \<Rightarrow> timelock_provider option \<Rightarrow> timelock_provider res" where
  "provider_or_default drand tp = (case tp of Some p \<Rightarrow> Inr p | None \<Rightarrow> BittensorDrandTimelockProvider drand)"

definition encrypt_payload ::
  "drand_lib option \<Rightarrow> bytes \<Rightarrow> ArtifactCryptoPolicy \<Rightarrow> string \<Rightarrow> timelock_provider option \<Rightarrow> bytes res" where
  "encrypt_payload drand plaintext policy secret tp =
     (if cp_mode policy = ''encrypted'' then Inr (xor_crypt plaintext (str_or (cp_key_id policy) secret))
      else if cp_mode policy = ''drand_timelock'' then
        (case cp_drand_round policy of
           None \<Rightarrow> Inl (ValueError ''drand_timelock policy requires drand_round'')
         | Some r \<Rightarrow> bindE (provider_or_default drand tp) (\<lambda>p. tp_encrypt p plaintext r policy))
      else if cp_mode policy \<noteq> ''signed'' then Inl (ValueError (''unknown crypto mode: '' @ cp_mode policy))
      else Inr plaintext)"

definition signer_identity :: "signer option \<Rightarrow> string option" where
  "signer_identity s = (case s of Some (SignerObj i _) \<Rightarrow> Some i | _ \<Rightarrow> None)"

definition unsigned_envelope :: "bytes \<Rightarrow> bytes \<Rightarrow> ArtifactCryptoPolicy \<Rightarrow> string option \<Rightarrow> ArtifactEnvelope" where
  "unsigned_envelope plaintext ciphertext policy ident =
     \<lparr>en_crypto_mode = cp_mode policy, en_payload_b64 = b64encode ciphertext,
      en_plaintext_sha256 = sha256_hex plaintext, en_ciphertext_sha256 = sha256_hex ciphertext,
      en_signer = ident, en_signature = None, en_cipher_suite = Some (cp_cipher_suite policy),
      en_key_id = cp_key_id policy, en_drand_round = cp_drand_round policy,
      en_drand_chain_hash = cp_drand_chain_hash policy, en_drand_public_key = cp_drand_public_key policy,
      en_schema_version = 1\<rparr>"

definition sign_envelope :: "platform \<Rightarrow> signer option \<Rightarrow> ArtifactEnvelope \<Rightarrow> ArtifactEnvelope res" where
  "sign_envelope P s env =
     (case s of
        None \<Rightarrow> Inr env
      | Some (Secret _) \<Rightarrow> Inl AttributeError
      | Some (SignerObj _ sign) \<Rightarrow>
          Inr (env\<lparr>en_signature := Some (sign (canonical_json P (JObj (ArtifactEnvelope_signed_payload_dict env))))\<rparr>))"

definition encode_envelope ::
  "platform \<Rightarrow> drand_lib option \<Rightarrow> bytes \<Rightarrow> ArtifactCryptoPolicy option \<Rightarrow> signer option \<Rightarrow> string \<Rightarrow> timelock_provider option \<Rightarrow> bytes res" where
  "encode_envelope P drand plaintext pol s secret tp =
     (let policy = default_policy pol
      in if cp_mode policy = ''none'' then Inr plaintext
         else bindE (encrypt_payload drand plaintext policy secret tp) (\<lambda>ciphertext.
           bindE (sign_envelope P s (unsigned_envelope plaintext ciphertext policy (signer_identity s))) (\<lambda>env.
             Inr (utf8_encode (dumps P True (JObj (ArtifactEnvelope_to_dict env)))))))"

type_synonym verifier = "bytes \<Rightarrow> string \<Rightarrow> string option \<Rightarrow> bool res"

definition verify_artifact_envelope ::
  "platform \<Rightarrow> ArtifactEnvelope \<Rightarrow> ArtifactCryptoPolicy \<Rightarrow> verifier option \<Rightarrow> unit res" where
  "verify_artifact_envelope P env policy verifier =
     (if en_crypto_mode env \<noteq> cp_mode policy
      then Inl (ValueError (''artifact crypto mode mismatch: '' @ en_crypto_mode env @ '' != '' @ cp_mode policy))
      else if cp_required_signer policy \<notin> {None, Some []} \<and> en_signer env \<noteq> cp_required_signer policy
      then Inl (ValueError ''artifact signer mismatch'')
      else if cp_mode policy \<in> {''signed'', ''encrypted'', ''drand_timelock''} then
        (case en_signature env of
           None \<Rightarrow> Inl (ValueError ''artifact signature missing'')
         | Some sig \<Rightarrow>
             if sig = [] then Inl (ValueError ''artifact signature missing'')
             else case verifier of
                    None \<Rightarrow> Inr ()
                  | Some verify \<Rightarrow>
                      bindE (verify (canonical_json P (JObj (ArtifactEnvelope_signed_payload_dict env))) sig (en_signer env)) (\<lambda>ok.
                        if ok then Inr () else Inl (ValueError ''artifact signature verification failed'')))
      else Inr ())"

definition decode_payload :: "string \<Rightarrow> bytes res" where
  "decode_payload s = (if is_ascii s then b64decode s else Inl (ValueError ''UnicodeEncodeError''))"

definition decrypt_payload ::
  "drand_lib option \<Rightarrow> bytes \<Rightarrow> ArtifactCryptoPolicy \<Rightarrow> string \<Rightarrow> timelock_provider option \<Rightarrow> bytes res" where
  "decrypt_payload drand ciphertext policy secret tp =
     (if cp_mode policy = ''signed'' then Inr ciphertext
      else if cp_mode policy = ''encrypted'' then Inr (xor_crypt ciphertext (str_or (cp_key_id policy) secret))
      else if cp_mode policy = ''drand_timelock'' then
        (case cp_drand_round policy of
           None \<Rightarrow> Inl (ValueError ''drand_timelock policy requires drand_round'')
         | Some r \<Rightarrow> bindE (provider_or_default drand tp) (\<lambda>p. tp_decrypt p ciphertext r policy))
      else Inl (ValueError (''unknown crypto mode: '' @ cp_mode policy)))"

definition parse_envelope :: "platform \<Rightarrow> bytes \<Rightarrow> ArtifactEnvelope res" where
  "parse_envelope P blob =
     bindE (utf8_decode blob) (\<lambda>s. bindE (loads P s) (\<lambda>v. bindE (as_mapping v) ArtifactEnvelope_from_dict))"

definition decode_envelope ::
  "platform \<Rightarrow> drand_lib option \<Rightarrow> bytes \<Rightarrow> ArtifactCryptoPolicy option \<Rightarrow> verifier option \<Rightarrow> string \<Rightarrow> timelock_provider option \<Rightarrow> bytes res" where
  "decode_envelope P drand blob pol verifier secret tp =
     (let policy = default_policy pol
      in if cp_mode policy = ''none'' then Inr blob
         else bindE (parse_envelope P blob) (\<lambda>env.
           bindE (verify_artifact_envelope P env policy verifier) (\<lambda>_.
           bindE (decode_payload (en_payload_b64 env)) (\<lambda>ciphertext.
             if sha256_hex ciphertext \<noteq> en_ciphertext_sha256 env then Inl (ValueError ''artifact ciphertext digest mismatch'')
             else bindE (decrypt_payload drand ciphertext policy secret tp) (\<lambda>plaintext.
               if sha256_hex plaintext \<noteq> en_plaintext_sha256 env then Inl (ValueError ''artifact plaintext digest mismatch'')
               else Inr plaintext)))))"

definition artifact_digest_from_blob :: "platform \<Rightarrow> bytes \<Rightarrow> ArtifactCryptoPolicy option \<Rightarrow> dict res" where
  "artifact_digest_from_blob P blob pol =
     (let policy = default_policy pol
      in if cp_mode policy = ''none''
         then Inr [(''sha256'', JStr (sha256_hex blob)), (''size_bytes'', JInt (int (length blob))), (''crypto_mode'', JStr (cp_mode policy))]
         else bindE (parse_envelope P blob) (\<lambda>env.
           Inr [(''sha256'', JStr (sha256_hex blob)), (''size_bytes'', JInt (int (length blob))),
                (''plaintext_sha256'', JStr (en_plaintext_sha256 env)), (''ciphertext_sha256'', JStr (en_ciphertext_sha256 env)),
                (''envelope_sha256'', JStr (sha256_hex blob)), (''signature'', opt_json JStr (en_signature env)),
                (''crypto_mode'', JStr (en_crypto_mode env))]))"

subsection \<open>What decoding establishes\<close>

lemma verify_envelope_Inr:
  assumes "verify_artifact_envelope P env policy (Some verify) = Inr ()" "cp_mode policy \<in> {''signed'', ''encrypted'', ''drand_timelock''}"
  shows "en_crypto_mode env = cp_mode policy \<and> (cp_required_signer policy \<notin> {None, Some []} \<longrightarrow> en_signer env = cp_required_signer policy) \<and>
    (\<exists>sig. en_signature env = Some sig \<and> sig \<noteq> [] \<and>
       verify (canonical_json P (JObj (ArtifactEnvelope_signed_payload_dict env))) sig (en_signer env) = Inr True)"
  using assms unfolding verify_artifact_envelope_def
  by (auto simp: bindE_eq_Inr split: if_splits option.splits)

lemma decode_envelope_cases:
  assumes "decode_envelope P drand blob pol verifier secret tp = Inr plaintext" "cp_mode (default_policy pol) \<noteq> ''none''"
  obtains env ciphertext where "parse_envelope P blob = Inr env"
    "verify_artifact_envelope P env (default_policy pol) verifier = Inr ()"
    "decode_payload (en_payload_b64 env) = Inr ciphertext" "sha256_hex ciphertext = en_ciphertext_sha256 env"
    "decrypt_payload drand ciphertext (default_policy pol) secret tp = Inr plaintext"
    "sha256_hex plaintext = en_plaintext_sha256 env"
  using assms by (auto simp: decode_envelope_def Let_def bindE_eq_Inr split: if_splits)

lemma decrypt_payload_mode:
  "decrypt_payload drand c policy secret tp = Inr p \<Longrightarrow> cp_mode policy \<in> {''signed'', ''encrypted'', ''drand_timelock''}"
  by (auto simp: decrypt_payload_def split: if_splits)

lemma parse_encoded:
  assumes "float_codec P"
  shows "parse_envelope P (utf8_encode (dumps P True (JObj (ArtifactEnvelope_to_dict env)))) = Inr env"
proof -
  have "wf_dict (ArtifactEnvelope_to_dict env)"
    by (simp add: ArtifactEnvelope_to_dict_def ArtifactEnvelope_signed_payload_dict_def dict_simps)
  then have "loads P (dumps P True (JObj (ArtifactEnvelope_to_dict env))) = Inr (norm_json (JObj (ArtifactEnvelope_to_dict env)))"
    using loads_dumps [OF assms, of "JObj (ArtifactEnvelope_to_dict env)"] by simp
  then show ?thesis by (simp add: parse_envelope_def canon.ArtifactEnvelope_decode)
qed

lemma encode_envelope_cases:
  assumes "encode_envelope P drand plaintext pol s secret tp = Inr blob" "cp_mode (default_policy pol) \<noteq> ''none''"
  obtains ciphertext env where "encrypt_payload drand plaintext (default_policy pol) secret tp = Inr ciphertext"
    "sign_envelope P s (unsigned_envelope plaintext ciphertext (default_policy pol) (signer_identity s)) = Inr env"
    "blob = utf8_encode (dumps P True (JObj (ArtifactEnvelope_to_dict env)))"
  using assms by (auto simp: encode_envelope_def Let_def bindE_eq_Inr)

lemma sign_envelope_fields:
  assumes "sign_envelope P s env = Inr env'"
  shows "ArtifactEnvelope_signed_payload_dict env' = ArtifactEnvelope_signed_payload_dict env"
    "en_payload_b64 env' = en_payload_b64 env" "en_key_id env' = en_key_id env"
    "en_plaintext_sha256 env' = en_plaintext_sha256 env" "en_ciphertext_sha256 env' = en_ciphertext_sha256 env"
    "en_signer env' = en_signer env" "en_crypto_mode env' = en_crypto_mode env"
  using assms by (auto simp: sign_envelope_def ArtifactEnvelope_signed_payload_dict_def split: option.splits signer.splits)

lemma decode_payload_b64 [simp]: "decode_payload (b64encode c) = Inr c"
  by (simp add: decode_payload_def b64encode_ascii)

subsection \<open>The timelock interface\<close>

text \<open>What an envelope needs of a provider: a round that is revealed decrypts what was encrypted for it.\<close>

locale timelock =
  fixes provider :: timelock_provider and revealed :: "int \<Rightarrow> bool"
  assumes decrypt_encrypt: "tp_encrypt provider p r policy = Inr c \<Longrightarrow> revealed r \<Longrightarrow> tp_decrypt provider c r policy = Inr p"
begin

definition ready :: "ArtifactCryptoPolicy \<Rightarrow> bool" where
  "ready policy = (cp_mode policy = ''drand_timelock'' \<longrightarrow> (\<exists>r. cp_drand_round policy = Some r \<and> revealed r))"

lemma decrypt_encrypt_payload:
  assumes "encrypt_payload drand p policy secret (Some provider) = Inr c" "ready policy" "cp_mode policy \<noteq> ''none''"
  shows "decrypt_payload drand c policy secret (Some provider) = Inr p"
  using assms by (auto simp: encrypt_payload_def decrypt_payload_def provider_or_default_def ready_def
      split: if_splits option.splits intro: decrypt_encrypt)

lemma decode_encode:
  assumes "float_codec P" "encode_envelope P drand p pol (Some (SignerObj i sign)) secret (Some provider) = Inr blob"
    and "ready (default_policy pol)" "cp_required_signer (default_policy pol) \<in> {None, Some [], Some i}"
    and "\<And>payload. sign payload \<noteq> []" "\<And>payload. verify payload (sign payload) (Some i) = Inr True"
  shows "decode_envelope P drand blob pol (Some verify) secret (Some provider) = Inr p"
proof (cases "cp_mode (default_policy pol) = ''none''")
  case True
  then show ?thesis using assms(2) by (simp add: encode_envelope_def decode_envelope_def)
next
  case False
  let ?pol = "default_policy pol"
  obtain c env where c: "encrypt_payload drand p ?pol secret (Some provider) = Inr c"
    and env: "sign_envelope P (Some (SignerObj i sign)) (unsigned_envelope p c ?pol (Some i)) = Inr env"
    and blob: "blob = utf8_encode (dumps P True (JObj (ArtifactEnvelope_to_dict env)))"
    by (rule encode_envelope_cases [OF assms(2) False]) (simp add: signer_identity_def)
  note f = sign_envelope_fields [OF env]
  have sg: "en_signature env = Some (sign (canonical_json P (JObj (ArtifactEnvelope_signed_payload_dict env))))"
    using env f(1) by (auto simp: sign_envelope_def)
  have md: "en_crypto_mode env = cp_mode ?pol" and sr: "en_signer env = Some i"
    using f(6,7) by (simp_all add: unsigned_envelope_def)
  have "cp_required_signer ?pol \<notin> {None, Some []} \<and> en_signer env \<noteq> cp_required_signer ?pol \<longleftrightarrow> False"
    using assms(4) sr by auto
  then have "verify_artifact_envelope P env ?pol (Some verify) = Inr ()"
    unfolding verify_artifact_envelope_def sg sr md by (simp add: assms(5,6))
  moreover have "decrypt_payload drand c ?pol secret (Some provider) = Inr p"
    by (rule decrypt_encrypt_payload [OF c assms(3) False])
  moreover have "parse_envelope P blob = Inr env" unfolding blob by (rule parse_encoded [OF assms(1)])
  moreover have "en_payload_b64 env = b64encode c" "en_ciphertext_sha256 env = sha256_hex c" "en_plaintext_sha256 env = sha256_hex p"
    using f(2,4,5) by (simp_all add: unsigned_envelope_def)
  ultimately show ?thesis
    unfolding decode_envelope_def Let_def using False by (simp only: if_False bindE_simps decode_payload_b64 simp_thms)
qed

end

interpretation mock: timelock "MockDrandTimelockProvider revealed_round secret" "\<lambda>r. r \<le> revealed_round" for revealed_round secret
  by unfold_locales (auto simp: MockDrandTimelockProvider_def Mock_encrypt_def Mock_decrypt_def)

end
