(* ===== verification/Crypto_Properties.thy ===== *)
theory Crypto_Properties
  imports Crypto
begin

text \<open>
  The properties of artifact envelopes (\<^verbatim>\<open>teuton_runtime/crypto.py\<close>): round trip, authenticity, the
  cipher against its reference, and the disclosure of the key by policies that name one.
\<close>

subsection \<open>Sample envelope\<close>

definition sample_policy :: ArtifactCryptoPolicy where
  "sample_policy = ArtifactCryptoPolicy_default\<lparr>cp_mode := ''drand_timelock'', cp_required_signer := Some ''hk'', cp_drand_round := Some 5\<rparr>"

lemma hmac_signer_verifies:
  "IdentityVerifier_verify P payload (sign_payload payload i) (Some i) = Inr True" if "i \<noteq> []"
  using that by (simp add: IdentityVerifier_verify_def verify_identity_payload_def verify_payload_def compare_digest_def)

lemma sign_payload_ne: "sign_payload payload i \<noteq> []"
  by (simp add: sign_payload_def)

subsection \<open>Properties\<close>

text \<open>
  C26. Decoding undoes encoding. In each of the four modes, what \<^verbatim>\<open>encode_envelope\<close> produces with a signer
  \<^verbatim>\<open>decode_envelope\<close> turns back into the plaintext, provided the verifier accepts that signer's signatures,
  the policy requires no other signer, and for a timelock the provider decrypts the round; encoding itself
  never fails in the modes none, signed and encrypted.
\<close>

theorem envelope_roundtrip:
  assumes "float_codec P"
    and "cp_required_signer (default_policy pol) \<in> {None, Some [], Some i}"
    and "\<And>payload. sign payload \<noteq> []" "\<And>payload. verify payload (sign payload) (Some i) = Inr True"
    and "\<And>p r policy c. tp_encrypt tp p r policy = Inr c \<Longrightarrow> revealed r \<Longrightarrow> tp_decrypt tp c r policy = Inr p"
    and "cp_mode (default_policy pol) = ''drand_timelock'' \<Longrightarrow> \<exists>r. cp_drand_round (default_policy pol) = Some r \<and> revealed r"
  shows "(\<forall>blob. encode_envelope P drand plaintext pol (Some (SignerObj i sign)) secret (Some tp) = Inr blob \<longrightarrow>
       decode_envelope P drand blob pol (Some verify) secret (Some tp) = Inr plaintext) \<and>
    (cp_mode (default_policy pol) \<in> {''none'', ''signed'', ''encrypted''} \<longrightarrow>
       (\<exists>blob. encode_envelope P drand plaintext pol (Some (SignerObj i sign)) secret (Some tp) = Inr blob))"
proof (intro conjI allI impI)
  have tl: "timelock tp revealed" by unfold_locales (rule assms(5))
  fix blob assume "encode_envelope P drand plaintext pol (Some (SignerObj i sign)) secret (Some tp) = Inr blob"
  then show "decode_envelope P drand blob pol (Some verify) secret (Some tp) = Inr plaintext"
    by (rule timelock.decode_encode [OF tl assms(1)]) (use assms in \<open>auto simp: timelock.ready_def [OF tl]\<close>)
next
  assume "cp_mode (default_policy pol) \<in> {''none'', ''signed'', ''encrypted''}"
  then show "\<exists>blob. encode_envelope P drand plaintext pol (Some (SignerObj i sign)) secret (Some tp) = Inr blob"
    by (auto simp: encode_envelope_def encrypt_payload_def sign_envelope_def Let_def)
qed

theorem envelope_roundtrip_witness:
  "\<exists>blob. encode_envelope reference_platform None [1, 2, 3] (Some sample_policy) (Some (HmacSigner ''hk'' ''hk'')) ''s''
      (Some (MockDrandTimelockProvider 7 ''m'')) = Inr blob \<and>
    decode_envelope reference_platform None blob (Some sample_policy) (Some (IdentityVerifier_verify reference_platform)) ''s''
      (Some (MockDrandTimelockProvider 7 ''m'')) = Inr [1, 2, 3]"
proof -
  let ?tp = "MockDrandTimelockProvider 7 ''m''"
  have pol: "cp_mode (default_policy (Some sample_policy)) = ''drand_timelock''"
    "cp_drand_round (default_policy (Some sample_policy)) = Some 5"
    "cp_required_signer (default_policy (Some sample_policy)) = Some ''hk''"
    by (simp_all add: default_policy_def sample_policy_def)
  obtain blob where b: "encode_envelope reference_platform None [1, 2, 3] (Some sample_policy) (Some (HmacSigner ''hk'' ''hk'')) ''s'' (Some ?tp) = Inr blob"
    unfolding encode_envelope_def encrypt_payload_def
    by (simp add: Let_def pol provider_or_default_def MockDrandTimelockProvider_def Mock_encrypt_def sign_envelope_def HmacSigner_def)
  have "decode_envelope reference_platform None blob (Some sample_policy) (Some (IdentityVerifier_verify reference_platform)) ''s'' (Some ?tp) = Inr [1, 2, 3]"
    by (rule envelope_roundtrip [where revealed = "\<lambda>r. r \<le> 7", THEN conjunct1, rule_format, OF reference_float_codec _ _ _ _ _ b [unfolded HmacSigner_def]])
      (auto simp: pol sign_payload_ne hmac_signer_verifies MockDrandTimelockProvider_def Mock_encrypt_def Mock_decrypt_def)
  with b show ?thesis by blast
qed

text \<open>
  C27. Authenticity. Whenever \<^verbatim>\<open>decode_envelope\<close> with a verifier returns bytes under a policy other than none,
  the blob parses to an envelope of the policy's mode whose signature the verifier accepted for the signer it
  names, which is the required signer if there is one, and the bytes have the plaintext digest that was
  signed: two envelopes with the same signed content decode to the same bytes or exhibit a SHA-256 collision.
\<close>

theorem decode_envelope_authentic:
  assumes "decode_envelope P drand blob pol (Some verify) secret tp = Inr plaintext"
    and "cp_mode (default_policy pol) \<noteq> ''none''"
  shows "\<exists>env sig. parse_envelope P blob = Inr env \<and> en_crypto_mode env = cp_mode (default_policy pol) \<and>
    en_signature env = Some sig \<and> sig \<noteq> [] \<and>
    verify (canonical_json P (JObj (ArtifactEnvelope_signed_payload_dict env))) sig (en_signer env) = Inr True \<and>
    (cp_required_signer (default_policy pol) \<notin> {None, Some []} \<longrightarrow> en_signer env = cp_required_signer (default_policy pol)) \<and>
    (\<forall>blob' pol' secret' tp' plaintext' env'. parse_envelope P blob' = Inr env' \<and>
       en_plaintext_sha256 env' = en_plaintext_sha256 env \<and> cp_mode (default_policy pol') \<noteq> ''none'' \<and>
       decode_envelope P drand blob' pol' (Some verify) secret' tp' = Inr plaintext' \<longrightarrow>
       plaintext' = plaintext \<or> collision sha256 plaintext' plaintext)"
proof -
  obtain env c where e: "parse_envelope P blob = Inr env"
    "verify_artifact_envelope P env (default_policy pol) (Some verify) = Inr ()"
    "decrypt_payload drand c (default_policy pol) secret tp = Inr plaintext" "sha256_hex plaintext = en_plaintext_sha256 env"
    using decode_envelope_cases [OF assms] by metis
  have "plaintext' = plaintext \<or> collision sha256 plaintext' plaintext"
    if "parse_envelope P blob' = Inr env'" "en_plaintext_sha256 env' = en_plaintext_sha256 env"
      "cp_mode (default_policy pol') \<noteq> ''none''" "decode_envelope P drand blob' pol' (Some verify) secret' tp' = Inr plaintext'"
    for blob' pol' secret' tp' plaintext' env'
  proof -
    have "sha256_hex plaintext' = en_plaintext_sha256 env'"
      using decode_envelope_cases [OF that(4,3)] that(1) by (metis sum.inject(2))
    then show ?thesis using e(4) that(2) sha256_hex_eq [of plaintext' plaintext] by simp
  qed
  with verify_envelope_Inr [OF e(2) decrypt_payload_mode [OF e(3)]] e(1) show ?thesis by blast
qed

theorem decode_envelope_authentic_witness:
  "\<exists>blob env. encode_envelope reference_platform None [1, 2, 3] (Some sample_policy) (Some (HmacSigner ''hk'' ''hk'')) ''s''
      (Some (MockDrandTimelockProvider 7 ''m'')) = Inr blob \<and>
    parse_envelope reference_platform blob = Inr env \<and> en_signer env = Some ''hk''"
proof -
  have pol: "cp_mode (default_policy (Some sample_policy)) \<noteq> ''none''"
    "cp_required_signer (default_policy (Some sample_policy)) = Some ''hk''"
    by (simp_all add: default_policy_def sample_policy_def)
  have "\<exists>blob. encode_envelope reference_platform None [1, 2, 3] (Some sample_policy) (Some (HmacSigner ''hk'' ''hk'')) ''s''
      (Some (MockDrandTimelockProvider 7 ''m'')) = Inr blob"
    by (simp add: Let_def encode_envelope_def encrypt_payload_def default_policy_def sample_policy_def provider_or_default_def
        MockDrandTimelockProvider_def Mock_encrypt_def sign_envelope_def HmacSigner_def)
  then obtain blob where b: "encode_envelope reference_platform None [1, 2, 3] (Some sample_policy) (Some (HmacSigner ''hk'' ''hk'')) ''s''
      (Some (MockDrandTimelockProvider 7 ''m'')) = Inr blob" ..
  have "decode_envelope reference_platform None blob (Some sample_policy) (Some (IdentityVerifier_verify reference_platform)) ''s''
      (Some (MockDrandTimelockProvider 7 ''m'')) = Inr [1, 2, 3]"
    by (rule mock.decode_encode [OF reference_float_codec b [unfolded HmacSigner_def]])
      (auto simp: mock.ready_def default_policy_def sample_policy_def sign_payload_ne hmac_signer_verifies)
  from decode_envelope_authentic [OF this pol(1)] b pol(2) show ?thesis by auto
qed

text \<open>
  C35. The cipher against its reference: \<^verbatim>\<open>xor_crypt\<close> XORs byte \<open>i\<close> with byte \<open>i mod 32\<close> of the key hashed
  \<open>i div 32 + 1\<close> times; so it is its own inverse, keeps the length, and two texts under one key
  differ exactly where their ciphertexts differ.
\<close>

theorem xor_crypt_reference:
  "xor_crypt data key = map2 (XOR) data (map (key_byte key) [0..<length data]) \<and>
   xor_crypt (xor_crypt data key) key = data \<and>
   (length data' = length data \<longrightarrow> map2 (XOR) (xor_crypt data key) (xor_crypt data' key) = map2 (XOR) data data')"
proof -
  have "map2 (XOR) (xor_crypt data key) (xor_crypt data' key) = map2 (XOR) data data'" if "length data' = length data"
    using that by (intro nth_equalityI) (simp_all add: xor_crypt_eq ac_simps)
  then show ?thesis using xor_crypt_eq xor_crypt_involution by blast
qed

theorem xor_crypt_reference_witness:
  "map2 (XOR) (xor_crypt [1, 2] ''k'') (xor_crypt [3, 4] ''k'') = [2, 6]"
proof -
  have "map2 (XOR) (xor_crypt [1, 2] ''k'') (xor_crypt [3, 4] ''k'') = map2 (XOR) [1, 2] [3, 4]"
    using xor_crypt_reference [of "[1, 2]" "''k''" "[3, 4]"] by (metis length_Cons)
  then show ?thesis by simp
qed

text \<open>
  A policy that names a \<^verbatim>\<open>key_id\<close> publishes its key: in mode encrypted the cipher key is the \<^verbatim>\<open>key_id\<close>
  itself, and the envelope carries it in the clear, so the plaintext follows from the envelope alone.
\<close>

theorem key_id_discloses_plaintext:
  assumes "float_codec P" "cp_mode policy = ''encrypted''" "cp_key_id policy = Some k" "k \<noteq> []"
    and "encode_envelope P drand plaintext (Some policy) s secret tp = Inr blob"
  shows "\<exists>env c. parse_envelope P blob = Inr env \<and> en_key_id env = Some k \<and> b64decode (en_payload_b64 env) = Inr c \<and>
    xor_crypt c k = plaintext"
proof -
  have d: "default_policy (Some policy) = policy" by (simp add: default_policy_def)
  have m: "cp_mode (default_policy (Some policy)) \<noteq> ''none''" using assms(2) d by simp
  obtain c env where c: "encrypt_payload drand plaintext policy secret tp = Inr c"
    and env: "sign_envelope P s (unsigned_envelope plaintext c policy (signer_identity s)) = Inr env"
    and blob: "blob = utf8_encode (dumps P True (JObj (ArtifactEnvelope_to_dict env)))"
    using encode_envelope_cases [OF assms(5) m] unfolding d by metis
  have "parse_envelope P blob = Inr env" unfolding blob by (rule parse_encoded [OF assms(1)])
  moreover have "en_key_id env = Some k" "en_payload_b64 env = b64encode c"
    using sign_envelope_fields(2,3) [OF env] assms(3) by (simp_all add: unsigned_envelope_def)
  moreover have "c = xor_crypt plaintext k" using c assms(2-4) by (simp add: encrypt_payload_def str_or_def)
  ultimately show ?thesis by auto
qed

theorem key_id_discloses_plaintext_witness:
  "\<exists>blob env c. encode_envelope reference_platform None [9] (Some (ArtifactCryptoPolicy_default\<lparr>cp_mode := ''encrypted'', cp_key_id := Some ''k''\<rparr>))
      None ''secret'' None = Inr blob \<and> parse_envelope reference_platform blob = Inr env \<and>
    b64decode (en_payload_b64 env) = Inr c \<and> xor_crypt c ''k'' = [9]"
proof -
  let ?p = "ArtifactCryptoPolicy_default\<lparr>cp_mode := ''encrypted'', cp_key_id := Some ''k''\<rparr>"
  have "\<exists>blob. encode_envelope reference_platform None [9] (Some ?p) None ''secret'' None = Inr blob"
    by (simp add: Let_def encode_envelope_def encrypt_payload_def default_policy_def sign_envelope_def)
  then obtain blob where b: "encode_envelope reference_platform None [9] (Some ?p) None ''secret'' None = Inr blob" ..
  from key_id_discloses_plaintext [OF reference_float_codec _ _ _ b, of "''k''"] b show ?thesis by auto
qed

end
