(* ===== verification/Scoring.thy ===== *)
theory Scoring
  imports Record_Store Compute_Units
begin

text \<open>
  The score windows of \<^verbatim>\<open>teuton_validator/verifier.py\<close> (\<^verbatim>\<open>summarize_scores\<close>, \<^verbatim>\<open>_expected_cu_for_receipt\<close>) and
  the ledger of \<^verbatim>\<open>teuton_validator/ledger.py\<close>. Receipts and verdicts are read from the bucket, each receipt is
  worth the compute units of its job's graph, and its miner's window is credited according to the verdict.
\<close>

subsection \<open>Compute units of a receipt\<close>

definition load_graph :: "platform \<Rightarrow> string \<Rightarrow> LocalBucket \<Rightarrow> Graph res" where
  "load_graph P uri st =
     bindE (bindE (bindE (bindE (LocalBucket_get uri st) utf8_decode) (loads P)) as_mapping) Graph_from_dict"

definition fetch_graph_checked :: "platform \<Rightarrow> pyerr \<Rightarrow> string \<Rightarrow> string \<Rightarrow> LocalBucket \<Rightarrow> Graph res" where
  "fetch_graph_checked P mismatch sha uri st =
     bindE (load_graph P uri st) (\<lambda>g. if graph_id P g \<noteq> sha then Inl mismatch else Inr g)"

definition estimate_cu :: "platform \<Rightarrow> JobManifestV3 option \<Rightarrow> Graph option \<Rightarrow> pyfloat res" where
  "estimate_cu P manifest graph =
     (case (manifest, graph) of (Some _, Some g) \<Rightarrow> expected_compute_units P g | _ \<Rightarrow> Inr 1)"

record cu_caches =
  cc_manifests :: "(string \<times> JobManifestV3) list"
  cc_graphs :: "(string \<times> Graph) list"

definition cached_manifest ::
  "platform \<Rightarrow> int \<Rightarrow> JobReceiptV3 \<Rightarrow> LocalBucket \<Rightarrow> cu_caches \<Rightarrow> (JobManifestV3 \<times> cu_caches) res" where
  "cached_manifest P netuid r st cs =
     (case map_of (cc_manifests cs) (rc_job_id r) of
        Some m \<Rightarrow> Inr (m, cs)
      | None \<Rightarrow>
          bindE (load_manifest P (uri_for_key st (job_manifest_key netuid (rc_run_id r) (rc_job_id r))) st) (\<lambda>m.
            Inr (m, cs\<lparr>cc_manifests := AList.update (rc_job_id r) m (cc_manifests cs)\<rparr>)))"

definition cached_graph ::
  "platform \<Rightarrow> JobManifestV3 \<Rightarrow> LocalBucket \<Rightarrow> cu_caches \<Rightarrow> (Graph \<times> cu_caches) res" where
  "cached_graph P m st cs =
     (let sha = gr_sha256 (mf_graph_ref m)
      in case map_of (cc_graphs cs) sha of
           Some g \<Rightarrow> Inr (g, cs)
         | None \<Rightarrow>
             bindE (fetch_graph_checked P (ValueError (''graph hash mismatch for job '' @ mf_job_id m)) sha
                 (gr_uri (mf_graph_ref m)) st) (\<lambda>g.
               Inr (g, cs\<lparr>cc_graphs := AList.update sha g (cc_graphs cs)\<rparr>)))"

definition expected_cu_for_receipt ::
  "platform \<Rightarrow> int \<Rightarrow> LocalBucket \<Rightarrow> JobReceiptV3 \<Rightarrow> cu_caches \<Rightarrow> (pyfloat \<times> cu_caches) res" where
  "expected_cu_for_receipt P netuid st r cs =
     (case cached_manifest P netuid r st cs of
        Inl e \<Rightarrow> if caught e then Inr (1, cs) else Inl e
      | Inr (m, cs1) \<Rightarrow>
          (case cached_graph P m st cs1 of
             Inl e \<Rightarrow> if caught e then Inr (1, cs1) else Inl e
           | Inr (g, cs2) \<Rightarrow>
               (case estimate_cu P (Some m) (Some g) of
                  Inl e \<Rightarrow> if caught e then Inr (1, cs2) else Inl e
                | Inr cu \<Rightarrow> Inr (cu, cs2))))"

subsection \<open>Reading receipts and verdicts\<close>

fun collect ::
  "(string \<Rightarrow> 'r res) \<Rightarrow> ('r \<Rightarrow> bool res) \<Rightarrow> ('r \<Rightarrow> string) \<Rightarrow> string list \<Rightarrow> (string \<times> 'r) list \<Rightarrow> (string \<times> 'r) list res" where
  "collect load keep key [] acc = Inr acc"
| "collect load keep key (u # us) acc =
     (if ends_with u ''.json''
      then bindE (load u) (\<lambda>r. bindE (keep r) (\<lambda>k. collect load keep key us (if k then AList.update (key r) r acc else acc)))
      else collect load keep key us acc)"

definition verdict_accepted :: "platform \<Rightarrow> string \<Rightarrow> string \<Rightarrow> VerificationVerdictV3 \<Rightarrow> bool res" where
  "verdict_accepted P secret hotkey v =
     (case vv_validator_signature v of
        None \<Rightarrow> Inr False
      | Some sig \<Rightarrow>
          if sig = [] then Inr False
          else bindE (verify_identity_dict P (VerificationVerdictV3_unsigned_dict v)
                        (if hotkey \<noteq> [] then hotkey else vv_validator_hotkey v) sig True) (\<lambda>ok.
                 if ok then Inr True else verify_dict P (VerificationVerdictV3_unsigned_dict v) secret sig))"

definition collect_receipts :: "platform \<Rightarrow> int \<Rightarrow> string \<Rightarrow> LocalBucket \<Rightarrow> (string \<times> JobReceiptV3) list res" where
  "collect_receipts P netuid run_id st =
     collect (\<lambda>u. load_receipt P u st) (\<lambda>_. Inr True) rc_receipt_id
       (LocalBucket_list (uri_for_key st (receipts_prefix netuid run_id)) st) []"

definition collect_verdicts ::
  "platform \<Rightarrow> int \<Rightarrow> string \<Rightarrow> string \<Rightarrow> string \<Rightarrow> LocalBucket \<Rightarrow> (string \<times> VerificationVerdictV3) list res" where
  "collect_verdicts P netuid run_id secret hotkey st =
     collect (\<lambda>u. load_verdict P u st) (verdict_accepted P secret hotkey) vv_receipt_id
       (LocalBucket_list (uri_for_key st (verdicts_prefix netuid run_id)) st) []"

subsection \<open>Score windows\<close>

definition MinerScoreWindow_new :: "int \<Rightarrow> string \<Rightarrow> string \<Rightarrow> MinerScoreWindow" where
  "MinerScoreWindow_new netuid window_id hotkey =
     \<lparr>sw_netuid = netuid, sw_window_id = window_id, sw_hotkey_ss58 = hotkey, sw_receipts = 0, sw_verdicts = 0,
      sw_pass_cu = 0, sw_fail_cu = 0, sw_unsampled_cu = 0, sw_trust_multiplier = 1, sw_score = 0\<rparr>"

definition credit :: "VerificationVerdictV3 option \<Rightarrow> pyfloat \<Rightarrow> MinerScoreWindow \<Rightarrow> MinerScoreWindow" where
  "credit verdict cu w =
     (let w = w\<lparr>sw_receipts := sw_receipts w + 1\<rparr>
      in case verdict of
           None \<Rightarrow> w\<lparr>sw_unsampled_cu := sw_unsampled_cu w + cu\<rparr>
         | Some v \<Rightarrow>
             (let w = w\<lparr>sw_verdicts := sw_verdicts w + 1\<rparr>
              in if vv_status v = ''pass'' then w\<lparr>sw_pass_cu := sw_pass_cu w + cu\<rparr>
                 else if vv_status v = ''fail'' then w\<lparr>sw_fail_cu := sw_fail_cu w + cu\<rparr>
                 else w\<lparr>sw_unsampled_cu := sw_unsampled_cu w + cu * (1 / 2)\<rparr>))"

definition score_receipt ::
  "int \<Rightarrow> string \<Rightarrow> (string \<times> VerificationVerdictV3) list \<Rightarrow> JobReceiptV3 \<Rightarrow> pyfloat \<Rightarrow>
   (string \<times> MinerScoreWindow) list \<Rightarrow> (string \<times> MinerScoreWindow) list" where
  "score_receipt netuid window_id verdicts r cu ws =
     (let hk = wi_hotkey_ss58 (rc_worker r);
          w = (case map_of ws hk of Some w \<Rightarrow> w | None \<Rightarrow> MinerScoreWindow_new netuid window_id hk)
      in AList.update hk (credit (map_of verdicts (rc_receipt_id r)) cu w) ws)"

fun score_loop ::
  "platform \<Rightarrow> int \<Rightarrow> string \<Rightarrow> LocalBucket \<Rightarrow> (string \<times> VerificationVerdictV3) list \<Rightarrow> JobReceiptV3 list \<Rightarrow>
   (string \<times> MinerScoreWindow) list \<Rightarrow> cu_caches \<Rightarrow> (string \<times> MinerScoreWindow) list res" where
  "score_loop P netuid wid st verdicts [] ws cs = Inr ws"
| "score_loop P netuid wid st verdicts (r # rs) ws cs =
     bindE (expected_cu_for_receipt P netuid st r cs) (\<lambda>(cu, cs').
       score_loop P netuid wid st verdicts rs (score_receipt netuid wid verdicts r cu ws) cs')"

definition trust_multiplier :: "MinerScoreWindow \<Rightarrow> pyfloat" where
  "trust_multiplier w =
     (let checked = sw_pass_cu w + sw_fail_cu w
      in if checked = 0 then 1 / 4
         else if sw_fail_cu w > 0 then max 0 ((sw_pass_cu w - 2 * sw_fail_cu w) / checked)
         else 1)"

definition settle :: "MinerScoreWindow \<Rightarrow> MinerScoreWindow" where
  "settle w =
     w\<lparr>sw_trust_multiplier := trust_multiplier w,
       sw_score := sw_pass_cu w + sw_unsampled_cu w * trust_multiplier w\<rparr>"

definition summarize_scores ::
  "platform \<Rightarrow> int \<Rightarrow> int \<Rightarrow> string \<Rightarrow> string option \<Rightarrow> string \<Rightarrow> string \<Rightarrow> LocalBucket \<Rightarrow>
   ((string \<times> MinerScoreWindow) list \<times> LocalBucket) res" where
  "summarize_scores P now netuid run_id window_id secret hotkey st =
     (let wid = (case window_id of Some w \<Rightarrow> if w \<noteq> [] then w else ''run='' @ run_id | None \<Rightarrow> ''run='' @ run_id)
      in bindE (collect_receipts P netuid run_id st) (\<lambda>receipts.
         bindE (collect_verdicts P netuid run_id secret hotkey st) (\<lambda>verdicts.
         bindE (score_loop P netuid wid st verdicts (map snd receipts) [] \<lparr>cc_manifests = [], cc_graphs = []\<rparr>) (\<lambda>ws.
         let windows = map (\<lambda>(hk, w). (hk, settle w)) ws
         in bindE (store_dict P now (uri_for_key st (scores_key netuid wid))
                     (map (\<lambda>(hk, w). (hk, JObj (MinerScoreWindow_to_dict w))) windows) st) (\<lambda>st'.
            Inr (windows, st'))))))"

subsection \<open>The ledger\<close>

record LedgerSummaryV3 =
  ls_receipts :: int
  ls_verdicts :: int
  ls_passed :: int
  ls_failed :: int
  ls_inconclusive :: int
  ls_estimated_cu :: pyfloat
  ls_payable_cu :: pyfloat
  ls_by_hotkey :: "(string \<times> dict) list"

definition LedgerSummaryV3_new :: LedgerSummaryV3 where
  "LedgerSummaryV3_new = \<lparr>ls_receipts = 0, ls_verdicts = 0, ls_passed = 0, ls_failed = 0, ls_inconclusive = 0,
     ls_estimated_cu = 0, ls_payable_cu = 0, ls_by_hotkey = []\<rparr>"

definition LedgerSummaryV3_to_dict :: "LedgerSummaryV3 \<Rightarrow> dict" where
  "LedgerSummaryV3_to_dict x =
     [(''receipts'', JInt (ls_receipts x)), (''verdicts'', JInt (ls_verdicts x)), (''passed'', JInt (ls_passed x)),
      (''failed'', JInt (ls_failed x)), (''inconclusive'', JInt (ls_inconclusive x)),
      (''estimated_cu'', JFloat (ls_estimated_cu x)), (''payable_cu'', JFloat (ls_payable_cu x)),
      (''by_hotkey'', JObj (map (\<lambda>(k, d). (k, JObj d)) (ls_by_hotkey x)))]"

definition ledger_add :: "string \<times> MinerScoreWindow \<Rightarrow> LedgerSummaryV3 \<Rightarrow> LedgerSummaryV3" where
  "ledger_add hw x =
     (case hw of (hotkey, w) \<Rightarrow>
        \<lparr>ls_receipts = ls_receipts x + sw_receipts w, ls_verdicts = ls_verdicts x + sw_verdicts w,
         ls_passed = ls_passed x + (if sw_pass_cu w > 0 then 1 else 0),
         ls_failed = ls_failed x + (if sw_fail_cu w > 0 then 1 else 0),
         ls_inconclusive = ls_inconclusive x + (if sw_unsampled_cu w > 0 then 1 else 0),
         ls_estimated_cu = ls_estimated_cu x + (sw_pass_cu w + sw_fail_cu w + sw_unsampled_cu w),
         ls_payable_cu = ls_payable_cu x + sw_score w,
         ls_by_hotkey = AList.update hotkey (MinerScoreWindow_to_dict w) (ls_by_hotkey x)\<rparr>)"

definition summarize_ledger ::
  "platform \<Rightarrow> int \<Rightarrow> int \<Rightarrow> string \<Rightarrow> string option \<Rightarrow> string \<Rightarrow> string \<Rightarrow> LocalBucket \<Rightarrow> (LedgerSummaryV3 \<times> LocalBucket) res" where
  "summarize_ledger P now netuid run_id window_id secret hotkey st =
     bindE (summarize_scores P now netuid run_id window_id secret hotkey st) (\<lambda>(windows, st').
       Inr (fold ledger_add windows LedgerSummaryV3_new, st'))"

subsection \<open>The loop as a tally\<close>

lemma min_cu_le_1: "min_cu \<le> 1" "0 < min_cu"
  by (simp_all add: min_cu_def)

lemma expected_cu_ge:
  assumes "expected_cu_for_receipt P netuid st r cs = Inr (cu, cs')"
  shows "min_cu \<le> cu"
  using assms min_cu_le_1
  by (auto simp: expected_cu_for_receipt_def estimate_cu_def expected_compute_units_def bindE_eq_Inr
      split: sum.splits if_splits)

lemma score_loop_fold:
  assumes "score_loop P netuid wid st verdicts rs ws cs = Inr ws'"
  shows "\<exists>cus. length cus = length rs \<and> (\<forall>c \<in> set cus. min_cu \<le> c) \<and>
    ws' = fold (\<lambda>(r, c). score_receipt netuid wid verdicts r c) (zip rs cus) ws"
  using assms
proof (induction rs arbitrary: ws cs)
  case Nil
  then show ?case by (intro exI [of _ "[]"]) simp
next
  case (Cons r rs)
  from Cons.prems obtain cu cs1 where cu: "expected_cu_for_receipt P netuid st r cs = Inr (cu, cs1)"
    and rest: "score_loop P netuid wid st verdicts rs (score_receipt netuid wid verdicts r cu ws) cs1 = Inr ws'"
    by (auto simp: bindE_eq_Inr)
  from Cons.IH [OF rest] obtain cus where "length cus = length rs" "\<forall>c \<in> set cus. min_cu \<le> c"
    "ws' = fold (\<lambda>(r, c). score_receipt netuid wid verdicts r c) (zip rs cus) (score_receipt netuid wid verdicts r cu ws)" by blast
  then show ?case using expected_cu_ge [OF cu] by (intro exI [of _ "cu # cus"]) simp
qed

text \<open>The window of one hotkey depends on its own receipts only.\<close>

definition receipt_hotkey :: "JobReceiptV3 \<Rightarrow> string" where
  "receipt_hotkey r = wi_hotkey_ss58 (rc_worker r)"

definition own_window ::
  "(string \<times> VerificationVerdictV3) list \<Rightarrow> string \<Rightarrow> (JobReceiptV3 \<times> pyfloat) list \<Rightarrow> MinerScoreWindow \<Rightarrow> MinerScoreWindow" where
  "own_window verdicts hk rcs w =
     fold (\<lambda>(r, c). credit (map_of verdicts (rc_receipt_id r)) c) (filter (\<lambda>(r, _). receipt_hotkey r = hk) rcs) w"

lemma score_receipt_lookup:
  "map_of (score_receipt netuid wid verdicts r c ws) hk =
    (if receipt_hotkey r = hk
     then Some (credit (map_of verdicts (rc_receipt_id r)) c (case map_of ws hk of Some w \<Rightarrow> w | None \<Rightarrow> MinerScoreWindow_new netuid wid hk))
     else map_of ws hk)"
  by (auto simp: score_receipt_def receipt_hotkey_def Let_def)

lemma own_window_Cons:
  "own_window verdicts hk ((r, c) # rcs) w =
    own_window verdicts hk rcs (if receipt_hotkey r = hk then credit (map_of verdicts (rc_receipt_id r)) c w else w)"
  by (simp add: own_window_def)

lemma own_window_none: "\<not> (\<exists>(r, c) \<in> set rcs. receipt_hotkey r = hk) \<Longrightarrow> own_window verdicts hk rcs w = w"
  by (induction rcs) (auto simp: own_window_def)

lemma score_fold_lookup:
  "map_of (fold (\<lambda>(r, c). score_receipt netuid wid verdicts r c) rcs ws) hk =
    (if \<exists>(r, c) \<in> set rcs. receipt_hotkey r = hk
     then Some (own_window verdicts hk rcs (case map_of ws hk of Some w \<Rightarrow> w | None \<Rightarrow> MinerScoreWindow_new netuid wid hk))
     else map_of ws hk)"
proof (induction rcs arbitrary: ws)
  case (Cons rc rcs)
  obtain r c where rc: "rc = (r, c)" by fastforce
  show ?case
    using own_window_none [of rcs hk verdicts]
    by (auto simp: rc Cons.IH own_window_Cons score_receipt_lookup)
qed simp

lemma score_fold_distinct:
  "distinct (map fst ws) \<Longrightarrow> distinct (map fst (fold (\<lambda>(r, c). score_receipt netuid wid verdicts r c) rcs ws))"
  by (induction rcs arbitrary: ws) (auto simp: score_receipt_def Let_def distinct_update split: prod.splits)

definition status_of :: "(string \<times> VerificationVerdictV3) list \<Rightarrow> JobReceiptV3 \<Rightarrow> string option" where
  "status_of verdicts r = map_option vv_status (map_of verdicts (rc_receipt_id r))"

definition cu_where :: "(string option \<Rightarrow> bool) \<Rightarrow> (string \<times> VerificationVerdictV3) list \<Rightarrow> string \<Rightarrow> (JobReceiptV3 \<times> pyfloat) list \<Rightarrow> pyfloat" where
  "cu_where p verdicts hk rcs =
     sum_list (map snd (filter (\<lambda>(r, _). receipt_hotkey r = hk \<and> p (status_of verdicts r)) rcs))"

definition inconclusive :: "string option \<Rightarrow> bool" where
  "inconclusive s \<longleftrightarrow> (case s of None \<Rightarrow> False | Some x \<Rightarrow> x \<noteq> ''pass'' \<and> x \<noteq> ''fail'')"

lemma own_window_fields:
  "sw_receipts (own_window verdicts hk rcs w) = sw_receipts w + int (length (filter (\<lambda>(r, _). receipt_hotkey r = hk) rcs)) \<and>
   sw_pass_cu (own_window verdicts hk rcs w) = sw_pass_cu w + cu_where (\<lambda>s. s = Some ''pass'') verdicts hk rcs \<and>
   sw_fail_cu (own_window verdicts hk rcs w) = sw_fail_cu w + cu_where (\<lambda>s. s = Some ''fail'') verdicts hk rcs \<and>
   sw_unsampled_cu (own_window verdicts hk rcs w) =
     sw_unsampled_cu w + cu_where (\<lambda>s. s = None) verdicts hk rcs + cu_where inconclusive verdicts hk rcs / 2"
proof (induction rcs arbitrary: w)
  case (Cons rc rcs)
  obtain r c where rc: "rc = (r, c)" by fastforce
  show ?case
  proof (cases "receipt_hotkey r = hk")
    case True
    have own: "own_window verdicts hk (rc # rcs) w = own_window verdicts hk rcs (credit (map_of verdicts (rc_receipt_id r)) c w)"
      using True by (simp add: own_window_Cons rc)
    show ?thesis
      unfolding own using Cons.IH [of "credit (map_of verdicts (rc_receipt_id r)) c w"] True
      by (auto simp: rc credit_def Let_def cu_where_def status_of_def inconclusive_def split: option.splits)
  qed (use Cons.IH [of w] in \<open>simp add: rc own_window_def cu_where_def\<close>)
qed (simp add: own_window_def cu_where_def)

lemma score_loop_windows:
  assumes "score_loop P netuid wid st verdicts rs [] cs = Inr ws"
  obtains cus where "length cus = length rs" "\<forall>c \<in> set cus. min_cu \<le> c" "distinct (map fst ws)"
    "\<forall>hk. map_of ws hk = (if \<exists>r \<in> set rs. receipt_hotkey r = hk
        then Some (own_window verdicts hk (zip rs cus) (MinerScoreWindow_new netuid wid hk)) else None)"
    "ws = fold (\<lambda>(r, c). score_receipt netuid wid verdicts r c) (zip rs cus) []"
proof -
  from score_loop_fold [OF assms] obtain cus where c: "length cus = length rs" "\<forall>c \<in> set cus. min_cu \<le> c"
    and ws: "ws = fold (\<lambda>(r, c). score_receipt netuid wid verdicts r c) (zip rs cus) []" by blast
  have "(\<exists>(r, c) \<in> set (zip rs cus). receipt_hotkey r = hk) = (\<exists>r \<in> set rs. receipt_hotkey r = hk)" for hk
  proof -
    have "fst ` set (zip rs cus) = set rs" using c(1) by (metis list.set_map map_fst_zip)
    moreover have "(\<exists>(r, c) \<in> set (zip rs cus). receipt_hotkey r = hk) = (\<exists>r \<in> fst ` set (zip rs cus). receipt_hotkey r = hk)"
      by force
    ultimately show ?thesis by simp
  qed
  then show thesis using c ws score_fold_distinct [of "[]"]
    by (intro that [of cus]) (auto simp: score_fold_lookup)
qed

subsection \<open>Totals over the windows\<close>

definition total :: "(MinerScoreWindow \<Rightarrow> 'a::comm_monoid_add) \<Rightarrow> (string \<times> MinerScoreWindow) list \<Rightarrow> 'a" where
  "total f ws = sum_list (map (f \<circ> snd) ws)"

lemma total_update:
  assumes "distinct (map fst ws)" "f w' = f (case map_of ws hk of Some w \<Rightarrow> w | None \<Rightarrow> w0) + d" "f w0 = (0 :: 'a::comm_monoid_add)"
  shows "total f (AList.update hk w' ws) = total f ws + d"
  using assms by (induction ws) (auto simp: total_def ac_simps split: if_splits)

lemma total_score_receipt:
  assumes "distinct (map fst ws)"
  shows "total sw_receipts (score_receipt netuid wid verdicts r c ws) = total sw_receipts ws + 1"
  unfolding score_receipt_def Let_def
  by (rule total_update [OF assms, where ?w0.0 = "MinerScoreWindow_new netuid wid (wi_hotkey_ss58 (rc_worker r))"])
    (auto simp: credit_def Let_def MinerScoreWindow_new_def split: option.splits)

lemma total_score_fold:
  "distinct (map fst ws) \<Longrightarrow>
   total sw_receipts (fold (\<lambda>(r, c). score_receipt netuid wid verdicts r c) rcs ws) = total sw_receipts ws + int (length rcs)"
proof (induction rcs arbitrary: ws)
  case (Cons rc rcs)
  obtain r c where rc: "rc = (r, c)" by fastforce
  have "distinct (map fst (score_receipt netuid wid verdicts r c ws))"
    using Cons.prems by (simp add: score_receipt_def Let_def distinct_update)
  from Cons.IH [OF this] show ?case using Cons.prems by (simp add: rc total_score_receipt)
qed simp

lemma ledger_totals_fold:
  "ls_receipts (fold ledger_add ws x) = ls_receipts x + total sw_receipts ws \<and>
   ls_payable_cu (fold ledger_add ws x) = ls_payable_cu x + total sw_score ws \<and>
   ls_estimated_cu (fold ledger_add ws x) = ls_estimated_cu x + total (\<lambda>w. sw_pass_cu w + sw_fail_cu w + sw_unsampled_cu w) ws"
  by (induction ws arbitrary: x) (auto simp: ledger_add_def total_def)

end
