(* ===== verification/Scoring_Properties.thy ===== *)
theory Scoring_Properties
  imports Scoring
begin

text \<open>
  The properties of score windows and the ledger: what each window adds up to, how verdicts move a score, which
  verdicts count, and the totals of the ledger.
\<close>

subsection \<open>Which verdicts are collected\<close>

lemma collect_inv:
  assumes "collect load keep key us acc = Inr acc'" "\<forall>(k, r) \<in> set acc. Q k r"
    and "\<And>u r. u \<in> set us \<Longrightarrow> load u = Inr r \<Longrightarrow> keep r = Inr True \<Longrightarrow> Q (key r) r"
  shows "\<forall>(k, r) \<in> set acc'. Q k r"
  using assms
proof (induction us arbitrary: acc)
  case (Cons u us)
  show ?case
  proof (cases "ends_with u ''.json''")
    case True
    then obtain r k where r: "load u = Inr r" "keep r = Inr k"
      "collect load keep key us (if k then AList.update (key r) r acc else acc) = Inr acc'"
      using Cons.prems(1) by (auto simp: bindE_eq_Inr)
    have "\<forall>(j, q) \<in> set (if k then AList.update (key r) r acc else acc). Q j q"
    proof (cases k)
      case True
      then have "Q (key r) r" using Cons.prems(3) [of u r] r(1,2) by simp
      then show ?thesis using True Cons.prems(2) set_update_subset [of "key r" r acc] by auto
    qed (use Cons.prems(2) in simp)
    with Cons.IH [OF r(3)] Cons.prems(3) show ?thesis by auto
  qed (use Cons in auto)
qed simp

lemma collect_distinct:
  "collect load keep key us acc = Inr acc' \<Longrightarrow> distinct (map fst acc) \<Longrightarrow> distinct (map fst acc')"
proof (induction us arbitrary: acc)
  case (Cons u us)
  then show ?case by (auto simp: bindE_eq_Inr distinct_update split: if_splits)
qed simp

subsection \<open>Trust\<close>

lemma trust_range:
  assumes "0 \<le> sw_pass_cu w" "0 \<le> sw_fail_cu w"
  shows "0 \<le> trust_multiplier w \<and> trust_multiplier w \<le> 1"
  using assms by (auto simp: trust_multiplier_def Let_def divide_le_eq)

definition trust :: "pyfloat \<Rightarrow> pyfloat \<Rightarrow> pyfloat" where
  "trust p f = (if p + f = 0 then 1 / 4 else if f > 0 then max 0 ((p - 2 * f) / (p + f)) else 1)"

lemma trust_multiplier_trust: "trust_multiplier w = trust (sw_pass_cu w) (sw_fail_cu w)"
  by (simp add: trust_multiplier_def trust_def Let_def)

lemma trust_mono_pass: "0 \<le> p \<Longrightarrow> 0 \<le> f \<Longrightarrow> 0 \<le> c \<Longrightarrow> trust p f \<le> trust (p + c) f"
proof -
  assume p: "0 \<le> p" and f: "0 \<le> f" and c: "0 \<le> c"
  show ?thesis
  proof (cases "f > 0")
    case True
    have "(p - 2 * f) * (p + c + f) \<le> (p + c - 2 * f) * (p + f)"
      using mult_nonneg_nonneg [OF f c] by (simp add: algebra_simps)
    then have "(p - 2 * f) / (p + f) \<le> (p + c - 2 * f) / (p + c + f)"
      using p c True by (simp add: pos_divide_le_eq pos_le_divide_eq frac_le_eq field_simps)
    then show ?thesis using p c True by (auto simp: trust_def le_max_iff_disj)
  qed (use p f c in \<open>auto simp: trust_def\<close>)
qed

lemma trust_anti_fail: "0 \<le> p \<Longrightarrow> 0 \<le> f \<Longrightarrow> 0 \<le> c \<Longrightarrow> trust p (f + c) \<le> trust p f"
proof -
  assume p: "0 \<le> p" and f: "0 \<le> f" and c: "0 \<le> c"
  consider "f > 0" | "f = 0" using f by linarith
  then show ?thesis
  proof cases
    case 1
    have "(p - 2 * (f + c)) * (p + f) \<le> (p - 2 * f) * (p + (f + c))"
      using mult_nonneg_nonneg [OF p c] by (simp add: algebra_simps)
    then have "(p - 2 * (f + c)) / (p + (f + c)) \<le> (p - 2 * f) / (p + f)"
      using p c 1 by (simp add: field_simps)
    then show ?thesis using p c 1 by (auto simp: trust_def le_max_iff_disj)
  next
    case 2
    have "(p - 2 * c) / (p + c) \<le> 1" if "c > 0" using p that by (simp add: field_simps)
    moreover have "(- 2 * c) / c = - 2" if "c > 0" using that by simp
    ultimately show ?thesis using p c 2 by (auto simp: trust_def)
  qed
qed

lemma trust_01: "0 \<le> p \<Longrightarrow> 0 \<le> f \<Longrightarrow> 0 \<le> trust p f \<and> trust p f \<le> 1"
  by (auto simp: trust_def divide_le_eq)

subsection \<open>Windows of a summary\<close>

lemma summarize_cases:
  assumes "summarize_scores P now netuid run_id window_id secret hotkey st = Inr (windows, st')"
  shows "\<exists>wid receipts verdicts ws. collect_receipts P netuid run_id st = Inr receipts \<and>
    collect_verdicts P netuid run_id secret hotkey st = Inr verdicts \<and>
    score_loop P netuid wid st verdicts (map snd receipts) [] \<lparr>cc_manifests = [], cc_graphs = []\<rparr> = Inr ws \<and>
    windows = map (\<lambda>(hk, w). (hk, settle w)) ws"
  using assms by (auto simp: summarize_scores_def Let_def bindE_eq_Inr)

lemma settle_fields:
  "sw_hotkey_ss58 (settle w) = sw_hotkey_ss58 w" "sw_receipts (settle w) = sw_receipts w" "sw_pass_cu (settle w) = sw_pass_cu w"
  "sw_fail_cu (settle w) = sw_fail_cu w" "sw_unsampled_cu (settle w) = sw_unsampled_cu w"
  "trust_multiplier (settle w) = trust_multiplier w" "sw_score (settle w) = sw_pass_cu w + sw_unsampled_cu w * trust_multiplier w"
  by (simp_all add: settle_def trust_multiplier_def Let_def)

lemma own_window_hotkey: "sw_hotkey_ss58 (own_window verdicts hk rcs w) = sw_hotkey_ss58 w"
proof (induction rcs arbitrary: w)
  case (Cons rc rcs)
  have "sw_hotkey_ss58 (credit v c w) = sw_hotkey_ss58 w" for v c w
    by (simp add: credit_def Let_def split: option.splits)
  then show ?case using Cons.IH by (cases rc) (simp add: own_window_Cons)
qed (simp add: own_window_def)

lemma filter_zip_fst: "length xs = length ys \<Longrightarrow> length (filter (\<lambda>(x, _). p x) (zip xs ys)) = length (filter p xs)"
  by (induction xs ys rule: list_induct2) auto

subsection \<open>Sample run\<close>

definition sample_receipt_key :: string where
  "sample_receipt_key = ''v3/netuid=1/receipts/run/r.json''"

definition sample_bucket :: LocalBucket where
  "sample_bucket = \<lparr>lb_bucket = ''b'', lb_objects = [((''b'', sample_receipt_key),
      (utf8_encode (dumps reference_platform True (JObj (JobReceiptV3_to_dict sample_receipt))), 7))]\<rparr>"

definition sample_window :: MinerScoreWindow where
  "sample_window = (MinerScoreWindow_new 1 ''w'' ''hk'')\<lparr>sw_pass_cu := 4, sw_fail_cu := 1, sw_unsampled_cu := 2\<rparr>"

lemma sample_prefixes:
  "receipts_prefix 1 ''run'' = ''v3/netuid=1/receipts/run/''" "verdicts_prefix 1 ''run'' = ''v3/netuid=1/verdicts/run/''"
  "job_manifest_key 1 ''run'' ''run-s0-fwd'' = ''v3/netuid=1/jobs/run/run-s0-fwd/manifest.json''"
  "scores_key 1 ''run=run'' = ''v3/netuid=1/scores/window=run=run/scores.json''"
  by code_simp+

lemma sample_lists:
  "LocalBucket_list ''s3://b/v3/netuid=1/receipts/run/'' sample_bucket = [join_uri ''b'' sample_receipt_key]"
  "LocalBucket_list ''s3://b/v3/netuid=1/verdicts/run/'' sample_bucket = []"
  by (simp_all add: LocalBucket_list_def prefix_target_def parse_uri_def Let_def sample_bucket_def is_dir_def dir_key_def
      sample_receipt_key_def ends_with_def starts_with_def)

lemma sample_parse:
  "parse_uri (join_uri ''b'' sample_receipt_key) = Inr (''b'', sample_receipt_key)"
  "parse_uri ''s3://b/v3/netuid=1/jobs/run/run-s0-fwd/manifest.json'' = Inr (''b'', ''v3/netuid=1/jobs/run/run-s0-fwd/manifest.json'')"
  "parse_uri ''s3://b/v3/netuid=1/scores/window=run=run/scores.json'' = Inr (''b'', ''v3/netuid=1/scores/window=run=run/scores.json'')"
  by code_simp+

lemma sample_loads: "load_receipt reference_platform (join_uri ''b'' sample_receipt_key) sample_bucket = Inr (JobReceiptV3_raw norm_dict sample_receipt)"
proof (rule load_stored_receipt [OF reference_float_codec sample_receipt_wf])
  show "store_dict reference_platform 7 (join_uri ''b'' sample_receipt_key) (JobReceiptV3_to_dict sample_receipt)
      (LocalBucket_init ''b'') = Inr sample_bucket"
    by (simp add: put_json_def LocalBucket_put_def sample_parse LocalBucket_init_def sample_bucket_def)
qed

lemma sample_no_manifest:
  "load_manifest reference_platform ''s3://b/v3/netuid=1/jobs/run/run-s0-fwd/manifest.json'' sample_bucket =
     Inl (FileNotFoundError ''s3://b/v3/netuid=1/jobs/run/run-s0-fwd/manifest.json'')"
  by (simp add: load_manifest_def load_record_def get_json_def LocalBucket_get_def obj_at_def sample_parse)
    (simp add: sample_bucket_def sample_receipt_key_def)

lemma sample_raw: "rc_job_id (JobReceiptV3_raw f sample_receipt) = ''run-s0-fwd''" "rc_run_id (JobReceiptV3_raw f sample_receipt) = ''run''"
  "rc_receipt_id (JobReceiptV3_raw f sample_receipt) = ''run-s0-fwd:hk:0''"
  by (simp_all add: JobReceiptV3_raw_def sample_receipt_def)

lemma sample_scores:
  "\<exists>ws st'. summarize_scores reference_platform 9 1 ''run'' None ''s'' [] sample_bucket = Inr (ws, st')"
proof -
  have u: "uri_for_key sample_bucket k = join_uri ''b'' k" for k by (simp add: uri_for_key_def sample_bucket_def)
  have e: "ends_with (join_uri ''b'' sample_receipt_key) ''.json''" by code_simp
  have r: "collect_receipts reference_platform 1 ''run'' sample_bucket = Inr [(''run-s0-fwd:hk:0'', JobReceiptV3_raw norm_dict sample_receipt)]"
    unfolding collect_receipts_def u sample_prefixes join_uri_def [of _ "''v3/netuid=1/receipts/run/''"]
    by (simp add: sample_lists e sample_loads sample_raw)
  have v: "collect_verdicts reference_platform 1 ''run'' ''s'' [] sample_bucket = Inr []"
    by (simp add: collect_verdicts_def u sample_prefixes join_uri_def sample_lists)
  have cu: "expected_cu_for_receipt reference_platform 1 sample_bucket (JobReceiptV3_raw norm_dict sample_receipt) \<lparr>cc_manifests = [], cc_graphs = []\<rparr> =
      Inr (1, \<lparr>cc_manifests = [], cc_graphs = []\<rparr>)"
    by (simp add: expected_cu_for_receipt_def cached_manifest_def u sample_raw sample_prefixes join_uri_def sample_no_manifest caught_def)
  have "parse_uri (uri_for_key sample_bucket (scores_key 1 ''run=run'')) = Inr (''b'', ''v3/netuid=1/scores/window=run=run/scores.json'')"
    by (simp add: u sample_prefixes join_uri_def sample_parse)
  from lb.put_json_total [OF this] show ?thesis by (simp add: summarize_scores_def r v cu Let_def bindE_eq_Inr)
qed

subsection \<open>Properties\<close>



text \<open>
  C29. Verdicts move a score the right way. Whatever a window holds, turning unsampled units into failed ones
  never raises its score and turning them into passed ones never lowers it; the score always lies between the
  passed units and the passed plus unsampled ones, and a miner whose failed units reach half the passed ones
  gets nothing for unsampled work.
\<close>

theorem verdict_incentives:
  assumes "0 \<le> sw_pass_cu w" "0 \<le> sw_fail_cu w" "0 \<le> c" "c \<le> sw_unsampled_cu w"
  shows "sw_score (settle (w\<lparr>sw_unsampled_cu := sw_unsampled_cu w - c, sw_fail_cu := sw_fail_cu w + c\<rparr>)) \<le> sw_score (settle w) \<and>
    sw_score (settle w) \<le> sw_score (settle (w\<lparr>sw_unsampled_cu := sw_unsampled_cu w - c, sw_pass_cu := sw_pass_cu w + c\<rparr>)) \<and>
    sw_pass_cu w \<le> sw_score (settle w) \<and> sw_score (settle w) \<le> sw_pass_cu w + sw_unsampled_cu w \<and>
    (0 < sw_fail_cu w \<and> sw_pass_cu w \<le> 2 * sw_fail_cu w \<longrightarrow> sw_score (settle w) = sw_pass_cu w)"
proof -
  let ?p = "sw_pass_cu w" and ?f = "sw_fail_cu w" and ?u = "sw_unsampled_cu w"
  have t: "0 \<le> trust ?p ?f" "trust ?p ?f \<le> 1" using trust_01 [OF assms(1,2)] by simp_all
  have u: "0 \<le> ?u - c" "0 \<le> ?u" using assms(3,4) by simp_all
  have fail: "(?u - c) * trust ?p (?f + c) \<le> ?u * trust ?p ?f"
    using mult_mono [OF _ trust_anti_fail [OF assms(1-3)] u(2), of "?u - c"] trust_01 [of ?p "?f + c"] assms by simp
  have "(?u - c) * trust ?p ?f \<le> (?u - c) * trust (?p + c) ?f"
    by (rule mult_left_mono [OF trust_mono_pass [OF assms(1-3)] u(1)])
  moreover have "c * trust ?p ?f \<le> c" using mult_left_mono [OF t(2) assms(3)] by simp
  ultimately have pass: "?u * trust ?p ?f \<le> c + (?u - c) * trust (?p + c) ?f" by (simp add: left_diff_distrib)
  have range: "0 \<le> ?u * trust ?p ?f" "?u * trust ?p ?f \<le> ?u"
    using mult_nonneg_nonneg [OF u(2) t(1)] mult_left_mono [OF t(2) u(2)] by simp_all
  have "trust ?p ?f = 0" if "0 < ?f" "?p \<le> 2 * ?f"
  proof -
    have "(?p - 2 * ?f) / (?p + ?f) \<le> 0" using that assms(1) by (simp add: divide_le_0_iff)
    then show ?thesis using that assms(1) by (simp add: trust_def max_absorb1)
  qed
  then show ?thesis using fail pass range by (simp add: settle_fields trust_multiplier_trust)
qed

theorem verdict_incentives_witness:
  "sw_score (settle (sample_window\<lparr>sw_unsampled_cu := 1, sw_fail_cu := 2\<rparr>)) \<le> sw_score (settle sample_window)"
  using verdict_incentives [of sample_window 1] by (simp add: sample_window_def)

text \<open>
  C30. Only verified verdicts count. Each verdict that enters the scores is stored in the run's verdict prefix, is
  filed under its own receipt id at most once, and carries a signature that verifies for the configured
  validator hotkey (or, when none is configured, for the hotkey it names) or under the validator secret.
\<close>

theorem scored_verdicts_verified:
  assumes "collect_verdicts P netuid run_id secret hotkey st = Inr verdicts"
  shows "distinct (map fst verdicts) \<and>
    (\<forall>(k, v) \<in> set verdicts. vv_receipt_id v = k \<and>
      (\<exists>u \<in> set (LocalBucket_list (uri_for_key st (verdicts_prefix netuid run_id)) st). load_verdict P u st = Inr v) \<and>
      (\<exists>sig. vv_validator_signature v = Some sig \<and> sig \<noteq> [] \<and>
        (let d = VerificationVerdictV3_unsigned_dict v; ident = (if hotkey \<noteq> [] then hotkey else vv_validator_hotkey v)
         in verify_hotkey_payload P (canonical_json P (JObj d)) ident sig \<or> sig = sign_dict P d ident \<or> sig = sign_dict P d secret)))"
proof -
  have acc: "\<exists>sig. vv_validator_signature v = Some sig \<and> sig \<noteq> [] \<and>
        (let d = VerificationVerdictV3_unsigned_dict v; ident = (if hotkey \<noteq> [] then hotkey else vv_validator_hotkey v)
         in verify_hotkey_payload P (canonical_json P (JObj d)) ident sig \<or> sig = sign_dict P d ident \<or> sig = sign_dict P d secret)"
    if "verdict_accepted P secret hotkey v = Inr True" for v
  proof -
    from that obtain sig where s: "vv_validator_signature v = Some sig" "sig \<noteq> []"
      by (auto simp: verdict_accepted_def split: option.splits if_splits)
    from that s have "verify_identity_dict P (VerificationVerdictV3_unsigned_dict v) (if hotkey \<noteq> [] then hotkey else vv_validator_hotkey v) sig True = Inr True \<or>
        verify_dict P (VerificationVerdictV3_unsigned_dict v) secret sig = Inr True"
      by (auto simp: verdict_accepted_def bindE_eq_Inr split: if_splits)
    then show ?thesis using s by (auto simp: verify_identity_iff verify_dict_iff Let_def)
  qed
  have "\<forall>(k, v) \<in> set verdicts. vv_receipt_id v = k \<and>
      (\<exists>u \<in> set (LocalBucket_list (uri_for_key st (verdicts_prefix netuid run_id)) st). load_verdict P u st = Inr v) \<and>
      verdict_accepted P secret hotkey v = Inr True"
    using assms unfolding collect_verdicts_def by (rule collect_inv) auto
  moreover have "distinct (map fst verdicts)"
    using assms unfolding collect_verdicts_def by (rule collect_distinct) simp
  ultimately show ?thesis using acc by fast
qed

theorem scored_verdicts_verified_witness:
  "\<exists>verdicts. collect_verdicts reference_platform 1 ''run'' ''s'' [] sample_bucket = Inr verdicts \<and> distinct (map fst verdicts)"
proof -
  have "collect_verdicts reference_platform 1 ''run'' ''s'' [] sample_bucket = Inr []"
    by (simp add: collect_verdicts_def uri_for_key_def sample_bucket_def [THEN arg_cong [where f = lb_bucket]]
        sample_prefixes join_uri_def sample_lists)
  from scored_verdicts_verified [OF this] this show ?thesis by blast
qed

text \<open>
  The ledger totals agree with the scores: the ledger counts every collected receipt exactly once, and its
  payable and estimated compute units are the sums of the windows' scores and of their pass, fail and unsampled units.
\<close>

theorem ledger_totals:
  assumes "summarize_ledger P now netuid run_id window_id secret hotkey st = Inr (ledger, st')"
  shows "\<exists>windows receipts. summarize_scores P now netuid run_id window_id secret hotkey st = Inr (windows, st') \<and>
    collect_receipts P netuid run_id st = Inr receipts \<and> ls_receipts ledger = int (length receipts) \<and>
    ls_payable_cu ledger = sum_list (map (\<lambda>(_, w). sw_score w) windows) \<and>
    ls_estimated_cu ledger = sum_list (map (\<lambda>(_, w). sw_pass_cu w + sw_fail_cu w + sw_unsampled_cu w) windows)"
proof -
  from assms obtain windows where s: "summarize_scores P now netuid run_id window_id secret hotkey st = Inr (windows, st')"
    and l: "ledger = fold ledger_add windows LedgerSummaryV3_new" by (auto simp: summarize_ledger_def bindE_eq_Inr)
  from summarize_cases [OF s] obtain wid receipts verdicts ws where
    r: "collect_receipts P netuid run_id st = Inr receipts"
    and sl: "score_loop P netuid wid st verdicts (map snd receipts) [] \<lparr>cc_manifests = [], cc_graphs = []\<rparr> = Inr ws"
    and w: "windows = map (\<lambda>(hk, w). (hk, settle w)) ws" by blast
  from score_loop_fold [OF sl] obtain cus where c: "length cus = length (map snd receipts)"
    and ws: "ws = fold (\<lambda>(r, c). score_receipt netuid wid verdicts r c) (zip (map snd receipts) cus) []" by blast
  have tot: "total f windows = sum_list (map (\<lambda>(_, w). f w) windows)" for f :: "MinerScoreWindow \<Rightarrow> rat"
    unfolding total_def by (rule arg_cong [where f = sum_list]) auto
  have "total sw_receipts windows = total sw_receipts ws"
    by (simp add: total_def w comp_def case_prod_beta settle_fields)
  also have "\<dots> = int (length receipts)"
    using total_score_fold [of "[]" netuid wid verdicts "zip (map snd receipts) cus"] c by (simp add: ws total_def)
  finally show ?thesis
    using s r ledger_totals_fold [of windows LedgerSummaryV3_new]
    by (intro exI [of _ windows] exI [of _ receipts]) (simp add: l LedgerSummaryV3_new_def tot)
qed

theorem ledger_totals_witness:
  "\<exists>ledger st' receipts. summarize_ledger reference_platform 9 1 ''run'' None ''s'' [] sample_bucket = Inr (ledger, st') \<and>
     collect_receipts reference_platform 1 ''run'' sample_bucket = Inr receipts \<and> ls_receipts ledger = int (length receipts)"
proof -
  from sample_scores obtain ledger st' where "summarize_ledger reference_platform 9 1 ''run'' None ''s'' [] sample_bucket = Inr (ledger, st')"
    by (auto simp: summarize_ledger_def)
  from ledger_totals [OF this] this show ?thesis by blast
qed

end
