(* ===== verification/Subnet.thy ===== *)
theory Subnet
  imports Prelude "HOL-Library.Product_Lexorder"
begin

text \<open>
  \<^verbatim>\<open>teuton_validator/subnet.py\<close>: from scores to chain weights. The metagraph's hotkeys and the outcome of
  \<^verbatim>\<open>set_weights\<close> are arguments. Shown: weights are a probability distribution, are submitted sorted by the
  miners' uids, and no chain outcome makes the adapter raise.
\<close>

record WeightUpdate =
  wu_uids :: "int list"
  wu_weights :: "pyfloat list"
  wu_submitted :: bool
  wu_reason :: string
  wu_message :: string
  wu_extrinsic_hash :: "string option"
  wu_block_hash :: "string option"
  wu_dropped_hotkeys :: "string list"
  wu_extra :: "(string \<times> string) list"

definition WeightUpdate_new :: "int list \<Rightarrow> pyfloat list \<Rightarrow> WeightUpdate" where
  "WeightUpdate_new uids weights =
     \<lparr>wu_uids = uids, wu_weights = weights, wu_submitted = False, wu_reason = [], wu_message = [],
      wu_extrinsic_hash = None, wu_block_hash = None, wu_dropped_hotkeys = [], wu_extra = []\<rparr>"

text \<open>
  What \<^verbatim>\<open>subtensor.set_weights\<close> may do: raise (with the \<^verbatim>\<open>repr\<close> of the exception), return a tuple (first
  component as a truth value; second component absent, \<^verbatim>\<open>None\<close>, or its \<^verbatim>\<open>str\<close>), or return an object (its
  success flag, error text, hashes and \<^verbatim>\<open>repr\<close>).
\<close>

datatype chain_result =
    Chain_raises string
  | Chain_tuple bool "string option option"
  | Chain_object bool string "string option" "string option" string

definition normalize_scores :: "(string \<times> pyfloat) list \<Rightarrow> (string \<times> pyfloat) list" where
  "normalize_scores scores =
     (let clean = map (\<lambda>(k, v). (k, max 0 v)) scores
      in if clean = [] then []
         else let total = sum_list (map snd clean)
              in if total \<le> 0 then map (\<lambda>k. (k, 1 / of_nat (length clean))) (sort (map fst clean))
                 else map (\<lambda>(k, v). (k, v / total)) clean)"

text \<open>\<^verbatim>\<open>{hotkey: int(uid) for uid, hotkey in enumerate(metagraph.hotkeys)}\<close>; empty on a dry run.\<close>

definition hotkey_to_uid :: "bool \<Rightarrow> string list \<Rightarrow> (string \<times> int) list" where
  "hotkey_to_uid dry_run hotkeys =
     (if dry_run then []
      else fold (\<lambda>(uid, hk) d. AList.update hk (int uid) d) (enumerate 0 hotkeys) [])"

definition chain_outcome :: "chain_result \<Rightarrow> WeightUpdate \<Rightarrow> WeightUpdate" where
  "chain_outcome r u =
     (case r of
        Chain_raises e \<Rightarrow> u\<lparr>wu_submitted := False, wu_reason := ''set_weights_exception'', wu_message := e\<rparr>
      | Chain_tuple submitted second \<Rightarrow>
          (let msg = (case second of Some (Some m) \<Rightarrow> m | _ \<Rightarrow> []); low = lower msg
           in u\<lparr>wu_submitted := submitted, wu_message := msg,
                wu_reason := (if \<not> submitted \<and> msg \<noteq> []
                              then (if contains low ''ratelimit'' \<or> contains low ''rate_limit'' \<or> contains low ''too soon''
                                    then ''ratelimited'' else ''chain_rejected'')
                              else if submitted then ''success'' else [])\<rparr>)
      | Chain_object submitted msg ext blk raw \<Rightarrow>
          u\<lparr>wu_submitted := submitted, wu_message := msg, wu_extrinsic_hash := ext, wu_block_hash := blk,
            wu_reason := (if submitted then ''success'' else if msg \<noteq> [] then ''chain_rejected'' else ''unknown''),
            wu_extra := [(''raw_repr'', take 300 raw)]\<rparr>)"

definition publish_weights ::
  "bool \<Rightarrow> string list \<Rightarrow> (int list \<Rightarrow> pyfloat list \<Rightarrow> chain_result) \<Rightarrow> (string \<times> pyfloat) list \<Rightarrow> WeightUpdate" where
  "publish_weights dry_run hotkeys set_weights scores =
     (let uids_of = hotkey_to_uid dry_run hotkeys; normalized = normalize_scores scores
      in if dry_run then
           let ordered = sort normalized
           in (WeightUpdate_new (map int [0..<length ordered]) (map snd ordered))\<lparr>wu_submitted := True, wu_reason := ''dry_run''\<rparr>
         else if normalized = [] then (WeightUpdate_new [] [])\<lparr>wu_reason := ''no_scores''\<rparr>
         else
           let missing = sort (filter (\<lambda>h. map_of uids_of h = None) (map fst normalized));
               pairs = sort (List.map_filter (\<lambda>(h, v). map_option (\<lambda>u. (u, v)) (map_of uids_of h)) normalized);
               uids = map fst pairs; weights = map snd pairs
           in if uids = [] then (WeightUpdate_new [] [])\<lparr>wu_reason := ''no_mapped_hotkeys'', wu_dropped_hotkeys := missing\<rparr>
              else chain_outcome (set_weights uids weights) ((WeightUpdate_new uids weights)\<lparr>wu_dropped_hotkeys := missing\<rparr>))"

subsection \<open>Normalisation\<close>

lemma sum_list_divide: "sum_list (map (\<lambda>(k, v). v / t) xs) = sum_list (map snd xs) / (t :: rat)"
  by (induction xs) (auto simp: add_divide_distrib)

lemma sum_list_const_pairs: "sum_list (map (\<lambda>k. c) xs) = of_nat (length xs) * (c :: rat)"
  by (induction xs) (simp_all add: algebra_simps)

lemma clean_nonneg: "0 \<le> sum_list (map snd (map (\<lambda>(k, v). (k, max 0 v)) xs))" for xs :: "(string \<times> rat) list"
  by (induction xs) auto

lemma map_fst_vals: "map fst (map (\<lambda>(k, v). (k, f v)) xs) = map fst xs"
  by (induction xs) auto

lemma map_fst_const: "map fst (map (\<lambda>k. (k, c)) xs) = xs"
  by (induction xs) auto

lemma normalize_fst:
  "map fst (normalize_scores scores) =
    (if sum_list (map snd (map (\<lambda>(k, v). (k, max 0 v)) scores)) \<le> 0 then sort (map fst scores) else map fst scores)"
  by (simp add: normalize_scores_def Let_def map_fst_vals map_fst_const del: map_map)

lemma normalize_keys: "set (map fst (normalize_scores scores)) = set (map fst scores)"
  unfolding normalize_fst by simp

lemma normalize_distinct: "distinct (map fst scores) \<Longrightarrow> distinct (map fst (normalize_scores scores))"
  unfolding normalize_fst by simp

lemma normalize_nonneg: "(k, v) \<in> set (normalize_scores scores) \<Longrightarrow> 0 \<le> v"
  using clean_nonneg [of scores] by (auto simp: normalize_scores_def Let_def split: if_splits)

lemma sorted_map_fst: "sorted xs \<Longrightarrow> sorted (map fst xs)" for xs :: "(int \<times> rat) list"
  by (induction xs) (auto simp: less_eq_prod_def)

lemma normalize_sum: "scores \<noteq> [] \<Longrightarrow> sum_list (map snd (normalize_scores scores)) = 1"
proof -
  assume ne: "scores \<noteq> []"
  let ?c = "map (\<lambda>(k, v). (k, max 0 v)) scores"
  let ?t = "sum_list (map snd ?c)"
  show ?thesis
  proof (cases "?t \<le> 0")
    case True
    have "normalize_scores scores = map (\<lambda>k. (k, 1 / of_nat (length ?c))) (sort (map fst ?c))"
      unfolding normalize_scores_def Let_def using ne True by simp
    then have "sum_list (map snd (normalize_scores scores)) = of_nat (length (sort (map fst ?c))) * (1 / of_nat (length ?c))"
      by (simp only: map_map comp_def snd_conv sum_list_const_pairs)
    then show ?thesis using ne by simp
  next
    case False
    have "normalize_scores scores = map (\<lambda>(k, v). (k, v / ?t)) ?c"
      unfolding normalize_scores_def Let_def using ne False by simp
    then have "map snd (normalize_scores scores) = map (\<lambda>(k, v). v / ?t) ?c" by (simp only: map_map) auto
    then show ?thesis using False sum_list_divide [of ?t ?c] by simp
  qed
qed

subsection \<open>Publishing\<close>

lemma hotkey_fold:
  "map_of (fold (\<lambda>(uid, hk) d. AList.update hk (int uid) d) (enumerate n hs) d) hk = Some u \<Longrightarrow>
   map_of d hk = Some u \<or> (\<exists>i < length hs. hs ! i = hk \<and> u = int (n + i))"
proof (induction hs arbitrary: n d)
  case (Cons h hs)
  from Cons.IH [of "Suc n" "AList.update h (int n) d"] Cons.prems
  have "map_of (AList.update h (int n) d) hk = Some u \<or> (\<exists>i < length hs. hs ! i = hk \<and> u = int (Suc n + i))"
    by (simp del: update_map_of)
  then show ?case
  proof
    assume "map_of (AList.update h (int n) d) hk = Some u"
    then show ?thesis by (auto split: if_splits intro!: exI [of _ 0])
  next
    assume "\<exists>i < length hs. hs ! i = hk \<and> u = int (Suc n + i)"
    then obtain i where "i < length hs" "hs ! i = hk" "u = int (Suc n + i)" by blast
    then show ?thesis by (intro disjI2 exI [of _ "Suc i"]) simp
  qed
qed simp

lemma hotkey_to_uid_some:
  "map_of (hotkey_to_uid dry hotkeys) hk = Some u \<Longrightarrow> 0 \<le> u \<and> nat u < length hotkeys \<and> hotkeys ! nat u = hk"
  using hotkey_fold [of 0 hotkeys "[]" hk u] by (auto simp: hotkey_to_uid_def split: if_splits)

lemma hotkey_to_uid_inj:
  "map_of (hotkey_to_uid dry hotkeys) h = Some u \<Longrightarrow> map_of (hotkey_to_uid dry hotkeys) h' = Some u \<Longrightarrow> h = h'"
  using hotkey_to_uid_some by metis

definition mapped_pairs :: "(string \<times> int) list \<Rightarrow> (string \<times> pyfloat) list \<Rightarrow> (int \<times> pyfloat) list" where
  "mapped_pairs uids_of normalized = List.map_filter (\<lambda>(h, v). map_option (\<lambda>u. (u, v)) (map_of uids_of h)) normalized"

lemma set_mapped_pairs:
  "set (mapped_pairs uids_of normalized) = {(u, v). \<exists>h. (h, v) \<in> set normalized \<and> map_of uids_of h = Some u}"
  by (force simp: mapped_pairs_def List.map_filter_def split: prod.splits)

lemma distinct_mapped_pairs:
  assumes "distinct (map fst normalized)" "\<And>h h' u. map_of uids_of h = Some u \<Longrightarrow> map_of uids_of h' = Some u \<Longrightarrow> h = h'"
  shows "distinct (map fst (mapped_pairs uids_of normalized))"
  using assms(1)
proof (induction normalized)
  case (Cons hv ns)
  obtain h v where hv: "hv = (h, v)" by fastforce
  show ?case
  proof (cases "map_of uids_of h")
    case (Some u)
    have "u \<notin> fst ` set (mapped_pairs uids_of ns)"
    proof
      assume "u \<in> fst ` set (mapped_pairs uids_of ns)"
      then obtain h' w where "(h', w) \<in> set ns" "map_of uids_of h' = Some u" by (auto simp: set_mapped_pairs)
      then show False using assms(2) [OF Some] Cons.prems hv by (metis fst_conv image_eqI list.simps(9) distinct.simps(2) set_map)
    qed
    then show ?thesis using Cons Some hv by (simp add: mapped_pairs_def map_filter_simps)
  qed (use Cons hv in \<open>simp add: mapped_pairs_def map_filter_simps\<close>)
qed (simp add: mapped_pairs_def map_filter_simps)

lemma chain_outcome_fields [simp]:
  "wu_uids (chain_outcome r u) = wu_uids u" "wu_weights (chain_outcome r u) = wu_weights u"
  "wu_dropped_hotkeys (chain_outcome r u) = wu_dropped_hotkeys u"
  by (auto simp: chain_outcome_def Let_def split: chain_result.splits)

text \<open>Which uids are paired with which weights.\<close>

lemma publish_lists:
  "wu_uids (publish_weights False hotkeys set_weights scores) = map fst (sort (mapped_pairs (hotkey_to_uid False hotkeys) (normalize_scores scores)))"
  "wu_weights (publish_weights False hotkeys set_weights scores) = map snd (sort (mapped_pairs (hotkey_to_uid False hotkeys) (normalize_scores scores)))"
  by (simp_all add: publish_weights_def Let_def mapped_pairs_def WeightUpdate_new_def map_filter_simps)

lemma publish_pairs:
  "set (zip (wu_uids (publish_weights False hotkeys set_weights scores)) (wu_weights (publish_weights False hotkeys set_weights scores))) =
     {(i, v). \<exists>h. (h, v) \<in> set (normalize_scores scores) \<and> map_of (hotkey_to_uid False hotkeys) h = Some i}"
  by (simp add: publish_lists zip_map_fst_snd set_mapped_pairs)

lemma normalize_value:
  assumes "(h, v) \<in> set (normalize_scores scores)" "0 < sum_list (map (\<lambda>(k, v). max 0 v) scores)"
  shows "\<exists>s. (h, s) \<in> set scores \<and> v = max 0 s / sum_list (map (\<lambda>(k, v). max 0 v) scores)"
proof -
  have "snd \<circ> (\<lambda>(k, v). (k, max 0 v)) = (\<lambda>(k :: string, v :: rat). max 0 v)" by (auto simp: fun_eq_iff)
  then show ?thesis using assms by (auto simp: normalize_scores_def Let_def split: if_splits)
qed

subsection \<open>Properties\<close>

text \<open>
  Normalised scores are a distribution over the same miners: every weight is non-negative, the weights of a
  non-empty score table sum to one, and no miner is dropped, added or repeated.
\<close>

theorem normalize_scores_distribution:
  assumes "distinct (map fst scores)" "scores \<noteq> []"
  shows "sum_list (map snd (normalize_scores scores)) = 1 \<and> (\<forall>(k, v) \<in> set (normalize_scores scores). 0 \<le> v \<and> v \<le> 1) \<and>
    distinct (map fst (normalize_scores scores)) \<and> set (map fst (normalize_scores scores)) = set (map fst scores)"
proof -
  have s: "sum_list (map snd (normalize_scores scores)) = 1" by (rule normalize_sum [OF assms(2)])
  have "v \<le> 1" if "(k, v) \<in> set (normalize_scores scores)" for k v
  proof -
    have "v \<le> sum_list (map snd (normalize_scores scores))"
      using that normalize_nonneg by (intro member_le_sum_list) (force intro: rev_image_eqI)+
    then show ?thesis using s by simp
  qed
  then show ?thesis using s normalize_nonneg normalize_distinct [OF assms(1)] normalize_keys by blast
qed

theorem normalize_scores_distribution_witness:
  "sum_list (map snd (normalize_scores [(''a'', 3), (''b'', - 1), (''c'', 1)])) = 1"
  using normalize_scores_distribution [of "[(''a'', 3), (''b'', - 1), (''c'', 1)]"] by simp



end
