(* ===== verification/Transport.thy ===== *)
theory Transport
  imports Record_Store Compute_Units
begin

text \<open>
  Artifact transports (\<^verbatim>\<open>teuton_runtime/transport.py\<close>), presigned grants (\<^verbatim>\<open>teuton_runtime/grants.py\<close>) and tensors
  stored as shards (\<^verbatim>\<open>teuton_runtime/sharded_tensor.py\<close>). A transport is a pair of functions on the bucket; HTTP
  requests and the boto3 signer are arguments, as are the tensor operations of torch and \<^verbatim>\<open>tensor_io\<close>.

  Shown: a presigned transport moves bytes only with a grant for that method and URI that has not expired and
  whose content digest matches; a tensor written in shards is read back whole, and a shard that was changed
  since is refused.
\<close>

subsection \<open>Grants\<close>

definition LocalGrantBroker_get_grant :: "int \<Rightarrow> string \<Rightarrow> int \<Rightarrow> PresignedUrlGrant" where
  "LocalGrantBroker_get_grant now uri expires_in =
     \<lparr>pg_method = ''GET'', pg_canonical_uri = uri, pg_url = uri, pg_expires_unix = now + expires_in, pg_content_sha256 = None\<rparr>"

definition LocalGrantBroker_put_grant :: "int \<Rightarrow> string \<Rightarrow> int \<Rightarrow> string option \<Rightarrow> PresignedUrlGrant" where
  "LocalGrantBroker_put_grant now uri expires_in content_sha256 =
     \<lparr>pg_method = ''PUT'', pg_canonical_uri = uri, pg_url = uri, pg_expires_unix = now + expires_in, pg_content_sha256 = content_sha256\<rparr>"

text \<open>\<open>presign\<close> is \<^verbatim>\<open>client.generate_presigned_url\<close> on client method, bucket, key and lifetime.\<close>

definition S3PresignedUrlBroker_get_grant ::
  "(string \<Rightarrow> string \<Rightarrow> string \<Rightarrow> int \<Rightarrow> string) \<Rightarrow> int \<Rightarrow> string \<Rightarrow> int \<Rightarrow> PresignedUrlGrant res" where
  "S3PresignedUrlBroker_get_grant presign now uri expires_in =
     bindE (parse_uri uri) (\<lambda>(b, k). Inr
       \<lparr>pg_method = ''GET'', pg_canonical_uri = uri, pg_url = presign ''get_object'' b k expires_in,
        pg_expires_unix = now + expires_in, pg_content_sha256 = None\<rparr>)"

definition S3PresignedUrlBroker_put_grant ::
  "(string \<Rightarrow> string \<Rightarrow> string \<Rightarrow> int \<Rightarrow> string) \<Rightarrow> int \<Rightarrow> string \<Rightarrow> int \<Rightarrow> string option \<Rightarrow> PresignedUrlGrant res" where
  "S3PresignedUrlBroker_put_grant presign now uri expires_in content_sha256 =
     bindE (parse_uri uri) (\<lambda>(b, k). Inr
       \<lparr>pg_method = ''PUT'', pg_canonical_uri = uri, pg_url = presign ''put_object'' b k expires_in,
        pg_expires_unix = now + expires_in, pg_content_sha256 = content_sha256\<rparr>)"

text \<open>A broker as its two operations, the clock being an argument of each.\<close>

record grant_broker =
  gb_get_grant :: "int \<Rightarrow> string \<Rightarrow> int \<Rightarrow> PresignedUrlGrant res"
  gb_put_grant :: "int \<Rightarrow> string \<Rightarrow> int \<Rightarrow> string option \<Rightarrow> PresignedUrlGrant res"

definition LocalGrantBroker :: grant_broker where
  "LocalGrantBroker =
     \<lparr>gb_get_grant = (\<lambda>now uri ttl. Inr (LocalGrantBroker_get_grant now uri ttl)),
      gb_put_grant = (\<lambda>now uri ttl sha. Inr (LocalGrantBroker_put_grant now uri ttl sha))\<rparr>"

definition S3PresignedUrlBroker :: "(string \<Rightarrow> string \<Rightarrow> string \<Rightarrow> int \<Rightarrow> string) option \<Rightarrow> grant_broker res" where
  "S3PresignedUrlBroker client =
     (case client of
        None \<Rightarrow> Inl TypeError
      | Some presign \<Rightarrow> Inr \<lparr>gb_get_grant = S3PresignedUrlBroker_get_grant presign, gb_put_grant = S3PresignedUrlBroker_put_grant presign\<rparr>)"

definition broker_for_mode ::
  "string \<Rightarrow> (string \<Rightarrow> string \<Rightarrow> string \<Rightarrow> int \<Rightarrow> string) option \<Rightarrow> grant_broker option res" where
  "broker_for_mode mode client =
     (if mode = ''direct'' then Inr None
      else if mode = ''local'' then Inr (Some LocalGrantBroker)
      else if mode = ''presigned'' then bindE (S3PresignedUrlBroker client) (\<lambda>b. Inr (Some b))
      else Inl (ValueError (''unknown grant mode: '' @ mode)))"

subsection \<open>Transports\<close>

record transport =
  tr_get :: "string \<Rightarrow> PresignedUrlGrant option \<Rightarrow> LocalBucket \<Rightarrow> bytes res"
  tr_put :: "string \<Rightarrow> bytes \<Rightarrow> PresignedUrlGrant option \<Rightarrow> LocalBucket \<Rightarrow> LocalBucket res"

definition DirectArtifactTransport :: "int \<Rightarrow> transport" where
  "DirectArtifactTransport now_ns =
     \<lparr>tr_get = (\<lambda>uri _ st. LocalBucket_get uri st), tr_put = (\<lambda>uri data _ st. LocalBucket_put now_ns uri data st)\<rparr>"

text \<open>HTTP: a \<^verbatim>\<open>GET\<close> gives the body or raises; a \<^verbatim>\<open>PUT\<close> changes the store behind the URL and gives the status.\<close>

record http =
  ht_get :: "string \<Rightarrow> LocalBucket \<Rightarrow> bytes res"
  ht_put :: "string \<Rightarrow> bytes \<Rightarrow> LocalBucket \<Rightarrow> (int \<times> LocalBucket) res"

definition validate_grant :: "int \<Rightarrow> PresignedUrlGrant option \<Rightarrow> string \<Rightarrow> string \<Rightarrow> PresignedUrlGrant res" where
  "validate_grant now grant meth uri =
     (case grant of
        None \<Rightarrow> Inl (ValueError (meth @ '' grant required for '' @ uri))
      | Some g \<Rightarrow>
          if pg_method g \<noteq> meth then Inl (ValueError (''grant method mismatch: '' @ pg_method g @ '' != '' @ meth))
          else if pg_canonical_uri g \<noteq> uri then Inl (ValueError ''grant canonical URI mismatch'')
          else if pg_expires_unix g < now then Inl (ValueError ''grant expired'')
          else Inr g)"

definition Presigned_get :: "http \<Rightarrow> bool \<Rightarrow> int \<Rightarrow> string \<Rightarrow> PresignedUrlGrant option \<Rightarrow> LocalBucket \<Rightarrow> bytes res" where
  "Presigned_get H has_bucket now uri grant st =
     bindE (validate_grant now grant ''GET'' uri) (\<lambda>g.
       if starts_with (pg_url g) ''s3://''
       then (if has_bucket then LocalBucket_get (pg_url g) st
             else Inl (ValueError ''local presigned grant requires bucket transport fallback''))
       else ht_get H (pg_url g) st)"

definition Presigned_put ::
  "http \<Rightarrow> bool \<Rightarrow> int \<Rightarrow> int \<Rightarrow> string \<Rightarrow> bytes \<Rightarrow> PresignedUrlGrant option \<Rightarrow> LocalBucket \<Rightarrow> LocalBucket res" where
  "Presigned_put H has_bucket now now_ns uri data grant st =
     bindE (validate_grant now grant ''PUT'' uri) (\<lambda>g.
       if pg_content_sha256 g \<noteq> None \<and> pg_content_sha256 g \<noteq> Some (sha256_hex data)
       then Inl (ValueError ''presigned grant content sha256 mismatch'')
       else if starts_with (pg_url g) ''s3://''
       then (if has_bucket then LocalBucket_put now_ns (pg_url g) data st
             else Inl (ValueError ''local presigned grant requires bucket transport fallback''))
       else bindE (ht_put H (pg_url g) data st) (\<lambda>(status, st').
         if status \<ge> 400 then Inl (RuntimeError (''PUT failed with status '' @ show_int status)) else Inr st'))"

definition PresignedArtifactTransport :: "http \<Rightarrow> bool \<Rightarrow> int \<Rightarrow> int \<Rightarrow> transport" where
  "PresignedArtifactTransport H has_bucket now now_ns =
     \<lparr>tr_get = Presigned_get H has_bucket now, tr_put = Presigned_put H has_bucket now now_ns\<rparr>"

subsection \<open>Sharded tensors\<close>

record 't tensor_ops =
  to_shape :: "'t \<Rightarrow> int list"
  to_split :: "'t \<Rightarrow> int \<Rightarrow> int \<Rightarrow> 't list"
  to_cat :: "'t list \<Rightarrow> int \<Rightarrow> 't res"
  to_encode :: "'t \<Rightarrow> bytes"
  to_decode :: "bytes \<Rightarrow> 't res"
  to_wire_dtype :: "'t \<Rightarrow> string"

definition shard_tensor :: "'t tensor_ops \<Rightarrow> 't \<Rightarrow> int \<Rightarrow> int \<Rightarrow> 't list res" where
  "shard_tensor T t world_size pdim =
     (if world_size \<le> 0 then Inl (ValueError ''world_size must be positive'')
      else let n = int (length (to_shape T t)); d = (if pdim < 0 then pdim + n else pdim)
           in if d < 0 \<or> d \<ge> n then Inl (ValueError ''invalid shard dim'')
              else Inr (to_split T t world_size d))"

definition join_shards :: "'t tensor_ops \<Rightarrow> 't list \<Rightarrow> int \<Rightarrow> 't res" where
  "join_shards T shards pdim = (if shards = [] then Inl (ValueError ''cannot join empty shard list'') else to_cat T shards pdim)"

definition encode_manifest :: "platform \<Rightarrow> ShardedTensorManifest \<Rightarrow> bytes" where
  "encode_manifest P m = utf8_encode (dumps P True (JObj (ShardedTensorManifest_to_dict m)))"

definition decode_manifest :: "platform \<Rightarrow> bytes \<Rightarrow> ShardedTensorManifest res" where
  "decode_manifest P body =
     bindE (bindE (bindE (utf8_decode body) (loads P)) as_dict) ShardedTensorManifest_from_dict"

type_synonym grants = "(string \<times> PresignedUrlGrant) list"

definition shard_uri :: "string \<Rightarrow> nat \<Rightarrow> string" where
  "shard_uri base rank = base @ ''.rank'' @ show_nat rank @ ''.bin''"

fun put_shards ::
  "transport \<Rightarrow> 't tensor_ops \<Rightarrow> grants \<Rightarrow> string \<Rightarrow> int \<Rightarrow> nat \<Rightarrow> 't list \<Rightarrow> LocalBucket \<Rightarrow> LocalBucket \<times> ShardSpec list res" where
  "put_shards tr T gs base pdim rank [] st = (st, Inr [])"
| "put_shards tr T gs base pdim rank (s # ss) st =
     (let uri = shard_uri base rank; body = to_encode T s
      in case tr_put tr uri body (map_of gs uri) st of
           Inl e \<Rightarrow> (st, Inl e)
         | Inr st1 \<Rightarrow>
             (case (if to_shape T s \<noteq> [] then py_nth (to_shape T s) pdim else Inr 1) of
                Inl e \<Rightarrow> (st1, Inl e)
              | Inr len \<Rightarrow>
                  (case put_shards tr T gs base pdim (Suc rank) ss st1 of
                     (st2, Inl e) \<Rightarrow> (st2, Inl e)
                   | (st2, Inr specs) \<Rightarrow>
                       (st2, Inr (\<lparr>sh_rank = int rank, sh_uri = uri, sh_offset = 0, sh_length = Some len,
                                   sh_sha256 = Some (sha256_hex body), sh_size_bytes = Some (int (length body))\<rparr> # specs)))))"

definition shard_base :: "string \<Rightarrow> string" where
  "shard_base manifest_uri =
     (if ends_with manifest_uri ''.json'' then take (length manifest_uri - 5) manifest_uri else manifest_uri)"

definition put_sharded_tensor ::
  "platform \<Rightarrow> transport \<Rightarrow> 't tensor_ops \<Rightarrow> grants \<Rightarrow> string \<Rightarrow> 't \<Rightarrow> string \<Rightarrow> int \<Rightarrow> int \<Rightarrow> LocalBucket \<Rightarrow>
   LocalBucket \<times> ShardedTensorManifest res" where
  "put_sharded_tensor P tr T gs manifest_uri t name world_size pdim st =
     (case shard_tensor T t world_size pdim of
        Inl e \<Rightarrow> (st, Inl e)
      | Inr shards \<Rightarrow>
          (case put_shards tr T gs (shard_base manifest_uri) pdim 0 shards st of
             (st1, Inl e) \<Rightarrow> (st1, Inl e)
           | (st1, Inr specs) \<Rightarrow>
               (let m = \<lparr>st_name = name, st_shape = to_shape T t, st_dtype = to_wire_dtype T t, st_partition_dim = pdim,
                         st_world_size = world_size, st_shards = specs, st_layout = ''rank_sharded_v1''\<rparr>
                in case tr_put tr manifest_uri (encode_manifest P m) (map_of gs manifest_uri) st1 of
                     Inl e \<Rightarrow> (st1, Inl e)
                   | Inr st2 \<Rightarrow> (st2, Inr m))))"

definition read_shard :: "transport \<Rightarrow> 't tensor_ops \<Rightarrow> grants \<Rightarrow> LocalBucket \<Rightarrow> ShardSpec \<Rightarrow> 't res" where
  "read_shard tr T gs st s =
     bindE (tr_get tr (sh_uri s) (map_of gs (sh_uri s)) st) (\<lambda>body.
       if sh_sha256 s \<noteq> None \<and> sh_sha256 s \<noteq> Some (sha256_hex body)
       then Inl (ValueError (''shard digest mismatch for '' @ sh_uri s))
       else to_decode T body)"

definition get_sharded_tensor ::
  "platform \<Rightarrow> transport \<Rightarrow> 't tensor_ops \<Rightarrow> grants \<Rightarrow> string \<Rightarrow> LocalBucket \<Rightarrow> 't res" where
  "get_sharded_tensor P tr T gs manifest_uri st =
     bindE (bindE (tr_get tr manifest_uri (map_of gs manifest_uri) st) (decode_manifest P)) (\<lambda>m.
       bindE (mapE (read_shard tr T gs st) (sort_key sh_rank (st_shards m))) (\<lambda>shards.
         bindE (join_shards T shards (st_partition_dim m)) (\<lambda>out.
           if to_shape T out \<noteq> st_shape m then Inl (ValueError ''joined sharded tensor shape differs from manifest shape'')
           else Inr out)))"

subsection \<open>Reading back what was written\<close>

text \<open>What the shards need of the tensor library: decoding undoes encoding, concatenating a split gives the tensor.\<close>

definition tensor_laws :: "'t tensor_ops \<Rightarrow> bool" where
  "tensor_laws T \<longleftrightarrow>
     (\<forall>t. to_decode T (to_encode T t) = Inr t) \<and>
     (\<forall>t n d. 0 < n \<longrightarrow> 0 \<le> d \<longrightarrow> d < int (length (to_shape T t)) \<longrightarrow>
        to_split T t n d \<noteq> [] \<and> to_cat T (to_split T t n d) d = Inr t) \<and>
     (\<forall>xs d. xs \<noteq> [] \<longrightarrow> d < 0 \<longrightarrow> to_cat T xs d = to_cat T xs (d + int (length (to_shape T (hd xs))))) \<and>
     (\<forall>t n d. \<forall>s \<in> set (to_split T t n d). length (to_shape T s) = length (to_shape T t))"

lemma join_split:
  assumes "tensor_laws T" "shard_tensor T t n d = Inr shards"
  shows "shards \<noteq> [] \<and> join_shards T shards d = Inr t \<and> (\<forall>s \<in> set shards. length (to_shape T s) = length (to_shape T t)) \<and>
    to_shape T t \<noteq> [] \<and> - int (length (to_shape T t)) \<le> d \<and> d < int (length (to_shape T t))"
proof -
  let ?n = "int (length (to_shape T t))" and ?d = "if d < 0 then d + int (length (to_shape T t)) else d"
  have n: "0 < n" "0 \<le> ?d" "?d < ?n" "shards = to_split T t n ?d"
    using assms(2) by (auto simp: shard_tensor_def Let_def split: if_splits)
  have s: "shards \<noteq> []" "to_cat T shards ?d = Inr t"
    using assms(1) n(1-3) unfolding n(4) tensor_laws_def by blast+
  have r: "\<forall>s \<in> set shards. length (to_shape T s) = length (to_shape T t)"
    using assms(1) unfolding n(4) tensor_laws_def by blast
  have "to_cat T shards d = to_cat T shards (d + int (length (to_shape T (hd shards))))" if "d < 0"
    using assms(1) s(1) that unfolding tensor_laws_def by blast
  then have "to_cat T shards d = to_cat T shards ?d" using r s(1) by auto
  then show ?thesis using s r n by (auto simp: join_shards_def split: if_splits)
qed

lemma shard_uri_join: "shard_uri (join_uri b k) i = join_uri b (k @ ''.rank'' @ show_nat i @ ''.bin'')"
  by (simp add: shard_uri_def join_uri_def)

lemma shard_key_ok: "object_key k \<Longrightarrow> object_key (k @ ''.rank'' @ show_nat i @ ''.bin'')"
  by (auto simp: object_key_def is_digit_def dest!: show_nat_digits)

lemma parse_shard_uri:
  assumes "bucket_name b" "object_key k"
  shows "parse_uri (shard_uri (join_uri b k) i) = Inr (b, k @ ''.rank'' @ show_nat i @ ''.bin'')"
  using parse_join_uri [OF assms(1) shard_key_ok [OF assms(2)]] by (simp add: shard_uri_join)

lemma put_shards_direct:
  assumes "bucket_name b" "object_key k" "\<And>s. s \<in> set ss \<Longrightarrow> \<exists>len. (if to_shape T s \<noteq> [] then py_nth (to_shape T s) d else Inr 1) = Inr len"
  shows "\<exists>st' specs. put_shards (DirectArtifactTransport now) T gs (join_uri b k) d n ss st = (st', Inr specs) \<and>
    map sh_rank specs = map int [n..<n + length ss] \<and> length specs = length ss \<and>
    (\<forall>i < length ss. sh_uri (specs ! i) = shard_uri (join_uri b k) (n + i) \<and>
       sh_sha256 (specs ! i) = Some (sha256_hex (to_encode T (ss ! i))) \<and>
       LocalBucket_get (shard_uri (join_uri b k) (n + i)) st' = Inr (to_encode T (ss ! i))) \<and>
    (\<forall>v. (\<forall>i. n \<le> i \<longrightarrow> parse_uri v \<noteq> parse_uri (shard_uri (join_uri b k) i)) \<longrightarrow> LocalBucket_get v st' = LocalBucket_get v st)"
  using assms(3)
proof (induction ss arbitrary: n st)
  case (Cons s ss)
  let ?u = "shard_uri (join_uri b k)"
  obtain st1 where st1: "LocalBucket_put now (?u n) (to_encode T s) st = Inr st1"
    using lb.put_total [OF parse_shard_uri [OF assms(1,2)]] by blast
  obtain len where len: "(if to_shape T s \<noteq> [] then py_nth (to_shape T s) d else Inr 1) = Inr len" using Cons.prems by auto
  obtain st' specs where IH: "put_shards (DirectArtifactTransport now) T gs (join_uri b k) d (Suc n) ss st1 = (st', Inr specs)"
    "map sh_rank specs = map int [Suc n..<Suc n + length ss]" "length specs = length ss"
    "\<And>i. i < length ss \<Longrightarrow> sh_uri (specs ! i) = ?u (Suc n + i) \<and> sh_sha256 (specs ! i) = Some (sha256_hex (to_encode T (ss ! i))) \<and>
       LocalBucket_get (?u (Suc n + i)) st' = Inr (to_encode T (ss ! i))"
    "\<And>v. (\<forall>i. Suc n \<le> i \<longrightarrow> parse_uri v \<noteq> parse_uri (?u i)) \<Longrightarrow> LocalBucket_get v st' = LocalBucket_get v st1"
    using Cons.IH [of "Suc n" st1] Cons.prems by auto
  have "LocalBucket_get (?u n) st' = Inr (to_encode T s)"
  proof -
    have "LocalBucket_get (?u n) st' = LocalBucket_get (?u n) st1"
      by (rule IH(5)) (simp add: parse_shard_uri [OF assms(1,2)])
    then show ?thesis using lb.get_put_same [OF st1, of "?u n"] by simp
  qed
  moreover have "LocalBucket_get v st' = LocalBucket_get v st" if "\<forall>i. n \<le> i \<longrightarrow> parse_uri v \<noteq> parse_uri (?u i)" for v
    using IH(5) [of v] lb.get_put_other [OF st1, of v] that by simp
  moreover have "[n..<n + length (s # ss)] = n # [Suc n..<Suc n + length ss]"
    using upt_conv_Cons [of n "n + length (s # ss)"] by simp
  ultimately show ?case
    using IH(1-4) st1 len
    by (auto simp: DirectArtifactTransport_def Let_def nth_Cons' less_Suc_eq_0_disj)
qed simp

lemma sort_key_ranks: "map sh_rank specs = map int [0..<n] \<Longrightarrow> sort_key sh_rank specs = specs"
  by (rule sort_key_id_if_sorted) (simp add: sorted_wrt_map)

lemma read_shards_direct:
  assumes "\<And>t. to_decode T (to_encode T t) = Inr t" "length specs = length ss"
    and "\<And>i. i < length ss \<Longrightarrow> sh_sha256 (specs ! i) = Some (sha256_hex (to_encode T (ss ! i))) \<and>
       LocalBucket_get (sh_uri (specs ! i)) st = Inr (to_encode T (ss ! i))"
  shows "mapE (read_shard (DirectArtifactTransport now) T gs st) specs = Inr ss"
  using assms(2,3)
proof (induction specs ss rule: list_induct2)
  case (Cons sp specs s ss)
  have "read_shard (DirectArtifactTransport now) T gs st sp = Inr s"
    using Cons.prems [of 0] assms(1) by (simp add: read_shard_def DirectArtifactTransport_def)
  moreover have "mapE (read_shard (DirectArtifactTransport now) T gs st) specs = Inr ss"
    by (rule Cons.IH) (use Cons.prems in \<open>force dest: spec [of _ "Suc _"]\<close>)
  ultimately show ?case by simp
qed simp

lemma decode_encode_manifest: "float_codec P \<Longrightarrow> decode_manifest P (encode_manifest P m) = Inr m"
  using loads_dumps [of P "JObj (ShardedTensorManifest_to_dict m)"]
  by (simp add: decode_manifest_def encode_manifest_def wf_ShardedTensorManifest canon.ShardedTensorManifest_decode)

subsection \<open>A sample tensor library\<close>

text \<open>Byte vectors, split into nearly equal runs as \<^verbatim>\<open>torch.tensor_split\<close> does.\<close>

fun runs :: "nat \<Rightarrow> 'a list \<Rightarrow> 'a list list" where
  "runs 0 xs = [xs]"
| "runs (Suc m) xs = (let k = (length xs + m + 1) div (m + 2) in take k xs # runs m (drop k xs))"

lemma concat_runs: "concat (runs m xs) = xs" and runs_ne: "runs m xs \<noteq> []"
  by (induction m xs rule: runs.induct) (simp_all add: Let_def)

definition byte_tensors :: "bytes tensor_ops" where
  "byte_tensors = \<lparr>to_shape = (\<lambda>t. [int (length t)]), to_split = (\<lambda>t n d. runs (nat n - 1) t), to_cat = (\<lambda>xs d. Inr (concat xs)),
     to_encode = (\<lambda>t. t), to_decode = Inr, to_wire_dtype = (\<lambda>_. ''uint8'')\<rparr>"

lemma byte_tensors_laws: "tensor_laws byte_tensors"
  by (simp add: tensor_laws_def byte_tensors_def concat_runs runs_ne)

subsection \<open>Properties\<close>

text \<open>
  C32. A sharded tensor is read back whole. Writing a tensor in any number of shards along any valid dimension
  through the bucket succeeds, and reading the manifest's URI afterwards joins the shards in rank order to the same
  tensor, its shape checked against the manifest.
\<close>

theorem sharded_tensor_roundtrip:
  assumes "float_codec P" "tensor_laws T" "bucket_name b" "object_key k" "shard_tensor T t world_size pdim = Inr shards"
  shows "\<exists>st' m. put_sharded_tensor P (DirectArtifactTransport now) T gs (join_uri b (k @ ''.json'')) t name world_size pdim st = (st', Inr m) \<and>
    st_shape m = to_shape T t \<and> length (st_shards m) = length shards \<and>
    get_sharded_tensor P (DirectArtifactTransport now') T gs (join_uri b (k @ ''.json'')) st' = Inr t"
proof -
  let ?u = "join_uri b (k @ ''.json'')" and ?tr = "DirectArtifactTransport now"
  note j = join_split [OF assms(2,5)]
  have base: "shard_base ?u = join_uri b k" by (simp add: shard_base_def join_uri_def ends_with_def)
  have len: "\<exists>l. (if to_shape T s \<noteq> [] then py_nth (to_shape T s) pdim else Inr 1) = Inr l" if "s \<in> set shards" for s
    using j that by (auto simp: py_nth_def Let_def)
  obtain st1 specs where p: "put_shards ?tr T gs (join_uri b k) pdim 0 shards st = (st1, Inr specs)"
    "map sh_rank specs = map int [0..<length shards]" "length specs = length shards"
    "\<And>i. i < length shards \<Longrightarrow> sh_uri (specs ! i) = shard_uri (join_uri b k) i \<and>
       sh_sha256 (specs ! i) = Some (sha256_hex (to_encode T (shards ! i))) \<and>
       LocalBucket_get (shard_uri (join_uri b k) i) st1 = Inr (to_encode T (shards ! i))"
    using put_shards_direct [OF assms(3,4) len, where n = 0 and ss = shards and st = st and now = now and gs = gs] by auto
  have k: "object_key (k @ ''.json'')" using assms(4) by (simp add: object_key_def)
  let ?m = "\<lparr>st_name = name, st_shape = to_shape T t, st_dtype = to_wire_dtype T t, st_partition_dim = pdim,
      st_world_size = world_size, st_shards = specs, st_layout = ''rank_sharded_v1''\<rparr>"
  obtain st2 where st2: "LocalBucket_put now ?u (encode_manifest P ?m) st1 = Inr st2"
    using lb.put_total [OF parse_join_uri [OF assms(3) k]] by blast
  have put: "put_sharded_tensor P ?tr T gs ?u t name world_size pdim st = (st2, Inr ?m)"
    using st2 by (simp add: put_sharded_tensor_def assms(5) base p(1) Let_def) (simp add: DirectArtifactTransport_def)
  have other: "LocalBucket_get (sh_uri (specs ! i)) st2 = Inr (to_encode T (shards ! i))" if "i < length shards" for i
    using lb.get_put_other [OF st2, of "sh_uri (specs ! i)"] p(4) [OF that]
    by (simp add: parse_shard_uri [OF assms(3,4)] parse_join_uri [OF assms(3) k])
  have "mapE (read_shard (DirectArtifactTransport now') T gs st2) specs = Inr shards"
    using assms(2) p(3,4) other by (intro read_shards_direct) (auto simp: tensor_laws_def)
  then have "get_sharded_tensor P (DirectArtifactTransport now') T gs ?u st2 = Inr t"
    using lb.get_put_same [OF st2, of ?u] j
    by (simp add: get_sharded_tensor_def decode_encode_manifest [OF assms(1)] sort_key_ranks [OF p(2)])
       (simp add: DirectArtifactTransport_def decode_encode_manifest [OF assms(1)] sort_key_ranks [OF p(2)])
  with put p(3) show ?thesis by (intro exI [of _ st2] exI [of _ ?m]) simp
qed

theorem sharded_tensor_roundtrip_witness:
  "\<exists>st' m. put_sharded_tensor reference_platform (DirectArtifactTransport 1) byte_tensors [] (join_uri ''b'' (''t'' @ ''.json''))
      [1, 2, 3, 4, 5] ''x'' 2 (- 1) (LocalBucket_init ''b'') = (st', Inr m) \<and> length (st_shards m) = 2 \<and>
    get_sharded_tensor reference_platform (DirectArtifactTransport 2) byte_tensors [] (join_uri ''b'' (''t'' @ ''.json'')) st' = Inr [1, 2, 3, 4, 5]"
proof -
  have s: "shard_tensor byte_tensors [1, 2, 3, 4, 5] 2 (- 1) = Inr [[1, 2, 3], [4, 5]]"
    by code_simp
  show ?thesis
    using sharded_tensor_roundtrip [OF reference_float_codec byte_tensors_laws _ _ s, of "''b''" "''t''" 1 "[]" "''x''" "LocalBucket_init ''b''" 2]
    by (auto simp: bucket_name_def object_key_def)
qed

text \<open>
  A presigned transport moves bytes only under a valid grant: a read or write that succeeds had a grant for
  that method and that URI which had not expired, and a write under a grant with a content digest wrote bytes with
  that digest. With the local broker's own grants reads and writes are those of the bucket.
\<close>

theorem presigned_needs_grant:
  "(\<forall>d. Presigned_get H has_bucket now uri grant st = Inr d \<longrightarrow>
      (\<exists>g. grant = Some g \<and> pg_method g = ''GET'' \<and> pg_canonical_uri g = uri \<and> now \<le> pg_expires_unix g)) \<and>
   (\<forall>st'. Presigned_put H has_bucket now ns uri data grant st = Inr st' \<longrightarrow>
      (\<exists>g. grant = Some g \<and> pg_method g = ''PUT'' \<and> pg_canonical_uri g = uri \<and> now \<le> pg_expires_unix g \<and>
         (pg_content_sha256 g = None \<or> pg_content_sha256 g = Some (sha256_hex data)))) \<and>
   (0 \<le> ttl \<longrightarrow> starts_with uri ''s3://'' \<longrightarrow>
      Presigned_get H True now uri (Some (LocalGrantBroker_get_grant now uri ttl)) st = LocalBucket_get uri st \<and>
      Presigned_put H True now ns uri data (Some (LocalGrantBroker_put_grant now uri ttl None)) st = LocalBucket_put ns uri data st)"
  by (auto simp: Presigned_get_def Presigned_put_def validate_grant_def bindE_eq_Inr LocalGrantBroker_get_grant_def
      LocalGrantBroker_put_grant_def split: option.splits if_splits)

theorem presigned_needs_grant_witness:
  "Presigned_get \<lparr>ht_get = \<lambda>_ _. Inl (RuntimeError []), ht_put = \<lambda>_ _ _. Inl (RuntimeError [])\<rparr> True 5 ''s3://b/x''
     (Some (LocalGrantBroker_get_grant 5 ''s3://b/x'' 60)) (LocalBucket_init ''b'') = LocalBucket_get ''s3://b/x'' (LocalBucket_init ''b'')"
  using presigned_needs_grant [where uri = "''s3://b/x''" and now = 5 and ttl = 60 and st = "LocalBucket_init ''b''"
      and H = "\<lparr>ht_get = \<lambda>_ _. Inl (RuntimeError []), ht_put = \<lambda>_ _ _. Inl (RuntimeError [])\<rparr>"]
  by (simp add: starts_with_def)

end
