(* ===== verification/Audit_Replay.thy ===== *)
theory Audit_Replay
  imports Crypto Transport Scoring
begin

text \<open>
  \<^verbatim>\<open>teuton_validator/audit.py\<close> and \<^verbatim>\<open>teuton_validator/audit_dispatch.py\<close>: replaying a job and comparing what
  the miner stored with what the replay gives. The whole choreography is modelled: signatures, manifest hash,
  graph, inputs and their digests, envelopes, shards, the comparison of every output, and the mapping of
  exceptions to a status. The tensor operations, \<^verbatim>\<open>evaluate\<close>, the tensor-parallel runner, the random sample and the
  text of an exception are fields of \<open>replay_env\<close>.
\<close>

subsection \<open>Configuration and environment\<close>

record AuditReplayConfig =
  ac_owner_secret :: string
  ac_owner_hotkey :: string
  ac_miner_secret :: string
  ac_device :: string
  ac_max_sample_elements :: int
  ac_encryption_secret :: string
  ac_timelock_provider :: "timelock_provider option"

text \<open>A replay output: a tensor, or something else.\<close>

datatype 't replay_value = Tensor 't | NonTensor

record 't replay_env =
  re_platform :: platform
  re_drand :: "drand_lib option"
  re_transport :: transport
  re_tensors :: "'t tensor_ops"
  re_evaluate :: "Graph \<Rightarrow> (string \<times> 't) list \<Rightarrow> dict \<Rightarrow> LocalBucket \<Rightarrow> (string \<times> 't replay_value) list res"
  re_gpt_run :: "(string \<times> 't) list \<Rightarrow> dict \<Rightarrow> (string \<times> 't replay_value) list res"
  re_as_tensor :: "json \<Rightarrow> 't res"
  re_flat :: "'t \<Rightarrow> 't"
  re_numel :: "'t \<Rightarrow> nat"
  re_is_float :: "'t \<Rightarrow> bool"
  re_index_select :: "'t \<Rightarrow> nat list \<Rightarrow> 't"
  re_equal :: "'t \<Rightarrow> 't \<Rightarrow> bool res"
  re_allclose :: "'t \<Rightarrow> 't \<Rightarrow> pyfloat \<Rightarrow> pyfloat \<Rightarrow> bool res"
  re_max_abs :: "'t \<Rightarrow> 't \<Rightarrow> pyfloat res"
  re_sample :: "int \<Rightarrow> nat \<Rightarrow> nat \<Rightarrow> nat list"
  re_str :: "pyerr \<Rightarrow> string"
  re_repr :: "pyerr \<Rightarrow> string"
  re_elapsed :: pyfloat
  re_now :: pyfloat

text \<open>The part of the comparison built so far, and the runner's graph cache.\<close>

record replay_state =
  rp_inputs :: dict
  rp_outputs :: dict
  rp_extra :: dict
  rp_graphs :: "(string \<times> Graph) list"

subsection \<open>Signatures\<close>

definition verify_manifest_signature :: "platform \<Rightarrow> AuditReplayConfig \<Rightarrow> JobManifestV3 \<Rightarrow> bool res" where
  "verify_manifest_signature P cfg m =
     (if ac_owner_secret cfg = ''skip'' then Inr True
      else case mf_owner_signature m of
             None \<Rightarrow> Inr False
           | Some sig \<Rightarrow>
               if sig = [] then Inr False
               else if ac_owner_hotkey cfg \<noteq> [] then verify_identity_dict P (JobManifestV3_unsigned_dict m) (ac_owner_hotkey cfg) sig True
               else verify_dict P (JobManifestV3_unsigned_dict m) (ac_owner_secret cfg) sig)"

definition miner_signing_secret :: "AuditReplayConfig \<Rightarrow> JobReceiptV3 \<Rightarrow> string" where
  "miner_signing_secret cfg r = (if ac_miner_secret cfg = ''hotkey'' then wi_hotkey_ss58 (rc_worker r) else ac_miner_secret cfg)"

definition verify_receipt_signature :: "platform \<Rightarrow> AuditReplayConfig \<Rightarrow> JobReceiptV3 \<Rightarrow> bool res" where
  "verify_receipt_signature P cfg r =
     (case rc_miner_signature r of
        None \<Rightarrow> Inr False
      | Some sig \<Rightarrow>
          if sig = [] then Inr False
          else bindE (verify_identity_dict P (JobReceiptV3_unsigned_dict r) (wi_hotkey_ss58 (rc_worker r)) sig True) (\<lambda>ok.
                 if ok then Inr True else verify_dict P (JobReceiptV3_unsigned_dict r) (miner_signing_secret cfg r) sig))"

subsection \<open>Graph and inputs\<close>

definition runner_fetch_graph :: "platform \<Rightarrow> LocalBucket \<Rightarrow> string \<Rightarrow> string \<Rightarrow> (replay_state, Graph) sres" where
  "runner_fetch_graph P st sha uri s =
     (case map_of (rp_graphs s) sha of
        Some g \<Rightarrow> (Inr g, s)
      | None \<Rightarrow>
          (case fetch_graph_checked P (ValueError ''graph hash mismatch'') sha uri st of
             Inl e \<Rightarrow> (Inl e, s)
           | Inr g \<Rightarrow> (Inr g, s\<lparr>rp_graphs := AList.update sha g (rp_graphs s)\<rparr>)))"

definition expected_digests :: "ArtifactDigest list \<Rightarrow> (string \<times> ArtifactDigest) list" where
  "expected_digests ds = fold (\<lambda>d m. AList.update (ad_name d) d m) ds []"

definition digest_matches :: "ArtifactDigest option \<Rightarrow> string \<Rightarrow> bool" where
  "digest_matches want sha = (case want of None \<Rightarrow> True | Some d \<Rightarrow> ad_sha256 d = sha \<or> ad_envelope_sha256 d = Some sha)"

definition crypto_mode_of :: "ArtifactRef \<Rightarrow> string" where
  "crypto_mode_of ref = (case ar_crypto ref of None \<Rightarrow> ''none'' | Some p \<Rightarrow> cp_mode p)"

definition decode_artifact :: "'t replay_env \<Rightarrow> AuditReplayConfig \<Rightarrow> ArtifactRef \<Rightarrow> bytes \<Rightarrow> bytes res" where
  "decode_artifact E cfg ref body =
     decode_envelope (re_platform E) (re_drand E) body (ar_crypto ref) (Some (IdentityVerifier_verify (re_platform E)))
       (ac_encryption_secret cfg) (ac_timelock_provider cfg)"

definition input_entry :: "ArtifactRef \<Rightarrow> ArtifactDigest option \<Rightarrow> bytes \<Rightarrow> json" where
  "input_entry ref want body =
     JObj [(''sha256'', JStr (sha256_hex body)), (''size_bytes'', JInt (int (length body))),
           (''matches_receipt'', JBool (digest_matches want (sha256_hex body))), (''crypto_mode'', JStr (crypto_mode_of ref))]"

definition load_input ::
  "'t replay_env \<Rightarrow> AuditReplayConfig \<Rightarrow> grants \<Rightarrow> LocalBucket \<Rightarrow> (string \<times> ArtifactDigest) list \<Rightarrow> ArtifactRef \<Rightarrow> (replay_state, 't) sres" where
  "load_input E cfg gs st expected ref =
     bindS (liftS (tr_get (re_transport E) (ar_uri ref) (map_of gs (ar_uri ref)) st)) (\<lambda>body.
       let want = map_of expected (ar_name ref)
       in bindS (modifyS (\<lambda>s. s\<lparr>rp_inputs := AList.update (ar_name ref) (input_entry ref want body) (rp_inputs s)\<rparr>)) (\<lambda>_.
            if \<not> digest_matches want (sha256_hex body) then liftS (Inl (ValueError (''input changed: '' @ ar_name ref)))
            else if want \<noteq> None \<and> ad_sharded (the want) \<noteq> None
            then liftS (get_sharded_tensor (re_platform E) (re_transport E) (re_tensors E) gs (ar_uri ref) st)
            else liftS (bindE (decode_artifact E cfg ref body) (to_decode (re_tensors E)))))"

fun load_inputs ::
  "'t replay_env \<Rightarrow> AuditReplayConfig \<Rightarrow> grants \<Rightarrow> LocalBucket \<Rightarrow> (string \<times> ArtifactDigest) list \<Rightarrow> ArtifactRef list \<Rightarrow>
   (string \<times> 't) list \<Rightarrow> (replay_state, (string \<times> 't) list) sres" where
  "load_inputs E cfg gs st expected [] acc = liftS (Inr acc)"
| "load_inputs E cfg gs st expected (ref # refs) acc =
     bindS (load_input E cfg gs st expected ref) (\<lambda>t. load_inputs E cfg gs st expected refs (AList.update (ar_name ref) t acc))"

subsection \<open>Comparing an output\<close>

text \<open>\<^verbatim>\<open>"k" in v\<close> for a JSON value.\<close>

fun json_has :: "string \<Rightarrow> json \<Rightarrow> bool res" where
  "json_has k (JObj d) = Inr (map_of d k \<noteq> None)"
| "json_has k (JList xs) = Inr (JStr k \<in> set xs)"
| "json_has k (JStr s) = Inr (contains s k)"
| "json_has k _ = Inl TypeError"

definition observed_output ::
  "'t replay_env \<Rightarrow> AuditReplayConfig \<Rightarrow> grants \<Rightarrow> LocalBucket \<Rightarrow> ArtifactRef \<Rightarrow> ArtifactDigest option \<Rightarrow> 't res" where
  "observed_output E cfg gs st ref digest =
     (let sharded = get_sharded_tensor (re_platform E) (re_transport E) (re_tensors E) gs (ar_uri ref) st
      in if digest \<noteq> None \<and> ad_sharded (the digest) \<noteq> None then sharded
         else bindE (tr_get (re_transport E) (ar_uri ref) (map_of gs (ar_uri ref)) st) (\<lambda>blob.
           bindE (decode_artifact E cfg ref blob) (\<lambda>body.
             if ends_with (ar_uri ref) ''.json''
             then bindE (bindE (utf8_decode body) (loads (re_platform E))) (\<lambda>v.
               bindE (json_has ''shards'' v) (\<lambda>a.
               bindE (if a then json_has ''world_size'' v else Inr False) (\<lambda>b.
                 if b then sharded
                 else bindE (as_mapping v) (\<lambda>d. re_as_tensor E (get_none d ''value'')))))
             else to_decode (re_tensors E) body)))"

definition failed_comparison :: "string \<Rightarrow> bool \<times> dict" where
  "failed_comparison reason = (False, [(''status'', JStr ''fail''), (''reason'', JStr reason)])"

definition sampled :: "'t replay_env \<Rightarrow> VerificationPolicy \<Rightarrow> nat \<Rightarrow> 't \<Rightarrow> 't" where
  "sampled E policy n t =
     (if 0 < vp_max_sample_elements policy \<and> vp_max_sample_elements policy < int n
      then re_index_select E t (re_sample E (vp_sample_seed policy) n (nat (vp_max_sample_elements policy)))
      else t)"

definition comparator_of :: "'t replay_env \<Rightarrow> VerificationPolicy \<Rightarrow> 't \<Rightarrow> string" where
  "comparator_of E policy expected =
     (if vp_comparator policy = ''auto'' then (if re_is_float E expected then ''allclose'' else ''exact'') else vp_comparator policy)"

definition compare_tensors :: "'t replay_env \<Rightarrow> VerificationPolicy \<Rightarrow> string \<Rightarrow> 't \<Rightarrow> 't \<Rightarrow> (bool \<times> pyfloat) res" where
  "compare_tensors E policy comparator obs want =
     (if comparator = ''exact''
      then bindE (re_equal E obs want) (\<lambda>ok. if ok then Inr (True, 0) else bindE (re_max_abs E obs want) (\<lambda>m. Inr (False, m)))
      else bindE (re_allclose E obs want (vp_rtol policy) (vp_atol policy)) (\<lambda>ok.
        if re_numel E obs = 0 then Inr (ok, 0) else bindE (re_max_abs E obs want) (\<lambda>m. Inr (ok, m))))"

definition output_digest :: "JobReceiptV3 \<Rightarrow> ArtifactRef \<Rightarrow> ArtifactDigest option" where
  "output_digest r ref = find (\<lambda>d. ad_name d = ar_name ref \<and> ad_uri d = ar_uri ref) (rc_output_digests r)"

definition compare_output ::
  "'t replay_env \<Rightarrow> AuditReplayConfig \<Rightarrow> grants \<Rightarrow> LocalBucket \<Rightarrow> JobManifestV3 \<Rightarrow> JobReceiptV3 \<Rightarrow> ArtifactRef \<Rightarrow> 't replay_value option \<Rightarrow>
   (bool \<times> dict) res" where
  "compare_output E cfg gs st m r ref expected_value =
     (case expected_value of
        None \<Rightarrow> Inr (failed_comparison ''missing replay output'')
      | Some value \<Rightarrow>
          (let digest = output_digest r ref; policy = mf_verification_policy m
           in bindE (observed_output E cfg gs st ref digest) (\<lambda>observed.
             case value of
               NonTensor \<Rightarrow> Inr (failed_comparison ''non-tensor replay output'')
             | Tensor expected \<Rightarrow>
                 if to_shape (re_tensors E) observed \<noteq> to_shape (re_tensors E) expected then Inr (failed_comparison ''shape mismatch'')
                 else let total = re_numel E (re_flat E observed);
                          obs = sampled E policy total (re_flat E observed); want = sampled E policy total (re_flat E expected);
                          comparator = comparator_of E policy expected
                      in bindE (compare_tensors E policy comparator obs want) (\<lambda>(ok, max_abs). Inr
                           (ok, [(''status'', JStr (if ok then ''pass'' else ''fail'')),
                                 (''reason'', JStr (if ok then ''matched'' else ''tensor mismatch'')),
                                 (''comparator'', JStr comparator), (''checked_elements'', JInt (int (re_numel E obs))),
                                 (''total_elements'', JInt (int total)), (''max_abs_error'', JFloat max_abs),
                                 (''crypto_mode'', JStr (crypto_mode_of ref)),
                                 (''sharded'', case digest of None \<Rightarrow> JNull
                                    | Some d \<Rightarrow> opt_json (\<lambda>x. JObj (ShardedTensorManifest_to_dict x)) (ad_sharded d))])))))"

definition reason_of :: "dict \<Rightarrow> string" where
  "reason_of d = (case map_of d ''reason'' of Some (JStr s) \<Rightarrow> s | _ \<Rightarrow> ''None'')"

fun compare_outputs ::
  "'t replay_env \<Rightarrow> AuditReplayConfig \<Rightarrow> grants \<Rightarrow> LocalBucket \<Rightarrow> JobManifestV3 \<Rightarrow> JobReceiptV3 \<Rightarrow> (string \<times> 't replay_value) list \<Rightarrow>
   ArtifactRef list \<Rightarrow> bool \<Rightarrow> string list \<Rightarrow> (replay_state, bool \<times> string list) sres" where
  "compare_outputs E cfg gs st m r outs [] ok reasons = liftS (Inr (ok, reasons))"
| "compare_outputs E cfg gs st m r outs (ref # refs) ok reasons =
     bindS (liftS (compare_output E cfg gs st m r ref (map_of outs (ar_name ref)))) (\<lambda>(out_ok, out_cmp).
       bindS (modifyS (\<lambda>s. s\<lparr>rp_outputs := AList.update (ar_name ref) (JObj out_cmp) (rp_outputs s)\<rparr>)) (\<lambda>_.
         if out_ok then compare_outputs E cfg gs st m r outs refs ok reasons
         else compare_outputs E cfg gs st m r outs refs False (reasons @ [ar_name ref @ '': '' @ reason_of out_cmp])))"

subsection \<open>The replay\<close>

type_synonym outcome = "string \<times> string \<times> pyfloat"

definition uses_gpt_runner :: "JobManifestV3 \<Rightarrow> bool" where
  "uses_gpt_runner m =
     (or_else (get_none (mf_params m) ''distributed_runner'') (get_none (mf_params m) ''runner'') = JStr ''gpt_tensor_parallel_v1'')"

definition replay_outputs ::
  "'t replay_env \<Rightarrow> LocalBucket \<Rightarrow> JobManifestV3 \<Rightarrow> JobReceiptV3 \<Rightarrow> Graph \<Rightarrow> (string \<times> 't) list \<Rightarrow> (replay_state, (string \<times> 't replay_value) list) sres" where
  "replay_outputs E st m r graph inputs =
     (if uses_gpt_runner m
      then bindS (liftS (re_gpt_run E inputs (mf_params m))) (\<lambda>outs.
        bindS (modifyS (\<lambda>s. s\<lparr>rp_extra := AList.update ''distributed_replay''
           (JObj [(''mode'', JStr ''single_rank_functional''), (''receipt_world_size'', get_none (rc_execution r) ''world_size''),
                  (''sharding_plan_hash'', get_none (rc_execution r) ''sharding_plan_hash'')]) (rp_extra s)\<rparr>)) (\<lambda>_. liftS (Inr outs)))
      else liftS (re_evaluate E graph inputs (mf_params m) st))"

definition replay_job ::
  "'t replay_env \<Rightarrow> AuditReplayConfig \<Rightarrow> grants \<Rightarrow> LocalBucket \<Rightarrow> JobManifestV3 \<Rightarrow> JobReceiptV3 \<Rightarrow> (replay_state, outcome) sres" where
  "replay_job E cfg gs st m r =
     bindS (liftS (verify_manifest_signature (re_platform E) cfg m)) (\<lambda>owner_ok.
       if \<not> owner_ok then liftS (Inr (''fail'', ''bad owner signature'', 0))
       else bindS (liftS (verify_receipt_signature (re_platform E) cfg r)) (\<lambda>miner_ok.
         if \<not> miner_ok then liftS (Inr (''fail'', ''bad miner signature'', 0))
         else if manifest_hash (re_platform E) m \<noteq> rc_manifest_hash r then liftS (Inr (''fail'', ''manifest hash mismatch'', 0))
         else bindS (runner_fetch_graph (re_platform E) st (gr_sha256 (mf_graph_ref m)) (gr_uri (mf_graph_ref m))) (\<lambda>graph.
           bindS (load_inputs E cfg gs st (expected_digests (rc_input_digests r)) (mf_inputs m) []) (\<lambda>inputs.
           bindS (replay_outputs E st m r graph inputs) (\<lambda>outs.
           bindS (compare_outputs E cfg gs st m r outs (mf_outputs m) True []) (\<lambda>(ok, reasons).
             liftS (Inr (if ok then ''pass'' else ''fail'',
                         if ok then ''all outputs matched'' else join_with ''; '' (take 4 reasons), re_elapsed E))))))))"

definition comparison_dict :: "string \<Rightarrow> replay_state \<Rightarrow> dict" where
  "comparison_dict receipt_uri s =
     [(''receipt_uri'', JStr receipt_uri), (''inputs'', JObj (rp_inputs s)), (''outputs'', JObj (rp_outputs s))] @ rp_extra s"

definition audit_result :: "JobReceiptV3 \<Rightarrow> string \<Rightarrow> outcome \<Rightarrow> dict \<Rightarrow> pyfloat \<Rightarrow> AuditResultV3" where
  "audit_result r auditor out comparison now =
     (case out of (status, reason, sec) \<Rightarrow>
        \<lparr>au_audit_id = auditor @ '':'' @ rc_receipt_id r, au_receipt_id = rc_receipt_id r, au_manifest_hash = rc_manifest_hash r,
         au_job_id = rc_job_id r, au_run_id = rc_run_id r, au_miner_hotkey = wi_hotkey_ss58 (rc_worker r), au_auditor_hotkey = auditor,
         au_status = status, au_reason = reason, au_replay_compute_sec = sec, au_checked_unix = now, au_comparison = comparison,
         au_auditor_signature = None, au_schema_version = 3\<rparr>)"

definition handle_exception :: "'t replay_env \<Rightarrow> pyerr \<Rightarrow> (outcome \<times> (string \<times> string)) res" where
  "handle_exception E e =
     (case e of
        TimelockPending _ \<Rightarrow> Inr ((''inconclusive'', re_str E e, 0), (''crypto_pending'', re_str E e))
      | ValueError _ \<Rightarrow> Inr ((''fail'', re_str E e, 0), (''verification_error'', re_str E e))
      | Untyped \<Rightarrow> Inl Untyped
      | _ \<Rightarrow> Inr ((''inconclusive'', re_str E e, 0), (''error'', re_repr E e)))"

definition AuditReplayRunner_run ::
  "'t replay_env \<Rightarrow> AuditReplayConfig \<Rightarrow> grants \<Rightarrow> LocalBucket \<Rightarrow> string \<Rightarrow> JobManifestV3 \<Rightarrow> JobReceiptV3 \<Rightarrow> string \<Rightarrow>
   (string \<times> Graph) list \<Rightarrow> AuditResultV3 res \<times> (string \<times> Graph) list" where
  "AuditReplayRunner_run E cfg gs st receipt_uri m r auditor graphs =
     (case replay_job E cfg gs st m r \<lparr>rp_inputs = [], rp_outputs = [], rp_extra = [], rp_graphs = graphs\<rparr> of
        (Inr out, s) \<Rightarrow> (Inr (audit_result r auditor out (comparison_dict receipt_uri s) (re_now E)), rp_graphs s)
      | (Inl e, s) \<Rightarrow>
          (bindE (handle_exception E e) (\<lambda>(out, k, v).
             Inr (audit_result r auditor out
               (comparison_dict receipt_uri (s\<lparr>rp_extra := AList.update k (JStr v) (rp_extra s)\<rparr>)) (re_now E))), rp_graphs s))"

subsection \<open>Running an audit job\<close>

definition run_audit_replay ::
  "'t replay_env \<Rightarrow> JobManifestV3 \<Rightarrow> string \<Rightarrow> signer option \<Rightarrow> string \<Rightarrow> string \<Rightarrow> string \<Rightarrow> string \<Rightarrow> grants \<Rightarrow> LocalBucket \<Rightarrow> AuditResultV3 res" where
  "run_audit_replay E manifest worker_hotkey auditor_signer owner_secret owner_hotkey miner_secret device gs st =
     bindE (bindE (bindE (get_req (mf_params manifest) ''target_manifest'') as_mapping) (JobManifestV3_from_dict (re_platform E))) (\<lambda>target.
     bindE (if owner_secret = ''skip'' then Inr ()
            else bindE (case mf_owner_signature target of
                     None \<Rightarrow> Inr False
                   | Some sig \<Rightarrow> if sig = [] then Inr False
                       else verify_identity_dict (re_platform E) (JobManifestV3_unsigned_dict target)
                              (if owner_hotkey \<noteq> [] then owner_hotkey else owner_secret) sig True) (\<lambda>ok.
                   if ok then Inr () else Inl (ValueError (''audit target manifest has bad owner signature: '' @ mf_job_id target)))) (\<lambda>_.
     bindE (bindE (bindE (get_req (mf_params manifest) ''receipt'') as_mapping) (JobReceiptV3_from_dict (re_platform E))) (\<lambda>receipt.
     bindE (bindE (get_req (mf_params manifest) ''receipt_uri'') as_str) (\<lambda>receipt_uri.
     bindE (fst (AuditReplayRunner_run E
         \<lparr>ac_owner_secret = owner_secret, ac_owner_hotkey = owner_hotkey, ac_miner_secret = miner_secret, ac_device = device,
          ac_max_sample_elements = 4096, ac_encryption_secret = ''teuton-dev-encryption'', ac_timelock_provider = None\<rparr>
         gs st receipt_uri target receipt worker_hotkey [])) (\<lambda>audit.
       Inr (AuditResultV3_sign (re_platform E) (case auditor_signer of Some s \<Rightarrow> s | None \<Rightarrow> Secret worker_hotkey) audit))))))"

end
