(* ===== verification/Audit_Properties.thy ===== *)
theory Audit_Properties
  imports Audit_Replay
begin

text \<open>
  What an audit result means: a pass implies every check of the replay, a fail or an inconclusive result comes
  from the failing check or the exception that caused it.
\<close>

subsection \<open>Steps of the replay\<close>

definition output_matches ::
  "'t replay_env \<Rightarrow> AuditReplayConfig \<Rightarrow> grants \<Rightarrow> LocalBucket \<Rightarrow> JobManifestV3 \<Rightarrow> JobReceiptV3 \<Rightarrow> (string \<times> 't replay_value) list \<Rightarrow> ArtifactRef \<Rightarrow> bool" where
  "output_matches E cfg gs st m r outs ref \<longleftrightarrow>
     (\<exists>expected observed max_abs. map_of outs (ar_name ref) = Some (Tensor expected) \<and>
        observed_output E cfg gs st ref (output_digest r ref) = Inr observed \<and>
        to_shape (re_tensors E) observed = to_shape (re_tensors E) expected \<and>
        (let n = re_numel E (re_flat E observed); policy = mf_verification_policy m
         in compare_tensors E policy (comparator_of E policy expected)
              (sampled E policy n (re_flat E observed)) (sampled E policy n (re_flat E expected)) = Inr (True, max_abs)))"

lemma compare_output_ok:
  assumes "compare_output E cfg gs st m r ref v = Inr (True, cmp)" "v = map_of outs (ar_name ref)"
  shows "output_matches E cfg gs st m r outs ref"
proof -
  from assms(1) obtain val where v: "v = Some val" by (cases v) (auto simp: compare_output_def failed_comparison_def)
  show ?thesis
  proof (cases val)
    case (Tensor expected)
    then have "map_of outs (ar_name ref) = Some (Tensor expected)" using assms(2) v by simp
    with Tensor show ?thesis using assms(1)
      by (auto simp: v compare_output_def output_matches_def failed_comparison_def Let_def bindE_eq_Inr split: if_splits)
  next
    case NonTensor
    then show ?thesis using assms(1) by (auto simp: v compare_output_def failed_comparison_def Let_def bindE_eq_Inr)
  qed
qed

lemma compare_outputs_ok:
  assumes "compare_outputs E cfg gs st m r outs refs ok reasons s = (Inr (True, rs), s')"
  shows "ok \<and> (\<forall>ref \<in> set refs. output_matches E cfg gs st m r outs ref)"
  using assms
proof (induction refs arbitrary: ok reasons s)
  case (Cons ref refs)
  from Cons.prems obtain out_ok cmp where c: "compare_output E cfg gs st m r ref (map_of outs (ar_name ref)) = Inr (out_ok, cmp)"
    and rest: "(if out_ok then compare_outputs E cfg gs st m r outs refs ok reasons
         else compare_outputs E cfg gs st m r outs refs False (reasons @ [ar_name ref @ '': '' @ reason_of cmp]))
        (s\<lparr>rp_outputs := AList.update (ar_name ref) (JObj cmp) (rp_outputs s)\<rparr>) = (Inr (True, rs), s')"
    by (auto simp: bindS_Inr)
  show ?case
  proof (cases out_ok)
    case True
    with rest Cons.IH c compare_output_ok show ?thesis by fastforce
  next
    case False
    with rest Cons.IH show ?thesis by fastforce
  qed
qed simp

lemma load_input_ok:
  assumes "load_input E cfg gs st expected ref s = (Inr t, s')"
  shows "\<exists>body. tr_get (re_transport E) (ar_uri ref) (map_of gs (ar_uri ref)) st = Inr body \<and>
    digest_matches (map_of expected (ar_name ref)) (sha256_hex body)"
  using assms by (auto simp: load_input_def bindS_Inr Let_def split: if_splits)

lemma load_inputs_ok:
  assumes "load_inputs E cfg gs st expected refs acc s = (Inr inputs, s')"
  shows "(\<forall>ref \<in> set refs. \<exists>body. tr_get (re_transport E) (ar_uri ref) (map_of gs (ar_uri ref)) st = Inr body \<and>
      digest_matches (map_of expected (ar_name ref)) (sha256_hex body)) \<and>
    dom (map_of inputs) = dom (map_of acc) \<union> ar_name ` set refs"
  using assms
proof (induction refs arbitrary: acc s)
  case (Cons ref refs)
  from Cons.prems obtain t s1 where l: "load_input E cfg gs st expected ref s = (Inr t, s1)"
    and rest: "load_inputs E cfg gs st expected refs (AList.update (ar_name ref) t acc) s1 = (Inr inputs, s')"
    by (auto simp: bindS_Inr)
  from load_input_ok [OF l] Cons.IH [OF rest] show ?case by auto
qed simp

lemma fetch_graph_id:
  assumes "runner_fetch_graph P st sha uri s = (Inr g, s')" "\<forall>(k, g) \<in> set (rp_graphs s). graph_id P g = k"
  shows "graph_id P g = sha"
  using assms by (auto simp: runner_fetch_graph_def fetch_graph_checked_def bindE_eq_Inr
      split: option.splits sum.splits if_splits dest!: map_of_SomeD)

lemma replay_status: "replay_job E cfg gs st m r s = (Inr out, s') \<Longrightarrow> fst out = ''pass'' \<or> fst out = ''fail''"
  by (auto simp: replay_job_def bindS_Inr split: if_splits)

lemma replay_pass:
  assumes "replay_job E cfg gs st m r s = (Inr (''pass'', reason, sec), s')" "\<forall>(k, g) \<in> set (rp_graphs s). graph_id (re_platform E) g = k"
  shows "verify_manifest_signature (re_platform E) cfg m = Inr True \<and> verify_receipt_signature (re_platform E) cfg r = Inr True \<and>
    manifest_hash (re_platform E) m = rc_manifest_hash r \<and>
    (\<exists>graph inputs outs. graph_id (re_platform E) graph = gr_sha256 (mf_graph_ref m) \<and>
       (\<forall>ref \<in> set (mf_inputs m). \<exists>body. tr_get (re_transport E) (ar_uri ref) (map_of gs (ar_uri ref)) st = Inr body \<and>
          digest_matches (map_of (expected_digests (rc_input_digests r)) (ar_name ref)) (sha256_hex body)) \<and>
       dom (map_of inputs) = ar_name ` set (mf_inputs m) \<and>
       (if uses_gpt_runner m then re_gpt_run E inputs (mf_params m) else re_evaluate E graph inputs (mf_params m) st) = Inr outs \<and>
       (\<forall>ref \<in> set (mf_outputs m). output_matches E cfg gs st m r outs ref))"
proof -
  from assms(1) obtain graph s1 inputs s2 outs s3 ok rs where
    sig: "verify_manifest_signature (re_platform E) cfg m = Inr True" "verify_receipt_signature (re_platform E) cfg r = Inr True"
      "manifest_hash (re_platform E) m = rc_manifest_hash r"
    and g: "runner_fetch_graph (re_platform E) st (gr_sha256 (mf_graph_ref m)) (gr_uri (mf_graph_ref m)) s = (Inr graph, s1)"
    and i: "load_inputs E cfg gs st (expected_digests (rc_input_digests r)) (mf_inputs m) [] s1 = (Inr inputs, s2)"
    and o: "replay_outputs E st m r graph inputs s2 = (Inr outs, s3)"
    and c: "compare_outputs E cfg gs st m r outs (mf_outputs m) True [] s3 = (Inr (ok, rs), s')" and ok
    by (auto simp: replay_job_def bindS_Inr split: if_splits)
  have "(if uses_gpt_runner m then re_gpt_run E inputs (mf_params m) else re_evaluate E graph inputs (mf_params m) st) = Inr outs"
    using o by (auto simp: replay_outputs_def bindS_Inr)
  then show ?thesis
    using sig fetch_graph_id [OF g assms(2)] load_inputs_ok [OF i] compare_outputs_ok [of E cfg gs st m r outs _ _ _ s3 rs s'] c \<open>ok\<close>
    by (intro conjI exI [of _ graph] exI [of _ inputs] exI [of _ outs]) auto
qed

lemma run_cases:
  assumes "AuditReplayRunner_run E cfg gs st uri m r auditor graphs = (Inr a, graphs')"
  obtains (returned) out s where "replay_job E cfg gs st m r \<lparr>rp_inputs = [], rp_outputs = [], rp_extra = [], rp_graphs = graphs\<rparr> = (Inr out, s)"
      "a = audit_result r auditor out (comparison_dict uri s) (re_now E)"
    | (raised) e s out k v where "replay_job E cfg gs st m r \<lparr>rp_inputs = [], rp_outputs = [], rp_extra = [], rp_graphs = graphs\<rparr> = (Inl e, s)"
      "handle_exception E e = Inr (out, k, v)"
      "a = audit_result r auditor out (comparison_dict uri (s\<lparr>rp_extra := AList.update k (JStr v) (rp_extra s)\<rparr>)) (re_now E)"
  using assms by (auto simp: AuditReplayRunner_run_def bindE_eq_Inr split: prod.splits sum.splits)

lemma handle_exception_status:
  "handle_exception E e = Inr (out, k, v) \<Longrightarrow> e \<noteq> Untyped \<and> fst (snd out) = re_str E e \<and>
    fst out = (case e of ValueError _ \<Rightarrow> ''fail'' | _ \<Rightarrow> ''inconclusive'')"
  by (auto simp: handle_exception_def split: pyerr.splits)

lemma audit_result_fields [simp]:
  "au_status (audit_result r auditor out c now) = fst out" "au_reason (audit_result r auditor out c now) = fst (snd out)"
  "au_receipt_id (audit_result r auditor out c now) = rc_receipt_id r" "au_manifest_hash (audit_result r auditor out c now) = rc_manifest_hash r"
  "au_auditor_hotkey (audit_result r auditor out c now) = auditor" "au_miner_hotkey (audit_result r auditor out c now) = wi_hotkey_ss58 (rc_worker r)"
  by (simp_all add: audit_result_def split: prod.splits)

subsection \<open>Sample replay\<close>

definition sample_env :: "bytes replay_env" where
  "sample_env = \<lparr>re_platform = reference_platform, re_drand = None, re_transport = DirectArtifactTransport 1, re_tensors = byte_tensors,
     re_evaluate = (\<lambda>g inputs params st. Inr [(''y'', Tensor [1, 2])]), re_gpt_run = (\<lambda>_ _. Inr []), re_as_tensor = (\<lambda>_. Inr []),
     re_flat = id, re_numel = length, re_is_float = (\<lambda>_. False), re_index_select = (\<lambda>t is. map ((!) t) is),
     re_equal = (\<lambda>a b. Inr (a = b)), re_allclose = (\<lambda>a b _ _. Inr (a = b)), re_max_abs = (\<lambda>_ _. Inr 0),
     re_sample = (\<lambda>_ n k. [0..<k]), re_str = (\<lambda>_. ''error''), re_repr = (\<lambda>_. ''error''), re_elapsed = 1, re_now = 9\<rparr>"

definition sample_cfg :: AuditReplayConfig where
  "sample_cfg = \<lparr>ac_owner_secret = ''skip'', ac_owner_hotkey = [], ac_miner_secret = ''m'', ac_device = ''cpu'',
     ac_max_sample_elements = 4096, ac_encryption_secret = ''e'', ac_timelock_provider = None\<rparr>"

definition empty_graph :: Graph where
  "empty_graph = \<lparr>gh_inputs = [], gh_outputs = [], gh_params = [], gh_ops = [], gh_ir_version = 1\<rparr>"

definition audited_manifest :: JobManifestV3 where
  "audited_manifest = sample_manifest\<lparr>mf_inputs := [], mf_graph_ref := \<lparr>gr_sha256 = graph_id reference_platform empty_graph, gr_uri = ''s3://b/g.json''\<rparr>\<rparr>"

definition audited_receipt :: JobReceiptV3 where
  "audited_receipt = JobReceiptV3_sign reference_platform (Secret ''hk'')
     (sample_receipt\<lparr>rc_manifest_hash := manifest_hash reference_platform audited_manifest\<rparr>)"

definition audited_bucket :: LocalBucket where
  "audited_bucket = \<lparr>lb_bucket = ''b'', lb_objects = [((''b'', ''y.bin''), ([1, 2], 0))]\<rparr>"

lemma audited_signature: "verify_receipt_signature reference_platform sample_cfg audited_receipt = Inr True"
proof -
  have h: "wi_hotkey_ss58 (rc_worker audited_receipt) = ''hk''"
    by (simp add: audited_receipt_def JobReceiptV3_sign_def sample_receipt_def)
  have u: "rc_miner_signature audited_receipt = Some (sign_dict reference_platform (JobReceiptV3_unsigned_dict audited_receipt) ''hk'')"
    by (simp add: audited_receipt_def JobReceiptV3_sign_def record_signature_def JobReceiptV3_unsigned_dict_def)
  show ?thesis by (simp add: verify_receipt_signature_def u h verify_identity_hmac)
qed

lemma audited_fields:
  "rc_manifest_hash audited_receipt = manifest_hash reference_platform audited_manifest"
  "mf_inputs audited_manifest = []" "mf_outputs audited_manifest = [\<lparr>ar_name = ''y'', ar_uri = ''s3://b/y.bin'', ar_sha256 = None, ar_size_bytes = None, ar_crypto = None\<rparr>]"
  "gr_sha256 (mf_graph_ref audited_manifest) = graph_id reference_platform empty_graph" "rc_output_digests audited_receipt = []"
  "\<not> uses_gpt_runner audited_manifest"
  by (simp_all add: audited_receipt_def JobReceiptV3_sign_def audited_manifest_def sample_manifest_def sample_receipt_def
      uses_gpt_runner_def get_or_def or_else_def)

lemma audited_get: "LocalBucket_get ''s3://b/y.bin'' audited_bucket = Inr [1, 2]"
  by code_simp

lemma audited_passes:
  "\<exists>a gs'. AuditReplayRunner_run sample_env sample_cfg [] audited_bucket ''u'' audited_manifest audited_receipt ''aud''
      [(graph_id reference_platform empty_graph, empty_graph)] = (Inr a, gs') \<and> au_status a = ''pass''"
proof -
  have P: "re_platform sample_env = reference_platform" by (simp add: sample_env_def)
  have o: "verify_manifest_signature reference_platform sample_cfg audited_manifest = Inr True"
    by (simp add: verify_manifest_signature_def sample_cfg_def)
  have pol: "mf_verification_policy audited_manifest = mf_verification_policy sample_manifest" by (simp add: audited_manifest_def)
  let ?ref = "\<lparr>ar_name = ''y'', ar_uri = ''s3://b/y.bin'', ar_sha256 = None, ar_size_bytes = None, ar_crypto = None\<rparr> :: ArtifactRef"
  have obs: "observed_output sample_env sample_cfg [] audited_bucket ?ref None = Inr [1, 2]"
    by (simp add: observed_output_def sample_env_def DirectArtifactTransport_def audited_get decode_artifact_def decode_envelope_def
        default_policy_def ArtifactCryptoPolicy_default_def byte_tensors_def ends_with_def)
  have "\<exists>cmp. compare_output sample_env sample_cfg [] audited_bucket audited_manifest audited_receipt ?ref (Some (Tensor [1, 2])) = Inr (True, cmp)"
    unfolding compare_output_def output_digest_def audited_fields(5) pol
    by (simp add: obs Let_def compare_tensors_def comparator_of_def sampled_def) (simp add: sample_env_def sample_manifest_def)
  then obtain cmp where c: "compare_output sample_env sample_cfg [] audited_bucket audited_manifest audited_receipt ?ref (Some (Tensor [1, 2])) = Inr (True, cmp)" ..
  have ev: "replay_outputs sample_env audited_bucket audited_manifest audited_receipt g i s = (Inr [(''y'', Tensor [1, 2])], s)" for g i s
    by (simp add: replay_outputs_def audited_fields(6) liftS_def sample_env_def)
  have "\<exists>out s. replay_job sample_env sample_cfg [] audited_bucket audited_manifest audited_receipt
      \<lparr>rp_inputs = [], rp_outputs = [], rp_extra = [], rp_graphs = [(graph_id reference_platform empty_graph, empty_graph)]\<rparr> = (Inr (''pass'', out), s)"
    unfolding replay_job_def P
    by (simp add: bindS_def liftS_def o audited_signature audited_fields runner_fetch_graph_def ev c modifyS_def)
  then show ?thesis by (auto simp: AuditReplayRunner_run_def)
qed

subsection \<open>Properties\<close>

text \<open>
  C4. A pass is sound. If the replay of a receipt ends in status pass, the manifest carries a valid owner
  signature (unless the owner check is switched off), the receipt a valid miner signature and the manifest's own
  hash; the graph has the hash the manifest names; every input the receipt has a digest for still has it; and
  every output the manifest declares was recomputed as a tensor and agrees with the stored one in shape and, on the
  sampled elements, under the manifest's comparator.
\<close>

theorem audit_pass_sound:
  assumes "AuditReplayRunner_run E cfg gs st uri m r auditor graphs = (Inr a, graphs')" "au_status a = ''pass''"
    and "\<forall>(k, g) \<in> set graphs. graph_id (re_platform E) g = k"
  shows "verify_manifest_signature (re_platform E) cfg m = Inr True \<and> verify_receipt_signature (re_platform E) cfg r = Inr True \<and>
    manifest_hash (re_platform E) m = rc_manifest_hash r \<and> au_receipt_id a = rc_receipt_id r \<and> au_manifest_hash a = rc_manifest_hash r \<and>
    (\<exists>graph inputs outs. graph_id (re_platform E) graph = gr_sha256 (mf_graph_ref m) \<and>
       (\<forall>ref \<in> set (mf_inputs m). \<exists>body. tr_get (re_transport E) (ar_uri ref) (map_of gs (ar_uri ref)) st = Inr body \<and>
          digest_matches (map_of (expected_digests (rc_input_digests r)) (ar_name ref)) (sha256_hex body)) \<and>
       dom (map_of inputs) = ar_name ` set (mf_inputs m) \<and>
       (if uses_gpt_runner m then re_gpt_run E inputs (mf_params m) else re_evaluate E graph inputs (mf_params m) st) = Inr outs \<and>
       (\<forall>ref \<in> set (mf_outputs m). output_matches E cfg gs st m r outs ref))"
  using assms(1)
proof (cases rule: run_cases)
  case (returned out s)
  obtain reason sec where "out = (''pass'', reason, sec)" using assms(2) returned(2) by (cases out) auto
  then have p: "replay_job E cfg gs st m r \<lparr>rp_inputs = [], rp_outputs = [], rp_extra = [], rp_graphs = graphs\<rparr> = (Inr (''pass'', reason, sec), s)"
    using returned(1) by simp
  have "\<forall>(k, g) \<in> set (rp_graphs \<lparr>rp_inputs = [], rp_outputs = [], rp_extra = [], rp_graphs = graphs\<rparr>). graph_id (re_platform E) g = k"
    using assms(3) by simp
  from replay_pass [OF p this] returned(2) show ?thesis by simp
next
  case (raised e s out k v)
  then have "''pass'' = (case e of ValueError _ \<Rightarrow> ''fail'' | _ \<Rightarrow> ''inconclusive'')"
    using assms(2) handle_exception_status [of E e out k v] by simp
  then show ?thesis by (cases e) simp_all
qed

theorem audit_pass_sound_witness:
  "\<exists>a gs'. AuditReplayRunner_run sample_env sample_cfg [] audited_bucket ''u'' audited_manifest audited_receipt ''aud''
      [(graph_id reference_platform empty_graph, empty_graph)] = (Inr a, gs') \<and>
    manifest_hash (re_platform sample_env) audited_manifest = rc_manifest_hash audited_receipt"
proof -
  from audited_passes obtain a gs' where a: "AuditReplayRunner_run sample_env sample_cfg [] audited_bucket ''u'' audited_manifest audited_receipt ''aud''
      [(graph_id reference_platform empty_graph, empty_graph)] = (Inr a, gs')" "au_status a = ''pass''" by blast
  have "\<forall>(k, g) \<in> set [(graph_id reference_platform empty_graph, empty_graph)]. graph_id (re_platform sample_env) g = k"
    by (simp add: sample_env_def)
  from audit_pass_sound [OF a this] a(1) show ?thesis by blast
qed

text \<open>
  How a replay ends. The status of an audit result is pass or fail when the replay returned; when it raised, a
  \<^verbatim>\<open>ValueError\<close> (which includes every digest, hash and decoding error) is a fail and any other exception is
  inconclusive, with the exception's text as reason. Signature or hash mismatches always give fail.
\<close>

theorem audit_status_mapping:
  assumes "AuditReplayRunner_run E cfg gs st uri m r auditor graphs = (Inr a, graphs')"
  defines "start \<equiv> \<lparr>rp_inputs = [], rp_outputs = [], rp_extra = [], rp_graphs = graphs\<rparr>"
  shows "(case fst (replay_job E cfg gs st m r start) of
      Inr (status, reason, _) \<Rightarrow> au_status a = status \<and> au_reason a = reason \<and> status \<in> {''pass'', ''fail''}
    | Inl e \<Rightarrow> e \<noteq> Untyped \<and> au_reason a = re_str E e \<and>
        au_status a = (case e of ValueError _ \<Rightarrow> ''fail'' | _ \<Rightarrow> ''inconclusive'')) \<and>
    (verify_manifest_signature (re_platform E) cfg m = Inr False \<longrightarrow> au_status a = ''fail'' \<and> au_reason a = ''bad owner signature'')"
proof -
  have bad: "fst (replay_job E cfg gs st m r start) = Inr (''fail'', ''bad owner signature'', 0)"
    if "verify_manifest_signature (re_platform E) cfg m = Inr False"
    using that by (simp add: replay_job_def bindS_def liftS_def)
  from assms(1) have "case fst (replay_job E cfg gs st m r start) of
      Inr (status, reason, _) \<Rightarrow> au_status a = status \<and> au_reason a = reason \<and> status \<in> {''pass'', ''fail''}
    | Inl e \<Rightarrow> e \<noteq> Untyped \<and> au_reason a = re_str E e \<and>
        au_status a = (case e of ValueError _ \<Rightarrow> ''fail'' | _ \<Rightarrow> ''inconclusive'')"
  proof (cases rule: run_cases)
    case (returned out s)
    then show ?thesis using replay_status [of E cfg gs st m r start out s]
      unfolding start_def by (cases out) simp
  next
    case (raised e s out k v)
    then show ?thesis using handle_exception_status [of E e out k v]
      unfolding start_def by simp
  qed
  then show ?thesis using bad by auto
qed

theorem audit_status_mapping_witness:
  "\<exists>a gs'. AuditReplayRunner_run sample_env sample_cfg [] audited_bucket ''u'' audited_manifest audited_receipt ''aud''
      [(graph_id reference_platform empty_graph, empty_graph)] = (Inr a, gs') \<and>
    (verify_manifest_signature (re_platform sample_env) sample_cfg audited_manifest = Inr False \<longrightarrow> au_status a = ''fail'')"
proof -
  from audited_passes obtain a gs' where a: "AuditReplayRunner_run sample_env sample_cfg [] audited_bucket ''u'' audited_manifest audited_receipt ''aud''
      [(graph_id reference_platform empty_graph, empty_graph)] = (Inr a, gs')" by blast
  from audit_status_mapping [OF this] a show ?thesis by blast
qed

end
