(* ===== verification/Verifier.thy ===== *)
theory Verifier
  imports Audit_Replay
begin

text \<open>
  \<^verbatim>\<open>ReplayVerifier\<close> of \<^verbatim>\<open>teuton_validator/verifier.py\<close>: sampling receipts, finding manifests and audit results,
  turning an audit result into a signed verdict, and the two loops that write verdicts. The permutation applied by
  \<^verbatim>\<open>random.Random(17).shuffle\<close> is an argument.
\<close>

subsection \<open>Configuration\<close>

record ValidatorConfig =
  vc_netuid :: int
  vc_run_id :: string
  vc_validator_hotkey :: string
  vc_validator_secret :: string
  vc_validator_signer :: "signer option"
  vc_owner_secret :: string
  vc_owner_hotkey :: string
  vc_miner_secret :: string
  vc_device :: string
  vc_sample_rate :: pyfloat
  vc_max_sample_elements :: int
  vc_encryption_secret :: string
  vc_timelock_provider :: "timelock_provider option"
  vc_audit_eligible_hotkeys :: "string list"

definition audit_config :: "ValidatorConfig \<Rightarrow> AuditReplayConfig" where
  "audit_config c =
     \<lparr>ac_owner_secret = vc_owner_secret c, ac_owner_hotkey = vc_owner_hotkey c, ac_miner_secret = vc_miner_secret c,
      ac_device = vc_device c, ac_max_sample_elements = vc_max_sample_elements c, ac_encryption_secret = vc_encryption_secret c,
      ac_timelock_provider = vc_timelock_provider c\<rparr>"

subsection \<open>Sampling\<close>

fun be_nat :: "bytes \<Rightarrow> nat" where
  "be_nat bs = fold (\<lambda>b n. 256 * n + unat b) bs 0"

definition sample_point :: "string \<Rightarrow> string \<Rightarrow> pyfloat" where
  "sample_point validator_hotkey receipt_id =
     of_nat (be_nat (take 8 (sha256 (utf8_encode (validator_hotkey @ '':'' @ receipt_id))))) / 2 ^ 64"

definition in_sample :: "ValidatorConfig \<Rightarrow> JobReceiptV3 \<Rightarrow> bool" where
  "in_sample c r \<longleftrightarrow> \<not> (vc_sample_rate c < 1 \<and> sample_point (vc_validator_hotkey c) (rc_receipt_id r) \<ge> vc_sample_rate c)"

fun readable_receipts :: "platform \<Rightarrow> string list \<Rightarrow> LocalBucket \<Rightarrow> (string \<times> JobReceiptV3) list res" where
  "readable_receipts P [] st = Inr []"
| "readable_receipts P (u # us) st =
     (if \<not> ends_with u ''.json'' then readable_receipts P us st
      else case load_receipt P u st of
             Inl e \<Rightarrow> if caught e then readable_receipts P us st else Inl e
           | Inr r \<Rightarrow> bindE (readable_receipts P us st) (\<lambda>rs. Inr ((u, r) # rs)))"

type_synonym shuffle = "(string \<times> JobReceiptV3) list \<Rightarrow> (string \<times> JobReceiptV3) list"

definition sample_receipts :: "platform \<Rightarrow> shuffle \<Rightarrow> ValidatorConfig \<Rightarrow> LocalBucket \<Rightarrow> (string \<times> JobReceiptV3) list res" where
  "sample_receipts P shuf c st =
     bindE (readable_receipts P (LocalBucket_list (uri_for_key st (receipts_prefix (vc_netuid c) (vc_run_id c))) st) st) (\<lambda>rs.
       Inr (shuf (filter (\<lambda>(_, r). in_sample c r) rs)))"

subsection \<open>Looking up\<close>

definition receipt_verdict_uri :: "ValidatorConfig \<Rightarrow> LocalBucket \<Rightarrow> JobReceiptV3 \<Rightarrow> string" where
  "receipt_verdict_uri c st r = uri_for_key st (verdict_key (vc_netuid c) (rc_run_id r) (vc_validator_hotkey c) (rc_receipt_id r))"

definition has_verdict :: "ValidatorConfig \<Rightarrow> JobReceiptV3 \<Rightarrow> LocalBucket \<Rightarrow> bool res" where
  "has_verdict c r st = LocalBucket_exists (receipt_verdict_uri c st r) st"

definition find_manifest :: "platform \<Rightarrow> ValidatorConfig \<Rightarrow> JobReceiptV3 \<Rightarrow> LocalBucket \<Rightarrow> JobManifestV3 res" where
  "find_manifest P c r st = load_manifest P (uri_for_key st (job_manifest_key (vc_netuid c) (rc_run_id r) (rc_job_id r))) st"

definition verifier_fetch_graph :: "platform \<Rightarrow> JobManifestV3 \<Rightarrow> LocalBucket \<Rightarrow> Graph res" where
  "verifier_fetch_graph P m st =
     fetch_graph_checked P (ValueError (''graph hash mismatch for job '' @ mf_job_id m)) (gr_sha256 (mf_graph_ref m)) (gr_uri (mf_graph_ref m)) st"

fun first_audit :: "platform \<Rightarrow> string list \<Rightarrow> string \<Rightarrow> string list \<Rightarrow> LocalBucket \<Rightarrow> AuditResultV3 option res" where
  "first_audit P allow receipt_id [] st = Inr None"
| "first_audit P allow receipt_id (u # us) st =
     (if \<not> ends_with u ''.json'' then first_audit P allow receipt_id us st
      else case load_audit_result P u st of
             Inl e \<Rightarrow> if caught e then first_audit P allow receipt_id us st else Inl e
           | Inr a \<Rightarrow>
               if au_receipt_id a \<noteq> receipt_id then first_audit P allow receipt_id us st
               else if allow \<noteq> [] \<and> au_auditor_hotkey a \<notin> set allow then first_audit P allow receipt_id us st
               else Inr (Some a))"

definition find_audit_result :: "platform \<Rightarrow> ValidatorConfig \<Rightarrow> JobReceiptV3 \<Rightarrow> LocalBucket \<Rightarrow> AuditResultV3 option res" where
  "find_audit_result P c r st =
     first_audit P (vc_audit_eligible_hotkeys c) (rc_receipt_id r)
       (LocalBucket_list (uri_for_key st (audit_results_prefix (vc_netuid c) (rc_run_id r))) st) st"

definition verify_audit_result :: "platform \<Rightarrow> ValidatorConfig \<Rightarrow> AuditResultV3 \<Rightarrow> JobReceiptV3 \<Rightarrow> bool res" where
  "verify_audit_result P c a r =
     (case au_auditor_signature a of
        None \<Rightarrow> Inr False
      | Some sig \<Rightarrow>
          if sig = [] then Inr False
          else if au_receipt_id a \<noteq> rc_receipt_id r \<or> au_manifest_hash a \<noteq> rc_manifest_hash r then Inr False
          else if vc_audit_eligible_hotkeys c \<noteq> [] \<and> au_auditor_hotkey a \<notin> set (vc_audit_eligible_hotkeys c) then Inr False
          else verify_identity_dict P (AuditResultV3_unsigned_dict a) (au_auditor_hotkey a) sig True)"

subsection \<open>Verdicts\<close>

definition signed_verdict ::
  "platform \<Rightarrow> ValidatorConfig \<Rightarrow> pyfloat \<Rightarrow> JobReceiptV3 \<Rightarrow> string \<Rightarrow> string \<Rightarrow> pyfloat \<Rightarrow> pyfloat \<Rightarrow> dict \<Rightarrow> VerificationVerdictV3" where
  "signed_verdict P c now r status reason cu sec comparison =
     VerificationVerdictV3_sign P (case vc_validator_signer c of Some s \<Rightarrow> s | None \<Rightarrow> Secret (vc_validator_secret c))
       \<lparr>vv_verdict_id = vc_validator_hotkey c @ '':'' @ rc_receipt_id r, vv_receipt_id = rc_receipt_id r,
        vv_manifest_hash = rc_manifest_hash r, vv_job_id = rc_job_id r, vv_run_id = rc_run_id r,
        vv_miner_hotkey = wi_hotkey_ss58 (rc_worker r), vv_validator_hotkey = vc_validator_hotkey c, vv_status = status,
        vv_reason = reason, vv_estimated_cu = cu, vv_replay_compute_sec = sec, vv_checked_unix = now, vv_comparison = comparison,
        vv_validator_signature = None, vv_schema_version = 3\<rparr>"

definition verdict_from_audit ::
  "platform \<Rightarrow> ValidatorConfig \<Rightarrow> pyfloat \<Rightarrow> JobReceiptV3 \<Rightarrow> AuditResultV3 \<Rightarrow> JobManifestV3 option \<Rightarrow> LocalBucket \<Rightarrow> VerificationVerdictV3 res" where
  "verdict_from_audit P c now r a manifest st =
     bindE (case manifest of Some m \<Rightarrow> Inr m | None \<Rightarrow> find_manifest P c r st) (\<lambda>m.
       bindE (bindE (verifier_fetch_graph P m st) (\<lambda>g. estimate_cu P (Some m) (Some g))) (\<lambda>cu.
         Inr (signed_verdict P c now r (au_status a) (au_reason a) cu (au_replay_compute_sec a) [(''audit'', JObj (AuditResultV3_to_dict a))])))"

text \<open>\<^verbatim>\<open>ReplayVerifier.verdict\<close>: any failure to estimate counts as one compute unit.\<close>

definition verdict_with_fallback ::
  "platform \<Rightarrow> ValidatorConfig \<Rightarrow> pyfloat \<Rightarrow> JobReceiptV3 \<Rightarrow> string \<Rightarrow> string \<Rightarrow> pyfloat \<Rightarrow> dict \<Rightarrow> LocalBucket \<Rightarrow> VerificationVerdictV3 res" where
  "verdict_with_fallback P c now r status reason sec comparison st =
     (case bindE (find_manifest P c r st) (\<lambda>m. bindE (verifier_fetch_graph P m st) (\<lambda>g. estimate_cu P (Some m) (Some g))) of
        Inr cu \<Rightarrow> Inr (signed_verdict P c now r status reason cu sec comparison)
      | Inl e \<Rightarrow> if caught e then Inr (signed_verdict P c now r status reason 1 sec comparison) else Inl e)"

definition verify_receipt ::
  "'t replay_env \<Rightarrow> ValidatorConfig \<Rightarrow> string \<Rightarrow> JobReceiptV3 \<Rightarrow> LocalBucket \<Rightarrow> VerificationVerdictV3 res" where
  "verify_receipt E c receipt_uri r st =
     bindE (find_manifest (re_platform E) c r st) (\<lambda>m.
       bindE (fst (AuditReplayRunner_run (E\<lparr>re_transport := DirectArtifactTransport 0\<rparr>) (audit_config c) [] st receipt_uri m r (vc_validator_hotkey c) []))
         (\<lambda>a. verdict_from_audit (re_platform E) c (re_now E) r a (Some m) st))"

subsection \<open>The loops\<close>

text \<open>\<^verbatim>\<open>run_once\<close> and \<^verbatim>\<open>consume_audit_results\<close> differ in how a receipt is judged; \<open>None\<close> passes it over.\<close>

fun verdict_loop ::
  "platform \<Rightarrow> ValidatorConfig \<Rightarrow> int \<Rightarrow> (string \<Rightarrow> JobReceiptV3 \<Rightarrow> LocalBucket \<Rightarrow> VerificationVerdictV3 option res) \<Rightarrow> nat option \<Rightarrow> nat \<Rightarrow>
   (string \<times> JobReceiptV3) list \<Rightarrow> LocalBucket \<Rightarrow> nat res \<times> LocalBucket" where
  "verdict_loop P c ns judge max_receipts checked [] st = (Inr checked, st)"
| "verdict_loop P c ns judge max_receipts checked ((uri, r) # rest) st =
     (if max_receipts \<noteq> None \<and> the max_receipts \<le> checked then (Inr checked, st)
      else case has_verdict c r st of
             Inl e \<Rightarrow> (Inl e, st)
           | Inr True \<Rightarrow> verdict_loop P c ns judge max_receipts checked rest st
           | Inr False \<Rightarrow>
               (case judge uri r st of
                  Inl e \<Rightarrow> (Inl e, st)
                | Inr None \<Rightarrow> verdict_loop P c ns judge max_receipts checked rest st
                | Inr (Some v) \<Rightarrow>
                    (case store_dict P ns (receipt_verdict_uri c st r) (VerificationVerdictV3_to_dict v) st of
                       Inl e \<Rightarrow> (Inl e, st)
                     | Inr st' \<Rightarrow> verdict_loop P c ns judge max_receipts (Suc checked) rest st')))"

definition run_once :: "'t replay_env \<Rightarrow> shuffle \<Rightarrow> ValidatorConfig \<Rightarrow> int \<Rightarrow> nat option \<Rightarrow> LocalBucket \<Rightarrow> nat res \<times> LocalBucket" where
  "run_once E shuf c ns max_receipts st =
     (case sample_receipts (re_platform E) shuf c st of
        Inl e \<Rightarrow> (Inl e, st)
      | Inr items \<Rightarrow>
          verdict_loop (re_platform E) c ns (\<lambda>uri r st. bindE (verify_receipt E c uri r st) (\<lambda>v. Inr (Some v))) max_receipts 0 items st)"

definition judge_audit :: "platform \<Rightarrow> ValidatorConfig \<Rightarrow> pyfloat \<Rightarrow> string \<Rightarrow> JobReceiptV3 \<Rightarrow> LocalBucket \<Rightarrow> VerificationVerdictV3 option res" where
  "judge_audit P c now uri r st =
     bindE (find_audit_result P c r st) (\<lambda>audit.
       case audit of
         None \<Rightarrow> Inr None
       | Some a \<Rightarrow>
           bindE (verify_audit_result P c a r) (\<lambda>ok.
             if \<not> ok then Inr None else bindE (verdict_from_audit P c now r a None st) (\<lambda>v. Inr (Some v))))"

definition consume_audit_results ::
  "platform \<Rightarrow> shuffle \<Rightarrow> ValidatorConfig \<Rightarrow> int \<Rightarrow> pyfloat \<Rightarrow> nat option \<Rightarrow> LocalBucket \<Rightarrow> nat res \<times> LocalBucket" where
  "consume_audit_results P shuf c ns now max_receipts st =
     (case sample_receipts P shuf c st of
        Inl e \<Rightarrow> (Inl e, st)
      | Inr items \<Rightarrow> verdict_loop P c ns (judge_audit P c now) max_receipts 0 items st)"

end
