(* ===== verification/Verifier_Properties.thy ===== *)
theory Verifier_Properties
  imports Verifier Audit_Properties
begin

text \<open>
  What the validator's two loops write. The locale \<open>verdict_judge\<close> is the contract between the loop and the way a
  receipt is judged; it is interpreted on the local replay and on the consumption of audit results.
\<close>

subsection \<open>The loop over a judge\<close>

lemma has_verdict_False:
  "has_verdict c r st = Inr False \<Longrightarrow> \<exists>a. parse_uri (receipt_verdict_uri c st r) = Inr a \<and> map_of (lb_objects st) a = None"
  by (auto simp: has_verdict_def LocalBucket_exists_def bindE_eq_Inr split: prod.splits) (metis option.exhaust surj_pair)

lemma store_dict_objects:
  assumes "store_dict P ns u d st = Inr st'" "parse_uri u = Inr a"
  shows "lb_objects st' = AList.update a (utf8_encode (dumps P True (JObj d)), ns) (lb_objects st)" "lb_bucket st' = lb_bucket st"
  using assms by (auto simp: put_json_def LocalBucket_put_def)

lemma receipt_verdict_uri_cong: "lb_bucket st' = lb_bucket st \<Longrightarrow> receipt_verdict_uri c st' r = receipt_verdict_uri c st r"
  by (simp add: receipt_verdict_uri_def uri_for_key_def)

definition written_verdict ::
  "platform \<Rightarrow> ValidatorConfig \<Rightarrow> int \<Rightarrow> (string \<Rightarrow> JobReceiptV3 \<Rightarrow> LocalBucket \<Rightarrow> VerificationVerdictV3 \<Rightarrow> bool) \<Rightarrow> (string \<times> JobReceiptV3) list \<Rightarrow>
   LocalBucket \<Rightarrow> LocalBucket \<Rightarrow> string \<times> string \<Rightarrow> bool" where
  "written_verdict P c ns grounds items st st' a \<longleftrightarrow>
     map_of (lb_objects st) a = None \<and>
     (\<exists>(uri, r) \<in> set items. \<exists>st1 v. parse_uri (receipt_verdict_uri c st r) = Inr a \<and> grounds uri r st1 v \<and>
        map_of (lb_objects st') a = Some (utf8_encode (dumps P True (JObj (VerificationVerdictV3_to_dict v))), ns))"

locale verdict_judge =
  fixes judge :: "string \<Rightarrow> JobReceiptV3 \<Rightarrow> LocalBucket \<Rightarrow> VerificationVerdictV3 option res"
    and grounds :: "string \<Rightarrow> JobReceiptV3 \<Rightarrow> LocalBucket \<Rightarrow> VerificationVerdictV3 \<Rightarrow> bool"
  assumes judged: "judge uri r st = Inr (Some v) \<Longrightarrow> grounds uri r st v"
begin

lemma loop_writes:
  assumes "verdict_loop P c ns judge mx n items st = (res, st')" "map_of (lb_objects st') a \<noteq> map_of (lb_objects st) a"
  shows "written_verdict P c ns grounds items st st' a"
  using assms
proof (induction items arbitrary: n st)
  case (Cons item items)
  obtain uri r where i: "item = (uri, r)" by fastforce
  let ?go = "verdict_loop P c ns judge mx"
  have mono: "written_verdict P c ns grounds items st st' a \<Longrightarrow> ?case"
    by (auto simp: written_verdict_def)
  show ?case
  proof (cases "mx \<noteq> None \<and> the mx \<le> n")
    case False
    have skip: ?thesis if "?go n items st = (res, st')" using mono Cons.IH [OF that Cons.prems(2)] by blast
    consider e where "has_verdict c r st = Inl e" | "has_verdict c r st = Inr True" | "has_verdict c r st = Inr False"
      by (metis (full_types) sum.exhaust)
    then show ?thesis
    proof cases
      case 3
      consider e where "judge uri r st = Inl e" | "judge uri r st = Inr None" | v where "judge uri r st = Inr (Some v)"
        by (metis not_Some_eq sum.exhaust)
      then show ?thesis
      proof cases
        case (3 v)
        note v = this
        from has_verdict_False [OF \<open>has_verdict c r st = Inr False\<close>]
        obtain b where b: "parse_uri (receipt_verdict_uri c st r) = Inr b" "map_of (lb_objects st) b = None" by blast
        obtain st1 where s1: "store_dict P ns (receipt_verdict_uri c st r) (VerificationVerdictV3_to_dict v) st = Inr st1"
          using lb.put_json_total [OF b(1)] by blast
        note o = store_dict_objects [OF s1 b(1)]
        have rest: "?go (Suc n) items st1 = (res, st')"
          using Cons.prems(1) False \<open>has_verdict c r st = Inr False\<close> v s1 by (auto simp: i)
        show ?thesis
        proof (cases "map_of (lb_objects st') a = map_of (lb_objects st1) a")
          case True
          then have "a = b" using Cons.prems(2) o(1) by (auto split: if_splits)
          then show ?thesis using True o(1) b judged [OF v] by (auto simp: written_verdict_def i)
        next
          case neq: False
          from Cons.IH [OF rest neq] have w: "written_verdict P c ns grounds items st1 st' a" .
          then have "map_of (lb_objects st) a = None" using o(1) b by (auto simp: written_verdict_def split: if_splits)
          with w show ?thesis using receipt_verdict_uri_cong [OF o(2)] by (auto simp: written_verdict_def i)
        qed
      qed (use Cons.prems False \<open>has_verdict c r st = Inr False\<close> skip in \<open>auto simp: i\<close>)
    qed (use Cons.prems False skip in \<open>auto simp: i\<close>)
  qed (use Cons.prems in \<open>auto simp: i\<close>)
qed simp

end

lemma verdict_loop_bound:
  assumes "verdict_loop P c ns judge mx n items st = (Inr k, st')"
  shows "n \<le> k \<and> k \<le> n + length items \<and> (\<forall>M. mx = Some M \<longrightarrow> n \<le> M \<longrightarrow> k \<le> M)"
  using assms
proof (induction items arbitrary: n st)
  case (Cons item items)
  obtain uri r where i: "item = (uri, r)" by fastforce
  show ?case
  proof (cases "mx \<noteq> None \<and> the mx \<le> n")
    case False
    have step: "\<exists>m \<in> {n, Suc n}. \<exists>st1. verdict_loop P c ns judge mx m items st1 = (Inr k, st')"
      using Cons.prems False by (auto simp: i split: sum.splits bool.splits option.splits)
    then show ?thesis using Cons.IH False by fastforce
  qed (use Cons.prems i in auto)
qed simp

subsection \<open>The two judges\<close>

definition replay_grounds :: "'t replay_env \<Rightarrow> ValidatorConfig \<Rightarrow> string \<Rightarrow> JobReceiptV3 \<Rightarrow> LocalBucket \<Rightarrow> VerificationVerdictV3 \<Rightarrow> bool" where
  "replay_grounds E c uri r st v \<longleftrightarrow>
     (\<exists>m a gs' cu. find_manifest (re_platform E) c r st = Inr m \<and>
        AuditReplayRunner_run (E\<lparr>re_transport := DirectArtifactTransport 0\<rparr>) (audit_config c) [] st uri m r (vc_validator_hotkey c) [] = (Inr a, gs') \<and>
        v = signed_verdict (re_platform E) c (re_now E) r (au_status a) (au_reason a) cu (au_replay_compute_sec a) [(''audit'', JObj (AuditResultV3_to_dict a))])"

definition audit_grounds :: "platform \<Rightarrow> ValidatorConfig \<Rightarrow> pyfloat \<Rightarrow> string \<Rightarrow> JobReceiptV3 \<Rightarrow> LocalBucket \<Rightarrow> VerificationVerdictV3 \<Rightarrow> bool" where
  "audit_grounds P c now uri r st v \<longleftrightarrow>
     (\<exists>a cu. find_audit_result P c r st = Inr (Some a) \<and> verify_audit_result P c a r = Inr True \<and>
        v = signed_verdict P c now r (au_status a) (au_reason a) cu (au_replay_compute_sec a) [(''audit'', JObj (AuditResultV3_to_dict a))])"

interpretation replay_judge: verdict_judge "\<lambda>uri r st. bindE (verify_receipt E c uri r st) (\<lambda>v. Inr (Some v))" "replay_grounds E c" for E c
  by unfold_locales
    (auto simp: verify_receipt_def replay_grounds_def verdict_from_audit_def bindE_eq_Inr prod_eq_iff split: option.splits)

interpretation audit_judge: verdict_judge "judge_audit P c now" "audit_grounds P c now" for P c now
  by unfold_locales
    (auto simp: judge_audit_def audit_grounds_def verdict_from_audit_def bindE_eq_Inr split: option.splits if_splits)

lemma signed_verdict_fields [simp]:
  "vv_status (signed_verdict P c now r s reason cu sec cmp) = s" "vv_receipt_id (signed_verdict P c now r s reason cu sec cmp) = rc_receipt_id r"
  "vv_miner_hotkey (signed_verdict P c now r s reason cu sec cmp) = wi_hotkey_ss58 (rc_worker r)"
  by (simp_all add: signed_verdict_def VerificationVerdictV3_sign_def)

lemma verify_audit_result_True:
  assumes "verify_audit_result P c a r = Inr True"
  shows "\<exists>sig. au_auditor_signature a = Some sig \<and> sig \<noteq> [] \<and> au_receipt_id a = rc_receipt_id r \<and> au_manifest_hash a = rc_manifest_hash r \<and>
    (vc_audit_eligible_hotkeys c \<noteq> [] \<longrightarrow> au_auditor_hotkey a \<in> set (vc_audit_eligible_hotkeys c)) \<and>
    (verify_hotkey_payload P (canonical_json P (JObj (AuditResultV3_unsigned_dict a))) (au_auditor_hotkey a) sig \<or>
     sig = sign_dict P (AuditResultV3_unsigned_dict a) (au_auditor_hotkey a))"
  using assms by (auto simp: verify_audit_result_def verify_identity_iff split: option.splits if_splits)

lemma readable_loaded: "readable_receipts P us st = Inr rs \<Longrightarrow> (u, r) \<in> set rs \<Longrightarrow> load_receipt P u st = Inr r \<and> u \<in> set us"
proof (induction us arbitrary: rs)
  case (Cons w us)
  show ?case
  proof (cases "ends_with w ''.json''")
    case True
    show ?thesis
    proof (cases "load_receipt P w st")
      case (Inr q)
      then obtain rs' where "readable_receipts P us st = Inr rs'" "rs = (w, q) # rs'"
        using Cons.prems(1) True by (auto simp: bindE_eq_Inr)
      then show ?thesis using Cons.IH Cons.prems(2) Inr by auto
    qed (use Cons True in \<open>auto split: if_splits\<close>)
  qed (use Cons in auto)
qed simp

lemma readable_complete:
  "readable_receipts P us st = Inr rs \<Longrightarrow> u \<in> set us \<Longrightarrow> ends_with u ''.json'' \<Longrightarrow> load_receipt P u st = Inr r \<Longrightarrow> (u, r) \<in> set rs"
proof (induction us arbitrary: rs)
  case (Cons w us)
  show ?case
  proof (cases "ends_with w ''.json''")
    case True
    show ?thesis
    proof (cases "load_receipt P w st")
      case (Inr q)
      then obtain rs' where "readable_receipts P us st = Inr rs'" "rs = (w, q) # rs'"
        using Cons.prems(1) True by (auto simp: bindE_eq_Inr)
      then show ?thesis using Cons.IH Cons.prems Inr by auto
    qed (use Cons True in \<open>auto split: if_splits\<close>)
  qed (use Cons in auto)
qed simp

lemma readable_json: "readable_receipts P us st = Inr rs \<Longrightarrow> (u, r) \<in> set rs \<Longrightarrow> ends_with u ''.json''"
  by (induction us arbitrary: rs) (auto simp: bindE_eq_Inr split: if_splits sum.splits)

lemma readable_set:
  assumes "readable_receipts P us st = Inr rs"
  shows "(u, r) \<in> set rs \<longleftrightarrow> u \<in> set us \<and> ends_with u ''.json'' \<and> load_receipt P u st = Inr r"
  using readable_loaded [OF assms, of u r] readable_complete [OF assms, of u r] readable_json [OF assms, of u r] by blast

text \<open>What a passing replay established, for a runner that starts with an empty graph cache.\<close>

lemma audit_facts:
  assumes "AuditReplayRunner_run E cfg gs st uri m r auditor [] = (Inr a, graphs')" "au_status a = ''pass''"
  shows "verify_manifest_signature (re_platform E) cfg m = Inr True \<and> verify_receipt_signature (re_platform E) cfg r = Inr True \<and>
    manifest_hash (re_platform E) m = rc_manifest_hash r \<and> (\<exists>outs. \<forall>ref \<in> set (mf_outputs m). output_matches E cfg gs st m r outs ref)"
  using assms(1)
proof (cases rule: run_cases)
  case (returned out s)
  obtain reason sec where "out = (''pass'', reason, sec)" using assms(2) returned(2) by (cases out) auto
  then show ?thesis using replay_pass [of E cfg gs st m r _ reason sec s] returned(1) by fastforce
next
  case (raised e s out k v)
  then have "''pass'' = (case e of ValueError _ \<Rightarrow> ''fail'' | _ \<Rightarrow> ''inconclusive'')"
    using assms(2) handle_exception_status [of E e out k v] by simp
  then show ?thesis by (cases e) simp_all
qed

subsection \<open>The sample point\<close>

lemma be_nat_less: "be_nat bs < 256 ^ length bs"
proof -
  have "fold (\<lambda>b n. 256 * n + unat b) bs n < 256 ^ length bs * (n + 1)" for n
  proof (induction bs arbitrary: n)
    case (Cons b bs)
    have "fold (\<lambda>b n. 256 * n + unat b) bs (256 * n + unat b) < 256 ^ length bs * (256 * n + unat b + 1)"
      by (rule Cons.IH)
    also have "\<dots> \<le> 256 ^ length bs * (256 * (n + 1))"
      using unat_byte_less [of b] by (intro mult_le_mono2) simp
    finally show ?case by (simp add: algebra_simps)
  qed simp
  from this [of 0] show ?thesis by simp
qed

lemma sample_point_range: "0 \<le> sample_point hk rid" "sample_point hk rid < 1"
proof -
  let ?b = "take 8 (sha256 (utf8_encode (hk @ '':'' @ rid)))"
  have "be_nat ?b < 256 ^ 8" using be_nat_less [of ?b] by simp
  then have "be_nat ?b < 2 ^ 64" by simp
  then have "(of_nat (be_nat ?b) :: rat) < of_nat (2 ^ 64)" by (simp only: of_nat_less_iff)
  then show "sample_point hk rid < 1" unfolding sample_point_def by (simp del: be_nat.simps)
  show "0 \<le> sample_point hk rid" unfolding sample_point_def by (simp del: be_nat.simps)
qed

definition sample_validator :: ValidatorConfig where
  "sample_validator = \<lparr>vc_netuid = 1, vc_run_id = ''run'', vc_validator_hotkey = ''val'', vc_validator_secret = ''s'', vc_validator_signer = None,
     vc_owner_secret = ''o'', vc_owner_hotkey = [], vc_miner_secret = ''m'', vc_device = ''cpu'', vc_sample_rate = 1, vc_max_sample_elements = 4096,
     vc_encryption_secret = ''e'', vc_timelock_provider = None, vc_audit_eligible_hotkeys = [''aud'']\<rparr>"

subsection \<open>Properties\<close>



lemma replayed_verdict:
  assumes "run_once E shuf c ns mx st = (res, st')" "\<And>xs. set (shuf xs) = set xs"
    and "map_of (lb_objects st') a \<noteq> map_of (lb_objects st) a"
  shows "map_of (lb_objects st) a = None \<and>
    (\<exists>u r st1 v. load_receipt (re_platform E) u st = Inr r \<and> in_sample c r \<and> parse_uri (receipt_verdict_uri c st r) = Inr a \<and>
       map_of (lb_objects st') a = Some (utf8_encode (dumps (re_platform E) True (JObj (VerificationVerdictV3_to_dict v))), ns) \<and>
       vv_receipt_id v = rc_receipt_id r \<and>
       (vv_status v = ''pass'' \<longrightarrow>
         (\<exists>m outs. find_manifest (re_platform E) c r st1 = Inr m \<and>
            verify_manifest_signature (re_platform E) (audit_config c) m = Inr True \<and>
            verify_receipt_signature (re_platform E) (audit_config c) r = Inr True \<and>
            manifest_hash (re_platform E) m = rc_manifest_hash r \<and>
            (\<forall>ref \<in> set (mf_outputs m). output_matches (E\<lparr>re_transport := DirectArtifactTransport 0\<rparr>) (audit_config c) [] st1 m r outs ref))))"
proof -
  from assms(1,3) obtain items where s: "sample_receipts (re_platform E) shuf c st = Inr items"
    and loop: "verdict_loop (re_platform E) c ns (\<lambda>uri r st. bindE (verify_receipt E c uri r st) (\<lambda>v. Inr (Some v))) mx 0 items st = (res, st')"
    by (auto simp: run_once_def split: sum.splits)
  have w: "written_verdict (re_platform E) c ns (replay_grounds E c) items st st' a"
    by (rule replay_judge.loop_writes [OF loop assms(3)])
  then obtain u r st1 v where x: "(u, r) \<in> set items" "parse_uri (receipt_verdict_uri c st r) = Inr a" "replay_grounds E c u r st1 v"
    "map_of (lb_objects st') a = Some (utf8_encode (dumps (re_platform E) True (JObj (VerificationVerdictV3_to_dict v))), ns)"
    by (auto simp: written_verdict_def)
  have it: "load_receipt (re_platform E) u st = Inr r \<and> in_sample c r"
    using s x(1) assms(2) readable_loaded by (fastforce simp: sample_receipts_def bindE_eq_Inr)
  from x(3) obtain m au gs' cu where g: "find_manifest (re_platform E) c r st1 = Inr m"
    "AuditReplayRunner_run (E\<lparr>re_transport := DirectArtifactTransport 0\<rparr>) (audit_config c) [] st1 u m r (vc_validator_hotkey c) [] = (Inr au, gs')"
    "v = signed_verdict (re_platform E) c (re_now E) r (au_status au) (au_reason au) cu (au_replay_compute_sec au) [(''audit'', JObj (AuditResultV3_to_dict au))]"
    by (auto simp: replay_grounds_def)
  have p: "\<exists>m outs. find_manifest (re_platform E) c r st1 = Inr m \<and>
            verify_manifest_signature (re_platform E) (audit_config c) m = Inr True \<and>
            verify_receipt_signature (re_platform E) (audit_config c) r = Inr True \<and>
            manifest_hash (re_platform E) m = rc_manifest_hash r \<and>
            (\<forall>ref \<in> set (mf_outputs m). output_matches (E\<lparr>re_transport := DirectArtifactTransport 0\<rparr>) (audit_config c) [] st1 m r outs ref)"
    if "vv_status v = ''pass''"
    using audit_facts [OF g(2)] that g(1,3) by auto
  have "map_of (lb_objects st) a = None" using w by (simp add: written_verdict_def)
  then show ?thesis
    by (intro conjI exI [of _ u] exI [of _ r] exI [of _ st1] exI [of _ v]) (use it x(2,4) g(3) p in simp_all)
qed



text \<open>
  The sample. \<^verbatim>\<open>sample_receipts\<close> returns, in shuffled order, exactly the readable receipts of the run's prefix that
  its threshold test selects; the test depends only on validator and receipt id, a rate of one or more selects
  every receipt, a rate of zero none, and a higher rate selects at least what a lower one does.
\<close>

theorem sample_receipts_exact:
  assumes "sample_receipts P shuf c st = Inr items" "\<And>xs. set (shuf xs) = set xs"
  shows "set items = {(u, r). u \<in> set (LocalBucket_list (uri_for_key st (receipts_prefix (vc_netuid c) (vc_run_id c))) st) \<and>
      ends_with u ''.json'' \<and> load_receipt P u st = Inr r \<and> in_sample c r} \<and>
    (1 \<le> vc_sample_rate c \<longrightarrow> in_sample c r) \<and> (vc_sample_rate c \<le> 0 \<longrightarrow> \<not> in_sample c r) \<and>
    (in_sample c r \<longrightarrow> vc_sample_rate c \<le> q \<longrightarrow> in_sample (c\<lparr>vc_sample_rate := q\<rparr>) r)"
proof -
  from assms obtain rs where rs: "readable_receipts P (LocalBucket_list (uri_for_key st (receipts_prefix (vc_netuid c) (vc_run_id c))) st) st = Inr rs"
    "set items = set (filter (\<lambda>(_, r). in_sample c r) rs)" by (auto simp: sample_receipts_def bindE_eq_Inr)
  have "x \<in> set items \<longleftrightarrow> (case x of (u, r) \<Rightarrow> u \<in> set (LocalBucket_list (uri_for_key st (receipts_prefix (vc_netuid c) (vc_run_id c))) st) \<and>
      ends_with u ''.json'' \<and> load_receipt P u st = Inr r \<and> in_sample c r)" for x
    unfolding rs(2) by (cases x) (simp add: readable_set [OF rs(1)])
  then have "set items = {(u, r). u \<in> set (LocalBucket_list (uri_for_key st (receipts_prefix (vc_netuid c) (vc_run_id c))) st) \<and>
      ends_with u ''.json'' \<and> load_receipt P u st = Inr r \<and> in_sample c r}" by blast
  moreover have "(1 \<le> vc_sample_rate c \<longrightarrow> in_sample c r) \<and> (vc_sample_rate c \<le> 0 \<longrightarrow> \<not> in_sample c r) \<and>
    (in_sample c r \<longrightarrow> vc_sample_rate c \<le> q \<longrightarrow> in_sample (c\<lparr>vc_sample_rate := q\<rparr>) r)"
    using sample_point_range [of "vc_validator_hotkey c" "rc_receipt_id r"] by (auto simp: in_sample_def)
  ultimately show ?thesis by blast
qed

theorem sample_receipts_exact_witness:
  "\<exists>items. sample_receipts reference_platform rev sample_validator (LocalBucket_init ''b'') = Inr items \<and> in_sample sample_validator sample_receipt"
proof -
  have "LocalBucket_list u (LocalBucket_init ''b'') = []" for u
    by (simp add: LocalBucket_list_def LocalBucket_init_def split: prod.splits)
  then have s: "sample_receipts reference_platform rev sample_validator (LocalBucket_init ''b'') = Inr []"
    by (simp add: sample_receipts_def)
  from sample_receipts_exact [OF s, of sample_receipt] s show ?thesis by (simp add: sample_validator_def)
qed

text \<open>
  Signatures of hotkeys can be made without their keys. Every identity check falls back to an HMAC keyed by the
  hotkey itself, which is public: anyone can sign a receipt in a miner's name, an audit result in an allowlisted
  auditor's name and a verdict in the validator's name so that each of them is accepted.
\<close>

theorem identity_signatures_forgeable:
  shows "verify_receipt_signature P cfg (JobReceiptV3_sign P (Secret (wi_hotkey_ss58 (rc_worker r))) r) = Inr True \<and>
    (au_receipt_id a = rc_receipt_id r \<and> au_manifest_hash a = rc_manifest_hash r \<and>
       (vc_audit_eligible_hotkeys c = [] \<or> au_auditor_hotkey a \<in> set (vc_audit_eligible_hotkeys c)) \<longrightarrow>
       verify_audit_result P c (AuditResultV3_sign P (Secret (au_auditor_hotkey a)) a) r = Inr True) \<and>
    (hk \<noteq> [] \<longrightarrow> verdict_accepted P secret hk (VerificationVerdictV3_sign P (Secret hk) v) = Inr True)"
proof -
  have u: "JobReceiptV3_unsigned_dict (r\<lparr>rc_miner_signature := s\<rparr>) = JobReceiptV3_unsigned_dict r"
    "AuditResultV3_unsigned_dict (a\<lparr>au_auditor_signature := s\<rparr>) = AuditResultV3_unsigned_dict a"
    "VerificationVerdictV3_unsigned_dict (v\<lparr>vv_validator_signature := s\<rparr>) = VerificationVerdictV3_unsigned_dict v" for s
    by (simp_all add: JobReceiptV3_unsigned_dict_def AuditResultV3_unsigned_dict_def VerificationVerdictV3_unsigned_dict_def)
  show ?thesis
    by (auto simp: verify_receipt_signature_def verify_audit_result_def verdict_accepted_def JobReceiptV3_sign_def AuditResultV3_sign_def
        VerificationVerdictV3_sign_def record_signature_def u verify_identity_hmac)
qed

theorem identity_signatures_forgeable_witness:
  "verdict_accepted reference_platform ''unknown-secret'' ''val''
     (VerificationVerdictV3_sign reference_platform (Secret ''val'')
       (signed_verdict reference_platform sample_validator 0 sample_receipt ''pass'' [] 1 0 [])) = Inr True"
  using identity_signatures_forgeable by blast

text \<open>
  A worthless audit result hides good ones. The verifier considers only the first stored audit result for a
  receipt that names an eligible auditor; if that one is unsigned no verdict is produced, whatever
  other audit results for the receipt follow it in the listing.
\<close>

theorem bad_audit_result_shadows:
  assumes "LocalBucket_list (uri_for_key st (audit_results_prefix (vc_netuid c) (rc_run_id r))) st = u # us"
    and "ends_with u ''.json''" "load_audit_result P u st = Inr a" "au_receipt_id a = rc_receipt_id r"
    and "vc_audit_eligible_hotkeys c = [] \<or> au_auditor_hotkey a \<in> set (vc_audit_eligible_hotkeys c)" "au_auditor_signature a = None"
  shows "judge_audit P c now uri r st = Inr None"
proof -
  have "find_audit_result P c r st = Inr (Some a)" using assms by (auto simp: find_audit_result_def)
  moreover have "verify_audit_result P c a r = Inr False" using assms(6) by (simp add: verify_audit_result_def)
  ultimately show ?thesis by (simp add: judge_audit_def)
qed

definition junk_audit :: AuditResultV3 where
  "junk_audit = \<lparr>au_audit_id = ''a'', au_receipt_id = ''run-s0-fwd:hk:0'', au_manifest_hash = [], au_job_id = [], au_run_id = ''run'',
     au_miner_hotkey = [], au_auditor_hotkey = ''aud'', au_status = ''pass'', au_reason = [], au_replay_compute_sec = 0,
     au_checked_unix = 0, au_comparison = [], au_auditor_signature = None, au_schema_version = 3\<rparr>"

definition junk_bucket :: LocalBucket where
  "junk_bucket = \<lparr>lb_bucket = ''b'', lb_objects = [((''b'', ''v3/netuid=1/audits/run/results/a.json''),
      (utf8_encode (dumps reference_platform True (JObj (AuditResultV3_to_dict junk_audit))), 7))]\<rparr>"

lemma junk_parse: "parse_uri ''s3://b/v3/netuid=1/audits/run/results/a.json'' = Inr (''b'', ''v3/netuid=1/audits/run/results/a.json'')"
  by code_simp

lemma junk_loads: "load_audit_result reference_platform ''s3://b/v3/netuid=1/audits/run/results/a.json'' junk_bucket =
    Inr (AuditResultV3_raw norm_dict junk_audit)"
proof (rule load_stored_audit_result [OF reference_float_codec])
  show "wf_dict (au_comparison junk_audit)" by (simp add: junk_audit_def wf_dict_def)
  show "store_dict reference_platform 7 ''s3://b/v3/netuid=1/audits/run/results/a.json'' (AuditResultV3_to_dict junk_audit)
      (LocalBucket_init ''b'') = Inr junk_bucket"
    by (simp add: put_json_def LocalBucket_put_def junk_parse LocalBucket_init_def junk_bucket_def)
qed

theorem bad_audit_result_shadows_witness:
  "judge_audit reference_platform sample_validator 9 ''u'' sample_receipt junk_bucket = Inr None"
proof (rule bad_audit_result_shadows)
  have "audit_results_prefix 1 ''run'' = ''v3/netuid=1/audits/run/results/''" by code_simp
  then show "LocalBucket_list (uri_for_key junk_bucket (audit_results_prefix (vc_netuid sample_validator) (rc_run_id sample_receipt))) junk_bucket =
      [''s3://b/v3/netuid=1/audits/run/results/a.json'']"
    by (simp add: sample_validator_def sample_receipt_def uri_for_key_def join_uri_def LocalBucket_list_def prefix_target_def parse_uri_def Let_def
        junk_bucket_def is_dir_def dir_key_def ends_with_def starts_with_def)
  show "ends_with ''s3://b/v3/netuid=1/audits/run/results/a.json'' ''.json''" by code_simp
  show "load_audit_result reference_platform ''s3://b/v3/netuid=1/audits/run/results/a.json'' junk_bucket =
    Inr (AuditResultV3_raw norm_dict junk_audit)" by (rule junk_loads)
qed (simp_all add: AuditResultV3_raw_def junk_audit_def sample_receipt_def sample_validator_def)

end
