(* ===== verification/Executor.thy ===== *)
theory Executor
  imports Audit_Replay
begin

text \<open>
  \<^verbatim>\<open>teuton_runtime/executor.py\<close>: \<^verbatim>\<open>JobExecutor\<close>, which turns a job manifest into stored outputs and a
  signed receipt. It keeps a cache of graphs and two caches of tensors with a byte budget and eviction in order of
  insertion. The tensor library, \<^verbatim>\<open>evaluate\<close>, the transport and the clock readings are fields of an environment.
  The thread pools are modelled as their sequential maps, in order, stopping at the first exception.

  Shown here: a tensor cache never exceeds its budget, counts its bytes exactly and lists each key once.
\<close>

subsection \<open>Tensor caches\<close>

record 't tensor_cache =
  tc_entries :: "(string \<times> 't) list"
  tc_order :: "string list"
  tc_bytes :: int

definition empty_cache :: "'t tensor_cache" where
  "empty_cache = \<lparr>tc_entries = [], tc_order = [], tc_bytes = 0\<rparr>"

definition drop_cached :: "('t \<Rightarrow> nat) \<Rightarrow> string \<Rightarrow> 't tensor_cache \<Rightarrow> 't tensor_cache" where
  "drop_cached nb uri c =
     (case map_of (tc_entries c) uri of
        None \<Rightarrow> c
      | Some old \<Rightarrow> c\<lparr>tc_entries := AList.delete uri (tc_entries c), tc_bytes := tc_bytes c - int (nb old)\<rparr>)"

function evict :: "('t \<Rightarrow> nat) \<Rightarrow> int \<Rightarrow> int \<Rightarrow> 't tensor_cache \<Rightarrow> 't tensor_cache" where
  "evict nb max_bytes need c =
     (if tc_bytes c + need > max_bytes \<and> tc_order c \<noteq> []
      then evict nb max_bytes need (drop_cached nb (hd (tc_order c)) (c\<lparr>tc_order := tl (tc_order c)\<rparr>))
      else c)"
  by pat_completeness auto

lemma drop_cached_order [simp]: "tc_order (drop_cached nb u c) = tc_order c"
  by (simp add: drop_cached_def split: option.splits)

termination evict
  by (relation "measure (\<lambda>(nb, max_bytes, need, c). length (tc_order c))") simp_all

declare evict.simps [simp del]

definition cache_tensor :: "('t \<Rightarrow> nat) \<Rightarrow> int \<Rightarrow> string \<Rightarrow> 't \<Rightarrow> 't tensor_cache \<Rightarrow> 't tensor_cache" where
  "cache_tensor nb max_bytes uri value c =
     (if int (nb value) > max_bytes div 2 then c
      else let c1 = (if map_of (tc_entries c) uri \<noteq> None
                     then (drop_cached nb uri c)\<lparr>tc_order := remove1 uri (tc_order c)\<rparr> else c);
               c2 = evict nb max_bytes (int (nb value)) c1
           in c2\<lparr>tc_entries := AList.update uri value (tc_entries c2), tc_order := tc_order c2 @ [uri],
                 tc_bytes := tc_bytes c2 + int (nb value)\<rparr>)"

definition cache_ok :: "('t \<Rightarrow> nat) \<Rightarrow> 't tensor_cache \<Rightarrow> bool" where
  "cache_ok nb c \<longleftrightarrow> distinct (tc_order c) \<and> distinct (map fst (tc_entries c)) \<and> set (tc_order c) = fst ` set (tc_entries c) \<and>
     tc_bytes c = (\<Sum>(_, t) \<leftarrow> tc_entries c. int (nb t))"

lemma sum_delete:
  assumes "distinct (map fst es)" "map_of es u = Some old"
  shows "(\<Sum>(_, t) \<leftarrow> AList.delete u es. int (nb t)) = (\<Sum>(_, t) \<leftarrow> es. int (nb t)) - int (nb old)"
  using assms
proof (induction es)
  case (Cons e es)
  show ?case
  proof (cases "fst e = u")
    case True
    with Cons.prems have "AList.delete u es = es" by (simp add: delete_id)
    with True Cons.prems show ?thesis by (cases e) simp
  next
    case False
    with Cons show ?thesis by (cases e) auto
  qed
qed simp

lemma keys_delete: "fst ` set (AList.delete u es) = fst ` set es - {u}"
  using dom_map_of_conv_image_fst [of "AList.delete u es"] dom_map_of_conv_image_fst [of es] by (simp add: delete_conv')

lemma evict_step_ok:
  assumes "cache_ok nb c" "tc_order c = u # us"
  shows "cache_ok nb (drop_cached nb u (c\<lparr>tc_order := us\<rparr>))"
proof -
  have "u \<in> fst ` set (tc_entries c)" using assms by (auto simp: cache_ok_def)
  then obtain old where "map_of (tc_entries c) u = Some old" by (metis map_of_eq_None_iff not_None_eq)
  with assms show ?thesis
    by (auto simp: cache_ok_def drop_cached_def sum_delete keys_delete distinct_delete)
qed

lemma evict_ok:
  assumes "cache_ok nb c"
  shows "cache_ok nb (evict nb mx n c) \<and> (tc_bytes (evict nb mx n c) + n \<le> mx \<or> tc_entries (evict nb mx n c) = []) \<and>
    (\<forall>u v. map_of (tc_entries (evict nb mx n c)) u = Some v \<longrightarrow> map_of (tc_entries c) u = Some v)"
  using assms
proof (induction nb mx n c rule: evict.induct)
  case (1 nb mx n c)
  show ?case
  proof (cases "tc_bytes c + n > mx \<and> tc_order c \<noteq> []")
    case True
    then obtain u us where o: "tc_order c = u # us" by (cases "tc_order c") auto
    let ?c = "drop_cached nb u (c\<lparr>tc_order := us\<rparr>)"
    have e: "evict nb mx n c = evict nb mx n ?c" by (subst evict.simps) (use True o in simp)
    have "map_of (tc_entries ?c) w = Some v \<Longrightarrow> map_of (tc_entries c) w = Some v" for w v
      by (auto simp: drop_cached_def delete_conv' restrict_map_def split: option.splits if_splits)
    then show ?thesis using "1.IH" [OF True] evict_step_ok [OF "1.prems" o] unfolding e by (auto simp: o)
  next
    case False
    then have e: "evict nb mx n c = c" by (subst evict.simps) auto
    have "tc_order c = [] \<Longrightarrow> tc_entries c = []" using "1.prems" by (auto simp: cache_ok_def)
    then show ?thesis unfolding e using "1.prems" False by auto
  qed
qed

lemma sum_update:
  assumes "map_of es u = None"
  shows "(\<Sum>(_, t) \<leftarrow> AList.update u v es. int (nb t)) = (\<Sum>(_, t) \<leftarrow> es. int (nb t)) + int (nb v)"
  using assms by (induction es) (auto split: if_splits)

lemma keys_update: "fst ` set (AList.update u v es) = insert u (fst ` set es)"
  using dom_map_of_conv_image_fst [of "AList.update u v es"] dom_map_of_conv_image_fst [of es] by (simp add: update_conv')

lemma cached_out_ok:
  assumes "cache_ok nb c"
  shows "let c1 = (if map_of (tc_entries c) u \<noteq> None then (drop_cached nb u c)\<lparr>tc_order := remove1 u (tc_order c)\<rparr> else c)
    in cache_ok nb c1 \<and> map_of (tc_entries c1) u = None \<and> (\<forall>w v. map_of (tc_entries c1) w = Some v \<longrightarrow> map_of (tc_entries c) w = Some v)"
  using assms
  by (auto simp: Let_def cache_ok_def drop_cached_def sum_delete keys_delete distinct_delete delete_conv' restrict_map_def
      split: option.splits if_splits dest: set_delete_subset [THEN subsetD])

lemma cache_tensor_ok:
  fixes u :: string and v :: "'t"
  assumes "cache_ok nb c" "tc_bytes c \<le> mx" "0 \<le> mx"
  defines "c' \<equiv> cache_tensor nb mx u v c"
  shows "cache_ok nb c' \<and> tc_bytes c' \<le> mx \<and> (int (nb v) \<le> mx div 2 \<longrightarrow> map_of (tc_entries c') u = Some v) \<and>
    (\<forall>w t. w \<noteq> u \<longrightarrow> map_of (tc_entries c') w = Some t \<longrightarrow> map_of (tc_entries c) w = Some t)"
proof (cases "int (nb v) > mx div 2")
  case True
  then show ?thesis using assms by (simp add: cache_tensor_def)
next
  case False
  define c1 where "c1 = (if map_of (tc_entries c) u \<noteq> None then (drop_cached nb u c)\<lparr>tc_order := remove1 u (tc_order c)\<rparr> else c)"
  define c2 where "c2 = evict nb mx (int (nb v)) c1"
  have c': "c' = c2\<lparr>tc_entries := AList.update u v (tc_entries c2), tc_order := tc_order c2 @ [u], tc_bytes := tc_bytes c2 + int (nb v)\<rparr>"
    using False by (simp add: c'_def cache_tensor_def Let_def c2_def c1_def)
  have 1: "cache_ok nb c1" "map_of (tc_entries c1) u = None" "\<And>w t. map_of (tc_entries c1) w = Some t \<Longrightarrow> map_of (tc_entries c) w = Some t"
    using cached_out_ok [OF assms(1), of u] unfolding c1_def [symmetric] by (simp_all add: Let_def)
  have 2: "cache_ok nb c2" "tc_bytes c2 + int (nb v) \<le> mx \<or> tc_entries c2 = []"
    "\<And>w t. map_of (tc_entries c2) w = Some t \<Longrightarrow> map_of (tc_entries c1) w = Some t"
    using evict_ok [OF 1(1), of mx "int (nb v)"] unfolding c2_def by auto
  have u: "map_of (tc_entries c2) u = None" using 1(2) 2(3) [of u] by (cases "map_of (tc_entries c2) u") auto
  then have "u \<notin> fst ` set (tc_entries c2)" by (simp add: map_of_eq_None_iff)
  then have "cache_ok nb c'" using 2(1) u unfolding c' by (simp add: cache_ok_def sum_update keys_update distinct_update)
  moreover have "tc_bytes c2 = 0" if "tc_entries c2 = []" using 2(1) that by (simp add: cache_ok_def)
  then have "tc_bytes c' \<le> mx" using 2(2) False assms(3) unfolding c' by auto
  moreover have "map_of (tc_entries c) w = Some t" if "w \<noteq> u" "map_of (tc_entries c') w = Some t" for w t
    using that 1(3) 2(3) unfolding c' by (simp add: update_conv')
  ultimately show ?thesis unfolding c' by (simp add: update_conv')
qed

subsection \<open>The executor\<close>

text \<open>What \<^verbatim>\<open>encode_output\<close> tells apart in an output of \<^verbatim>\<open>evaluate\<close>.\<close>

datatype 't out_value = OTensor 't | ODict dict | OBytes bytes | OStr string | OOther

record 't exec_env =
  xe_platform :: platform
  xe_drand :: "drand_lib option"
  xe_transport :: transport
  xe_tensors :: "'t tensor_ops"
  xe_evaluate :: "Graph \<Rightarrow> (string \<times> 't) list \<Rightarrow> dict \<Rightarrow> LocalBucket \<Rightarrow> (string \<times> 't out_value) list res"
  xe_nbytes :: "'t \<Rightarrow> nat"
  xe_numel :: "'t \<Rightarrow> nat"
  xe_is_float :: "'t \<Rightarrow> bool"
  xe_float64_list :: "'t \<Rightarrow> json"
  xe_randn_like :: "nat \<Rightarrow> 't \<Rightarrow> 't"
  xe_zeros_like :: "'t \<Rightarrow> 't"
  xe_bump :: "'t \<Rightarrow> nat \<Rightarrow> 't"
  xe_t0 :: pyfloat
  xe_t_compute :: pyfloat
  xe_t_done :: pyfloat
  xe_t_final :: pyfloat

record 't JobExecutor =
  je_graph_cache :: "(string \<times> Graph) list"
  je_input :: "'t tensor_cache"
  je_input_max :: int
  je_output :: "'t tensor_cache"
  je_output_max :: int
  je_encryption_secret :: string
  je_timelock_provider :: "timelock_provider option"

definition JobExecutor_init :: "int \<Rightarrow> int \<Rightarrow> string \<Rightarrow> timelock_provider option \<Rightarrow> 't JobExecutor" where
  "JobExecutor_init input_cache_mb output_cache_mb encryption_secret tp =
     \<lparr>je_graph_cache = [], je_input = empty_cache, je_input_max = input_cache_mb * 1024 * 1024,
      je_output = empty_cache, je_output_max = output_cache_mb * 1024 * 1024,
      je_encryption_secret = encryption_secret, je_timelock_provider = tp\<rparr>"

definition str_at :: "dict \<Rightarrow> string \<Rightarrow> string option" where
  "str_at d k = (case map_of d k of Some (JStr s) \<Rightarrow> Some s | _ \<Rightarrow> None)"

definition digest_body :: "platform \<Rightarrow> string \<Rightarrow> string \<Rightarrow> bytes \<Rightarrow> ArtifactCryptoPolicy option \<Rightarrow> ArtifactDigest res" where
  "digest_body P name uri body policy =
     bindE (artifact_digest_from_blob P body policy) (\<lambda>data.
       Inr \<lparr>ad_name = name, ad_uri = uri, ad_sha256 = the (str_at data ''sha256''),
            ad_size_bytes = (case map_of data ''size_bytes'' of Some (JInt n) \<Rightarrow> n | _ \<Rightarrow> 0),
            ad_plaintext_sha256 = str_at data ''plaintext_sha256'', ad_ciphertext_sha256 = str_at data ''ciphertext_sha256'',
            ad_envelope_sha256 = str_at data ''envelope_sha256'', ad_signature = str_at data ''signature'',
            ad_crypto_mode = the (str_at data ''crypto_mode''), ad_sharded = None\<rparr>)"

definition digest_artifact :: "'t exec_env \<Rightarrow> ArtifactRef \<Rightarrow> LocalBucket \<Rightarrow> ArtifactDigest res" where
  "digest_artifact X ref st =
     bindE (tr_get (xe_transport X) (ar_uri ref) None st)
       (\<lambda>body. digest_body (xe_platform X) (ar_name ref) (ar_uri ref) body (ar_crypto ref))"

type_synonym ('t, 'a) exec = "('t JobExecutor \<times> LocalBucket, 'a) sres"

definition executor_fetch_graph :: "platform \<Rightarrow> string \<Rightarrow> string \<Rightarrow> ('t, Graph) exec" where
  "executor_fetch_graph P sha uri s =
     (case s of (ex, st) \<Rightarrow>
        case map_of (je_graph_cache ex) sha of
          Some g \<Rightarrow> (Inr g, s)
        | None \<Rightarrow>
            (case fetch_graph_checked P (ValueError ''graph hash mismatch'') sha uri st of
               Inl e \<Rightarrow> (Inl e, s)
             | Inr g \<Rightarrow> (Inr g, (ex\<lparr>je_graph_cache := AList.update sha g (je_graph_cache ex)\<rparr>, st))))"

definition is_input_cacheable :: "string \<Rightarrow> bool" where
  "is_input_cacheable uri \<longleftrightarrow> contains uri ''/weights/'' \<or> contains uri ''/static/'' \<or> contains uri ''/data/tokens.bin''"

definition cache_input :: "'t exec_env \<Rightarrow> string \<Rightarrow> 't \<Rightarrow> 't JobExecutor \<Rightarrow> 't JobExecutor" where
  "cache_input X uri value ex = ex\<lparr>je_input := cache_tensor (xe_nbytes X) (je_input_max ex) uri value (je_input ex)\<rparr>"

definition cache_output :: "'t exec_env \<Rightarrow> string \<Rightarrow> 't out_value \<Rightarrow> 't JobExecutor \<Rightarrow> 't JobExecutor" where
  "cache_output X uri value ex =
     (case value of
        OTensor t \<Rightarrow> ex\<lparr>je_output := cache_tensor (xe_nbytes X) (je_output_max ex) uri t (je_output ex)\<rparr>
      | _ \<Rightarrow> ex)"

definition fresh_input :: "'t exec_env \<Rightarrow> 't JobExecutor \<Rightarrow> grants \<Rightarrow> LocalBucket \<Rightarrow> ArtifactRef \<Rightarrow> 't res" where
  "fresh_input X ex gs st ref =
     bindE (tr_get (xe_transport X) (ar_uri ref) (map_of gs (ar_uri ref)) st) (\<lambda>blob.
     bindE (decode_envelope (xe_platform X) (xe_drand X) blob (ar_crypto ref) (Some (IdentityVerifier_verify (xe_platform X)))
              (je_encryption_secret ex) (je_timelock_provider ex)) (to_decode (xe_tensors X)))"

definition decode_input :: "'t exec_env \<Rightarrow> grants \<Rightarrow> ArtifactRef \<Rightarrow> ('t, 't) exec" where
  "decode_input X gs ref s =
     (case s of (ex, st) \<Rightarrow>
        case map_of (tc_entries (je_output ex)) (ar_uri ref) of
          Some v \<Rightarrow> (Inr v, s)
        | None \<Rightarrow>
            (case map_of (tc_entries (je_input ex)) (ar_uri ref) of
               Some v \<Rightarrow> (Inr v, s)
             | None \<Rightarrow>
                 (case fresh_input X ex gs st ref of
                    Inl e \<Rightarrow> (Inl e, s)
                  | Inr v \<Rightarrow> (Inr v, (if is_input_cacheable (ar_uri ref) then cache_input X (ar_uri ref) v ex else ex, st)))))"

definition encode_output :: "'t exec_env \<Rightarrow> 't out_value \<Rightarrow> bool \<Rightarrow> bytes res" where
  "encode_output X value json_uri =
     (case value of
        OTensor t \<Rightarrow>
          if json_uri then Inr (utf8_encode (dumps (xe_platform X) True (JObj [(''value'', xe_float64_list X t)])))
          else Inr (to_encode (xe_tensors X) t)
      | ODict d \<Rightarrow> Inr (utf8_encode (dumps (xe_platform X) True (JObj d)))
      | OBytes b \<Rightarrow> Inr b
      | OStr s \<Rightarrow> Inr (utf8_encode s)
      | OOther \<Rightarrow> Inl TypeError)"

text \<open>\<^verbatim>\<open>apply_faults\<close>, the deliberate corruption used in fleet tests; the digest of a seed as a number.\<close>

definition seed_nat :: "bytes \<Rightarrow> nat" where
  "seed_nat bs = fold (\<lambda>b n. 256 * n + unat b) bs 0"

definition fault_active :: "string \<Rightarrow> string \<Rightarrow> string \<Rightarrow> pyfloat \<Rightarrow> bool" where
  "fault_active worker_id job_id fault_mode fault_rate \<longleftrightarrow>
     of_nat (seed_nat (take 8 (sha256 (utf8_encode (worker_id @ '':'' @ job_id @ '':'' @ fault_mode))))) / 2 ^ 64 < fault_rate"

definition corrupted :: "'t exec_env \<Rightarrow> string \<Rightarrow> string \<Rightarrow> string \<Rightarrow> 't \<Rightarrow> 't" where
  "corrupted X fault_mode job_id name value =
     (if fault_mode = ''wrong_output'' \<or> fault_mode = ''skip_compute''
      then (if xe_is_float X value
            then xe_randn_like X (seed_nat (sha256 (utf8_encode (job_id @ '':'' @ name))) mod (2 ^ 31 - 1)) value
            else xe_zeros_like X value)
      else if fault_mode = ''partial_corrupt''
      then (if xe_numel X value > 0
            then xe_bump X value (seed_nat (sha256 (utf8_encode (job_id @ '':'' @ name @ '':partial''))) mod xe_numel X value)
            else value)
      else value)"

definition apply_faults ::
  "'t exec_env \<Rightarrow> JobManifestV3 \<Rightarrow> (string \<times> 't out_value) list \<Rightarrow> string \<Rightarrow> string \<Rightarrow> pyfloat \<Rightarrow> (string \<times> 't out_value) list" where
  "apply_faults X m outputs worker_id fault_mode fault_rate =
     (if fault_mode = [] \<or> fault_mode = ''none'' \<or> \<not> fault_active worker_id (mf_job_id m) fault_mode fault_rate then outputs
      else map (\<lambda>(name, value). (name, case value of OTensor t \<Rightarrow> OTensor (corrupted X fault_mode (mf_job_id m) name t) | _ \<Rightarrow> value)) outputs)"

subsection \<open>Executing a job\<close>

fun decode_inputs :: "'t exec_env \<Rightarrow> grants \<Rightarrow> ArtifactRef list \<Rightarrow> (string \<times> 't) list \<Rightarrow> ('t, (string \<times> 't) list) exec" where
  "decode_inputs X gs [] acc = liftS (Inr acc)"
| "decode_inputs X gs (ref # refs) acc =
     bindS (decode_input X gs ref) (\<lambda>v. decode_inputs X gs refs (AList.update (ar_name ref) v acc))"

definition is_cached :: "'t JobExecutor \<Rightarrow> ArtifactRef \<Rightarrow> bool" where
  "is_cached ex ref \<longleftrightarrow> map_of (tc_entries (je_input ex)) (ar_uri ref) \<noteq> None \<or> map_of (tc_entries (je_output ex)) (ar_uri ref) \<noteq> None"

definition load_job_inputs :: "'t exec_env \<Rightarrow> grants \<Rightarrow> ArtifactRef list \<Rightarrow> ('t, (string \<times> 't) list) exec" where
  "load_job_inputs X gs refs s =
     bindS (decode_inputs X gs (filter (is_cached (fst s)) refs) [])
       (decode_inputs X gs (filter (\<lambda>ref. \<not> is_cached (fst s) ref) refs)) s"

definition artifact_signer :: "string \<Rightarrow> signer option \<Rightarrow> WorkerIdentity \<Rightarrow> signer" where
  "artifact_signer miner_secret miner_signer worker =
     (case miner_signer of Some s \<Rightarrow> s | None \<Rightarrow> HmacSigner miner_secret (wi_hotkey_ss58 worker))"

definition output_blob ::
  "'t exec_env \<Rightarrow> 't JobExecutor \<Rightarrow> signer \<Rightarrow> (string \<times> 't out_value) list \<Rightarrow> ArtifactRef \<Rightarrow> (bytes \<times> ArtifactDigest) res" where
  "output_blob X ex s outputs ref =
     (case map_of outputs (ar_name ref) of
        None \<Rightarrow> Inl (KeyError (''graph did not produce output '' @ ar_name ref))
      | Some value \<Rightarrow>
          bindE (encode_output X value (ends_with (ar_uri ref) ''.json'')) (\<lambda>body.
          bindE (encode_envelope (xe_platform X) (xe_drand X) body (ar_crypto ref) (Some s)
                   (je_encryption_secret ex) (je_timelock_provider ex)) (\<lambda>blob.
          bindE (digest_body (xe_platform X) (ar_name ref) (ar_uri ref) blob (ar_crypto ref)) (\<lambda>digest. Inr (blob, digest)))))"

fun put_blobs :: "transport \<Rightarrow> grants \<Rightarrow> (string \<times> bytes) list \<Rightarrow> (LocalBucket, unit) sres" where
  "put_blobs T gs [] st = (Inr (), st)"
| "put_blobs T gs ((uri, blob) # rest) st =
     (case tr_put T uri blob (map_of gs uri) st of Inl e \<Rightarrow> (Inl e, st) | Inr st' \<Rightarrow> put_blobs T gs rest st')"

definition cache_outputs :: "'t exec_env \<Rightarrow> (string \<times> 't out_value) list \<Rightarrow> ArtifactRef list \<Rightarrow> 't JobExecutor \<Rightarrow> 't JobExecutor" where
  "cache_outputs X outputs refs ex = fold (\<lambda>ref. cache_output X (ar_uri ref) (the (map_of outputs (ar_name ref)))) refs ex"

definition input_digest :: "'t exec_env \<Rightarrow> grants \<Rightarrow> LocalBucket \<Rightarrow> ArtifactRef \<Rightarrow> ArtifactDigest res" where
  "input_digest X gs st ref =
     bindE (tr_get (xe_transport X) (ar_uri ref) (map_of gs (ar_uri ref)) st) (\<lambda>blob.
       digest_body (xe_platform X) (ar_name ref) (ar_uri ref) blob (ar_crypto ref))"

definition unsigned_receipt ::
  "'t exec_env \<Rightarrow> JobManifestV3 \<Rightarrow> WorkerIdentity \<Rightarrow> ArtifactDigest list \<Rightarrow> ArtifactDigest list \<Rightarrow> JobReceiptV3" where
  "unsigned_receipt X m worker ins outs =
     \<lparr>rc_receipt_id = mf_run_id m @ '':'' @ mf_job_id m @ '':'' @ wi_hotkey_ss58 worker @ '':'' @ wi_worker_id worker @ '':'' @ show_int (mf_attempt m),
      rc_manifest_hash = manifest_hash (xe_platform X) m, rc_job_id = mf_job_id m, rc_run_id = mf_run_id m, rc_step_id = mf_step_id m,
      rc_kind = mf_kind m, rc_worker = worker, rc_input_digests = ins, rc_output_digests = outs, rc_started_unix = xe_t0 X,
      rc_finished_unix = xe_t_final X, rc_compute_sec = xe_t_done X - xe_t_compute X,
      rc_claimed_bytes_read = (\<Sum>d \<leftarrow> ins. ad_size_bytes d), rc_claimed_bytes_written = (\<Sum>d \<leftarrow> outs. ad_size_bytes d),
      rc_execution = [], rc_miner_signature = None, rc_schema_version = 3\<rparr>"

text \<open>After the outputs are computed: encode, store, cache, digest and sign.\<close>

definition publish_outputs ::
  "'t exec_env \<Rightarrow> JobManifestV3 \<Rightarrow> WorkerIdentity \<Rightarrow> signer \<Rightarrow> grants \<Rightarrow> (string \<times> 't out_value) list \<Rightarrow> ('t, JobReceiptV3) exec" where
  "publish_outputs X m worker signer gs outputs s =
     (case s of (ex, st) \<Rightarrow>
        case mapE (output_blob X ex signer outputs) (mf_outputs m) of
          Inl e \<Rightarrow> (Inl e, s)
        | Inr blobs \<Rightarrow>
            (case put_blobs (xe_transport X) gs (zip (map ar_uri (mf_outputs m)) (map fst blobs)) st of
               (Inl e, st') \<Rightarrow> (Inl e, (ex, st'))
             | (Inr _, st') \<Rightarrow>
                 (case mapE (input_digest X gs st') (mf_inputs m) of
                    Inl e \<Rightarrow> (Inl e, (cache_outputs X outputs (mf_outputs m) ex, st'))
                  | Inr ins \<Rightarrow>
                      (Inr (JobReceiptV3_sign (xe_platform X) signer (unsigned_receipt X m worker ins (map snd blobs))),
                       (cache_outputs X outputs (mf_outputs m) ex, st')))))"

definition execute_job ::
  "'t exec_env \<Rightarrow> JobManifestV3 \<Rightarrow> WorkerIdentity \<Rightarrow> string \<Rightarrow> signer option \<Rightarrow> string \<Rightarrow> pyfloat \<Rightarrow> grants \<Rightarrow> ('t, JobReceiptV3) exec" where
  "execute_job X m worker miner_secret miner_signer fault_mode fault_rate gs =
     bindS (executor_fetch_graph (xe_platform X) (gr_sha256 (mf_graph_ref m)) (gr_uri (mf_graph_ref m))) (\<lambda>graph.
     bindS (load_job_inputs X gs (mf_inputs m)) (\<lambda>inputs.
     bindS (\<lambda>s. (xe_evaluate X graph inputs (mf_params m) (snd s), s)) (\<lambda>outputs.
       publish_outputs X m worker (artifact_signer miner_secret miner_signer worker) gs
         (apply_faults X m outputs (wi_worker_id worker) fault_mode fault_rate))))"

end
