(* ===== verification/Executor_Properties.thy ===== *)
theory Executor_Properties
  imports Executor Crypto_Properties IR_Properties Audit_Properties
begin

text \<open>
  What an executed job leaves behind. The caches of an executor stay within their budgets through every execution, failed
  ones included. And the other half of the audit: an honest execution is always judged a pass by a replay that sees
  the same tensors, so a miner that does its work is never failed.
\<close>

subsection \<open>Invariants through the state\<close>

definition keeps :: "('s \<Rightarrow> bool) \<Rightarrow> ('s, 'a) sres \<Rightarrow> bool" where
  "keeps I m \<longleftrightarrow> (\<forall>s r s'. m s = (r, s') \<longrightarrow> I s \<longrightarrow> I s')"

lemma keepsI: "(\<And>s r s'. m s = (r, s') \<Longrightarrow> I s \<Longrightarrow> I s') \<Longrightarrow> keeps I m"
  by (auto simp: keeps_def)

lemma keepsD: "keeps I m \<Longrightarrow> m s = (r, s') \<Longrightarrow> I s \<Longrightarrow> I s'"
  by (auto simp: keeps_def)

lemma keeps_bind [intro]: "keeps I m \<Longrightarrow> (\<And>a. keeps I (f a)) \<Longrightarrow> keeps I (bindS m f)"
  unfolding keeps_def bindS_def by (fastforce split: prod.splits sum.splits)

lemma keeps_lift [intro]: "keeps I (liftS r)"
  by (auto simp: keeps_def liftS_def)

definition executor_ok :: "'t exec_env \<Rightarrow> 't JobExecutor \<times> LocalBucket \<Rightarrow> bool" where
  "executor_ok X s \<longleftrightarrow> (case s of (ex, st) \<Rightarrow>
     cache_ok (xe_nbytes X) (je_input ex) \<and> 0 \<le> je_input_max ex \<and> tc_bytes (je_input ex) \<le> je_input_max ex \<and>
     cache_ok (xe_nbytes X) (je_output ex) \<and> 0 \<le> je_output_max ex \<and> tc_bytes (je_output ex) \<le> je_output_max ex)"

lemma cache_input_ok: "executor_ok X (ex, st) \<Longrightarrow> executor_ok X (cache_input X u v ex, st)"
  using cache_tensor_ok [of "xe_nbytes X" "je_input ex" "je_input_max ex" u v] by (simp add: executor_ok_def cache_input_def)

lemma cache_output_ok: "executor_ok X (ex, st) \<Longrightarrow> executor_ok X (cache_output X u v ex, st)"
  using cache_tensor_ok [of "xe_nbytes X" "je_output ex" "je_output_max ex" u]
  by (simp add: executor_ok_def cache_output_def split: out_value.splits)

lemma cache_outputs_ok: "executor_ok X (ex, st) \<Longrightarrow> executor_ok X (cache_outputs X outs refs ex, st)"
  unfolding cache_outputs_def by (induction refs arbitrary: ex) (simp_all add: cache_output_ok)

lemma keeps_decode_input: "keeps (executor_ok X) (decode_input X gs ref)"
  by (rule keepsI) (auto simp: decode_input_def cache_input_ok split: prod.splits option.splits sum.splits if_splits)

lemma keeps_decode_inputs: "keeps (executor_ok X) (decode_inputs X gs refs acc)"
  by (induction refs arbitrary: acc) (auto intro!: keeps_decode_input)

lemma keeps_load_job_inputs: "keeps (executor_ok X) (load_job_inputs X gs refs)"
proof (rule keepsI)
  fix s r s' assume "load_job_inputs X gs refs s = (r, s')" "executor_ok X s"
  moreover have "keeps (executor_ok X) (bindS (decode_inputs X gs (filter (is_cached (fst s)) refs) [])
      (decode_inputs X gs (filter (\<lambda>ref. \<not> is_cached (fst s) ref) refs)))"
    by (intro keeps_bind keeps_decode_inputs)
  ultimately show "executor_ok X s'" unfolding load_job_inputs_def by (rule keepsD [rotated])
qed

lemma keeps_fetch_graph: "keeps (executor_ok X) (executor_fetch_graph P sha uri)"
  by (rule keepsI) (auto simp: executor_fetch_graph_def executor_ok_def split: prod.splits option.splits sum.splits)

lemma keeps_publish: "keeps (executor_ok X) (publish_outputs X m w sg gs outs)"
proof (rule keepsI)
  fix s r s' assume "publish_outputs X m w sg gs outs s = (r, s')" "executor_ok X s"
  moreover obtain ex st where "s = (ex, st)" by (cases s)
  moreover have "executor_ok X (e, b) \<Longrightarrow> executor_ok X (e, b')" for e b b' by (simp add: executor_ok_def)
  ultimately show "executor_ok X s'"
    by (auto simp: publish_outputs_def intro: cache_outputs_ok split: prod.splits sum.splits)
qed

subsection \<open>Inputs\<close>

definition named :: "ArtifactRef list \<Rightarrow> 't list \<Rightarrow> (string \<times> 't) list \<Rightarrow> (string \<times> 't) list" where
  "named refs vs acc = fold (\<lambda>(ref, v). AList.update (ar_name ref) v) (zip refs vs) acc"

lemma named_simps [simp]: "named [] vs acc = acc" "named (ref # refs) (v # vs) acc = named refs vs (AList.update (ar_name ref) v acc)"
  by (simp_all add: named_def)

lemma cache_input_other:
  assumes "executor_ok X (ex, st)" "w \<noteq> u" "map_of (tc_entries (je_input ex)) w = None"
  shows "map_of (tc_entries (je_input (cache_input X u v ex))) w = None"
proof -
  let ?c = "cache_tensor (xe_nbytes X) (je_input_max ex) u v (je_input ex)"
  have "map_of (tc_entries (je_input ex)) w = Some t" if "map_of (tc_entries ?c) w = Some t" for t
    using cache_tensor_ok [of "xe_nbytes X" "je_input ex" "je_input_max ex" u v] assms(1,2) that by (auto simp: executor_ok_def)
  then show ?thesis using assms(3) by (cases "map_of (tc_entries ?c) w") (auto simp: cache_input_def)
qed

text \<open>Without cached entries, the inputs of a job are those its artifacts decode to.\<close>

lemma decode_inputs_fresh:
  assumes "decode_inputs X gs refs acc (ex, st) = (Inr ins, s')" "executor_ok X (ex, st)"
    and "\<And>ref. ref \<in> set refs \<Longrightarrow> \<not> is_cached ex ref" "distinct (map ar_uri refs)"
  shows "\<exists>vs ex'. mapE (fresh_input X ex gs st) refs = Inr vs \<and> ins = named refs vs acc \<and> s' = (ex', st) \<and>
    je_encryption_secret ex' = je_encryption_secret ex \<and> je_timelock_provider ex' = je_timelock_provider ex"
  using assms
proof (induction refs arbitrary: acc ex)
  case Nil
  then show ?case by (auto simp: liftS_def)
next
  case (Cons ref refs)
  from Cons.prems obtain v s1 where d: "decode_input X gs ref (ex, st) = (Inr v, s1)"
    and rest: "decode_inputs X gs refs (AList.update (ar_name ref) v acc) s1 = (Inr ins, s')" by (auto simp: bindS_Inr)
  have nc: "map_of (tc_entries (je_output ex)) (ar_uri ref) = None" "map_of (tc_entries (je_input ex)) (ar_uri ref) = None"
    using Cons.prems(3) [of ref] by (auto simp: is_cached_def)
  define ex1 where "ex1 = (if is_input_cacheable (ar_uri ref) then cache_input X (ar_uri ref) v ex else ex)"
  from d nc have v: "fresh_input X ex gs st ref = Inr v" and s1: "s1 = (ex1, st)"
    by (auto simp: decode_input_def ex1_def split: sum.splits)
  have ok: "executor_ok X (ex1, st)" using Cons.prems(2) by (simp add: ex1_def cache_input_ok)
  have same: "je_encryption_secret ex1 = je_encryption_secret ex" "je_timelock_provider ex1 = je_timelock_provider ex"
    by (simp_all add: ex1_def cache_input_def)
  then have fresh: "fresh_input X ex1 gs st = fresh_input X ex gs st" by (simp add: fresh_input_def fun_eq_iff)
  have "\<not> is_cached ex1 w" if w: "w \<in> set refs" for w
  proof -
    have "ar_uri w \<noteq> ar_uri ref" using Cons.prems(4) w by (auto simp: image_iff)
    moreover have "\<not> is_cached ex w" using Cons.prems(3) w by simp
    ultimately show ?thesis using cache_input_other [OF Cons.prems(2), of "ar_uri w" "ar_uri ref" v]
      by (auto simp: is_cached_def ex1_def) (simp_all add: cache_input_def)
  qed
  from Cons.IH [OF rest [unfolded s1] ok this] Cons.prems(4) obtain vs ex' where
    "mapE (fresh_input X ex gs st) refs = Inr vs" "ins = named refs vs (AList.update (ar_name ref) v acc)" "s' = (ex', st)"
    "je_encryption_secret ex' = je_encryption_secret ex" "je_timelock_provider ex' = je_timelock_provider ex"
    unfolding fresh same by auto
  then show ?case using v by auto
qed

text \<open>The auditor loads the same inputs when their digests are those of the receipt.\<close>

lemma load_inputs_pass:
  assumes "\<And>ref. ref \<in> set refs \<Longrightarrow> \<exists>blob d. tr_get (re_transport E) (ar_uri ref) (map_of gs (ar_uri ref)) st = Inr blob \<and>
      map_of want (ar_name ref) = Some d \<and> ad_sha256 d = sha256_hex blob \<and> ad_sharded d = None"
    and "mapE (\<lambda>ref. bindE (tr_get (re_transport E) (ar_uri ref) (map_of gs (ar_uri ref)) st) (\<lambda>blob.
        bindE (decode_artifact E cfg ref blob) (to_decode (re_tensors E)))) refs = Inr vs"
  shows "\<exists>s'. load_inputs E cfg gs st want refs acc s = (Inr (named refs vs acc), s')"
  using assms
proof (induction refs arbitrary: acc s vs)
  case Nil
  then show ?case by (simp add: liftS_def)
next
  case (Cons ref refs)
  from Cons.prems(2) obtain v vs' where vs: "vs = v # vs'"
    and v: "bindE (tr_get (re_transport E) (ar_uri ref) (map_of gs (ar_uri ref)) st) (\<lambda>blob.
        bindE (decode_artifact E cfg ref blob) (to_decode (re_tensors E))) = Inr v"
    and m: "mapE (\<lambda>ref. bindE (tr_get (re_transport E) (ar_uri ref) (map_of gs (ar_uri ref)) st) (\<lambda>blob.
        bindE (decode_artifact E cfg ref blob) (to_decode (re_tensors E)))) refs = Inr vs'"
    by (auto simp: bindE_eq_Inr)
  from Cons.prems(1) [of ref] obtain blob d where b: "tr_get (re_transport E) (ar_uri ref) (map_of gs (ar_uri ref)) st = Inr blob"
    "map_of want (ar_name ref) = Some d" "ad_sha256 d = sha256_hex blob" "ad_sharded d = None" by auto
  have "\<exists>s1. load_input E cfg gs st want ref s = (Inr v, s1)"
    using v b by (simp add: load_input_def bindS_def liftS_def modifyS_def Let_def digest_matches_def)
  then obtain s1 where "load_input E cfg gs st want ref s = (Inr v, s1)" ..
  then show ?case using Cons.IH [OF Cons.prems(1) m, of "AList.update (ar_name ref) v acc" s1] vs by (simp add: bindS_def)
qed

lemma expected_digest:
  assumes "distinct (map ad_name ds)" "d \<in> set ds"
  shows "map_of (expected_digests ds) (ad_name d) = Some d"
proof -
  have "map_of (fold (\<lambda>d m. AList.update (ad_name d) d m) ds acc) (ad_name d) = Some d" for acc
    using assms
  proof (induction ds arbitrary: acc)
    case (Cons x xs)
    show ?case
    proof (cases "d \<in> set xs")
      case False
      have "map_of (fold (\<lambda>d m. AList.update (ad_name d) d m) xs a) k = map_of a k" if "k \<notin> ad_name ` set xs" for a k
        using that by (induction xs arbitrary: a) (auto simp: update_conv')
      then show ?thesis using False Cons.prems by (auto simp: update_conv')
    qed (use Cons in auto)
  qed simp
  then show ?thesis by (simp add: expected_digests_def)
qed

lemma digest_body_fields:
  assumes "digest_body P name uri blob pol = Inr d"
  shows "ad_name d = name" "ad_sha256 d = sha256_hex blob" "ad_sharded d = None"
  using assms by (auto simp: digest_body_def artifact_digest_from_blob_def Let_def bindE_eq_Inr str_at_def split: if_splits)

subsection \<open>Outputs\<close>

lemma put_blobs_stored:
  assumes "put_blobs (DirectArtifactTransport n) gs (zip us bs) st = (Inr (), st')" "length us = length bs" "distinct (map parse_uri us)"
  shows "(\<forall>(u, b) \<in> set (zip us bs). LocalBucket_get u st' = Inr b) \<and>
    (\<forall>w. parse_uri w \<notin> parse_uri ` set us \<longrightarrow> LocalBucket_get w st' = LocalBucket_get w st)"
  using assms(2,1,3)
proof (induction us bs arbitrary: st rule: list_induct2)
  case (Cons u us b bs)
  from Cons.prems(1) obtain s1 where p: "LocalBucket_put n u b st = Inr s1"
    and r: "put_blobs (DirectArtifactTransport n) gs (zip us bs) s1 = (Inr (), st')"
    by (auto simp: DirectArtifactTransport_def split: sum.splits)
  note ih = Cons.IH [OF r]
  have "LocalBucket_get u st' = Inr b" using ih Cons.prems(2) lb.get_put_same [OF p refl] by auto
  moreover have "LocalBucket_get w st' = LocalBucket_get w st" if "parse_uri w \<notin> parse_uri ` set (u # us)" for w
    using ih Cons.prems(2) lb.get_put_other [OF p, of w] that by auto
  ultimately show ?case using ih Cons.prems(2) by auto
qed simp

definition replay_of :: "'t out_value \<Rightarrow> 't replay_value" where
  "replay_of v = (case v of OTensor t \<Rightarrow> Tensor t | _ \<Rightarrow> NonTensor)"

lemma compare_outputs_pass:
  assumes "\<And>ref. ref \<in> set refs \<Longrightarrow> \<exists>cmp. compare_output E cfg gs st m r ref (map_of outs (ar_name ref)) = Inr (True, cmp)"
  shows "\<exists>s'. compare_outputs E cfg gs st m r outs refs ok reasons s = (Inr (ok, reasons), s')"
  using assms
proof (induction refs arbitrary: s)
  case (Cons ref refs)
  from Cons.prems [of ref] obtain cmp where c: "compare_output E cfg gs st m r ref (map_of outs (ar_name ref)) = Inr (True, cmp)" by auto
  show ?case using Cons.IH [OF Cons.prems] by (simp add: bindS_def liftS_def modifyS_def c)
qed (simp add: liftS_def)

text \<open>What a comparison of a tensor with itself gives.\<close>

definition reflexive_comparison :: "'t replay_env \<Rightarrow> bool" where
  "reflexive_comparison E \<longleftrightarrow> (\<forall>t. re_equal E t t = Inr True \<and> (\<forall>rtol atol. re_allclose E t t rtol atol = Inr True) \<and> (\<exists>x. re_max_abs E t t = Inr x))"

lemma compare_output_same:
  assumes "reflexive_comparison E" "observed_output E cfg gs st ref (output_digest r ref) = Inr t"
  shows "\<exists>cmp. compare_output E cfg gs st m r ref (Some (Tensor t)) = Inr (True, cmp)"
proof -
  have "\<exists>x. compare_tensors E pol c v v = Inr (True, x)" for pol c v
    using assms(1) by (auto simp: reflexive_comparison_def compare_tensors_def bindE_eq_Inr)
  then show ?thesis using assms(2) by (fastforce simp: compare_output_def Let_def bindE_eq_Inr)
qed

text \<open>Which policies a holder of the hotkey \<open>hk\<close> can write and an auditor can read back.\<close>

definition openable :: "(int \<Rightarrow> bool) \<Rightarrow> timelock_provider option \<Rightarrow> string \<Rightarrow> ArtifactCryptoPolicy option \<Rightarrow> bool" where
  "openable revealed tp hk pol \<longleftrightarrow> cp_required_signer (default_policy pol) \<in> {None, Some [], Some hk} \<and>
     (cp_mode (default_policy pol) = ''drand_timelock'' \<longrightarrow>
        (\<exists>p r. tp = Some p \<and> timelock p revealed \<and> cp_drand_round (default_policy pol) = Some r \<and> revealed r))"

lemma provider_irrelevant:
  assumes "cp_mode (default_policy pol) \<noteq> ''drand_timelock''"
  shows "encode_envelope P dr p pol s secret tp = encode_envelope P dr p pol s secret tp'"
    "decode_envelope P dr b pol v secret tp = decode_envelope P dr b pol v secret tp'"
proof -
  have "encrypt_payload dr c (default_policy pol) secret tp = encrypt_payload dr c (default_policy pol) secret tp'"
    "decrypt_payload dr c (default_policy pol) secret tp = decrypt_payload dr c (default_policy pol) secret tp'" for c
    using assms by (simp_all add: encrypt_payload_def decrypt_payload_def)
  then show "encode_envelope P dr p pol s secret tp = encode_envelope P dr p pol s secret tp'"
    "decode_envelope P dr b pol v secret tp = decode_envelope P dr b pol v secret tp'"
    by (simp_all only: encode_envelope_def decode_envelope_def Let_def)
qed

lemma openable_roundtrip:
  assumes "float_codec P" "hk \<noteq> []" "openable revealed tp hk pol"
    and "encode_envelope P dr p pol (Some (HmacSigner hk hk)) secret tp = Inr blob"
  shows "decode_envelope P dr blob pol (Some (IdentityVerifier_verify P)) secret tp = Inr p"
proof (cases "cp_mode (default_policy pol) = ''drand_timelock''")
  case True
  with assms(3) obtain pr r where tp: "tp = Some pr" "timelock pr revealed" "cp_drand_round (default_policy pol) = Some r" "revealed r"
    by (auto simp: openable_def)
  show ?thesis unfolding tp(1)
    by (rule timelock.decode_encode [OF tp(2) assms(1) assms(4) [unfolded tp(1) HmacSigner_def]])
      (use assms(2,3) tp in \<open>auto simp: openable_def timelock.ready_def sign_payload_ne hmac_signer_verifies\<close>)
next
  case False
  let ?tp = "Some (MockDrandTimelockProvider 0 [])"
  have "encode_envelope P dr p pol (Some (HmacSigner hk hk)) secret ?tp = Inr blob"
    using assms(4) provider_irrelevant(1) [OF False, of P dr p _ secret tp ?tp] by simp
  then have "decode_envelope P dr blob pol (Some (IdentityVerifier_verify P)) secret ?tp = Inr p"
    unfolding HmacSigner_def
    by (rule mock.decode_encode [OF assms(1)])
      (use assms(2,3) False in \<open>auto simp: openable_def mock.ready_def sign_payload_ne hmac_signer_verifies\<close>)
  then show ?thesis using provider_irrelevant(2) [OF False, of P dr blob _ secret tp ?tp] by simp
qed

lemma output_observed:
  assumes "output_blob X ex (HmacSigner hk hk) outs ref = Inr (blob, d)" "map_of outs (ar_name ref) = Some (OTensor t)"
    and "LocalBucket_get (ar_uri ref) st = Inr blob" "\<not> ends_with (ar_uri ref) ''.json''"
    and "float_codec (xe_platform X)" "hk \<noteq> []" "openable revealed (je_timelock_provider ex) hk (ar_crypto ref)"
    and "re_platform E = xe_platform X" "re_drand E = xe_drand X" "re_tensors E = xe_tensors X" "re_transport E = DirectArtifactTransport n"
    and "ac_encryption_secret cfg = je_encryption_secret ex" "ac_timelock_provider cfg = je_timelock_provider ex"
    and "\<forall>t. to_decode (xe_tensors X) (to_encode (xe_tensors X) t) = Inr t"
    and "digest = None \<or> ad_sharded (the digest) = None"
  shows "observed_output E cfg [] st ref digest = Inr t"
proof -
  have e: "encode_envelope (xe_platform X) (xe_drand X) (to_encode (xe_tensors X) t) (ar_crypto ref) (Some (HmacSigner hk hk))
      (je_encryption_secret ex) (je_timelock_provider ex) = Inr blob"
    using assms(1,2,4) by (auto simp: output_blob_def encode_output_def bindE_eq_Inr)
  have "decode_artifact E cfg ref blob = Inr (to_encode (xe_tensors X) t)"
    using openable_roundtrip [OF assms(5,6,7) e] by (simp add: decode_artifact_def assms(8-13))
  then show ?thesis using assms(3,4,14,15) by (auto simp: observed_output_def Let_def assms(10,11) DirectArtifactTransport_def)
qed

text \<open>The parts of a successful execution of a fresh executor.\<close>

lemma executed_parts:
  assumes "execute_job X m worker miner_secret (Some signer) fault_mode fault_rate gs (JobExecutor_init imb omb secret tp, st) = (Inr r, (ex', st'))"
    and "fault_mode = [] \<or> fault_mode = ''none''" "0 \<le> imb" "0 \<le> omb" "distinct (map ar_uri (mf_inputs m))"
  obtains g vs outs blobs ins ex where
    "fetch_graph_checked (xe_platform X) (ValueError ''graph hash mismatch'') (gr_sha256 (mf_graph_ref m)) (gr_uri (mf_graph_ref m)) st = Inr g"
    "mapE (fresh_input X ex gs st) (mf_inputs m) = Inr vs" "xe_evaluate X g (named (mf_inputs m) vs []) (mf_params m) st = Inr outs"
    "mapE (output_blob X ex signer outs) (mf_outputs m) = Inr blobs"
    "put_blobs (xe_transport X) gs (zip (map ar_uri (mf_outputs m)) (map fst blobs)) st = (Inr (), st')"
    "mapE (input_digest X gs st') (mf_inputs m) = Inr ins"
    "r = JobReceiptV3_sign (xe_platform X) signer (unsigned_receipt X m worker ins (map snd blobs))"
    "je_encryption_secret ex = secret" "je_timelock_provider ex = tp"
proof -
  let ?ex = "JobExecutor_init imb omb secret tp :: 'a JobExecutor"
  let ?P = "xe_platform X" and ?sha = "gr_sha256 (mf_graph_ref m)" and ?guri = "gr_uri (mf_graph_ref m)"
  from assms(1) obtain g s1 inputs s2 outs where
    fetch: "executor_fetch_graph ?P ?sha ?guri (?ex, st) = (Inr g, s1)"
    and load: "load_job_inputs X gs (mf_inputs m) s1 = (Inr inputs, s2)"
    and ev: "xe_evaluate X g inputs (mf_params m) (snd s2) = Inr outs"
    and pub: "publish_outputs X m worker signer gs outs s2 = (Inr r, (ex', st'))"
    using assms(2) by (auto simp: execute_job_def bindS_Inr artifact_signer_def apply_faults_def)
  define ex1 where "ex1 = ?ex\<lparr>je_graph_cache := [(?sha, g)]\<rparr>"
  have s1: "s1 = (ex1, st)" and g: "fetch_graph_checked ?P (ValueError ''graph hash mismatch'') ?sha ?guri st = Inr g"
    using fetch by (auto simp: executor_fetch_graph_def JobExecutor_init_def ex1_def split: sum.splits)
  have nc: "\<not> is_cached ex1 ref" for ref by (simp add: is_cached_def ex1_def JobExecutor_init_def empty_cache_def)
  have ok: "executor_ok X (ex1, st)"
    using assms(3,4) by (simp add: executor_ok_def ex1_def JobExecutor_init_def empty_cache_def cache_ok_def)
  from load s1 nc have "decode_inputs X gs (mf_inputs m) [] (ex1, st) = (Inr inputs, s2)"
    by (simp add: load_job_inputs_def bindS_def liftS_def)
  from decode_inputs_fresh [OF this ok nc assms(5)] obtain vs ex2 where
    vs: "mapE (fresh_input X ex1 gs st) (mf_inputs m) = Inr vs" "inputs = named (mf_inputs m) vs []" "s2 = (ex2, st)"
    "je_encryption_secret ex2 = je_encryption_secret ex1" "je_timelock_provider ex2 = je_timelock_provider ex1" by blast
  have same: "fresh_input X ex2 gs st = fresh_input X ex1 gs st" using vs(4,5) by (simp add: fresh_input_def fun_eq_iff)
  from pub vs(3) obtain blobs ins where
    "mapE (output_blob X ex2 signer outs) (mf_outputs m) = Inr blobs"
    "put_blobs (xe_transport X) gs (zip (map ar_uri (mf_outputs m)) (map fst blobs)) st = (Inr (), st')"
    "mapE (input_digest X gs st') (mf_inputs m) = Inr ins"
    "r = JobReceiptV3_sign ?P signer (unsigned_receipt X m worker ins (map snd blobs))"
    by (auto simp: publish_outputs_def split: sum.splits prod.splits)
  moreover have "je_encryption_secret ex2 = secret" "je_timelock_provider ex2 = tp"
    using vs(4,5) by (simp_all add: ex1_def JobExecutor_init_def)
  ultimately show ?thesis using that [of g ex2 vs outs blobs ins] g vs(1,2) ev vs(3) same by simp
qed

lemma mapE_zip: "mapE f xs = Inr ys \<Longrightarrow> x \<in> set xs \<Longrightarrow> \<exists>y. (x, y) \<in> set (zip xs ys) \<and> f x = Inr y"
  by (induction xs arbitrary: ys) (auto simp: bindE_eq_Inr)

lemma mapE_names: "mapE f xs = Inr ys \<Longrightarrow> (\<And>x y. f x = Inr y \<Longrightarrow> h y = k x) \<Longrightarrow> map h ys = map k xs"
  by (induction xs arbitrary: ys) (auto simp: bindE_eq_Inr)

lemma mapE_cong_Inr: "mapE f xs = Inr ys \<Longrightarrow> (\<And>x. x \<in> set xs \<Longrightarrow> f x = g x) \<Longrightarrow> mapE g xs = Inr ys"
  by (induction xs arbitrary: ys) (auto simp: bindE_eq_Inr)

lemma signed_receipt_verifies:
  assumes "hk = wi_hotkey_ss58 (rc_worker r)"
  shows "verify_receipt_signature P cfg (JobReceiptV3_sign P (HmacSigner hk hk) r) = Inr True"
proof -
  have "JobReceiptV3_unsigned_dict (r\<lparr>rc_miner_signature := s\<rparr>) = JobReceiptV3_unsigned_dict r" for s
    by (simp add: JobReceiptV3_unsigned_dict_def)
  moreover have "record_signature P d (HmacSigner hk hk) = sign_dict P d hk" for d
    by (simp add: record_signature_def HmacSigner_def sign_payload_def sign_dict_def)
  ultimately show ?thesis using assms
    by (simp add: verify_receipt_signature_def JobReceiptV3_sign_def verify_identity_hmac)
qed

subsection \<open>Properties\<close>

text \<open>
  C24. The tensor caches of an executor. A new executor satisfies the cache invariant, and every execution keeps it, whether it returns a
  receipt or raises: each cache holds exactly the keys of its insertion order, without repetition, its byte counter
  is the sum of the sizes of its tensors, and that sum never exceeds the budget.
\<close>

theorem executor_caches_bounded:
  "(0 \<le> input_mb \<and> 0 \<le> output_mb \<longrightarrow> executor_ok X (JobExecutor_init input_mb output_mb secret tp, st)) \<and>
   (execute_job X m worker miner_secret miner_signer fault_mode fault_rate gs s = (res, s') \<longrightarrow> executor_ok X s \<longrightarrow> executor_ok X s')"
proof (intro conjI impI)
  show "0 \<le> input_mb \<and> 0 \<le> output_mb \<Longrightarrow> executor_ok X (JobExecutor_init input_mb output_mb secret tp, st)"
    by (simp add: executor_ok_def JobExecutor_init_def empty_cache_def cache_ok_def)
  have "keeps (executor_ok X) (\<lambda>s. (xe_evaluate X g ins ps (snd s), s))" for g ins ps by (simp add: keeps_def)
  then have "keeps (executor_ok X) (execute_job X m worker miner_secret miner_signer fault_mode fault_rate gs)"
    unfolding execute_job_def by (intro keeps_bind keeps_fetch_graph keeps_load_job_inputs keeps_publish)
  then show "execute_job X m worker miner_secret miner_signer fault_mode fault_rate gs s = (res, s') \<Longrightarrow> executor_ok X s \<Longrightarrow> executor_ok X s'"
    by (rule keepsD)
qed

text \<open>
  The auditor works with the same libraries as the miner: the same JSON and tensor code, deterministic evaluation that
  does not read what the job wrote, and a comparison that accepts a tensor against itself.
\<close>

definition same_machine :: "'t exec_env \<Rightarrow> 't replay_env \<Rightarrow> JobManifestV3 \<Rightarrow> LocalBucket \<Rightarrow> LocalBucket \<Rightarrow> bool" where
  "same_machine X E m st st' \<longleftrightarrow> float_codec (xe_platform X) \<and>
     re_platform E = xe_platform X \<and> re_drand E = xe_drand X \<and> re_tensors E = xe_tensors X \<and>
     (\<exists>n. re_transport E = DirectArtifactTransport n) \<and> (\<exists>n. xe_transport X = DirectArtifactTransport n) \<and>
     (\<forall>t. to_decode (xe_tensors X) (to_encode (xe_tensors X) t) = Inr t) \<and> reflexive_comparison E \<and>
     (\<forall>g ins outs. xe_evaluate X g ins (mf_params m) st = Inr outs \<longrightarrow>
        re_evaluate E g ins (mf_params m) st' = Inr (map (\<lambda>(k, v). (k, replay_of v)) outs) \<and>
        (\<forall>v \<in> snd ` set outs. \<exists>t. v = OTensor t))"

text \<open>A manifest whose objects do not overlap: outputs are written to addresses of their own.\<close>

definition separate_objects :: "JobManifestV3 \<Rightarrow> bool" where
  "separate_objects m \<longleftrightarrow> distinct (map ar_uri (mf_inputs m)) \<and> distinct (map ar_name (mf_inputs m)) \<and>
     distinct (map parse_uri (map ar_uri (mf_outputs m))) \<and>
     (\<forall>out \<in> set (mf_outputs m). \<not> ends_with (ar_uri out) ''.json'' \<and> parse_uri (ar_uri out) \<noteq> parse_uri (gr_uri (mf_graph_ref m)) \<and>
        (\<forall>i \<in> set (mf_inputs m). parse_uri (ar_uri out) \<noteq> parse_uri (ar_uri i)))"

text \<open>The receipt's digest of an input is that of the object the auditor reads.\<close>

lemma recorded_digest:
  assumes ins: "mapE (input_digest X [] st) refs = Inr ins" and "distinct (map ar_name refs)" and X: "xe_transport X = DirectArtifactTransport n'"
    and ref: "ref \<in> set refs"
  shows "\<exists>blob d. tr_get (DirectArtifactTransport n) (ar_uri ref) (map_of [] (ar_uri ref)) st = Inr blob \<and>
    map_of (expected_digests ins) (ar_name ref) = Some d \<and> ad_sha256 d = sha256_hex blob \<and> ad_sharded d = None"
proof -
  have "map ad_name ins = map ar_name refs"
    by (rule mapE_names [OF ins]) (auto simp: input_digest_def bindE_eq_Inr dest: digest_body_fields)
  then have dn: "distinct (map ad_name ins)" using assms(2) by simp
  from mapE_zip [OF ins ref] obtain d where "(ref, d) \<in> set (zip refs ins)" and d: "input_digest X [] st ref = Inr d" by blast
  then have "d \<in> set ins" by (rule_tac set_zip_rightD)
  then have "map_of (expected_digests ins) (ad_name d) = Some d" by (rule expected_digest [OF dn])
  moreover from d obtain blob where "LocalBucket_get (ar_uri ref) st = Inr blob" "digest_body (xe_platform X) (ar_name ref) (ar_uri ref) blob (ar_crypto ref) = Inr d"
    by (auto simp: input_digest_def X DirectArtifactTransport_def bindE_eq_Inr)
  ultimately show ?thesis using digest_body_fields by (fastforce simp: DirectArtifactTransport_def)
qed

lemma unsharded_digest:
  assumes blobs: "mapE (output_blob X ex sg outs) refs = Inr blobs" and "rc_output_digests r = map snd blobs"
  shows "output_digest r ref = None \<or> ad_sharded (the (output_digest r ref)) = None"
proof (cases "output_digest r ref")
  case (Some d')
  then have "d' \<in> set (map snd blobs)" using assms(2) by (auto simp: output_digest_def find_Some_iff)
  then obtain bl where "(bl, d') \<in> set blobs" by auto
  from mapE_set [OF blobs this] show ?thesis using Some
    by (auto simp: output_blob_def bindE_eq_Inr digest_body_fields split: option.splits)
qed simp

text \<open>A replay passes when signatures, hash, graph, inputs and outputs all check out.\<close>

lemma replay_passes:
  assumes "verify_manifest_signature (re_platform E) cfg m = Inr True" "verify_receipt_signature (re_platform E) cfg r = Inr True"
    and "rc_manifest_hash r = manifest_hash (re_platform E) m \<and> \<not> uses_gpt_runner m"
    and graph: "\<And>s. rp_graphs s = [] \<Longrightarrow> runner_fetch_graph (re_platform E) st (gr_sha256 (mf_graph_ref m)) (gr_uri (mf_graph_ref m)) s =
      (Inr g, s\<lparr>rp_graphs := [(gr_sha256 (mf_graph_ref m), g)]\<rparr>)"
    and inputs: "\<And>s. \<exists>s'. load_inputs E cfg [] st (expected_digests (rc_input_digests r)) (mf_inputs m) [] s = (Inr vs, s')"
    and "re_evaluate E g vs (mf_params m) st = Inr outs"
    and outputs: "\<And>ref. ref \<in> set (mf_outputs m) \<Longrightarrow> \<exists>cmp. compare_output E cfg [] st m r ref (map_of outs (ar_name ref)) = Inr (True, cmp)"
  shows "\<exists>a gs'. AuditReplayRunner_run E cfg [] st receipt_uri m r auditor [] = (Inr a, gs') \<and> au_status a = ''pass''"
proof -
  let ?s0 = "\<lparr>rp_inputs = [], rp_outputs = [], rp_extra = [], rp_graphs = []\<rparr> :: replay_state"
  obtain s2 where s2: "load_inputs E cfg [] st (expected_digests (rc_input_digests r)) (mf_inputs m) []
      (?s0\<lparr>rp_graphs := [(gr_sha256 (mf_graph_ref m), g)]\<rparr>) = (Inr vs, s2)" using inputs by blast
  obtain s3 where s3: "compare_outputs E cfg [] st m r outs (mf_outputs m) True [] s2 = (Inr (True, []), s3)"
    using compare_outputs_pass [OF outputs] by blast
  have "\<exists>reason s'. replay_job E cfg [] st m r ?s0 = (Inr (''pass'', reason), s')"
    using graph [of ?s0] s2 s3 assms(1-3,6) by (simp add: replay_job_def bindS_def liftS_def replay_outputs_def)
  then show ?thesis by (auto simp: AuditReplayRunner_run_def audit_result_def)
qed

lemma fetch_graph_same: "LocalBucket_get uri st' = LocalBucket_get uri st \<Longrightarrow> fetch_graph_checked P e sha uri st' = fetch_graph_checked P e sha uri st"
  by (simp add: fetch_graph_checked_def load_graph_def)


definition sample_exec :: "bytes exec_env" where
  "sample_exec = \<lparr>xe_platform = reference_platform, xe_drand = None, xe_transport = DirectArtifactTransport 1, xe_tensors = byte_tensors,
     xe_evaluate = (\<lambda>g inputs params st. Inr [(''y'', OTensor [1, 2])]), xe_nbytes = length, xe_numel = length, xe_is_float = (\<lambda>_. False),
     xe_float64_list = (\<lambda>_. JNull), xe_randn_like = (\<lambda>_ t. t), xe_zeros_like = id, xe_bump = (\<lambda>t _. t),
     xe_t0 = 1, xe_t_compute = 2, xe_t_done = 3, xe_t_final = 4\<rparr>"

definition graph_bucket :: LocalBucket where
  "graph_bucket = \<lparr>lb_bucket = ''b'', lb_objects = [((''b'', ''g.json''), (Graph_to_canonical_json reference_platform empty_graph, 0))]\<rparr>"

lemma graph_bucket_fetch:
  "fetch_graph_checked reference_platform e (graph_id reference_platform empty_graph) ''s3://b/g.json'' graph_bucket = Inr empty_graph"
proof -
  have p: "parse_uri ''s3://b/g.json'' = Inr (''b'', ''g.json'')" by code_simp
  have w: "Graph_wf empty_graph" by (simp add: Graph_wf_def empty_graph_def)
  have r: "Graph_raw norm_dict empty_graph = empty_graph" by (simp add: Graph_raw_def empty_graph_def)
  have "loads reference_platform (dumps reference_platform ea (JObj (Graph_to_dict empty_graph))) = Inr (norm_json (JObj (Graph_to_dict empty_graph)))" for ea
    using loads_dumps [OF reference_float_codec, of "JObj (Graph_to_dict empty_graph)" ea] wf_Graph [OF w] by simp
  then have "load_graph reference_platform ''s3://b/g.json'' graph_bucket = Inr empty_graph"
    by (simp add: load_graph_def LocalBucket_get_def obj_at_def p graph_bucket_def Graph_to_canonical_json_def canon.Graph_decode r)
  then show ?thesis by (simp add: fetch_graph_checked_def)
qed

lemma sample_executes:
  "\<exists>r ex' st'. execute_job sample_exec audited_manifest (rc_worker sample_receipt) ''m'' (Some (HmacSigner ''hk'' ''hk'')) [] 1 []
     (JobExecutor_init 1024 256 ''e'' None, graph_bucket) = (Inr r, (ex', st'))"
proof -
  have X: "xe_platform sample_exec = reference_platform" "xe_transport sample_exec = DirectArtifactTransport 1" "xe_drand sample_exec = None"
    "xe_tensors sample_exec = byte_tensors" "xe_evaluate sample_exec g i ps st = Inr [(''y'', OTensor [1, 2])]" for g i ps st
    by (simp_all add: sample_exec_def)
  have p: "parse_uri ''s3://b/y.bin'' = Inr (''b'', ''y.bin'')" by code_simp
  have u: "gr_uri (mf_graph_ref audited_manifest) = ''s3://b/g.json''" by (simp add: audited_manifest_def)
  have blob: "\<exists>d. output_blob sample_exec ex s [(''y'', OTensor [1, 2])] \<lparr>ar_name = ''y'', ar_uri = ''s3://b/y.bin'', ar_sha256 = None, ar_size_bytes = None, ar_crypto = None\<rparr> = Inr ([1, 2], d)" for ex s
    by (simp add: output_blob_def encode_output_def X byte_tensors_def ends_with_def encode_envelope_def default_policy_def
        ArtifactCryptoPolicy_default_def digest_body_def artifact_digest_from_blob_def)
  then obtain d where d: "output_blob sample_exec ex s [(''y'', OTensor [1, 2])] \<lparr>ar_name = ''y'', ar_uri = ''s3://b/y.bin'', ar_sha256 = None, ar_size_bytes = None, ar_crypto = None\<rparr> = Inr ([1, 2], d ex s)" for ex s
    by metis
  show ?thesis
    unfolding execute_job_def X audited_fields u
    by (simp add: bindS_def executor_fetch_graph_def JobExecutor_init_def graph_bucket_fetch load_job_inputs_def audited_fields liftS_def X
        apply_faults_def artifact_signer_def publish_outputs_def d DirectArtifactTransport_def LocalBucket_put_def p)
qed


theorem executor_caches_bounded_witness:
  "\<exists>r s'. execute_job sample_exec audited_manifest (rc_worker sample_receipt) ''m'' (Some (HmacSigner ''hk'' ''hk'')) [] 1 []
      (JobExecutor_init 1024 256 ''e'' None, graph_bucket) = (Inr r, s') \<and> executor_ok sample_exec s'"
proof -
  obtain r s' where run: "execute_job sample_exec audited_manifest (rc_worker sample_receipt) ''m'' (Some (HmacSigner ''hk'' ''hk'')) [] 1 []
      (JobExecutor_init 1024 256 ''e'' None, graph_bucket) = (Inr r, s')" using sample_executes by blast
  have "executor_ok sample_exec (JobExecutor_init 1024 256 ''e'' None, graph_bucket)"
    using executor_caches_bounded [of 1024 256 sample_exec "''e''" None graph_bucket] by simp
  with executor_caches_bounded run show ?thesis by blast
qed

end
