(* ===== verification/Wallet_Crypto.thy ===== *)
theory Wallet_Crypto
  imports Crypto Record_Store
begin

text \<open>
  \<^verbatim>\<open>teuton_core/wallet_crypto.py\<close>: sealing an assignment grant for the hotkey it is meant for. Three
  schemes: the XOR cipher of local runs, PyNaCl sealed boxes for native ED25519 hotkeys, and the message encryption of a
  Substrate keypair. PyNaCl, the keypair object and \<^verbatim>\<open>ss58_decode\<close> are arguments.

  The locale \<open>grant_crypto\<close> is the contract of an encryptor and decryptor; each scheme is shown to satisfy it, and
  inside it that a grant written to the bucket is read back by its recipient and by nobody addressed otherwise.
\<close>

subsection \<open>Key material\<close>

text \<open>What \<^verbatim>\<open>_key_material_to_bytes\<close> tells apart: bytes (or a bytearray), a string, anything else.\<close>

datatype key_material = KBytes bytes | KStr string | KOther

definition key_material_to_bytes :: "key_material \<Rightarrow> string \<Rightarrow> bytes res" where
  "key_material_to_bytes value field_name =
     (case value of
        KBytes b \<Rightarrow> Inr b
      | KStr text \<Rightarrow>
          (case fromhex (if starts_with text ''0x'' then drop 2 text else text) of
             Some b \<Rightarrow> Inr b
           | None \<Rightarrow> Inl (ValueError (field_name @ '' must be bytes or a hex string'')))
      | KOther \<Rightarrow> Inl TypeError)"

text \<open>\<^verbatim>\<open>ss58_decode\<close> of one of two packages; \<open>None\<close> when neither can be imported.\<close>

definition public_key_bytes_from_hotkey :: "(string \<Rightarrow> key_material res) option \<Rightarrow> string \<Rightarrow> bytes res" where
  "public_key_bytes_from_hotkey ss58 hotkey =
     (case ss58 of
        None \<Rightarrow> Inl (RuntimeError ''substrateinterface or scalecodec is required to decode recipient hotkey public keys'')
      | Some decode \<Rightarrow> bindE (decode hotkey) (\<lambda>decoded. key_material_to_bytes decoded ''recipient_hotkey''))"

subsection \<open>Sealed grants\<close>

definition grant_plaintext :: "platform \<Rightarrow> AssignmentGrantV3 \<Rightarrow> bytes" where
  "grant_plaintext P grant = canonical_json P (JObj (AssignmentGrantV3_to_dict grant))"

definition parse_grant :: "platform \<Rightarrow> bytes \<Rightarrow> AssignmentGrantV3 res" where
  "parse_grant P plaintext =
     bindE (utf8_decode plaintext) (\<lambda>s. bindE (loads P s) (\<lambda>v. bindE (as_mapping v) AssignmentGrantV3_from_dict))"

definition sealed_grant ::
  "AssignmentGrantV3 \<Rightarrow> string \<Rightarrow> int option \<Rightarrow> int option \<Rightarrow> string option \<Rightarrow> bytes \<Rightarrow> string \<Rightarrow> EncryptedAssignmentGrantV3" where
  "sealed_grant grant hotkey uid block mhash ciphertext scheme =
     \<lparr>eg_job_id = ag_job_id grant, eg_run_id = ag_run_id grant, eg_recipient_hotkey = hotkey,
      eg_ciphertext_b64 = b64encode ciphertext, eg_crypto_scheme = scheme,
      eg_recipient_uid = uid, eg_metagraph_block = block,
      eg_metagraph_hash = Some (str_or mhash (sha256_hex (utf8_encode hotkey))),
      eg_sender_hotkey = None, eg_sender_public_key_hex = None, eg_recipient_public_key_hex = None, eg_schema_version = 1\<rparr>"

text \<open>The two checks every decryptor starts with.\<close>

definition check_recipient :: "string \<Rightarrow> EncryptedAssignmentGrantV3 \<Rightarrow> string \<Rightarrow> unit res" where
  "check_recipient scheme encrypted expected =
     (if eg_crypto_scheme encrypted \<noteq> scheme then Inl (ValueError (''unsupported assignment scheme '' @ eg_crypto_scheme encrypted))
      else if eg_recipient_hotkey encrypted \<noteq> expected then Inl (ValueError ''assignment grant recipient hotkey mismatch'')
      else Inr ())"

subsection \<open>DevAssignmentCrypto\<close>

definition Dev_encrypt_for_hotkey ::
  "platform \<Rightarrow> string \<Rightarrow> AssignmentGrantV3 \<Rightarrow> string \<Rightarrow> int option \<Rightarrow> int option \<Rightarrow> string option \<Rightarrow> EncryptedAssignmentGrantV3 res" where
  "Dev_encrypt_for_hotkey P secret grant hotkey uid block mhash =
     Inr (sealed_grant grant hotkey uid block mhash (xor_crypt (grant_plaintext P grant) (secret @ '':'' @ hotkey)) ''dev-xor-v1'')"

definition Dev_decrypt :: "platform \<Rightarrow> string \<Rightarrow> EncryptedAssignmentGrantV3 \<Rightarrow> string \<Rightarrow> AssignmentGrantV3 res" where
  "Dev_decrypt P secret encrypted expected =
     bindE (check_recipient ''dev-xor-v1'' encrypted expected) (\<lambda>_.
     bindE (decode_payload (eg_ciphertext_b64 encrypted)) (\<lambda>ciphertext.
       parse_grant P (xor_crypt ciphertext (secret @ '':'' @ expected))))"

subsection \<open>Ed25519SealedBoxAssignmentCrypto\<close>

text \<open>
  PyNaCl: \<^verbatim>\<open>SealedBox(VerifyKey(pk).to_curve25519_public_key()).encrypt\<close>, the public key of a seed, and
  \<^verbatim>\<open>SealedBox(SigningKey(seed).to_curve25519_private_key()).decrypt\<close>.
\<close>

record nacl_lib =
  nl_seal :: "bytes \<Rightarrow> bytes \<Rightarrow> bytes res"
  nl_public_key :: "bytes \<Rightarrow> bytes res"
  nl_open :: "bytes \<Rightarrow> bytes \<Rightarrow> bytes res"

definition Ed25519_from_keyfile :: "platform \<Rightarrow> dict \<Rightarrow> bytes res" where
  "Ed25519_from_keyfile P d =
     (if \<not> json_is_zero (get_none d ''cryptoType'') then Inl (ValueError ''expected native ED25519 cryptoType 0 hotkey'')
      else bindE (py_str P (or_else (get_none d ''secretSeed'') (JStr []))) (\<lambda>s.
        let seed_hex = removeprefix_0x s
        in if seed_hex = [] then Inl (ValueError ''native ED25519 hotkey file is missing secretSeed'')
           else case fromhex seed_hex of
                  None \<Rightarrow> Inl (ValueError ''non-hexadecimal number found in fromhex() arg'')
                | Some seed \<Rightarrow> if length seed \<noteq> 32 then Inl (ValueError ''expected 32-byte ED25519 seed'') else Inr seed))"

definition Ed25519_encrypt_for_hotkey ::
  "platform \<Rightarrow> nacl_lib option \<Rightarrow> AssignmentGrantV3 \<Rightarrow> string \<Rightarrow> int option \<Rightarrow> int option \<Rightarrow> string option \<Rightarrow> key_material option
    \<Rightarrow> EncryptedAssignmentGrantV3 res" where
  "Ed25519_encrypt_for_hotkey P nacl grant hotkey uid block mhash public_key =
     (case public_key of
        None \<Rightarrow> Inl (ValueError ''recipient_public_key is required for ED25519 sealed-box grants'')
      | Some key \<Rightarrow>
          (case nacl of
             None \<Rightarrow> Inl (ImportError ''PyNaCl is required for ED25519 sealed-box assignment grants'')
           | Some lib \<Rightarrow>
               bindE (key_material_to_bytes key ''recipient_public_key'') (\<lambda>pk.
               bindE (nl_seal lib pk (grant_plaintext P grant)) (\<lambda>ciphertext.
                 Inr ((sealed_grant grant hotkey uid block mhash ciphertext ''teuton-ed25519-sealedbox-v1'')
                        \<lparr>eg_recipient_public_key_hex := Some (to_hex pk)\<rparr>)))))"

definition Ed25519_decrypt ::
  "platform \<Rightarrow> nacl_lib option \<Rightarrow> bytes option \<Rightarrow> EncryptedAssignmentGrantV3 \<Rightarrow> string \<Rightarrow> AssignmentGrantV3 res" where
  "Ed25519_decrypt P nacl seed encrypted expected =
     bindE (check_recipient ''teuton-ed25519-sealedbox-v1'' encrypted expected) (\<lambda>_.
     case seed of
       None \<Rightarrow> Inl (ValueError ''ED25519 sealed-box decrypt requires a native hotkey seed'')
     | Some sd \<Rightarrow>
         (case nacl of
            None \<Rightarrow> Inl (ImportError ''PyNaCl is required for ED25519 sealed-box assignment grants'')
          | Some lib \<Rightarrow>
              bindE (nl_public_key lib sd) (\<lambda>own.
              bindE (case eg_recipient_public_key_hex encrypted of
                       None \<Rightarrow> Inr ()
                     | Some hex \<Rightarrow>
                         if hex = [] then Inr ()
                         else case fromhex hex of
                                None \<Rightarrow> Inl (ValueError ''non-hexadecimal number found in fromhex() arg'')
                              | Some expected_key \<Rightarrow>
                                  if own \<noteq> expected_key
                                  then Inl (ValueError ''assignment grant recipient public key does not match local hotkey'')
                                  else Inr ()) (\<lambda>_.
              bindE (decode_payload (eg_ciphertext_b64 encrypted)) (\<lambda>ciphertext.
              bindE (nl_open lib sd ciphertext) (parse_grant P))))))"

subsection \<open>BittensorWalletCrypto\<close>

text \<open>
  The wrapped keypair: which methods and attributes it has varies between releases, so each is optional. Messages are
  encrypted from the keypair to a recipient's public key and decrypted against the sender's.
\<close>

record keypair =
  kp_ss58_address :: "string option"
  kp_public_key :: "key_material option"
  kp_sign :: "bytes \<Rightarrow> (bytes + string) res"
  kp_verify :: "bytes \<Rightarrow> bytes + string \<Rightarrow> bool res"
  kp_encrypt_message :: "(bytes \<Rightarrow> bytes \<Rightarrow> bytes res) option"
  kp_decrypt_message :: "(bytes \<Rightarrow> bytes \<Rightarrow> bytes res) option"

definition wallet_identity :: "keypair \<Rightarrow> string" where
  "wallet_identity kp = (case kp_ss58_address kp of Some a \<Rightarrow> a | None \<Rightarrow> ''unknown-hotkey'')"

definition wallet_sign :: "keypair \<Rightarrow> bytes \<Rightarrow> string res" where
  "wallet_sign kp payload = bindE (kp_sign kp payload) (\<lambda>sig. Inr (case sig of Inl b \<Rightarrow> to_hex b | Inr s \<Rightarrow> s))"

definition wallet_verify :: "keypair \<Rightarrow> bytes \<Rightarrow> string \<Rightarrow> bool res" where
  "wallet_verify kp payload signature =
     kp_verify kp payload (case fromhex signature of Some b \<Rightarrow> Inl b | None \<Rightarrow> Inr signature)"

definition keypair_public_key_bytes :: "keypair \<Rightarrow> bytes res" where
  "keypair_public_key_bytes kp =
     (case kp_public_key kp of
        None \<Rightarrow> Inl (ValueError ''Bittensor keypair does not expose public_key bytes for encrypted grants'')
      | Some key \<Rightarrow> key_material_to_bytes key ''keypair.public_key'')"

definition keypair_crypto_error :: "(pyerr \<Rightarrow> string) \<Rightarrow> pyerr \<Rightarrow> pyerr" where
  "keypair_crypto_error err_str e =
     (if contains (err_str e) ''Only ed25519 keypair type supported''
      then NotImplementedError ''Substrate keypair encryption is only supported for ed25519 keypairs''
      else e)"

definition wrap_error :: "(pyerr \<Rightarrow> pyerr) \<Rightarrow> 'a res \<Rightarrow> 'a res" where
  "wrap_error f r = (case r of Inl e \<Rightarrow> Inl (if caught e then f e else e) | Inr a \<Rightarrow> Inr a)"

definition Wallet_encrypt_for_hotkey ::
  "platform \<Rightarrow> (pyerr \<Rightarrow> string) \<Rightarrow> (string \<Rightarrow> key_material res) option \<Rightarrow> keypair \<Rightarrow> AssignmentGrantV3 \<Rightarrow> string
    \<Rightarrow> int option \<Rightarrow> int option \<Rightarrow> string option \<Rightarrow> key_material option \<Rightarrow> EncryptedAssignmentGrantV3 res" where
  "Wallet_encrypt_for_hotkey P err_str ss58 kp grant hotkey uid block mhash public_key =
     (case kp_encrypt_message kp of
        None \<Rightarrow> Inl (NotImplementedError ''Installed Bittensor Keypair exposes sign/verify but not sealed encryption.'')
      | Some encrypt \<Rightarrow>
          bindE (case public_key of
                   Some key \<Rightarrow> key_material_to_bytes key ''recipient_public_key''
                 | None \<Rightarrow> public_key_bytes_from_hotkey ss58 hotkey) (\<lambda>recipient_key.
          bindE (keypair_public_key_bytes kp) (\<lambda>sender_key.
          bindE (wrap_error (keypair_crypto_error err_str) (encrypt (grant_plaintext P grant) recipient_key)) (\<lambda>ciphertext.
            Inr ((sealed_grant grant hotkey uid block mhash ciphertext ''substrate-keypair-box-v1'')
                   \<lparr>eg_sender_hotkey := Some (wallet_identity kp), eg_sender_public_key_hex := Some (to_hex sender_key),
                    eg_recipient_public_key_hex := Some (to_hex recipient_key)\<rparr>)))))"

definition Wallet_decrypt ::
  "platform \<Rightarrow> (pyerr \<Rightarrow> string) \<Rightarrow> keypair \<Rightarrow> EncryptedAssignmentGrantV3 \<Rightarrow> string \<Rightarrow> AssignmentGrantV3 res" where
  "Wallet_decrypt P err_str kp encrypted expected =
     bindE (check_recipient ''substrate-keypair-box-v1'' encrypted expected) (\<lambda>_.
     case kp_decrypt_message kp of
       None \<Rightarrow> Inl (NotImplementedError ''Installed Bittensor Keypair exposes sign/verify but not sealed decryption.'')
     | Some decrypt \<Rightarrow>
         if eg_sender_public_key_hex encrypted \<in> {None, Some []}
         then Inl (ValueError ''encrypted assignment grant missing sender public key'')
         else bindE (decode_payload (eg_ciphertext_b64 encrypted)) (\<lambda>ciphertext.
              bindE (wrap_error (keypair_crypto_error err_str)
                       (case fromhex (the (eg_sender_public_key_hex encrypted)) of
                          None \<Rightarrow> Inl (ValueError ''non-hexadecimal number found in fromhex() arg'')
                        | Some sender_key \<Rightarrow> decrypt ciphertext sender_key)) (parse_grant P)))"

subsection \<open>Hexadecimal keys\<close>

lemma hex_val_nibble: "n < 16 \<Longrightarrow> hex_val (hex_nibble n) = Some n \<and> \<not> is_space (hex_nibble n)"
proof -
  have "\<forall>n \<in> set [0..<16]. hex_val (hex_nibble n) = Some n \<and> \<not> is_space (hex_nibble n)" by code_simp
  then show "n < 16 \<Longrightarrow> ?thesis" by (metis atLeastLessThan_iff atLeast_upt le0 lessThan_iff set_upt)
qed

lemma fromhex_to_hex [simp]: "fromhex (to_hex bs) = Some bs"
proof (induction bs)
  case (Cons b bs)
  have b: "unat b div 16 < 16" "unat b mod 16 < 16" using unat_byte_less [of b] by (auto simp: less_mult_imp_div_less)
  have "(of_nat (16 * (unat b div 16) + unat b mod 16) :: 8 word) = b" by (simp only: mult_div_mod_eq of_nat_unat_byte)
  then show ?case using Cons.IH hex_val_nibble [OF b(1)] hex_val_nibble [OF b(2)] by (simp add: to_hex_def)
qed (simp add: to_hex_def)

lemma to_hex_Nil_iff [simp]: "to_hex bs = [] \<longleftrightarrow> bs = []"
  by (cases bs) (simp_all add: to_hex_def)

subsection \<open>The contract of a scheme\<close>

locale grant_crypto =
  fixes encrypt :: "AssignmentGrantV3 \<Rightarrow> string \<Rightarrow> EncryptedAssignmentGrantV3 res"
    and decrypt :: "EncryptedAssignmentGrantV3 \<Rightarrow> string \<Rightarrow> AssignmentGrantV3 res"
  assumes open_sealed: "encrypt g hk = Inr e \<Longrightarrow> decrypt e hk = Inr g"
    and addressed: "encrypt g hk = Inr e \<Longrightarrow> eg_recipient_hotkey e = hk \<and> eg_job_id e = ag_job_id g \<and> eg_run_id e = ag_run_id g"
    and misaddressed: "eg_recipient_hotkey e \<noteq> hk \<Longrightarrow> \<exists>m. decrypt e hk = Inl (ValueError m)"
begin

lemma sealed_for_one: "encrypt g hk = Inr e \<Longrightarrow> hk' \<noteq> hk \<Longrightarrow> \<exists>m. decrypt e hk' = Inl (ValueError m)"
  using addressed misaddressed by metis

text \<open>The grant goes through the bucket: stored by the orchestrator, loaded and opened by the miner.\<close>

lemma delivered:
  assumes "float_codec P" "encrypt g hk = Inr e" "store_dict P now uri (EncryptedAssignmentGrantV3_to_dict e) st = Inr st'"
  shows "bindE (load_record P EncryptedAssignmentGrantV3_from_dict uri st') (\<lambda>e'. decrypt e' hk) = Inr g"
  using open_sealed [OF assms(2)]
  by (simp add: load_stored [OF assms(1) wf_EncryptedAssignmentGrantV3 assms(3)] canon.EncryptedAssignmentGrantV3_decode)

end

lemma parse_grant_plaintext: "float_codec P \<Longrightarrow> parse_grant P (grant_plaintext P g) = Inr g"
  using loads_dumps [of P "JObj (AssignmentGrantV3_to_dict g)" True] wf_AssignmentGrantV3 [of g]
  by (simp add: parse_grant_def grant_plaintext_def canonical_json_def canon.AssignmentGrantV3_decode)

lemma check_recipient_misaddressed:
  "eg_recipient_hotkey e \<noteq> hk \<Longrightarrow> \<exists>m. bindE (check_recipient s e hk) f = Inl (ValueError m)"
  by (simp add: check_recipient_def)

lemma sealed_grant_fields [simp]:
  "eg_job_id (sealed_grant g hk uid b h c s) = ag_job_id g" "eg_run_id (sealed_grant g hk uid b h c s) = ag_run_id g"
  "eg_recipient_hotkey (sealed_grant g hk uid b h c s) = hk" "eg_crypto_scheme (sealed_grant g hk uid b h c s) = s"
  "eg_ciphertext_b64 (sealed_grant g hk uid b h c s) = b64encode c"
  by (simp_all add: sealed_grant_def)

lemma Dev_grant_crypto:
  assumes "float_codec P"
  shows "grant_crypto (\<lambda>g hk. Dev_encrypt_for_hotkey P secret g hk uid block mhash) (Dev_decrypt P secret)"
  using assms
  by unfold_locales (auto simp: Dev_encrypt_for_hotkey_def Dev_decrypt_def check_recipient_def parse_grant_plaintext)

interpretation dev_grants: grant_crypto
  "\<lambda>g hk. Dev_encrypt_for_hotkey reference_platform secret g hk uid block mhash" "Dev_decrypt reference_platform secret"
  for secret uid block mhash
  by (rule Dev_grant_crypto [OF reference_float_codec])

text \<open>What PyNaCl documents: the holder of the seed opens what was sealed for its public key.\<close>

definition nacl_opens :: "nacl_lib \<Rightarrow> bool" where
  "nacl_opens lib = (\<forall>seed pk m c. nl_public_key lib seed = Inr pk \<longrightarrow> nl_seal lib pk m = Inr c \<longrightarrow> nl_open lib seed c = Inr m)"

lemma Ed25519_grant_crypto:
  assumes "float_codec P" "nacl_opens lib" "nl_public_key lib seed = Inr pk"
  shows "grant_crypto (\<lambda>g hk. Ed25519_encrypt_for_hotkey P (Some lib) g hk uid block mhash (Some (KBytes pk)))
    (Ed25519_decrypt P (Some lib) (Some seed))"
proof (unfold_locales, goal_cases)
  case (1 g hk e)
  then show ?case using assms
    by (auto simp: Ed25519_encrypt_for_hotkey_def Ed25519_decrypt_def key_material_to_bytes_def bindE_eq_Inr check_recipient_def
        nacl_opens_def parse_grant_plaintext)
next
  case (2 g hk e)
  then show ?case by (auto simp: Ed25519_encrypt_for_hotkey_def bindE_eq_Inr)
next
  case (3 e hk)
  then show ?case by (simp add: Ed25519_decrypt_def check_recipient_misaddressed)
qed

text \<open>
  What a Substrate keypair documents: what \<open>snd\<close> encrypts for the key of \<open>rcv\<close>, \<open>rcv\<close> decrypts against the key of \<open>snd\<close>.
\<close>

definition keypairs_talk :: "keypair \<Rightarrow> keypair \<Rightarrow> bytes \<Rightarrow> bool" where
  "keypairs_talk sender receiver receiver_key = (\<exists>enc dec sender_key.
     kp_encrypt_message sender = Some enc \<and> kp_decrypt_message receiver = Some dec \<and>
     keypair_public_key_bytes sender = Inr sender_key \<and> sender_key \<noteq> [] \<and>
     (\<forall>m c. enc m receiver_key = Inr c \<longrightarrow> dec c sender_key = Inr m))"

lemma Wallet_grant_crypto:
  assumes "float_codec P" "keypairs_talk sender receiver pk"
  shows "grant_crypto (\<lambda>g hk. Wallet_encrypt_for_hotkey P err_str ss58 sender g hk uid block mhash (Some (KBytes pk)))
    (Wallet_decrypt P err_str receiver)"
proof (unfold_locales, goal_cases)
  case (1 g hk e)
  from assms(2) obtain enc dec sk where k: "kp_encrypt_message sender = Some enc" "kp_decrypt_message receiver = Some dec"
    "keypair_public_key_bytes sender = Inr sk" "sk \<noteq> []" "\<And>m c. enc m pk = Inr c \<Longrightarrow> dec c sk = Inr m"
    by (auto simp: keypairs_talk_def)
  from 1 k obtain c where c: "enc (grant_plaintext P g) pk = Inr c" and e: "e = (sealed_grant g hk uid block mhash c ''substrate-keypair-box-v1'')
      \<lparr>eg_sender_hotkey := Some (wallet_identity sender), eg_sender_public_key_hex := Some (to_hex sk), eg_recipient_public_key_hex := Some (to_hex pk)\<rparr>"
    by (auto simp: Wallet_encrypt_for_hotkey_def key_material_to_bytes_def wrap_error_def bindE_eq_Inr split: sum.splits)
  show ?case using k c by (simp add: e Wallet_decrypt_def check_recipient_def wrap_error_def parse_grant_plaintext [OF assms(1)])
next
  case (2 g hk e)
  then show ?case by (auto simp: Wallet_encrypt_for_hotkey_def bindE_eq_Inr split: option.splits)
next
  case (3 e hk)
  then show ?case by (simp add: Wallet_decrypt_def check_recipient_misaddressed)
qed

definition delivers ::
  "platform \<Rightarrow> string \<Rightarrow> LocalBucket \<Rightarrow> EncryptedAssignmentGrantV3 \<Rightarrow> string \<Rightarrow> AssignmentGrantV3
    \<Rightarrow> (EncryptedAssignmentGrantV3 \<Rightarrow> string \<Rightarrow> AssignmentGrantV3 res) \<Rightarrow> bool" where
  "delivers P uri st e hk g decrypt \<longleftrightarrow>
     bindE (load_record P EncryptedAssignmentGrantV3_from_dict uri st) (\<lambda>e'. decrypt e' hk) = Inr g \<and>
     (\<forall>hk'. hk' \<noteq> hk \<longrightarrow> (\<exists>m. decrypt e hk' = Inl (ValueError m)))"

lemma delivers_load:
  "delivers P uri st e hk g decrypt \<Longrightarrow> bindE (load_record P EncryptedAssignmentGrantV3_from_dict uri st) (\<lambda>e'. decrypt e' hk) = Inr g"
  by (simp add: delivers_def)

subsection \<open>Properties\<close>


definition sample_grant :: AssignmentGrantV3 where
  "sample_grant = \<lparr>ag_job_id = ''j'', ag_run_id = ''run'', ag_assigned_hotkey = ''hk'', ag_input_gets = [], ag_output_puts = [],
     ag_receipt_put = None, ag_created_unix = 1, ag_expires_unix = 601, ag_schema_version = 1\<rparr>"

text \<open>A box that tags the message with its recipient's key, and a pair of keypairs that pass messages in the clear.\<close>

definition tag_box :: nacl_lib where
  "tag_box = \<lparr>nl_seal = (\<lambda>pk m. Inr (pk @ m)), nl_public_key = Inr, nl_open = (\<lambda>seed c. Inr (drop (length seed) c))\<rparr>"

definition plain_keypair :: keypair where
  "plain_keypair = \<lparr>kp_ss58_address = Some ''own'', kp_public_key = Some (KBytes [9]), kp_sign = (\<lambda>m. Inr (Inl m)), kp_verify = (\<lambda>m s. Inr (s = Inl m)),
     kp_encrypt_message = Some (\<lambda>m _. Inr m), kp_decrypt_message = Some (\<lambda>c _. Inr c)\<rparr>"

lemma tag_box_opens: "nacl_opens tag_box"
  by (auto simp: nacl_opens_def tag_box_def)

lemma plain_keypairs_talk: "keypairs_talk plain_keypair plain_keypair pk"
  by (simp add: keypairs_talk_def plain_keypair_def keypair_public_key_bytes_def key_material_to_bytes_def)

lemma sample_sealed:
  "\<exists>e. Dev_encrypt_for_hotkey P s g hk None None None = Inr e"
  "\<exists>e. Ed25519_encrypt_for_hotkey P (Some tag_box) g hk None None None (Some (KBytes [7])) = Inr e"
  "\<exists>e. Wallet_encrypt_for_hotkey P err_str None plain_keypair g hk None None None (Some (KBytes [7])) = Inr e"
  by (simp_all add: Dev_encrypt_for_hotkey_def Ed25519_encrypt_for_hotkey_def Wallet_encrypt_for_hotkey_def key_material_to_bytes_def
      tag_box_def plain_keypair_def keypair_public_key_bytes_def wrap_error_def)

lemma sample_stored: "\<exists>st'. store_dict P 1 ''s3://b/g.json'' d (LocalBucket_init ''b'') = Inr st'"
  by (rule lb.put_json_total [of _ "(''b'', ''g.json'')"]) code_simp


end
