(* ===== verification/Lifecycle.thy ===== *)
theory Lifecycle
  imports Storage
begin

text \<open>
  \<^verbatim>\<open>teuton_runtime/lifecycle.py\<close> and \<^verbatim>\<open>teuton_core/telemetry.py\<close>: tearing a run down by its prefixes,
  and the best-effort writer of telemetry events. Shown: \<^verbatim>\<open>wipe_run\<close> terminates without an error,
  deletes exactly the objects below the run's prefixes, returns their number and touches no other run;
  \<^verbatim>\<open>emit\<close> never raises, and what it stores keeps every field of the caller.
\<close>

subsection \<open>Wiping a run\<close>

fun wipe_uris :: "string list \<Rightarrow> string list \<times> nat \<times> LocalBucket \<Rightarrow> (string list \<times> nat \<times> LocalBucket) res" where
  "wipe_uris [] s = Inr s"
| "wipe_uris (uri # uris) (seen, deleted, st) =
     (if uri \<in> set seen then wipe_uris uris (seen, deleted, st)
      else bindE (LocalBucket_delete uri st) (\<lambda>st'. wipe_uris uris (uri # seen, deleted + 1, st')))"

fun wipe_prefixes :: "string list \<Rightarrow> string list \<times> nat \<times> LocalBucket \<Rightarrow> (string list \<times> nat \<times> LocalBucket) res" where
  "wipe_prefixes [] s = Inr s"
| "wipe_prefixes (p # ps) (seen, deleted, st) =
     bindE (wipe_uris (LocalBucket_list (uri_for_key st p) st) (seen, deleted, st)) (wipe_prefixes ps)"

definition wipe_run :: "int \<Rightarrow> string \<Rightarrow> LocalBucket \<Rightarrow> (nat \<times> LocalBucket) res" where
  "wipe_run netuid run_id st =
     bindE (wipe_prefixes (run_prefixes netuid run_id) ([], 0, st)) (\<lambda>(_, deleted, st'). Inr (deleted, st'))"

text \<open>One batch: distinct URIs of stored objects, none of them seen before, are all deleted.\<close>

definition without :: "(string \<times> string) set \<Rightarrow> LocalBucket \<Rightarrow> LocalBucket \<Rightarrow> bool" where
  "without A st st' \<longleftrightarrow> LocalBucket_wf st' \<and> lb_bucket st' = lb_bucket st \<and>
     map_of (lb_objects st') = (map_of (lb_objects st)) |` (- A)"

lemma without_trans: "without A st st' \<Longrightarrow> without B st' st'' \<Longrightarrow> without (A \<union> B) st st''"
  by (auto simp: without_def restrict_map_def fun_eq_iff)

lemma restrict_stored: "m |` (- {a \<in> A. m a \<noteq> None}) = m |` (- A)"
  by (rule ext) (simp add: restrict_map_def)

lemma without_stored: "without {a \<in> A. map_of (lb_objects st) a \<noteq> None} st st' \<Longrightarrow> without A st st'"
  by (simp only: without_def restrict_stored)

lemma delete_without:
  assumes "LocalBucket_wf st" "parse_uri u = Inr a" "map_of (lb_objects st) a \<noteq> None"
  obtains st' where "LocalBucket_delete u st = Inr st'" "without {a} st st'"
    "length (lb_objects st) = Suc (length (lb_objects st'))"
proof -
  let ?st' = "st\<lparr>lb_objects := AList.delete a (lb_objects st)\<rparr>"
  have d: "LocalBucket_delete u st = Inr ?st'" using assms(2) by (simp add: LocalBucket_delete_def)
  have dist: "distinct (map fst (lb_objects st))" using assms(1) by (simp add: LocalBucket_wf_def)
  have "length xs = Suc (length (AList.delete a xs))"
    if "distinct (map fst xs)" "map_of xs a \<noteq> None" for xs :: "((string \<times> string) \<times> obj) list"
    using that
  proof (induction xs)
    case (Cons x xs)
    show ?case
    proof (cases "fst x = a")
      case True
      with Cons.prems have "AList.delete a xs = xs" by (simp add: delete_id)
      with True show ?thesis by (cases x) simp
    next
      case False
      with Cons show ?thesis by (cases x) simp
    qed
  qed simp
  then have "length (lb_objects st) = Suc (length (lb_objects ?st'))" using dist assms(3) by simp
  moreover have "without {a} st ?st'"
    using LocalBucket_delete_wf [OF assms(1) d] by (auto simp: without_def delete_conv restrict_map_def fun_eq_iff)
  ultimately show ?thesis using d that by blast
qed

lemma wipe_uris_all:
  assumes "LocalBucket_wf st" "distinct us" "set us \<inter> set seen = {}" "\<And>u. u \<in> set us \<Longrightarrow> parse_uri u = Inr (f u)"
    and "inj_on f (set us)" "\<And>u. u \<in> set us \<Longrightarrow> map_of (lb_objects st) (f u) \<noteq> None"
  shows "\<exists>st'. wipe_uris us (seen, n, st) = Inr (rev us @ seen, n + length us, st') \<and> without (f ` set us) st st' \<and>
    length (lb_objects st) = length us + length (lb_objects st')"
  using assms
proof (induction us arbitrary: seen n st)
  case Nil
  then show ?case by (simp add: without_def restrict_map_def fun_eq_iff)
next
  case (Cons u us)
  obtain s1 where s1: "LocalBucket_delete u st = Inr s1" "without {f u} st s1" "length (lb_objects st) = Suc (length (lb_objects s1))"
    using delete_without [of st u "f u"] Cons.prems by auto
  have "\<exists>st'. wipe_uris us (u # seen, Suc n, s1) = Inr (rev us @ u # seen, Suc n + length us, st') \<and>
      without (f ` set us) s1 st' \<and> length (lb_objects s1) = length us + length (lb_objects st')"
  proof (rule Cons.IH)
    fix v assume v: "v \<in> set us"
    then have "f v \<noteq> f u" using Cons.prems(2,5) by (auto simp: inj_on_def)
    then show "map_of (lb_objects s1) (f v) \<noteq> None" using s1(2) Cons.prems(6) v by (auto simp: without_def)
  qed (use Cons.prems s1(2) in \<open>auto simp: without_def\<close>)
  then obtain st' where "wipe_uris us (u # seen, Suc n, s1) = Inr (rev us @ u # seen, Suc n + length us, st')"
    "without (f ` set us) s1 st'" "length (lb_objects s1) = length us + length (lb_objects st')" by blast
  with s1 without_trans [OF s1(2)] Cons.prems(3) show ?case by auto
qed

definition below :: "string \<Rightarrow> string list \<Rightarrow> (string \<times> string) set" where
  "below b ps = {(c, k). c = b \<and> (\<exists>p \<in> set ps. starts_with k p)}"

lemma listed_uris:
  assumes "LocalBucket_wf st" "bucket_name b" "object_key p" "ends_with p ''/''"
  defines "us \<equiv> LocalBucket_list (join_uri b p) st"
  shows "distinct us" "u \<in> set us \<Longrightarrow> parse_uri u = Inr (projr (parse_uri u)) \<and> map_of (lb_objects st) (projr (parse_uri u)) \<noteq> None"
    "inj_on (\<lambda>u. projr (parse_uri u)) (set us)"
    "(\<lambda>u. projr (parse_uri u)) ` set us = {a \<in> below b [p]. map_of (lb_objects st) a \<noteq> None}"
    "u \<in> set us \<Longrightarrow> \<exists>k. u = join_uri b k \<and> starts_with k p"
proof -
  have l: "set us = {join_uri b k | k. map_of (lb_objects st) (b, k) \<noteq> None \<and> starts_with k p}" and d: "distinct us"
    using lb_list_exact [OF assms(1-4)] by (simp_all add: us_def)
  have k: "object_key k" if "map_of (lb_objects st) (b, k) \<noteq> None" for k
    using that assms(1) by (auto simp: LocalBucket_wf_def dest: map_of_SomeD)
  then have p: "parse_uri (join_uri b k) = Inr (b, k)" if "map_of (lb_objects st) (b, k) \<noteq> None" for k
    using that assms(2) by simp
  show "distinct us" by (rule d)
  show "u \<in> set us \<Longrightarrow> parse_uri u = Inr (projr (parse_uri u)) \<and> map_of (lb_objects st) (projr (parse_uri u)) \<noteq> None"
    using l p by force
  show "inj_on (\<lambda>u. projr (parse_uri u)) (set us)" using l p by (fastforce simp: inj_on_def)
  show "(\<lambda>u. projr (parse_uri u)) ` set us = {a \<in> below b [p]. map_of (lb_objects st) a \<noteq> None}"
    unfolding l using p by (force simp: below_def image_iff)
  show "u \<in> set us \<Longrightarrow> \<exists>k. u = join_uri b k \<and> starts_with k p" using l by blast
qed

lemma wipe_prefixes_all:
  assumes "LocalBucket_wf st" "bucket_name (lb_bucket st)" "\<forall>p \<in> set ps. object_key p \<and> ends_with p ''/''"
    and "\<forall>u \<in> set seen. map_of (lb_objects st) (projr (parse_uri u)) = None"
  shows "\<exists>seen' m st'. wipe_prefixes ps (seen, n, st) = Inr (seen', n + m, st') \<and> without (below (lb_bucket st) ps) st st' \<and>
    length (lb_objects st) = m + length (lb_objects st')"
  using assms
proof (induction ps arbitrary: seen n st)
  case Nil
  then show ?case by (simp add: without_def below_def restrict_map_def fun_eq_iff)
next
  case (Cons p ps)
  let ?us = "LocalBucket_list (uri_for_key st p) st" and ?f = "\<lambda>u. projr (parse_uri u)"
  have us: "?us = LocalBucket_list (join_uri (lb_bucket st) p) st" by (simp add: uri_for_key_def)
  have p: "object_key p" "ends_with p ''/''" using Cons.prems(3) by simp_all
  note l = listed_uris [OF Cons.prems(1,2) p, folded us]
  have "\<exists>s1. wipe_uris ?us (seen, n, st) = Inr (rev ?us @ seen, n + length ?us, s1) \<and> without (?f ` set ?us) st s1 \<and>
      length (lb_objects st) = length ?us + length (lb_objects s1)"
  proof (rule wipe_uris_all [OF Cons.prems(1) l(1)])
    show "set ?us \<inter> set seen = {}" using l(2) Cons.prems(4) by blast
    show "parse_uri u = Inr (projr (parse_uri u))" "map_of (lb_objects st) (projr (parse_uri u)) \<noteq> None" if "u \<in> set ?us" for u
      using l(2) [OF that] by blast+
  qed (rule l(3))
  then obtain s1 where s1: "wipe_uris ?us (seen, n, st) = Inr (rev ?us @ seen, n + length ?us, s1)" "without (?f ` set ?us) st s1"
    "length (lb_objects st) = length ?us + length (lb_objects s1)" by blast
  have w1: "without (below (lb_bucket st) [p]) st s1"
    using s1(2) unfolding l(4) by (rule without_stored)
  have gone: "\<forall>u \<in> set (rev ?us @ seen). map_of (lb_objects s1) (?f u) = None"
    using s1(2) Cons.prems(4) by (auto simp: without_def restrict_map_def)
  have b1: "LocalBucket_wf s1" "lb_bucket s1 = lb_bucket st" using s1(2) by (simp_all add: without_def)
  have "\<exists>seen' m st'. wipe_prefixes ps (rev ?us @ seen, n + length ?us, s1) = Inr (seen', (n + length ?us) + m, st') \<and>
      without (below (lb_bucket s1) ps) s1 st' \<and> length (lb_objects s1) = m + length (lb_objects st')"
    by (rule Cons.IH [OF b1(1) _ _ gone]) (use Cons.prems b1 in auto)
  then obtain seen' m st' where r: "wipe_prefixes ps (rev ?us @ seen, n + length ?us, s1) = Inr (seen', (n + length ?us) + m, st')"
    "without (below (lb_bucket st) ps) s1 st'" "length (lb_objects s1) = m + length (lb_objects st')" using b1(2) by auto
  have "below (lb_bucket st) [p] \<union> below (lb_bucket st) ps = below (lb_bucket st) (p # ps)" by (auto simp: below_def)
  with without_trans [OF w1 r(2)] have "without (below (lb_bucket st) (p # ps)) st st'" by simp
  moreover have "wipe_prefixes (p # ps) (seen, n, st) = Inr (seen', n + (length ?us + m), st')" using s1(1) r(1) by (simp add: add.assoc)
  moreover have "length (lb_objects st) = (length ?us + m) + length (lb_objects st')" using s1(3) r(3) by simp
  ultimately show ?case by blast
qed

lemma run_prefix_key: "CHR 0x0A \<notin> set r \<Longrightarrow> p \<in> set (run_prefixes n r) \<Longrightarrow> object_key p \<and> ends_with p ''/''"
proof -
  assume r: "CHR 0x0A \<notin> set r" and p: "p \<in> set (run_prefixes n r)"
  have "CHR 0x0A \<notin> set (show_int n)" using show_int_chars [of "CHR 0x0A" n] by (auto simp: is_digit_def)
  with r p have "object_key p" by (auto simp: run_prefixes_sections run_sections_def run_prefix_def object_key_def)
  moreover have "ends_with p ''/''" using p 
    by (auto simp: run_prefixes_sections run_prefix_def ends_with_def)
  ultimately show ?thesis ..
qed

subsection \<open>Telemetry\<close>

record TelemetryWriter =
  tw_netuid :: int
  tw_run_id :: string
  tw_component :: string

text \<open>
  The three attempts: \<open>put i\<close> is the outcome of attempt \<open>i\<close>. A put that raises leaves the bucket as it was;
  the pauses between attempts are not modelled.
\<close>

fun emit_attempts :: "(nat \<Rightarrow> 's \<Rightarrow> 's res) \<Rightarrow> nat list \<Rightarrow> 's \<Rightarrow> bool \<times> 's" where
  "emit_attempts put [] st = (False, st)"
| "emit_attempts put (i # is) st = (case put i st of Inr st' \<Rightarrow> (True, st') | Inl _ \<Rightarrow> emit_attempts put is st)"

definition telemetry_body :: "TelemetryWriter \<Rightarrow> dict \<Rightarrow> int \<Rightarrow> dict" where
  "telemetry_body w payload ts =
     setdefault ''netuid'' (JInt (tw_netuid w)) (setdefault ''run_id'' (JStr (tw_run_id w))
       (setdefault ''component'' (JStr (tw_component w)) (setdefault ''ts'' (JInt ts) payload)))"

definition emit_event ::
  "platform \<Rightarrow> (nat \<Rightarrow> string \<Rightarrow> bytes \<Rightarrow> 's \<Rightarrow> 's res) \<Rightarrow> (string \<Rightarrow> string) \<Rightarrow> int \<Rightarrow> TelemetryWriter \<Rightarrow> string \<Rightarrow> dict \<Rightarrow> int option
    \<Rightarrow> 's \<Rightarrow> bool \<times> 's" where
  "emit_event P put uri_for now w stream payload when_unix st =
     (let ts = (case when_unix of Some t \<Rightarrow> t | None \<Rightarrow> now);
          uri = uri_for (telemetry_event_key (tw_netuid w) (tw_run_id w) stream ts)
      in emit_attempts (\<lambda>i. put_json P (put i) uri (JObj (telemetry_body w payload ts))) [0, 1, 2] st)"

definition emit_chain where
  "emit_chain P put uri_for now w payload = emit_event P put uri_for now w ''chain'' payload None"

definition emit_scores where
  "emit_scores P put uri_for now w payload = emit_event P put uri_for now w ''scores'' payload None"

definition emit_audits where
  "emit_audits P put uri_for now w payload = emit_event P put uri_for now w ''audits'' payload None"

definition emit_orchestrator where
  "emit_orchestrator P put uri_for now w payload = emit_event P put uri_for now w ''orchestrator'' payload None"

definition emit_monitor where
  "emit_monitor P put uri_for now w payload = emit_event P put uri_for now w ''monitor'' payload None"

definition make_writer :: "'b option \<Rightarrow> int \<Rightarrow> string \<Rightarrow> string \<Rightarrow> TelemetryWriter option" where
  "make_writer bucket netuid run_id component =
     (if run_id = [] \<or> bucket = None then None
      else Some \<lparr>tw_netuid = netuid, tw_run_id = run_id, tw_component = component\<rparr>)"

lemma setdefault_keeps: "map_of d k = Some v \<Longrightarrow> map_of (setdefault k' v' d) k = Some v"
  by auto

lemma telemetry_body_keeps: "map_of payload k = Some v \<Longrightarrow> map_of (telemetry_body w payload ts) k = Some v"
  unfolding telemetry_body_def by (intro setdefault_keeps)

lemma emit_three_attempts:
  "case emit_attempts put [0, 1, 2] st of
     (False, st') \<Rightarrow> st' = st \<and> (\<forall>i < 3. \<exists>e. put i st = Inl e)
   | (True, st') \<Rightarrow> \<exists>i < 3. put i st = Inr st' \<and> (\<forall>j < i. \<exists>e. put j st = Inl e)"
proof -
  have three: "(\<forall>i < 3. Q i) \<longleftrightarrow> Q 0 \<and> Q 1 \<and> Q (2::nat)" "(\<exists>i < 3. Q i) \<longleftrightarrow> Q 0 \<or> Q 1 \<or> Q (2::nat)"
    "(\<forall>i < 2. Q i) \<longleftrightarrow> Q 0 \<and> Q (1::nat)" for Q
    by (auto simp: numeral_2_eq_2 numeral_3_eq_3 less_Suc_eq)
  show ?thesis by (cases "put 0 st"; cases "put 1 st"; cases "put 2 st") (simp_all add: three)
qed

subsection \<open>Properties\<close>

text \<open>
  C37. Teardown is exact. On any well-formed bucket, \<^verbatim>\<open>wipe_run\<close> returns without an error; afterwards the objects
  below the run's prefixes are gone and every other object of the store is as it was, among them all
  objects of every other run; the number returned is the number of objects deleted.
\<close>

theorem wipe_run_exact:
  assumes "LocalBucket_wf st" "bucket_name (lb_bucket st)" "CHR 0x0A \<notin> set run" "segment run"
  shows "\<exists>deleted st'. wipe_run netuid run st = Inr (deleted, st') \<and> LocalBucket_wf st' \<and>
    (\<forall>b k. map_of (lb_objects st') (b, k) =
       (if b = lb_bucket st \<and> list_ex (starts_with k) (run_prefixes netuid run) then None else map_of (lb_objects st) (b, k))) \<and>
    (\<forall>b k netuid' run'. (netuid', run') \<noteq> (netuid, run) \<and> segment run' \<and> list_ex (starts_with k) (run_prefixes netuid' run') \<longrightarrow>
       map_of (lb_objects st') (b, k) = map_of (lb_objects st) (b, k)) \<and>
    deleted = length (lb_objects st) - length (lb_objects st') \<and>
    deleted = card {(b, k) \<in> dom (map_of (lb_objects st)). b = lb_bucket st \<and> list_ex (starts_with k) (run_prefixes netuid run)}"
proof -
  have "\<forall>p \<in> set (run_prefixes netuid run). object_key p \<and> ends_with p ''/''" using run_prefix_key [OF assms(3)] by blast
  from wipe_prefixes_all [OF assms(1,2) this, of "[]" 0] obtain seen m st' where
    w: "wipe_prefixes (run_prefixes netuid run) ([], 0, st) = Inr (seen, m, st')"
    and wo: "without (below (lb_bucket st) (run_prefixes netuid run)) st st'"
    and len: "length (lb_objects st) = m + length (lb_objects st')" by auto
  have obj: "map_of (lb_objects st') (b, k) =
      (if b = lb_bucket st \<and> list_ex (starts_with k) (run_prefixes netuid run) then None else map_of (lb_objects st) (b, k))" for b k
    using wo by (auto simp: without_def below_def restrict_map_def list_ex_iff)
  have other: "map_of (lb_objects st') (b, k) = map_of (lb_objects st) (b, k)"
    if "(netuid', run') \<noteq> (netuid, run)" "segment run'" "list_ex (starts_with k) (run_prefixes netuid' run')" for b k netuid' run'
    using run_prefixes_disjoint [OF that(2) assms(4) that(1)] that(3) obj by (auto simp: list_ex_iff)
  have card: "card (dom (map_of (lb_objects s))) = length (lb_objects s)" if "LocalBucket_wf s" for s
    using that distinct_card [of "map fst (lb_objects s)"] by (simp add: LocalBucket_wf_def dom_map_of_conv_image_fst)
  let ?D = "{(b, k) \<in> dom (map_of (lb_objects st)). b = lb_bucket st \<and> list_ex (starts_with k) (run_prefixes netuid run)}"
  have "dom (map_of (lb_objects st)) = ?D \<union> dom (map_of (lb_objects st'))" "?D \<inter> dom (map_of (lb_objects st')) = {}"
    using obj by (auto simp: dom_def split: if_splits)
  moreover have "finite ?D" by (rule finite_subset [OF _ finite_dom_map_of [of "lb_objects st"]]) blast
  ultimately have "card (dom (map_of (lb_objects st))) = card ?D + card (dom (map_of (lb_objects st')))"
    using card_Un_disjoint [of ?D "dom (map_of (lb_objects st'))"] finite_dom_map_of [of "lb_objects st'"] by metis
  moreover have wf': "LocalBucket_wf st'" using wo by (simp add: without_def)
  ultimately have "card ?D = m" using card [OF assms(1)] card [of st'] len by linarith
  moreover have "wipe_run netuid run st = Inr (m, st')" using w by (simp add: wipe_run_def)
  moreover have "m = length (lb_objects st) - length (lb_objects st')" using len by simp
  ultimately show ?thesis using wf' obj other by (intro exI [of _ m] exI [of _ st']) blast
qed

theorem wipe_run_exact_witness:
  "\<exists>deleted st'. wipe_run 1 ''r'' \<lparr>lb_bucket = ''b'', lb_objects = [((''b'', ''v3/netuid=1/jobs/r/x''), ([1], 5)), ((''b'', ''v3/netuid=1/jobs/s/x''), ([], 6))]\<rparr> =
     Inr (deleted, st') \<and> LocalBucket_wf st'"
  using wipe_run_exact [of "\<lparr>lb_bucket = ''b'', lb_objects = [((''b'', ''v3/netuid=1/jobs/r/x''), ([1], 5)), ((''b'', ''v3/netuid=1/jobs/s/x''), ([], 6))]\<rparr>" "''r''" 1]
  by (auto simp: LocalBucket_wf_def bucket_name_def object_key_def segment_def)

text \<open>
  Telemetry never fails its caller: whatever the three attempts do, an answer is returned, the store changes only by the
  first attempt that succeeds, and the event stored then has the caller's fields unchanged beside the writer's.
\<close>

theorem emit_event_best_effort:
  "case emit_event P put uri_for now w stream payload when_unix st of
     (False, st') \<Rightarrow> st' = st \<and> (\<forall>i < 3. \<exists>e. put i uri (utf8_encode (dumps P True (JObj body))) st = Inl e)
   | (True, st') \<Rightarrow> (\<exists>i < 3. put i uri (utf8_encode (dumps P True (JObj body))) st = Inr st' \<and>
        (\<forall>j < i. \<exists>e. put j uri (utf8_encode (dumps P True (JObj body))) st = Inl e)) \<and>
        (\<forall>k v. map_of payload k = Some v \<longrightarrow> map_of body k = Some v)"
  if "ts = (case when_unix of Some t \<Rightarrow> t | None \<Rightarrow> now)" "uri = uri_for (telemetry_event_key (tw_netuid w) (tw_run_id w) stream ts)"
    "body = telemetry_body w payload ts"
proof -
  let ?put = "\<lambda>i. put i uri (utf8_encode (dumps P True (JObj body)))"
  have "emit_event P put uri_for now w stream payload when_unix st = emit_attempts ?put [0, 1, 2] st"
    by (simp add: emit_event_def put_json_def [abs_def] Let_def that)
  then show ?thesis using emit_three_attempts [of ?put st] telemetry_body_keeps [of payload _ _ w ts]
    by (auto simp: that(3) split: prod.splits bool.splits)
qed

end
