(* ===== verification/Discovery.thy ===== *)
theory Discovery
  imports Record_Store "HOL-Library.Product_Lexorder"
begin

text \<open>
  \<^verbatim>\<open>teuton_runtime/discovery.py\<close>: workers advertise themselves by heartbeat objects in the bucket, and the
  orchestrator reads the live ones back; a second scan reconstructs miners from receipts and manifests.

  Shown: a scan reads exactly the live heartbeats of the run, in the order of their keys, so a worker that has
  advertised itself is discovered, with the identity it wrote, exactly as long as its heartbeat is fresh.
\<close>

subsection \<open>Heartbeats\<close>

record DiscoveryRecord =
  dr_miner :: MinerIdentity
  dr_worker :: WorkerIdentity
  dr_run_id :: string
  dr_last_seen_unix :: int
  dr_role :: string

record BucketDiscoveryBackend =
  bd_netuid :: int
  bd_run_id :: string
  bd_role :: string
  bd_heartbeat_ttl_sec :: "pyfloat option"

definition role_prefix :: "int \<Rightarrow> string \<Rightarrow> string" where
  "role_prefix netuid role = (if role = ''audit'' then auditors_prefix netuid else miners_prefix netuid)"

definition heartbeat_key :: "BucketDiscoveryBackend \<Rightarrow> WorkerIdentity \<Rightarrow> string" where
  "heartbeat_key B w =
     (if bd_role B = ''audit'' then auditor_heartbeat_key (bd_netuid B) (wi_hotkey_ss58 w) (wi_worker_id w)
      else worker_heartbeat_key (bd_netuid B) (wi_hotkey_ss58 w) (wi_worker_id w))"

definition heartbeat_dict :: "BucketDiscoveryBackend \<Rightarrow> int \<Rightarrow> MinerIdentity \<Rightarrow> WorkerIdentity \<Rightarrow> dict" where
  "heartbeat_dict B now miner worker =
     [(''miner'', JObj (MinerIdentity_to_dict miner)), (''worker'', JObj (WorkerIdentity_to_dict worker)),
      (''run_id'', JStr (bd_run_id B)), (''role'', JStr (bd_role B)), (''last_seen_unix'', JInt now)]"

definition advertise_worker ::
  "platform \<Rightarrow> int \<Rightarrow> int \<Rightarrow> BucketDiscoveryBackend \<Rightarrow> MinerIdentity \<Rightarrow> WorkerIdentity \<Rightarrow> LocalBucket \<Rightarrow> LocalBucket res" where
  "advertise_worker P now_ns now B miner worker st =
     store_dict P now_ns (uri_for_key st (heartbeat_key B worker)) (heartbeat_dict B now miner worker) st"

definition discovery_record_from_dict :: "int \<Rightarrow> string \<Rightarrow> dict \<Rightarrow> DiscoveryRecord res" where
  "discovery_record_from_dict netuid role d =
     bindE (bindE (bindE (get_req d ''worker'') as_dict) WorkerIdentity_from_dict) (\<lambda>worker.
     bindE (bindE (as_dict (or_else (get_none d ''miner'')
               (JObj [(''netuid'', JInt netuid), (''hotkey_ss58'', JStr (wi_hotkey_ss58 worker)),
                      (''capabilities'', JObj (wi_capabilities worker))]))) MinerIdentity_from_dict) (\<lambda>miner.
     bindE (as_str (get_or d ''run_id'' (JStr []))) (\<lambda>run_id.
     bindE (py_int (or_else (get_none d ''last_seen_unix'') (JInt 0))) (\<lambda>last_seen.
     bindE (as_str (or_else (get_none d ''role'') (JStr role))) (\<lambda>rl.
       Inr \<lparr>dr_miner = miner, dr_worker = worker, dr_run_id = run_id, dr_last_seen_unix = last_seen, dr_role = rl\<rparr>)))))"

definition is_live :: "string option \<Rightarrow> pyfloat option \<Rightarrow> pyfloat \<Rightarrow> DiscoveryRecord \<Rightarrow> bool" where
  "is_live run_id ttl now r \<longleftrightarrow>
     \<not> (run_id \<noteq> None \<and> dr_run_id r \<noteq> the run_id) \<and>
     (case ttl of None \<Rightarrow> True | Some t \<Rightarrow> \<not> (now - of_int (dr_last_seen_unix r) > t))"

fun scan_heartbeats ::
  "platform \<Rightarrow> int \<Rightarrow> string \<Rightarrow> string option \<Rightarrow> pyfloat option \<Rightarrow> pyfloat \<Rightarrow> string list \<Rightarrow> LocalBucket \<Rightarrow> DiscoveryRecord list res" where
  "scan_heartbeats P netuid role run_id ttl now [] st = Inr []"
| "scan_heartbeats P netuid role run_id ttl now (u # us) st =
     (if \<not> ends_with u ''/heartbeat.json'' then scan_heartbeats P netuid role run_id ttl now us st
      else case load_record P (discovery_record_from_dict netuid role) u st of
             Inl e \<Rightarrow> if caught e then scan_heartbeats P netuid role run_id ttl now us st else Inl e
           | Inr r \<Rightarrow>
               if is_live run_id ttl now r
               then bindE (scan_heartbeats P netuid role run_id ttl now us st) (\<lambda>rs. Inr (r # rs))
               else scan_heartbeats P netuid role run_id ttl now us st)"

definition record_key :: "DiscoveryRecord \<Rightarrow> string \<times> string \<times> string \<times> string" where
  "record_key r = (dr_role r, dr_run_id r, wi_hotkey_ss58 (dr_worker r), wi_worker_id (dr_worker r))"

definition scan_bucket_discovery_records ::
  "platform \<Rightarrow> int \<Rightarrow> string \<Rightarrow> string option \<Rightarrow> pyfloat option \<Rightarrow> pyfloat \<Rightarrow> LocalBucket \<Rightarrow> DiscoveryRecord list res" where
  "scan_bucket_discovery_records P netuid role run_id ttl now st =
     bindE (scan_heartbeats P netuid role run_id ttl now (LocalBucket_list (uri_for_key st (role_prefix netuid role)) st) st)
       (\<lambda>rs. Inr (sort_key record_key rs))"

definition discover_workers :: "platform \<Rightarrow> pyfloat \<Rightarrow> BucketDiscoveryBackend \<Rightarrow> LocalBucket \<Rightarrow> DiscoveryRecord list res" where
  "discover_workers P now B st =
     scan_bucket_discovery_records P (bd_netuid B) (bd_role B) (Some (bd_run_id B)) (bd_heartbeat_ttl_sec B) now st"

definition build_discovery_backend :: "string \<Rightarrow> int \<Rightarrow> string \<Rightarrow> string \<Rightarrow> pyfloat option \<Rightarrow> BucketDiscoveryBackend res" where
  "build_discovery_backend backend netuid run_id role ttl =
     (if backend = ''bucket'' then Inr \<lparr>bd_netuid = netuid, bd_run_id = run_id, bd_role = role, bd_heartbeat_ttl_sec = ttl\<rparr>
      else Inl (ValueError (''unknown discovery backend: '' @ backend)))"

subsection \<open>Miners from durable objects\<close>

record BucketMinerObservation =
  bo_hotkey_ss58 :: string
  bo_worker_id :: "string option"
  bo_last_seen_unix :: int
  bo_n_receipts :: int
  bo_n_jobs :: int
  bo_sources :: "string list"

definition BucketMinerObservation_to_dict :: "BucketMinerObservation \<Rightarrow> dict" where
  "BucketMinerObservation_to_dict b =
     [(''hotkey_ss58'', JStr (bo_hotkey_ss58 b)), (''worker_id'', opt_json JStr (bo_worker_id b)),
      (''last_seen_unix'', JInt (bo_last_seen_unix b)), (''n_receipts'', JInt (bo_n_receipts b)),
      (''n_jobs'', JInt (bo_n_jobs b)), (''sources'', JList (map JStr (sort (bo_sources b))))]"

type_synonym observations = "((string \<times> string option) \<times> BucketMinerObservation) list"

definition observation_new :: "string \<Rightarrow> string option \<Rightarrow> BucketMinerObservation" where
  "observation_new hotkey worker_id =
     \<lparr>bo_hotkey_ss58 = hotkey, bo_worker_id = worker_id, bo_last_seen_unix = 0, bo_n_receipts = 0, bo_n_jobs = 0, bo_sources = []\<rparr>"

definition bump :: "string \<Rightarrow> string option \<Rightarrow> string \<Rightarrow> int \<Rightarrow> int \<Rightarrow> int \<Rightarrow> observations \<Rightarrow> observations" where
  "bump hotkey worker_id source ts jobs receipts by_key =
     (let b = (case map_of by_key (hotkey, worker_id) of None \<Rightarrow> observation_new hotkey worker_id | Some b \<Rightarrow> b)
      in AList.update (hotkey, worker_id)
           (b\<lparr>bo_sources := List.insert source (bo_sources b), bo_last_seen_unix := max (bo_last_seen_unix b) ts,
              bo_n_jobs := bo_n_jobs b + jobs, bo_n_receipts := bo_n_receipts b + receipts\<rparr>) by_key)"

fun segment_value :: "string list \<Rightarrow> string \<Rightarrow> string option" where
  "segment_value [] marker = None"
| "segment_value (part # parts) marker =
     (if starts_with part marker then Some (drop (length marker) part) else segment_value parts marker)"

definition safe_head_mtime :: "string \<Rightarrow> LocalBucket \<Rightarrow> int" where
  "safe_head_mtime uri st = (case LocalBucket_head uri st of Inr (Some (_, t)) \<Rightarrow> t | _ \<Rightarrow> 0)"

definition limit_reached :: "int option \<Rightarrow> int \<Rightarrow> bool" where
  "limit_reached max_objects scanned = (case max_objects of None \<Rightarrow> False | Some m \<Rightarrow> scanned \<ge> m)"

text \<open>The flag of the result says that the limit was reached and the whole scan returns.\<close>

fun scan_receipts :: "int option \<Rightarrow> LocalBucket \<Rightarrow> string list \<Rightarrow> observations \<times> int \<Rightarrow> bool \<times> observations \<times> int" where
  "scan_receipts mx st [] s = (False, s)"
| "scan_receipts mx st (u # us) (by_key, scanned) =
     (if limit_reached mx scanned then (True, by_key, scanned)
      else if \<not> ends_with u ''.json'' then scan_receipts mx st us (by_key, scanned)
      else case segment_value (split_on (CHR ''/'') u) ''hotkey='' of
             None \<Rightarrow> scan_receipts mx st us (by_key, scanned + 1)
           | Some hotkey \<Rightarrow>
               if hotkey = [] then scan_receipts mx st us (by_key, scanned + 1)
               else scan_receipts mx st us (bump hotkey None ''receipts'' (safe_head_mtime u st) 0 1 by_key, scanned + 1))"

fun scan_manifests :: "platform \<Rightarrow> int option \<Rightarrow> LocalBucket \<Rightarrow> string list \<Rightarrow> observations \<times> int \<Rightarrow> (bool \<times> observations \<times> int) res" where
  "scan_manifests P mx st [] s = Inr (False, s)"
| "scan_manifests P mx st (u # us) (by_key, scanned) =
     (if limit_reached mx scanned then Inr (True, by_key, scanned)
      else if \<not> ends_with u ''/manifest.json'' then scan_manifests P mx st us (by_key, scanned)
      else case load_manifest P u st of
             Inl e \<Rightarrow> if caught e then scan_manifests P mx st us (by_key, scanned + 1) else Inl e
           | Inr m \<Rightarrow>
               scan_manifests P mx st us
                 (bump (mf_assigned_hotkey m) (mf_assigned_worker m) ''manifests'' (max (safe_head_mtime u st) (mf_created_unix m)) 1 0 by_key,
                  scanned + 1))"

fun scan_runs :: "platform \<Rightarrow> int \<Rightarrow> int option \<Rightarrow> LocalBucket \<Rightarrow> string list \<Rightarrow> observations \<times> int \<Rightarrow> observations res" where
  "scan_runs P netuid mx st [] s = Inr (fst s)"
| "scan_runs P netuid mx st (rid # rids) s =
     (if rid = [] then scan_runs P netuid mx st rids s
      else case scan_receipts mx st (LocalBucket_list (uri_for_key st (receipts_prefix netuid rid)) st) s of
             (True, by_key, _) \<Rightarrow> Inr by_key
           | (False, s1) \<Rightarrow>
               bindE (scan_manifests P mx st (LocalBucket_list (uri_for_key st (jobs_prefix netuid rid)) st) s1) (\<lambda>(stop, s2).
                 if stop then Inr (fst s2) else scan_runs P netuid mx st rids s2))"

text \<open>\<^verbatim>\<open>s.split(sep, 1)[-1]\<close>: what follows the first occurrence of the separator, or the whole string.\<close>

fun after_first :: "string \<Rightarrow> string \<Rightarrow> string option" where
  "after_first sep [] = (if sep = [] then Some [] else None)"
| "after_first sep (c # cs) = (if starts_with (c # cs) sep then Some (drop (length sep) (c # cs)) else after_first sep cs)"

definition list_run_ids_from_receipts :: "int \<Rightarrow> LocalBucket \<Rightarrow> string list" where
  "list_run_ids_from_receipts netuid st =
     (let receipts_root = root netuid @ ''/receipts/'';
          rids = map (\<lambda>u. hd (split_on (CHR ''/'') (case after_first receipts_root u of Some r \<Rightarrow> r | None \<Rightarrow> u)))
                   (LocalBucket_list (uri_for_key st receipts_root) st)
      in sort (remdups (filter (\<lambda>r. r \<noteq> []) rids)))"

definition derive_miners_from_bucket ::
  "platform \<Rightarrow> int \<Rightarrow> string option \<Rightarrow> int option \<Rightarrow> LocalBucket \<Rightarrow> BucketMinerObservation list res" where
  "derive_miners_from_bucket P netuid run_id max_objects st =
     (let run_ids = (if run_id \<in> {None, Some []} then list_run_ids_from_receipts netuid st else [the run_id])
      in bindE (scan_runs P netuid max_objects st run_ids ([], 0)) (\<lambda>by_key.
           Inr (sort_key (\<lambda>b. (bo_hotkey_ss58 b, str_or (bo_worker_id b) [])) (map snd by_key))))"

subsection \<open>What a scan reads\<close>

abbreviation load_heartbeat :: "platform \<Rightarrow> int \<Rightarrow> string \<Rightarrow> string \<Rightarrow> LocalBucket \<Rightarrow> DiscoveryRecord res" where
  "load_heartbeat P netuid role \<equiv> load_record P (discovery_record_from_dict netuid role)"

lemma is_live_iff:
  "is_live (Some run) ttl now r \<longleftrightarrow>
     dr_run_id r = run \<and> (\<forall>t. ttl = Some t \<longrightarrow> now - of_int (dr_last_seen_unix r) \<le> t)"
  by (auto simp: is_live_def not_less split: option.splits)

lemma scan_heartbeats_exact:
  assumes "\<forall>u e. load_heartbeat P n role u st = Inl e \<longrightarrow> caught e"
  shows "\<exists>rs. scan_heartbeats P n role run ttl now us st = Inr rs \<and>
    set rs = {r. \<exists>u \<in> set us. ends_with u ''/heartbeat.json'' \<and> load_heartbeat P n role u st = Inr r \<and> is_live run ttl now r}"
  using assms
proof (induction us)
  case (Cons u us)
  then obtain rs where "scan_heartbeats P n role run ttl now us st = Inr rs"
    "set rs = {r. \<exists>u \<in> set us. ends_with u ''/heartbeat.json'' \<and> load_heartbeat P n role u st = Inr r \<and> is_live run ttl now r}" by auto
  with Cons.prems show ?case
    by (cases "load_heartbeat P n role u st") (auto simp: caught_def)
qed simp

lemma role_prefix_key: "object_key (role_prefix n role) \<and> ends_with (role_prefix n role) ''/''"
proof -
  have "CHR 0x0A \<notin> set (show_int n)" using show_int_chars [of "CHR 0x0A" n] by (auto simp: is_digit_def)
  then show ?thesis
    by (simp add: role_prefix_def miners_prefix_def auditors_prefix_def root_def object_key_def ends_with_def)
qed

lemma heartbeat_key_shape:
  "heartbeat_key B w = role_prefix (bd_netuid B) (bd_role B) @ wi_hotkey_ss58 w @ ''/workers/'' @ wi_worker_id w @ ''/heartbeat.json''"
  by (simp add: heartbeat_key_def role_prefix_def auditor_heartbeat_key_def worker_heartbeat_key_def)

lemma heartbeat_uri_suffix: "ends_with (join_uri b (heartbeat_key B w)) ''/heartbeat.json''"
proof -
  have "ends_with ((''s3://'' @ b @ ''/'' @ role_prefix (bd_netuid B) (bd_role B) @ wi_hotkey_ss58 w @ ''/workers/'' @ wi_worker_id w)
      @ ''/heartbeat.json'') ''/heartbeat.json''" by (rule ends_with_append)
  then show ?thesis by (simp only: heartbeat_key_shape join_uri_def append_assoc)
qed

lemma discover_exact:
  assumes "LocalBucket_wf st" "bucket_name (lb_bucket st)"
    and "\<forall>u e. load_heartbeat P (bd_netuid B) (bd_role B) u st = Inl e \<longrightarrow> caught e"
  shows "\<exists>rs. discover_workers P now B st = Inr rs \<and> sorted (map record_key rs) \<and>
    set rs = {r. \<exists>k. map_of (lb_objects st) (lb_bucket st, k) \<noteq> None \<and> starts_with k (role_prefix (bd_netuid B) (bd_role B)) \<and>
       ends_with (join_uri (lb_bucket st) k) ''/heartbeat.json'' \<and>
       load_heartbeat P (bd_netuid B) (bd_role B) (join_uri (lb_bucket st) k) st = Inr r \<and>
       is_live (Some (bd_run_id B)) (bd_heartbeat_ttl_sec B) now r}"
proof -
  let ?p = "role_prefix (bd_netuid B) (bd_role B)"
  have p: "object_key ?p" "ends_with ?p ''/''" using role_prefix_key by simp_all
  obtain rs where rs: "scan_heartbeats P (bd_netuid B) (bd_role B) (Some (bd_run_id B)) (bd_heartbeat_ttl_sec B) now
      (LocalBucket_list (uri_for_key st ?p) st) st = Inr rs"
    "set rs = {r. \<exists>u \<in> set (LocalBucket_list (uri_for_key st ?p) st). ends_with u ''/heartbeat.json'' \<and>
       load_heartbeat P (bd_netuid B) (bd_role B) u st = Inr r \<and> is_live (Some (bd_run_id B)) (bd_heartbeat_ttl_sec B) now r}"
    using scan_heartbeats_exact [of P "bd_netuid B" "bd_role B" st "Some (bd_run_id B)" "bd_heartbeat_ttl_sec B" now
        "LocalBucket_list (uri_for_key st ?p) st"] assms(3) by blast
  have l: "set (LocalBucket_list (uri_for_key st ?p) st) =
      {join_uri (lb_bucket st) k | k. map_of (lb_objects st) (lb_bucket st, k) \<noteq> None \<and> starts_with k ?p}"
    using lb_list_exact [OF assms(1,2) p] by (simp add: uri_for_key_def)
  have "discover_workers P now B st = Inr (sort_key record_key rs)"
    using rs(1) by (simp add: discover_workers_def scan_bucket_discovery_records_def)
  moreover have "set (sort_key record_key rs) = {r. \<exists>k. map_of (lb_objects st) (lb_bucket st, k) \<noteq> None \<and> starts_with k ?p \<and>
       ends_with (join_uri (lb_bucket st) k) ''/heartbeat.json'' \<and>
       load_heartbeat P (bd_netuid B) (bd_role B) (join_uri (lb_bucket st) k) st = Inr r \<and>
       is_live (Some (bd_run_id B)) (bd_heartbeat_ttl_sec B) now r}"
    unfolding set_sort rs(2) l by blast
  ultimately show ?thesis using sorted_sort_key by blast
qed

lemma heartbeat_decode:
  "discovery_record_from_dict n role (norm_dict (heartbeat_dict B t m w)) =
     Inr \<lparr>dr_miner = MinerIdentity_raw norm_dict m, dr_worker = WorkerIdentity_raw norm_dict w, dr_run_id = bd_run_id B,
       dr_last_seen_unix = t, dr_role = (if bd_role B = [] then role else bd_role B)\<rparr>"
proof -
  have ne: "MinerIdentity_to_dict m \<noteq> []" by (simp add: MinerIdentity_to_dict_def)
  show ?thesis
    by (simp add: discovery_record_from_dict_def heartbeat_dict_def canon.view_simps dict_simps ne or_else_def
        canon.MinerIdentity_decode canon.WorkerIdentity_decode)
qed

lemma wf_heartbeat:
  "wf_dict (mi_capabilities m) \<Longrightarrow> wf_dict (wi_capabilities w) \<Longrightarrow> wf_dict (heartbeat_dict B t m w)"
  using wf_WorkerIdentity [of w] wf_nonempty
  by (auto simp: heartbeat_dict_def dict_simps MinerIdentity_to_dict_def)

subsection \<open>Properties\<close>

text \<open>
  A worker that advertises itself is discovered exactly as long as its heartbeat is fresh: the write
  succeeds, the next scan of the same netuid, role and run succeeds, returns its records in the order of
  role, run, hotkey and worker, and returns exactly the records of the stored heartbeats below the role's
  prefix that name the run and are no older than the time to live; the advertised identity, with the time
  it was written, is among them unless it is stale.
\<close>

theorem heartbeat_discovered:
  assumes "float_codec P" and "LocalBucket_wf st" and "bucket_name (lb_bucket st)"
    and "wf_dict (mi_capabilities m)" and "wf_dict (wi_capabilities w)"
    and "CHR 0x0A \<notin> set (wi_hotkey_ss58 w)" and "CHR 0x0A \<notin> set (wi_worker_id w)"
    and "\<forall>u e. load_heartbeat P (bd_netuid B) (bd_role B) u st = Inl e \<longrightarrow> caught e"
  shows "\<exists>st' rs. advertise_worker P now_ns t B m w st = Inr st' \<and> discover_workers P now B st' = Inr rs \<and>
    sorted (map record_key rs) \<and>
    set rs = {r. \<exists>k. map_of (lb_objects st') (lb_bucket st, k) \<noteq> None \<and> starts_with k (role_prefix (bd_netuid B) (bd_role B)) \<and>
       ends_with (join_uri (lb_bucket st) k) ''/heartbeat.json'' \<and>
       load_heartbeat P (bd_netuid B) (bd_role B) (join_uri (lb_bucket st) k) st' = Inr r \<and>
       dr_run_id r = bd_run_id B \<and> (\<forall>ttl. bd_heartbeat_ttl_sec B = Some ttl \<longrightarrow> now - of_int (dr_last_seen_unix r) \<le> ttl)} \<and>
    (\<lparr>dr_miner = MinerIdentity_raw norm_dict m, dr_worker = WorkerIdentity_raw norm_dict w, dr_run_id = bd_run_id B,
       dr_last_seen_unix = t, dr_role = bd_role B\<rparr> \<in> set rs \<longleftrightarrow>
     (\<forall>ttl. bd_heartbeat_ttl_sec B = Some ttl \<longrightarrow> now - of_int t \<le> ttl))"
proof -
  let ?k = "heartbeat_key B w" and ?n = "bd_netuid B" and ?role = "bd_role B" and ?b = "lb_bucket st"
  let ?r = "\<lparr>dr_miner = MinerIdentity_raw norm_dict m, dr_worker = WorkerIdentity_raw norm_dict w, dr_run_id = bd_run_id B,
       dr_last_seen_unix = t, dr_role = bd_role B\<rparr>"
  have k: "object_key ?k" "starts_with ?k (role_prefix ?n ?role)" "ends_with (join_uri ?b ?k) ''/heartbeat.json''"
    using assms(6,7) role_prefix_key [of ?n ?role] heartbeat_uri_suffix
    by (simp_all add: heartbeat_key_shape object_key_def starts_with_iff)
  then have u: "parse_uri (uri_for_key st ?k) = Inr (?b, ?k)" using assms(3) by (simp add: uri_for_key_def)
  obtain st' where a: "advertise_worker P now_ns t B m w st = Inr st'"
    using lb.put_json_total [OF u] unfolding advertise_worker_def by blast
  then have put: "store_dict P now_ns (uri_for_key st ?k) (heartbeat_dict B t m w) st = Inr st'" by (simp add: advertise_worker_def)
  then have st': "LocalBucket_wf st'" "lb_bucket st' = ?b" "map_of (lb_objects st') (?b, ?k) \<noteq> None"
    using LocalBucket_put_wf [OF assms(2)] unfolding put_json_def by (blast, auto simp: LocalBucket_put_def u)
  have load: "load_heartbeat P ?n ?role (join_uri ?b ?k) st' = Inr ?r"
    using load_stored [OF assms(1) wf_heartbeat [OF assms(4,5)] put, of "discovery_record_from_dict ?n ?role"]
    by (auto simp: uri_for_key_def heartbeat_decode)
  have "load_heartbeat P ?n ?role v st' = Inl e \<longrightarrow> caught e" for v e
  proof (cases "parse_uri v = Inr (?b, ?k)")
    case True
    then have "load_heartbeat P ?n ?role v st' = load_heartbeat P ?n ?role (join_uri ?b ?k) st'"
      using u st'(3) by (auto simp: load_record_def get_json_def LocalBucket_get_def obj_at_def uri_for_key_def)
    with load show ?thesis by simp
  next
    case False
    with load_other [OF put, of v "discovery_record_from_dict ?n ?role"] u assms(8) show ?thesis by simp
  qed
  then obtain rs where rs: "discover_workers P now B st' = Inr rs" "sorted (map record_key rs)"
    and set: "set rs = {r. \<exists>k. map_of (lb_objects st') (?b, k) \<noteq> None \<and> starts_with k (role_prefix ?n ?role) \<and>
       ends_with (join_uri ?b k) ''/heartbeat.json'' \<and> load_heartbeat P ?n ?role (join_uri ?b k) st' = Inr r \<and>
       dr_run_id r = bd_run_id B \<and> (\<forall>ttl. bd_heartbeat_ttl_sec B = Some ttl \<longrightarrow> now - of_int (dr_last_seen_unix r) \<le> ttl)}"
    using discover_exact [of st' P B now, unfolded is_live_iff] st'(1,2) assms(3) by auto
  have "?r \<in> set rs \<longleftrightarrow> (\<forall>ttl. bd_heartbeat_ttl_sec B = Some ttl \<longrightarrow> now - of_int t \<le> ttl)"
    unfolding set using k st'(3) load by auto
  with a rs set show ?thesis by blast
qed

definition sample_miner :: MinerIdentity where
  "sample_miner = \<lparr>mi_netuid = 3, mi_hotkey_ss58 = ''hk'', mi_uid = None, mi_endpoint = None, mi_commitment_hash = None,
     mi_capabilities = [(''gpu'', JInt 1)]\<rparr>"

definition sample_backend :: BucketDiscoveryBackend where
  "sample_backend = \<lparr>bd_netuid = 3, bd_run_id = ''run'', bd_role = ''train'', bd_heartbeat_ttl_sec = Some 60\<rparr>"

lemma no_heartbeats: "load_heartbeat P n role u (LocalBucket_init b) = Inl e \<longrightarrow> caught e"
  by (cases "parse_uri u")
    (auto simp: load_record_def get_json_def LocalBucket_get_def obj_at_def LocalBucket_init_def parse_uri_def Let_def caught_def split: if_splits)

theorem heartbeat_discovered_witness:
  "\<exists>st' rs. advertise_worker reference_platform 7 100 sample_backend sample_miner (rc_worker sample_receipt) (LocalBucket_init ''b'') = Inr st' \<and>
    discover_workers reference_platform 130 sample_backend st' = Inr rs \<and>
    \<lparr>dr_miner = MinerIdentity_raw norm_dict sample_miner, dr_worker = WorkerIdentity_raw norm_dict (rc_worker sample_receipt),
      dr_run_id = ''run'', dr_last_seen_unix = 100, dr_role = ''train''\<rparr> \<in> set rs"
proof -
  have "LocalBucket_wf (LocalBucket_init ''b'')" "bucket_name (lb_bucket (LocalBucket_init ''b''))"
    "wf_dict (mi_capabilities sample_miner)" "wf_dict (wi_capabilities (rc_worker sample_receipt))"
    "CHR 0x0A \<notin> set (wi_hotkey_ss58 (rc_worker sample_receipt))" "CHR 0x0A \<notin> set (wi_worker_id (rc_worker sample_receipt))"
    by (simp_all add: LocalBucket_wf_def LocalBucket_init_def bucket_name_def sample_miner_def sample_receipt_def wf_dict_def)
  note hyps = this
  show ?thesis
    using heartbeat_discovered [OF reference_float_codec hyps, of sample_backend 7 100 130] no_heartbeats
    by (simp add: sample_backend_def) blast
qed

end
