(* ===== verification/Metagraph.thy ===== *)
theory Metagraph
  imports Wallet_Crypto
begin

text \<open>
  \<^verbatim>\<open>teuton_core/metagraph.py\<close>: looking up the public key a grant is sealed for. \<^verbatim>\<open>btcli\<close> is asked once per
  resolver and its rows are kept; the parsed answer of the command and \<^verbatim>\<open>ss58_decode\<close> are arguments.

  Shown: once the rows are loaded the resolver never asks again, and every answer comes from the first row that names
  the hotkey, under one metagraph hash.
\<close>

record HotkeyMetagraphInfo =
  hm_hotkey :: string
  hm_uid :: int
  hm_coldkey :: "string option"
  hm_public_key :: bytes
  hm_metagraph_hash :: string
  hm_block :: "int option"

definition StaticHotkeyResolver_resolve :: "(string \<times> HotkeyMetagraphInfo) list \<Rightarrow> string \<Rightarrow> HotkeyMetagraphInfo res" where
  "StaticHotkeyResolver_resolve mapping hotkey =
     (case map_of mapping hotkey of
        None \<Rightarrow> Inl (KeyError (''hotkey '' @ hotkey @ '' not found in static metagraph mapping''))
      | Some info \<Rightarrow> Inr info)"

text \<open>\<^verbatim>\<open>_rows\<close> and \<^verbatim>\<open>_hash\<close> are set together.\<close>

record BtcliMetagraphHotkeyResolver =
  bm_netuid :: int
  bm_network :: string
  bm_mechid :: int
  bm_loaded :: "(json list \<times> string) option"

definition BtcliMetagraphHotkeyResolver_init :: "int \<Rightarrow> string \<Rightarrow> int \<Rightarrow> BtcliMetagraphHotkeyResolver" where
  "BtcliMetagraphHotkeyResolver_init netuid network mechid =
     \<lparr>bm_netuid = netuid, bm_network = network, bm_mechid = mechid, bm_loaded = None\<rparr>"

text \<open>The command line is the resolver's own; \<open>btcli\<close> gives the parsed output for it.\<close>

definition btcli_args :: "BtcliMetagraphHotkeyResolver \<Rightarrow> string list" where
  "btcli_args R =
     [''btcli'', ''subnets'', ''show'', ''--netuid'', show_int (bm_netuid R), ''--network'', bm_network R,
      ''--mechid'', show_int (bm_mechid R), ''--no-prompt'', ''--json-output'', ''--quiet'']"

definition load_rows ::
  "platform \<Rightarrow> (string list \<Rightarrow> json res) \<Rightarrow> (BtcliMetagraphHotkeyResolver, json list \<times> string) sres" where
  "load_rows P btcli R =
     (case bm_loaded R of
        Some l \<Rightarrow> (Inr l, R)
      | None \<Rightarrow>
          (case bindE (bindE (btcli (btcli_args R)) as_mapping) (\<lambda>d. iter_items (or_else (get_none d ''uids'') (JList []))) of
             Inl e \<Rightarrow> (Inl e, R)
           | Inr rows \<Rightarrow>
               let l = (rows, sha256_hex (utf8_encode (dumps P True (JList rows))))
               in (Inr l, R\<lparr>bm_loaded := Some l\<rparr>)))"

definition public_key_from_hotkey_ss58 :: "(string \<Rightarrow> string res) option \<Rightarrow> string \<Rightarrow> bytes res" where
  "public_key_from_hotkey_ss58 ss58 hotkey =
     (case ss58 of
        None \<Rightarrow> Inl (RuntimeError ''substrateinterface or scalecodec is required to decode hotkey public keys'')
      | Some decode \<Rightarrow>
          bindE (decode hotkey) (\<lambda>s.
            case fromhex s of
              None \<Rightarrow> Inl (ValueError ''non-hexadecimal number found in fromhex() arg'')
            | Some b \<Rightarrow> Inr b))"

fun resolve_rows ::
  "(string \<Rightarrow> string res) option \<Rightarrow> int \<Rightarrow> string \<Rightarrow> string \<Rightarrow> json list \<Rightarrow> HotkeyMetagraphInfo res" where
  "resolve_rows ss58 netuid mhash hotkey [] =
     Inl (KeyError (''hotkey '' @ hotkey @ '' not found in netuid '' @ show_int netuid @ '' metagraph''))"
| "resolve_rows ss58 netuid mhash hotkey (row # rows) =
     bindE (as_mapping row) (\<lambda>d.
       if get_none d ''hotkey'' \<noteq> JStr hotkey then resolve_rows ss58 netuid mhash hotkey rows
       else bindE (public_key_from_hotkey_ss58 ss58 hotkey) (\<lambda>public_key.
            bindE (bindE (get_req d ''uid'') py_int) (\<lambda>uid.
            bindE (as_opt_str (get_none d ''coldkey'')) (\<lambda>coldkey.
              Inr \<lparr>hm_hotkey = hotkey, hm_uid = uid, hm_coldkey = coldkey, hm_public_key = public_key,
                   hm_metagraph_hash = mhash, hm_block = None\<rparr>))))"

definition resolve_hotkey ::
  "platform \<Rightarrow> (string list \<Rightarrow> json res) \<Rightarrow> (string \<Rightarrow> string res) option \<Rightarrow> string
    \<Rightarrow> (BtcliMetagraphHotkeyResolver, HotkeyMetagraphInfo) sres" where
  "resolve_hotkey P btcli ss58 hotkey =
     bindS (load_rows P btcli) (\<lambda>(rows, mhash) R. (resolve_rows ss58 (bm_netuid R) mhash hotkey rows, R))"

lemma load_rows_keeps: "load_rows P btcli R = (r, R') \<Longrightarrow> bm_netuid R' = bm_netuid R"
  by (auto simp: load_rows_def Let_def split: option.splits sum.splits)

lemma resolve_snapshot:
  assumes "bm_loaded R = Some (rows, mhash)"
  shows "resolve_hotkey P btcli ss58 hotkey R = (resolve_rows ss58 (bm_netuid R) mhash hotkey rows, R)"
  using assms by (simp add: resolve_hotkey_def bindS_def load_rows_def)

lemma resolve_rows_sound:
  assumes "resolve_rows ss58 netuid mhash hotkey rows = Inr info"
  shows "hm_hotkey info = hotkey \<and> hm_metagraph_hash info = mhash \<and>
    (\<exists>d. JObj d \<in> set rows \<and> map_of d ''hotkey'' = Some (JStr hotkey))"
  using assms
proof (induction rows)
  case (Cons row rows)
  then show ?case
    by (cases row) (fastforce simp: bindE_eq_Inr get_or_def split: if_splits option.splits)+
qed simp

lemma resolve_asks_once:
  assumes "resolve_hotkey P btcli ss58 hotkey R = (r, R')" "resolve_hotkey P btcli' ss58 hotkey' R' = (r', R'')" "bm_loaded R' \<noteq> None"
  shows "R'' = R'"
  using assms resolve_snapshot [of R' _ _ P btcli' ss58 hotkey'] by (cases "bm_loaded R'") auto

end
