(* ===== verification/Emission.thy ===== *)
theory Emission
  imports Metagraph Queue Scheduler Transport Discovery
begin

text \<open>
  What the three emitters of jobs share (\<^verbatim>\<open>teuton_orchestrator/run_manager.py\<close>, \<^verbatim>\<open>streaming.py\<close> and
  \<^verbatim>\<open>teuton_validator/audit_jobs.py\<close>): the bucket, the quota book, the queue and the hotkey resolver they keep, and the
  helper methods each of them repeats.

  An emitter runs beside other threads and processes: miners write artifacts and receipts, the background thread flushes
  the queue. They act while the emitter sleeps. A \<open>pause\<close> is one such sleep: the clock after it and what the others have
  done to bucket and queue. The pauses still to come are part of the state; a loop that sleeps when none is left ends in
  \<open>Blocked\<close>. Between two pauses the clock stands still.
\<close>

subsection \<open>State\<close>

record pause =
  ps_now :: pyfloat
  ps_effect :: "LocalBucket \<times> OrchestratorQueue \<Rightarrow> LocalBucket \<times> OrchestratorQueue"

record emitter =
  em_bucket :: LocalBucket
  em_quota :: QuotaBook
  em_queue :: OrchestratorQueue
  em_resolver :: "BtcliMetagraphHotkeyResolver option"
  em_broker :: "grant_broker option"
  em_now :: pyfloat
  em_pauses :: "pause list"

record emit_config =
  ec_netuid :: int
  ec_run_id :: string
  ec_owner_secret :: string
  ec_owner_signer :: "signer option"
  ec_grant_mode :: string
  ec_grant_ttl_sec :: int
  ec_assignment_secret :: string
  ec_assignment_crypto :: string
  ec_network :: string
  ec_discovery_backend :: string
  ec_discovery_heartbeat_ttl_sec :: "pyfloat option"

text \<open>What comes from outside: the platform, PyNaCl, \<^verbatim>\<open>btcli\<close>, \<^verbatim>\<open>ss58_decode\<close>, the boto3 client, the default quota.\<close>

record emit_env =
  ee_platform :: platform
  ee_nacl :: "nacl_lib option"
  ee_btcli :: "string list \<Rightarrow> json res"
  ee_ss58 :: "(string \<Rightarrow> string res) option"
  ee_presign :: "(string \<Rightarrow> string \<Rightarrow> string \<Rightarrow> int \<Rightarrow> string) option"
  ee_base_quota :: pyfloat

definition unix_of :: "pyfloat \<Rightarrow> int" where
  "unix_of t = (if t \<ge> 0 then \<lfloor>t\<rfloor> else \<lceil>t\<rceil>)"

definition ns_of :: "pyfloat \<Rightarrow> int" where
  "ns_of t = \<lfloor>t * 1000000000\<rfloor>"

subsection \<open>Effects\<close>

definition uri_of :: "'a emitter_scheme \<Rightarrow> string \<Rightarrow> string" where
  "uri_of s key = uri_for_key (em_bucket s) key"

definition put_jsonS :: "platform \<Rightarrow> string \<Rightarrow> dict \<Rightarrow> ('a emitter_scheme, unit) sres" where
  "put_jsonS P uri d s =
     (case store_dict P (ns_of (em_now s)) uri d (em_bucket s) of
        Inl e \<Rightarrow> (Inl e, s) | Inr st \<Rightarrow> (Inr (), s\<lparr>em_bucket := st\<rparr>))"

definition putS :: "string \<Rightarrow> bytes \<Rightarrow> ('a emitter_scheme, unit) sres" where
  "putS uri data s =
     (case LocalBucket_put (ns_of (em_now s)) uri data (em_bucket s) of
        Inl e \<Rightarrow> (Inl e, s) | Inr st \<Rightarrow> (Inr (), s\<lparr>em_bucket := st\<rparr>))"

definition existsS :: "string \<Rightarrow> ('a emitter_scheme, bool) sres" where
  "existsS uri s = (LocalBucket_exists uri (em_bucket s), s)"

text \<open>\<^verbatim>\<open>all(self.bucket.exists(uri) for uri in uris)\<close>.\<close>

fun all_exist :: "string list \<Rightarrow> LocalBucket \<Rightarrow> bool res" where
  "all_exist [] st = Inr True"
| "all_exist (u # us) st = bindE (LocalBucket_exists u st) (\<lambda>ok. if ok then all_exist us st else Inr False)"

definition queueS :: "(OrchestratorQueue \<Rightarrow> OrchestratorQueue) \<Rightarrow> ('a emitter_scheme, unit) sres" where
  "queueS f = modifyS (\<lambda>s. s\<lparr>em_queue := f (em_queue s)\<rparr>)"

definition quotaS :: "(QuotaBook \<Rightarrow> QuotaBook) \<Rightarrow> ('a emitter_scheme, unit) sres" where
  "quotaS f = modifyS (\<lambda>s. s\<lparr>em_quota := f (em_quota s)\<rparr>)"

definition resume :: "pause \<Rightarrow> pause list \<Rightarrow> 'a emitter_scheme \<Rightarrow> 'a emitter_scheme" where
  "resume p ps s =
     (case ps_effect p (em_bucket s, em_queue s) of
        (st, q) \<Rightarrow> s\<lparr>em_bucket := st, em_queue := q, em_now := ps_now p, em_pauses := ps\<rparr>)"

definition sleep :: "('a emitter_scheme, unit) sres" where
  "sleep s = (case em_pauses s of [] \<Rightarrow> (Inl Blocked, s) | p # ps \<Rightarrow> (Inr (), resume p ps s))"

fun mapS :: "('x \<Rightarrow> ('s, 'b) sres) \<Rightarrow> 'x list \<Rightarrow> ('s, 'b list) sres" where
  "mapS f [] s = (Inr [], s)"
| "mapS f (x # xs) s = bindS (f x) (\<lambda>y. bindS (mapS f xs) (\<lambda>ys. liftS (Inr (y # ys)))) s"

text \<open>
  \<^verbatim>\<open>while time.time() < deadline: body; time.sleep(...)\<close> followed by \<open>late\<close>; a body that gives a value returns
  it from the loop. Every round but the last takes a pause, so one round more than there are pauses is enough.
\<close>

fun poll_rounds ::
  "nat \<Rightarrow> pyfloat \<Rightarrow> ('a emitter_scheme, 'r option) sres \<Rightarrow> ('a emitter_scheme, 'r) sres \<Rightarrow> ('a emitter_scheme, 'r) sres" where
  "poll_rounds 0 deadline body late s = (Inl Blocked, s)"
| "poll_rounds (Suc n) deadline body late s =
     (if em_now s < deadline
      then bindS body (\<lambda>r. case r of Some v \<Rightarrow> liftS (Inr v)
                         | None \<Rightarrow> bindS sleep (\<lambda>_. poll_rounds n deadline body late)) s
      else late s)"

definition poll ::
  "pyfloat \<Rightarrow> ('a emitter_scheme, 'r option) sres \<Rightarrow> ('a emitter_scheme, 'r) sres \<Rightarrow> ('a emitter_scheme, 'r) sres" where
  "poll deadline body late s = poll_rounds (Suc (length (em_pauses s))) deadline body late s"

definition pickS ::
  "ResourceRequirements option \<Rightarrow> (OrchestratorQueue \<Rightarrow> (string \<Rightarrow> bool) option) \<Rightarrow> ('a emitter_scheme, WorkerIdentity) sres" where
  "pickS req flt s =
     (case pick_worker 1 req (flt (em_queue s)) (em_quota s) of
        Inl e \<Rightarrow> (Inl e, s) | Inr (w, qb) \<Rightarrow> (Inr w, s\<lparr>em_quota := qb\<rparr>))"

text \<open>The filter of \<^verbatim>\<open>RunManager._pick_worker\<close> and \<^verbatim>\<open>StreamingRunManager.emit_job\<close>.\<close>

definition below_inflight :: "int \<Rightarrow> OrchestratorQueue \<Rightarrow> (string \<Rightarrow> bool) option" where
  "below_inflight max_inflight q = Some (\<lambda>hk. int (depth (Some hk) q) < max_inflight)"

definition learn_workers :: "emit_env \<Rightarrow> DiscoveryRecord list \<Rightarrow> ('a emitter_scheme, WorkerIdentity list) sres" where
  "learn_workers E records =
     bindS (quotaS (update_workers (ee_base_quota E) (map dr_miner records) (map dr_worker records)))
       (\<lambda>_. liftS (Inr (map dr_worker records)))"

definition discovery_backend_of :: "'c emit_config_scheme \<Rightarrow> string \<Rightarrow> BucketDiscoveryBackend" where
  "discovery_backend_of c role =
     \<lparr>bd_netuid = ec_netuid c, bd_run_id = ec_run_id c, bd_role = role, bd_heartbeat_ttl_sec = ec_discovery_heartbeat_ttl_sec c\<rparr>"

subsection \<open>Construction\<close>

text \<open>
  The part of the constructors the three classes share; \<open>discover\<close> must name a known backend, the broker must exist for the
  grant mode, and the queue is reconciled with what the bucket holds.
\<close>

definition emitter_init ::
  "emit_env \<Rightarrow> 'c emit_config_scheme \<Rightarrow> string \<Rightarrow> string \<Rightarrow> LocalBucket \<Rightarrow> pyfloat \<Rightarrow> pause list \<Rightarrow> emitter res" where
  "emitter_init E c discovery_role queue_role st now pauses =
     bindE (build_discovery_backend (ec_discovery_backend c) (ec_netuid c) (ec_run_id c) discovery_role (ec_discovery_heartbeat_ttl_sec c)) (\<lambda>_.
     bindE (broker_for_mode (ec_grant_mode c) (ee_presign E)) (\<lambda>broker.
     let q0 = OrchestratorQueue_init (ec_netuid c) (ec_run_id c) queue_role 32
     in case reconcile_from_bucket (ee_platform E) st [] q0 of
          (Inl e, _) \<Rightarrow> Inl e
        | (Inr _, q) \<Rightarrow>
            Inr \<lparr>em_bucket = st, em_quota = [], em_queue = q,
                 em_resolver = (if ec_assignment_crypto c = ''ed25519''
                                then Some (BtcliMetagraphHotkeyResolver_init (ec_netuid c) (ec_network c) 0) else None),
                 em_broker = broker, em_now = now, em_pauses = pauses\<rparr>))"

subsection \<open>Job helpers\<close>

definition resolve_output_crypto :: "ArtifactRef \<Rightarrow> WorkerIdentity \<Rightarrow> ArtifactRef res" where
  "resolve_output_crypto ref worker =
     (case ar_crypto ref of
        None \<Rightarrow> Inr ref
      | Some c \<Rightarrow>
          if cp_required_signer c \<noteq> Some ''assigned_hotkey'' then Inr ref
          else bindE (ArtifactCryptoPolicy_from_dict (ArtifactCryptoPolicy_to_dict c)) (\<lambda>crypto.
            Inr \<lparr>ar_name = ar_name ref, ar_uri = ar_uri ref, ar_sha256 = ar_sha256 ref, ar_size_bytes = ar_size_bytes ref,
                 ar_crypto = Some (crypto\<lparr>cp_required_signer := Some (wi_hotkey_ss58 worker)\<rparr>)\<rparr>))"

definition resource_requirements :: "dict \<Rightarrow> ResourceRequirements res" where
  "resource_requirements params =
     (let raw = or_else (get_none params ''resource_requirements'') (JObj [])
      in if \<not> truthy raw \<and> get_none params ''distributed_runner'' = JStr ''gpt_tensor_parallel_v1''
         then bindE (dict_or_empty (get_none params ''parallelism'')) (\<lambda>parallelism.
              bindE (py_int (or_else (or_else (get_none parallelism ''tensor_parallel_size'') (get_none params ''tp_world_size'')) (JInt 1))) (\<lambda>world_size.
                ResourceRequirements_from_dict
                  [(''min_gpus'', JInt world_size), (''placement'', JStr ''single_host''), (''parallelism'', JObj parallelism)]))
         else bindE (dict_or_empty raw) ResourceRequirements_from_dict)"

fun shard_grant_uris :: "int \<Rightarrow> dict \<Rightarrow> ArtifactRef list \<Rightarrow> string list res" where
  "shard_grant_uris min_gpus sharding [] = Inr []"
| "shard_grant_uris min_gpus sharding (ref # refs) =
     bindE (let cfg = get_none sharding (ar_name ref)
            in if \<not> truthy cfg then Inr []
               else bindE (as_mapping cfg) (\<lambda>d.
                    bindE (py_int (get_or d ''world_size'' (JInt min_gpus))) (\<lambda>n.
                      let base = (if ends_with (ar_uri ref) ''.json'' then take (length (ar_uri ref) - 5) (ar_uri ref) else ar_uri ref)
                      in Inr (map (\<lambda>rank. base @ ''.rank'' @ show_nat rank @ ''.bin'') [0..<nat n])))) (\<lambda>us.
     bindE (shard_grant_uris min_gpus sharding refs) (\<lambda>us'. Inr (us @ us')))"

definition output_grant_uris :: "JobManifestV3 \<Rightarrow> string list res" where
  "output_grant_uris m =
     bindE (dict_or_empty (get_none (mf_params m) ''output_sharding'')) (\<lambda>sharding.
     bindE (shard_grant_uris (rr_min_gpus (mf_resource_requirements m)) sharding (mf_outputs m)) (\<lambda>us.
       Inr (map ar_uri (mf_outputs m) @ us)))"

subsection \<open>Grants\<close>

definition make_grant ::
  "grant_broker \<Rightarrow> int \<Rightarrow> int \<Rightarrow> JobManifestV3 \<Rightarrow> string list res \<Rightarrow> string option \<Rightarrow> AssignmentGrantV3 res" where
  "make_grant b now ttl m out_uris receipt_uri =
     bindE (mapE (\<lambda>ref. gb_get_grant b now (ar_uri ref) ttl) (mf_inputs m)) (\<lambda>gets.
     bindE out_uris (\<lambda>uris.
     bindE (mapE (\<lambda>uri. gb_put_grant b now uri ttl None) uris) (\<lambda>puts.
     bindE (case receipt_uri of None \<Rightarrow> Inr None | Some u \<Rightarrow> bindE (gb_put_grant b now u ttl None) (\<lambda>g. Inr (Some g))) (\<lambda>receipt_put.
       Inr \<lparr>ag_job_id = mf_job_id m, ag_run_id = mf_run_id m, ag_assigned_hotkey = mf_assigned_hotkey m, ag_input_gets = gets,
            ag_output_puts = puts, ag_receipt_put = receipt_put, ag_created_unix = now, ag_expires_unix = now + ttl,
            ag_schema_version = 1\<rparr>))))"

text \<open>The resolver exists exactly when the scheme is \<^verbatim>\<open>ed25519\<close>; otherwise the dev cipher seals the grant.\<close>

definition seal_grant :: "emit_env \<Rightarrow> 'c emit_config_scheme \<Rightarrow> AssignmentGrantV3 \<Rightarrow> string \<Rightarrow> ('a emitter_scheme, EncryptedAssignmentGrantV3) sres" where
  "seal_grant E c grant hotkey s =
     (case em_resolver s of
        None \<Rightarrow> (Dev_encrypt_for_hotkey (ee_platform E) (ec_assignment_secret c) grant hotkey None None None, s)
      | Some R \<Rightarrow>
          (case resolve_hotkey (ee_platform E) (ee_btcli E) (ee_ss58 E) hotkey R of
             (r, R') \<Rightarrow>
               (bindE r (\<lambda>info. Ed25519_encrypt_for_hotkey (ee_platform E) (ee_nacl E) grant hotkey (Some (hm_uid info)) (hm_block info)
                  (Some (hm_metagraph_hash info)) (Some (KBytes (hm_public_key info)))), s\<lparr>em_resolver := Some R'\<rparr>)))"

definition store_grant ::
  "emit_env \<Rightarrow> 'c emit_config_scheme \<Rightarrow> string \<Rightarrow> string \<Rightarrow> AssignmentGrantV3 \<Rightarrow> ('a emitter_scheme, string option) sres" where
  "store_grant E c key hotkey grant =
     bindS (seal_grant E c grant hotkey) (\<lambda>encrypted s.
       bindS (put_jsonS (ee_platform E) (uri_of s key) (EncryptedAssignmentGrantV3_to_dict encrypted))
         (\<lambda>_. liftS (Inr (Some (uri_of s key)))) s)"

definition emit_assignment_grant :: "emit_env \<Rightarrow> 'c emit_config_scheme \<Rightarrow> JobManifestV3 \<Rightarrow> ('a emitter_scheme, string option) sres" where
  "emit_assignment_grant E c m s =
     (case em_broker s of
        None \<Rightarrow> (Inr None, s)
      | Some b \<Rightarrow>
          bindS (liftS (make_grant b (unix_of (em_now s)) (ec_grant_ttl_sec c) m (output_grant_uris m)
              (Some (uri_of s (receipt_key (ec_netuid c) (mf_run_id m) (mf_assigned_hotkey m) (mf_job_id m) (mf_attempt m))))))
            (store_grant E c (assignment_key (ec_netuid c) (mf_run_id m) (mf_job_id m) (mf_assigned_hotkey m)) (mf_assigned_hotkey m)) s)"

definition owner_of :: "'c emit_config_scheme \<Rightarrow> signer" where
  "owner_of c = (case ec_owner_signer c of Some s \<Rightarrow> s | None \<Rightarrow> Secret (ec_owner_secret c))"

definition default_verification :: "bool \<Rightarrow> VerificationPolicy" where
  "default_verification critical =
     \<lparr>vp_method = ''replay_ir_v1'', vp_comparator = ''auto'', vp_rtol = 1 / 1000, vp_atol = 1 / 10000,
      vp_max_sample_elements = 4096, vp_sample_seed = 0, vp_critical = critical\<rparr>"

text \<open>Storing a signed manifest, its grant and its queue entry.\<close>

definition publish_manifest ::
  "emit_env \<Rightarrow> (JobManifestV3 \<Rightarrow> ('a emitter_scheme, string option) sres) \<Rightarrow> string \<Rightarrow> JobManifestV3 \<Rightarrow> ('a emitter_scheme, JobManifestV3) sres" where
  "publish_manifest E grant uri m =
     bindS (put_jsonS (ee_platform E) uri (JobManifestV3_to_dict (ee_platform E) m)) (\<lambda>_.
     bindS (grant m) (\<lambda>grant_uri.
     bindS (queueS (add (QueueEntry_from_manifest m uri grant_uri))) (\<lambda>_. liftS (Inr m))))"

end
