(* ===== verification/Run_Manager.thy ===== *)
theory Run_Manager
  imports Emission
begin

text \<open>
  The run manager (\<^verbatim>\<open>teuton_orchestrator/run_manager.py\<close>): it bootstraps a run, waits for miners, and per step emits the
  forward, inner, reduce, outer and eval jobs, each batch after the outputs of the previous one exist. A training task
  (\<^verbatim>\<open>load_task\<close>, torch code) is a parameter: its sizes, graphs, graph builder and encoded initial weights.
\<close>

subsection \<open>State\<close>

record train_task =
  tk_N_UB :: nat
  tk_INNER_REPLICAS :: nat
  tk_graphs :: "(string \<times> Graph) list"
  tk_build_reduce_graph :: "nat \<Rightarrow> Graph"
  tk_initial_weights :: "bytes \<times> bytes"

record RunConfig = emit_config +
  cf_task :: string
  cf_max_steps :: int
  cf_crypto_policy :: "ArtifactCryptoPolicy option"
  cf_max_inflight_per_hotkey :: int

record run_manager = emitter +
  rm_emitted :: "string list"

definition RunManager_init ::
  "emit_env \<Rightarrow> (string \<Rightarrow> train_task res) \<Rightarrow> RunConfig \<Rightarrow> LocalBucket \<Rightarrow> pyfloat \<Rightarrow> pause list \<Rightarrow> (train_task \<times> run_manager) res" where
  "RunManager_init E load_task c st now pauses =
     bindE (load_task (cf_task c)) (\<lambda>tk.
     bindE (emitter_init E c ''train'' ''train'' st now pauses) (\<lambda>em.
       Inr (tk, emitter.extend em (run_manager.fields []))))"

subsection \<open>References\<close>

definition output_ref :: "RunConfig \<Rightarrow> string \<Rightarrow> string \<Rightarrow> ArtifactRef" where
  "output_ref c name uri = \<lparr>ar_name = name, ar_uri = uri, ar_sha256 = None, ar_size_bytes = None, ar_crypto = cf_crypto_policy c\<rparr>"

definition weight_ref :: "RunConfig \<Rightarrow> LocalBucket \<Rightarrow> string \<Rightarrow> int \<Rightarrow> int \<Rightarrow> ArtifactRef" where
  "weight_ref c st name step ub =
     \<lparr>ar_name = name, ar_uri = uri_for_key st (weights_key (ec_netuid c) (ec_run_id c) step ub), ar_sha256 = None, ar_size_bytes = None,
      ar_crypto = (if step > 0 then cf_crypto_policy c else None)\<rparr>"

definition plain_ref :: "string \<Rightarrow> string \<Rightarrow> ArtifactCryptoPolicy option \<Rightarrow> ArtifactRef" where
  "plain_ref name uri crypto = \<lparr>ar_name = name, ar_uri = uri, ar_sha256 = None, ar_size_bytes = None, ar_crypto = crypto\<rparr>"

subsection \<open>The saved state\<close>

definition save_state :: "emit_env \<Rightarrow> RunConfig \<Rightarrow> dict \<Rightarrow> (run_manager, unit) sres" where
  "save_state E c d s = put_jsonS (ee_platform E) (uri_of s (state_key (ec_netuid c) (ec_run_id c))) d s"

definition step_state :: "RunConfig \<Rightarrow> json \<Rightarrow> dict" where
  "step_state c step = [(''run_id'', JStr (ec_run_id c)), (''current_step'', step), (''max_steps'', JInt (cf_max_steps c))]"

definition load_state :: "emit_env \<Rightarrow> RunConfig \<Rightarrow> (run_manager, dict) sres" where
  "load_state E c s =
     (bindE (get_json (ee_platform E) LocalBucket_get (uri_of s (state_key (ec_netuid c) (ec_run_id c))) (em_bucket s)) as_mapping, s)"

definition bootstrap :: "emit_env \<Rightarrow> train_task \<Rightarrow> RunConfig \<Rightarrow> (run_manager, unit) sres" where
  "bootstrap E tk c s =
     (let key = uri_of s; n = ec_netuid c; r = ec_run_id c; P = ee_platform E
      in bindS (putS (key (weights_key n r 0 0)) (fst (tk_initial_weights tk))) (\<lambda>_.
         bindS (putS (key (weights_key n r 0 1)) (snd (tk_initial_weights tk))) (\<lambda>_.
         bindS (mapS (\<lambda>g. putS (key (graph_key n r (graph_id P g))) (Graph_to_canonical_json P g)) (map snd (tk_graphs tk))) (\<lambda>_.
         bindS (put_jsonS P (key (manifest_config_key n r))
                 [(''task'', JStr (cf_task c)), (''max_steps'', JInt (cf_max_steps c)), (''netuid'', JInt n)]) (\<lambda>_.
           save_state E c (step_state c (JInt 0)))))) s)"

subsection \<open>Workers\<close>

definition RunManager_discover_workers :: "emit_env \<Rightarrow> RunConfig \<Rightarrow> (run_manager, WorkerIdentity list) sres" where
  "RunManager_discover_workers E c s =
     bindS (liftS (discover_workers (ee_platform E) (em_now s) (discovery_backend_of c ''train'') (em_bucket s))) (learn_workers E) s"

definition wait_for_workers :: "emit_env \<Rightarrow> RunConfig \<Rightarrow> pyfloat \<Rightarrow> (run_manager, unit) sres" where
  "wait_for_workers E c deadline =
     poll deadline
       (bindS (RunManager_discover_workers E c) (\<lambda>workers.
          if workers \<noteq> [] then liftS (Inr (Some ()))
          else bindS (load_state E c) (\<lambda>d.
               bindS (save_state E c (step_state c (get_or d ''current_step'' (JInt 0)) @ [(''status'', JStr ''waiting_for_miners'')]))
                 (\<lambda>_. liftS (Inr None)))))
       (liftS (Inl (TimeoutError (''no miners heartbeated for run '' @ ec_run_id c))))"

definition RunManager_pick_worker :: "RunConfig \<Rightarrow> (run_manager, WorkerIdentity) sres" where
  "RunManager_pick_worker c = pickS None (below_inflight (cf_max_inflight_per_hotkey c))"

subsection \<open>Emitting a job\<close>

definition job_template ::
  "emit_env \<Rightarrow> RunConfig \<Rightarrow> int \<Rightarrow> string \<Rightarrow> int \<Rightarrow> string \<Rightarrow> string \<Rightarrow> dict \<Rightarrow> ArtifactRef list \<Rightarrow> ArtifactRef list \<Rightarrow> WorkerIdentity \<Rightarrow> string \<Rightarrow>
   ResourceRequirements \<Rightarrow> JobManifestV3" where
  "job_template E c now kind step sha graph_uri params inputs outputs worker job_id req =
     JobManifestV3_sign (ee_platform E) (owner_of c)
       \<lparr>mf_job_id = job_id, mf_run_id = ec_run_id c, mf_step_id = step, mf_kind = kind,
        mf_graph_ref = \<lparr>gr_sha256 = sha, gr_uri = graph_uri\<rparr>, mf_params = params, mf_inputs = inputs, mf_outputs = outputs,
        mf_assigned_hotkey = wi_hotkey_ss58 worker, mf_assigned_worker = Some (wi_worker_id worker), mf_attempt = 0,
        mf_deadline_unix = now + 600, mf_created_unix = now, mf_resource_requirements = req,
        mf_verification_policy = default_verification (kind = ''outer_step''), mf_owner_signature = None, mf_schema_version = 3\<rparr>"

definition store_graph :: "emit_env \<Rightarrow> string \<Rightarrow> Graph \<Rightarrow> (run_manager, unit) sres" where
  "store_graph E uri g =
     bindS (existsS uri) (\<lambda>ok. if ok then liftS (Inr ()) else putS uri (Graph_to_canonical_json (ee_platform E) g))"

definition emit_job ::
  "emit_env \<Rightarrow> RunConfig \<Rightarrow> string \<Rightarrow> int \<Rightarrow> Graph \<Rightarrow> dict \<Rightarrow> ArtifactRef list \<Rightarrow> ArtifactRef list \<Rightarrow> WorkerIdentity \<Rightarrow> string option \<Rightarrow>
   (run_manager, JobManifestV3) sres" where
  "emit_job E c kind step graph params inputs outputs worker jid s =
     (let now = unix_of (em_now s); sha = graph_id (ee_platform E) graph;
          graph_uri = uri_of s (graph_key (ec_netuid c) (ec_run_id c) sha);
          job_id = str_or jid (''step'' @ show_int step @ ''-'' @ kind);
          manifest_uri = uri_of s (job_manifest_key (ec_netuid c) (ec_run_id c) job_id)
      in bindS (store_graph E graph_uri graph) (\<lambda>_.
         bindS (liftS (resource_requirements params)) (\<lambda>req.
         bindS (liftS (mapE (\<lambda>ref. resolve_output_crypto ref worker) outputs)) (\<lambda>outs.
           let m = job_template E c now kind step sha graph_uri params inputs outs worker job_id req
           in bindS (put_jsonS (ee_platform E) manifest_uri (JobManifestV3_to_dict (ee_platform E) m)) (\<lambda>_.
              bindS (emit_assignment_grant E c m) (\<lambda>grant_uri.
              bindS (modifyS (\<lambda>s. s\<lparr>rm_emitted := rm_emitted s @ [job_id]\<rparr>)) (\<lambda>_.
              bindS (queueS (add (QueueEntry_from_manifest m manifest_uri grant_uri))) (\<lambda>_. liftS (Inr m)))))))) s)"

definition load_job :: "emit_env \<Rightarrow> RunConfig \<Rightarrow> string \<Rightarrow> (run_manager, JobManifestV3) sres" where
  "load_job E c job_id s =
     (load_manifest (ee_platform E) (uri_of s (job_manifest_key (ec_netuid c) (ec_run_id c) job_id)) (em_bucket s), s)"

definition graph_named :: "train_task \<Rightarrow> string \<Rightarrow> Graph res" where
  "graph_named tk name = (case map_of (tk_graphs tk) name of None \<Rightarrow> Inl (KeyError name) | Some g \<Rightarrow> Inr g)"

definition nth_ref :: "ArtifactRef list \<Rightarrow> nat \<Rightarrow> ArtifactRef res" where
  "nth_ref refs i = (if i < length refs then Inr (refs ! i) else Inl IndexError)"

subsection \<open>The jobs of a step\<close>

definition emit_forward :: "emit_env \<Rightarrow> train_task \<Rightarrow> RunConfig \<Rightarrow> int \<Rightarrow> (run_manager, JobManifestV3) sres" where
  "emit_forward E tk c step =
     bindS (RunManager_pick_worker c) (\<lambda>worker.
     bindS (liftS (graph_named tk ''forward'')) (\<lambda>g s.
       emit_job E c ''forward_pass'' step g [(''round_id'', JInt step)]
         (map (\<lambda>ub. weight_ref c (em_bucket s) (''weights_'' @ show_nat ub) step (int ub)) [0..<tk_N_UB tk])
         (map (\<lambda>ub. output_ref c (''target_'' @ show_nat ub) (uri_of s (target_key (ec_netuid c) (ec_run_id c) step (int ub)))) [0..<tk_N_UB tk])
         worker None s))"

definition forward_id :: "int \<Rightarrow> string" where
  "forward_id step = ''step'' @ show_int step @ ''-forward_pass''"

definition inner_id :: "int \<Rightarrow> nat \<Rightarrow> nat \<Rightarrow> string" where
  "inner_id step ub replica = ''step'' @ show_int step @ ''-ub'' @ show_nat ub @ ''-inner-r'' @ show_nat replica"

definition reduce_id :: "int \<Rightarrow> nat \<Rightarrow> string" where
  "reduce_id step ub = ''step'' @ show_int step @ ''-ub'' @ show_nat ub @ ''-reduce''"

definition outer_id :: "int \<Rightarrow> nat \<Rightarrow> string" where
  "outer_id step ub = ''step'' @ show_int step @ ''-ub'' @ show_nat ub @ ''-outer''"

definition eval_id :: "int \<Rightarrow> string" where
  "eval_id step = ''step'' @ show_int step @ ''-eval''"

definition job_artifact :: "RunConfig \<Rightarrow> LocalBucket \<Rightarrow> string \<Rightarrow> WorkerIdentity \<Rightarrow> string \<Rightarrow> ArtifactRef" where
  "job_artifact c st job_id w name =
     plain_ref name (uri_for_key st (artifact_key (ec_netuid c) (ec_run_id c) job_id (wi_hotkey_ss58 w) (wi_worker_id w) 0 name ''.bin'')) (cf_crypto_policy c)"

definition emit_inner :: "emit_env \<Rightarrow> train_task \<Rightarrow> RunConfig \<Rightarrow> int \<Rightarrow> nat \<Rightarrow> nat \<Rightarrow> (run_manager, JobManifestV3) sres" where
  "emit_inner E tk c step ub replica =
     bindS (RunManager_pick_worker c) (\<lambda>worker.
     bindS (load_job E c (forward_id step)) (\<lambda>forward_job.
     bindS (liftS (nth_ref (mf_outputs forward_job) ub)) (\<lambda>target.
     bindS (liftS (graph_named tk ''inner'')) (\<lambda>g s.
       emit_job E c ''inner_step'' step g [(''ub'', JInt (int ub)), (''replica'', JInt (int replica))]
         [weight_ref c (em_bucket s) ''weights'' step (int ub), plain_ref ''target'' (ar_uri target) (ar_crypto target)]
         [job_artifact c (em_bucket s) (inner_id step ub replica) worker ''delta''] worker (Some (inner_id step ub replica)) s))))"

definition inner_mark :: "int \<Rightarrow> nat \<Rightarrow> string" where
  "inner_mark step ub = ''step'' @ show_int step @ ''-ub'' @ show_nat ub @ ''-inner''"

definition gather_deltas :: "emit_env \<Rightarrow> RunConfig \<Rightarrow> int \<Rightarrow> nat \<Rightarrow> (run_manager, ArtifactRef list) sres" where
  "gather_deltas E c step ub s =
     bindS (mapS (\<lambda>jid. bindS (load_job E c jid) (\<lambda>m. liftS (Inr (mf_outputs m)))) (filter (\<lambda>jid. contains jid (inner_mark step ub)) (rm_emitted s)))
       (\<lambda>outs. liftS (Inr (concat outs))) s"

definition emit_reduce :: "emit_env \<Rightarrow> train_task \<Rightarrow> RunConfig \<Rightarrow> int \<Rightarrow> nat \<Rightarrow> (run_manager, JobManifestV3) sres" where
  "emit_reduce E tk c step ub =
     bindS (RunManager_pick_worker c) (\<lambda>worker.
     bindS (gather_deltas E c step ub) (\<lambda>deltas s.
       emit_job E c ''reduce'' step (tk_build_reduce_graph tk (length deltas))
         [(''ub'', JInt (int ub)), (''n_inputs'', JInt (int (length deltas)))]
         (map (\<lambda>(i, ref). plain_ref (''d_'' @ show_nat i) (ar_uri ref) (ar_crypto ref)) (enumerate 0 deltas))
         [job_artifact c (em_bucket s) (reduce_id step ub) worker ''reduced''] worker (Some (reduce_id step ub)) s))"

definition emit_outer :: "emit_env \<Rightarrow> train_task \<Rightarrow> RunConfig \<Rightarrow> int \<Rightarrow> nat \<Rightarrow> (run_manager, JobManifestV3) sres" where
  "emit_outer E tk c step ub =
     bindS (RunManager_pick_worker c) (\<lambda>worker.
     bindS (load_job E c (reduce_id step ub)) (\<lambda>reduce_job.
     bindS (liftS (nth_ref (mf_outputs reduce_job) 0)) (\<lambda>reduced.
     bindS (liftS (graph_named tk ''outer'')) (\<lambda>g s.
       emit_job E c ''outer_step'' step g [(''ub'', JInt (int ub))]
         [weight_ref c (em_bucket s) ''weights'' step (int ub), plain_ref ''reduced_delta'' (ar_uri reduced) None]
         [output_ref c ''new_weights'' (uri_of s (weights_key (ec_netuid c) (ec_run_id c) (step + 1) (int ub)))]
         worker (Some (outer_id step ub)) s))))"

definition emit_eval :: "emit_env \<Rightarrow> train_task \<Rightarrow> RunConfig \<Rightarrow> int \<Rightarrow> (run_manager, JobManifestV3) sres" where
  "emit_eval E tk c step =
     bindS (RunManager_pick_worker c) (\<lambda>worker.
     bindS (liftS (graph_named tk ''eval'')) (\<lambda>g s.
       emit_job E c ''eval'' step g [(''round_id'', JInt (step + 1))]
         (map (\<lambda>ub. weight_ref c (em_bucket s) (''weights_'' @ show_nat ub) (step + 1) (int ub)) [0..<tk_N_UB tk])
         [output_ref c ''metrics'' (uri_of s (run_root (ec_netuid c) (ec_run_id c) @ ''/metrics/step='' @ show_int step @ ''.json''))]
         worker (Some (eval_id step)) s))"

subsection \<open>Waiting and stepping\<close>

definition settle_job :: "JobManifestV3 \<Rightarrow> (run_manager, unit) sres" where
  "settle_job m =
     bindS (quotaS (release (mf_assigned_hotkey m) 1)) (\<lambda>_. queueS (\<lambda>q. snd (remove (mf_job_id m) q)))"

definition mark_stale :: "emit_env \<Rightarrow> RunConfig \<Rightarrow> JobManifestV3 \<Rightarrow> (run_manager, unit) sres" where
  "mark_stale E c m s =
     put_jsonS (ee_platform E) (uri_of s (jobs_prefix (ec_netuid c) (ec_run_id c) @ mf_job_id m @ ''/stale.json''))
       [(''job_id'', JStr (mf_job_id m)), (''stale_unix'', JInt (unix_of (em_now s))), (''reason'', JStr ''output_timeout'')] s"

definition wait_outputs :: "emit_env \<Rightarrow> RunConfig \<Rightarrow> JobManifestV3 \<Rightarrow> (run_manager, unit) sres" where
  "wait_outputs E c m s =
     poll (em_now s + 180)
       (\<lambda>s. bindS (liftS (all_exist (map ar_uri (mf_outputs m)) (em_bucket s))) (\<lambda>ok.
          if ok then bindS (settle_job m) (\<lambda>_. liftS (Inr (Some ()))) else liftS (Inr None)) s)
       (bindS (settle_job m) (\<lambda>_. bindS (mark_stale E c m) (\<lambda>_.
          liftS (Inl (TimeoutError (''timed out waiting for '' @ mf_job_id m)))))) s"

definition wait_all :: "emit_env \<Rightarrow> RunConfig \<Rightarrow> JobManifestV3 list \<Rightarrow> (run_manager, unit) sres" where
  "wait_all E c ms = bindS (mapS (wait_outputs E c) ms) (\<lambda>_. liftS (Inr ()))"

definition run_step :: "emit_env \<Rightarrow> train_task \<Rightarrow> RunConfig \<Rightarrow> int \<Rightarrow> (run_manager, unit) sres" where
  "run_step E tk c step =
     (let ubs = [0..<tk_N_UB tk]
      in bindS (emit_forward E tk c step) (\<lambda>fwd.
         bindS (wait_outputs E c fwd) (\<lambda>_.
         bindS (mapS (\<lambda>(ub, replica). emit_inner E tk c step ub replica) (List.product ubs [0..<tk_INNER_REPLICAS tk])) (\<lambda>inners.
         bindS (wait_all E c inners) (\<lambda>_.
         bindS (mapS (emit_reduce E tk c step) ubs) (\<lambda>reduces.
         bindS (wait_all E c reduces) (\<lambda>_.
         bindS (mapS (emit_outer E tk c step) ubs) (\<lambda>outers.
         bindS (wait_all E c outers) (\<lambda>_.
         bindS (emit_eval E tk c step) (wait_outputs E c))))))))))"

definition stop_manager :: "emit_env \<Rightarrow> run_manager \<Rightarrow> run_manager" where
  "stop_manager E s =
     (let t = unix_of (em_now s); ns = ns_of (em_now s)
      in case stop_queue (ee_platform E) \<lparr>fc_snapshot1 = t, fc_write1 = ns, fc_snapshot2 = t, fc_write2 = ns\<rparr> True (em_queue s) (em_bucket s) of
           (q, st) \<Rightarrow> s\<lparr>em_queue := q, em_bucket := st\<rparr>)"

definition run_round :: "emit_env \<Rightarrow> train_task \<Rightarrow> RunConfig \<Rightarrow> pyfloat \<Rightarrow> (run_manager, unit option) sres" where
  "run_round E tk c deadline =
     bindS (wait_for_workers E c deadline) (\<lambda>_.
     bindS (load_state E c) (\<lambda>d.
     bindS (liftS (py_int (get_or d ''current_step'' (JInt 0)))) (\<lambda>step.
       if step \<ge> cf_max_steps c then liftS (Inr (Some ()))
       else bindS (run_step E tk c step) (\<lambda>_.
            bindS (save_state E c (step_state c (JInt (step + 1)))) (\<lambda>_. liftS (Inr None))))))"

text \<open>The body of the \<^verbatim>\<open>try\<close> in \<^verbatim>\<open>run_loop\<close>, and the loop with its \<^verbatim>\<open>finally\<close>.\<close>

definition run_rounds :: "emit_env \<Rightarrow> train_task \<Rightarrow> RunConfig \<Rightarrow> pyfloat \<Rightarrow> (run_manager, unit) sres" where
  "run_rounds E tk c deadline =
     poll deadline (run_round E tk c deadline) (liftS (Inl (TimeoutError (''orchestrator timed out for run '' @ ec_run_id c))))"

definition run_loop :: "emit_env \<Rightarrow> train_task \<Rightarrow> RunConfig \<Rightarrow> pyfloat \<Rightarrow> (run_manager, unit) sres" where
  "run_loop E tk c timeout_sec =
     bindS (\<lambda>s. existsS (uri_of s (state_key (ec_netuid c) (ec_run_id c))) s) (\<lambda>ok.
     bindS (if ok then liftS (Inr ()) else bootstrap E tk c) (\<lambda>_ s.
       case run_rounds E tk c (em_now s + timeout_sec) s of (r, s') \<Rightarrow> (r, stop_manager E s')))"

end
