(* ===== verification/Emission_Logic.thy ===== *)
theory Emission_Logic
  imports Emission
begin

text \<open>
  Reasoning about emitters: a triple for computations that may raise, the rule of the waiting loop, what a write to the
  bucket leaves alone, and the frame of the operations every emitter uses.
\<close>

subsection \<open>Triples\<close>

text \<open>From \<open>Pre\<close> the computation ends in \<open>Post\<close> of its value, or raises in a state where \<open>Exc\<close> holds.\<close>

definition valid :: "('s \<Rightarrow> bool) \<Rightarrow> ('s, 'a) sres \<Rightarrow> ('a \<Rightarrow> 's \<Rightarrow> bool) \<Rightarrow> ('s \<Rightarrow> bool) \<Rightarrow> bool" where
  "valid Pre m Post Exc \<longleftrightarrow> (\<forall>s. Pre s \<longrightarrow> (case m s of (Inl _, s') \<Rightarrow> Exc s' | (Inr a, s') \<Rightarrow> Post a s'))"

lemma validI:
  assumes "\<And>s e s'. Pre s \<Longrightarrow> m s = (Inl e, s') \<Longrightarrow> Exc s'" "\<And>s a s'. Pre s \<Longrightarrow> m s = (Inr a, s') \<Longrightarrow> Post a s'"
  shows "valid Pre m Post Exc"
  using assms by (auto simp: valid_def split: prod.splits sum.splits)

lemma valid_Inr: "valid Pre m Post Exc \<Longrightarrow> Pre s \<Longrightarrow> m s = (Inr a, s') \<Longrightarrow> Post a s'"
  by (fastforce simp: valid_def)

lemma valid_Inl: "valid Pre m Post Exc \<Longrightarrow> Pre s \<Longrightarrow> m s = (Inl e, s') \<Longrightarrow> Exc s'"
  by (fastforce simp: valid_def)

lemma valid_either: "valid Pre m (\<lambda>_. Q) Q \<Longrightarrow> Pre s \<Longrightarrow> Q (snd (m s))"
  by (cases "m s") (auto simp: valid_def split: sum.splits dest!: spec [of _ s])

lemma valid_bind:
  assumes "valid Pre m Mid Exc" "\<And>a. valid (Mid a) (f a) Post Exc"
  shows "valid Pre (bindS m f) Post Exc"
  using assms by (fastforce simp: valid_def bindS_def split: prod.splits sum.splits)

lemma valid_lift: "(\<And>s e. Pre s \<Longrightarrow> r = Inl e \<Longrightarrow> Exc s) \<Longrightarrow> (\<And>s a. Pre s \<Longrightarrow> r = Inr a \<Longrightarrow> Post a s) \<Longrightarrow> valid Pre (liftS r) Post Exc"
  by (auto simp: valid_def liftS_def split: sum.splits)

lemma valid_weaken:
  assumes "valid Pre m Post Exc" "\<And>s. Pre' s \<Longrightarrow> Pre s" "\<And>a s. Post a s \<Longrightarrow> Post' a s" "\<And>s. Exc s \<Longrightarrow> Exc' s"
  shows "valid Pre' m Post' Exc'"
  using assms by (fastforce simp: valid_def split: prod.splits sum.splits)

lemma valid_pre: "(\<And>s. Pre s \<Longrightarrow> valid (\<lambda>t. t = s) m Post Exc) \<Longrightarrow> valid Pre m Post Exc"
  by (auto simp: valid_def)

text \<open>The loops of \<open>mapS\<close>: \<open>I\<close> is indexed by the elements done and their results.\<close>

lemma valid_mapS:
  assumes "\<And>ys x zs rs. xs = ys @ x # zs \<Longrightarrow> valid (I ys rs) (f x) (\<lambda>r. I (ys @ [x]) (rs @ [r])) Exc"
  shows "valid (I [] []) (mapS f xs) (I xs) Exc"
proof -
  have *: "xs = ys @ zs \<Longrightarrow> valid (I ys rs) (mapS f zs) (\<lambda>out. I xs (rs @ out)) Exc" for ys zs rs
  proof (induction zs arbitrary: ys rs)
    case Nil
    then show ?case by (auto simp: valid_def)
  next
    case (Cons z zs)
    have "valid (I ys rs) (bindS (f z) (\<lambda>y. bindS (mapS f zs) (\<lambda>ys. liftS (Inr (y # ys))))) (\<lambda>out. I xs (rs @ out)) Exc"
    proof (rule valid_bind [OF assms [OF Cons.prems]])
      fix r
      show "valid (I (ys @ [z]) (rs @ [r])) (bindS (mapS f zs) (\<lambda>ys. liftS (Inr (r # ys)))) (\<lambda>out. I xs (rs @ out)) Exc"
        using Cons.prems by (intro valid_bind [OF Cons.IH] valid_lift) auto
    qed
    then show ?case by (simp add: valid_def)
  qed
  from * [of "[]" xs "[]"] show ?thesis by simp
qed

subsection \<open>Waiting\<close>

text \<open>A pause is steady for \<open>R\<close> when what the others do to bucket and queue stays in \<open>R\<close>.\<close>

definition steady :: "(LocalBucket \<times> OrchestratorQueue \<Rightarrow> LocalBucket \<times> OrchestratorQueue \<Rightarrow> bool) \<Rightarrow> 'a emitter_scheme \<Rightarrow> bool" where
  "steady R s \<longleftrightarrow> (\<forall>p \<in> set (em_pauses s). \<forall>x. R x (ps_effect p x))"

definition stable :: "(LocalBucket \<times> OrchestratorQueue \<Rightarrow> LocalBucket \<times> OrchestratorQueue \<Rightarrow> bool) \<Rightarrow> ('a emitter_scheme \<Rightarrow> bool) \<Rightarrow> bool" where
  "stable R I \<longleftrightarrow> (\<forall>s st q now ps. I s \<longrightarrow> R (em_bucket s, em_queue s) (st, q) \<longrightarrow>
     I (s\<lparr>em_bucket := st, em_queue := q, em_now := now, em_pauses := ps\<rparr>))"

lemma stable_sleep:
  assumes "stable R I"
  shows "valid (\<lambda>s. I s \<and> steady R s) sleep (\<lambda>_ s. I s \<and> steady R s) (\<lambda>s. I s \<and> steady R s)"
  using assms by (auto simp: valid_def sleep_def resume_def steady_def stable_def split: list.splits prod.splits) (metis (mono_tags))

lemma valid_poll:
  assumes "stable R I"
    and body: "valid (\<lambda>s. I s \<and> steady R s) body (\<lambda>r s. case r of Some v \<Rightarrow> Post v s | None \<Rightarrow> I s \<and> steady R s) Exc"
    and late: "valid (\<lambda>s. I s \<and> steady R s) late Post Exc" and blocked: "\<And>s. I s \<Longrightarrow> steady R s \<Longrightarrow> Exc s"
  shows "valid (\<lambda>s. I s \<and> steady R s) (poll deadline body late) Post Exc"
proof -
  have "valid (\<lambda>s. I s \<and> steady R s) (poll_rounds n deadline body late) Post Exc" for n
  proof (induction n)
    case 0
    then show ?case using blocked by (auto simp: valid_def)
  next
    case (Suc n)
    have sl: "valid (\<lambda>s. I s \<and> steady R s) sleep (\<lambda>_ s. I s \<and> steady R s) Exc"
      using blocked by (intro valid_weaken [OF stable_sleep [OF assms(1)]]) auto
    have "valid (\<lambda>s. I s \<and> steady R s) (bindS body (\<lambda>r. case r of Some v \<Rightarrow> liftS (Inr v)
                         | None \<Rightarrow> bindS sleep (\<lambda>_. poll_rounds n deadline body late))) Post Exc"
    proof (rule valid_bind [OF body])
      fix r
      show "valid (\<lambda>s. case r of Some v \<Rightarrow> Post v s | None \<Rightarrow> I s \<and> steady R s)
          (case r of Some v \<Rightarrow> liftS (Inr v) | None \<Rightarrow> bindS sleep (\<lambda>_. poll_rounds n deadline body late)) Post Exc"
        by (cases r) (auto intro: valid_bind [OF sl Suc] valid_lift)
    qed
    with late show ?case by (auto simp: valid_def)
  qed
  then show ?thesis unfolding valid_def poll_def by (simp del: poll_rounds.simps)
qed

text \<open>How a waiting loop can end, from a state with the loop's invariant.\<close>

lemma poll_ends_inv:
  assumes "poll deadline body late s = (r, s')" "I s"
    and body: "\<And>t t'. I t \<Longrightarrow> body t = (Inr None, t') \<Longrightarrow> I t'" and pause: "\<And>t p ps. I t \<Longrightarrow> I (resume p ps t)"
  obtains (returned) t v where "I t" "em_now t < deadline" "body t = (Inr (Some v), s')" "r = Inr v"
    | (raised) t e where "I t" "em_now t < deadline" "body t = (Inl e, s')" "r = Inl e"
    | (expired) t where "I t" "deadline \<le> em_now t" "late t = (r, s')"
    | (blocked) "r = Inl Blocked"
proof -
  define fin where "fin \<longleftrightarrow> (\<exists>t v. I t \<and> em_now t < deadline \<and> body t = (Inr (Some v), s') \<and> r = Inr v) \<or>
    (\<exists>t e. I t \<and> em_now t < deadline \<and> body t = (Inl e, s') \<and> r = Inl e) \<or> (\<exists>t. I t \<and> deadline \<le> em_now t \<and> late t = (r, s')) \<or> r = Inl Blocked"
  have "fin" if "poll_rounds n deadline body late t = (r, s')" "I t" for n t
    using that
  proof (induction n arbitrary: t)
    case (Suc n)
    obtain x t1 where b: "body t = (x, t1)" by fastforce
    from Suc.prems(1) b consider (late) "deadline \<le> em_now t" "late t = (r, s')"
      | (err) e where "em_now t < deadline" "x = Inl e" "r = Inl e" "s' = t1" | (val) v where "em_now t < deadline" "x = Inr (Some v)" "r = Inr v" "s' = t1"
      | (stuck) "x = Inr None" "r = Inl Blocked"
      | (again) p ps where "x = Inr None" "poll_rounds n deadline body late (resume p ps t1) = (r, s')"
      by (cases "em_pauses t1") (auto simp: bindS_def liftS_def sleep_def split: sum.splits option.splits if_splits)
    then show ?case
    proof cases
      case again
      then show ?thesis using Suc.IH pause [OF body [OF Suc.prems(2)]] b by blast
    qed (use Suc.prems(2) b in \<open>auto simp: fin_def\<close>)
  qed (simp add: fin_def)
  from this [OF assms(1) [unfolded poll_def] assms(2)] show thesis using that unfolding fin_def by blast
qed

text \<open>One round more than there are pauses is enough: a longer run of the loop is the same.\<close>

lemma poll_rounds_enough:
  assumes "\<And>s. length (em_pauses (snd (body s))) \<le> length (em_pauses s)" "length (em_pauses s) < n" "n \<le> k"
  shows "poll_rounds k deadline body late s = poll_rounds n deadline body late s"
  using assms(2,3)
proof (induction n arbitrary: k s)
  case (Suc n)
  then obtain k' where k: "k = Suc k'" by (cases k) auto
  have "poll_rounds k' deadline body late s2 = poll_rounds n deadline body late s2"
    if "body s = (Inr None, s1)" "sleep s1 = (Inr u, s2)" for s1 s2 u
  proof (rule Suc.IH)
    have "length (em_pauses s1) \<le> length (em_pauses s)" using assms(1) [of s] that by simp
    moreover have "length (em_pauses s2) < length (em_pauses s1)"
      using that(2) by (auto simp: sleep_def resume_def split: list.splits prod.splits)
    ultimately show "length (em_pauses s2) < n" using Suc.prems(1) by simp
  qed (use Suc.prems k in simp)
  then show ?case unfolding k by (auto simp: bindS_def liftS_def split: prod.splits sum.splits option.splits)
qed simp

text \<open>Hence the loop unfolds like Python's \<^verbatim>\<open>while\<close>.\<close>

lemma poll_unfold:
  assumes "\<And>s. length (em_pauses (snd (body s))) \<le> length (em_pauses s)"
  shows "poll deadline body late s =
     (if em_now s < deadline
      then bindS body (\<lambda>r. case r of Some v \<Rightarrow> liftS (Inr v) | None \<Rightarrow> bindS sleep (\<lambda>_. poll deadline body late)) s
      else late s)"
proof -
  have "poll_rounds (length (em_pauses s)) deadline body late s2 = poll deadline body late s2"
    if "body s = (Inr None, s1)" "sleep s1 = (Inr u, s2)" for s1 s2 u
  proof -
    have "length (em_pauses s1) \<le> length (em_pauses s)" using assms [of s] that by simp
    moreover have "length (em_pauses s2) < length (em_pauses s1)"
      using that(2) by (auto simp: sleep_def resume_def split: list.splits prod.splits)
    ultimately show ?thesis unfolding poll_def by (intro poll_rounds_enough [OF assms]) auto
  qed
  then show ?thesis
    by (subst poll_def) (auto simp: bindS_def liftS_def split: prod.splits sum.splits option.splits)
qed

subsection \<open>Writes\<close>

text \<open>From \<open>st\<close> to \<open>st'\<close> only objects whose keys are in \<open>K\<close> were written, and nothing was removed.\<close>

definition wrote :: "string set \<Rightarrow> LocalBucket \<Rightarrow> LocalBucket \<Rightarrow> bool" where
  "wrote K st st' \<longleftrightarrow> lb_bucket st' = lb_bucket st \<and> fst ` set (lb_objects st) \<subseteq> fst ` set (lb_objects st') \<and>
     (\<forall>b k. k \<notin> K \<longrightarrow> map_of (lb_objects st') (b, k) = map_of (lb_objects st) (b, k))"

lemma wrote_refl [simp]: "wrote K st st"
  by (simp add: wrote_def)

lemma wrote_trans [trans]: "wrote K st st' \<Longrightarrow> wrote K st' st'' \<Longrightarrow> wrote K st st''"
  by (auto simp: wrote_def intro: subsetD)

lemma wrote_mono: "wrote K st st' \<Longrightarrow> K \<subseteq> K' \<Longrightarrow> wrote K' st st'"
  unfolding wrote_def by (meson subsetD)

lemma wrote_put:
  assumes "LocalBucket_put now u d st = Inr st'" "\<And>b k. parse_uri u = Inr (b, k) \<Longrightarrow> k \<in> K"
  shows "wrote K st st'"
proof -
  obtain b k where p: "parse_uri u = Inr (b, k)" and s': "st' = st\<lparr>lb_objects := AList.update (b, k) (d, now) (lb_objects st)\<rparr>"
    using assms(1) by (auto simp: LocalBucket_put_def bindE_eq_Inr)
  show ?thesis using assms(2) [OF p] by (auto simp: wrote_def s' dom_update)
qed

lemma exists_iff:
  "LocalBucket_exists u st = Inr True \<longleftrightarrow>
     (\<exists>b k. parse_uri u = Inr (b, k) \<and> ((b, k) \<in> fst ` set (lb_objects st) \<or> k = [] \<or>
        (\<exists>k'. (b, k') \<in> fst ` set (lb_objects st) \<and> starts_with k' (dir_key k))))"
proof (cases "parse_uri u")
  case (Inr a)
  then obtain b k where "parse_uri u = Inr (b, k)" by (cases a) auto
  moreover have "is_dir b k st \<longleftrightarrow> k = [] \<or> (\<exists>k'. (b, k') \<in> fst ` set (lb_objects st) \<and> starts_with k' (dir_key k))"
    by (force simp: is_dir_def image_iff)
  ultimately show ?thesis by (simp add: LocalBucket_exists_def map_of_eq_None_iff)
qed (simp add: LocalBucket_exists_def)

lemma wrote_exists: "wrote K st st' \<Longrightarrow> LocalBucket_exists u st = Inr True \<Longrightarrow> LocalBucket_exists u st' = Inr True"
  unfolding wrote_def exists_iff by blast

lemma put_exists: "LocalBucket_put now u d st = Inr st' \<Longrightarrow> LocalBucket_exists u st' = Inr True"
  by (auto simp: LocalBucket_put_def LocalBucket_exists_def bindE_eq_Inr)

lemma wrote_get: "wrote K st st' \<Longrightarrow> parse_uri u = Inr (b, k) \<Longrightarrow> k \<notin> K \<Longrightarrow> LocalBucket_get u st' = LocalBucket_get u st"
  by (auto simp: wrote_def LocalBucket_get_def obj_at_def)

lemma wrote_load: "wrote K st st' \<Longrightarrow> parse_uri u = Inr (b, k) \<Longrightarrow> k \<notin> K \<Longrightarrow> load_record P dec u st' = load_record P dec u st"
  by (simp add: load_record_def get_json_def wrote_get)

lemma all_exist_iff: "all_exist us st = Inr True \<longleftrightarrow> (\<forall>u \<in> set us. LocalBucket_exists u st = Inr True)"
  by (induction us) (auto simp: bindE_eq_Inr)

text \<open>Where a key can end up: its newline-free prefix stays.\<close>

lemma parse_uri_prefix:
  assumes "parse_uri (join_uri b (p @ x)) = Inr (b', k)" "CHR 0x0A \<notin> set p" "bucket_name b"
  shows "b' = b \<and> starts_with k p"
proof -
  have "takeWhile (\<lambda>c. c \<noteq> CHR ''/'') (b @ CHR ''/'' # p @ x) = b"
    using assms(3) by (auto simp: bucket_name_def takeWhile_append)
  then have "b' = b \<and> k = takeWhile (\<lambda>c. c \<noteq> CHR 0x0A) (p @ x)"
    using assms(1) by (auto simp: parse_uri_def join_uri_def Let_def starts_with_def split: if_splits)
  moreover have "takeWhile (\<lambda>c. c \<noteq> CHR 0x0A) (p @ x) = p @ takeWhile (\<lambda>c. c \<noteq> CHR 0x0A) x"
    using assms(2) by (auto simp: takeWhile_append)
  ultimately show ?thesis by simp
qed

subsection \<open>Frames\<close>

text \<open>The computation writes only keys in \<open>K\<close> and leaves quota, queue and pauses alone.\<close>

definition frame :: "string set \<Rightarrow> ('a emitter_scheme, 'r) sres \<Rightarrow> 'a emitter_scheme \<Rightarrow> bool" where
  "frame K m s \<longleftrightarrow>
     (let s' = snd (m s)
      in wrote K (em_bucket s) (em_bucket s') \<and>
         s' = s\<lparr>em_bucket := em_bucket s', em_resolver := em_resolver s'\<rparr>)"

lemma frame_bind:
  assumes "frame K m s" "\<And>a s'. m s = (Inr a, s') \<Longrightarrow> frame K (f a) s'"
  shows "frame K (bindS m f) s"
proof (cases "m s")
  case (Pair r s1)
  show ?thesis
  proof (cases r)
    case (Inl e)
    with assms(1) Pair show ?thesis by (simp add: frame_def bindS_def Let_def)
  next
    case (Inr a)
    obtain r2 s2 where f: "f a s1 = (r2, s2)" by fastforce
    from assms(2) [OF Pair [unfolded Inr]] f have 2: "wrote K (em_bucket s1) (em_bucket s2)"
      "s2 = s1\<lparr>em_bucket := em_bucket s2, em_resolver := em_resolver s2\<rparr>" by (simp_all add: frame_def Let_def)
    from assms(1) Pair have 1: "wrote K (em_bucket s) (em_bucket s1)"
      "s1 = s\<lparr>em_bucket := em_bucket s1, em_resolver := em_resolver s1\<rparr>" by (simp_all add: frame_def Let_def)
    have "s2 = s\<lparr>em_bucket := em_bucket s2, em_resolver := em_resolver s2\<rparr>"
      by (subst 2(2), subst 1(2)) simp
    with wrote_trans [OF 1(1) 2(1)] show ?thesis by (simp add: frame_def bindS_def Let_def Pair Inr f)
  qed
qed

lemma frameD:
  assumes "frame K m s" "m s = (r, s')"
  shows "wrote K (em_bucket s) (em_bucket s')" "em_quota s' = em_quota s" "em_pauses s' = em_pauses s" "em_queue s' = em_queue s" "em_now s' = em_now s"
    "em_broker s' = em_broker s"
proof -
  from assms have s': "s' = s\<lparr>em_bucket := em_bucket s', em_resolver := em_resolver s'\<rparr>" and "wrote K (em_bucket s) (em_bucket s')"
    by (simp_all add: frame_def Let_def)
  then show "wrote K (em_bucket s) (em_bucket s')" by simp
  show "em_quota s' = em_quota s" "em_pauses s' = em_pauses s" "em_queue s' = em_queue s" "em_now s' = em_now s" "em_broker s' = em_broker s"
    by (subst s', simp)+
qed

lemma frame_lift [simp]: "frame K (liftS r) s"
  by (simp add: frame_def liftS_def)

lemma frame_at: "frame K (f s) s \<Longrightarrow> frame K (\<lambda>t. f t t) s"
  by (simp add: frame_def)

lemma frame_put: "(\<And>b k. parse_uri u = Inr (b, k) \<Longrightarrow> k \<in> K) \<Longrightarrow> frame K (putS u d) s"
  by (auto simp: frame_def putS_def intro: wrote_put split: sum.splits)

lemma put_jsonS_putS: "put_jsonS P u d = putS u (utf8_encode (dumps P True (JObj d)))"
  by (rule ext) (simp add: put_jsonS_def putS_def put_json_def)

lemma frame_put_json: "(\<And>b k. parse_uri u = Inr (b, k) \<Longrightarrow> k \<in> K) \<Longrightarrow> frame K (put_jsonS P u d) s"
  by (simp add: put_jsonS_putS frame_put)

lemma frame_exists [simp]: "frame K (existsS u) s"
  by (simp add: frame_def existsS_def)

lemma frame_seal: "frame K (seal_grant E c g hk) s"
  by (auto simp: frame_def seal_grant_def split: option.splits prod.splits)

text \<open>Where the grant of a job is written.\<close>

definition below :: "string \<Rightarrow> string set" where
  "below p = {k. starts_with k p}"

lemma newline_free_root [simp]: "CHR 0x0A \<notin> set (root n)"
  using show_int_chars [of "CHR 0x0A" n] by (auto simp: root_def is_digit_def)

lemma frame_store_grant:
  assumes "\<And>b k. parse_uri (uri_of s key) = Inr (b, k) \<Longrightarrow> k \<in> K"
  shows "frame K (store_grant E c key hk g) s"
  unfolding store_grant_def
proof (rule frame_bind [OF frame_seal])
  fix a s' assume "seal_grant E c g hk s = (Inr a, s')"
  then have "em_bucket s' = em_bucket s"
    using frame_seal [of "{}" E c g hk s] by (auto simp: seal_grant_def split: option.splits prod.splits)
  then show "frame K (\<lambda>s. bindS (put_jsonS (ee_platform E) (uri_of s key) (EncryptedAssignmentGrantV3_to_dict a))
      (\<lambda>_. liftS (Inr (Some (uri_of s key)))) s) s'"
    using assms by - (rule frame_at, rule frame_bind [OF frame_put_json frame_lift], simp add: uri_of_def)
qed

lemma frame_lift_bind: "(\<And>a. frame K (f a) s) \<Longrightarrow> frame K (bindS (liftS r) f) s"
  by (rule frame_bind [OF frame_lift]) (auto simp: liftS_def)

lemma frame_grant:
  assumes "CHR 0x0A \<notin> set (mf_run_id m)" "bucket_name (lb_bucket (em_bucket s))"
  shows "frame (below (root (ec_netuid c) @ ''/assignments/'')) (emit_assignment_grant E c m) s"
proof -
  let ?key = "assignment_key (ec_netuid c) (mf_run_id m) (mf_job_id m) (mf_assigned_hotkey m)"
  have "frame (below (root (ec_netuid c) @ ''/assignments/'')) (store_grant E c ?key (mf_assigned_hotkey m) g) s" for g
  proof (rule frame_store_grant)
    fix b k assume "parse_uri (uri_of s ?key) = Inr (b, k)"
    then show "k \<in> below (root (ec_netuid c) @ ''/assignments/'')"
      using parse_uri_prefix [of "lb_bucket (em_bucket s)" "root (ec_netuid c) @ ''/assignments/''"
          "mf_run_id m @ ''/'' @ mf_job_id m @ ''/hotkey='' @ mf_assigned_hotkey m @ ''.json''" b k] assms
      by (simp add: below_def uri_of_def uri_for_key_def assignment_key_def)
  qed
  then have "frame (below (root (ec_netuid c) @ ''/assignments/'')) (bindS (liftS r) (store_grant E c ?key (mf_assigned_hotkey m))) s" for r
    by (rule frame_lift_bind)
  then show ?thesis by (cases "em_broker s") (simp_all add: frame_def emit_assignment_grant_def)
qed

subsection \<open>Outstanding entries of a hotkey\<close>

lemma length_filter_update: "length (filter f (AList.update j e d)) \<le> length (filter f d) + (if f (j, e) then 1 else 0)"
  by (induction d) auto

lemma depth_add: "depth (Some hk) (add e q) \<le> depth (Some hk) q + (if qe_assigned_hotkey e = hk then 1 else 0)"
  using length_filter_update [of "\<lambda>(_, e). qe_assigned_hotkey e = hk" "qe_job_id e" e "oq_outstanding q"]
  by (simp add: depth_def add_def mark_dirty_def)

lemma depth_remove: "depth (Some hk) (snd (remove j q)) \<le> depth (Some hk) q"
proof -
  have "length (filter f (AList.delete j d)) \<le> length (filter f d)" for f and d :: "(string \<times> QueueEntry) list"
    by (induction d) auto
  then show ?thesis by (simp add: depth_def remove_def mark_dirty_def)
qed

end
