(* ===== verification/Run_Manager_Invariant.thy ===== *)
theory Run_Manager_Invariant
  imports Run_Manager Emission_Logic
begin

text \<open>
  The invariant of the run manager: every job in its queue has a stored manifest whose inputs all exist, no hotkey has
  more jobs outstanding than the configured bound, and the quota book is consistent. It is kept by every operation from
  emitting a single job to the whole loop, whatever the miners do during the pauses within the bounds of \<open>others\<close>.
\<close>

subsection \<open>Keys\<close>

definition job_name :: "string \<Rightarrow> bool" where
  "job_name j \<longleftrightarrow> segment j \<and> CHR 0x0A \<notin> set j"

definition good_run :: "emit_env \<Rightarrow> 'c emit_config_scheme \<Rightarrow> bool" where
  "good_run E c \<longleftrightarrow> float_codec (ee_platform E) \<and> job_name (ec_run_id c)"

abbreviation mkey :: "'c emit_config_scheme \<Rightarrow> string \<Rightarrow> string" where
  "mkey c j \<equiv> job_manifest_key (ec_netuid c) (ec_run_id c) j"

abbreviation skey :: "'c emit_config_scheme \<Rightarrow> string" where
  "skey c \<equiv> state_key (ec_netuid c) (ec_run_id c)"

text \<open>The objects only the run manager writes.\<close>

definition protected :: "'c emit_config_scheme \<Rightarrow> string set" where
  "protected c = insert (skey c) (range (mkey c))"

lemma root_no_newline: "CHR 0x0A \<notin> set (root n)"
  using show_int_chars [of "CHR 0x0A" n] by (auto simp: root_def is_digit_def)

lemma run_prefix_root: "run_prefix n sec r = root n @ CHR ''/'' # sec @ CHR ''/'' # r @ [CHR ''/'']"
  by (simp add: run_prefix_def root_def)

lemma mkey_shape: "mkey c j = run_prefix (ec_netuid c) ''jobs'' (ec_run_id c) @ j @ ''/manifest.json''"
  by (simp add: job_manifest_key_def jobs_prefix_shape)

lemma skey_shape: "skey c = run_prefix (ec_netuid c) ''runs'' (ec_run_id c) @ ''state.json''"
  by (simp add: state_key_def run_root_def run_prefix_root)

lemma graphs_shape: "graphs_prefix n r = run_prefix n ''runs'' r @ ''graphs/''"
  by (simp add: graphs_prefix_def run_root_def run_prefix_root)

lemma mkey_inj: "job_name i \<Longrightarrow> job_name j \<Longrightarrow> mkey c i = mkey c j \<Longrightarrow> i = j"
  using segment_tag_inj [of i "''manifest.json''" j "''manifest.json''"] by (simp add: mkey_shape job_name_def)

lemma key_parse:
  assumes "good_run E c" "job_name j" "bucket_name b"
  shows "parse_uri (join_uri b (mkey c j)) = Inr (b, mkey c j)" "parse_uri (join_uri b (skey c)) = Inr (b, skey c)"
  using assms root_no_newline [of "ec_netuid c"]
  by (auto simp: good_run_def job_name_def mkey_shape skey_shape run_prefix_root object_key_def intro!: parse_join_uri)

text \<open>Sections of a run do not overlap.\<close>

lemma section_apart:
  assumes "job_name r" "x \<in> {''runs'', ''jobs'', ''assignments''}" "y \<in> {''runs'', ''jobs'', ''assignments''}" "x \<noteq> y"
  shows "run_prefix n x r @ u \<notin> below (run_prefix n y r @ v)"
  using assms run_prefix_inj [of n x r u n y r] by (auto simp: below_def starts_with_iff job_name_def segment_def)

lemma mkey_not_graphs: "job_name (ec_run_id c) \<Longrightarrow> mkey c j \<notin> below (graphs_prefix (ec_netuid c) (ec_run_id c))"
  unfolding mkey_shape graphs_shape by (rule section_apart) auto

lemma not_assignment:
  "x \<in> {''runs'', ''jobs''} \<Longrightarrow> run_prefix n x r @ u \<notin> below (root n @ ''/assignments/'')"
  by (auto simp: below_def run_prefix_root starts_with_iff)

lemma skey_apart:
  "skey c \<notin> below (graphs_prefix (ec_netuid c) (ec_run_id c))" "job_name (ec_run_id c) \<Longrightarrow> skey c \<noteq> mkey c j"
  using section_apart [of "ec_run_id c" "''runs''" "''jobs''" "ec_netuid c" "''state.json''" "j @ ''/manifest.json''"]
  by (auto simp: skey_shape graphs_shape mkey_shape below_def starts_with_def)

subsection \<open>Stored jobs\<close>

definition job_at :: "emit_env \<Rightarrow> 'c emit_config_scheme \<Rightarrow> LocalBucket \<Rightarrow> string \<Rightarrow> JobManifestV3 res" where
  "job_at E c st j = load_manifest (ee_platform E) (uri_for_key st (mkey c j)) st"

abbreviation stored :: "string \<Rightarrow> LocalBucket \<Rightarrow> bool" where
  "stored u st \<equiv> LocalBucket_exists u st = Inr True"

lemma wrote_name: "wrote K st st' \<Longrightarrow> lb_bucket st' = lb_bucket st"
  by (simp add: wrote_def)

lemma job_at_wrote:
  assumes "good_run E c" "job_name j" "bucket_name (lb_bucket st)" "wrote K st st'" "mkey c j \<notin> K"
  shows "job_at E c st' j = job_at E c st j"
  using wrote_load [OF assms(4) key_parse(1) [OF assms(1-3)] assms(5)] wrote_name [OF assms(4)]
  by (simp add: job_at_def uri_for_key_def load_manifest_def)

subsection \<open>Emitting one job\<close>

lemma resource_requirements_wf:
  assumes "resource_requirements params = Inr req" "get_none params ''resource_requirements'' = JNull"
    "get_none params ''distributed_runner'' = JNull"
  shows "wf_dict (rr_parallelism req)"
  using assms by (auto simp: resource_requirements_def or_else_def ResourceRequirements_from_dict_def get_or_def bindE_eq_Inr
      dict_or_empty_def wf_dict_def split: if_splits)

definition emit_keys :: "'c emit_config_scheme \<Rightarrow> string \<Rightarrow> string set" where
  "emit_keys c j =
     insert (mkey c j) (below (graphs_prefix (ec_netuid c) (ec_run_id c)) \<union> below (root (ec_netuid c) @ ''/assignments/''))"

text \<open>A manifest stored under \<open>j\<close> that says what was asked for.\<close>

definition stored_job :: "emit_env \<Rightarrow> RunConfig \<Rightarrow> string \<Rightarrow> ArtifactRef list \<Rightarrow> ArtifactRef list option \<Rightarrow> LocalBucket \<Rightarrow> bool" where
  "stored_job E c j ins outs st \<longleftrightarrow>
     (\<exists>m. job_at E c st j = Inr m \<and> mf_job_id m = j \<and> mf_inputs m = ins \<and> (\<forall>o1. outs = Some o1 \<longrightarrow> mf_outputs m = o1))"

text \<open>What emitting job \<open>j\<close> with inputs \<open>ins\<close>, output addresses \<open>us\<close> and hotkey \<open>hk\<close> does to the state.\<close>

definition emission ::
  "emit_env \<Rightarrow> RunConfig \<Rightarrow> string \<Rightarrow> ArtifactRef list \<Rightarrow> string list \<Rightarrow> string \<Rightarrow> run_manager \<Rightarrow> JobManifestV3 res \<times> run_manager \<Rightarrow> bool" where
  "emission E c j ins us hk s out \<longleftrightarrow>
     (case out of (res, s') \<Rightarrow>
        wrote (emit_keys c j) (em_bucket s) (em_bucket s') \<and> em_quota s' = em_quota s \<and> em_pauses s' = em_pauses s \<and>
        (case res of
           Inl _ \<Rightarrow> em_queue s' = em_queue s \<and> rm_emitted s' = rm_emitted s \<and>
             (stored_job E c j ins None (em_bucket s') \<or> job_at E c (em_bucket s') j = job_at E c (em_bucket s) j)
         | Inr m \<Rightarrow>
             (\<exists>gu. em_queue s' = add (QueueEntry_from_manifest m (uri_of s (mkey c j)) gu) (em_queue s)) \<and>
             rm_emitted s' = rm_emitted s @ [j] \<and> mf_job_id m = j \<and> mf_assigned_hotkey m = hk \<and>
             map ar_uri (mf_outputs m) = us \<and> stored_job E c j ins (Some (mf_outputs m)) (em_bucket s')))"

lemma resolve_output_uri: "resolve_output_crypto ref w = Inr ref' \<Longrightarrow> ar_uri ref' = ar_uri ref"
  by (auto simp: resolve_output_crypto_def bindE_eq_Inr split: option.splits if_splits)

lemma resolve_outputs_uris: "mapE (\<lambda>ref. resolve_output_crypto ref w) outs = Inr outs' \<Longrightarrow> map ar_uri outs' = map ar_uri outs"
  by (induction outs arbitrary: outs') (auto simp: bindE_eq_Inr dest: resolve_output_uri)

lemma frame_store_graph:
  assumes "good_run E c" "bucket_name (lb_bucket (em_bucket s))"
  shows "frame (below (graphs_prefix (ec_netuid c) (ec_run_id c))) (store_graph E (uri_of s (graph_key (ec_netuid c) (ec_run_id c) sha)) g) s"
proof -
  have nl: "CHR 0x0A \<notin> set (graphs_prefix (ec_netuid c) (ec_run_id c))"
    using assms(1) root_no_newline [of "ec_netuid c"] by (simp add: graphs_shape run_prefix_root good_run_def job_name_def)
  have "k \<in> below (graphs_prefix (ec_netuid c) (ec_run_id c))"
    if "parse_uri (uri_of s (graph_key (ec_netuid c) (ec_run_id c) sha)) = Inr (b, k)" for b k
    using parse_uri_prefix [OF _ nl assms(2), of "sha @ ''.json''" b k] that
    by (simp add: below_def uri_of_def uri_for_key_def graph_key_def)
  then show ?thesis unfolding store_graph_def by (auto intro!: frame_bind [OF frame_exists] frame_put simp: existsS_def)
qed

text \<open>Storing a signed manifest makes the job readable under its name.\<close>

lemma put_manifest:
  assumes "good_run E c" "bucket_name (lb_bucket st)" "job_name j" "JobManifestV3_wf m" "mf_job_id m = j"
    "store_dict (ee_platform E) ns (uri_for_key st (mkey c j)) (JobManifestV3_to_dict (ee_platform E) m) st = Inr st'"
  shows "wrote {mkey c j} st st'" "stored_job E c j (mf_inputs m) (Some (mf_outputs m)) st'"
proof -
  have p: "LocalBucket_put ns (uri_for_key st (mkey c j)) (utf8_encode (dumps (ee_platform E) True (JObj (JobManifestV3_to_dict (ee_platform E) m)))) st = Inr st'"
    using assms(6) by (simp add: put_json_def)
  show w: "wrote {mkey c j} st st'"
    by (rule wrote_put [OF p]) (use key_parse(1) [OF assms(1,3,2)] in \<open>simp add: uri_for_key_def\<close>)
  have "load_manifest (ee_platform E) (uri_for_key st (mkey c j)) st' = Inr (JobManifestV3_raw norm_dict m)"
    using load_stored_manifest [OF _ assms(4,6)] assms(1) by (simp add: good_run_def)
  then show "stored_job E c j (mf_inputs m) (Some (mf_outputs m)) st'"
    using assms(5) wrote_name [OF w] by (simp add: stored_job_def job_at_def uri_for_key_def JobManifestV3_raw_def)
qed

lemma frame_emitted: "frame K m s \<Longrightarrow> m s = (r, s') \<Longrightarrow> rm_emitted s' = rm_emitted s"
proof -
  assume "frame K m s" "m s = (r, s')"
  then have s': "s' = s\<lparr>em_bucket := em_bucket s', em_resolver := em_resolver s'\<rparr>" by (simp add: frame_def Let_def)
  show ?thesis by (subst s') simp
qed

lemma stored_job_wrote:
  assumes "good_run E c" "job_name j" "bucket_name (lb_bucket st)" "wrote K st st'" "mkey c j \<notin> K"
  shows "stored_job E c j ins outs st' \<longleftrightarrow> stored_job E c j ins outs st"
  by (simp add: stored_job_def job_at_wrote [OF assms])

text \<open>The last part of \<^verbatim>\<open>emit_job\<close>: the manifest, the grant, the list of emitted jobs and the queue.\<close>

definition emit_tail :: "emit_env \<Rightarrow> RunConfig \<Rightarrow> string \<Rightarrow> JobManifestV3 \<Rightarrow> (run_manager, JobManifestV3) sres" where
  "emit_tail E c uri m =
     bindS (put_jsonS (ee_platform E) uri (JobManifestV3_to_dict (ee_platform E) m)) (\<lambda>_.
     bindS (emit_assignment_grant E c m) (\<lambda>grant_uri.
     bindS (modifyS (\<lambda>s. s\<lparr>rm_emitted := rm_emitted s @ [mf_job_id m]\<rparr>)) (\<lambda>_.
     bindS (queueS (add (QueueEntry_from_manifest m uri grant_uri))) (\<lambda>_. liftS (Inr m)))))"

lemma emit_tail_emission:
  assumes "good_run E c" "bucket_name (lb_bucket (em_bucket s))" "job_name j" "JobManifestV3_wf m" "mf_job_id m = j" "mf_run_id m = ec_run_id c"
  shows "emission E c j (mf_inputs m) (map ar_uri (mf_outputs m)) (mf_assigned_hotkey m) s (emit_tail E c (uri_of s (mkey c j)) m s)"
proof (cases "store_dict (ee_platform E) (ns_of (em_now s)) (uri_of s (mkey c j)) (JobManifestV3_to_dict (ee_platform E) m) (em_bucket s)")
  case (Inl x)
  then show ?thesis by (simp add: emit_tail_def bindS_def put_jsonS_def emission_def)
next
  case (Inr st)
  let ?s1 = "s\<lparr>em_bucket := st\<rparr>"
  note p = put_manifest [OF assms(1-5), of "ns_of (em_now s)" st, folded uri_of_def, OF Inr]
  have b: "bucket_name (lb_bucket (em_bucket ?s1))" using assms(2) wrote_name [OF p(1)] by simp
  have fr: "frame (below (root (ec_netuid c) @ ''/assignments/'')) (emit_assignment_grant E c m) ?s1"
    using assms(1,6) b by (intro frame_grant) (auto simp: good_run_def job_name_def)
  obtain r s2 where gr: "emit_assignment_grant E c m ?s1 = (r, s2)" by fastforce
  note f = frameD [OF fr gr] frame_emitted [OF fr gr]
  have w2: "wrote (emit_keys c j) (em_bucket s) (em_bucket s2)"
    using wrote_mono [OF p(1), of "emit_keys c j"] wrote_mono [OF f(1), of "emit_keys c j"]
    by (auto simp: emit_keys_def intro: wrote_trans)
  have "mkey c j \<notin> below (root (ec_netuid c) @ ''/assignments/'')" unfolding mkey_shape by (rule not_assignment) simp
  with p(2) have sj: "stored_job E c j (mf_inputs m) (Some (mf_outputs m)) (em_bucket s2)"
    using stored_job_wrote [OF assms(1,3) b f(1)] by simp
  show ?thesis
  proof (cases r)
    case (Inl x)
    with w2 f sj Inr gr show ?thesis
      by (auto simp: emit_tail_def bindS_def put_jsonS_def emission_def stored_job_def)
  next
    case (Inr gu)
    then have "emit_tail E c (uri_of s (mkey c j)) m s =
        (Inr m, s2\<lparr>rm_emitted := rm_emitted s2 @ [j], em_queue := add (QueueEntry_from_manifest m (uri_of s (mkey c j)) gu) (em_queue s2)\<rparr>)"
      using gr \<open>store_dict _ _ _ _ _ = Inr st\<close> assms(5)
      by (simp add: emit_tail_def bindS_def put_jsonS_def modifyS_def queueS_def liftS_def)
    with w2 f sj assms(5) show ?thesis by (auto simp: emission_def)
  qed
qed

text \<open>What happens before it only writes a graph.\<close>

lemma emission_after_graph:
  assumes "good_run E c" "job_name j" "bucket_name (lb_bucket (em_bucket s))"
    and fr: "frame (below (graphs_prefix (ec_netuid c) (ec_run_id c))) f s" "f s = (x, s1)" and em: "emission E c j ins us hk s1 out"
  shows "emission E c j ins us hk s out"
proof -
  note f = frameD [OF fr] frame_emitted [OF fr]
  have w: "wrote (emit_keys c j) (em_bucket s) (em_bucket s1)" by (rule wrote_mono [OF f(1)]) (auto simp: emit_keys_def)
  have j: "job_at E c (em_bucket s1) j = job_at E c (em_bucket s) j"
    using mkey_not_graphs [of c j] assms(1) by (intro job_at_wrote [OF assms(1-3) f(1)]) (simp add: good_run_def)
  have u: "uri_of s1 (mkey c j) = uri_of s (mkey c j)" using wrote_name [OF f(1)] by (simp add: uri_of_def uri_for_key_def)
  show ?thesis using em f j u wrote_trans [OF w] by (auto simp: emission_def split: prod.splits sum.splits)
qed

lemma emission_fail: "emission E c j ins us hk s (Inl x, s)"
  by (simp add: emission_def)

lemma emit_job_emission:
  assumes g: "good_run E c" and b: "bucket_name (lb_bucket (em_bucket s))" and n: "job_name j"
    and j: "str_or jid (''step'' @ show_int step @ ''-'' @ kind) = j"
    and params: "wf_dict params" "get_none params ''resource_requirements'' = JNull" "get_none params ''distributed_runner'' = JNull"
  shows "emission E c j ins (map ar_uri outs) (wi_hotkey_ss58 w) s (emit_job E c kind step graph params ins outs w jid s)"
proof -
  let ?uri = "uri_of s (graph_key (ec_netuid c) (ec_run_id c) (graph_id (ee_platform E) graph))"
  obtain x s1 where sg: "store_graph E ?uri graph s = (x, s1)" by fastforce
  note fr = frame_store_graph [OF g b, of "graph_id (ee_platform E) graph" graph]
  have u: "uri_of s1 = uri_of s" and b1: "bucket_name (lb_bucket (em_bucket s1))"
    using wrote_name [OF frameD(1) [OF fr sg]] b by (auto simp: uri_of_def uri_for_key_def fun_eq_iff)
  show ?thesis
  proof (rule emission_after_graph [OF g n b fr sg])
    show "emission E c j ins (map ar_uri outs) (wi_hotkey_ss58 w) s1 (emit_job E c kind step graph params ins outs w jid s)"
    proof (cases "\<exists>u req outs'. x = Inr u \<and> resource_requirements params = Inr req \<and> mapE (\<lambda>ref. resolve_output_crypto ref w) outs = Inr outs'")
      case False
      then have "\<exists>e. emit_job E c kind step graph params ins outs w jid s = (Inl e, s1)"
        using sg by (cases x; cases "resource_requirements params"; cases "mapE (\<lambda>ref. resolve_output_crypto ref w) outs")
          (auto simp: emit_job_def bindS_def liftS_def Let_def)
      then show ?thesis using emission_fail by metis
    next
      case True
      then obtain req outs' where ok: "x = Inr ()" "resource_requirements params = Inr req"
        "mapE (\<lambda>ref. resolve_output_crypto ref w) outs = Inr outs'" by auto
      let ?m = "job_template E c (unix_of (em_now s)) kind step (graph_id (ee_platform E) graph) ?uri params ins outs' w j req"
      have "emit_job E c kind step graph params ins outs w jid s = emit_tail E c (uri_of s1 (mkey c j)) ?m s1"
        using sg ok j by (simp add: emit_job_def emit_tail_def bindS_def liftS_def Let_def u job_template_def JobManifestV3_sign_def)
      moreover have "JobManifestV3_wf ?m"
        using params resource_requirements_wf [OF ok(2)] by (simp add: JobManifestV3_wf_def job_template_def JobManifestV3_sign_def)
      ultimately show ?thesis
        using emit_tail_emission [OF g b1 n, of ?m] resolve_outputs_uris [OF ok(3)]
        by (simp add: job_template_def JobManifestV3_sign_def)
    qed
  qed
qed

subsection \<open>The invariant\<close>

definition ready :: "emit_env \<Rightarrow> RunConfig \<Rightarrow> run_manager \<Rightarrow> bool" where
  "ready E c s \<longleftrightarrow>
     (\<forall>(j, e) \<in> set (oq_outstanding (em_queue s)). qe_job_id e = j \<and> job_name j \<and> qe_manifest_uri e = uri_of s (mkey c j) \<and>
        (\<exists>m. load_manifest (ee_platform E) (qe_manifest_uri e) (em_bucket s) = Inr m \<and> mf_job_id m = j \<and>
           (\<forall>x \<in> set (mf_inputs m). stored (ar_uri x) (em_bucket s))))"

definition bounded :: "RunConfig \<Rightarrow> run_manager \<Rightarrow> bool" where
  "bounded c s \<longleftrightarrow> (\<forall>hk. int (depth (Some hk) (em_queue s)) \<le> max 0 (cf_max_inflight_per_hotkey c))"

definition orch_inv :: "emit_env \<Rightarrow> RunConfig \<Rightarrow> run_manager \<Rightarrow> bool" where
  "orch_inv E c s \<longleftrightarrow> bucket_name (lb_bucket (em_bucket s)) \<and> book_ok (em_quota s) \<and> bounded c s \<and> ready E c s"

text \<open>
  What the other processes may do during a pause: write any object but the manifests and the state of the run, delete none;
  and flush the queue without taking entries over from another writer.
\<close>

definition others :: "'c emit_config_scheme \<Rightarrow> LocalBucket \<times> OrchestratorQueue \<Rightarrow> LocalBucket \<times> OrchestratorQueue \<Rightarrow> bool" where
  "others c x y \<longleftrightarrow> wrote (- protected c) (fst x) (fst y) \<and> oq_outstanding (snd y) = oq_outstanding (snd x)"

inductive_set job_ids :: "train_task \<Rightarrow> string set" for tk where
  "forward_id k \<in> job_ids tk"
| "ub < tk_N_UB tk \<Longrightarrow> i < tk_INNER_REPLICAS tk \<Longrightarrow> inner_id k ub i \<in> job_ids tk"
| "reduce_id k ub \<in> job_ids tk"
| "outer_id k ub \<in> job_ids tk"
| "eval_id k \<in> job_ids tk"

text \<open>
  The assertions of the proof: the jobs \<open>W\<close> are stored with the given outputs, the objects \<open>U\<close> exist, and the emitted ids
  have the forms above.
\<close>

definition ctx ::
  "emit_env \<Rightarrow> RunConfig \<Rightarrow> train_task \<Rightarrow> string \<Rightarrow> (string \<times> ArtifactRef list) set \<Rightarrow> string set \<Rightarrow> run_manager \<Rightarrow> bool" where
  "ctx E c tk b W U s \<longleftrightarrow> orch_inv E c s \<and> lb_bucket (em_bucket s) = b \<and> set (rm_emitted s) \<subseteq> job_ids tk \<and>
     (\<forall>(j, outs) \<in> W. job_name j \<and> (\<exists>m. job_at E c (em_bucket s) j = Inr m \<and> mf_outputs m = outs)) \<and>
     (\<forall>u \<in> U. stored u (em_bucket s))"

lemma ctx_mono: "ctx E c tk b W U s \<Longrightarrow> W' \<subseteq> W \<Longrightarrow> U' \<subseteq> U \<Longrightarrow> ctx E c tk b W' U' s"
  by (auto simp: ctx_def)

lemma ctx_inv: "ctx E c tk b W U s \<Longrightarrow> orch_inv E c s"
  by (simp add: ctx_def)

lemma ready_alt:
  "ready E c s \<longleftrightarrow>
     (\<forall>(j, e) \<in> set (oq_outstanding (em_queue s)). qe_job_id e = j \<and> job_name j \<and> qe_manifest_uri e = uri_of s (mkey c j) \<and>
        (\<exists>m. job_at E c (em_bucket s) j = Inr m \<and> mf_job_id m = j \<and> (\<forall>x \<in> set (mf_inputs m). stored (ar_uri x) (em_bucket s))))"
  unfolding ready_def job_at_def uri_of_def by (intro ball_cong refl) (auto split: prod.splits)

lemma mkey_not_emit: "good_run E c \<Longrightarrow> job_name i \<Longrightarrow> job_name j \<Longrightarrow> i \<noteq> j \<Longrightarrow> mkey c i \<notin> emit_keys c j"
  using mkey_inj [of i j c] mkey_not_graphs [of c i] not_assignment [of "''jobs''" "ec_netuid c" "ec_run_id c" "i @ ''/manifest.json''"]
  by (auto simp: emit_keys_def good_run_def mkey_shape [of c i])

lemma uri_of_wrote: "wrote K (em_bucket s) (em_bucket s') \<Longrightarrow> uri_of s' = uri_of s"
  by (simp add: uri_of_def uri_for_key_def wrote_name fun_eq_iff)

text \<open>One entry of the queue through an emission of job \<open>j\<close>.\<close>

lemma emission_entry:
  assumes g: "good_run E c" and n: "job_name j" and b: "bucket_name (lb_bucket (em_bucket s))" and r: "ready E c s"
    and em: "emission E c j ins us hk s (res, s')" and ins: "\<forall>x \<in> set ins. stored (ar_uri x) (em_bucket s)"
    and old: "(i, e) \<in> set (oq_outstanding (em_queue s))"
  shows "qe_job_id e = i \<and> job_name i \<and> qe_manifest_uri e = uri_of s' (mkey c i) \<and>
    (\<exists>m. job_at E c (em_bucket s') i = Inr m \<and> mf_job_id m = i \<and> (\<forall>x \<in> set (mf_inputs m). stored (ar_uri x) (em_bucket s')))"
proof -
  have w: "wrote (emit_keys c j) (em_bucket s) (em_bucket s')" using em by (auto simp: emission_def)
  from r old obtain m where i: "qe_job_id e = i" "job_name i" "qe_manifest_uri e = uri_of s (mkey c i)"
    and m: "job_at E c (em_bucket s) i = Inr m" "mf_job_id m = i" "\<forall>x \<in> set (mf_inputs m). stored (ar_uri x) (em_bucket s)"
    by (fastforce simp: ready_alt)
  have "stored_job E c i ins None (em_bucket s') \<or> job_at E c (em_bucket s') i = job_at E c (em_bucket s) i"
  proof (cases "i = j")
    case True
    with em show ?thesis by (auto simp: emission_def stored_job_def split: sum.splits)
  next
    case False
    then show ?thesis using job_at_wrote [OF g i(2) b w mkey_not_emit [OF g i(2) n]] by simp
  qed
  then have "\<exists>m. job_at E c (em_bucket s') i = Inr m \<and> mf_job_id m = i \<and> (\<forall>x \<in> set (mf_inputs m). stored (ar_uri x) (em_bucket s'))"
    using m ins wrote_exists [OF w] by (auto simp: stored_job_def)
  with i uri_of_wrote [OF w] show ?thesis by simp
qed

lemma emission_ready:
  assumes g: "good_run E c" and n: "job_name j" and b: "bucket_name (lb_bucket (em_bucket s))" and r: "ready E c s"
    and em: "emission E c j ins us hk s (res, s')" and ins: "\<forall>x \<in> set ins. stored (ar_uri x) (em_bucket s)"
  shows "ready E c s'"
proof (cases res)
  case (Inl x)
  then show ?thesis
    using em emission_entry [OF g n b r em ins] unfolding ready_alt by (auto simp: emission_def)
next
  case (Inr m)
  then obtain gu where q: "em_queue s' = add (QueueEntry_from_manifest m (uri_of s (mkey c j)) gu) (em_queue s)" and j: "mf_job_id m = j"
    and sj: "stored_job E c j ins (Some (mf_outputs m)) (em_bucket s')" and w: "wrote (emit_keys c j) (em_bucket s) (em_bucket s')"
    using em by (auto simp: emission_def)
  have "set (oq_outstanding (em_queue s')) \<subseteq>
      insert (j, QueueEntry_from_manifest m (uri_of s (mkey c j)) gu) (set (oq_outstanding (em_queue s)))"
    using set_update_subset by (simp add: q add_def mark_dirty_def QueueEntry_from_manifest_def j)
  moreover have "\<exists>m. job_at E c (em_bucket s') j = Inr m \<and> mf_job_id m = j \<and> (\<forall>x \<in> set (mf_inputs m). stored (ar_uri x) (em_bucket s'))"
    using sj ins wrote_exists [OF w] by (auto simp: stored_job_def)
  ultimately show ?thesis
    using emission_entry [OF g n b r em ins] n j uri_of_wrote [OF w]
    unfolding ready_alt by (fastforce simp: QueueEntry_from_manifest_def)
qed

lemma emission_inv:
  assumes g: "good_run E c" and n: "job_name j" and inv: "orch_inv E c s" and em: "emission E c j ins us hk s (res, s')"
    and ins: "\<forall>x \<in> set ins. stored (ar_uri x) (em_bucket s)" and hk: "int (depth (Some hk) (em_queue s)) < cf_max_inflight_per_hotkey c"
  shows "orch_inv E c s'"
proof -
  have "bounded c s'"
  proof (cases res)
    case (Inl x)
    then show ?thesis using em inv by (simp add: emission_def bounded_def orch_inv_def)
  next
    case (Inr m)
    with em obtain gu where q: "em_queue s' = add (QueueEntry_from_manifest m (uri_of s (mkey c j)) gu) (em_queue s)" "mf_assigned_hotkey m = hk"
      by (auto simp: emission_def)
    have "int (depth (Some h) (em_queue s')) \<le> max 0 (cf_max_inflight_per_hotkey c)" for h
    proof (cases "h = hk")
      case True
      then show ?thesis using depth_add [of h "QueueEntry_from_manifest m (uri_of s (mkey c j)) gu" "em_queue s"] q hk
        by (auto split: if_splits)
    next
      case False
      moreover have "int (depth (Some h) (em_queue s)) \<le> max 0 (cf_max_inflight_per_hotkey c)"
        using inv by (simp add: orch_inv_def bounded_def)
      ultimately show ?thesis using depth_add [of h "QueueEntry_from_manifest m (uri_of s (mkey c j)) gu" "em_queue s"] q
        by (auto simp: QueueEntry_from_manifest_def)
    qed
    then show ?thesis by (simp add: bounded_def)
  qed
  moreover have "ready E c s'" using emission_ready [OF g n _ _ em ins] inv by (simp add: orch_inv_def)
  moreover have "bucket_name (lb_bucket (em_bucket s'))" "book_ok (em_quota s')"
    using em inv by (auto simp: emission_def orch_inv_def dest: wrote_name)
  ultimately show ?thesis by (simp add: orch_inv_def)
qed

lemma emission_ctx:
  assumes g: "good_run E c" and n: "job_name j" "j \<in> job_ids tk" "j \<notin> fst ` W" and s: "ctx E c tk b W U s"
    and em: "emission E c j ins us hk s (Inr m, s')" and ins: "\<forall>x \<in> set ins. ar_uri x \<in> U"
    and hk: "int (depth (Some hk) (em_queue s)) < cf_max_inflight_per_hotkey c"
  shows "ctx E c tk b (insert (j, mf_outputs m) W) U s'"
proof -
  from em have w: "wrote (emit_keys c j) (em_bucket s) (em_bucket s')" and sj: "stored_job E c j ins (Some (mf_outputs m)) (em_bucket s')"
    and e: "rm_emitted s' = rm_emitted s @ [j]" by (auto simp: emission_def)
  have bn: "bucket_name (lb_bucket (em_bucket s))" using s by (auto simp: ctx_def orch_inv_def)
  have "job_at E c (em_bucket s') i = job_at E c (em_bucket s) i" if "(i, outs) \<in> W" for i outs
    using that s n by (intro job_at_wrote [OF g _ bn w] mkey_not_emit [OF g]) (force simp: ctx_def)+
  moreover have "orch_inv E c s'" using emission_inv [OF g n(1) ctx_inv [OF s] em] s ins hk by (auto simp: ctx_def)
  moreover have "lb_bucket (em_bucket s') = b" using s w by (auto simp: ctx_def dest: wrote_name)
  ultimately show ?thesis
    using s sj e n wrote_exists [OF w] by (fastforce simp: ctx_def stored_job_def)
qed

subsection \<open>Choosing a worker\<close>

definition room :: "RunConfig \<Rightarrow> WorkerIdentity \<Rightarrow> run_manager \<Rightarrow> bool" where
  "room c w s \<longleftrightarrow> int (depth (Some (wi_hotkey_ss58 w)) (em_queue s)) < cf_max_inflight_per_hotkey c"

lemma ctx_quota: "ctx E c tk b W U s \<Longrightarrow> book_ok qb \<Longrightarrow> ctx E c tk b W U (s\<lparr>em_quota := qb\<rparr>)"
  by (auto simp: ctx_def orch_inv_def bounded_def ready_def uri_of_def)

lemma account_hotkey: "book_ok qb \<Longrightarrow> map_of qb k = Some a \<Longrightarrow> mi_hotkey_ss58 (ma_identity a) = k"
  using book_ok_lookup [of qb k a] by (simp add: account_ok_def)

lemma pick_ctx:
  "valid (ctx E c tk b W U) (RunManager_pick_worker c) (\<lambda>w s. ctx E c tk b W U s \<and> room c w s \<and> True) (orch_inv E c)"
proof (rule validI)
  fix s e s' assume s: "ctx E c tk b W U s" and p: "RunManager_pick_worker c s = (Inl e, s')"
  then show "orch_inv E c s'"
    by (auto simp: RunManager_pick_worker_def pickS_def ctx_inv split: sum.splits prod.splits)
next
  fix s w s' assume s: "ctx E c tk b W U s" and p: "RunManager_pick_worker c s = (Inr w, s')"
  then obtain qb where q: "pick_worker 1 None (below_inflight (cf_max_inflight_per_hotkey c) (em_queue s)) (em_quota s) = Inr (w, qb)"
    and s': "s' = s\<lparr>em_quota := qb\<rparr>"
    by (auto simp: RunManager_pick_worker_def pickS_def split: sum.splits prod.splits)
  have bk: "book_ok (em_quota s)" using s by (simp add: ctx_def orch_inv_def)
  from q bk obtain a where a: "map_of (em_quota s) (wi_hotkey_ss58 w) = Some a"
    "account_eligible 1 (below_inflight (cf_max_inflight_per_hotkey c) (em_queue s)) a" by (rule pick_worker_spec)
  have "room c w s'"
    using a(2) account_hotkey [OF bk a(1)] by (simp add: room_def s' account_eligible_def below_inflight_def)
  then show "ctx E c tk b W U s' \<and> room c w s' \<and> True"
    using ctx_quota [OF s] pick_worker_charges [OF q bk] by (simp add: s')
qed

subsection \<open>The jobs of a step\<close>

text \<open>Emitting a job whose inputs exist; the references may depend on the state only through the bucket's name.\<close>

lemma emit_ctx:
  assumes g: "good_run E c" and n: "job_name j" "j \<in> job_ids tk" "j \<notin> fst ` W"
    and j: "str_or jid (''step'' @ show_int step @ ''-'' @ kind) = j"
    and params: "wf_dict params" "get_none params ''resource_requirements'' = JNull" "get_none params ''distributed_runner'' = JNull"
    and ins: "\<And>s x. ctx E c tk b W U s \<Longrightarrow> Q s \<Longrightarrow> x \<in> set (ins s) \<Longrightarrow> ar_uri x \<in> U"
    and outs: "\<And>s. ctx E c tk b W U s \<Longrightarrow> O' (map ar_uri (outs s))"
  shows "valid (\<lambda>s. ctx E c tk b W U s \<and> room c w s \<and> Q s) (\<lambda>s. emit_job E c kind step graph params (ins s) (outs s) w jid s)
    (\<lambda>m s. ctx E c tk b (insert (j, mf_outputs m) W) U s \<and> mf_job_id m = j \<and> O' (map ar_uri (mf_outputs m))) (orch_inv E c)"
proof (rule validI)
  fix s e s' assume s: "ctx E c tk b W U s \<and> room c w s \<and> Q s" and em: "emit_job E c kind step graph params (ins s) (outs s) w jid s = (Inl e, s')"
  then have bn: "bucket_name (lb_bucket (em_bucket s))" by (auto simp: ctx_def orch_inv_def)
  show "orch_inv E c s'"
    using s ins [of s] emit_job_emission [OF g bn n(1) j params, of "ins s" "outs s" w graph] em
    by (intro emission_inv [OF g n(1) ctx_inv]) (auto simp: room_def ctx_def)
next
  fix s m s' assume s: "ctx E c tk b W U s \<and> room c w s \<and> Q s" and em: "emit_job E c kind step graph params (ins s) (outs s) w jid s = (Inr m, s')"
  then have bn: "bucket_name (lb_bucket (em_bucket s))" by (auto simp: ctx_def orch_inv_def)
  note e = emit_job_emission [OF g bn n(1) j params, of "ins s" "outs s" w graph, unfolded em]
  show "ctx E c tk b (insert (j, mf_outputs m) W) U s' \<and> mf_job_id m = j \<and> O' (map ar_uri (mf_outputs m))"
    using emission_ctx [OF g n _ e, of b U] s ins [of s] e outs [of s] by (auto simp: room_def emission_def)
qed

lemma load_job_at: "load_job E c j s = (job_at E c (em_bucket s) j, s)"
  by (simp add: load_job_def job_at_def uri_of_def)

lemma ctx_job: "ctx E c tk b W U s \<Longrightarrow> (j, outs) \<in> W \<Longrightarrow> \<exists>m. job_at E c (em_bucket s) j = Inr m \<and> mf_outputs m = outs"
  by (auto simp: ctx_def)

lemma load_job_ctx:
  assumes "(j, outs) \<in> W"
  shows "valid (\<lambda>s. ctx E c tk b W U s \<and> room c w s \<and> Q s) (load_job E c j)
    (\<lambda>m s. ctx E c tk b W U s \<and> room c w s \<and> Q s \<and> mf_outputs m = outs) (orch_inv E c)"
  using ctx_job [OF _ assms] by (intro validI) (fastforce simp: load_job_at ctx_inv)+

lemma lift_ctx:
  "valid (\<lambda>s. ctx E c tk b W U s \<and> room c w s \<and> Q s) (liftS r) (\<lambda>x s. ctx E c tk b W U s \<and> room c w s \<and> Q s \<and> r = Inr x) (orch_inv E c)"
  by (auto intro!: valid_lift simp: ctx_inv)

lemmas id_defs = forward_id_def inner_id_def reduce_id_def outer_id_def eval_id_def

lemma job_name_step [simp]:
  "job_name (inner_id k ub i)" "job_name (reduce_id k ub)" "job_name (forward_id k)"
  "job_name (outer_id k ub)" "job_name (eval_id k)"
proof -
  have d: "c \<in> set (show_int i) \<Longrightarrow> c \<noteq> CHR ''/'' \<and> c \<noteq> CHR 0x0A" for c i
    using show_int_chars [of c i] by (auto simp: is_digit_def)
  have e: "c \<in> set (show_nat i) \<Longrightarrow> c \<noteq> CHR ''/'' \<and> c \<noteq> CHR 0x0A" for c i
    using show_nat_digits [of c i] by (auto simp: is_digit_def)
  show "job_name (inner_id k ub i)" "job_name (reduce_id k ub)" "job_name (forward_id k)"
    "job_name (outer_id k ub)" "job_name (eval_id k)"
    using d e by (fastforce simp: job_name_def segment_def id_defs)+
qed

definition weight_uri :: "RunConfig \<Rightarrow> string \<Rightarrow> int \<Rightarrow> nat \<Rightarrow> string" where
  "weight_uri c b k ub = join_uri b (weights_key (ec_netuid c) (ec_run_id c) k (int ub))"

definition weights_of :: "RunConfig \<Rightarrow> train_task \<Rightarrow> string \<Rightarrow> int \<Rightarrow> string set" where
  "weights_of c tk b k = weight_uri c b k ` {..<tk_N_UB tk}"

lemma weight_ref_uri: "lb_bucket st = b \<Longrightarrow> ar_uri (weight_ref c st name k (int ub)) = weight_uri c b k ub"
  by (simp add: weight_ref_def weight_uri_def uri_for_key_def)

lemma ctx_name: "ctx E c tk b W U s \<Longrightarrow> lb_bucket (em_bucket s) = b"
  by (simp add: ctx_def)

abbreviation uris :: "ArtifactRef list \<Rightarrow> string set" where
  "uris refs \<equiv> ar_uri ` set refs"

text \<open>The triple every \<^verbatim>\<open>emit_*\<close> satisfies: from \<open>W\<close> and \<open>U\<close> it emits job \<open>j\<close> with output addresses in \<open>O'\<close>.\<close>

definition emits ::
  "emit_env \<Rightarrow> RunConfig \<Rightarrow> train_task \<Rightarrow> string \<Rightarrow> (string \<times> ArtifactRef list) set \<Rightarrow> string set \<Rightarrow> (run_manager, JobManifestV3) sres \<Rightarrow>
   string \<Rightarrow> (string list \<Rightarrow> bool) \<Rightarrow> bool" where
  "emits E c tk b W U f j O' \<longleftrightarrow>
     valid (ctx E c tk b W U) f
       (\<lambda>m s. ctx E c tk b (insert (j, mf_outputs m) W) U s \<and> mf_job_id m = j \<and> O' (map ar_uri (mf_outputs m))) (orch_inv E c)"

lemmas emits_rules = valid_bind [OF pick_ctx] valid_bind [OF lift_ctx] emit_ctx

lemmas emits_simps = id_defs str_or_def wf_dict_def get_or_def weight_ref_uri ctx_name plain_ref_def

lemma emits_forward:
  assumes g: "good_run E c" and W: "forward_id k \<notin> fst ` W" and U: "weights_of c tk b k \<subseteq> U"
  shows "emits E c tk b W U (emit_forward E tk c k) (forward_id k) (\<lambda>_. True)"
  unfolding emits_def emit_forward_def
  by (rule emits_rules, rule emits_rules, rule emit_ctx [OF g job_name_step(3) job_ids.intros(1) W])
    (use U in \<open>auto simp: emits_simps weights_of_def\<close>)

lemma emits_eval:
  assumes g: "good_run E c" and W: "eval_id k \<notin> fst ` W" and U: "weights_of c tk b (k + 1) \<subseteq> U"
  shows "emits E c tk b W U (emit_eval E tk c k) (eval_id k) (\<lambda>_. True)"
  unfolding emits_def emit_eval_def
  by (rule emits_rules, rule emits_rules, rule emit_ctx [OF g job_name_step(5) job_ids.intros(5) W])
    (use U in \<open>auto simp: emits_simps weights_of_def\<close>)

lemma nth_ref_Inr: "nth_ref refs i = Inr x \<Longrightarrow> x \<in> set refs"
  by (auto simp: nth_ref_def split: if_splits)

lemma emits_inner:
  assumes g: "good_run E c" and W: "inner_id k ub i \<notin> fst ` W" "(forward_id k, fo) \<in> W" and ub: "ub < tk_N_UB tk" "i < tk_INNER_REPLICAS tk"
    and U: "weights_of c tk b k \<subseteq> U" "uris fo \<subseteq> U"
  shows "emits E c tk b W U (emit_inner E tk c k ub i) (inner_id k ub i) (\<lambda>_. True)"
  unfolding emits_def emit_inner_def
  by (rule emits_rules, rule valid_bind [OF load_job_ctx [OF W(2)]], rule emits_rules, rule emits_rules,
      rule emit_ctx [OF g job_name_step(1) job_ids.intros(2) [OF ub] W(1)])
    (use U ub in \<open>auto simp: emits_simps weights_of_def inner_id_def dest!: nth_ref_Inr\<close>)

lemma emits_outer:
  assumes g: "good_run E c" and W: "outer_id k ub \<notin> fst ` W" "(reduce_id k ub, ro) \<in> W"
    and ub: "ub < tk_N_UB tk" and U: "weights_of c tk b k \<subseteq> U" "uris ro \<subseteq> U"
  shows "emits E c tk b W U (emit_outer E tk c k ub) (outer_id k ub) (\<lambda>us. us = [weight_uri c b (k + 1) ub])"
  unfolding emits_def emit_outer_def
  by (rule emits_rules, rule valid_bind [OF load_job_ctx [OF W(2)]], rule emits_rules, rule emits_rules,
      rule emit_ctx [OF g job_name_step(4) job_ids.intros(4) W(1)])
    (use U ub in \<open>auto simp: emits_simps weights_of_def output_ref_def weight_uri_def uri_of_def uri_for_key_def dest!: nth_ref_Inr\<close>)

subsection \<open>Collecting the deltas\<close>

lemma contains_set: "contains s p \<Longrightarrow> set p \<subseteq> set s"
proof (induction s)
  case (Cons a s)
  then have "starts_with (a # s) p \<or> set p \<subseteq> set s" by auto
  then show ?case using set_take_subset [of "length p" "a # s"] by (auto simp: starts_with_def)
qed simp

lemma contains_head: "contains (p # s) (p # q) \<Longrightarrow> p \<notin> set s \<Longrightarrow> starts_with s q"
  using contains_set [of s "p # q"] by auto

lemma show_no: "\<not> is_digit c \<Longrightarrow> c \<notin> set (show_nat n)" "\<not> is_digit c \<Longrightarrow> c \<noteq> CHR ''-'' \<Longrightarrow> c \<notin> set (show_int i)"
  using show_nat_digits show_int_chars by blast+

text \<open>The substring test of \<^verbatim>\<open>emit_reduce\<close> finds exactly the inner jobs of its step and block.\<close>

lemma inner_mark_exact:
  assumes "j \<in> job_ids tk" "contains j (inner_mark k ub)"
  obtains i where "i < tk_INNER_REPLICAS tk" "j = inner_id k ub i"
proof -
  have i: "CHR ''i'' \<in> set j" using contains_set [OF assms(2)] by (auto simp: inner_mark_def)
  note no = show_no [of "CHR ''i''"] show_no [of "CHR ''s''"] show_no [of "CHR ''u''"] show_no [of "CHR ''-''"]
  from assms(1) show thesis
  proof cases
    case (2 ub' i' k')
    have "starts_with (tl (inner_id k' ub' i')) (tl (inner_mark k ub))"
      using assms(2) no by (intro contains_head [of "CHR ''s''"]) (auto simp: 2 inner_id_def inner_mark_def is_digit_def)
    then obtain t where "show_int k' @ ''-ub'' @ show_nat ub' @ ''-inner-r'' @ show_nat i' = (show_int k @ ''-ub'' @ show_nat ub @ ''-inner'') @ t"
      by (auto simp: inner_id_def inner_mark_def starts_with_iff)
    then have e: "(show_int k' @ ''-'') @ CHR ''u'' # (''b'' @ show_nat ub' @ ''-inner-r'' @ show_nat i') =
        (show_int k @ ''-'') @ CHR ''u'' # (''b'' @ show_nat ub @ ''-inner'' @ t)" by simp
    have k: "show_int k' @ ''-'' = show_int k @ ''-''"
      and r: "show_nat ub' @ CHR ''-'' # (''inner-r'' @ show_nat i') = show_nat ub @ CHR ''-'' # (''inner'' @ t)"
      using append_sep_inj [OF e] no by (auto simp: is_digit_def)
    have "show_nat ub' = show_nat ub" using append_sep_inj [OF r] no by (auto simp: is_digit_def)
    with k 2 show ?thesis by (intro that [of i']) auto
  qed (use i no in \<open>auto simp: id_defs is_digit_def\<close>)
qed

lemma gather_reads:
  "mapS (\<lambda>j. bindS (load_job E c j) (\<lambda>m. liftS (Inr (mf_outputs m)))) js s = (mapE (\<lambda>j. bindE (job_at E c (em_bucket s) j) (\<lambda>m. Inr (mf_outputs m))) js, s)"
proof (induction js)
  case (Cons j js)
  then show ?case
    by (cases "job_at E c (em_bucket s) j"; cases "mapE (\<lambda>j. bindE (job_at E c (em_bucket s) j) (\<lambda>m. Inr (mf_outputs m))) js")
      (auto simp: bindS_def liftS_def load_job_at)
qed simp

lemma gather_ctx:
  assumes W: "\<And>i. i < tk_INNER_REPLICAS tk \<Longrightarrow> \<exists>outs. (inner_id k ub i, outs) \<in> W \<and> uris outs \<subseteq> U"
  shows "valid (\<lambda>s. ctx E c tk b W U s \<and> room c w s \<and> Q s) (gather_deltas E c k ub)
    (\<lambda>ds s. ctx E c tk b W U s \<and> room c w s \<and> Q s \<and> uris ds \<subseteq> U) (orch_inv E c)"
proof (rule validI)
  fix s e s' assume "ctx E c tk b W U s \<and> room c w s \<and> Q s" "gather_deltas E c k ub s = (Inl e, s')"
  then show "orch_inv E c s'"
    by (auto simp: gather_deltas_def bindS_def gather_reads liftS_def ctx_inv split: prod.splits sum.splits)
next
  fix s ds s' assume s: "ctx E c tk b W U s \<and> room c w s \<and> Q s" and r: "gather_deltas E c k ub s = (Inr ds, s')"
  then obtain os where os: "mapE (\<lambda>j. bindE (job_at E c (em_bucket s) j) (\<lambda>m. Inr (mf_outputs m))) (filter (\<lambda>jid. contains jid (inner_mark k ub)) (rm_emitted s)) = Inr os"
    and ds: "ds = concat os" and s': "s' = s"
    by (auto simp: gather_deltas_def bindS_def gather_reads liftS_def split: prod.splits sum.splits)
  have "uris o1 \<subseteq> U" if "o1 \<in> set os" for o1
  proof -
    from mapE_set [OF os that] obtain j m where j: "j \<in> set (rm_emitted s)" "contains j (inner_mark k ub)"
      and m: "job_at E c (em_bucket s) j = Inr m" "o1 = mf_outputs m" by (auto simp: bindE_eq_Inr)
    from j(1) s have "j \<in> job_ids tk" by (auto simp: ctx_def)
    then obtain i where "i < tk_INNER_REPLICAS tk" "j = inner_id k ub i" using j(2) by (rule inner_mark_exact)
    with W obtain outs where "(j, outs) \<in> W" "uris outs \<subseteq> U" by blast
    with ctx_job [of E c tk b W U s j outs] s m show ?thesis by auto
  qed
  then show "ctx E c tk b W U s' \<and> room c w s' \<and> Q s' \<and> uris ds \<subseteq> U" using s s' ds by auto
qed

lemma emits_reduce:
  assumes g: "good_run E c" and W: "reduce_id k ub \<notin> fst ` W"
    and D: "\<And>i. i < tk_INNER_REPLICAS tk \<Longrightarrow> \<exists>outs. (inner_id k ub i, outs) \<in> W \<and> uris outs \<subseteq> U"
  shows "emits E c tk b W U (emit_reduce E tk c k ub) (reduce_id k ub) (\<lambda>_. True)"
  unfolding emits_def emit_reduce_def
  by (rule emits_rules, rule valid_bind [OF gather_ctx [OF D]], assumption, rule emit_ctx [OF g job_name_step(2) job_ids.intros(3) W])
    (auto simp: emits_simps reduce_id_def in_set_enumerate_eq subset_iff)

subsection \<open>Computations that do not sleep\<close>

definition no_sleep :: "('a emitter_scheme, 'r) sres \<Rightarrow> bool" where
  "no_sleep m \<longleftrightarrow> (\<forall>s. em_pauses (snd (m s)) = em_pauses s)"

lemma no_sleep_bind: "no_sleep m \<Longrightarrow> (\<And>a. no_sleep (f a)) \<Longrightarrow> no_sleep (bindS m f)"
  unfolding no_sleep_def bindS_def by (auto split: prod.split sum.split) (metis snd_conv)+

lemma no_sleepI: "(\<And>s. em_pauses (snd (m s)) = em_pauses s) \<Longrightarrow> no_sleep m"
  by (simp add: no_sleep_def)

lemma no_sleepD: "no_sleep m \<Longrightarrow> em_pauses (snd (m s)) = em_pauses s"
  by (simp add: no_sleep_def)

lemma no_sleep_mapS: "(\<And>x. no_sleep (f x)) \<Longrightarrow> no_sleep (mapS f xs)"
proof (induction xs)
  case (Cons x xs)
  then show ?case using no_sleep_bind [of "f x" "\<lambda>y. bindS (mapS f xs) (\<lambda>ys. liftS (Inr (y # ys)))"]
      no_sleep_bind [of "mapS f xs" "\<lambda>ys. liftS (Inr (y # ys))" for y] by (simp add: no_sleep_def liftS_def)
qed (simp add: no_sleep_def)

lemma no_sleep_prims [simp]:
  "no_sleep (liftS r)" "no_sleep (putS u d)" "no_sleep (put_jsonS P u dd)" "no_sleep (existsS u)" "no_sleep (queueS q)" "no_sleep (quotaS k)"
  "no_sleep (pickS req flt)" "no_sleep (seal_grant E c g hk)"
  by (auto simp: no_sleep_def liftS_def putS_def put_jsonS_def existsS_def queueS_def quotaS_def modifyS_def pickS_def seal_grant_def
      split: sum.splits prod.splits option.splits)

lemma no_sleep_grant [simp]: "no_sleep (emit_assignment_grant E c m)"
proof -
  have "no_sleep (store_grant E c key hk g)" for key hk g
    unfolding store_grant_def
    by (rule no_sleep_bind, rule no_sleep_prims, rule no_sleepI, rule no_sleepD, rule no_sleep_bind) simp_all
  then have g: "no_sleep (bindS (liftS r) (store_grant E c key hk))" for r key hk
    by (intro no_sleep_bind no_sleep_prims)
  show ?thesis
    unfolding no_sleep_def emit_assignment_grant_def using g [unfolded no_sleep_def] by (auto split: option.split)
qed

lemma steady_valid:
  assumes "valid Pre m Post Exc" "no_sleep m"
  shows "valid (\<lambda>s. Pre s \<and> steady R s) m (\<lambda>a s. Post a s \<and> steady R s) Exc"
proof (rule validI)
  fix s e s' assume "Pre s \<and> steady R s" "m s = (Inl e, s')"
  then show "Exc s'" using valid_Inl [OF assms(1)] by blast
next
  fix s a s' assume "Pre s \<and> steady R s" "m s = (Inr a, s')"
  then show "Post a s' \<and> steady R s'"
    using valid_Inr [OF assms(1)] assms(2) by (auto simp: no_sleep_def steady_def dest!: spec [of _ s])
qed

lemma no_sleep_emit_job [simp]: "no_sleep (emit_job E c kind step graph params ins outs w jid)"
proof (rule no_sleepI)
  have sg: "no_sleep (store_graph E u graph)" for u
    unfolding store_graph_def by (intro no_sleep_bind) auto
  have md: "no_sleep (modifyS (\<lambda>s. s\<lparr>rm_emitted := rm_emitted s @ [j]\<rparr>))" for j
    by (simp add: no_sleep_def modifyS_def)
  fix s :: run_manager
  show "em_pauses (snd (emit_job E c kind step graph params ins outs w jid s)) = em_pauses s"
    unfolding emit_job_def Let_def
    by (rule no_sleepD, intro no_sleep_bind sg md no_sleep_prims no_sleep_grant)
qed

lemma no_sleep_reads [simp]: "no_sleep (load_job E c j)" "no_sleep (gather_deltas E c k ub)" "no_sleep (RunManager_pick_worker c)"
  by (auto simp: no_sleep_def load_job_at gather_deltas_def bindS_def gather_reads liftS_def RunManager_pick_worker_def
      no_sleepD [OF no_sleep_prims(7)] split: prod.splits sum.splits)

lemma no_sleep_emits [simp]:
  "no_sleep (emit_forward E tk c k)" "no_sleep (emit_inner E tk c k ub i)" "no_sleep (emit_reduce E tk c k ub)"
  "no_sleep (emit_outer E tk c k ub)" "no_sleep (emit_eval E tk c k)"
  unfolding emit_forward_def emit_inner_def emit_reduce_def emit_outer_def emit_eval_def
  by (intro no_sleep_bind no_sleep_reads no_sleep_prims; rule no_sleepI; rule no_sleepD; rule no_sleep_emit_job)+

subsection \<open>Waiting for outputs\<close>

definition live :: "emit_env \<Rightarrow> RunConfig \<Rightarrow> train_task \<Rightarrow> string \<Rightarrow> (string \<times> ArtifactRef list) set \<Rightarrow> string set \<Rightarrow> run_manager \<Rightarrow> bool" where
  "live E c tk b W U s \<longleftrightarrow> ctx E c tk b W U s \<and> steady (others c) s"

lemma stable_ctx:
  assumes g: "good_run E c"
  shows "stable (others c) (ctx E c tk b W U)"
  unfolding stable_def
proof (intro allI impI)
  fix s st q now ps assume s: "ctx E c tk b W U s" and o: "others c (em_bucket s, em_queue s) (st, q)"
  let ?s = "s\<lparr>em_bucket := st, em_queue := q, em_now := now, em_pauses := ps\<rparr>"
  from o have w: "wrote (- protected c) (em_bucket s) st" and q: "oq_outstanding q = oq_outstanding (em_queue s)" by (auto simp: others_def)
  have bn: "bucket_name (lb_bucket (em_bucket s))" using s by (auto simp: ctx_def orch_inv_def)
  have j: "job_at E c st i = job_at E c (em_bucket s) i" if "job_name i" for i
    by (rule job_at_wrote [OF g that bn w]) (simp add: protected_def)
  have u: "uri_of ?s = uri_of s" by (rule uri_of_wrote) (use w in simp)
  have "ready E c ?s"
    using s wrote_exists [OF w] unfolding ctx_def orch_inv_def ready_alt u by (fastforce simp: q j)
  moreover have "bounded c ?s" using s by (simp add: ctx_def orch_inv_def bounded_def depth_def q)
  ultimately show "ctx E c tk b W U ?s"
    using s wrote_name [OF w] wrote_exists [OF w] by (fastforce simp: ctx_def orch_inv_def j)
qed

lemma set_remove: "set (oq_outstanding (snd (remove j q))) \<subseteq> set (oq_outstanding q)"
  by (auto simp: remove_def mark_dirty_def AList.delete_eq)

lemma ready_subset:
  assumes "ready E c s" "em_bucket s' = em_bucket s" "set (oq_outstanding (em_queue s')) \<subseteq> set (oq_outstanding (em_queue s))"
  shows "ready E c s'"
  unfolding ready_def uri_of_def assms(2)
proof
  fix x assume "x \<in> set (oq_outstanding (em_queue s'))"
  with assms(3) have "x \<in> set (oq_outstanding (em_queue s))" by blast
  from bspec [OF assms(1) [unfolded ready_def uri_of_def] this] show "case x of (j, e) \<Rightarrow> qe_job_id e = j \<and> job_name j \<and>
      qe_manifest_uri e = uri_for_key (em_bucket s) (mkey c j) \<and>
      (\<exists>m. load_manifest (ee_platform E) (qe_manifest_uri e) (em_bucket s) = Inr m \<and> mf_job_id m = j \<and>
        (\<forall>x \<in> set (mf_inputs m). stored (ar_uri x) (em_bucket s)))" .
qed

lemma settle_inv: "orch_inv E c s \<Longrightarrow> settle_job m s = (r, s') \<Longrightarrow> orch_inv E c s'"
proof -
  assume i: "orch_inv E c s" and r: "settle_job m s = (r, s')"
  from r have s': "s' = s\<lparr>em_quota := release (mf_assigned_hotkey m) 1 (em_quota s), em_queue := snd (remove (mf_job_id m) (em_queue s))\<rparr>"
    by (auto simp: settle_job_def bindS_def quotaS_def queueS_def modifyS_def)
  have "int (depth (Some hk) (snd (remove (mf_job_id m) (em_queue s)))) \<le> max 0 (cf_max_inflight_per_hotkey c)" for hk
    by (rule order_trans [OF of_nat_mono [OF depth_remove]]) (use i in \<open>simp add: orch_inv_def bounded_def\<close>)
  then have "bounded c s'" by (simp add: s' bounded_def)
  moreover have "ready E c s'" 
    by (rule ready_subset [of E c s]) (use i set_remove [of "mf_job_id m" "em_queue s"] in \<open>simp_all add: s' orch_inv_def\<close>)
  ultimately show ?thesis using i release_ok [of "em_quota s" 1] by (simp add: s' orch_inv_def)
qed

lemma settle_frame:
  "settle_job m s = (r, s') \<Longrightarrow> em_bucket s' = em_bucket s \<and> rm_emitted s' = rm_emitted s \<and> em_pauses s' = em_pauses s \<and> r = Inr ()"
  by (auto simp: settle_job_def bindS_def quotaS_def queueS_def modifyS_def)

lemma settle_live: "live E c tk b W U s \<Longrightarrow> settle_job m s = (r, s') \<Longrightarrow> live E c tk b W U s'"
  using settle_inv [of E c s m r s'] settle_frame [of m s r s'] by (auto simp: live_def ctx_def steady_def)

text \<open>An object written outside the manifests leaves the invariant alone.\<close>

lemma write_inv:
  assumes g: "good_run E c" and i: "orch_inv E c s" and w: "wrote K (em_bucket s) st" and K: "\<And>j. job_name j \<Longrightarrow> mkey c j \<notin> K"
  shows "orch_inv E c (s\<lparr>em_bucket := st\<rparr>)"
proof -
  have bn: "bucket_name (lb_bucket (em_bucket s))" using i by (simp add: orch_inv_def)
  have j: "job_at E c st x = job_at E c (em_bucket s) x" if "job_name x" for x
    by (rule job_at_wrote [OF g that bn w K [OF that]])
  have u: "uri_of (s\<lparr>em_bucket := st\<rparr>) = uri_of s" by (rule uri_of_wrote) (use w in simp)
  have "ready E c (s\<lparr>em_bucket := st\<rparr>)"
    using i wrote_exists [OF w] unfolding orch_inv_def ready_alt u by (fastforce simp: j)
  with i wrote_name [OF w] show ?thesis by (simp add: orch_inv_def bounded_def)
qed

lemma stale_inv:
  assumes g: "good_run E c" and i: "orch_inv E c s" and n: "job_name (mf_job_id m)" and r: "mark_stale E c m s = (r, s')"
  shows "orch_inv E c s'"
proof -
  let ?k = "run_prefix (ec_netuid c) ''jobs'' (ec_run_id c) @ mf_job_id m @ ''/stale.json''"
  have k: "object_key ?k" using g n root_no_newline by (auto simp: object_key_def run_prefix_root good_run_def job_name_def)
  have "mkey c j \<noteq> ?k" if "job_name j" for j
    using segment_tag_inj [of j "''manifest.json''" "mf_job_id m" "''stale.json''"] that n by (auto simp: mkey_shape job_name_def)
  then have K: "mkey c j \<notin> {?k}" if "job_name j" for j using that by simp
  from r consider "s' = s" | d ns st where "s' = s\<lparr>em_bucket := st\<rparr>"
      "LocalBucket_put ns (join_uri (lb_bucket (em_bucket s)) ?k) d (em_bucket s) = Inr st"
    by (auto simp: mark_stale_def put_jsonS_putS putS_def uri_of_def uri_for_key_def jobs_prefix_shape split: sum.splits)
  then show ?thesis
  proof cases
    case 2
    have bn: "bucket_name (lb_bucket (em_bucket s))" using i by (simp add: orch_inv_def)
    show ?thesis
      unfolding 2(1) by (rule write_inv [OF g i wrote_put [OF 2(2)] K]) (use parse_join_uri [OF bn k] in auto)
  qed (use i in simp)
qed

lemma wait_outputs_live:
  assumes g: "good_run E c" and n: "job_name (mf_job_id m)"
  shows "valid (live E c tk b W U) (wait_outputs E c m) (\<lambda>_. live E c tk b W (U \<union> uris (mf_outputs m))) (orch_inv E c)"
proof -
  let ?body = "\<lambda>s. bindS (liftS (all_exist (map ar_uri (mf_outputs m)) (em_bucket s))) (\<lambda>ok.
          if ok then bindS (settle_job m) (\<lambda>_. liftS (Inr (Some ()))) else liftS (Inr None)) s"
  let ?late = "bindS (settle_job m) (\<lambda>_. bindS (mark_stale E c m) (\<lambda>_. liftS (Inl (TimeoutError (''timed out waiting for '' @ mf_job_id m)))))"
  have body: "valid (live E c tk b W U) ?body
      (\<lambda>r s. case r of Some v \<Rightarrow> live E c tk b W (U \<union> uris (mf_outputs m)) s | None \<Rightarrow> live E c tk b W U s) (orch_inv E c)"
  proof (rule validI)
    fix s e s' assume "live E c tk b W U s" "?body s = (Inl e, s')"
    then show "orch_inv E c s'"
      by (auto simp: bindS_def liftS_def live_def ctx_inv split: sum.splits prod.splits if_splits dest: settle_frame)
  next
    fix s v s' assume s: "live E c tk b W U s" and r: "?body s = (Inr v, s')"
    then consider "v = None" "s' = s" | "settle_job m s = (Inr (), s')" "v = Some ()" "all_exist (map ar_uri (mf_outputs m)) (em_bucket s) = Inr True"
      by (auto simp: bindS_def liftS_def split: sum.splits prod.splits if_splits)
    then show "case v of Some v \<Rightarrow> live E c tk b W (U \<union> uris (mf_outputs m)) s' | None \<Rightarrow> live E c tk b W U s'"
    proof cases
      case 2
      then show ?thesis using settle_live [OF s 2(1)] settle_frame [OF 2(1)] by (auto simp: all_exist_iff live_def ctx_def)
    qed (use s in simp)
  qed
  have late: "valid (live E c tk b W U) ?late (\<lambda>_. live E c tk b W (U \<union> uris (mf_outputs m))) (orch_inv E c)"
  proof (rule validI)
    fix s e s' assume s: "live E c tk b W U s" and r: "?late s = (Inl e, s')"
    then obtain s1 r2 where 1: "settle_job m s = (Inr (), s1)" and 2: "mark_stale E c m s1 = (r2, s')"
      by (auto simp: bindS_def liftS_def split: sum.splits prod.splits dest: settle_frame)
    show "orch_inv E c s'" using settle_live [OF s 1] by (intro stale_inv [OF g _ n 2]) (auto simp: live_def ctx_inv)
  qed (auto simp: bindS_def liftS_def split: sum.splits prod.splits)
  have "valid (live E c tk b W U) (poll d ?body ?late) (\<lambda>_. live E c tk b W (U \<union> uris (mf_outputs m))) (orch_inv E c)" for d
    unfolding live_def by (rule valid_poll [OF stable_ctx [OF g] body [unfolded live_def] late [unfolded live_def]]) (rule ctx_inv)
  then show ?thesis by (simp add: valid_def wait_outputs_def)
qed

lemma wait_all_live:
  assumes g: "good_run E c" and n: "\<And>m. m \<in> set ms \<Longrightarrow> job_name (mf_job_id m)"
  shows "valid (live E c tk b W U) (wait_all E c ms) (\<lambda>_. live E c tk b W (U \<union> (\<Union>m \<in> set ms. uris (mf_outputs m)))) (orch_inv E c)"
proof -
  let ?I = "\<lambda>(ys :: JobManifestV3 list) (rs :: unit list). live E c tk b W (U \<union> (\<Union>m \<in> set ys. uris (mf_outputs m)))"
  have "valid (?I [] []) (mapS (wait_outputs E c) ms) (?I ms) (orch_inv E c)"
  proof (rule valid_mapS [where I = ?I])
    fix ys x zs rs assume "ms = ys @ x # zs"
    then have "job_name (mf_job_id x)" using n by auto
    from wait_outputs_live [OF g this, of tk b W "U \<union> (\<Union>m \<in> set ys. uris (mf_outputs m))"]
    show "valid (?I ys rs) (wait_outputs E c x) (\<lambda>r. ?I (ys @ [x]) (rs @ [r])) (orch_inv E c)" by (simp add: Un_ac)
  qed
  then show ?thesis unfolding wait_all_def by (intro valid_bind [of _ _ "?I ms"] valid_lift) auto
qed

text \<open>Emitting a batch of jobs under distinct new ids.\<close>

definition issued :: "JobManifestV3 list \<Rightarrow> (string \<times> ArtifactRef list) set" where
  "issued ms = (\<lambda>m. (mf_job_id m, mf_outputs m)) ` set ms"

lemma emit_all_live:
  assumes em: "\<And>x W'. x \<in> set xs \<Longrightarrow> W \<subseteq> W' \<Longrightarrow> jid x \<notin> fst ` W' \<Longrightarrow> emits E c tk b W' U (f x) (jid x) (O' x)"
    and d: "distinct (map jid xs)" "jid ` set xs \<inter> fst ` W = {}" and ns: "\<And>x. no_sleep (f x)"
  shows "valid (live E c tk b W U) (mapS f xs)
    (\<lambda>ms s. live E c tk b (W \<union> issued ms) U s \<and> list_all2 (\<lambda>x m. mf_job_id m = jid x \<and> O' x (map ar_uri (mf_outputs m))) xs ms) (orch_inv E c)"
proof -
  let ?I = "\<lambda>ys rs s. live E c tk b (W \<union> issued rs) U s \<and> list_all2 (\<lambda>x m. mf_job_id m = jid x \<and> O' x (map ar_uri (mf_outputs m))) ys rs"
  have "valid (?I [] []) (mapS f xs) (?I xs) (orch_inv E c)"
  proof (rule valid_mapS [where I = ?I])
    fix ys x zs rs assume xs: "xs = ys @ x # zs"
    show "valid (?I ys rs) (f x) (\<lambda>r. ?I (ys @ [x]) (rs @ [r])) (orch_inv E c)"
    proof (cases "list_all2 (\<lambda>x m. mf_job_id m = jid x \<and> O' x (map ar_uri (mf_outputs m))) ys rs")
      case True
      then have "mf_job_id ` set rs = jid ` set ys"
        by (induction rule: list_all2_induct) auto
      then have "jid x \<notin> fst ` (W \<union> issued rs)" using d xs by (auto simp: issued_def image_Un image_image)
      from em [OF _ _ this] xs have "emits E c tk b (W \<union> issued rs) U (f x) (jid x) (O' x)" by auto
      from steady_valid [OF this [unfolded emits_def] ns, of "others c"] show ?thesis
        by (rule valid_weaken) (use True in \<open>auto simp: live_def issued_def intro!: list_all2_appendI\<close>)
    qed (auto simp: valid_def)
  qed
  then show ?thesis by (simp add: issued_def)
qed

lemma emit_one_live:
  assumes "emits E c tk b W U f j O'" "no_sleep f"
  shows "valid (live E c tk b W U) f
    (\<lambda>m s. live E c tk b (insert (j, mf_outputs m) W) U s \<and> mf_job_id m = j \<and> O' (map ar_uri (mf_outputs m))) (orch_inv E c)"
  by (rule valid_weaken [OF steady_valid [OF assms(1) [unfolded emits_def] assms(2), of "others c"]]) (auto simp: live_def)

subsection \<open>A step\<close>

lemma last_show_nat: "is_digit (last (show_nat n))"
  by (rule show_nat_digits [of _ n]) simp

lemma ids_apart:
  "inner_id k ub i \<noteq> forward_id k" "reduce_id k ub \<noteq> inner_id k ub' i" "outer_id k ub \<noteq> reduce_id k ub'"
proof -
  have l: "is_digit (last (inner_id k ub i))" for ub i using last_show_nat [of i] by (simp add: inner_id_def)
  have "last (forward_id k) = CHR ''s''" "last (reduce_id k ub) = CHR ''e''" by (simp_all add: id_defs)
  then have "\<not> is_digit (last (forward_id k))" "\<not> is_digit (last (reduce_id k ub))" by (simp_all add: is_digit_def)
  then show "inner_id k ub i \<noteq> forward_id k" "reduce_id k ub \<noteq> inner_id k ub' i" using l by metis+
  show "outer_id k ub \<noteq> reduce_id k ub'"
    by (rule notI, drule arg_cong [of _ _ last]) (simp add: id_defs)
qed

lemma ids_inj:
  "inner_id k ub i = inner_id k ub' i' \<longleftrightarrow> ub = ub' \<and> i = i'" "reduce_id k ub = reduce_id k ub' \<longleftrightarrow> ub = ub'"
  "outer_id k ub = outer_id k ub' \<longleftrightarrow> ub = ub'"
proof -
  have no: "CHR ''-'' \<notin> set (show_nat n)" for n by (rule show_no) (simp add: is_digit_def)
  show "inner_id k ub i = inner_id k ub' i' \<longleftrightarrow> ub = ub' \<and> i = i'"
    using append_sep_inj [of "show_nat ub" "CHR ''-''" "''inner-r'' @ show_nat i" "show_nat ub'" "''inner-r'' @ show_nat i'"] no
    by (auto simp: inner_id_def)
  show "reduce_id k ub = reduce_id k ub' \<longleftrightarrow> ub = ub'" "outer_id k ub = outer_id k ub' \<longleftrightarrow> ub = ub'" by (auto simp: id_defs)
qed

lemma live_mono: "live E c tk b W U s \<Longrightarrow> W' \<subseteq> W \<Longrightarrow> U' \<subseteq> U \<Longrightarrow> live E c tk b W' U' s"
  using ctx_mono by (fastforce simp: live_def)

lemma valid_forget:
  assumes "valid (live E c tk b W U) m Post Exc" "W \<subseteq> W'" "U \<subseteq> U'"
  shows "valid (live E c tk b W' U') m Post Exc"
  by (rule valid_weaken [OF assms(1)]) (use assms(2,3) live_mono in blast)+

text \<open>A batch: emit under new ids, then wait for all of them.\<close>

lemma batch_live:
  assumes g: "good_run E c"
    and em: "\<And>x W'. x \<in> set xs \<Longrightarrow> W \<subseteq> W' \<Longrightarrow> jid x \<notin> fst ` W' \<Longrightarrow> emits E c tk b W' U (f x) (jid x) (O' x)"
    and d: "distinct (map jid xs)" "jid ` set xs \<inter> fst ` W = {}" and ns: "\<And>x. no_sleep (f x)" and nm: "\<And>x. job_name (jid x)"
    and rest: "\<And>ms. list_all2 (\<lambda>x m. mf_job_id m = jid x \<and> O' x (map ar_uri (mf_outputs m))) xs ms \<Longrightarrow>
      valid (live E c tk b (W \<union> issued ms) (U \<union> (\<Union>m \<in> set ms. uris (mf_outputs m)))) k Post (orch_inv E c)"
  shows "valid (live E c tk b W U) (bindS (mapS f xs) (\<lambda>ms. bindS (wait_all E c ms) (\<lambda>_. k))) Post (orch_inv E c)"
proof (rule valid_bind [OF emit_all_live [OF em d ns]])
  fix ms
  show "valid (\<lambda>s. live E c tk b (W \<union> issued ms) U s \<and> list_all2 (\<lambda>x m. mf_job_id m = jid x \<and> O' x (map ar_uri (mf_outputs m))) xs ms)
      (bindS (wait_all E c ms) (\<lambda>_. k)) Post (orch_inv E c)"
  proof (cases "list_all2 (\<lambda>x m. mf_job_id m = jid x \<and> O' x (map ar_uri (mf_outputs m))) xs ms")
    case True
    then have "job_name (mf_job_id m)" if "m \<in> set ms" for m
      using that nm by (induction rule: list_all2_induct) auto
    from wait_all_live [OF g this, of ms tk b "W \<union> issued ms" U] rest [OF True] True show ?thesis
      by (auto intro: valid_bind)
  qed (simp add: valid_def)
qed

lemma list_all2_job:
  assumes "list_all2 (\<lambda>x m. mf_job_id m = jid x \<and> O' x (map ar_uri (mf_outputs m))) xs ms" "x \<in> set xs"
  obtains m where "m \<in> set ms" "(jid x, mf_outputs m) \<in> issued ms" "O' x (map ar_uri (mf_outputs m))"
proof -
  have "\<exists>m \<in> set ms. (jid x, mf_outputs m) \<in> issued ms \<and> O' x (map ar_uri (mf_outputs m))"
    using assms by (induction rule: list_all2_induct) (auto simp: issued_def)
  then show thesis using that by blast
qed

text \<open>What is left of a step after its forward, inner, reduce and outer jobs.\<close>

abbreviation eval_phase :: "emit_env \<Rightarrow> train_task \<Rightarrow> RunConfig \<Rightarrow> int \<Rightarrow> (run_manager, unit) sres" where
  "eval_phase E tk c k \<equiv> bindS (emit_eval E tk c k) (wait_outputs E c)"

abbreviation outer_phase :: "emit_env \<Rightarrow> train_task \<Rightarrow> RunConfig \<Rightarrow> int \<Rightarrow> (run_manager, unit) sres" where
  "outer_phase E tk c k \<equiv> bindS (mapS (emit_outer E tk c k) [0..<tk_N_UB tk]) (\<lambda>ms. bindS (wait_all E c ms) (\<lambda>_. eval_phase E tk c k))"

abbreviation reduce_phase :: "emit_env \<Rightarrow> train_task \<Rightarrow> RunConfig \<Rightarrow> int \<Rightarrow> (run_manager, unit) sres" where
  "reduce_phase E tk c k \<equiv> bindS (mapS (emit_reduce E tk c k) [0..<tk_N_UB tk]) (\<lambda>ms. bindS (wait_all E c ms) (\<lambda>_. outer_phase E tk c k))"

abbreviation inner_phase :: "emit_env \<Rightarrow> train_task \<Rightarrow> RunConfig \<Rightarrow> int \<Rightarrow> (run_manager, unit) sres" where
  "inner_phase E tk c k \<equiv>
     bindS (mapS (\<lambda>(ub, i). emit_inner E tk c k ub i) (List.product [0..<tk_N_UB tk] [0..<tk_INNER_REPLICAS tk]))
       (\<lambda>ms. bindS (wait_all E c ms) (\<lambda>_. reduce_phase E tk c k))"

lemma wait_one_live:
  assumes g: "good_run E c" and j: "job_name j" and k: "valid (live E c tk b W (U \<union> uris (mf_outputs m))) k Post (orch_inv E c)"
  shows "valid (\<lambda>s. live E c tk b W U s \<and> mf_job_id m = j \<and> True) (bindS (wait_outputs E c m) (\<lambda>_. k)) Post (orch_inv E c)"
proof (cases "mf_job_id m = j")
  case True
  then have "job_name (mf_job_id m)" using j by simp
  from valid_bind [OF wait_outputs_live [OF g this] k] show ?thesis by (rule valid_weaken) auto
qed (simp add: valid_def)

lemma eval_phase_live:
  assumes g: "good_run E c"
  shows "valid (live E c tk b {} (weights_of c tk b (k + 1))) (eval_phase E tk c k) (\<lambda>_. live E c tk b {} (weights_of c tk b (k + 1))) (orch_inv E c)"
proof (rule valid_bind [OF emit_one_live [OF emits_eval [OF g] no_sleep_emits(5)]])
  fix m
  show "valid (\<lambda>s. live E c tk b {(eval_id k, mf_outputs m)} (weights_of c tk b (k + 1)) s \<and>
        mf_job_id m = eval_id k \<and> True) (wait_outputs E c m) (\<lambda>_. live E c tk b {} (weights_of c tk b (k + 1))) (orch_inv E c)"
  proof (cases "mf_job_id m = eval_id k")
    case True
    then have "job_name (mf_job_id m)" by (simp only: job_name_step)
    from wait_outputs_live [OF g this] show ?thesis by (rule valid_weaken) (use live_mono in auto)
  qed (simp add: valid_def)
qed auto

lemma outer_phase_live:
  assumes g: "good_run E c" and U: "weights_of c tk b k \<subseteq> U" and W: "fst ` W \<subseteq> range (reduce_id k)"
    "\<And>ub. ub < tk_N_UB tk \<Longrightarrow> \<exists>ro. (reduce_id k ub, ro) \<in> W \<and> uris ro \<subseteq> U"
  shows "valid (live E c tk b W U) (outer_phase E tk c k) (\<lambda>_. live E c tk b {} (weights_of c tk b (k + 1))) (orch_inv E c)"
proof (rule batch_live [where jid = "outer_id k"
      and O' = "\<lambda>ub us. us = [weight_uri c b (k + 1) ub]", OF g])
  let ?oid = "outer_id k"
  fix ub W' assume ub: "ub \<in> set [0..<tk_N_UB tk]" "W \<subseteq> W'" "?oid ub \<notin> fst ` W'"
  then have "ub < tk_N_UB tk" by simp
  from W(2) [OF this] ub(2) obtain ro where "(reduce_id k ub, ro) \<in> W'" "uris ro \<subseteq> U" by blast
  with ub U show "emits E c tk b W' U (emit_outer E tk c k ub) (?oid ub) (\<lambda>us. us = [weight_uri c b (k + 1) ub])"
    by (intro emits_outer [OF g]) auto
next
  fix ms :: "JobManifestV3 list" assume ms: "list_all2 (\<lambda>x m. mf_job_id m = outer_id k x \<and>
      map ar_uri (mf_outputs m) = [weight_uri c b (k + 1) x]) [0..<tk_N_UB tk] ms"
  have "weights_of c tk b (k + 1) \<subseteq> U \<union> (\<Union>m \<in> set ms. uris (mf_outputs m))"
  proof
    fix u assume "u \<in> weights_of c tk b (k + 1)"
    then obtain ub where ub: "ub \<in> set [0..<tk_N_UB tk]" "u = weight_uri c b (k + 1) ub" by (auto simp: weights_of_def)
    obtain m where m: "m \<in> set ms" "map ar_uri (mf_outputs m) = [u]"
      unfolding ub(2) by (rule list_all2_job [where O' = "\<lambda>ub us. us = [weight_uri c b (k + 1) ub]", OF ms ub(1)])
    then have "u \<in> uris (mf_outputs m)" by (metis list.set_intros(1) list.set_map)
    with m(1) show "u \<in> U \<union> (\<Union>m \<in> set ms. uris (mf_outputs m))" by blast
  qed
  then show "valid (live E c tk b (W \<union> issued ms) (U \<union> (\<Union>m \<in> set ms. uris (mf_outputs m)))) (eval_phase E tk c k)
      (\<lambda>_. live E c tk b {} (weights_of c tk b (k + 1))) (orch_inv E c)"
    by (intro valid_forget [OF eval_phase_live [OF g]]) auto
qed (use W(1) ids_apart(3) in \<open>auto simp: distinct_map inj_on_def ids_inj\<close>)

lemma reduce_phase_live:
  assumes g: "good_run E c" and U: "weights_of c tk b k \<subseteq> U" and W: "fst ` W \<subseteq> range (\<lambda>(ub, i). inner_id k ub i)"
    "\<And>ub i. ub < tk_N_UB tk \<Longrightarrow> i < tk_INNER_REPLICAS tk \<Longrightarrow> \<exists>outs. (inner_id k ub i, outs) \<in> W \<and> uris outs \<subseteq> U"
  shows "valid (live E c tk b W U) (reduce_phase E tk c k) (\<lambda>_. live E c tk b {} (weights_of c tk b (k + 1))) (orch_inv E c)"
proof (rule batch_live [where jid = "reduce_id k" and O' = "\<lambda>_ _. True", OF g])
  fix ub W' assume ub: "ub \<in> set [0..<tk_N_UB tk]" "W \<subseteq> W'" "reduce_id k ub \<notin> fst ` W'"
  have "\<exists>outs. (inner_id k ub i, outs) \<in> W' \<and> uris outs \<subseteq> U" if "i < tk_INNER_REPLICAS tk" for i
    using W(2) [OF _ that, of ub] ub(1,2) by auto
  from emits_reduce [OF g ub(3) this] show "emits E c tk b W' U (emit_reduce E tk c k ub) (reduce_id k ub) (\<lambda>_. True)" .
next
  fix ms :: "JobManifestV3 list" assume ms: "list_all2 (\<lambda>x m. mf_job_id m = reduce_id k x \<and> True) [0..<tk_N_UB tk] ms"
  then have f: "fst ` issued ms \<subseteq> range (reduce_id k)"
    by (induction rule: list_all2_induct) (auto simp: issued_def)
  have "\<exists>ro. (reduce_id k ub, ro) \<in> issued ms \<and> uris ro \<subseteq> U \<union> (\<Union>m \<in> set ms. uris (mf_outputs m))" if "ub < tk_N_UB tk" for ub
    by (rule list_all2_job [where O' = "\<lambda>_ _. True", OF ms, of ub]) (use that in auto)
  then show "valid (live E c tk b (W \<union> issued ms) (U \<union> (\<Union>m \<in> set ms. uris (mf_outputs m)))) (outer_phase E tk c k)
     (\<lambda>_. live E c tk b {} (weights_of c tk b (k + 1))) (orch_inv E c)"
    using U by (intro valid_forget [OF outer_phase_live [where U = "U \<union> (\<Union>m \<in> set ms. uris (mf_outputs m))", OF g _ f]]) auto
qed (use W(1) ids_apart(2) in \<open>auto simp: distinct_map inj_on_def ids_inj\<close>)

lemma inner_phase_live:
  assumes g: "good_run E c" and U: "weights_of c tk b k \<subseteq> U" "uris fo \<subseteq> U"
  shows "valid (live E c tk b {(forward_id k, fo)} U) (inner_phase E tk c k) (\<lambda>_. live E c tk b {} (weights_of c tk b (k + 1))) (orch_inv E c)"
proof (rule batch_live [where jid = "\<lambda>(ub, i). inner_id k ub i" and O' = "\<lambda>_ _. True", OF g])
  fix x W' assume x: "x \<in> set (List.product [0..<tk_N_UB tk] [0..<tk_INNER_REPLICAS tk])" "{(forward_id k, fo)} \<subseteq> W'"
    "(case x of (ub, i) \<Rightarrow> inner_id k ub i) \<notin> fst ` W'"
  then show "emits E c tk b W' U (case x of (ub, i) \<Rightarrow> emit_inner E tk c k ub i) (case x of (ub, i) \<Rightarrow> inner_id k ub i) (\<lambda>_. True)"
    using emits_inner [OF g, of k "fst x" "snd x" W' fo tk b U] U by auto
next
  fix ms :: "JobManifestV3 list" assume ms: "list_all2 (\<lambda>x m. mf_job_id m = (case x of (ub, i) \<Rightarrow> inner_id k ub i) \<and> True)
    (List.product [0..<tk_N_UB tk] [0..<tk_INNER_REPLICAS tk]) ms"
  then have f: "fst ` issued ms \<subseteq> range (\<lambda>(ub, i). inner_id k ub i)"
    by (induction rule: list_all2_induct) (auto simp: issued_def image_iff split: prod.splits)
  have "\<exists>outs. (inner_id k ub i, outs) \<in> issued ms \<and> uris outs \<subseteq> U \<union> (\<Union>m \<in> set ms. uris (mf_outputs m))"
    if "ub < tk_N_UB tk" "i < tk_INNER_REPLICAS tk" for ub i
    by (rule list_all2_job [where O' = "\<lambda>_ _. True", OF ms, of "(ub, i)"]) (use that in auto)
  then show "valid (live E c tk b ({(forward_id k, fo)} \<union> issued ms) (U \<union> (\<Union>m \<in> set ms. uris (mf_outputs m)))) (reduce_phase E tk c k)
     (\<lambda>_. live E c tk b {} (weights_of c tk b (k + 1))) (orch_inv E c)"
    using U by (intro valid_forget [OF reduce_phase_live [where U = "U \<union> (\<Union>m \<in> set ms. uris (mf_outputs m))", OF g _ f]]) auto
qed (use ids_apart(1) [symmetric] in \<open>auto simp: distinct_map inj_on_def ids_inj distinct_product split: prod.splits\<close>)

text \<open>From the weights of step \<open>k\<close> a step leads to the weights of step \<open>k + 1\<close>.\<close>

lemma run_step_live:
  assumes g: "good_run E c"
  shows "valid (live E c tk b {} (weights_of c tk b k)) (run_step E tk c k) (\<lambda>_. live E c tk b {} (weights_of c tk b (k + 1))) (orch_inv E c)"
  unfolding run_step_def Let_def
  by (rule valid_bind [OF emit_one_live [OF emits_forward [OF g] no_sleep_emits(1)]], simp, simp,
      rule wait_one_live [OF g job_name_step(3) inner_phase_live [OF g]]) auto

end
