(* ===== verification/Run_Manager_Properties.thy ===== *)
theory Run_Manager_Properties
  imports Run_Manager_Invariant
begin

text \<open>
  The loop of the run manager and its properties: the jobs it offers are ready, no miner is overloaded, a wait always
  settles its job, and when the loop returns the run is complete; and two defects in how it passes crypto policies on.
\<close>

subsection \<open>The saved state\<close>

definition state_ok :: "emit_env \<Rightarrow> RunConfig \<Rightarrow> train_task \<Rightarrow> string \<Rightarrow> run_manager \<Rightarrow> bool" where
  "state_ok E c tk b s \<longleftrightarrow>
     (\<forall>d k. fst (load_state E c s) = Inr d \<longrightarrow> py_int (get_or d ''current_step'' (JInt 0)) = Inr k \<longrightarrow> k < cf_max_steps c \<longrightarrow>
        (\<forall>u \<in> weights_of c tk b k. stored u (em_bucket s)))"

definition loop_inv :: "emit_env \<Rightarrow> RunConfig \<Rightarrow> train_task \<Rightarrow> string \<Rightarrow> run_manager \<Rightarrow> bool" where
  "loop_inv E c tk b s \<longleftrightarrow> ctx E c tk b {} {} s \<and> state_ok E c tk b s"

definition steady_inv :: "emit_env \<Rightarrow> RunConfig \<Rightarrow> train_task \<Rightarrow> string \<Rightarrow> run_manager \<Rightarrow> bool" where
  "steady_inv E c tk b s \<longleftrightarrow> loop_inv E c tk b s \<and> steady (others c) s"

lemma load_state_wrote:
  assumes "good_run E c" "bucket_name (lb_bucket (em_bucket s))" "wrote K (em_bucket s) (em_bucket s')" "skey c \<notin> K"
  shows "fst (load_state E c s') = fst (load_state E c s)"
proof -
  have p: "parse_uri (uri_of s (skey c)) = Inr (lb_bucket (em_bucket s), skey c)"
    using key_parse(2) [OF assms(1) _ assms(2), of "''j''"] by (simp add: uri_of_def uri_for_key_def job_name_def segment_def)
  show ?thesis
    using wrote_get [OF assms(3) p assms(4)] uri_of_wrote [OF assms(3)] by (simp add: load_state_def get_json_def)
qed

lemma stable_loop:
  assumes g: "good_run E c"
  shows "stable (others c) (loop_inv E c tk b)"
  unfolding stable_def
proof (intro allI impI)
  fix s st q now ps assume s: "loop_inv E c tk b s" and o: "others c (em_bucket s, em_queue s) (st, q)"
  let ?s = "s\<lparr>em_bucket := st, em_queue := q, em_now := now, em_pauses := ps\<rparr>"
  have c: "ctx E c tk b {} {} ?s"
    using stable_ctx [OF g] s o unfolding stable_def loop_inv_def by blast
  have w: "wrote (- protected c) (em_bucket s) (em_bucket ?s)" using o by (simp add: others_def)
  have bn: "bucket_name (lb_bucket (em_bucket s))" using s by (auto simp: loop_inv_def ctx_def orch_inv_def)
  have "fst (load_state E c ?s) = fst (load_state E c s)"
    by (rule load_state_wrote [OF g bn w]) (simp add: protected_def)
  then show "loop_inv E c tk b ?s"
    using c s wrote_exists [OF w] by (simp add: loop_inv_def state_ok_def)
qed

text \<open>Saving a state whose \<^verbatim>\<open>current_step\<close> reads as a step with stored weights.\<close>

lemma py_int_norm: "py_int (norm_json v) = py_int v"
  by (cases v) (simp_all del: norm_json.simps(2) add: norm_JObj_dict)

lemma save_state_live:
  assumes g: "good_run E c" and wf: "wf_json v" "wf_dict rest" "''run_id'' \<notin> fst ` set rest" "''current_step'' \<notin> fst ` set rest" "''max_steps'' \<notin> fst ` set rest"
    and U: "\<And>k. py_int v = Inr k \<Longrightarrow> k < cf_max_steps c \<Longrightarrow> weights_of c tk b k \<subseteq> U"
  shows "valid (live E c tk b {} U) (save_state E c (step_state c v @ rest)) (\<lambda>_. steady_inv E c tk b) (orch_inv E c)"
proof (rule validI)
  fix s e s' assume "live E c tk b {} U s" "save_state E c (step_state c v @ rest) s = (Inl e, s')"
  then show "orch_inv E c s'" by (auto simp: save_state_def put_jsonS_def live_def ctx_inv split: sum.splits)
next
  fix s x s' assume s: "live E c tk b {} U s" and r: "save_state E c (step_state c v @ rest) s = (Inr x, s')"
  then obtain st where st: "store_dict (ee_platform E) (ns_of (em_now s)) (uri_of s (skey c)) (step_state c v @ rest) (em_bucket s) = Inr st"
    and s': "s' = s\<lparr>em_bucket := st\<rparr>" by (auto simp: save_state_def put_jsonS_def split: sum.splits)
  have bn: "bucket_name (lb_bucket (em_bucket s))" using s by (auto simp: live_def ctx_def orch_inv_def)
  have p: "parse_uri (uri_of s (skey c)) = Inr (lb_bucket (em_bucket s), skey c)"
    using key_parse(2) [OF g _ bn, of "''j''"] by (simp add: uri_of_def uri_for_key_def job_name_def segment_def)
  have w: "wrote {skey c} (em_bucket s) st"
    by (rule wrote_put [OF st [unfolded put_json_def]]) (use p in simp)
  have i: "orch_inv E c s'"
    unfolding s' using s g skey_apart(2) [of c, symmetric] by (intro write_inv [OF g _ w]) (auto simp: live_def ctx_inv good_run_def)
  have wd: "wf_dict (step_state c v @ rest)" using wf by (auto simp: step_state_def wf_dict_def)
  have "load_record (ee_platform E) Inr (uri_of s (skey c)) st = Inr (norm_dict (step_state c v @ rest))"
    using load_stored [OF _ wd st, of Inr] g by (simp add: good_run_def)
  then have l: "fst (load_state E c s') = Inr (norm_dict (step_state c v @ rest))"
    using uri_of_wrote [of _ s s'] w by (auto simp: load_state_def load_record_def s' bindE_eq_Inr)
  have "get_or (norm_dict (step_state c v @ rest)) ''current_step'' (JInt 0) = norm_json v"
    by (simp add: get_or_def map_of_norm_dict step_state_def)
  then have "state_ok E c tk b s'"
    using l s wrote_exists [OF w] by (auto simp: state_ok_def py_int_norm live_def ctx_def s' dest: subsetD [OF U])
  moreover have "ctx E c tk b {} {} s'" using i s wrote_name [OF w] by (auto simp: live_def ctx_def s')
  ultimately show "steady_inv E c tk b s'" using s by (simp add: steady_inv_def loop_inv_def live_def steady_def s')
qed

subsection \<open>The loop\<close>

text \<open>The saved step has reached the configured number of steps.\<close>

definition complete :: "emit_env \<Rightarrow> RunConfig \<Rightarrow> run_manager \<Rightarrow> bool" where
  "complete E c s \<longleftrightarrow>
     (\<exists>d k. fst (load_state E c s) = Inr d \<and> py_int (get_or d ''current_step'' (JInt 0)) = Inr k \<and> cf_max_steps c \<le> k)"

lemma steady_inv_inv: "steady_inv E c tk b s \<Longrightarrow> orch_inv E c s"
  by (auto simp: steady_inv_def loop_inv_def intro: ctx_inv)

lemma discover_steady:
  assumes "0 \<le> ee_base_quota E"
  shows "valid (steady_inv E c tk b) (RunManager_discover_workers E c) (\<lambda>_. steady_inv E c tk b) (orch_inv E c)"
proof (rule validI)
  fix s e s' assume "steady_inv E c tk b s" "RunManager_discover_workers E c s = (Inl e, s')"
  then show "orch_inv E c s'"
    by (auto simp: RunManager_discover_workers_def learn_workers_def bindS_def liftS_def quotaS_def modifyS_def steady_inv_inv
        split: sum.splits prod.splits)
next
  fix s ws s' assume s: "steady_inv E c tk b s" and r: "RunManager_discover_workers E c s = (Inr ws, s')"
  then obtain ids ws' where s': "s' = s\<lparr>em_quota := update_workers (ee_base_quota E) ids ws' (em_quota s)\<rparr>"
    by (auto simp: RunManager_discover_workers_def learn_workers_def bindS_def liftS_def quotaS_def modifyS_def split: sum.splits prod.splits)
  have "book_ok (em_quota s)" using steady_inv_inv [OF s] by (simp add: orch_inv_def)
  with s assms ctx_quota [OF _ update_workers_ok] show "steady_inv E c tk b s'"
    unfolding steady_inv_def loop_inv_def s' by (simp add: state_ok_def load_state_def uri_of_def steady_def)
qed

lemma load_state_wf: "fst (load_state E c s) = Inr d \<Longrightarrow> wf_dict d"
  by (auto simp: load_state_def get_json_def bindE_eq_Inr dest!: loads_wf) (metis as_mapping.simps(1) json.exhaust sum.inject(2) wf_json_JObj Inl_Inr_False as_mapping.simps(2-))

lemma load_state_steady:
  "valid (steady_inv E c tk b) (load_state E c) (\<lambda>d s. steady_inv E c tk b s \<and> fst (load_state E c s) = Inr d) (orch_inv E c)"
  by (rule validI) (auto simp: load_state_def steady_inv_inv)

lemma get_or_wf: "wf_dict d \<Longrightarrow> wf_json (get_or d k (JInt 0))"
  by (auto simp: get_or_def wf_dict_def split: option.splits dest: map_of_SomeD)

lemma wait_for_workers_steady:
  assumes g: "good_run E c" and q: "0 \<le> ee_base_quota E"
  shows "valid (steady_inv E c tk b) (wait_for_workers E c deadline) (\<lambda>_. steady_inv E c tk b) (orch_inv E c)"
proof -
  let ?save = "\<lambda>d. save_state E c (step_state c (get_or d ''current_step'' (JInt 0)) @ [(''status'', JStr ''waiting_for_miners'')])"
  have save: "valid (\<lambda>s. steady_inv E c tk b s \<and> fst (load_state E c s) = Inr d) (?save d) (\<lambda>_. steady_inv E c tk b) (orch_inv E c)" for d
  proof -
    let ?U = "\<Union>k \<in> {k. py_int (get_or d ''current_step'' (JInt 0)) = Inr k \<and> k < cf_max_steps c}. weights_of c tk b k"
    have "valid (live E c tk b {} ?U) (?save d) (\<lambda>_. steady_inv E c tk b) (orch_inv E c)" if "wf_dict d"
      by (rule save_state_live [OF g get_or_wf [OF that]]) (auto simp: wf_dict_def)
    moreover have "live E c tk b {} ?U s \<and> wf_dict d" if "steady_inv E c tk b s" "fst (load_state E c s) = Inr d" for s
      using that load_state_wf [OF that(2)] by (auto simp: live_def steady_inv_def loop_inv_def state_ok_def ctx_def)
    ultimately show ?thesis by (cases "wf_dict d") (auto simp: valid_def)
  qed
  show ?thesis
    unfolding wait_for_workers_def steady_inv_def
  proof (rule valid_poll [OF stable_loop [OF g]], fold steady_inv_def)
    show "valid (steady_inv E c tk b) (bindS (RunManager_discover_workers E c) (\<lambda>workers.
          if workers \<noteq> [] then liftS (Inr (Some ()))
          else bindS (load_state E c) (\<lambda>d. bindS (?save d) (\<lambda>_. liftS (Inr None)))))
        (\<lambda>r s. case r of None \<Rightarrow> steady_inv E c tk b s | Some v \<Rightarrow> steady_inv E c tk b s) (orch_inv E c)"
    proof (rule valid_bind [OF discover_steady [OF q]])
      fix ws :: "WorkerIdentity list"
      have "valid (steady_inv E c tk b) (bindS (load_state E c) (\<lambda>d. bindS (?save d) (\<lambda>_. liftS (Inr (None :: unit option)))))
          (\<lambda>r s. case r of None \<Rightarrow> steady_inv E c tk b s | Some v \<Rightarrow> steady_inv E c tk b s) (orch_inv E c)"
        by (rule valid_bind [OF load_state_steady], rule valid_bind [OF save]) (rule valid_lift, auto)
      then show "valid (steady_inv E c tk b) (if ws \<noteq> [] then liftS (Inr (Some ())) else bindS (load_state E c) (\<lambda>d. bindS (?save d) (\<lambda>_. liftS (Inr None))))
          (\<lambda>r s. case r of None \<Rightarrow> steady_inv E c tk b s | Some v \<Rightarrow> steady_inv E c tk b s) (orch_inv E c)"
        by (auto intro: valid_lift)
    qed
  qed (auto intro: valid_lift simp: steady_inv_inv steady_inv_def)
qed

lemma run_round_steady:
  assumes g: "good_run E c" and q: "0 \<le> ee_base_quota E"
  shows "valid (steady_inv E c tk b) (run_round E tk c deadline)
    (\<lambda>r s. case r of Some v \<Rightarrow> orch_inv E c s \<and> complete E c s | None \<Rightarrow> steady_inv E c tk b s) (orch_inv E c)"
proof -
  have step: "valid (\<lambda>s. steady_inv E c tk b s \<and> fst (load_state E c s) = Inr d)
      (bindS (run_step E tk c k) (\<lambda>_. bindS (save_state E c (step_state c (JInt (k + 1)))) (\<lambda>_. liftS (Inr None))))
      (\<lambda>r s. case r of Some v \<Rightarrow> orch_inv E c s \<and> complete E c s | None \<Rightarrow> steady_inv E c tk b s) (orch_inv E c)"
    if k: "py_int (get_or d ''current_step'' (JInt 0)) = Inr k" "k < cf_max_steps c" for d k
  proof -
    have sv: "valid (live E c tk b {} (weights_of c tk b (k + 1))) (save_state E c (step_state c (JInt (k + 1)))) (\<lambda>_. steady_inv E c tk b) (orch_inv E c)"
      using save_state_live [OF g, of "JInt (k + 1)" "[]" tk b "weights_of c tk b (k + 1)"] by (simp add: wf_dict_def)
    have "valid (live E c tk b {} (weights_of c tk b k)) (bindS (run_step E tk c k) (\<lambda>_. bindS (save_state E c (step_state c (JInt (k + 1)))) (\<lambda>_. liftS (Inr None))))
        (\<lambda>r s. case r of Some v \<Rightarrow> orch_inv E c s \<and> complete E c s | None \<Rightarrow> steady_inv E c tk b s) (orch_inv E c)"
      by (rule valid_bind [OF run_step_live [OF g]], rule valid_bind [OF sv]) (auto intro: valid_lift)
    then show ?thesis
      by (rule valid_weaken) (use k in \<open>auto simp: live_def steady_inv_def loop_inv_def state_ok_def ctx_def\<close>)
  qed
  have rest: "valid (\<lambda>s. steady_inv E c tk b s \<and> fst (load_state E c s) = Inr d)
      (bindS (liftS (py_int (get_or d ''current_step'' (JInt 0)))) (\<lambda>step.
       if step \<ge> cf_max_steps c then liftS (Inr (Some ()))
       else bindS (run_step E tk c step) (\<lambda>_. bindS (save_state E c (step_state c (JInt (step + 1)))) (\<lambda>_. liftS (Inr None)))))
      (\<lambda>r s. case r of Some v \<Rightarrow> orch_inv E c s \<and> complete E c s | None \<Rightarrow> steady_inv E c tk b s) (orch_inv E c)" for d
  proof (cases "py_int (get_or d ''current_step'' (JInt 0))")
    case (Inl e)
    then show ?thesis by (auto simp: valid_def bindS_def liftS_def steady_inv_inv)
  next
    case (Inr k)
    show ?thesis
    proof (cases "cf_max_steps c \<le> k")
      case True
      with Inr show ?thesis by (auto simp: valid_def bindS_def liftS_def steady_inv_inv complete_def)
    next
      case False
      then show ?thesis using step [OF Inr] Inr by (auto simp: valid_def bindS_def [of "liftS (Inr _)"] liftS_def [of "Inr k"])
    qed
  qed
  show ?thesis
    unfolding run_round_def by (rule valid_bind [OF wait_for_workers_steady [OF g q]], rule valid_bind [OF load_state_steady], rule rest)
qed

lemma run_rounds_steady:
  assumes "good_run E c" "0 \<le> ee_base_quota E"
  shows "valid (steady_inv E c tk b) (run_rounds E tk c deadline) (\<lambda>_ s. orch_inv E c s \<and> complete E c s) (orch_inv E c)"
  unfolding run_rounds_def steady_inv_def
  by (rule valid_poll [OF stable_loop [OF assms(1)]], fold steady_inv_def, rule run_round_steady [OF assms])
    (auto intro: valid_lift simp: steady_inv_inv steady_inv_def)

subsection \<open>Bootstrap\<close>

text \<open>A computation that only writes objects of the run, none of them a manifest.\<close>

lemma frame_inv:
  assumes g: "good_run E c" and i: "orch_inv E c s" and f: "frame K m s" "m s = (r, s')" and K: "\<And>j. job_name j \<Longrightarrow> mkey c j \<notin> K"
  shows "orch_inv E c s'"
proof -
  note fr = frameD [OF f]
  have "orch_inv E c (s\<lparr>em_bucket := em_bucket s'\<rparr>)" by (rule write_inv [OF g i fr(1) K])
  then show ?thesis
    using fr by (simp add: orch_inv_def bounded_def ready_def uri_of_def)
qed

definition runs_keys :: "'c emit_config_scheme \<Rightarrow> string set" where
  "runs_keys c = below (run_prefix (ec_netuid c) ''runs'' (ec_run_id c))"

lemma frame_runs_put:
  assumes "good_run E c" "bucket_name b" "key = run_prefix (ec_netuid c) ''runs'' (ec_run_id c) @ x"
  shows "frame (runs_keys c) (putS (join_uri b key) d) s"
proof (rule frame_put)
  fix b' k assume "parse_uri (join_uri b key) = Inr (b', k)"
  with parse_uri_prefix [of b "run_prefix (ec_netuid c) ''runs'' (ec_run_id c)" x b' k] assms root_no_newline [of "ec_netuid c"]
  show "k \<in> runs_keys c" by (auto simp: runs_keys_def below_def run_prefix_root good_run_def job_name_def)
qed

lemma bindS_assoc: "bindS (bindS m f) g = bindS m (\<lambda>x. bindS (f x) g)"
  by (rule ext) (simp add: bindS_def split: prod.split sum.split)

lemma frame_mapS: "(\<And>x s'. frame K (f x) s') \<Longrightarrow> frame K (mapS f xs) s"
proof (induction xs arbitrary: s)
  case (Cons z zs t)
  have "frame K (bindS (f z) (\<lambda>y. bindS (mapS f zs) (\<lambda>ys. liftS (Inr (y # ys))))) t"
    by (rule frame_bind [OF Cons.prems], rule frame_bind [OF Cons.IH [OF Cons.prems]]) simp
  then show ?case by (simp add: frame_def)
qed (simp add: frame_def)

lemma putS_stored: "putS u d s = (Inr x, s') \<Longrightarrow> stored u (em_bucket s')"
  by (auto simp: putS_def put_exists split: sum.splits)

lemma mkey_not_runs: "job_name (ec_run_id c) \<Longrightarrow> mkey c j \<notin> runs_keys c"
  using section_apart [of "ec_run_id c" "''jobs''" "''runs''" "ec_netuid c" "j @ ''/manifest.json''" "[]"] by (simp add: mkey_shape runs_keys_def)

lemma frame_live:
  assumes g: "good_run E c" and s: "live E c tk b {} U s" and f: "frame (runs_keys c) m s" "m s = (r, s')"
  shows "live E c tk b {} U s'"
proof -
  note fr = frameD [OF f]
  have "orch_inv E c s'"
    by (rule frame_inv [OF g _ f]) (use s g mkey_not_runs in \<open>auto simp: live_def ctx_def good_run_def\<close>)
  moreover have "\<forall>u \<in> U. stored u (em_bucket s')"
    using s wrote_exists [OF fr(1)] by (auto simp: live_def ctx_def)
  ultimately show ?thesis
    using s fr(3) frame_emitted [OF f] wrote_name [OF fr(1)] by (simp add: live_def ctx_def steady_def)
qed

lemma live_inv: "live E c tk b W U s \<Longrightarrow> orch_inv E c s"
  by (simp add: live_def ctx_def)

lemma keep_live:
  assumes g: "good_run E c" and m: "\<And>s. frame (runs_keys c) m s"
  shows "valid (live E c tk b {} U) m (\<lambda>_. live E c tk b {} U) (orch_inv E c)"
proof (rule validI)
  fix s e s' assume "live E c tk b {} U s" "m s = (Inl e, s')"
  from frame_live [OF g this(1) m this(2)] show "orch_inv E c s'" by (rule live_inv)
qed (rule frame_live [OF g _ m])

lemma put_live:
  assumes g: "good_run E c" and m: "\<And>s :: run_manager. frame (runs_keys c) (putS u d) s"
  shows "valid (live E c tk b {} U) (putS u d) (\<lambda>_. live E c tk b {} (insert u U)) (orch_inv E c)"
proof (rule validI)
  fix s e s' assume "live E c tk b {} U s" "putS u d s = (Inl e, s')"
  from frame_live [OF g this(1) m this(2)] show "orch_inv E c s'" by (rule live_inv)
next
  fix s a s' assume "live E c tk b {} U s" and r: "putS u d s = (Inr a, s')"
  from frame_live [OF g this(1) m r] putS_stored [OF r] show "live E c tk b {} (insert u U) s'" by (simp add: live_def ctx_def)
qed

text \<open>A manager that has just been constructed: nothing offered, nothing emitted, no accounts.\<close>

definition fresh_manager :: "RunConfig \<Rightarrow> run_manager \<Rightarrow> bool" where
  "fresh_manager c s \<longleftrightarrow> bucket_name (lb_bucket (em_bucket s)) \<and> em_quota s = [] \<and> oq_outstanding (em_queue s) = [] \<and> rm_emitted s = [] \<and>
     steady (others c) s"

lemma fresh_inv: "fresh_manager c s \<Longrightarrow> orch_inv E c s"
  by (simp add: fresh_manager_def orch_inv_def bounded_def ready_def depth_def)

lemma bootstrap_steady:
  assumes g: "good_run E c" and n: "tk_N_UB tk \<le> 2"
  shows "valid (\<lambda>s. fresh_manager c s \<and> lb_bucket (em_bucket s) = b) (bootstrap E tk c) (\<lambda>_. steady_inv E c tk b) (orch_inv E c)"
proof (rule valid_pre)
  fix s assume f: "fresh_manager c s \<and> lb_bucket (em_bucket s) = b"
  then have b: "bucket_name b" and u: "uri_of s = join_uri b" by (auto simp: fresh_manager_def uri_of_def uri_for_key_def fun_eq_iff)
  let ?n = "ec_netuid c" and ?r = "ec_run_id c" and ?P = "ee_platform E" and ?w = "tk_initial_weights tk"
  let ?m1 = "putS (join_uri b (weights_key ?n ?r 0 0)) (fst ?w)" and ?m2 = "putS (join_uri b (weights_key ?n ?r 0 1)) (snd ?w)"
  let ?m3 = "bindS (mapS (\<lambda>g. putS (join_uri b (graph_key ?n ?r (graph_id ?P g))) (Graph_to_canonical_json ?P g)) (map snd (tk_graphs tk))) (\<lambda>_.
      put_jsonS ?P (join_uri b (manifest_config_key ?n ?r)) [(''task'', JStr (cf_task c)), (''max_steps'', JInt (cf_max_steps c)), (''netuid'', JInt ?n)])"
  have fr: "frame (runs_keys c) ?m1 s'" "frame (runs_keys c) ?m2 s'" "frame (runs_keys c) ?m3 s'" for s'
    unfolding put_jsonS_putS
    by (intro frame_bind frame_mapS frame_runs_put [OF g b]; simp add: weights_key_def graph_key_def graphs_prefix_def manifest_config_key_def run_root_def run_prefix_root)+
  let ?a = "join_uri b (weights_key ?n ?r 0 0)" and ?b = "join_uri b (weights_key ?n ?r 0 1)"
  have w: "weights_of c tk b 0 \<subseteq> {?b, ?a}" 
  proof
    fix u assume "u \<in> weights_of c tk b 0"
    then obtain ub where "ub < 2" "u = weight_uri c b 0 ub" using n by (auto simp: weights_of_def dest: less_le_trans)
    then show "u \<in> {?b, ?a}" by (auto simp: weight_uri_def less_2_cases_iff)
  qed
  have sv: "valid (live E c tk b {} {?b, ?a}) (save_state E c (step_state c (JInt 0))) (\<lambda>_. steady_inv E c tk b) (orch_inv E c)"
    using save_state_live [OF g, of "JInt 0" "[]" tk b "{?b, ?a}"] w by (simp add: wf_dict_def)
  have "valid (live E c tk b {} {}) (bindS ?m1 (\<lambda>_. bindS ?m2 (\<lambda>_. bindS ?m3 (\<lambda>_. save_state E c (step_state c (JInt 0)))))) (\<lambda>_. steady_inv E c tk b) (orch_inv E c)"
    by (rule valid_bind [OF put_live [OF g fr(1)]], rule valid_bind [OF put_live [OF g fr(2)]], rule valid_bind [OF keep_live [OF g fr(3)]], rule sv)
  moreover have "live E c tk b {} {} s" using f fresh_inv [of c s E] by (auto simp: live_def ctx_def fresh_manager_def)
  ultimately show "valid (\<lambda>t. t = s) (bootstrap E tk c) (\<lambda>_. steady_inv E c tk b) (orch_inv E c)"
    by (simp only: valid_def bootstrap_def Let_def u bindS_assoc simp_thms)
qed

subsection \<open>How a waiting loop ends\<close>

lemma poll_ends:
  assumes "poll deadline body late s = (r, s')"
  obtains (returned) s1 v where "em_now s1 < deadline" "body s1 = (Inr (Some v), s')" "r = Inr v"
    | (raised) s1 e where "em_now s1 < deadline" "body s1 = (Inl e, s')" "r = Inl e"
    | (expired) s1 where "deadline \<le> em_now s1" "late s1 = (r, s')"
    | (blocked) "r = Inl Blocked"
  using assms by (rule poll_ends_inv [where I = "\<lambda>_. True"]) (auto intro: that)

subsection \<open>Samples\<close>

definition sample_emit_env :: emit_env where
  "sample_emit_env = \<lparr>ee_platform = reference_platform, ee_nacl = None, ee_btcli = (\<lambda>_. Inl (FileNotFoundError ''btcli'')), ee_ss58 = None,
     ee_presign = None, ee_base_quota = 8\<rparr>"

definition sample_run_config :: RunConfig where
  "sample_run_config =
     \<lparr>ec_netuid = 3, ec_run_id = ''run'', ec_owner_secret = ''owner'', ec_owner_signer = None, ec_grant_mode = ''direct'', ec_grant_ttl_sec = 600,
      ec_assignment_secret = ''a'', ec_assignment_crypto = ''dev'', ec_network = ''finney'', ec_discovery_backend = ''bucket'',
      ec_discovery_heartbeat_ttl_sec = Some 30, cf_task = ''mlp'', cf_max_steps = 1, cf_crypto_policy = None, cf_max_inflight_per_hotkey = 8\<rparr>"

definition plain_graph :: Graph where
  "plain_graph = \<lparr>gh_inputs = [], gh_outputs = [], gh_params = [], gh_ops = [], gh_ir_version = 1\<rparr>"

definition sample_task :: train_task where
  "sample_task =
     \<lparr>tk_N_UB = 2, tk_INNER_REPLICAS = 2, tk_graphs = map (\<lambda>n. (n, plain_graph)) [''forward'', ''inner'', ''outer'', ''eval''],
      tk_build_reduce_graph = (\<lambda>_. plain_graph), tk_initial_weights = ([1], [2])\<rparr>"

text \<open>A constructed manager; during its only pause a miner's heartbeat arrives.\<close>

definition sample_manager :: run_manager where
  "sample_manager =
     \<lparr>em_bucket = LocalBucket_init ''b'', em_quota = [], em_queue = OrchestratorQueue_init 3 ''run'' ''train'' 32, em_resolver = None, em_broker = None,
      em_now = 100,
      em_pauses = [\<lparr>ps_now = 101, ps_effect = (\<lambda>(st, q). (st\<lparr>lb_objects := AList.update (''b'', ''v3/netuid=3/miners/hk/h.json'') ([7], 0) (lb_objects st)\<rparr>, q))\<rparr>],
      rm_emitted = []\<rparr>"

lemma sample_run_ok:
  "good_run sample_emit_env sample_run_config" "0 \<le> ee_base_quota sample_emit_env" "tk_N_UB sample_task \<le> 2" "fresh_manager sample_run_config sample_manager"
proof -
  show "good_run sample_emit_env sample_run_config"
    by (simp add: good_run_def sample_emit_env_def sample_run_config_def job_name_def segment_def)
  show "0 \<le> ee_base_quota sample_emit_env" "tk_N_UB sample_task \<le> 2" by (simp_all add: sample_emit_env_def sample_task_def)
  have "others sample_run_config (st, q) (st\<lparr>lb_objects := AList.update (''b'', ''v3/netuid=3/miners/hk/h.json'') ([7], 0) (lb_objects st)\<rparr>, q)" for st q
    by (auto simp: others_def wrote_def protected_def sample_run_config_def dom_update job_manifest_key_def jobs_prefix_def state_key_def run_root_def root_def
        show_int_def show_nat.simps digit_char_def)
  then show "fresh_manager sample_run_config sample_manager"
    by (simp add: fresh_manager_def sample_manager_def steady_def bucket_name_def LocalBucket_init_def OrchestratorQueue_init_def split: prod.splits)
qed

subsection \<open>Properties\<close>

lemma run_from_fresh:
  assumes "good_run E c" "0 \<le> ee_base_quota E" "tk_N_UB tk \<le> 2"
  shows "valid (fresh_manager c) (bindS (bootstrap E tk c) (\<lambda>_. run_rounds E tk c deadline)) (\<lambda>_ s. orch_inv E c s \<and> complete E c s) (orch_inv E c)"
proof (rule valid_pre)
  fix s assume "fresh_manager c s"
  then show "valid (\<lambda>t. t = s) (bindS (bootstrap E tk c) (\<lambda>_. run_rounds E tk c deadline)) (\<lambda>_ s. orch_inv E c s \<and> complete E c s) (orch_inv E c)"
    by (intro valid_weaken [OF valid_bind [OF bootstrap_steady [OF assms(1,3)] run_rounds_steady [OF assms(1,2)]]]) auto
qed

text \<open>
  C8. The run manager offers only jobs that can be executed: whatever the miners do, at every moment at which others can
  look at its queue (the end of every prefix of pauses), each offered entry points to a stored manifest of that job
  and every input of that manifest exists in the bucket. The pauses may write any object except the manifests and the state
  of the run, delete none, and merge no foreign queue entries; the task has at most the two blocks \<^verbatim>\<open>bootstrap\<close> stores weights for.
\<close>

theorem run_offers_ready_jobs:
  assumes "good_run E c" and "0 \<le> ee_base_quota E" and "tk_N_UB tk \<le> 2" and "fresh_manager c s"
  shows "ready E c (snd (bindS (bootstrap E tk c) (\<lambda>_. run_rounds E tk c deadline) s))"
proof -
  have "valid (fresh_manager c) (bindS (bootstrap E tk c) (\<lambda>_. run_rounds E tk c deadline)) (\<lambda>_. orch_inv E c) (orch_inv E c)"
    by (rule valid_weaken [OF run_from_fresh [OF assms(1-3)]]) auto
  from valid_either [OF this assms(4)] show ?thesis by (simp add: orch_inv_def)
qed

theorem run_offers_ready_jobs_witness:
  "ready sample_emit_env sample_run_config
     (snd (bindS (bootstrap sample_emit_env sample_task sample_run_config) (\<lambda>_. run_rounds sample_emit_env sample_task sample_run_config 160) sample_manager))"
  by (rule run_offers_ready_jobs [OF sample_run_ok])

text \<open>
  C9. Backpressure holds throughout a run: no hotkey ever has more than \<^verbatim>\<open>max_inflight_per_hotkey\<close> entries outstanding in
  the queue, and the quota book stays consistent (no account above its quota, none negative).
\<close>

theorem run_respects_backpressure:
  assumes "good_run E c" and "0 \<le> ee_base_quota E" and "tk_N_UB tk \<le> 2" and "fresh_manager c s"
  shows "(\<forall>hk. int (depth (Some hk) (em_queue (snd (bindS (bootstrap E tk c) (\<lambda>_. run_rounds E tk c deadline) s)))) \<le> max 0 (cf_max_inflight_per_hotkey c)) \<and>
    book_ok (em_quota (snd (bindS (bootstrap E tk c) (\<lambda>_. run_rounds E tk c deadline) s)))"
proof -
  have "valid (fresh_manager c) (bindS (bootstrap E tk c) (\<lambda>_. run_rounds E tk c deadline)) (\<lambda>_. orch_inv E c) (orch_inv E c)"
    by (rule valid_weaken [OF run_from_fresh [OF assms(1-3)]]) auto
  from valid_either [OF this assms(4)] show ?thesis by (simp add: orch_inv_def bounded_def)
qed

theorem run_respects_backpressure_witness:
  "int (depth (Some ''hk'') (em_queue (snd (bindS (bootstrap sample_emit_env sample_task sample_run_config)
     (\<lambda>_. run_rounds sample_emit_env sample_task sample_run_config 160) sample_manager)))) \<le> 8"
  using run_respects_backpressure [OF sample_run_ok, of 160] by (simp add: sample_run_config_def)

text \<open>
  C10. A run that returns is complete: \<^verbatim>\<open>run_loop\<close> comes back without an exception only when the saved \<^verbatim>\<open>current_step\<close> has
  reached \<^verbatim>\<open>max_steps\<close>; in every other case it raises.
\<close>

theorem run_returns_complete:
  assumes "run_rounds E tk c deadline s = (Inr u, s')"
  shows "complete E c s'"
proof -
  from assms [unfolded run_rounds_def] show ?thesis
  proof (cases rule: poll_ends)
    case (returned s1 v)
    then show ?thesis
      by (auto simp: run_round_def complete_def bindS_Inr load_state_def split: if_splits)
  qed (auto simp: liftS_def)
qed

definition done_bucket :: LocalBucket where
  "done_bucket =
     projr (bindE (advertise_worker reference_platform 0 100 (discovery_backend_of sample_run_config ''train'') sample_miner (sample_worker ''hk'' ''w0'') (LocalBucket_init ''b''))
       (store_dict reference_platform 0 ''s3://b/v3/netuid=3/runs/run/state.json'' [(''current_step'', JInt 1)]))"

definition done_manager :: run_manager where
  "done_manager = sample_manager\<lparr>em_bucket := done_bucket\<rparr>"

theorem run_returns_complete_witness:
  "\<exists>s'. run_rounds sample_emit_env sample_task sample_run_config 160 done_manager = (Inr (), s') \<and> complete sample_emit_env sample_run_config s'"
proof -
  have "fst (run_rounds sample_emit_env sample_task sample_run_config 160 done_manager) = Inr ()" by code_simp
  then obtain s' where r: "run_rounds sample_emit_env sample_task sample_run_config 160 done_manager = (Inr (), s')"
    by (metis prod.collapse)
  from run_returns_complete [OF r] r show ?thesis by blast
qed

lemma removed: "j \<notin> fst ` set (oq_outstanding (snd (remove j q)))"
  by (auto simp: remove_def mark_dirty_def map_of_eq_None_iff AList.delete_eq)

lemma settle_eq:
  "settle_job m s =
     (Inr (), s\<lparr>em_quota := release (mf_assigned_hotkey m) 1 (em_quota s), em_queue := snd (remove (mf_job_id m) (em_queue s))\<rparr>)"
  by (simp add: settle_job_def bindS_def quotaS_def queueS_def modifyS_def)

lemma stale_stored:
  assumes "good_run E c" "job_name (mf_job_id m)" "bucket_name (lb_bucket (em_bucket s))" "mark_stale E c m s = (y, s')"
  shows "y = Inr () \<and> stored (uri_of s' (jobs_prefix (ec_netuid c) (ec_run_id c) @ mf_job_id m @ ''/stale.json'')) (em_bucket s') \<and>
    em_queue s' = em_queue s \<and> em_quota s' = em_quota s \<and> em_now s' = em_now s"
proof -
  let ?k = "jobs_prefix (ec_netuid c) (ec_run_id c) @ mf_job_id m @ ''/stale.json''"
  have "object_key ?k" using assms(1,2) root_no_newline by (auto simp: object_key_def jobs_prefix_shape run_prefix_root good_run_def job_name_def)
  then have "parse_uri (uri_of s ?k) = Inr (lb_bucket (em_bucket s), ?k)" using assms(3) by (simp add: uri_of_def uri_for_key_def)
  from lb.put_total [OF this] obtain st where p: "LocalBucket_put (ns_of (em_now s)) (uri_of s ?k)
      (utf8_encode (dumps (ee_platform E) True (JObj [(''job_id'', JStr (mf_job_id m)), (''stale_unix'', JInt (unix_of (em_now s))), (''reason'', JStr ''output_timeout'')])))
      (em_bucket s) = Inr st" by blast
  then have "y = Inr ()" "s' = s\<lparr>em_bucket := st\<rparr>"
    using assms(4) by (simp_all add: mark_stale_def put_jsonS_putS putS_def)
  with put_exists [OF p] put_bucket_name [OF p] show ?thesis by (simp add: uri_of_def uri_for_key_def)
qed


definition waiting_manager :: run_manager where
  "waiting_manager =
     sample_manager\<lparr>em_bucket := \<lparr>lb_bucket = ''b'', lb_objects = [((''b'', ''y.bin''), ([1], 0))]\<rparr>,
       em_queue := add (QueueEntry_from_manifest sample_manifest ''s3://b/m.json'' None) (em_queue sample_manager)\<rparr>"


text \<open>
  C38. The documented policy \<^verbatim>\<open>required_signer="assigned_hotkey"\<close> breaks every step after the first. The outer job's output is
  resolved to the hotkey of its worker, but the reference by which later jobs read those weights carries the unresolved policy:
  an artifact that a miner with hotkey \<open>hk\<close> wrote under the resolved policy cannot be read through it, the reader raises
  \<^verbatim>\<open>artifact signer mismatch\<close>.
\<close>

theorem weights_unreadable_after_first_step:
  assumes "float_codec P" and "cf_crypto_policy c = Some pol" and "cp_required_signer pol = Some ''assigned_hotkey''" and "cp_mode pol \<noteq> ''none''"
    and "0 < k" and "wi_hotkey_ss58 w \<noteq> ''assigned_hotkey''" and "resolve_output_crypto (output_ref c ''new_weights'' u) w = Inr ref"
    and "encode_envelope P drand weights (ar_crypto ref) (Some (SignerObj (wi_hotkey_ss58 w) sg)) secret tp = Inr blob"
  shows "decode_envelope P drand blob (ar_crypto (weight_ref c st name k ub)) verify secret tp = Inl (ValueError ''artifact signer mismatch'')"
proof -
  obtain pol' where r: "ar_crypto ref = Some (pol'\<lparr>cp_required_signer := Some (wi_hotkey_ss58 w)\<rparr>)"
    and d: "ArtifactCryptoPolicy_from_dict (ArtifactCryptoPolicy_to_dict pol) = Inr pol'"
    using assms(2,3,7) by (auto simp: resolve_output_crypto_def output_ref_def bindE_eq_Inr)
  have md: "cp_mode pol' = cp_mode pol"
    using d by (auto simp: ArtifactCryptoPolicy_from_dict_def ArtifactCryptoPolicy_to_dict_def bindE_eq_Inr get_or_def get_req_def)
  let ?p = "default_policy (ar_crypto ref)"
  have ne: "cp_mode ?p \<noteq> ''none''" using r md assms(4) by (simp add: default_policy_def)
  obtain ct env where "sign_envelope P (Some (SignerObj (wi_hotkey_ss58 w) sg)) (unsigned_envelope weights ct ?p (Some (wi_hotkey_ss58 w))) = Inr env"
    and blob: "blob = utf8_encode (dumps P True (JObj (ArtifactEnvelope_to_dict env)))"
    by (rule encode_envelope_cases [OF assms(8) ne]) (simp add: signer_identity_def)
  note f = sign_envelope_fields [OF this(1)]
  have "en_crypto_mode env = cp_mode pol" "en_signer env = Some (wi_hotkey_ss58 w)"
    using f(6,7) r md by (simp_all add: unsigned_envelope_def default_policy_def)
  then have "verify_artifact_envelope P env pol verify = Inl (ValueError ''artifact signer mismatch'')"
    using assms(3,6) by (simp add: verify_artifact_envelope_def)
  then show ?thesis
    using parse_encoded [OF assms(1), of env] assms(2,4,5) by (simp add: decode_envelope_def blob weight_ref_def default_policy_def)
qed

definition signed_config :: RunConfig where
  "signed_config = sample_run_config\<lparr>cf_crypto_policy := Some (ArtifactCryptoPolicy_default\<lparr>cp_mode := ''signed'', cp_required_signer := Some ''assigned_hotkey''\<rparr>)\<rparr>"

theorem weights_unreadable_after_first_step_witness:
  "\<exists>ref blob. resolve_output_crypto (output_ref signed_config ''new_weights'' ''s3://b/w.bin'') (sample_worker ''hk'' ''w0'') = Inr ref \<and>
     encode_envelope reference_platform None [1] (ar_crypto ref) (Some (SignerObj ''hk'' (\<lambda>_. ''sig''))) ''s'' None = Inr blob \<and>
     decode_envelope reference_platform None blob (ar_crypto (weight_ref signed_config (LocalBucket_init ''b'') ''weights'' 1 0)) None ''s'' None =
       Inl (ValueError ''artifact signer mismatch'')"
proof -
  let ?pol = "ArtifactCryptoPolicy_default\<lparr>cp_mode := ''signed'', cp_required_signer := Some ''assigned_hotkey''\<rparr>"
  let ?ref = "\<lparr>ar_name = ''new_weights'', ar_uri = ''s3://b/w.bin'', ar_sha256 = None, ar_size_bytes = None,
     ar_crypto = Some (?pol\<lparr>cp_required_signer := Some ''hk''\<rparr>)\<rparr>"
  have p: "cf_crypto_policy signed_config = Some ?pol" by (simp add: signed_config_def)
  have "ArtifactCryptoPolicy_from_dict (ArtifactCryptoPolicy_to_dict ?pol) = Inr ?pol" by code_simp
  then have r: "resolve_output_crypto (output_ref signed_config ''new_weights'' ''s3://b/w.bin'') (sample_worker ''hk'' ''w0'') = Inr ?ref"
    by (simp add: resolve_output_crypto_def output_ref_def p sample_worker_def)
  obtain blob where b: "encode_envelope reference_platform None [1] (ar_crypto ?ref) (Some (SignerObj ''hk'' (\<lambda>_. ''sig''))) ''s'' None = Inr blob"
    by (simp add: encode_envelope_def default_policy_def encrypt_payload_def sign_envelope_def)
  have w: "wi_hotkey_ss58 (sample_worker ''hk'' ''w0'') = ''hk''" by (simp add: sample_worker_def)
  from weights_unreadable_after_first_step [OF reference_float_codec p _ _ _ _ r, of 1 None "[1]" "\<lambda>_. ''sig''" "''s''" None blob] b r
  show ?thesis unfolding w by auto
qed

end
