(* ===== verification/Distributed_Executor.thy ===== *)
theory Distributed_Executor
  imports Executor
begin

text \<open>
  \<^verbatim>\<open>teuton_runtime/distributed_executor.py\<close>: \<^verbatim>\<open>DistributedJobExecutor\<close>, which treats the GPUs of one host as one
  worker. A job that does not ask for the tensor-parallel runner goes to a single \<^verbatim>\<open>JobExecutor\<close>; otherwise the inputs
  are loaded, the ranks run (processes and torch: a parameter), and the outputs are stored whole or in shards.
\<close>

subsection \<open>State\<close>

record 't DistributedJobExecutor =
  dx_devices :: "string list"
  dx_encryption_secret :: string
  dx_timelock_provider :: "timelock_provider option"
  dx_single :: "'t JobExecutor"

text \<open>
  \<open>de_ranks\<close> is \<^verbatim>\<open>mp.spawn\<close> of \<^verbatim>\<open>_rank_entry\<close> on the devices with the graph, the inputs and the params: the outputs
  rank 0 puts in the queue, or what is raised when a rank fails.
\<close>

record 't dist_env = "'t exec_env" +
  de_cuda_available :: bool
  de_ranks :: "string list \<Rightarrow> bytes \<Rightarrow> (string \<times> 't) list \<Rightarrow> dict \<Rightarrow> (string \<times> 't out_value) list res"

definition DistributedJobExecutor_init ::
  "int \<Rightarrow> int \<Rightarrow> string list \<Rightarrow> string \<Rightarrow> timelock_provider option \<Rightarrow> 't DistributedJobExecutor res" where
  "DistributedJobExecutor_init input_cache_mb output_cache_mb devices encryption_secret tp =
     (if devices = [] then Inl (ValueError ''DistributedJobExecutor requires at least one device'')
      else Inr \<lparr>dx_devices = devices, dx_encryption_secret = encryption_secret, dx_timelock_provider = tp,
                dx_single = JobExecutor_init input_cache_mb output_cache_mb encryption_secret tp\<rparr>)"

text \<open>\<^verbatim>\<open>json.dumps(v, sort_keys=True)\<close>: the default separators have a blank after comma and colon.\<close>

fun dumps_spaced :: "platform \<Rightarrow> json \<Rightarrow> string" where
  "dumps_spaced P (JList xs) = ''['' @ join_with '', '' (map (dumps_spaced P) xs) @ '']''"
| "dumps_spaced P (JObj d) =
     ''{'' @ join_with '', '' (map (\<lambda>(k, t). quote_str True k @ '': '' @ t)
               (sort_key fst (map (\<lambda>(k, v). (k, dumps_spaced P v)) d))) @ ''}''"
| "dumps_spaced P v = dumps P True v"

subsection \<open>Inputs\<close>

text \<open>\<^verbatim>\<open>decode_envelope(..., verifier=HmacSigner("miner-dev-secret"))\<close>: the verifier ignores the identity.\<close>

definition HmacSigner_verify :: "string \<Rightarrow> verifier" where
  "HmacSigner_verify secret = (\<lambda>payload signature ident. verify_payload payload secret signature)"

definition sharded_input :: "('t, 'b) exec_env_scheme \<Rightarrow> grants \<Rightarrow> LocalBucket \<Rightarrow> ArtifactRef \<Rightarrow> bytes \<Rightarrow> 't option res" where
  "sharded_input X gs st ref body =
     bindE (bindE (utf8_decode body) (loads (xe_platform X))) (\<lambda>header.
     bindE (json_has ''shards'' header) (\<lambda>a.
     bindE (if a then json_has ''world_size'' header else Inr False) (\<lambda>b.
       if b then bindE (get_sharded_tensor (xe_platform X) (xe_transport X) (xe_tensors X) gs (ar_uri ref) st) (\<lambda>t. Inr (Some t))
       else Inr None)))"

definition dist_load_input :: "('t, 'b) exec_env_scheme \<Rightarrow> 't DistributedJobExecutor \<Rightarrow> grants \<Rightarrow> LocalBucket \<Rightarrow> ArtifactRef \<Rightarrow> 't res" where
  "dist_load_input X dx gs st ref =
     bindE (tr_get (xe_transport X) (ar_uri ref) (map_of gs (ar_uri ref)) st) (\<lambda>body.
     bindE (if \<not> ends_with (ar_uri ref) ''.json'' then Inr None
            else case sharded_input X gs st ref body of
                   Inl e \<Rightarrow> if caught e then Inr None else Inl e
                 | Inr v \<Rightarrow> Inr v) (\<lambda>v.
       case v of
         Some t \<Rightarrow> Inr t
       | None \<Rightarrow>
           bindE (decode_envelope (xe_platform X) (xe_drand X) body (ar_crypto ref) (Some (HmacSigner_verify ''miner-dev-secret''))
                    (dx_encryption_secret dx) (dx_timelock_provider dx)) (to_decode (xe_tensors X))))"

fun dist_load_inputs ::
  "('t, 'b) exec_env_scheme \<Rightarrow> 't DistributedJobExecutor \<Rightarrow> grants \<Rightarrow> LocalBucket \<Rightarrow> ArtifactRef list \<Rightarrow> (string \<times> 't) list \<Rightarrow> (string \<times> 't) list res" where
  "dist_load_inputs X dx gs st [] acc = Inr acc"
| "dist_load_inputs X dx gs st (ref # refs) acc =
     bindE (dist_load_input X dx gs st ref) (\<lambda>t. dist_load_inputs X dx gs st refs (AList.update (ar_name ref) t acc))"

subsection \<open>Outputs\<close>

definition sharded_digest :: "platform \<Rightarrow> ArtifactRef \<Rightarrow> ShardedTensorManifest \<Rightarrow> ArtifactDigest" where
  "sharded_digest P ref m =
     \<lparr>ad_name = ar_name ref, ad_uri = ar_uri ref, ad_sha256 = sha256_hex (encode_manifest P m),
      ad_size_bytes = int (length (encode_manifest P m)) + (\<Sum>s \<leftarrow> st_shards m. case sh_size_bytes s of None \<Rightarrow> 0 | Some n \<Rightarrow> n),
      ad_plaintext_sha256 = None, ad_ciphertext_sha256 = None, ad_envelope_sha256 = None, ad_signature = None,
      ad_crypto_mode = ''none'', ad_sharded = Some m\<rparr>"

definition put_sharded_output ::
  "('t, 'b) exec_env_scheme \<Rightarrow> 't DistributedJobExecutor \<Rightarrow> grants \<Rightarrow> ArtifactRef \<Rightarrow> json \<Rightarrow> 't out_value \<Rightarrow> (LocalBucket, ArtifactDigest) sres" where
  "put_sharded_output X dx gs ref cfg value =
     (if ar_crypto ref \<noteq> None then liftS (Inl (ValueError ''sharded output artifacts do not yet support crypto envelopes''))
      else bindS (liftS (bindE (as_mapping cfg) (\<lambda>d.
             bindE (py_int (get_or d ''world_size'' (JInt (int (length (dx_devices dx)))))) (\<lambda>n.
             bindE (py_int (get_or d ''partition_dim'' (JInt 0))) (\<lambda>dim.
               case value of OTensor t \<Rightarrow> Inr (t, n, dim) | _ \<Rightarrow> Inl AttributeError))))) (\<lambda>(t, n, dim) st.
             case put_sharded_tensor (xe_platform X) (xe_transport X) (xe_tensors X) gs (ar_uri ref) t (ar_name ref) n dim st of
               (st', Inl e) \<Rightarrow> (Inl e, st')
             | (st', Inr m) \<Rightarrow> (Inr (sharded_digest (xe_platform X) ref m), st')))"

definition plain_output ::
  "('t, 'b) exec_env_scheme \<Rightarrow> 't DistributedJobExecutor \<Rightarrow> signer \<Rightarrow> ArtifactRef \<Rightarrow> 't out_value \<Rightarrow> ((string \<times> bytes) \<times> ArtifactDigest) res" where
  "plain_output X dx signer ref value =
     bindE (encode_output (exec_env.truncate X) value (ends_with (ar_uri ref) ''.json'')) (\<lambda>body.
     bindE (encode_envelope (xe_platform X) (xe_drand X) body (ar_crypto ref) (Some signer) (dx_encryption_secret dx) (dx_timelock_provider dx)) (\<lambda>blob.
     bindE (digest_body (xe_platform X) (ar_name ref) (ar_uri ref) blob (ar_crypto ref)) (\<lambda>digest. Inr ((ar_uri ref, blob), digest))))"

text \<open>Sharded outputs are stored in the loop, the others are collected and stored after it.\<close>

fun dist_outputs ::
  "('t, 'b) exec_env_scheme \<Rightarrow> 't DistributedJobExecutor \<Rightarrow> signer \<Rightarrow> grants \<Rightarrow> dict \<Rightarrow> (string \<times> 't out_value) list \<Rightarrow> ArtifactRef list \<Rightarrow>
   (LocalBucket, (string \<times> bytes) list \<times> ArtifactDigest list) sres" where
  "dist_outputs X dx signer gs sharding outputs [] = liftS (Inr ([], []))"
| "dist_outputs X dx signer gs sharding outputs (ref # refs) =
     (case map_of outputs (ar_name ref) of
        None \<Rightarrow> liftS (Inl (KeyError (''distributed runner did not produce output '' @ ar_name ref)))
      | Some value \<Rightarrow>
          bindS (if truthy (get_none sharding (ar_name ref))
                 then bindS (put_sharded_output X dx gs ref (get_none sharding (ar_name ref)) value) (\<lambda>d. liftS (Inr ([], d)))
                 else liftS (bindE (plain_output X dx signer ref value) (\<lambda>(p, d). Inr ([p], d)))) (\<lambda>(ps, d).
          bindS (dist_outputs X dx signer gs sharding outputs refs) (\<lambda>(ps', ds). liftS (Inr (ps @ ps', d # ds)))))"

definition dist_receipt ::
  "('t, 'b) exec_env_scheme \<Rightarrow> 't DistributedJobExecutor \<Rightarrow> JobManifestV3 \<Rightarrow> WorkerIdentity \<Rightarrow> ArtifactDigest list \<Rightarrow> ArtifactDigest list \<Rightarrow> JobReceiptV3" where
  "dist_receipt X dx m worker ins outs =
     (unsigned_receipt (exec_env.truncate X) m worker ins outs)\<lparr>rc_execution :=
        [(''mode'', JStr ''gpt_tensor_parallel_v1''), (''world_size'', JInt (int (length (dx_devices dx)))),
         (''device_group'', JList (map JStr (dx_devices dx))), (''rank_backend'', JStr ''nccl''),
         (''sharding_plan_hash'', JStr (sha256_hex (utf8_encode (dumps_spaced (xe_platform X) (get_or (mf_params m) ''parallelism'' (JObj []))))))]\<rparr>"

definition execute_gpt_tensor_parallel ::
  "('t, 'b) dist_env_scheme \<Rightarrow> 't DistributedJobExecutor \<Rightarrow> JobManifestV3 \<Rightarrow> WorkerIdentity \<Rightarrow> string \<Rightarrow> signer option \<Rightarrow> grants \<Rightarrow>
   (LocalBucket, JobReceiptV3) sres" where
  "execute_gpt_tensor_parallel X dx m worker miner_secret miner_signer gs =
     (if \<not> list_all (\<lambda>d. starts_with d ''cuda'') (dx_devices dx) then liftS (Inl (ValueError ''gpt_tensor_parallel_v1 requires CUDA devices''))
      else if \<not> de_cuda_available X then liftS (Inl (ValueError ''CUDA is not available''))
      else bindS (\<lambda>st. (LocalBucket_get (gr_uri (mf_graph_ref m)) st, st)) (\<lambda>graph_body.
           bindS (\<lambda>st. (dist_load_inputs X dx gs st (mf_inputs m) [], st)) (\<lambda>inputs.
           bindS (liftS (de_ranks X (dx_devices dx) graph_body inputs (mf_params m))) (\<lambda>outputs.
           bindS (liftS (dict_or_empty (get_none (mf_params m) ''output_sharding''))) (\<lambda>sharding.
           let signer = artifact_signer miner_secret miner_signer worker
           in bindS (dist_outputs X dx signer gs sharding outputs (mf_outputs m)) (\<lambda>(puts, outs).
              bindS (put_blobs (xe_transport X) gs puts) (\<lambda>_.
              bindS (\<lambda>st. (mapE (input_digest (exec_env.truncate X) gs st) (mf_inputs m), st)) (\<lambda>ins.
                liftS (Inr (JobReceiptV3_sign (xe_platform X) signer (dist_receipt X dx m worker ins outs)))))))))))"

subsection \<open>Executing a job\<close>

definition fallback_execution :: "string list \<Rightarrow> dict" where
  "fallback_execution devices =
     [(''mode'', JStr ''distributed_fallback_single_rank''), (''world_size'', JInt (int (length devices))),
      (''device_group'', JList (map JStr devices)), (''reason'', JStr ''manifest did not request gpt_tensor_parallel_v1'')]"

definition dist_execute ::
  "('t, 'b) dist_env_scheme \<Rightarrow> JobManifestV3 \<Rightarrow> WorkerIdentity \<Rightarrow> string \<Rightarrow> signer option \<Rightarrow> string \<Rightarrow> pyfloat \<Rightarrow> grants \<Rightarrow>
   ('t DistributedJobExecutor \<times> LocalBucket, JobReceiptV3) sres" where
  "dist_execute X m worker miner_secret miner_signer fault_mode fault_rate gs s =
     (case s of (dx, st) \<Rightarrow>
        if length (dx_devices dx) \<le> 1 \<or> \<not> uses_gpt_runner m
        then (case execute_job (exec_env.truncate X) m worker miner_secret miner_signer fault_mode fault_rate gs (dx_single dx, st) of
                (r, (ex, st')) \<Rightarrow>
                  (bindE r (\<lambda>receipt. Inr (if length (dx_devices dx) > 1
                     then JobReceiptV3_sign (xe_platform X) (case miner_signer of Some s \<Rightarrow> s | None \<Rightarrow> Secret miner_secret)
                            (receipt\<lparr>rc_execution := fold (\<lambda>(k, v). AList.update k v) (fallback_execution (dx_devices dx)) (rc_execution receipt)\<rparr>)
                     else receipt)), (dx\<lparr>dx_single := ex\<rparr>, st')))
        else (case execute_gpt_tensor_parallel X dx m worker miner_secret miner_signer gs st of (r, st') \<Rightarrow> (r, (dx, st'))))"

end
