(* ===== verification/Capabilities.thy ===== *)
theory Capabilities
  imports Record_Store
begin

text \<open>
  \<^verbatim>\<open>teuton_miner/capabilities.py\<close>: what a worker reports about its devices. The answers of torch and of the
  operating system are a parameter; the probe of the bucket is modelled on the bucket.

  Shown: the probe leaves every object of the bucket as it was, and the reported world size is that of the device group,
  so that the scheduler's resource test reads the number of devices.
\<close>

record torch_host =
  th_cuda_available :: bool
  th_device_count :: int
  th_nccl :: "bool res"
  th_device :: "int \<Rightarrow> (string \<times> int) res"
  th_probe :: "string \<Rightarrow> unit res"
  th_hostname :: "string option"
  th_rtt_ms :: pyfloat

definition gpu_index :: "string \<Rightarrow> int option" where
  "gpu_index device =
     (if starts_with device ''cuda:''
      then (case parse_int (drop 5 device) of Inl _ \<Rightarrow> None | Inr i \<Rightarrow> Some i)
      else if device = ''cuda'' then Some 0 else None)"

definition device_indices :: "string list \<Rightarrow> int list" where
  "device_indices devices = List.map_filter gpu_index devices"

definition probe_torch_device :: "torch_host \<Rightarrow> string \<Rightarrow> unit res" where
  "probe_torch_device H device = (if device = ''cpu'' then Inr () else th_probe H device)"

definition probe_nccl_group :: "torch_host \<Rightarrow> string list \<Rightarrow> bool" where
  "probe_nccl_group H devices =
     (if length devices \<le> 1 \<or> \<not> th_cuda_available H then False
      else case th_nccl H of Inl _ \<Rightarrow> False | Inr b \<Rightarrow> b)"

text \<open>\<^verbatim>\<open>s.replace(sub, "")\<close>.\<close>

fun erase :: "string \<Rightarrow> string \<Rightarrow> string" where
  "erase sub [] = []"
| "erase sub (c # cs) =
     (if sub \<noteq> [] \<and> starts_with (c # cs) sub then erase sub (drop (length sub - 1) cs) else c # erase sub cs)"

definition gpu_name :: "string \<Rightarrow> string" where
  "gpu_name s = strip (erase ''GeForce '' (erase ''NVIDIA '' s))"

definition vram_mb :: "int \<Rightarrow> int" where
  "vram_mb total_memory = total_memory div (1024 * 1024)"

definition gpu_details :: "torch_host \<Rightarrow> int list \<Rightarrow> (int \<times> string \<times> int) list" where
  "gpu_details H = List.map_filter (\<lambda>idx. case th_device H idx of Inl _ \<Rightarrow> None | Inr (n, mem) \<Rightarrow> Some (idx, gpu_name n, vram_mb mem))"

definition gpu_report :: "(int \<times> string \<times> int) list \<Rightarrow> dict" where
  "gpu_report gpus =
     (if gpus = [] then []
      else [(''gpus'', JList (map (\<lambda>(i, n, v). JObj [(''index'', JInt i), (''name'', JStr n), (''vram_mb'', JInt v)]) gpus)),
            (''total_vram_mb'', JInt (\<Sum>(i, n, v) \<leftarrow> gpus. v)), (''min_vram_mb'', JInt (Min (set (map (\<lambda>(i, n, v). v) gpus))))])"

definition gpu_caps :: "torch_host \<Rightarrow> string \<Rightarrow> int list \<Rightarrow> dict" where
  "gpu_caps H device idxs =
     (if th_cuda_available H
      then (let first = (case gpu_index device of None \<Rightarrow> 0 | Some i \<Rightarrow> i)
            in gpu_report (gpu_details H (if idxs = [] then [first] else idxs)) @
               (case th_device H first of
                  Inl _ \<Rightarrow> [(''gpu_class'', JStr ''cuda'')]
                | Inr (n, mem) \<Rightarrow> [(''gpu_class'', JStr (gpu_name n)), (''vram_mb'', JInt (vram_mb mem))]))
      else [(''gpu_class'', JStr ''cpu'')])"

text \<open>Writing, looking for and deleting a probe object; the bucket is left as it is by whatever raises.\<close>

definition rtt_probe :: "torch_host \<Rightarrow> int \<Rightarrow> string \<Rightarrow> string \<Rightarrow> LocalBucket \<Rightarrow> pyfloat \<times> LocalBucket" where
  "rtt_probe H now_ns run_id worker_id st =
     (let probe = uri_for_key st (''runs/'' @ run_id @ ''/manifest/_rtt_probe_'' @ worker_id @ ''.txt'')
      in case LocalBucket_put now_ns probe [0x78] st of
           Inl _ \<Rightarrow> (1000, st)
         | Inr st1 \<Rightarrow>
             (case LocalBucket_exists probe st1 of
                Inl _ \<Rightarrow> (1000, st1)
              | Inr _ \<Rightarrow> (case LocalBucket_delete probe st1 of Inl _ \<Rightarrow> (1000, st1) | Inr st2 \<Rightarrow> (th_rtt_ms H, st2))))"

definition detect_capabilities ::
  "torch_host \<Rightarrow> int \<Rightarrow> string \<Rightarrow> string \<Rightarrow> string \<Rightarrow> string list \<Rightarrow> LocalBucket \<Rightarrow> dict \<times> LocalBucket" where
  "detect_capabilities H now_ns run_id worker_id device devgroup st =
     (let devs = (if devgroup = [] then [device] else devgroup); idxs = device_indices devs;
          (rtt, st') = rtt_probe H now_ns run_id worker_id st
      in ([(''device'', JStr device), (''worker_id'', JStr worker_id), (''gpu_available'', JBool (th_cuda_available H)),
           (''n_gpus'', JInt (if th_cuda_available H then th_device_count H else 0)),
           (''device_group'', JList (map JStr devs)), (''gpu_indices'', JList (map JInt idxs)),
           (''world_size'', JInt (max 1 (int (length devs)))), (''placement'', JStr ''single_host''),
           (''multi_gpu'', JBool (length devs > 1)), (''nccl_available'', JBool (probe_nccl_group H devs)),
           (''hostname'', JStr (case th_hostname H of None \<Rightarrow> ''unknown'' | Some h \<Rightarrow> h))] @
          gpu_caps H device idxs @ [(''rtt_to_bucket_ms'', JFloat rtt)], st'))"

subsection \<open>Properties\<close>

lemma rtt_probe_keeps:
  assumes "uri_for_key st (''runs/'' @ run_id @ ''/manifest/_rtt_probe_'' @ worker_id @ ''.txt'') = probe" "rtt_probe H now run_id worker_id st = (rtt, st')"
  shows "lb_bucket st' = lb_bucket st \<and> (\<forall>a. parse_uri probe \<noteq> Inr a \<longrightarrow> map_of (lb_objects st') a = map_of (lb_objects st) a)"
  using assms
  by (auto simp: rtt_probe_def LocalBucket_put_def LocalBucket_exists_def LocalBucket_delete_def Let_def bindE_def split: sum.splits if_splits)

lemma detect_world_size:
  "map_of (fst (detect_capabilities H now run_id worker_id device devgroup st)) ''world_size'' =
     Some (JInt (int (max 1 (length devgroup))))"
  by (cases devgroup) (simp_all add: detect_capabilities_def Let_def split: prod.split)

lemma gpu_index_examples: "gpu_index ''cuda:3'' = Some 3" "gpu_index ''cuda'' = Some 0" "gpu_index ''cpu'' = None" "gpu_index ''cuda:x'' = None"
  by code_simp+

end
