(* ===== verification/Miner_Worker.thy ===== *)
theory Miner_Worker
  imports Distributed_Executor Capabilities Emission
begin

text \<open>
  The miner (\<^verbatim>\<open>teuton_miner/worker.py\<close>, \<^verbatim>\<open>teuton_miner/neuron.py\<close>): a worker advertises itself, polls the train queue
  and, if it is an eligible auditor, the audit queue, and executes the entries assigned to it. Every exit of
  \<^verbatim>\<open>_execute_queue_entry\<close> is a branch of the model; exceptions the source does not catch leave the tick.
\<close>

subsection \<open>State\<close>

record WorkerConfig =
  wc_netuid :: int
  wc_run_id :: string
  wc_hotkey_ss58 :: string
  wc_worker_id :: string
  wc_device :: string
  wc_device_group :: "string list option"
  wc_miner_secret :: string
  wc_poll_interval :: pyfloat
  wc_heartbeat_interval :: pyfloat
  wc_fault_mode :: string
  wc_fault_rate :: pyfloat
  wc_encryption_secret :: string
  wc_grant_mode :: string
  wc_assignment_secret :: string
  wc_assignment_crypto :: string
  wc_wallet_path :: string
  wc_wallet_name :: string
  wc_hotkey_name :: string
  wc_discovery_backend :: string
  wc_max_idle_iters :: "int option"
  wc_audit_eligible_hotkeys :: "string list"
  wc_owner_secret :: string
  wc_owner_hotkey :: string

datatype 't job_executor = SingleExecutor "'t JobExecutor" | GroupExecutor "'t DistributedJobExecutor"

datatype assignment_decryptor = DevDecryptor string | SealedBoxDecryptor bytes

record 't MinerWorker =
  mw_bucket :: LocalBucket
  mw_files :: "(string \<times> string) list"
  mw_device_group :: "string list"
  mw_executor :: "'t job_executor"
  mw_decryptor :: assignment_decryptor
  mw_signer :: signer
  mw_discovery :: BucketDiscoveryBackend
  mw_capabilities :: dict
  mw_cache_path :: string
  mw_completed_jobs :: "string list"
  mw_train_etag :: "string option"
  mw_audit_etag :: "string option"
  mw_train_queue :: "QueueState option"
  mw_audit_queue :: "QueueState option"
  mw_identity :: WorkerIdentity
  mw_last_heartbeat :: pyfloat
  mw_idle_iters :: int
  mw_stopped :: bool

text \<open>
  What a worker meets while it ticks: the clock, PyNaCl, HTTP, the file system's willingness to append, the execution and
  replay environments (their transport is the worker's own), and the printed name of an exception's type. A tick reads one
  clock value.
\<close>

record 't worker_env =
  we_exec :: "'t dist_env"
  we_replay :: "'t replay_env"
  we_nacl :: "nacl_lib option"
  we_http :: http
  we_now :: pyfloat
  we_writable :: bool
  we_type_name :: "pyerr \<Rightarrow> string"

definition we_platform :: "'t worker_env \<Rightarrow> platform" where
  "we_platform E = xe_platform (we_exec E)"

definition worker_transport :: "WorkerConfig \<Rightarrow> 't worker_env \<Rightarrow> transport" where
  "worker_transport c E =
     (if wc_grant_mode c = ''direct'' then DirectArtifactTransport (ns_of (we_now E))
      else PresignedArtifactTransport (we_http E) True (unix_of (we_now E)) (ns_of (we_now E)))"

definition exec_of :: "WorkerConfig \<Rightarrow> 't worker_env \<Rightarrow> 't dist_env" where
  "exec_of c E = (we_exec E)\<lparr>xe_transport := worker_transport c E\<rparr>"

definition replay_of_worker :: "WorkerConfig \<Rightarrow> 't worker_env \<Rightarrow> 't replay_env" where
  "replay_of_worker c E = (we_replay E)\<lparr>re_platform := we_platform E, re_transport := worker_transport c E\<rparr>"

subsection \<open>The cache of completed jobs\<close>

definition completed_cache_path :: "string \<Rightarrow> string \<Rightarrow> string \<Rightarrow> string \<Rightarrow> string" where
  "completed_cache_path base run_id hotkey worker_id =
     base @ ''/'' @ replace_char (CHR ''/'') (CHR ''_'') hotkey @ ''/'' @ replace_char (CHR ''/'') (CHR ''_'') worker_id @ ''/'' @ run_id @ ''.completed.txt''"

text \<open>
  \<^verbatim>\<open>splitlines\<close>. Every line boundary is white space, so after \<^verbatim>\<open>strip\<close> and dropping empty lines it makes no difference
  that a carriage return and the line feed after it are one boundary.
\<close>

definition line_break :: "char \<Rightarrow> bool" where
  "line_break c = (of_char c \<in> {10, 11, 12, 13, 28, 29, 30, 133 :: nat})"

fun split_lines :: "string \<Rightarrow> string list" where
  "split_lines [] = [[]]"
| "split_lines (c # cs) =
     (if line_break c then [] # split_lines cs
      else case split_lines cs of [] \<Rightarrow> [[c]] | l # ls \<Rightarrow> (c # l) # ls)"

definition load_completed_cache :: "string \<Rightarrow> (string \<times> string) list \<Rightarrow> string list" where
  "load_completed_cache path files =
     (case map_of files path of
        None \<Rightarrow> []
      | Some text \<Rightarrow> remdups (filter (\<lambda>l. l \<noteq> []) (map strip (split_lines text))))"

definition append_completed_cache :: "bool \<Rightarrow> string \<Rightarrow> string \<Rightarrow> (string \<times> string) list \<Rightarrow> (string \<times> string) list" where
  "append_completed_cache writable path job_id files =
     (if writable
      then AList.update path ((case map_of files path of None \<Rightarrow> [] | Some t \<Rightarrow> t) @ job_id @ [CHR 0x0A]) files
      else files)"

definition mark_completed :: "'t worker_env \<Rightarrow> string \<Rightarrow> ('t MinerWorker, unit) sres" where
  "mark_completed E job_id =
     modifyS (\<lambda>s. s\<lparr>mw_completed_jobs := List.insert job_id (mw_completed_jobs s),
                    mw_files := append_completed_cache (we_writable E) (mw_cache_path s) job_id (mw_files s)\<rparr>)"

subsection \<open>Heartbeat, idling and skipped jobs\<close>

definition heartbeat :: "WorkerConfig \<Rightarrow> 't worker_env \<Rightarrow> bool \<Rightarrow> ('t MinerWorker, unit) sres" where
  "heartbeat c E force s =
     (if \<not> force \<and> we_now E - mw_last_heartbeat s < wc_heartbeat_interval c then (Inr (), s)
      else let s1 = s\<lparr>mw_last_heartbeat := we_now E\<rparr>;
               info = \<lparr>mi_netuid = wc_netuid c, mi_hotkey_ss58 = wc_hotkey_ss58 c, mi_uid = None, mi_endpoint = None,
                       mi_commitment_hash = None, mi_capabilities = mw_capabilities s\<rparr>
           in case advertise_worker (we_platform E) (ns_of (we_now E)) (unix_of (we_now E)) (mw_discovery s) info (mw_identity s) (mw_bucket s1) of
                Inl e \<Rightarrow> (Inl e, s1)
              | Inr st \<Rightarrow> (Inr (), s1\<lparr>mw_bucket := st\<rparr>))"

definition idle :: "WorkerConfig \<Rightarrow> 't MinerWorker \<Rightarrow> 't MinerWorker" where
  "idle c s =
     (let s1 = s\<lparr>mw_idle_iters := mw_idle_iters s + 1\<rparr>
      in if wc_max_idle_iters c \<noteq> None \<and> mw_idle_iters s1 \<ge> the (wc_max_idle_iters c) then s1\<lparr>mw_stopped := True\<rparr> else s1)"

definition skip_key :: "WorkerConfig \<Rightarrow> string \<Rightarrow> string" where
  "skip_key c job_id =
     jobs_prefix (wc_netuid c) (wc_run_id c) @ job_id @ ''/skip-'' @ wc_hotkey_ss58 c @ ''-'' @ wc_worker_id c @ ''.json''"

definition mark_skipped :: "WorkerConfig \<Rightarrow> 't worker_env \<Rightarrow> string \<Rightarrow> string \<Rightarrow> ('t MinerWorker, bool) sres" where
  "mark_skipped c E job_id reason s =
     (case store_dict (we_platform E) (ns_of (we_now E)) (uri_for_key (mw_bucket s) (skip_key c job_id))
             [(''job_id'', JStr job_id), (''hotkey'', JStr (wc_hotkey_ss58 c)), (''worker_id'', JStr (wc_worker_id c)),
              (''reason'', JStr reason), (''skip_unix'', JInt (unix_of (we_now E)))] (mw_bucket s) of
        Inl e \<Rightarrow> (Inr False, s)
      | Inr st \<Rightarrow> (Inr False, s\<lparr>mw_bucket := st\<rparr>))"

definition describe :: "'t worker_env \<Rightarrow> string \<Rightarrow> pyerr \<Rightarrow> string" where
  "describe E what e = what @ '': '' @ we_type_name E e @ '': '' @ re_str (we_replay E) e"

subsection \<open>Reading the queues\<close>

definition outstanding_of :: "QueueState option \<Rightarrow> QueueEntry list" where
  "outstanding_of q = (case q of None \<Rightarrow> [] | Some qs \<Rightarrow> qs_outstanding qs)"

definition fetch_train_queue_entries :: "WorkerConfig \<Rightarrow> 't worker_env \<Rightarrow> ('t MinerWorker, QueueEntry list) sres" where
  "fetch_train_queue_entries c E s =
     (case read_queue (we_platform E) (mw_bucket s) (wc_netuid c) (wc_run_id c) ''train'' (mw_train_etag s) of
        Inl e \<Rightarrow> if caught e then (Inr (outstanding_of (mw_train_queue s)), s) else (Inl e, s)
      | Inr None \<Rightarrow> (Inr (outstanding_of (mw_train_queue s)), s)
      | Inr (Some qs) \<Rightarrow> (Inr (qs_outstanding qs), s\<lparr>mw_train_queue := Some qs, mw_train_etag := qs_etag qs\<rparr>))"

definition fetch_audit_queue_entries :: "WorkerConfig \<Rightarrow> 't worker_env \<Rightarrow> ('t MinerWorker, QueueEntry list) sres" where
  "fetch_audit_queue_entries c E s =
     (case read_queue (we_platform E) (mw_bucket s) (wc_netuid c) (wc_run_id c) ''audit'' (mw_audit_etag s) of
        Inl e \<Rightarrow> if caught e then (Inr [], s) else (Inl e, s)
      | Inr None \<Rightarrow> (Inr (outstanding_of (mw_audit_queue s)), s)
      | Inr (Some qs) \<Rightarrow> (Inr (qs_outstanding qs), s\<lparr>mw_audit_queue := Some qs, mw_audit_etag := qs_etag qs\<rparr>))"

subsection \<open>Grants\<close>

definition decrypt_grant :: "'t worker_env \<Rightarrow> assignment_decryptor \<Rightarrow> EncryptedAssignmentGrantV3 \<Rightarrow> string \<Rightarrow> AssignmentGrantV3 res" where
  "decrypt_grant E dec encrypted expected =
     (case dec of
        DevDecryptor secret \<Rightarrow> Dev_decrypt (we_platform E) secret encrypted expected
      | SealedBoxDecryptor seed \<Rightarrow> Ed25519_decrypt (we_platform E) (we_nacl E) (Some seed) encrypted expected)"

definition open_grant :: "WorkerConfig \<Rightarrow> 't worker_env \<Rightarrow> string \<Rightarrow> string \<Rightarrow> 't MinerWorker \<Rightarrow> AssignmentGrantV3 res" where
  "open_grant c E missing key s =
     (let uri = uri_for_key (mw_bucket s) key
      in bindE (LocalBucket_exists uri (mw_bucket s)) (\<lambda>ok.
         if \<not> ok then Inl (FileNotFoundError missing)
         else bindE (load_record (we_platform E) EncryptedAssignmentGrantV3_from_dict uri (mw_bucket s)) (\<lambda>encrypted.
           decrypt_grant E (mw_decryptor s) encrypted (wc_hotkey_ss58 c))))"

definition check_grant :: "WorkerConfig \<Rightarrow> 't worker_env \<Rightarrow> string \<Rightarrow> JobManifestV3 \<Rightarrow> AssignmentGrantV3 \<Rightarrow> unit res" where
  "check_grant c E what m g =
     (if ag_job_id g \<noteq> mf_job_id m \<or> ag_run_id g \<noteq> mf_run_id m then Inl (ValueError (what @ '' grant job mismatch''))
      else if ag_assigned_hotkey g \<noteq> wc_hotkey_ss58 c then Inl (ValueError (what @ '' grant hotkey mismatch''))
      else if ag_expires_unix g < unix_of (we_now E) then Inl (ValueError (what @ '' grant expired''))
      else Inr ())"

definition validate_assignment_grant :: "WorkerConfig \<Rightarrow> 't worker_env \<Rightarrow> JobManifestV3 \<Rightarrow> AssignmentGrantV3 \<Rightarrow> unit res" where
  "validate_assignment_grant c E m g =
     bindE (check_grant c E ''assignment'' m g) (\<lambda>_.
       if \<not> set (map ar_uri (mf_outputs m)) \<subseteq> set (map pg_canonical_uri (ag_output_puts g)) then Inl (ValueError ''assignment grant output URI mismatch'')
       else if ag_receipt_put g = None then Inl (ValueError ''assignment grant missing receipt PUT'')
       else Inr ())"

definition load_assignment_grant :: "WorkerConfig \<Rightarrow> 't worker_env \<Rightarrow> JobManifestV3 \<Rightarrow> 't MinerWorker \<Rightarrow> AssignmentGrantV3 res" where
  "load_assignment_grant c E m s =
     bindE (open_grant c E (''missing assignment grant for '' @ mf_job_id m)
              (assignment_key (wc_netuid c) (wc_run_id c) (mf_job_id m) (wc_hotkey_ss58 c)) s) (\<lambda>g.
     bindE (validate_assignment_grant c E m g) (\<lambda>_. Inr g))"

definition load_audit_assignment_grant :: "WorkerConfig \<Rightarrow> 't worker_env \<Rightarrow> JobManifestV3 \<Rightarrow> 't MinerWorker \<Rightarrow> AssignmentGrantV3 res" where
  "load_audit_assignment_grant c E m s =
     bindE (open_grant c E (''missing audit assignment grant for '' @ mf_job_id m)
              (audit_assignment_key (wc_netuid c) (wc_run_id c) (mf_job_id m) (wc_hotkey_ss58 c)) s) (\<lambda>g.
     bindE (check_grant c E ''audit assignment'' m g) (\<lambda>_. Inr g))"

definition grants_by_uri :: "AssignmentGrantV3 \<Rightarrow> grants" where
  "grants_by_uri g =
     fold (\<lambda>p. AList.update (pg_canonical_uri p) p)
       (ag_input_gets g @ ag_output_puts g @ (case ag_receipt_put g of None \<Rightarrow> [] | Some p \<Rightarrow> [p])) []"

subsection \<open>Executing an entry\<close>

definition eligible :: "WorkerConfig \<Rightarrow> string list \<Rightarrow> JobManifestV3 \<Rightarrow> bool" where
  "eligible c devices m =
     (let req = mf_resource_requirements m; n = int (length devices)
      in mf_assigned_hotkey m = wc_hotkey_ss58 c \<and>
         \<not> (rr_min_gpus req > 1 \<and> n < rr_min_gpus req) \<and>
         \<not> (rr_placement req = ''single_host'' \<and> n < rr_min_gpus req) \<and>
         mf_assigned_worker m \<in> {None, Some (wc_worker_id c)})"

definition worker_verify_manifest :: "WorkerConfig \<Rightarrow> 't worker_env \<Rightarrow> JobManifestV3 \<Rightarrow> bool res" where
  "worker_verify_manifest c E m =
     (if wc_owner_secret c = ''skip'' then Inr True
      else case mf_owner_signature m of
             None \<Rightarrow> Inr False
           | Some sig \<Rightarrow>
               if sig = [] then Inr False
               else verify_identity_dict (we_platform E) (JobManifestV3_unsigned_dict m)
                      (if wc_owner_hotkey c \<noteq> [] then wc_owner_hotkey c else wc_owner_secret c) sig True)"

definition run_executor ::
  "WorkerConfig \<Rightarrow> 't worker_env \<Rightarrow> JobManifestV3 \<Rightarrow> grants \<Rightarrow> ('t MinerWorker, JobReceiptV3) sres" where
  "run_executor c E m gs s =
     (case mw_executor s of
        SingleExecutor ex \<Rightarrow>
          (case execute_job (exec_env.truncate (exec_of c E)) m (mw_identity s) (wc_miner_secret c) (Some (mw_signer s)) (wc_fault_mode c) (wc_fault_rate c) gs
                  (ex, mw_bucket s) of
             (r, (ex', st)) \<Rightarrow> (r, s\<lparr>mw_executor := SingleExecutor ex', mw_bucket := st\<rparr>))
      | GroupExecutor dx \<Rightarrow>
          (case dist_execute (exec_of c E) m (mw_identity s) (wc_miner_secret c) (Some (mw_signer s)) (wc_fault_mode c) (wc_fault_rate c) gs
                  (dx, mw_bucket s) of
             (r, (dx', st)) \<Rightarrow> (r, s\<lparr>mw_executor := GroupExecutor dx', mw_bucket := st\<rparr>)))"

text \<open>Putting an object through the transport with a grant, or as JSON into the bucket.\<close>

definition put_objectS :: "(LocalBucket \<Rightarrow> LocalBucket res) \<Rightarrow> ('t MinerWorker, unit) sres" where
  "put_objectS f s = (case f (mw_bucket s) of Inl e \<Rightarrow> (Inl e, s) | Inr st \<Rightarrow> (Inr (), s\<lparr>mw_bucket := st\<rparr>))"

definition receipt_uri_of :: "WorkerConfig \<Rightarrow> JobManifestV3 \<Rightarrow> LocalBucket \<Rightarrow> string" where
  "receipt_uri_of c m st = uri_for_key st (receipt_key (wc_netuid c) (wc_run_id c) (wc_hotkey_ss58 c) (mf_job_id m) (mf_attempt m))"

definition put_receipt ::
  "WorkerConfig \<Rightarrow> 't worker_env \<Rightarrow> JobManifestV3 \<Rightarrow> AssignmentGrantV3 option \<Rightarrow> JobReceiptV3 \<Rightarrow> ('t MinerWorker, unit) sres" where
  "put_receipt c E m grant receipt s =
     (let uri = receipt_uri_of c m (mw_bucket s);
          body = utf8_encode (dumps (we_platform E) True (JObj (JobReceiptV3_to_dict receipt)))
      in case Option.bind grant ag_receipt_put of
           Some p \<Rightarrow> put_objectS (tr_put (worker_transport c E) uri body (Some p)) s
         | None \<Rightarrow> put_objectS (store_dict (we_platform E) (ns_of (we_now E)) uri (JobReceiptV3_to_dict receipt)) s)"

text \<open>\<^verbatim>\<open>except (FileNotFoundError, urllib.error.HTTPError, ValueError)\<close>.\<close>

fun soft_failure :: "pyerr \<Rightarrow> bool" where
  "soft_failure (FileNotFoundError _) = True"
| "soft_failure (pyerr.HTTPError _) = True"
| "soft_failure (ValueError _) = True"
| "soft_failure _ = False"

definition execute_train ::
  "WorkerConfig \<Rightarrow> 't worker_env \<Rightarrow> JobManifestV3 \<Rightarrow> AssignmentGrantV3 option \<Rightarrow> ('t MinerWorker, bool) sres" where
  "execute_train c E m grant s =
     (case run_executor c E m (case grant of None \<Rightarrow> [] | Some g \<Rightarrow> grants_by_uri g) s of
        (Inl e, s1) \<Rightarrow> if soft_failure e then mark_skipped c E (mf_job_id m) (describe E ''execute_err'' e) s1 else (Inl e, s1)
      | (Inr receipt, s1) \<Rightarrow>
          bindS (put_receipt c E m grant receipt) (\<lambda>_. bindS (mark_completed E (mf_job_id m)) (\<lambda>_. liftS (Inr True))) s1)"

definition put_audit_result ::
  "WorkerConfig \<Rightarrow> 't worker_env \<Rightarrow> JobManifestV3 \<Rightarrow> grants option \<Rightarrow> AuditResultV3 \<Rightarrow> ('t MinerWorker, unit) sres" where
  "put_audit_result c E m gs audit =
     (case (if mf_outputs m = [] then None else Option.bind gs (\<lambda>g. map_of g (ar_uri (hd (mf_outputs m))))) of
        Some p \<Rightarrow>
          put_objectS (tr_put (worker_transport c E) (ar_uri (hd (mf_outputs m)))
            (utf8_encode (dumps (we_platform E) True (JObj (AuditResultV3_to_dict audit)))) (Some p))
      | None \<Rightarrow>
          bindS (liftS (bindE (bindE (get_req (mf_params m) ''receipt'') as_mapping) (JobReceiptV3_from_dict (we_platform E)))) (\<lambda>receipt.
            put_objectS (\<lambda>st. store_dict (we_platform E) (ns_of (we_now E))
              (uri_for_key st (audit_result_key (wc_netuid c) (wc_run_id c) (wc_hotkey_ss58 c) (rc_receipt_id receipt)))
              (AuditResultV3_to_dict audit) st)))"

definition execute_audit_replay ::
  "WorkerConfig \<Rightarrow> 't worker_env \<Rightarrow> JobManifestV3 \<Rightarrow> AssignmentGrantV3 option \<Rightarrow> ('t MinerWorker, bool) sres" where
  "execute_audit_replay c E m grant s =
     (case run_audit_replay (replay_of_worker c E) m (wc_hotkey_ss58 c) (Some (mw_signer s)) (wc_owner_secret c) (wc_owner_hotkey c)
             (wc_miner_secret c) (wc_device c) (case grant of None \<Rightarrow> [] | Some g \<Rightarrow> grants_by_uri g) (mw_bucket s) of
        Inl e \<Rightarrow> if caught e then mark_skipped c E (mf_job_id m) (describe E ''audit_err'' e) s else (Inl e, s)
      | Inr audit \<Rightarrow>
          bindS (put_audit_result c E m (map_option grants_by_uri grant) audit) (\<lambda>_.
          bindS (mark_completed E (mf_job_id m)) (\<lambda>_. liftS (Inr True))) s)"

text \<open>The manifest of an entry, or the reason why it cannot be read.\<close>

definition entry_manifest :: "'t worker_env \<Rightarrow> QueueEntry \<Rightarrow> LocalBucket \<Rightarrow> (string + JobManifestV3) res" where
  "entry_manifest E entry st =
     (case get_json (we_platform E) LocalBucket_get (qe_manifest_uri entry) st of
        Inl (FileNotFoundError _) \<Rightarrow> Inr (Inl ''missing_manifest'')
      | Inl e \<Rightarrow> if caught e then Inr (Inl (describe E ''manifest_load_err'' e)) else Inl e
      | Inr payload \<Rightarrow>
          (case bindE (as_mapping payload) (JobManifestV3_from_dict (we_platform E)) of
             Inl e \<Rightarrow> if caught e then Inr (Inl (describe E ''manifest_parse_err'' e)) else Inl e
           | Inr m \<Rightarrow> Inr (Inr m)))"

text \<open>The grant of a manifest (\<open>None\<close> in direct mode), or the reason why there is none.\<close>

definition entry_grant ::
  "WorkerConfig \<Rightarrow> 't worker_env \<Rightarrow> string \<Rightarrow> JobManifestV3 \<Rightarrow> 't MinerWorker \<Rightarrow> (string + AssignmentGrantV3 option) res" where
  "entry_grant c E role m s =
     (if wc_grant_mode c = ''direct'' then Inr (Inr None)
      else case (if role = ''audit'' then load_audit_assignment_grant c E m s else load_assignment_grant c E m s) of
             Inr g \<Rightarrow> Inr (Inr (Some g))
           | Inl (FileNotFoundError _) \<Rightarrow> Inr (Inl ''missing_assignment_grant'')
           | Inl (ValueError msg) \<Rightarrow> Inr (Inl (''bad_assignment_grant: '' @ re_str (we_replay E) (ValueError msg)))
           | Inl e \<Rightarrow> if caught e then Inr (Inl (describe E ''grant_load_err'' e)) else Inl e)"

text \<open>Eligibility, the owner's signature, then the objects the job needs: a reason to skip it, \<open>Some None\<close> when it is done already.\<close>

definition entry_blocked :: "WorkerConfig \<Rightarrow> 't worker_env \<Rightarrow> JobManifestV3 \<Rightarrow> 't MinerWorker \<Rightarrow> string option option res" where
  "entry_blocked c E m s =
     (let st = mw_bucket s; direct = (wc_grant_mode c = ''direct'')
      in if \<not> eligible c (mw_device_group s) m then Inr (Some (Some ''not_eligible''))
         else bindE (worker_verify_manifest c E m) (\<lambda>ok.
           if \<not> ok then Inr (Some (Some ''bad_owner_signature''))
           else bindE (if direct then all_exist (map ar_uri (mf_outputs m)) st else Inr False) (\<lambda>done.
             if done then Inr (Some None)
             else bindE (if direct then all_exist (map ar_uri (mf_inputs m)) st else Inr True) (\<lambda>inputs_ok.
               if \<not> inputs_ok then Inr (Some (Some ''missing_input_artifacts''))
               else bindE (if gr_uri (mf_graph_ref m) = [] then Inr True else LocalBucket_exists (gr_uri (mf_graph_ref m)) st) (\<lambda>graph_ok.
                 if \<not> graph_ok then Inr (Some (Some ''missing_graph_artifact'')) else Inr None)))))"

definition execute_queue_entry :: "WorkerConfig \<Rightarrow> 't worker_env \<Rightarrow> string \<Rightarrow> QueueEntry \<Rightarrow> ('t MinerWorker, bool) sres" where
  "execute_queue_entry c E role entry s =
     bindS (liftS (entry_manifest E entry (mw_bucket s))) (\<lambda>loaded.
       case loaded of
         Inl reason \<Rightarrow> mark_skipped c E (qe_job_id entry) reason
       | Inr m \<Rightarrow>
           bindS (\<lambda>s. (entry_blocked c E m s, s)) (\<lambda>blocked.
             case blocked of
               Some (Some reason) \<Rightarrow> mark_skipped c E (mf_job_id m) reason
             | Some None \<Rightarrow> bindS (mark_completed E (mf_job_id m)) (\<lambda>_. liftS (Inr False))
             | None \<Rightarrow>
                 bindS (\<lambda>s. (entry_grant c E role m s, s)) (\<lambda>granted.
                   case granted of
                     Inl reason \<Rightarrow> mark_skipped c E (mf_job_id m) reason
                   | Inr grant \<Rightarrow> if role = ''audit'' then execute_audit_replay c E m grant else execute_train c E m grant))) s"

subsection \<open>A tick\<close>

definition assigned_entry :: "WorkerConfig \<Rightarrow> 't MinerWorker \<Rightarrow> QueueEntry \<Rightarrow> bool" where
  "assigned_entry c s e \<longleftrightarrow> qe_job_id e \<notin> set (mw_completed_jobs s) \<and> qe_assigned_hotkey e = wc_hotkey_ss58 c \<and>
     qe_assigned_worker e \<in> {None, Some [], Some (wc_worker_id c)}"

fun try_entries :: "WorkerConfig \<Rightarrow> 't worker_env \<Rightarrow> string \<Rightarrow> QueueEntry list \<Rightarrow> ('t MinerWorker, bool) sres" where
  "try_entries c E role [] s = (Inr False, s)"
| "try_entries c E role (e # es) s =
     (if \<not> assigned_entry c s e then try_entries c E role es s
      else bindS (execute_queue_entry c E role e) (\<lambda>ran. if ran then liftS (Inr True) else try_entries c E role es) s)"

definition is_audit_eligible :: "WorkerConfig \<Rightarrow> bool" where
  "is_audit_eligible c \<longleftrightarrow> wc_hotkey_ss58 c \<in> set (wc_audit_eligible_hotkeys c)"

definition tick_audit_jobs :: "WorkerConfig \<Rightarrow> 't worker_env \<Rightarrow> ('t MinerWorker, bool) sres" where
  "tick_audit_jobs c E = bindS (fetch_audit_queue_entries c E) (try_entries c E ''audit'')"

definition tick :: "WorkerConfig \<Rightarrow> 't worker_env \<Rightarrow> ('t MinerWorker, bool) sres" where
  "tick c E =
     bindS (heartbeat c E False) (\<lambda>_.
     bindS (fetch_train_queue_entries c E) (\<lambda>entries.
     bindS (try_entries c E ''train'' (rev entries)) (\<lambda>trained.
     bindS (if trained then liftS (Inr True) else if is_audit_eligible c then tick_audit_jobs c E else liftS (Inr False)) (\<lambda>worked.
     bindS (modifyS (if worked then (\<lambda>s. s\<lparr>mw_idle_iters := 0\<rparr>) else idle c)) (\<lambda>_. liftS (Inr worked))))))"

text \<open>
  The loop, over the rounds of a period: the environment of each tick and what others do to the bucket while the worker
  sleeps. A loop that is still running at the end of the period is \<open>Blocked\<close>.
\<close>

fun worker_loop :: "WorkerConfig \<Rightarrow> ('t worker_env \<times> (LocalBucket \<Rightarrow> LocalBucket)) list \<Rightarrow> ('t MinerWorker, unit) sres" where
  "worker_loop c [] s = (if mw_stopped s then Inr () else Inl Blocked, s)"
| "worker_loop c ((E, others) # rest) s =
     (if mw_stopped s then (Inr (), s)
      else bindS (tick c E) (\<lambda>_. bindS (modifyS (\<lambda>s. s\<lparr>mw_bucket := others (mw_bucket s)\<rparr>)) (\<lambda>_. worker_loop c rest)) s)"

subsection \<open>Construction\<close>

text \<open>
  What \<^verbatim>\<open>__init__\<close> reads from its host: environment variables, the wallet's key files (by path, parsed), PyNaCl's signing,
  a fresh nonce, torch.
\<close>

record worker_host =
  wh_torch :: torch_host
  wh_cache_dir :: string
  wh_input_cache_mb :: int
  wh_output_cache_mb :: int
  wh_keyfile :: "string \<Rightarrow> dict res"
  wh_sign :: "bytes \<Rightarrow> bytes \<Rightarrow> string"
  wh_nonce :: string
  wh_software_hash :: string

definition keyfile_path :: "WorkerConfig \<Rightarrow> string" where
  "keyfile_path c = wc_wallet_path c @ ''/'' @ wc_wallet_name c @ ''/hotkeys/'' @ wc_hotkey_name c"

definition assignment_decryptor_of :: "worker_host \<Rightarrow> platform \<Rightarrow> WorkerConfig \<Rightarrow> assignment_decryptor res" where
  "assignment_decryptor_of H P c =
     (if wc_assignment_crypto c \<noteq> ''ed25519'' then Inr (DevDecryptor (wc_assignment_secret c))
      else if wc_wallet_name c = [] \<or> wc_hotkey_name c = [] then Inl (ValueError ''ed25519 assignment crypto requires wallet_name and hotkey_name'')
      else bindE (bindE (wh_keyfile H (keyfile_path c)) (Ed25519_from_keyfile P)) (\<lambda>seed. Inr (SealedBoxDecryptor seed)))"

definition miner_signer :: "worker_host \<Rightarrow> platform \<Rightarrow> WorkerConfig \<Rightarrow> signer res" where
  "miner_signer H P c =
     (if wc_wallet_name c \<noteq> [] \<and> wc_hotkey_name c \<noteq> []
      then bindE (bindE (wh_keyfile H (keyfile_path c)) (NativeEd25519HotkeySigner_from_keyfile P)) (\<lambda>(seed, ident).
             if ident \<noteq> wc_hotkey_ss58 c then Inl (ValueError ''miner hotkey file does not match configured hotkey SS58'')
             else Inr (SignerObj ident (wh_sign H seed)))
      else Inr (HmacSigner (wc_hotkey_ss58 c) (wc_hotkey_ss58 c)))"

definition gpu_probe :: "torch_host \<Rightarrow> string list \<Rightarrow> unit res" where
  "gpu_probe H devices = bindE (mapE (probe_torch_device H) devices) (\<lambda>_. Inr ())"

definition executor_of :: "worker_host \<Rightarrow> WorkerConfig \<Rightarrow> string list \<Rightarrow> 't job_executor res" where
  "executor_of H c devices =
     (if length devices > 1
      then bindE (DistributedJobExecutor_init (wh_input_cache_mb H) (wh_output_cache_mb H) devices (wc_encryption_secret c) None) (\<lambda>dx. Inr (GroupExecutor dx))
      else Inr (SingleExecutor (JobExecutor_init (wh_input_cache_mb H) (wh_output_cache_mb H) (wc_encryption_secret c) None)))"

definition worker_identity :: "worker_host \<Rightarrow> WorkerConfig \<Rightarrow> string list \<Rightarrow> dict \<Rightarrow> WorkerIdentity" where
  "worker_identity H c devices caps =
     \<lparr>wi_hotkey_ss58 = wc_hotkey_ss58 c, wi_worker_id = wc_worker_id c,
      wi_host_id = (case th_hostname (wh_torch H) of None \<Rightarrow> ''unknown'' | Some h \<Rightarrow> h), wi_gpu_index = gpu_index (wc_device c),
      wi_session_nonce = wh_nonce H, wi_software_hash = wh_software_hash H, wi_device_group = device_indices devices,
      wi_worker_group_id = (if length devices > 1 then Some (wc_worker_id c) else None), wi_capabilities = caps\<rparr>"

definition device_group_of :: "WorkerConfig \<Rightarrow> string list" where
  "device_group_of c = (case wc_device_group c of None \<Rightarrow> [wc_device c] | Some ds \<Rightarrow> if ds = [] then [wc_device c] else ds)"

definition new_worker ::
  "worker_host \<Rightarrow> WorkerConfig \<Rightarrow> 't job_executor \<Rightarrow> assignment_decryptor \<Rightarrow> signer \<Rightarrow> BucketDiscoveryBackend \<Rightarrow> dict \<Rightarrow> (string \<times> string) list \<Rightarrow>
   LocalBucket \<Rightarrow> 't MinerWorker" where
  "new_worker H c executor decryptor signer discovery caps files st =
     (let path = completed_cache_path (wh_cache_dir H) (wc_run_id c) (wc_hotkey_ss58 c) (wc_worker_id c)
      in \<lparr>mw_bucket = st, mw_files = files, mw_device_group = device_group_of c, mw_executor = executor, mw_decryptor = decryptor, mw_signer = signer,
          mw_discovery = discovery, mw_capabilities = caps, mw_cache_path = path, mw_completed_jobs = load_completed_cache path files,
          mw_train_etag = None, mw_audit_etag = None, mw_train_queue = None, mw_audit_queue = None,
          mw_identity = worker_identity H c (device_group_of c) caps, mw_last_heartbeat = 0, mw_idle_iters = 0, mw_stopped = False\<rparr>)"

definition MinerWorker_init ::
  "worker_host \<Rightarrow> 't worker_env \<Rightarrow> WorkerConfig \<Rightarrow> (string \<times> string) list \<Rightarrow> LocalBucket \<Rightarrow> 't MinerWorker res" where
  "MinerWorker_init H E c files st =
     bindE (executor_of H c (device_group_of c)) (\<lambda>executor.
     bindE (assignment_decryptor_of H (we_platform E) c) (\<lambda>decryptor.
     bindE (miner_signer H (we_platform E) c) (\<lambda>signer.
     bindE (build_discovery_backend (wc_discovery_backend c) (wc_netuid c) (wc_run_id c) ''train'' None) (\<lambda>discovery.
     let probed = detect_capabilities (wh_torch H) (ns_of (we_now E)) (wc_run_id c) (wc_worker_id c) (wc_device c) (device_group_of c) st
     in bindE (gpu_probe (wh_torch H) (device_group_of c)) (\<lambda>_.
        let out = heartbeat c E True (new_worker H c executor decryptor signer discovery (fst probed) files (snd probed))
        in bindE (fst out) (\<lambda>_. Inr (snd out)))))))"

subsection \<open>The neuron\<close>

record MinerNeuronConfig =
  nc_netuid :: int
  nc_run_id :: string
  nc_hotkey_ss58 :: string
  nc_devices :: "string list"
  nc_device_group :: "string list option"
  nc_miner_secret :: string
  nc_poll_interval :: pyfloat
  nc_fault_mode :: string
  nc_fault_rate :: pyfloat
  nc_encryption_secret :: string
  nc_grant_mode :: string
  nc_assignment_secret :: string
  nc_assignment_crypto :: string
  nc_wallet_path :: string
  nc_wallet_name :: string
  nc_hotkey_name :: string
  nc_discovery_backend :: string
  nc_audit_eligible_hotkeys :: "string list"
  nc_owner_secret :: string
  nc_owner_hotkey :: string

definition neuron_worker :: "MinerNeuronConfig \<Rightarrow> string \<Rightarrow> string \<Rightarrow> string list option \<Rightarrow> WorkerConfig" where
  "neuron_worker n tag device devices =
     \<lparr>wc_netuid = nc_netuid n, wc_run_id = nc_run_id n, wc_hotkey_ss58 = nc_hotkey_ss58 n, wc_worker_id = nc_hotkey_ss58 n @ tag,
      wc_device = device, wc_device_group = devices, wc_miner_secret = nc_miner_secret n, wc_poll_interval = nc_poll_interval n,
      wc_heartbeat_interval = 1, wc_fault_mode = nc_fault_mode n, wc_fault_rate = nc_fault_rate n,
      wc_encryption_secret = nc_encryption_secret n, wc_grant_mode = nc_grant_mode n, wc_assignment_secret = nc_assignment_secret n,
      wc_assignment_crypto = nc_assignment_crypto n, wc_wallet_path = nc_wallet_path n, wc_wallet_name = nc_wallet_name n,
      wc_hotkey_name = nc_hotkey_name n, wc_discovery_backend = nc_discovery_backend n, wc_max_idle_iters = None,
      wc_audit_eligible_hotkeys = nc_audit_eligible_hotkeys n, wc_owner_secret = nc_owner_secret n, wc_owner_hotkey = nc_owner_hotkey n\<rparr>"

definition neuron_workers :: "MinerNeuronConfig \<Rightarrow> WorkerConfig list" where
  "neuron_workers n =
     (case nc_device_group n of
        Some (d # ds) \<Rightarrow> [neuron_worker n ''-group0'' d (Some (d # ds))]
      | _ \<Rightarrow> map (\<lambda>(i, d). neuron_worker n (''-gpu'' @ show_nat i) d None) (enumerate 0 (nc_devices n)))"

end
