(* ===== verification/Miner_Properties.thy ===== *)
theory Miner_Properties
  imports Miner_Worker Emission_Logic Executor_Properties
begin

text \<open>
  Properties of the miner: what an executed entry leaves behind, that polling with entity tags reads the published queue,
  that a restarted worker remembers its completed jobs, and three behaviours that contradict the comments.
\<close>

subsection \<open>Exits of an entry\<close>

lemma mark_skipped_eq:
  "mark_skipped c E j reason s = (Inr False, s\<lparr>mw_bucket := mw_bucket (snd (mark_skipped c E j reason s))\<rparr>)"
  by (simp add: mark_skipped_def split: sum.split)

lemma mark_skipped_False [simp]: "mark_skipped c E j reason s \<noteq> (Inr True, s')" "mark_skipped c E j reason s \<noteq> (Inl e, s')"
  by (simp_all add: mark_skipped_def split: sum.split)

lemma mark_completed_eq:
  "mark_completed E j s = (Inr (), s\<lparr>mw_completed_jobs := List.insert j (mw_completed_jobs s),
     mw_files := append_completed_cache (we_writable E) (mw_cache_path s) j (mw_files s)\<rparr>)"
  by (simp add: mark_completed_def modifyS_def)

lemma executed_entry:
  assumes "execute_queue_entry c E role entry s = (Inr True, s')"
  obtains m grant where "entry_manifest E entry (mw_bucket s) = Inr (Inr m)" "entry_blocked c E m s = Inr None"
    "entry_grant c E role m s = Inr (Inr grant)"
    "(if role = ''audit'' then execute_audit_replay c E m grant s else execute_train c E m grant s) = (Inr True, s')"
proof -
  obtain loaded where l: "entry_manifest E entry (mw_bucket s) = Inr loaded"
    using assms by (auto simp: execute_queue_entry_def bindS_Inr)
  with assms obtain m where m: "loaded = Inr m" by (cases loaded) (auto simp: execute_queue_entry_def bindS_Inr)
  obtain blocked where b: "entry_blocked c E m s = Inr blocked"
    using assms l m by (auto simp: execute_queue_entry_def bindS_Inr)
  then have n: "blocked = None"
    using assms l m by (cases blocked; cases "the blocked") (auto simp: execute_queue_entry_def bindS_Inr)
  obtain granted where g: "entry_grant c E role m s = Inr granted"
    using assms l m b n by (auto simp: execute_queue_entry_def bindS_Inr)
  with assms l m b n obtain grant where "granted = Inr grant"
    by (cases granted) (auto simp: execute_queue_entry_def bindS_Inr)
  with assms l m b n g that show thesis by (auto simp: execute_queue_entry_def bindS_Inr split: if_splits)
qed

lemma entry_manifest_load:
  assumes "entry_manifest E entry st = Inr (Inr m)"
  shows "load_manifest (we_platform E) (qe_manifest_uri entry) st = Inr m"
  using assms by (auto simp: entry_manifest_def load_manifest_def load_record_def split: sum.splits pyerr.splits if_splits)

lemma entry_unblocked:
  assumes "entry_blocked c E m s = Inr None"
  shows "eligible c (mw_device_group s) m \<and> worker_verify_manifest c E m = Inr True \<and>
    (wc_grant_mode c = ''direct'' \<longrightarrow> all_exist (map ar_uri (mf_inputs m)) (mw_bucket s) = Inr True)"
  using assms by (auto simp: entry_blocked_def Let_def bindE_eq_Inr split: if_splits)

subsection \<open>What executors return\<close>

definition receipt_for :: "platform \<Rightarrow> JobManifestV3 \<Rightarrow> WorkerIdentity \<Rightarrow> signer \<Rightarrow> JobReceiptV3 \<Rightarrow> bool" where
  "receipt_for P m w signer r \<longleftrightarrow> rc_job_id r = mf_job_id m \<and> rc_run_id r = mf_run_id m \<and> rc_manifest_hash r = manifest_hash P m \<and> rc_worker r = w \<and>
     wf_dict (rc_execution r) \<and> rc_miner_signature r = Some (record_signature P (JobReceiptV3_unsigned_dict r) signer)"

lemma sign_receipt_for:
  assumes "rc_job_id r = mf_job_id m" "rc_run_id r = mf_run_id m" "rc_manifest_hash r = manifest_hash P m" "rc_worker r = w" "wf_dict (rc_execution r)"
  shows "receipt_for P m w signer (JobReceiptV3_sign P signer r)"
  using assms by (simp add: receipt_for_def JobReceiptV3_sign_def JobReceiptV3_unsigned_dict_def)

lemma execute_job_receipt:
  assumes "execute_job X m w ms (Some sg) fm fr gs s = (Inr r, s')"
  shows "receipt_for (xe_platform X) m w sg r"
proof -
  obtain outs s1 where p: "publish_outputs X m w sg gs outs s1 = (Inr r, s')"
    using assms by (auto simp: execute_job_def bindS_Inr artifact_signer_def)
  obtain ex st where s1: "s1 = (ex, st)" by (cases s1)
  obtain blobs where b: "mapE (output_blob X ex sg outs) (mf_outputs m) = Inr blobs"
    using p s1 by (cases "mapE (output_blob X ex sg outs) (mf_outputs m)") (auto simp: publish_outputs_def)
  obtain x st' where x: "put_blobs (xe_transport X) gs (zip (map ar_uri (mf_outputs m)) (map fst blobs)) st = (x, st')" by fastforce
  with p s1 b obtain ins where "mapE (input_digest X gs st') (mf_inputs m) = Inr ins"
    by (cases x; cases "mapE (input_digest X gs st') (mf_inputs m)") (auto simp: publish_outputs_def)
  with p s1 b x have "r = JobReceiptV3_sign (xe_platform X) sg (unsigned_receipt X m w ins (map snd blobs))"
    by (cases x) (auto simp: publish_outputs_def)
  then show ?thesis by (auto simp: unsigned_receipt_def wf_dict_def intro!: sign_receipt_for)
qed

lemma fold_update_wf: "wf_dict d \<Longrightarrow> \<forall>(k, v) \<in> set us. wf_json v \<Longrightarrow> wf_dict (fold (\<lambda>(k, v). AList.update k v) us d)"
  by (induction us arbitrary: d) (auto simp: wf_dict_update)

lemma dist_execute_receipt:
  assumes "dist_execute X m w ms (Some sg) fm fr gs s = (Inr r, s')"
  shows "receipt_for (xe_platform X) m w sg r"
proof -
  obtain dx st where s: "s = (dx, st)" by (cases s)
  show ?thesis
  proof (cases "length (dx_devices dx) \<le> 1 \<or> \<not> uses_gpt_runner m")
    case True
    then obtain r0 s1 where e: "execute_job (exec_env.truncate X) m w ms (Some sg) fm fr gs (dx_single dx, st) = (Inr r0, s1)"
      and r: "r = r0 \<or> r = JobReceiptV3_sign (xe_platform X) sg
        (r0\<lparr>rc_execution := fold (\<lambda>(k, v). AList.update k v) (fallback_execution (dx_devices dx)) (rc_execution r0)\<rparr>)"
      using assms by (auto simp: dist_execute_def s bindE_eq_Inr split: prod.splits if_splits)
    have f: "receipt_for (xe_platform X) m w sg r0" using execute_job_receipt [OF e] by (simp add: exec_env.truncate_def)
    have "\<forall>(k, v) \<in> set (fallback_execution (dx_devices dx)). wf_json v" by (auto simp: fallback_execution_def)
    then show ?thesis using r f by (auto simp: receipt_for_def [of _ _ _ _ r0] fold_update_wf intro!: sign_receipt_for)
  next
    case False
    then show ?thesis
      using assms
      by (auto simp: dist_execute_def s execute_gpt_tensor_parallel_def bindS_Inr Let_def artifact_signer_def dist_receipt_def unsigned_receipt_def wf_dict_def exec_env.truncate_def
          split: prod.splits if_splits intro!: sign_receipt_for)
  qed
qed

lemma run_executor_receipt:
  assumes "run_executor c E m gs s = (Inr r, s1)"
  shows "receipt_for (we_platform E) m (mw_identity s) (mw_signer s) r"
  using assms execute_job_receipt [of "exec_env.truncate (exec_of c E)" m "mw_identity s" "wc_miner_secret c" "mw_signer s"]
    dist_execute_receipt [of "exec_of c E" m "mw_identity s" "wc_miner_secret c" "mw_signer s"]
  by (fastforce simp: run_executor_def we_platform_def exec_of_def exec_env.truncate_def split: job_executor.splits prod.splits)

lemma run_executor_frame:
  assumes "run_executor c E m gs s = (r, s1)"
  shows "s1 = s\<lparr>mw_executor := mw_executor s1, mw_bucket := mw_bucket s1\<rparr>"
  using assms by (auto simp: run_executor_def split: job_executor.splits prod.splits)

subsection \<open>Executed jobs have receipts\<close>

lemma accepted_receipt:
  assumes "receipt_for P m w (HmacSigner hk hk) r" "hk = wi_hotkey_ss58 w" "hk \<noteq> []"
  shows "verify_receipt_signature P cfg (JobReceiptV3_raw norm_dict r) = Inr True"
proof -
  let ?sig = "record_signature P (JobReceiptV3_unsigned_dict r) (HmacSigner hk hk)"
  have s: "?sig = sign_dict P (JobReceiptV3_unsigned_dict r) hk" by (simp add: record_signature_def HmacSigner_def sign_dict_def sign_payload_def)
  have v: "verify_identity_dict P (JobReceiptV3_unsigned_dict (JobReceiptV3_raw norm_dict r)) hk ?sig True = Inr True"
    unfolding verify_identity_dict_def receipt_canonical_raw using verify_identity_iff [of P "JobReceiptV3_unsigned_dict r" hk ?sig] s
    by (simp add: verify_identity_dict_def)
  have "?sig \<noteq> []" unfolding s by simp
  then show ?thesis
    using assms v by (simp add: verify_receipt_signature_def receipt_for_def JobReceiptV3_raw_def WorkerIdentity_raw_def)
qed

lemma put_receipt_direct:
  assumes "put_receipt c E m None r s = (Inr x, s')" "float_codec (we_platform E)" "JobReceiptV3_wf r"
  shows "load_receipt (we_platform E) (receipt_uri_of c m (mw_bucket s')) (mw_bucket s') = Inr (JobReceiptV3_raw norm_dict r) \<and>
    s' = s\<lparr>mw_bucket := mw_bucket s'\<rparr>"
proof -
  obtain st where st: "store_dict (we_platform E) (ns_of (we_now E)) (receipt_uri_of c m (mw_bucket s)) (JobReceiptV3_to_dict r) (mw_bucket s) = Inr st"
    and s': "s' = s\<lparr>mw_bucket := st\<rparr>"
    using assms(1) by (auto simp: put_receipt_def put_objectS_def Let_def split: sum.splits)
  have "lb_bucket st = lb_bucket (mw_bucket s)" using st by (auto simp: put_json_def LocalBucket_put_def bindE_eq_Inr)
  then show ?thesis using load_stored_receipt [OF assms(2,3) st] by (simp add: s' receipt_uri_of_def uri_for_key_def)
qed

text \<open>
  C12. A train entry that the worker reports as executed was a job of the owner for this worker, and its receipt is in the bucket: the
  entry's manifest was loaded, assigned to this hotkey and worker and carried a valid owner signature; the receipt stored under the
  job's key can be loaded, binds that manifest by its hash, names this hotkey and has a signature every auditor accepts; and the job
  is recorded as completed. This holds for the single and for the multi-GPU executor, in direct mode with the development signer.
\<close>

theorem executed_job_has_receipt:
  assumes "execute_queue_entry c E ''train'' entry s = (Inr True, s')" and "wc_grant_mode c = ''direct''" and "float_codec (we_platform E)"
    and "mw_signer s = HmacSigner (wc_hotkey_ss58 c) (wc_hotkey_ss58 c)" and "wi_hotkey_ss58 (mw_identity s) = wc_hotkey_ss58 c"
    and "wc_hotkey_ss58 c \<noteq> []" and "wf_dict (wi_capabilities (mw_identity s))"
  shows "\<exists>m r. load_manifest (we_platform E) (qe_manifest_uri entry) (mw_bucket s) = Inr m \<and>
    mf_assigned_hotkey m = wc_hotkey_ss58 c \<and> mf_assigned_worker m \<in> {None, Some (wc_worker_id c)} \<and>
    worker_verify_manifest c E m = Inr True \<and>
    load_receipt (we_platform E) (receipt_uri_of c m (mw_bucket s')) (mw_bucket s') = Inr r \<and>
    rc_job_id r = mf_job_id m \<and> rc_manifest_hash r = manifest_hash (we_platform E) m \<and> wi_hotkey_ss58 (rc_worker r) = wc_hotkey_ss58 c \<and>
    (\<forall>cfg. verify_receipt_signature (we_platform E) cfg r = Inr True) \<and>
    mf_job_id m \<in> set (mw_completed_jobs s')"
proof -
  let ?P = "we_platform E"
  from executed_entry [OF assms(1)] obtain m grant where m: "entry_manifest E entry (mw_bucket s) = Inr (Inr m)"
    and b: "entry_blocked c E m s = Inr None" and g: "entry_grant c E ''train'' m s = Inr (Inr grant)" and t: "execute_train c E m grant s = (Inr True, s')"
    by auto
  have grant: "grant = None" using g assms(2) by (simp add: entry_grant_def)
  obtain r s1 where r: "run_executor c E m [] s = (Inr r, s1)"
    using t unfolding grant by (cases "run_executor c E m [] s"; cases "fst (run_executor c E m [] s)") (auto simp: execute_train_def split: if_splits)
  with t obtain x s2 where p: "put_receipt c E m None r s1 = (Inr x, s2)" and c: "mark_completed E (mf_job_id m) s2 = (Inr (), s')"
    by (auto simp: execute_train_def grant bindS_Inr)
  have f: "receipt_for ?P m (mw_identity s) (HmacSigner (wc_hotkey_ss58 c) (wc_hotkey_ss58 c)) r"
    using run_executor_receipt [OF r] assms(4) by simp
  have "JobReceiptV3_wf r" using f assms(7) by (simp add: JobReceiptV3_wf_def receipt_for_def)
  note put = put_receipt_direct [OF p assms(3) this]
  have s': "mw_bucket s' = mw_bucket s2" "mf_job_id m \<in> set (mw_completed_jobs s')" using c by (auto simp: mark_completed_eq)
  have "verify_receipt_signature ?P cfg (JobReceiptV3_raw norm_dict r) = Inr True" for cfg
    using accepted_receipt [OF f] assms(5,6) by simp
  moreover have "eligible c (mw_device_group s) m \<and> worker_verify_manifest c E m = Inr True" using entry_unblocked [OF b] by simp
  ultimately show ?thesis
    using entry_manifest_load [OF m] put f s' assms(5)
    by (intro exI [of _ m] exI [of _ "JobReceiptV3_raw norm_dict r"])
      (simp add: eligible_def Let_def receipt_for_def JobReceiptV3_raw_def WorkerIdentity_raw_def)
qed

subsection \<open>What a tick does to the record of completed jobs\<close>

text \<open>
  A predicate that depends only on the completed jobs and their file, and that marking a job as completed keeps (when the file can
  be written), is kept by everything a worker does.
\<close>

definition same_log :: "'t MinerWorker \<Rightarrow> 't MinerWorker \<Rightarrow> bool" where
  "same_log s s' \<longleftrightarrow> mw_files s' = mw_files s \<and> mw_cache_path s' = mw_cache_path s \<and> mw_completed_jobs s' = mw_completed_jobs s"

locale completion_log =
  fixes I :: "'t MinerWorker \<Rightarrow> bool"
  assumes frame: "same_log s s' \<Longrightarrow> I s \<Longrightarrow> I s'"
    and complete: "we_writable E \<Longrightarrow> I s \<Longrightarrow> I (snd (mark_completed E j s))"
begin

lemma keeps_frame: "(\<And>s r s'. m s = (r, s') \<Longrightarrow> same_log s s') \<Longrightarrow> keeps I m"
  by (rule keepsI) (blast intro: frame)

lemma keeps_skip: "keeps I (mark_skipped c E j reason)"
  by (rule keeps_frame) (auto simp: mark_skipped_def same_log_def split: sum.splits)

lemma keeps_complete: "we_writable E \<Longrightarrow> keeps I (mark_completed E j)"
  using complete by (metis keepsI snd_conv)

lemma keeps_put: "keeps I (put_objectS f)"
  by (rule keeps_frame) (auto simp: put_objectS_def same_log_def split: sum.splits)

lemma keeps_read: "keeps I (\<lambda>s. (f s, s))"
  by (rule keeps_frame) (simp add: same_log_def)

lemma keeps_receipt: "keeps I (put_receipt c E m grant r)"
proof (rule keepsI)
  fix s x s' assume "put_receipt c E m grant r s = (x, s')" "I s"
  then show "I s'" by (auto simp: put_receipt_def Let_def split: option.splits dest: keepsD [OF keeps_put])
qed

lemma keeps_train: "we_writable E \<Longrightarrow> keeps I (execute_train c E m grant)"
proof (rule keepsI)
  fix s x s' assume w: "we_writable E" and t: "execute_train c E m grant s = (x, s')" and i: "I s"
  obtain y s1 where r: "run_executor c E m (case grant of None \<Rightarrow> [] | Some g \<Rightarrow> grants_by_uri g) s = (y, s1)" by fastforce
  have "same_log s s1" using arg_cong [OF run_executor_frame [OF r], of mw_files] arg_cong [OF run_executor_frame [OF r], of mw_cache_path]
      arg_cong [OF run_executor_frame [OF r], of mw_completed_jobs] by (simp add: same_log_def)
  with i have i1: "I s1" by (blast intro: frame)
  have k: "keeps I (bindS (put_receipt c E m grant v) (\<lambda>_. bindS (mark_completed E (mf_job_id m)) (\<lambda>_. liftS (Inr True))))" for v
    by (intro keeps_bind keeps_receipt keeps_complete [OF w] keeps_lift)
  show "I s'"
    using t r i1 keepsD [OF keeps_skip, of c E "mf_job_id m" _ s1 x s'] keepsD [OF k, of _ s1 x s']
    by (cases y) (auto simp: execute_train_def split: if_splits)
qed

lemma keeps_audit: "we_writable E \<Longrightarrow> keeps I (execute_audit_replay c E m grant)"
proof (rule keepsI)
  fix s x s' assume w: "we_writable E" and t: "execute_audit_replay c E m grant s = (x, s')" and i: "I s"
  have "keeps I (put_audit_result c E m gs a)" for gs a
    by (auto simp: put_audit_result_def intro!: keeps_put keeps_bind keeps_lift split: option.split)
  then have k: "keeps I (bindS (put_audit_result c E m gs a) (\<lambda>_. bindS (mark_completed E (mf_job_id m)) (\<lambda>_. liftS (Inr True))))" for gs a
    by (intro keeps_bind keeps_complete [OF w] keeps_lift)
  show "I s'"
    using t i keepsD [OF keeps_skip, of c E "mf_job_id m" _ s x s'] keepsD [OF k, of _ _ s x s']
    by (auto simp: execute_audit_replay_def split: sum.splits if_splits)
qed

lemma keeps_entry: "we_writable E \<Longrightarrow> keeps I (execute_queue_entry c E role entry)"
proof (rule keepsI)
  fix s x s' assume w: "we_writable E" and t: "execute_queue_entry c E role entry s = (x, s')" and i: "I s"
  have "keeps I (bindS (liftS (entry_manifest E entry (mw_bucket s))) (\<lambda>loaded.
       case loaded of
         Inl reason \<Rightarrow> mark_skipped c E (qe_job_id entry) reason
       | Inr m \<Rightarrow>
           bindS (\<lambda>s. (entry_blocked c E m s, s)) (\<lambda>blocked.
             case blocked of
               Some (Some reason) \<Rightarrow> mark_skipped c E (mf_job_id m) reason
             | Some None \<Rightarrow> bindS (mark_completed E (mf_job_id m)) (\<lambda>_. liftS (Inr False))
             | None \<Rightarrow>
                 bindS (\<lambda>s. (entry_grant c E role m s, s)) (\<lambda>granted.
                   case granted of
                     Inl reason \<Rightarrow> mark_skipped c E (mf_job_id m) reason
                   | Inr grant \<Rightarrow> if role = ''audit'' then execute_audit_replay c E m grant else execute_train c E m grant))))"
    by (auto intro!: keeps_bind keeps_lift keeps_skip keeps_complete [OF w] keeps_read keeps_audit [OF w] keeps_train [OF w]
        split: sum.split option.split)
  then show "I s'" using t i unfolding execute_queue_entry_def by (rule keepsD)
qed

lemma keeps_entries: "we_writable E \<Longrightarrow> keeps I (try_entries c E role es)"
proof (induction es)
  case (Cons e es)
  have "keeps I (bindS (execute_queue_entry c E role e) (\<lambda>ran. if ran then liftS (Inr True) else try_entries c E role es))"
    using Cons by (auto intro!: keeps_bind keeps_lift keeps_entry)
  with Cons show ?case by (auto simp: keeps_def)
qed (auto simp: keeps_def)

lemma keeps_tick:
  assumes w: "we_writable E"
  shows "keeps I (tick c E)"
proof -
  have h: "keeps I (heartbeat c E False)"
    by (rule keeps_frame) (auto simp: heartbeat_def Let_def same_log_def split: if_splits sum.splits)
  have f: "keeps I (fetch_train_queue_entries c E)" "keeps I (fetch_audit_queue_entries c E)"
    by (rule keeps_frame; auto simp: fetch_train_queue_entries_def fetch_audit_queue_entries_def same_log_def split: sum.splits option.splits if_splits)+
  have i: "keeps I (modifyS (if worked then (\<lambda>s. s\<lparr>mw_idle_iters := 0\<rparr>) else idle c))" for worked
    by (rule keeps_frame) (auto simp: modifyS_def idle_def Let_def same_log_def)
  show ?thesis
    unfolding tick_def tick_audit_jobs_def by (auto intro!: keeps_bind keeps_lift h f i keeps_entries [OF w])
qed

lemma keeps_loop: "\<forall>(E, f) \<in> set rounds. we_writable E \<Longrightarrow> keeps I (worker_loop c rounds)"
proof (induction rounds)
  case (Cons x rounds)
  obtain E f where x: "x = (E, f)" by (cases x)
  have "keeps I (modifyS (\<lambda>s. s\<lparr>mw_bucket := f (mw_bucket s)\<rparr>))"
    by (rule keeps_frame) (auto simp: modifyS_def same_log_def)
  then have "keeps I (bindS (tick c E) (\<lambda>_. bindS (modifyS (\<lambda>s. s\<lparr>mw_bucket := f (mw_bucket s)\<rparr>)) (\<lambda>_. worker_loop c rounds)))"
    using Cons x by (auto intro!: keeps_bind keeps_tick)
  then show ?case by (auto simp: keeps_def x)
qed (auto simp: keeps_def)

end

subsection \<open>A restarted worker remembers\<close>

definition cache_text :: "string \<Rightarrow> (string \<times> string) list \<Rightarrow> string" where
  "cache_text path files = (case map_of files path of None \<Rightarrow> [] | Some t \<Rightarrow> t)"

text \<open>An id that survives being written on a line of its own and read back; a file whose last line is ended.\<close>

definition clean_id :: "string \<Rightarrow> bool" where
  "clean_id j \<longleftrightarrow> j \<noteq> [] \<and> strip j = j \<and> list_all (\<lambda>c. \<not> line_break c) j"

definition closed_text :: "string \<Rightarrow> bool" where
  "closed_text t \<longleftrightarrow> t = [] \<or> last t = CHR 0x0A"

definition remembers :: "'t MinerWorker \<Rightarrow> bool" where
  "remembers s \<longleftrightarrow> closed_text (cache_text (mw_cache_path s) (mw_files s)) \<and>
     (\<forall>j \<in> set (mw_completed_jobs s). clean_id j \<longrightarrow> j \<in> set (load_completed_cache (mw_cache_path s) (mw_files s)))"

lemma split_lines_ne [simp]: "split_lines t \<noteq> []"
  by (cases t) (auto split: list.split)

lemma split_lines_append: "line_break c \<Longrightarrow> split_lines (a @ c # b) = split_lines a @ split_lines b"
  by (induction a) (auto split: list.split)

lemma split_lines_plain: "list_all (\<lambda>c. \<not> line_break c) t \<Longrightarrow> split_lines t = [t]"
  by (induction t) auto

lemma load_lines:
  "set (load_completed_cache path files) = {l. l \<noteq> [] \<and> (\<exists>x \<in> set (split_lines (cache_text path files)). l = strip x)}"
  by (auto simp: load_completed_cache_def cache_text_def strip_def split: option.split)

lemma append_lines:
  assumes "closed_text t"
  shows "set (split_lines t) \<subseteq> set (split_lines (t @ j @ [CHR 0x0A]))"
    "list_all (\<lambda>c. \<not> line_break c) j \<Longrightarrow> j \<in> set (split_lines (t @ j @ [CHR 0x0A]))"
proof -
  have nl: "line_break (CHR 0x0A)" by (simp add: line_break_def)
  have "set (split_lines t) \<subseteq> set (split_lines (t @ j @ [CHR 0x0A])) \<and> (list_all (\<lambda>c. \<not> line_break c) j \<longrightarrow> j \<in> set (split_lines (t @ j @ [CHR 0x0A])))"
  proof (cases "t = []")
    case True
    then show ?thesis using split_lines_append [OF nl, of j "[]"] by (auto simp: split_lines_plain)
  next
    case False
    with assms obtain t' where t: "t = t' @ [CHR 0x0A]" by (metis append_butlast_last_id closed_text_def)
    have "split_lines (t @ j @ [CHR 0x0A]) = split_lines t' @ split_lines j @ [[]]"
      using split_lines_append [OF nl, of t' "j @ [CHR 0x0A]"] split_lines_append [OF nl, of j "[]"] by (simp add: t)
    moreover have "split_lines t = split_lines t' @ [[]]" using split_lines_append [OF nl, of t' "[]"] by (simp add: t)
    ultimately show ?thesis by (auto simp: split_lines_plain)
  qed
  then show "set (split_lines t) \<subseteq> set (split_lines (t @ j @ [CHR 0x0A]))"
    "list_all (\<lambda>c. \<not> line_break c) j \<Longrightarrow> j \<in> set (split_lines (t @ j @ [CHR 0x0A]))" by auto
qed

lemma cache_text_append: "cache_text path (append_completed_cache True path j files) = cache_text path files @ j @ [CHR 0x0A]"
  by (simp add: cache_text_def append_completed_cache_def)

interpretation written: completion_log remembers
proof
  fix s s' :: "'t MinerWorker" assume "same_log s s'" "remembers s"
  then show "remembers s'" by (simp add: same_log_def remembers_def)
next
  fix E :: "'t worker_env" and s :: "'t MinerWorker" and j
  assume w: "we_writable E" and r: "remembers s"
  let ?t = "cache_text (mw_cache_path s) (mw_files s)"
  have c: "closed_text ?t" using r by (simp add: remembers_def)
  have "i \<in> set (load_completed_cache (mw_cache_path s) (append_completed_cache True (mw_cache_path s) j (mw_files s)))"
    if "i = j \<or> i \<in> set (mw_completed_jobs s)" "clean_id i" for i
  proof (cases "i = j")
    case True
    then show ?thesis using append_lines(2) [OF c, of j] that(2) by (auto simp: load_lines cache_text_append clean_id_def intro!: bexI [of _ j])
  next
    case False
    then have "i \<in> set (load_completed_cache (mw_cache_path s) (mw_files s))" using that r by (simp add: remembers_def)
    then show ?thesis using append_lines(1) [OF c, of j] by (auto simp: load_lines cache_text_append)
  qed
  then show "remembers (snd (mark_completed E j s))"
    using w by (auto simp: remembers_def mark_completed_eq cache_text_append closed_text_def)
qed

interpretation monotone: completion_log "\<lambda>s. j \<in> set (mw_completed_jobs s)" for j
  by unfold_locales (auto simp: same_log_def mark_completed_eq)

lemma heartbeat_frame:
  "heartbeat c E force s = (r, s') \<Longrightarrow> s' = s\<lparr>mw_bucket := mw_bucket s', mw_last_heartbeat := mw_last_heartbeat s'\<rparr>"
  by (auto simp: heartbeat_def Let_def split: if_splits sum.splits)

lemma initE:
  assumes "MinerWorker_init H E c files st = Inr s"
  obtains executor decryptor signer discovery b t where "miner_signer H (we_platform E) c = Inr signer"
    "build_discovery_backend (wc_discovery_backend c) (wc_netuid c) (wc_run_id c) ''train'' None = Inr discovery"
    "s = (new_worker H c executor decryptor signer discovery
            (fst (detect_capabilities (wh_torch H) (ns_of (we_now E)) (wc_run_id c) (wc_worker_id c) (wc_device c) (device_group_of c) st)) files b)
          \<lparr>mw_last_heartbeat := t\<rparr>"
proof -
  obtain executor decryptor signer discovery st1 x where
    o: "miner_signer H (we_platform E) c = Inr signer"
    "build_discovery_backend (wc_discovery_backend c) (wc_netuid c) (wc_run_id c) ''train'' None = Inr discovery" and
    h: "heartbeat c E True (new_worker H c executor decryptor signer discovery
        (fst (detect_capabilities (wh_torch H) (ns_of (we_now E)) (wc_run_id c) (wc_worker_id c) (wc_device c) (device_group_of c) st)) files st1) = (x, s)"
    using assms by (auto simp: MinerWorker_init_def Let_def bindE_eq_Inr) (metis prod.collapse)
  from heartbeat_frame [OF h] that [OF o] show thesis by (simp add: new_worker_def Let_def)
qed

lemma init_log:
  assumes "MinerWorker_init H E c files st = Inr s"
  shows "mw_files s = files \<and> mw_cache_path s = completed_cache_path (wh_cache_dir H) (wc_run_id c) (wc_hotkey_ss58 c) (wc_worker_id c) \<and>
    mw_completed_jobs s = load_completed_cache (mw_cache_path s) files"
  by (rule initE [OF assms]) (simp add: new_worker_def Let_def)

lemma init_remembers:
  assumes "MinerWorker_init H E c files st = Inr s" "closed_text (cache_text (mw_cache_path s) files)"
  shows "remembers s"
  using init_log [OF assms(1)] assms(2) by (simp add: remembers_def)

text \<open>The path of the file never changes.\<close>

interpretation cache_path: completion_log "\<lambda>s. mw_cache_path s = path" for path
  by unfold_locales (auto simp: same_log_def mark_completed_eq)

text \<open>
  C13. Completed jobs stay completed, also across restarts: a job that a worker has marked as completed at any point of its loop is
  passed over by every later tick, and a worker started anew with the same configuration and cache directory finds it in its file
  and passes it over as well. The id must be one line without blanks at its ends, the file writable, and its last line ended.
\<close>

theorem restart_remembers_completed:
  assumes "MinerWorker_init H E0 c files st = Inr s" and "closed_text (cache_text (mw_cache_path s) files)"
    and "worker_loop c rounds s = (r, s')" and "\<forall>(E, f) \<in> set rounds. we_writable E" and "j \<in> set (mw_completed_jobs s')" and "clean_id j"
    and "MinerWorker_init H' E1 c (mw_files s') st' = Inr w" and "wh_cache_dir H' = wh_cache_dir H" and "qe_job_id e = j"
  shows "j \<in> set (mw_completed_jobs w) \<and> \<not> assigned_entry c w e \<and>
    (\<forall>later r2 s2. (\<forall>(E, f) \<in> set later. we_writable E) \<longrightarrow> worker_loop c later s' = (r2, s2) \<longrightarrow> \<not> assigned_entry c s2 e)"
proof -
  have "remembers s'"
    using keepsD [OF written.keeps_loop [OF assms(4)] assms(3) init_remembers [OF assms(1,2)]] .
  moreover have "mw_cache_path s' = mw_cache_path s"
    using keepsD [OF cache_path.keeps_loop [OF assms(4)] assms(3)] by simp
  ultimately have "j \<in> set (load_completed_cache (mw_cache_path s) (mw_files s'))" using assms(5,6) by (simp add: remembers_def)
  then have w: "j \<in> set (mw_completed_jobs w)" using init_log [OF assms(1)] init_log [OF assms(7)] assms(8) by simp
  have "j \<in> set (mw_completed_jobs s2)" if "\<forall>(E, f) \<in> set later. we_writable E" "worker_loop c later s' = (r2, s2)" for later r2 s2
    using keepsD [OF monotone.keeps_loop [OF that(1)] that(2) assms(5)] .
  then show ?thesis using w assms(9) by (auto simp: assigned_entry_def)
qed

subsection \<open>Polling the queue\<close>

text \<open>
  The cached snapshot is what a read of some earlier bucket gave, and an object that still has the cached entity tag is the object
  that was read. A new worker has nothing cached.
\<close>

definition coherent :: "WorkerConfig \<Rightarrow> platform \<Rightarrow> 't MinerWorker \<Rightarrow> bool" where
  "coherent c P s \<longleftrightarrow>
     mw_train_queue s = None \<and> mw_train_etag s = None \<or>
     (\<exists>st0 qs. mw_train_queue s = Some qs \<and> mw_train_etag s = qs_etag qs \<and>
        read_queue P st0 (wc_netuid c) (wc_run_id c) ''train'' None = Inr (Some qs) \<and> lb_bucket st0 = lb_bucket (mw_bucket s) \<and>
        (\<forall>u ob. queue_uri (mw_bucket s) (wc_netuid c) (wc_run_id c) ''train'' = Inr u \<longrightarrow> obj_at u (mw_bucket s) = Inr (Some ob) \<longrightarrow>
           mw_train_etag s = Some (etag_of ob) \<longrightarrow> obj_at u st0 = Inr (Some ob)))"

lemma queue_uri_train: "queue_uri st n r ''train'' = Inr (uri_for_key st (jobs_prefix n r @ ''queue.json''))"
  by (simp add: queue_uri_def queue_key_def)

lemma read_queue_object:
  assumes "read_queue P st n r ''train'' None = Inr (Some q)"
  obtains ob where "obj_at (uri_for_key st (jobs_prefix n r @ ''queue.json'')) st = Inr (Some ob)" "qs_etag q = Some (etag_of ob)"
  using assms
  by (fastforce simp: read_queue_def queue_uri_train LocalBucket_get_with_etag_def bindE_eq_Inr QueueState_from_payload_def
      split: option.splits prod.splits sum.splits json.splits if_splits)

lemma read_queue_cong:
  assumes "obj_at (uri_for_key st (jobs_prefix n r @ ''queue.json'')) st = obj_at (uri_for_key st0 (jobs_prefix n r @ ''queue.json'')) st0"
  shows "read_queue P st n r ''train'' e = read_queue P st0 n r ''train'' e"
  using assms by (simp add: read_queue_def queue_uri_train LocalBucket_get_with_etag_def)

lemma read_queue_etag:
  assumes "obj_at (uri_for_key st (jobs_prefix n r @ ''queue.json'')) st = Inr (Some ob)"
  shows "read_queue P st n r ''train'' (Some e) = (if e = etag_of ob then Inr None else read_queue P st n r ''train'' None)"
  using assms by (cases ob) (simp add: read_queue_def queue_uri_train LocalBucket_get_with_etag_def)

text \<open>
  C14. Polling with \<^verbatim>\<open>If-None-Match\<close> loses nothing: as long as an object with the cached entity tag is the one that was read, a poll
  returns exactly the entries of the published queue, whether it was sent anew or not, and keeps the cache coherent. When the queue
  object is missing, a poll returns the entries read last, not the empty list the docstring promises.
\<close>

theorem poll_reads_published_queue:
  assumes "coherent c (we_platform E) s"
  shows "(\<forall>q. read_queue (we_platform E) (mw_bucket s) (wc_netuid c) (wc_run_id c) ''train'' None = Inr (Some q) \<longrightarrow>
      (\<exists>s'. fetch_train_queue_entries c E s = (Inr (qs_outstanding q), s') \<and> coherent c (we_platform E) s' \<and> mw_bucket s' = mw_bucket s)) \<and>
    (obj_at (uri_for_key (mw_bucket s) (jobs_prefix (wc_netuid c) (wc_run_id c) @ ''queue.json'')) (mw_bucket s) = Inr None \<longrightarrow>
      fetch_train_queue_entries c E s = (Inr (outstanding_of (mw_train_queue s)), s))"
proof (intro conjI allI impI)
  fix q assume q: "read_queue (we_platform E) (mw_bucket s) (wc_netuid c) (wc_run_id c) ''train'' None = Inr (Some q)"
  let ?u = "uri_for_key (mw_bucket s) (jobs_prefix (wc_netuid c) (wc_run_id c) @ ''queue.json'')"
  let ?s = "s\<lparr>mw_train_queue := Some q, mw_train_etag := qs_etag q\<rparr>"
  have fresh: "coherent c (we_platform E) ?s" using q unfolding coherent_def by (auto intro!: exI [of _ "mw_bucket s"])
  from read_queue_object [OF q] obtain ob where ob: "obj_at ?u (mw_bucket s) = Inr (Some ob)" by blast
  show "\<exists>s'. fetch_train_queue_entries c E s = (Inr (qs_outstanding q), s') \<and> coherent c (we_platform E) s' \<and> mw_bucket s' = mw_bucket s"
  proof (cases "mw_train_etag s = Some (etag_of ob)")
    case True
    with assms obtain st0 qs where c: "mw_train_queue s = Some qs" "read_queue (we_platform E) st0 (wc_netuid c) (wc_run_id c) ''train'' None = Inr (Some qs)"
      "lb_bucket st0 = lb_bucket (mw_bucket s)" "obj_at ?u st0 = Inr (Some ob)"
      using ob by (auto simp: coherent_def queue_uri_train simp del: split_paired_All)
    have "read_queue (we_platform E) (mw_bucket s) (wc_netuid c) (wc_run_id c) ''train'' None =
        read_queue (we_platform E) st0 (wc_netuid c) (wc_run_id c) ''train'' None"
      by (rule read_queue_cong) (use c ob in \<open>simp add: uri_for_key_def\<close>)
    then have "qs = q" using q c(2) by simp
    then show ?thesis
      using True c(1) read_queue_etag [OF ob] assms by (simp add: fetch_train_queue_entries_def outstanding_of_def)
  next
    case False
    then have "read_queue (we_platform E) (mw_bucket s) (wc_netuid c) (wc_run_id c) ''train'' (mw_train_etag s) = Inr (Some q)"
      using q read_queue_etag [OF ob] by (cases "mw_train_etag s") auto
    then show ?thesis using fresh by (simp add: fetch_train_queue_entries_def)
  qed
next
  assume "obj_at (uri_for_key (mw_bucket s) (jobs_prefix (wc_netuid c) (wc_run_id c) @ ''queue.json'')) (mw_bucket s) = Inr None"
  then show "fetch_train_queue_entries c E s = (Inr (outstanding_of (mw_train_queue s)), s)"
    by (simp add: fetch_train_queue_entries_def read_queue_def queue_uri_train LocalBucket_get_with_etag_def)
qed

subsection \<open>Outputs without a receipt\<close>

text \<open>
  A job whose outputs exist is given up without a receipt. In direct mode a worker that meets an entry whose outputs are all in the
  bucket (its own from a tick that ended before the receipt was written, or none at all) records the job as completed, changes nothing
  in the bucket, and from then on passes over every entry of that job, so that no receipt is ever written. The comments
  call the receipt in the bucket the source of truth.
\<close>

theorem outputs_without_receipt_abandoned:
  assumes "wc_grant_mode c = ''direct''" and "load_manifest (we_platform E) (qe_manifest_uri entry) (mw_bucket s) = Inr m"
    and "eligible c (mw_device_group s) m" and "worker_verify_manifest c E m = Inr True"
    and "\<forall>ref \<in> set (mf_outputs m). LocalBucket_exists (ar_uri ref) (mw_bucket s) = Inr True"
  shows "\<exists>s'. execute_queue_entry c E ''train'' entry s = (Inr False, s') \<and> mw_bucket s' = mw_bucket s \<and>
    (\<forall>rounds r s2 e. worker_loop c rounds s' = (r, s2) \<longrightarrow> (\<forall>(E, f) \<in> set rounds. we_writable E) \<longrightarrow> qe_job_id e = mf_job_id m \<longrightarrow> \<not> assigned_entry c s2 e)"
proof -
  have m: "entry_manifest E entry (mw_bucket s) = Inr (Inr m)"
    using assms(2) by (auto simp: entry_manifest_def load_manifest_def load_record_def bindE_eq_Inr)
  have "all_exist us (mw_bucket s) = Inr True" if "\<forall>u \<in> set us. LocalBucket_exists u (mw_bucket s) = Inr True" for us
    using that by (induction us) auto
  from this [of "map ar_uri (mf_outputs m)"] assms(5) have x: "all_exist (map ar_uri (mf_outputs m)) (mw_bucket s) = Inr True" by simp
  have b: "entry_blocked c E m s = Inr (Some None)"
    using assms(1,3,4) x by (simp add: entry_blocked_def Let_def)
  let ?s = "snd (mark_completed E (mf_job_id m) s)"
  have "execute_queue_entry c E ''train'' entry s = (Inr False, ?s)"
    using m b by (simp add: execute_queue_entry_def bindS_def liftS_def mark_completed_eq)
  moreover have "\<not> assigned_entry c s2 e"
    if "worker_loop c rounds ?s = (r, s2)" "\<forall>(E, f) \<in> set rounds. we_writable E" "qe_job_id e = mf_job_id m" for rounds r s2 e
  proof -
    have "mf_job_id m \<in> set (mw_completed_jobs s2)"
      using keepsD [OF monotone.keeps_loop [OF that(2)] that(1)] by (simp add: mark_completed_eq)
    then show ?thesis by (simp add: assigned_entry_def that(3))
  qed
  moreover have "mw_bucket ?s = mw_bucket s" by (simp add: mark_completed_eq)
  ultimately show ?thesis by blast
qed

text \<open>An exception outside the caught three, such as \<^verbatim>\<open>TimelockPending\<close>, leaves the entry and so the tick.\<close>

lemma unexpected_error_escapes:
  assumes "entry_manifest E entry (mw_bucket s) = Inr (Inr m)" "entry_blocked c E m s = Inr None" "entry_grant c E ''train'' m s = Inr (Inr grant)"
    and "run_executor c E m (case grant of None \<Rightarrow> [] | Some g \<Rightarrow> grants_by_uri g) s = (Inl e, s1)" "\<not> soft_failure e"
  shows "execute_queue_entry c E ''train'' entry s = (Inl e, s1)"
  using assms by (simp add: execute_queue_entry_def bindS_def liftS_def execute_train_def)

subsection \<open>A sample worker\<close>

definition sample_wc :: WorkerConfig where
  "sample_wc =
     \<lparr>wc_netuid = 3, wc_run_id = ''run'', wc_hotkey_ss58 = ''hk'', wc_worker_id = ''w0'', wc_device = ''cpu'', wc_device_group = None,
      wc_miner_secret = ''m'', wc_poll_interval = 1, wc_heartbeat_interval = 1, wc_fault_mode = [], wc_fault_rate = 1,
      wc_encryption_secret = ''e'', wc_grant_mode = ''direct'', wc_assignment_secret = ''a'', wc_assignment_crypto = ''dev'',
      wc_wallet_path = [], wc_wallet_name = [], wc_hotkey_name = [], wc_discovery_backend = ''bucket'', wc_max_idle_iters = Some 1,
      wc_audit_eligible_hotkeys = [], wc_owner_secret = ''skip'', wc_owner_hotkey = []\<rparr>"

definition sample_we :: "bytes worker_env" where
  "sample_we =
     \<lparr>we_exec = exec_env.extend sample_exec (dist_env.fields False (\<lambda>_ _ _ _. Inl (RuntimeError ''ranks''))), we_replay = sample_env, we_nacl = None,
      we_http = \<lparr>ht_get = (\<lambda>_ _. Inl (pyerr.HTTPError ''404'')), ht_put = (\<lambda>_ _ _. Inl (pyerr.HTTPError ''403''))\<rparr>, we_now = 50,
      we_writable = True, we_type_name = (\<lambda>_. ''error'')\<rparr>"

definition sample_wh :: worker_host where
  "sample_wh =
     \<lparr>wh_torch = \<lparr>th_cuda_available = False, th_device_count = 0, th_nccl = Inr False, th_device = (\<lambda>_. Inl IndexError), th_probe = (\<lambda>_. Inr ()),
        th_hostname = Some ''h'', th_rtt_ms = 1\<rparr>, wh_cache_dir = ''/cache'', wh_input_cache_mb = 1024, wh_output_cache_mb = 256,
      wh_keyfile = (\<lambda>p. Inl (FileNotFoundError p)), wh_sign = (\<lambda>_ _. []), wh_nonce = ''n'', wh_software_hash = ''dev''\<rparr>"

text \<open>A worker that has the graph cached; the bucket holds the manifest and the graph.\<close>

definition offered_bucket :: LocalBucket where
  "offered_bucket = projr (store_dict reference_platform 0 ''s3://b/m.json'' (JobManifestV3_to_dict reference_platform audited_manifest) graph_bucket)"

definition sample_mw :: "bytes MinerWorker" where
  "sample_mw = new_worker sample_wh sample_wc
     (SingleExecutor ((JobExecutor_init 1024 256 ''e'' None)\<lparr>je_graph_cache := [(graph_id reference_platform empty_graph, empty_graph)]\<rparr>))
     (DevDecryptor ''a'') (HmacSigner ''hk'' ''hk'') \<lparr>bd_netuid = 3, bd_run_id = ''run'', bd_role = ''train'', bd_heartbeat_ttl_sec = None\<rparr> [] [] offered_bucket"

definition offered_entry :: QueueEntry where
  "offered_entry = QueueEntry_from_manifest audited_manifest ''s3://b/m.json'' None"

lemma offered_store:
  "store_dict reference_platform 0 ''s3://b/m.json'' (JobManifestV3_to_dict reference_platform audited_manifest) graph_bucket = Inr offered_bucket"
  "lb_bucket offered_bucket = ''b''" "map_of (lb_objects offered_bucket) (''b'', ''g.json'') \<noteq> None"
  "fst ` set (lb_objects offered_bucket) = {(''b'', ''g.json''), (''b'', ''m.json'')}" "map_of (lb_objects offered_bucket) (''b'', ''m.json'') \<noteq> None"
  by (auto simp: offered_bucket_def put_json_def LocalBucket_put_def graph_bucket_def)

lemma audited_wf: "JobManifestV3_wf audited_manifest"
  using sample_manifest_wf by (simp add: JobManifestV3_wf_def audited_manifest_def)

lemma sample_platform: "we_platform sample_we = reference_platform"
  by (simp add: we_platform_def sample_we_def sample_exec_def exec_env.extend_def)

lemma offered_manifest: "load_manifest reference_platform ''s3://b/m.json'' offered_bucket = Inr (JobManifestV3_raw norm_dict audited_manifest)"
  by (rule load_stored_manifest [OF reference_float_codec audited_wf offered_store(1)])

lemma offered_loads: "entry_manifest sample_we offered_entry offered_bucket = Inr (Inr (JobManifestV3_raw norm_dict audited_manifest))"
  using offered_manifest
  by (auto simp: entry_manifest_def load_manifest_def load_record_def sample_platform offered_entry_def QueueEntry_from_manifest_def bindE_eq_Inr)

lemma offered_fields:
  "mf_inputs (JobManifestV3_raw f audited_manifest) = []"
  "mf_outputs (JobManifestV3_raw f audited_manifest) = [\<lparr>ar_name = ''y'', ar_uri = ''s3://b/y.bin'', ar_sha256 = None, ar_size_bytes = None, ar_crypto = None\<rparr>]"
  "mf_graph_ref (JobManifestV3_raw f audited_manifest) = \<lparr>gr_sha256 = graph_id reference_platform empty_graph, gr_uri = ''s3://b/g.json''\<rparr>"
  "mf_job_id (JobManifestV3_raw f audited_manifest) = ''run-s0-fwd''" "mf_attempt (JobManifestV3_raw f audited_manifest) = 0"
  by (simp_all add: JobManifestV3_raw_def audited_manifest_def sample_manifest_def)

lemma offered_exists:
  "LocalBucket_exists ''s3://b/y.bin'' offered_bucket = Inr False" "LocalBucket_exists ''s3://b/g.json'' offered_bucket = Inr True"
proof -
  have p: "parse_uri ''s3://b/y.bin'' = Inr (''b'', ''y.bin'')" "parse_uri ''s3://b/g.json'' = Inr (''b'', ''g.json'')" by code_simp+
  have k: "k = ''g.json'' \<or> k = ''m.json''" if "((b, k), ob) \<in> set (lb_objects offered_bucket)" for b k ob
    using imageI [OF that, of fst] unfolding offered_store(4) by auto
  have d: "\<not> starts_with ''g.json'' (dir_key ''y.bin'')" "\<not> starts_with ''m.json'' (dir_key ''y.bin'')" by code_simp+
  have "\<not> is_dir ''b'' ''y.bin'' offered_bucket"
    unfolding is_dir_def using k d by blast
  moreover have "map_of (lb_objects offered_bucket) (''b'', ''y.bin'') = None" using offered_store(4) by (simp add: map_of_eq_None_iff)
  ultimately show "LocalBucket_exists ''s3://b/y.bin'' offered_bucket = Inr False" by (simp add: LocalBucket_exists_def p)
  show "LocalBucket_exists ''s3://b/g.json'' offered_bucket = Inr True" using offered_store(3) by (simp add: LocalBucket_exists_def p)
qed

lemma offered_unblocked: "entry_blocked sample_wc sample_we (JobManifestV3_raw norm_dict audited_manifest) sample_mw = Inr None"
proof -
  have "eligible sample_wc (mw_device_group sample_mw) (JobManifestV3_raw norm_dict audited_manifest)"
    by (simp add: eligible_def sample_wc_def JobManifestV3_raw_def audited_manifest_def sample_manifest_def ResourceRequirements_raw_def)
  moreover have "worker_verify_manifest sample_wc sample_we m = Inr True" for m by (simp add: worker_verify_manifest_def sample_wc_def)
  moreover have "mw_bucket sample_mw = offered_bucket" by (simp add: sample_mw_def new_worker_def Let_def)
  ultimately show ?thesis by (simp add: entry_blocked_def Let_def offered_fields offered_exists)
qed

lemma offered_runs:
  "\<exists>r s1. run_executor sample_wc sample_we (JobManifestV3_raw norm_dict audited_manifest) [] sample_mw = (Inr r, s1) \<and> lb_bucket (mw_bucket s1) = ''b''"
proof -
  let ?m = "JobManifestV3_raw norm_dict audited_manifest" and ?X = "exec_env.truncate (exec_of sample_wc sample_we)"
  have X: "xe_platform ?X = reference_platform" "xe_transport ?X = DirectArtifactTransport (ns_of 50)" "xe_drand ?X = None" "xe_tensors ?X = byte_tensors"
    "xe_evaluate ?X g i ps st = Inr [(''y'', OTensor [1, 2])]" for g i ps st
    by (simp_all add: exec_env.truncate_def exec_of_def worker_transport_def sample_we_def sample_wc_def sample_exec_def exec_env.extend_def)
  have p: "parse_uri ''s3://b/y.bin'' = Inr (''b'', ''y.bin'')" by code_simp
  have "\<exists>d. output_blob ?X ex sg [(''y'', OTensor [1, 2])] \<lparr>ar_name = ''y'', ar_uri = ''s3://b/y.bin'', ar_sha256 = None, ar_size_bytes = None, ar_crypto = None\<rparr> = Inr ([1, 2], d)" for ex sg
    by (simp add: output_blob_def encode_output_def X byte_tensors_def ends_with_def encode_envelope_def default_policy_def
        ArtifactCryptoPolicy_default_def digest_body_def artifact_digest_from_blob_def)
  then obtain d where d: "output_blob ?X ex sg [(''y'', OTensor [1, 2])] \<lparr>ar_name = ''y'', ar_uri = ''s3://b/y.bin'', ar_sha256 = None, ar_size_bytes = None, ar_crypto = None\<rparr> = Inr ([1, 2], d ex sg)" for ex sg
    by metis
  have "\<exists>r ex' st'. execute_job ?X ?m w ms (Some sg) [] 1 []
      ((JobExecutor_init 1024 256 ''e'' None)\<lparr>je_graph_cache := [(graph_id reference_platform empty_graph, empty_graph)]\<rparr>, offered_bucket) = (Inr r, (ex', st')) \<and> lb_bucket st' = ''b''" for w ms sg
    unfolding execute_job_def X offered_fields
    by (simp add: bindS_def executor_fetch_graph_def JobExecutor_init_def load_job_inputs_def offered_fields liftS_def X
        apply_faults_def artifact_signer_def publish_outputs_def d DirectArtifactTransport_def LocalBucket_put_def p offered_store(2))
  moreover have "mw_executor sample_mw = SingleExecutor ((JobExecutor_init 1024 256 ''e'' None)\<lparr>je_graph_cache := [(graph_id reference_platform empty_graph, empty_graph)]\<rparr>)"
    "mw_bucket sample_mw = offered_bucket" "wc_fault_mode sample_wc = []" "wc_fault_rate sample_wc = 1"
    by (simp_all add: sample_mw_def new_worker_def Let_def sample_wc_def)
  ultimately obtain r ex' st' where "execute_job ?X ?m (mw_identity sample_mw) (wc_miner_secret sample_wc) (Some (mw_signer sample_mw)) (wc_fault_mode sample_wc)
      (wc_fault_rate sample_wc) [] ((JobExecutor_init 1024 256 ''e'' None)\<lparr>je_graph_cache := [(graph_id reference_platform empty_graph, empty_graph)]\<rparr>, mw_bucket sample_mw) =
      (Inr r, (ex', st'))" "lb_bucket st' = ''b''" "mw_executor sample_mw =
        SingleExecutor ((JobExecutor_init 1024 256 ''e'' None)\<lparr>je_graph_cache := [(graph_id reference_platform empty_graph, empty_graph)]\<rparr>)" by metis
  then show ?thesis by (simp add: run_executor_def)
qed

lemma offered_executed: "\<exists>s'. execute_queue_entry sample_wc sample_we ''train'' offered_entry sample_mw = (Inr True, s')"
proof -
  let ?m = "JobManifestV3_raw norm_dict audited_manifest"
  from offered_runs obtain r s1 where r: "run_executor sample_wc sample_we ?m [] sample_mw = (Inr r, s1)" "lb_bucket (mw_bucket s1) = ''b''" by blast
  let ?u = "receipt_uri_of sample_wc ?m (mw_bucket s1)"
  have "?u = join_uri ''b'' (receipt_key 3 ''run'' ''hk'' ''run-s0-fwd'' 0)"
    by (simp add: receipt_uri_of_def uri_for_key_def r(2) offered_fields sample_wc_def)
  moreover have "object_key (receipt_key 3 ''run'' ''hk'' ''run-s0-fwd'' 0)" "bucket_name ''b''" by code_simp+
  ultimately have "parse_uri ?u = Inr (''b'', receipt_key 3 ''run'' ''hk'' ''run-s0-fwd'' 0)" by simp
  from lb.put_total [OF this] obtain st where st: "store_dict reference_platform (ns_of (we_now sample_we)) ?u (JobReceiptV3_to_dict r) (mw_bucket s1) = Inr st"
    unfolding put_json_def by blast
  have m: "mw_bucket sample_mw = offered_bucket" by (simp add: sample_mw_def new_worker_def Let_def)
  have "entry_grant sample_wc sample_we ''train'' ?m sample_mw = Inr (Inr None)" by (simp add: entry_grant_def sample_wc_def)
  then show ?thesis
    using st r(1)
    by (simp add: execute_queue_entry_def bindS_def liftS_def m offered_loads offered_unblocked execute_train_def put_receipt_def put_objectS_def
        sample_platform mark_completed_eq)
qed

theorem executed_job_has_receipt_witness:
  "\<exists>s' m r. execute_queue_entry sample_wc sample_we ''train'' offered_entry sample_mw = (Inr True, s') \<and>
     load_receipt reference_platform (receipt_uri_of sample_wc m (mw_bucket s')) (mw_bucket s') = Inr r \<and>
     rc_manifest_hash r = manifest_hash reference_platform m \<and> wi_hotkey_ss58 (rc_worker r) = ''hk''"
proof -
  from offered_executed obtain s' where s': "execute_queue_entry sample_wc sample_we ''train'' offered_entry sample_mw = (Inr True, s')" by blast
  have o: "wc_grant_mode sample_wc = ''direct''" "float_codec (we_platform sample_we)" "wc_hotkey_ss58 sample_wc = ''hk''"
    "mw_signer sample_mw = HmacSigner ''hk'' ''hk''" "wi_hotkey_ss58 (mw_identity sample_mw) = ''hk''" "wf_dict (wi_capabilities (mw_identity sample_mw))"
    by (simp_all add: sample_wc_def sample_platform reference_float_codec sample_mw_def new_worker_def Let_def worker_identity_def wf_dict_def)
  from executed_job_has_receipt [OF s'] o s' show ?thesis by (auto simp: sample_platform)
qed

theorem outputs_without_receipt_abandoned_witness:
  "\<exists>s'. execute_queue_entry sample_wc sample_we ''train'' offered_entry
       (sample_mw\<lparr>mw_bucket := offered_bucket\<lparr>lb_objects := lb_objects offered_bucket @ [((''b'', ''y.bin''), ([9], 0))]\<rparr>\<rparr>) = (Inr False, s') \<and>
     LocalBucket_get ''s3://b/y.bin'' (mw_bucket s') = Inr [9] \<and> \<not> assigned_entry sample_wc s' offered_entry"
proof -
  let ?b = "offered_bucket\<lparr>lb_objects := lb_objects offered_bucket @ [((''b'', ''y.bin''), ([9], 0))]\<rparr>"
  let ?s = "sample_mw\<lparr>mw_bucket := ?b\<rparr>" and ?m = "JobManifestV3_raw norm_dict audited_manifest"
  have p: "parse_uri ''s3://b/y.bin'' = Inr (''b'', ''y.bin'')" by code_simp
  have ma: "map_of (xs @ [(k, v)]) a = (case map_of xs a of None \<Rightarrow> if a = k then Some v else None | Some w \<Rightarrow> Some w)" for xs :: "((string \<times> string) \<times> obj) list" and k v a
    by (induction xs) auto
  obtain ob where "map_of (lb_objects offered_bucket) (''b'', ''m.json'') = Some ob"
    using offered_store(5) by blast
  then have "LocalBucket_get ''s3://b/m.json'' ?b = LocalBucket_get ''s3://b/m.json'' offered_bucket"
    by (simp add: LocalBucket_get_def obj_at_def ma del: map_of_append)
  then have m: "load_manifest (we_platform sample_we) (qe_manifest_uri offered_entry) (mw_bucket ?s) = Inr ?m"
    using offered_manifest by (simp add: load_manifest_def load_record_def get_json_def sample_platform offered_entry_def QueueEntry_from_manifest_def)
  have e: "eligible sample_wc (mw_device_group ?s) ?m"
    by (simp add: eligible_def sample_wc_def JobManifestV3_raw_def audited_manifest_def sample_manifest_def ResourceRequirements_raw_def)
  have g: "map_of (lb_objects ?b) (''b'', ''y.bin'') = Some ([9], 0)"
  proof -
    have "map_of (lb_objects offered_bucket) (''b'', ''y.bin'') = None" using offered_store(4) by (simp add: map_of_eq_None_iff)
    then show ?thesis by (simp add: ma del: map_of_append)
  qed
  have "\<exists>s'. execute_queue_entry sample_wc sample_we ''train'' offered_entry ?s = (Inr False, s') \<and> mw_bucket s' = mw_bucket ?s \<and>
     (\<forall>rounds r s2 e. worker_loop sample_wc rounds s' = (r, s2) \<longrightarrow> (\<forall>(E, f) \<in> set rounds. we_writable E) \<longrightarrow> qe_job_id e = mf_job_id ?m \<longrightarrow>
        \<not> assigned_entry sample_wc s2 e)"
    by (rule outputs_without_receipt_abandoned [OF _ m e])
      (use g in \<open>simp_all add: sample_wc_def worker_verify_manifest_def offered_fields LocalBucket_exists_def p\<close>)
  then obtain s' where s': "execute_queue_entry sample_wc sample_we ''train'' offered_entry ?s = (Inr False, s')" "mw_bucket s' = ?b"
    "\<forall>rounds r s2 e. worker_loop sample_wc rounds s' = (r, s2) \<longrightarrow> (\<forall>(E, f) \<in> set rounds. we_writable E) \<longrightarrow> qe_job_id e = mf_job_id ?m \<longrightarrow>
        \<not> assigned_entry sample_wc s2 e" by auto
  have "qe_job_id offered_entry = mf_job_id ?m"
    by (simp add: offered_fields offered_entry_def QueueEntry_from_manifest_def) (simp add: audited_manifest_def sample_manifest_def)
  then have "\<not> assigned_entry sample_wc s' offered_entry" using s'(3) [rule_format, of "[]" _ s' offered_entry] by simp
  then show ?thesis using s'(1,2) g by (auto simp: LocalBucket_get_def obj_at_def p)
qed

text \<open>A cache file with two jobs; the worker finds no queue and stops, and a second worker is started from its files.\<close>

definition sample_files :: "(string \<times> string) list" where
  "sample_files = [(''/cache/hk/w0/run.completed.txt'', ''job-1'' @ [CHR 0x0A] @ ''job-2'' @ [CHR 0x0A])]"

lemma sample_starts:
  "\<exists>s. MinerWorker_init sample_wh sample_we sample_wc files (LocalBucket_init ''b'') = Inr s \<and> mw_train_queue s = None \<and> mw_last_heartbeat s = 50 \<and>
     \<not> mw_stopped s \<and> mw_idle_iters s = 0 \<and> read_queue reference_platform (mw_bucket s) 3 ''run'' ''train'' (mw_train_etag s) = Inr None"
proof -
  let ?probed = "detect_capabilities (wh_torch sample_wh) (ns_of 50) ''run'' ''w0'' ''cpu'' [''cpu''] (LocalBucket_init ''b'')"
  let ?D = "\<lparr>bd_netuid = 3, bd_run_id = ''run'', bd_role = ''train'', bd_heartbeat_ttl_sec = None\<rparr>"
  let ?s = "new_worker sample_wh sample_wc (SingleExecutor (JobExecutor_init 1024 256 ''e'' None)) (DevDecryptor ''a'') (HmacSigner ''hk'' ''hk'') ?D
      (fst ?probed) files (snd ?probed) :: bytes MinerWorker"
  let ?k = "worker_heartbeat_key 3 ''hk'' ''w0''"
  have st: "snd ?probed = LocalBucket_init ''b''" by code_simp
  have p: "parse_uri (uri_for_key (LocalBucket_init ''b'') ?k) = Inr (''b'', ?k)"
    and q: "parse_uri (uri_for_key (LocalBucket_init ''b'') (jobs_prefix 3 ''run'' @ ''queue.json'')) = Inr (''b'', jobs_prefix 3 ''run'' @ ''queue.json'')"
    and ne: "?k \<noteq> jobs_prefix 3 ''run'' @ ''queue.json''" by code_simp+
  have c: "device_group_of sample_wc = [''cpu'']" "wc_netuid sample_wc = 3" "wc_run_id sample_wc = ''run''" "wc_worker_id sample_wc = ''w0''" "wc_device sample_wc = ''cpu''"
    "wc_discovery_backend sample_wc = ''bucket''" "we_now sample_we = 50"
    by (simp_all add: device_group_of_def sample_wc_def sample_we_def)
  have i: "wi_hotkey_ss58 (mw_identity ?s) = ''hk''" "wi_worker_id (mw_identity ?s) = ''w0''" "mw_bucket ?s = LocalBucket_init ''b''" "mw_discovery ?s = ?D"
    by (simp_all add: new_worker_def Let_def worker_identity_def st) (simp_all add: sample_wc_def)
  have k: "heartbeat_key ?D (mw_identity ?s) = ?k" by (simp add: heartbeat_key_def i)
  have "\<exists>d. store_dict P t (uri_for_key (LocalBucket_init ''b'') ?k) x (LocalBucket_init ''b'') =
      Inr ((LocalBucket_init ''b'')\<lparr>lb_objects := [((''b'', ?k), d)]\<rparr>)" for P t x
    using p by (simp add: put_json_def LocalBucket_put_def) (simp add: LocalBucket_init_def)
  then obtain d where d: "advertise_worker (we_platform sample_we) (ns_of 50) (unix_of 50) ?D
        \<lparr>mi_netuid = wc_netuid sample_wc, mi_hotkey_ss58 = wc_hotkey_ss58 sample_wc, mi_uid = None, mi_endpoint = None, mi_commitment_hash = None,
          mi_capabilities = mw_capabilities ?s\<rparr> (mw_identity ?s) (LocalBucket_init ''b'') =
      Inr ((LocalBucket_init ''b'')\<lparr>lb_objects := [((''b'', ?k), d)]\<rparr>)"
    unfolding advertise_worker_def k by blast
  have h: "heartbeat sample_wc sample_we True ?s =
      (Inr (), ?s\<lparr>mw_last_heartbeat := 50, mw_bucket := (LocalBucket_init ''b'')\<lparr>lb_objects := [((''b'', ?k), d)]\<rparr>\<rparr>)"
    unfolding heartbeat_def Let_def by (simp add: i c(7) d)
  let ?t = "?s\<lparr>mw_last_heartbeat := 50, mw_bucket := (LocalBucket_init ''b'')\<lparr>lb_objects := [((''b'', ?k), d)]\<rparr>\<rparr>"
  have "MinerWorker_init sample_wh sample_we sample_wc files (LocalBucket_init ''b'') = Inr ?t"
    using h by (simp add: MinerWorker_init_def c executor_of_def assignment_decryptor_of_def miner_signer_def build_discovery_backend_def gpu_probe_def
        probe_torch_device_def Let_def) (simp add: sample_wc_def sample_wh_def)
  moreover have "read_queue reference_platform (mw_bucket ?t) 3 ''run'' ''train'' None = Inr None"
    using q ne by (simp add: read_queue_def queue_uri_train uri_for_key_def LocalBucket_get_with_etag_def obj_at_def LocalBucket_init_def)
  ultimately show ?thesis by (intro exI [of _ ?t]) (simp add: new_worker_def Let_def)
qed

lemma sample_stops:
  assumes "mw_train_queue s = None" "mw_last_heartbeat s = 50" "\<not> mw_stopped s" "mw_idle_iters s = 0"
    "read_queue reference_platform (mw_bucket s) 3 ''run'' ''train'' (mw_train_etag s) = Inr None"
  shows "\<exists>s'. worker_loop sample_wc [(sample_we, id)] s = (Inr (), s') \<and> mw_completed_jobs s' = mw_completed_jobs s"
proof -
  have "heartbeat sample_wc sample_we False s = (Inr (), s)" using assms(2) by (simp add: heartbeat_def sample_we_def sample_wc_def)
  moreover have "fetch_train_queue_entries sample_wc sample_we s = (Inr [], s)"
    using assms(1,5) by (simp add: fetch_train_queue_entries_def sample_platform) (simp add: sample_wc_def outstanding_of_def)
  moreover have "\<not> is_audit_eligible sample_wc" by (simp add: is_audit_eligible_def sample_wc_def)
  ultimately have "tick sample_wc sample_we s = (Inr False, idle sample_wc s)" by (simp add: tick_def bindS_def liftS_def modifyS_def)
  then show ?thesis using assms(3,4) by (simp add: bindS_def modifyS_def idle_def Let_def sample_wc_def)
qed

theorem restart_remembers_completed_witness:
  "\<exists>s s' w. MinerWorker_init sample_wh sample_we sample_wc sample_files (LocalBucket_init ''b'') = Inr s \<and>
     worker_loop sample_wc [(sample_we, id)] s = (Inr (), s') \<and>
     MinerWorker_init sample_wh sample_we sample_wc (mw_files s') (LocalBucket_init ''b'') = Inr w \<and> ''job-2'' \<in> set (mw_completed_jobs w)"
proof -
  obtain s s' w where s: "MinerWorker_init sample_wh sample_we sample_wc sample_files (LocalBucket_init ''b'') = Inr s"
    and l: "worker_loop sample_wc [(sample_we, id)] s = (Inr (), s')" "mw_completed_jobs s' = mw_completed_jobs s"
    and w: "MinerWorker_init sample_wh sample_we sample_wc (mw_files s') (LocalBucket_init ''b'') = Inr w"
    using sample_starts sample_stops by metis
  have path: "mw_cache_path s = ''/cache/hk/w0/run.completed.txt''"
    using init_log [OF s] by (simp add: completed_cache_path_def replace_char_def) (simp add: sample_wh_def sample_wc_def)
  have c: "closed_text (cache_text (mw_cache_path s) sample_files)" unfolding path by code_simp
  have "list_ex (\<lambda>j. j = ''job-2'') (load_completed_cache ''/cache/hk/w0/run.completed.txt'' sample_files)" "clean_id ''job-2''" by code_simp+
  then have j: "''job-2'' \<in> set (mw_completed_jobs s')" "clean_id ''job-2''" using init_log [OF s] path l(2) by (auto simp: list_ex_iff)
  have "''job-2'' \<in> set (mw_completed_jobs w)"
    using restart_remembers_completed [OF s c l(1) _ j w, of "offered_entry\<lparr>qe_job_id := ''job-2''\<rparr>"] by (simp add: sample_we_def)
  with s l(1) w show ?thesis by blast
qed

text \<open>A published queue, and a worker that has cached it.\<close>

definition plain_entry :: QueueEntry where
  "plain_entry = \<lparr>qe_job_id = ''j'', qe_assigned_hotkey = ''hk'', qe_assigned_worker = None, qe_manifest_uri = ''m'', qe_grant_uri = None,
     qe_deadline_unix = 0, qe_attempt = 0, qe_created_unix = 0\<rparr>"

definition queue_bucket :: LocalBucket where
  "queue_bucket = projr (store_dict reference_platform 7 ''s3://b/v3/netuid=3/jobs/run/queue.json''
     [(''outstanding'', JList [JObj (QueueEntry_to_dict plain_entry)])] (LocalBucket_init ''b''))"

theorem poll_reads_published_queue_witness:
  "\<exists>s' s''. fetch_train_queue_entries sample_wc sample_we (sample_mw\<lparr>mw_bucket := queue_bucket\<rparr>) = (Inr [plain_entry], s') \<and>
     mw_train_etag s' \<noteq> None \<and> fetch_train_queue_entries sample_wc sample_we s' = (Inr [plain_entry], s'')"
proof -
  let ?s = "sample_mw\<lparr>mw_bucket := queue_bucket\<rparr>" and ?rd = "read_queue reference_platform queue_bucket 3 ''run'' ''train'' None"
  have w: "wc_netuid sample_wc = 3" "wc_run_id sample_wc = ''run''" by (simp_all add: sample_wc_def)
  have "map_option qs_outstanding (projr ?rd) = Some [plain_entry]" "isl ?rd = False" by code_simp+
  then obtain q where q: "?rd = Inr (Some q)" "qs_outstanding q = [plain_entry]" by (cases ?rd) auto
  have c: "coherent sample_wc reference_platform ?s" by (simp add: coherent_def sample_mw_def new_worker_def Let_def)
  from poll_reads_published_queue [of sample_wc sample_we ?s] c q obtain s' where
    s': "fetch_train_queue_entries sample_wc sample_we ?s = (Inr [plain_entry], s')" "coherent sample_wc reference_platform s'" "mw_bucket s' = queue_bucket"
    by (auto simp: sample_platform w)
  from poll_reads_published_queue [of sample_wc sample_we s'] s' q obtain s'' where
    "fetch_train_queue_entries sample_wc sample_we s' = (Inr [plain_entry], s'')" by (auto simp: sample_platform w)
  moreover have "mw_train_etag s' \<noteq> None"
  proof -
    have "mw_train_etag ?s = None" by (simp add: sample_mw_def new_worker_def Let_def)
    then have "mw_train_etag s' = qs_etag q" using s'(1) q by (auto simp: fetch_train_queue_entries_def sample_platform w)
    then show ?thesis using read_queue_object [OF q(1)] by fastforce
  qed
  ultimately show ?thesis using s'(1) by blast
qed

end
