(* ===== verification/Audit_Jobs.thy ===== *)
theory Audit_Jobs
  imports Emission_Logic Verifier
begin

text \<open>
  The audit job manager (\<^verbatim>\<open>teuton_validator/audit_jobs.py\<close>): for sampled receipts that have neither a verdict nor an
  audit result nor an audit job yet, it emits a job that carries the receipt and the target manifest to an eligible auditor.
\<close>

subsection \<open>State\<close>

record AuditJobConfig = emit_config +
  aj_validator_hotkey :: string
  aj_sample_rate :: pyfloat
  aj_audit_eligible_hotkeys :: "string list"

definition discovery_role :: "AuditJobConfig \<Rightarrow> string" where
  "discovery_role c = (if aj_audit_eligible_hotkeys c \<noteq> [] then ''train'' else ''audit'')"

definition AuditJobManager_init :: "emit_env \<Rightarrow> AuditJobConfig \<Rightarrow> LocalBucket \<Rightarrow> pyfloat \<Rightarrow> emitter res" where
  "AuditJobManager_init E c st now = emitter_init E c (discovery_role c) ''audit'' st now []"

definition discover_auditors :: "emit_env \<Rightarrow> AuditJobConfig \<Rightarrow> (emitter, WorkerIdentity list) sres" where
  "discover_auditors E c s =
     bindS (liftS (discover_workers (ee_platform E) (em_now s) (discovery_backend_of c (discovery_role c)) (em_bucket s))) (\<lambda>records.
       learn_workers E (if aj_audit_eligible_hotkeys c \<noteq> []
                        then filter (\<lambda>r. wi_hotkey_ss58 (dr_worker r) \<in> set (aj_audit_eligible_hotkeys c)) records
                        else records)) s"

subsection \<open>Emitting an audit job\<close>

text \<open>Only the first reference to each URI is kept.\<close>

fun unique_refs :: "string list \<Rightarrow> ArtifactRef list \<Rightarrow> ArtifactRef list" where
  "unique_refs seen [] = []"
| "unique_refs seen (ref # refs) =
     (if ar_uri ref \<in> set seen then unique_refs seen refs else ref # unique_refs (ar_uri ref # seen) refs)"

definition audit_job_id :: "JobReceiptV3 \<Rightarrow> string" where
  "audit_job_id r = ''audit-'' @ rc_job_id r @ ''-'' @ take 16 (sha256_hex (utf8_encode (rc_receipt_id r)))"

definition audit_manifest ::
  "emit_env \<Rightarrow> AuditJobConfig \<Rightarrow> int \<Rightarrow> LocalBucket \<Rightarrow> string \<Rightarrow> JobReceiptV3 \<Rightarrow> JobManifestV3 \<Rightarrow> string \<Rightarrow> WorkerIdentity \<Rightarrow> JobManifestV3" where
  "audit_manifest E c now st receipt_uri receipt target job_id worker =
     JobManifestV3_sign (ee_platform E) (owner_of c)
       \<lparr>mf_job_id = job_id, mf_run_id = ec_run_id c, mf_step_id = mf_step_id target, mf_kind = ''audit_replay'',
        mf_graph_ref = \<lparr>gr_sha256 = gr_sha256 (mf_graph_ref target), gr_uri = gr_uri (mf_graph_ref target)\<rparr>,
        mf_params = [(''receipt_uri'', JStr receipt_uri), (''receipt'', JObj (JobReceiptV3_to_dict receipt)),
                     (''target_manifest'', JObj (JobManifestV3_to_dict (ee_platform E) target))],
        mf_inputs = unique_refs [] (mf_inputs target @ mf_outputs target),
        mf_outputs = [\<lparr>ar_name = ''audit_result'', ar_uri = uri_for_key st (audit_result_key (ec_netuid c) (ec_run_id c) (wi_hotkey_ss58 worker) (rc_receipt_id receipt)),
                       ar_sha256 = None, ar_size_bytes = None, ar_crypto = None\<rparr>],
        mf_assigned_hotkey = wi_hotkey_ss58 worker, mf_assigned_worker = Some (wi_worker_id worker), mf_attempt = 0,
        mf_deadline_unix = now + ec_grant_ttl_sec c, mf_created_unix = now, mf_resource_requirements = default_requirements,
        mf_verification_policy = default_verification False, mf_owner_signature = None, mf_schema_version = 3\<rparr>"

definition emit_audit_grant :: "emit_env \<Rightarrow> AuditJobConfig \<Rightarrow> JobManifestV3 \<Rightarrow> (emitter, string option) sres" where
  "emit_audit_grant E c m s =
     (case em_broker s of
        None \<Rightarrow> (Inr None, s)
      | Some b \<Rightarrow>
          bindS (liftS (make_grant b (unix_of (em_now s)) (ec_grant_ttl_sec c) m (Inr (map ar_uri (mf_outputs m))) None))
            (store_grant E c (audit_assignment_key (ec_netuid c) (mf_run_id m) (mf_job_id m) (mf_assigned_hotkey m)) (mf_assigned_hotkey m)) s)"

definition emit_audit_job ::
  "emit_env \<Rightarrow> AuditJobConfig \<Rightarrow> string \<Rightarrow> JobReceiptV3 \<Rightarrow> JobManifestV3 \<Rightarrow> string \<Rightarrow> (emitter, JobManifestV3) sres" where
  "emit_audit_job E c receipt_uri receipt target job_id =
     bindS (pickS None (\<lambda>_. None)) (\<lambda>worker s.
       publish_manifest E (emit_audit_grant E c) (uri_of s (audit_job_manifest_key (ec_netuid c) (ec_run_id c) job_id))
         (audit_manifest E c (unix_of (em_now s)) (em_bucket s) receipt_uri receipt target job_id worker) s)"

subsection \<open>A pass over the receipts\<close>

definition audit_validator :: "AuditJobConfig \<Rightarrow> ValidatorConfig" where
  "audit_validator c =
     \<lparr>vc_netuid = ec_netuid c, vc_run_id = ec_run_id c, vc_validator_hotkey = aj_validator_hotkey c, vc_validator_secret = ''validator-dev-secret'',
      vc_validator_signer = None, vc_owner_secret = ec_owner_secret c, vc_owner_hotkey = [], vc_miner_secret = ''miner-dev-secret'', vc_device = ''cpu'',
      vc_sample_rate = aj_sample_rate c, vc_max_sample_elements = 4096, vc_encryption_secret = ''teuton-dev-encryption'',
      vc_timelock_provider = None, vc_audit_eligible_hotkeys = []\<rparr>"

definition audit_job_uri :: "AuditJobConfig \<Rightarrow> JobReceiptV3 \<Rightarrow> LocalBucket \<Rightarrow> string" where
  "audit_job_uri c r st = uri_for_key st (audit_job_manifest_key (ec_netuid c) (ec_run_id c) (audit_job_id r))"

text \<open>Whether a receipt needs no audit job: \<^verbatim>\<open>or\<close> and the early \<^verbatim>\<open>continue\<close> stop at the first reason.\<close>

definition needs_no_audit :: "emit_env \<Rightarrow> AuditJobConfig \<Rightarrow> JobReceiptV3 \<Rightarrow> LocalBucket \<Rightarrow> bool res" where
  "needs_no_audit E c r st =
     bindE (has_verdict (audit_validator c) r st) (\<lambda>verdict.
       if verdict then Inr True
       else bindE (find_audit_result (ee_platform E) (audit_validator c) r st) (\<lambda>audit.
         if audit \<noteq> None then Inr True else LocalBucket_exists (audit_job_uri c r st) st))"

fun audit_loop :: "emit_env \<Rightarrow> AuditJobConfig \<Rightarrow> nat option \<Rightarrow> nat \<Rightarrow> (string \<times> JobReceiptV3) list \<Rightarrow> emitter \<Rightarrow> unit res \<times> nat \<times> emitter" where
  "audit_loop E c max_jobs emitted [] s = (Inr (), emitted, s)"
| "audit_loop E c max_jobs emitted ((uri, r) # rest) s =
     (if max_jobs \<noteq> None \<and> the max_jobs \<le> emitted then (Inr (), emitted, s)
      else case needs_no_audit E c r (em_bucket s) of
             Inl e \<Rightarrow> (Inl e, emitted, s)
           | Inr True \<Rightarrow> audit_loop E c max_jobs emitted rest s
           | Inr False \<Rightarrow>
               (case find_manifest (ee_platform E) (audit_validator c) r (em_bucket s) of
                  Inl e \<Rightarrow> (Inl e, emitted, s)
                | Inr target \<Rightarrow>
                    (case emit_audit_job E c uri r target (audit_job_id r) s of
                       (Inl e, s') \<Rightarrow> (Inl e, emitted, s')
                     | (Inr _, s') \<Rightarrow> audit_loop E c max_jobs (Suc emitted) rest s')))"

definition flush_audits :: "emit_env \<Rightarrow> (emitter, bool) sres" where
  "flush_audits E s =
     (let t = unix_of (em_now s); ns = ns_of (em_now s)
      in case flush (ee_platform E) \<lparr>fc_snapshot1 = t, fc_write1 = ns, fc_snapshot2 = t, fc_write2 = ns\<rparr> True (em_queue s) (em_bucket s) of
           (r, q, st) \<Rightarrow> (r, s\<lparr>em_queue := q, em_bucket := st\<rparr>))"

text \<open>An exception of the final flush replaces the one of the loop.\<close>

definition AuditJobManager_run_once :: "emit_env \<Rightarrow> shuffle \<Rightarrow> AuditJobConfig \<Rightarrow> nat option \<Rightarrow> (emitter, nat) sres" where
  "AuditJobManager_run_once E shuf c max_jobs =
     bindS (discover_auditors E c) (\<lambda>_ s.
       case sample_receipts (ee_platform E) shuf (audit_validator c) (em_bucket s) of
         Inl e \<Rightarrow> (Inl e, s)
       | Inr items \<Rightarrow>
           (case audit_loop E c max_jobs 0 items s of
              (r, emitted, s1) \<Rightarrow>
                bindS (if emitted > 0 then flush_audits E else liftS (Inr False)) (\<lambda>_. liftS (bindE r (\<lambda>_. Inr emitted))) s1))"

end
