(* ===== verification/Audit_Jobs_Properties.thy ===== *)
theory Audit_Jobs_Properties
  imports Audit_Jobs Audit_Properties Scoring_Properties
begin

text \<open>
  What the audit job manager promises: an audit job brings the receipt and the target manifest to an allowed auditor
  unchanged, and a pass that returns leaves no sampled receipt of the run without a verdict, an audit result or an
  audit job.
\<close>

subsection \<open>Where the manager writes\<close>

definition audit_keys :: "AuditJobConfig \<Rightarrow> string set" where
  "audit_keys c = below (audit_jobs_prefix (ec_netuid c) (ec_run_id c)) \<union> below (audit_root (ec_netuid c) (ec_run_id c) @ ''/assignments/'')"

lemma newline_free_audit_root: "CHR 0x0A \<notin> set r \<Longrightarrow> CHR 0x0A \<notin> set (audit_root n r)"
  by (simp add: audit_root_def)

lemma below_audit_root:
  assumes "parse_uri (uri_for_key st (audit_root n r @ p @ x)) = Inr (b, k)" "CHR 0x0A \<notin> set r" "CHR 0x0A \<notin> set p" "bucket_name (lb_bucket st)"
  shows "k \<in> below (audit_root n r @ p)"
  using parse_uri_prefix [of "lb_bucket st" "audit_root n r @ p" x b k] assms newline_free_audit_root [OF assms(2), of n]
  by (simp add: uri_for_key_def below_def)

lemma below_sections_disjoint:
  assumes "k \<in> below (p @ s)" "k \<in> below (p @ s')"
  shows "take (min (length s) (length s')) s = take (min (length s) (length s')) s'"
proof -
  from assms obtain y z where "s @ y = s' @ z" by (auto simp: below_def starts_with_iff)
  then have "take (min (length s) (length s')) (s @ y) = take (min (length s) (length s')) (s' @ z)" by simp
  then show ?thesis by (auto simp: min_def)
qed

lemma audit_results_apart: "k \<in> below (audit_results_prefix (ec_netuid c) (ec_run_id c)) \<Longrightarrow> k \<notin> audit_keys c"
  using below_sections_disjoint [of k "audit_root (ec_netuid c) (ec_run_id c)" "''/results/''" "''/jobs/''"]
    below_sections_disjoint [of k "audit_root (ec_netuid c) (ec_run_id c)" "''/results/''" "''/assignments/''"]
  by (auto simp: audit_keys_def audit_results_prefix_def audit_jobs_prefix_def)

subsection \<open>Allowed auditors\<close>

definition allowed :: "AuditJobConfig \<Rightarrow> string \<Rightarrow> bool" where
  "allowed c hk \<longleftrightarrow> aj_audit_eligible_hotkeys c = [] \<or> hk \<in> set (aj_audit_eligible_hotkeys c)"

text \<open>A quota book in which only allowed hotkeys have workers.\<close>

definition auditors_ok :: "AuditJobConfig \<Rightarrow> QuotaBook \<Rightarrow> bool" where
  "auditors_ok c qb \<longleftrightarrow> book_ok qb \<and> (\<forall>(k, a) \<in> set qb. ma_workers a \<noteq> [] \<longrightarrow> allowed c k)"

lemma auditors_ok_Nil [simp]: "auditors_ok c []"
  by (simp add: auditors_ok_def book_ok_def)

lemma auditors_ok_lookup: "auditors_ok c qb \<Longrightarrow> map_of qb k = Some a \<Longrightarrow> ma_workers a \<noteq> [] \<Longrightarrow> allowed c k"
  by (auto simp: auditors_ok_def dest: map_of_SomeD)

lemma auditors_ok_update:
  assumes "auditors_ok c qb" "account_ok k a" "ma_workers a \<noteq> [] \<Longrightarrow> allowed c k"
  shows "auditors_ok c (AList.update k a qb)"
  using assms set_update_subset [of k a qb] by (fastforce simp: auditors_ok_def book_ok_update)

lemma auditors_ok_setdefault:
  assumes "auditors_ok c qb" "0 \<le> dq"
  shows "auditors_ok c (setdefault (mi_hotkey_ss58 i) (MinerAccount_new dq i) qb)"
  using assms by (auto simp: setdefault_def MinerAccount_new_def intro!: auditors_ok_update account_new_ok [unfolded MinerAccount_new_def])

lemma auditors_ok_add_worker:
  assumes "auditors_ok c qb" "0 \<le> dq" "allowed c (wi_hotkey_ss58 w)"
  shows "auditors_ok c (add_worker dq w qb)"
proof -
  let ?hk = "wi_hotkey_ss58 w"
  let ?qb = "setdefault ?hk (MinerAccount_new dq (bare_identity ?hk)) qb"
  have ok: "auditors_ok c ?qb" using auditors_ok_setdefault [OF assms(1,2), of "bare_identity ?hk"] by simp
  have "account_ok ?hk (a\<lparr>ma_workers := AList.update (wi_worker_id w) w (ma_workers a)\<rparr>)" if "map_of ?qb ?hk = Some a" for a
    using ok that by (intro account_ok_add_worker book_ok_lookup [of ?qb]) (simp_all add: auditors_ok_def del: setdefault_map_of)
  then show ?thesis using ok assms(3)
    by (auto simp: add_worker_def Let_def simp del: setdefault_map_of split: option.splits intro: auditors_ok_update)
qed

lemma update_auditors:
  assumes "auditors_ok c qb" "0 \<le> dq" "\<forall>w \<in> set ws. allowed c (wi_hotkey_ss58 w)"
  shows "auditors_ok c (update_workers dq ids ws qb)"
proof -
  have 1: "auditors_ok c qb \<Longrightarrow> auditors_ok c (fold (\<lambda>i d. setdefault (mi_hotkey_ss58 i) (MinerAccount_new dq i) d) ids qb)" for qb
    using assms(2) by (induction ids arbitrary: qb) (auto simp: auditors_ok_setdefault)
  have 2: "auditors_ok c qb \<Longrightarrow> auditors_ok c (fold (add_worker dq) ws qb)" for qb
    using assms(2,3) by (induction ws arbitrary: qb) (auto simp: auditors_ok_add_worker)
  show ?thesis using 1 2 assms(1) by (simp add: update_workers_def)
qed

lemma pick_auditor:
  assumes "auditors_ok c qb" "pick_worker 1 None None qb = Inr (w, qb')"
  shows "auditors_ok c qb' \<and> allowed c (wi_hotkey_ss58 w)"
proof -
  have b: "book_ok qb" using assms(1) by (simp add: auditors_ok_def)
  from pick_worker_spec [OF assms(2) b] obtain a where a: "map_of qb (wi_hotkey_ss58 w) = Some a" "(wi_worker_id w, w) \<in> set (ma_workers a)"
    "qb' = AList.update (wi_hotkey_ss58 w) (a\<lparr>ma_inflight_cu := ma_inflight_cu a + 1\<rparr>) qb" by metis
  have "ma_workers a \<noteq> []" using a(2) by auto
  with auditors_ok_lookup [OF assms(1) a(1)] have al: "allowed c (wi_hotkey_ss58 w)" by simp
  have "book_ok qb'" using pick_worker_charges [OF assms(2) b] by simp
  then show ?thesis using al assms(1) a(3) set_update_subset [of "wi_hotkey_ss58 w" "a\<lparr>ma_inflight_cu := ma_inflight_cu a + 1\<rparr>" qb]
    by (fastforce simp: auditors_ok_def)
qed

lemma discover_auditors_state:
  assumes "discover_auditors E c s = (r, s')" "auditors_ok c (em_quota s)" "0 \<le> ee_base_quota E"
  shows "auditors_ok c (em_quota s') \<and> s' = s\<lparr>em_quota := em_quota s'\<rparr>"
proof (cases "discover_workers (ee_platform E) (em_now s) (discovery_backend_of c (discovery_role c)) (em_bucket s)")
  case (Inr records)
  let ?rs = "if aj_audit_eligible_hotkeys c \<noteq> [] then filter (\<lambda>r. wi_hotkey_ss58 (dr_worker r) \<in> set (aj_audit_eligible_hotkeys c)) records else records"
  have "\<forall>w \<in> set (map dr_worker ?rs). allowed c (wi_hotkey_ss58 w)" by (auto simp: allowed_def)
  from update_auditors [OF assms(2,3) this, of "map dr_miner ?rs"] show ?thesis using assms(1) Inr
    by (auto simp: discover_auditors_def learn_workers_def quotaS_def bindS_def liftS_def modifyS_def split: if_splits)
qed (use assms in \<open>auto simp: discover_auditors_def bindS_def liftS_def\<close>)

subsection \<open>Emitting a job\<close>

lemma frame_audit_grant:
  assumes "mf_run_id m = ec_run_id c" "CHR 0x0A \<notin> set (ec_run_id c)" "bucket_name (lb_bucket (em_bucket s))"
  shows "frame (below (audit_root (ec_netuid c) (ec_run_id c) @ ''/assignments/'')) (emit_audit_grant E c m) s"
proof -
  let ?key = "audit_assignment_key (ec_netuid c) (mf_run_id m) (mf_job_id m) (mf_assigned_hotkey m)"
    and ?K = "below (audit_root (ec_netuid c) (ec_run_id c) @ ''/assignments/'')"
  have "frame ?K (store_grant E c ?key (mf_assigned_hotkey m) g) s" for g
    using assms by (intro frame_store_grant)
      (auto simp: audit_assignment_key_def uri_of_def intro!: below_audit_root [of "em_bucket s" _ _ "''/assignments/''"])
  then have "frame ?K (bindS (liftS r) (store_grant E c ?key (mf_assigned_hotkey m))) s" for r by (rule frame_lift_bind)
  then show ?thesis by (cases "em_broker s") (simp_all add: frame_def emit_audit_grant_def)
qed

lemma below_audit_jobs:
  assumes "parse_uri (uri_for_key st (audit_job_manifest_key n r j)) = Inr (b, k)" "CHR 0x0A \<notin> set r" "bucket_name (lb_bucket st)"
  shows "k \<in> below (audit_jobs_prefix n r)"
  using below_audit_root [of st n r "''/jobs/''" "j @ ''/manifest.json''" b k] assms
  by (simp add: audit_job_manifest_key_def audit_jobs_prefix_def)

lemma frame_audit_manifest:
  assumes "CHR 0x0A \<notin> set (ec_run_id c)" "bucket_name (lb_bucket (em_bucket s))"
  shows "frame (audit_keys c) (put_jsonS P (uri_of s (audit_job_manifest_key (ec_netuid c) (ec_run_id c) j)) d) s"
  using assms by (intro frame_put_json) (auto simp: uri_of_def audit_keys_def dest: below_audit_jobs)

lemma wrote_bucket: "wrote K st st' \<Longrightarrow> lb_bucket st' = lb_bucket st"
  by (simp add: wrote_def)

lemma uri_of_cong: "lb_bucket (em_bucket s') = lb_bucket (em_bucket s) \<Longrightarrow> uri_of s' key = uri_of s key"
  by (simp add: uri_of_def uri_for_key_def)

lemma audit_manifest_wf:
  assumes "JobReceiptV3_wf r" "JobManifestV3_wf t"
  shows "JobManifestV3_wf (audit_manifest E c now st u r t j w)"
  using wf_JobReceiptV3 [OF assms(1)] wf_JobManifestV3 [OF assms(2), of "ee_platform E"]
  by (simp add: JobManifestV3_wf_def audit_manifest_def JobManifestV3_sign_def default_requirements_def wf_dict_def)

text \<open>The parts of an emission: which worker is charged, what is stored, what is queued.\<close>

definition audit_emission ::
  "emit_env \<Rightarrow> AuditJobConfig \<Rightarrow> string \<Rightarrow> JobReceiptV3 \<Rightarrow> JobManifestV3 \<Rightarrow> string \<Rightarrow> emitter \<Rightarrow> JobManifestV3 res \<Rightarrow> emitter \<Rightarrow> bool" where
  "audit_emission E c u r t j s res s' \<longleftrightarrow>
     (let uri = uri_of s' (audit_job_manifest_key (ec_netuid c) (ec_run_id c) j)
      in wrote (audit_keys c) (em_bucket s) (em_bucket s') \<and> auditors_ok c (em_quota s') \<and>
         (\<forall>m. res = Inr m \<longrightarrow> (\<exists>w gu st. allowed c (wi_hotkey_ss58 w) \<and>
            m = audit_manifest E c (unix_of (em_now s)) (em_bucket s) u r t j w \<and>
            em_queue s' = add (QueueEntry_from_manifest m uri gu) (em_queue s) \<and>
            store_dict (ee_platform E) (ns_of (em_now s)) uri (JobManifestV3_to_dict (ee_platform E) m) (em_bucket s) = Inr st \<and>
            wrote (below (audit_root (ec_netuid c) (ec_run_id c) @ ''/assignments/'')) st (em_bucket s'))))"

lemma emit_audit_job_emission:
  assumes "emit_audit_job E c u r t j s = (res, s')" "CHR 0x0A \<notin> set (ec_run_id c)" "bucket_name (lb_bucket (em_bucket s))"
    "auditors_ok c (em_quota s)"
  shows "audit_emission E c u r t j s res s'"
proof (cases "pick_worker 1 None None (em_quota s)")
  case (Inl e)
  with assms show ?thesis by (auto simp: audit_emission_def emit_audit_job_def pickS_def bindS_def)
next
  case (Inr x)
  then obtain w qb where p: "pick_worker 1 None None (em_quota s) = Inr (w, qb)" by (cases x) auto
  let ?key = "audit_job_manifest_key (ec_netuid c) (ec_run_id c) j"
  note al = pick_auditor [OF assms(4) p]
  define s0 where "s0 = s\<lparr>em_quota := qb\<rparr>"
  define mm where "mm = audit_manifest E c (unix_of (em_now s)) (em_bucket s) u r t j w"
  have run: "mf_run_id mm = ec_run_id c" by (simp add: mm_def audit_manifest_def JobManifestV3_sign_def)
  have e: "publish_manifest E (emit_audit_grant E c) (uri_of s ?key) mm s0 = (res, s')"
    using assms(1) p by (simp add: emit_audit_job_def pickS_def bindS_def s0_def mm_def uri_of_def)
  show ?thesis
  proof (cases "store_dict (ee_platform E) (ns_of (em_now s)) (uri_of s ?key) (JobManifestV3_to_dict (ee_platform E) mm) (em_bucket s)")
    case (Inl e')
    with e al show ?thesis by (auto simp: audit_emission_def publish_manifest_def bindS_def put_jsonS_def s0_def)
  next
    case st: (Inr st)
    let ?s1 = "s0\<lparr>em_bucket := st\<rparr>"
    have w1: "wrote (audit_keys c) (em_bucket s) st"
      using frameD(1) [OF frame_audit_manifest [OF assms(2,3)], of "ee_platform E" j "JobManifestV3_to_dict (ee_platform E) mm"] st
      by (simp add: put_jsonS_def)
    have b1: "bucket_name (lb_bucket (em_bucket ?s1))" using assms(3) wrote_bucket [OF w1] by simp
    obtain g s2 where g: "emit_audit_grant E c mm ?s1 = (g, s2)" by fastforce
    note f = frameD [OF frame_audit_grant [OF run assms(2) b1] g]
    have w2: "wrote (audit_keys c) (em_bucket s) (em_bucket s2)"
      using wrote_trans [OF w1] wrote_mono [OF f(1), of "audit_keys c"] by (auto simp: audit_keys_def)
    have s': "em_bucket s' = em_bucket s2" "em_quota s' = em_quota s2" and
      q: "\<And>m. res = Inr m \<Longrightarrow> m = mm \<and> (\<exists>gu. em_queue s' = add (QueueEntry_from_manifest m (uri_of s ?key) gu) (em_queue s2))"
      using e st g by (auto simp: publish_manifest_def bindS_def put_jsonS_def s0_def queueS_def modifyS_def liftS_def split: sum.splits)
    have "uri_of s' ?key = uri_of s ?key" by (rule uri_of_cong) (simp add: s' wrote_bucket [OF w2])
    then show ?thesis using w2 f al q st s' by (auto simp: audit_emission_def Let_def mm_def s0_def)
  qed
qed

subsection \<open>An audit job reaches its auditor\<close>

lemma audit_params_decode:
  assumes "mf_params m = norm_dict [(''receipt_uri'', JStr u), (''receipt'', JObj (JobReceiptV3_to_dict r)), (''target_manifest'', JObj (JobManifestV3_to_dict P t))]"
  shows "bindE (bindE (get_req (mf_params m) ''target_manifest'') as_mapping) (JobManifestV3_from_dict P) = Inr (JobManifestV3_raw norm_dict t)"
    "bindE (bindE (get_req (mf_params m) ''receipt'') as_mapping) (JobReceiptV3_from_dict P) = Inr (JobReceiptV3_raw norm_dict r)"
    "bindE (get_req (mf_params m) ''receipt_uri'') as_str = Inr u"
  by (simp_all add: assms get_req_def dict_simps canon.JobManifestV3_decode canon.JobReceiptV3_decode norm_JObj_dict)

lemma run_audit_replay_decoded:
  assumes "mf_params m = norm_dict [(''receipt_uri'', JStr u), (''receipt'', JObj (JobReceiptV3_to_dict r)), (''target_manifest'', JObj (JobManifestV3_to_dict P t))]"
    "re_platform R = P"
    and "os = ''skip'' \<or> (\<exists>sig. mf_owner_signature t = Some sig \<and> sig \<noteq> [] \<and>
      verify_identity_dict P (JobManifestV3_unsigned_dict t) (if oh \<noteq> [] then oh else os) sig True = Inr True)"
  shows "run_audit_replay R m hk sg os oh ms dev gs st =
    bindE (fst (AuditReplayRunner_run R
        \<lparr>ac_owner_secret = os, ac_owner_hotkey = oh, ac_miner_secret = ms, ac_device = dev, ac_max_sample_elements = 4096,
         ac_encryption_secret = ''teuton-dev-encryption'', ac_timelock_provider = None\<rparr>
        gs st u (JobManifestV3_raw norm_dict t) (JobReceiptV3_raw norm_dict r) hk []))
      (\<lambda>a. Inr (AuditResultV3_sign P (case sg of Some s \<Rightarrow> s | None \<Rightarrow> Secret hk) a))"
proof -
  have "verify_identity_dict P (JobManifestV3_unsigned_dict (JobManifestV3_raw norm_dict t)) i sig True =
      verify_identity_dict P (JobManifestV3_unsigned_dict t) i sig True" for i sig
    by (simp add: verify_identity_dict_def manifest_canonical_raw)
  moreover have "mf_owner_signature (JobManifestV3_raw norm_dict t) = mf_owner_signature t" by (simp add: JobManifestV3_raw_def)
  ultimately show ?thesis using assms(2,3) unfolding run_audit_replay_def assms(2) audit_params_decode [OF assms(1)] by auto
qed

text \<open>
  C17. An audit job brings its audit to an allowed auditor. When \<^verbatim>\<open>emit_audit_job\<close> returns, the queue holds an entry for the job
  that is assigned to a hotkey of the allow list (any hotkey when there is none); the manifest it points to can be loaded with the hash
  of the emitted one; and whoever replays that loaded manifest, with a key under which the target's owner signature verifies, runs
  exactly the replay of the audited receipt against the audited manifest, both as the validator read them up to key order.
\<close>

theorem audit_job_reaches_auditor:
  assumes "emit_audit_job E c u r t j s = (Inr m, s')" and "float_codec (ee_platform E)" and "JobReceiptV3_wf r" and "JobManifestV3_wf t"
    and "CHR 0x0A \<notin> set (ec_run_id c)" and "bucket_name (lb_bucket (em_bucket s))" and "auditors_ok c (em_quota s)"
    and "re_platform R = ee_platform E"
    and "os = ''skip'' \<or> (\<exists>sig. mf_owner_signature t = Some sig \<and> sig \<noteq> [] \<and>
      verify_identity_dict (ee_platform E) (JobManifestV3_unsigned_dict t) (if oh \<noteq> [] then oh else os) sig True = Inr True)"
  shows "\<exists>e m'. map_of (oq_outstanding (em_queue s')) j = Some e \<and> qe_assigned_hotkey e = mf_assigned_hotkey m \<and> allowed c (mf_assigned_hotkey m) \<and>
    load_manifest (ee_platform E) (qe_manifest_uri e) (em_bucket s') = Inr m' \<and> manifest_hash (ee_platform E) m' = manifest_hash (ee_platform E) m \<and>
    map ar_uri (mf_outputs m') = [uri_for_key (em_bucket s) (audit_result_key (ec_netuid c) (ec_run_id c) (mf_assigned_hotkey m) (rc_receipt_id r))] \<and>
    run_audit_replay R m' hk sg os oh ms dev gs st =
      bindE (fst (AuditReplayRunner_run R
          \<lparr>ac_owner_secret = os, ac_owner_hotkey = oh, ac_miner_secret = ms, ac_device = dev, ac_max_sample_elements = 4096,
           ac_encryption_secret = ''teuton-dev-encryption'', ac_timelock_provider = None\<rparr>
          gs st u (JobManifestV3_raw norm_dict t) (JobReceiptV3_raw norm_dict r) hk []))
        (\<lambda>a. Inr (AuditResultV3_sign (ee_platform E) (case sg of Some s \<Rightarrow> s | None \<Rightarrow> Secret hk) a))"
proof -
  let ?P = "ee_platform E" and ?uri = "uri_of s' (audit_job_manifest_key (ec_netuid c) (ec_run_id c) j)"
  from emit_audit_job_emission [OF assms(1,5,6,7)] obtain w gu st1 where
    al: "allowed c (wi_hotkey_ss58 w)" and m: "m = audit_manifest E c (unix_of (em_now s)) (em_bucket s) u r t j w"
    and q: "em_queue s' = add (QueueEntry_from_manifest m ?uri gu) (em_queue s)"
    and st1: "store_dict ?P (ns_of (em_now s)) ?uri (JobManifestV3_to_dict ?P m) (em_bucket s) = Inr st1"
    and w2: "wrote (below (audit_root (ec_netuid c) (ec_run_id c) @ ''/assignments/'')) st1 (em_bucket s')"
    and w1: "wrote (audit_keys c) (em_bucket s) (em_bucket s')"
    by (auto simp: audit_emission_def Let_def)
  have fields: "mf_job_id m = j" "mf_assigned_hotkey m = wi_hotkey_ss58 w"
    "mf_params m = [(''receipt_uri'', JStr u), (''receipt'', JObj (JobReceiptV3_to_dict r)), (''target_manifest'', JObj (JobManifestV3_to_dict ?P t))]"
    "map ar_uri (mf_outputs m) = [uri_for_key (em_bucket s) (audit_result_key (ec_netuid c) (ec_run_id c) (mf_assigned_hotkey m) (rc_receipt_id r))]"
    by (simp_all add: m audit_manifest_def JobManifestV3_sign_def)
  have wf: "JobManifestV3_wf m" unfolding m by (rule audit_manifest_wf [OF assms(3,4)])
  have b': "bucket_name (lb_bucket (em_bucket s'))" using assms(6) wrote_bucket [OF w1] by simp
  obtain b k where k: "parse_uri ?uri = Inr (b, k)"
    using st1 by (cases "parse_uri ?uri") (auto simp: put_json_def LocalBucket_put_def)
  have "k \<notin> below (audit_root (ec_netuid c) (ec_run_id c) @ ''/assignments/'')"
    using below_audit_jobs [of "em_bucket s'"] k assms(5) b' below_sections_disjoint [of k "audit_root (ec_netuid c) (ec_run_id c)" "''/jobs/''" "''/assignments/''"]
    by (auto simp: uri_of_def audit_jobs_prefix_def)
  then have l: "load_manifest ?P ?uri (em_bucket s') = Inr (JobManifestV3_raw norm_dict m)"
    using wrote_load [OF w2 k, of ?P "JobManifestV3_from_dict ?P"] load_stored_manifest [OF assms(2) wf st1] by (simp add: load_manifest_def)
  have "mf_params (JobManifestV3_raw norm_dict m) = norm_dict (mf_params m)" "mf_outputs (JobManifestV3_raw norm_dict m) = mf_outputs m"
    by (simp_all add: JobManifestV3_raw_def)
  with l q al fields run_audit_replay_decoded [of "JobManifestV3_raw norm_dict m" u r ?P t R os oh] assms(8,9) show ?thesis
    by (intro exI [of _ "QueueEntry_from_manifest m ?uri gu"] exI [of _ "JobManifestV3_raw norm_dict m"])
      (simp add: add_def mark_dirty_def QueueEntry_from_manifest_def manifest_hash_raw)
qed

subsection \<open>A pass leaves no sampled receipt behind\<close>

definition covered :: "emit_env \<Rightarrow> AuditJobConfig \<Rightarrow> JobReceiptV3 \<Rightarrow> LocalBucket \<Rightarrow> bool" where
  "covered E c r st \<longleftrightarrow>
     has_verdict (audit_validator c) r st = Inr True \<or>
     (\<exists>k a. starts_with k (audit_results_prefix (ec_netuid c) (ec_run_id c)) \<and>
        load_audit_result (ee_platform E) (join_uri (lb_bucket st) k) st = Inr a \<and> au_receipt_id a = rc_receipt_id r) \<or>
     LocalBucket_exists (audit_job_uri c r st) st = Inr True"

lemma covered_wrote:
  assumes "covered E c r st" "wrote (audit_keys c) st st'" "CHR 0x0A \<notin> set (ec_run_id c)" "bucket_name (lb_bucket st)"
  shows "covered E c r st'"
proof -
  have b: "lb_bucket st' = lb_bucket st" by (rule wrote_bucket [OF assms(2)])
  have uris: "receipt_verdict_uri v st' r = receipt_verdict_uri v st r" "audit_job_uri c r st' = audit_job_uri c r st" for v
    by (simp_all add: receipt_verdict_uri_def audit_job_uri_def uri_for_key_def b)
  have ld: "load_audit_result P (join_uri (lb_bucket st) k) st' = Inr a"
    if pre: "starts_with k (audit_results_prefix (ec_netuid c) (ec_run_id c))" and l: "load_audit_result P (join_uri (lb_bucket st) k) st = Inr a" for P k a
  proof -
    obtain x where k: "k = audit_results_prefix (ec_netuid c) (ec_run_id c) @ x" using pre by (auto simp: starts_with_iff)
    obtain b' k' where p: "parse_uri (join_uri (lb_bucket st) k) = Inr (b', k')"
      using l by (cases "parse_uri (join_uri (lb_bucket st) k)")
        (auto simp: load_audit_result_def load_record_def get_json_def LocalBucket_get_def obj_at_def)
    have "k' \<in> below (audit_results_prefix (ec_netuid c) (ec_run_id c))"
      using below_audit_root [of st "ec_netuid c" "ec_run_id c" "''/results/''" x b' k'] p assms(3,4)
      by (simp add: k audit_results_prefix_def uri_for_key_def)
    then show ?thesis
      using wrote_load [OF assms(2) p audit_results_apart, of P "AuditResultV3_from_dict P"] l by (simp add: load_audit_result_def)
  qed
  show ?thesis
    using assms(1) wrote_exists [OF assms(2)] ld unfolding covered_def has_verdict_def b uris by blast
qed

lemma first_audit_found:
  "first_audit P allow rid us st = Inr (Some a) \<Longrightarrow> \<exists>u \<in> set us. load_audit_result P u st = Inr a \<and> au_receipt_id a = rid"
  by (induction P allow rid us st rule: first_audit.induct) (auto split: if_splits sum.splits)

lemma needs_no_audit_covered:
  assumes "needs_no_audit E c r st = Inr True" "rc_run_id r = ec_run_id c" "CHR 0x0A \<notin> set (ec_run_id c)" "bucket_name (lb_bucket st)"
  shows "covered E c r st"
proof -
  let ?p = "audit_results_prefix (ec_netuid c) (ec_run_id c)"
  have "find_audit_result (ee_platform E) (audit_validator c) r st = Inr (Some a) \<Longrightarrow> covered E c r st" for a
  proof -
    assume "find_audit_result (ee_platform E) (audit_validator c) r st = Inr (Some a)"
    then obtain u where u: "u \<in> set (LocalBucket_list (uri_for_key st ?p) st)" "load_audit_result (ee_platform E) u st = Inr a" "au_receipt_id a = rc_receipt_id r"
      using first_audit_found assms(2) by (fastforce simp: find_audit_result_def audit_validator_def)
    have "object_key ?p" using newline_free_audit_root [OF assms(3)] by (simp add: object_key_def audit_results_prefix_def)
    then have "prefix_target (uri_for_key st ?p) st = (lb_bucket st, ?p)" using assms(4) by (simp add: prefix_target_def uri_for_key_def)
    from list_dir [OF _ _ this] u(1) obtain k where "u = join_uri (lb_bucket st) k" "starts_with k ?p"
      by (auto simp: audit_results_prefix_def ends_with_def)
    with u show ?thesis by (auto simp: covered_def)
  qed
  then show ?thesis using assms(1) by (auto simp: needs_no_audit_def covered_def bindE_eq_Inr split: if_splits)
qed

lemma emitted_covered:
  assumes "audit_emission E c u r t (audit_job_id r) s (Inr m) s'"
    "CHR 0x0A \<notin> set (ec_run_id c)" "bucket_name (lb_bucket (em_bucket s))"
  shows "covered E c r (em_bucket s')"
proof -
  from assms(1) obtain st where
    "store_dict (ee_platform E) (ns_of (em_now s)) (audit_job_uri c r (em_bucket s')) (JobManifestV3_to_dict (ee_platform E) m) (em_bucket s) = Inr st"
    and w: "wrote (below (audit_root (ec_netuid c) (ec_run_id c) @ ''/assignments/'')) st (em_bucket s')"
    by (auto simp: audit_emission_def Let_def audit_job_uri_def uri_of_def)
  then have "LocalBucket_exists (audit_job_uri c r (em_bucket s')) st = Inr True" by (auto simp: put_json_def intro: put_exists)
  from wrote_exists [OF w this] show ?thesis by (simp add: covered_def)
qed

definition queue_of :: "AuditJobConfig \<Rightarrow> OrchestratorQueue \<Rightarrow> bool" where
  "queue_of c q \<longleftrightarrow> oq_netuid q = ec_netuid c \<and> oq_run_id q = ec_run_id c \<and> oq_role q = ''audit''"

lemma queue_of_add [simp]: "queue_of c (add e q) = queue_of c q"
  by (simp add: queue_of_def add_def mark_dirty_def)

lemma audit_loop_covers:
  assumes "audit_loop E c mx n items s = (res, k, s')" "CHR 0x0A \<notin> set (ec_run_id c)" "bucket_name (lb_bucket (em_bucket s))" "auditors_ok c (em_quota s)"
  shows "wrote (audit_keys c) (em_bucket s) (em_bucket s') \<and> auditors_ok c (em_quota s') \<and>
    (res = Inr () \<longrightarrow> queue_of c (em_queue s') = queue_of c (em_queue s)) \<and>
    (mx = None \<and> res = Inr () \<longrightarrow> (\<forall>(u, r) \<in> set items. rc_run_id r = ec_run_id c \<longrightarrow> covered E c r (em_bucket s')))"
  using assms(1,3,4)
proof (induction items arbitrary: n s)
  case (Cons x rest)
  obtain u r where x: "x = (u, r)" by (cases x)
  from Cons.prems(1) consider
      (stop) "s' = s" "mx \<noteq> None \<or> res \<noteq> Inr ()"
    | (skip) "needs_no_audit E c r (em_bucket s) = Inr True" "audit_loop E c mx n rest s = (res, k, s')"
    | (fail) t e where "emit_audit_job E c u r t (audit_job_id r) s = (Inl e, s')" "res = Inl e"
    | (emit) t m s1 where "emit_audit_job E c u r t (audit_job_id r) s = (Inr m, s1)" "audit_loop E c mx (Suc n) rest s1 = (res, k, s')"
    by (auto simp: x split: if_splits sum.splits bool.splits prod.splits)
  then show ?case
  proof cases
    case skip
    note IH = Cons.IH [OF skip(2) Cons.prems(2,3)]
    have "rc_run_id r = ec_run_id c \<Longrightarrow> covered E c r (em_bucket s')"
      using needs_no_audit_covered [OF skip(1)] covered_wrote [of E c r "em_bucket s"] IH assms(2) Cons.prems(2) by blast
    with IH show ?thesis by (auto simp: x)
  next
    case emit
    note em = emit_audit_job_emission [OF emit(1) assms(2) Cons.prems(2,3)]
    then have w: "wrote (audit_keys c) (em_bucket s) (em_bucket s1)" and q: "auditors_ok c (em_quota s1)"
      and qu: "queue_of c (em_queue s1) = queue_of c (em_queue s)" by (auto simp: audit_emission_def Let_def)
    have b: "bucket_name (lb_bucket (em_bucket s1))" using Cons.prems(2) wrote_bucket [OF w] by simp
    note IH = Cons.IH [OF emit(2) b q]
    have "covered E c r (em_bucket s')"
      using emitted_covered [OF em assms(2) Cons.prems(2)] covered_wrote [of E c r "em_bucket s1"] IH assms(2) b by blast
    with IH qu wrote_trans [OF w] show ?thesis by (auto simp: x)
  next
    case fail
    with emit_audit_job_emission [OF fail(1) assms(2) Cons.prems(2,3)] show ?thesis by (auto simp: audit_emission_def Let_def)
  qed (use Cons.prems in auto)
qed auto

lemma flush_audits_wrote:
  assumes "flush_audits E s = (res, s')" "queue_of c (em_queue s)" "CHR 0x0A \<notin> set (ec_run_id c)" "bucket_name (lb_bucket (em_bucket s))"
  shows "wrote (audit_keys c) (em_bucket s) (em_bucket s') \<and> em_quota s' = em_quota s"
proof -
  let ?st = "em_bucket s" and ?u = "uri_for_key (em_bucket s) (audit_jobs_prefix (ec_netuid c) (ec_run_id c) @ ''queue.json'')"
  have put: "wrote (audit_keys c) ?st st'" if "flush_put P w ?u snap ?st = Inr (e, st')" for P w snap e st'
  proof -
    from that obtain d where "LocalBucket_put w ?u d ?st = Inr st'" by (cases snap) (auto simp: flush_put_def dest: lb.cas_put)
    then show ?thesis
      using below_audit_root [of ?st "ec_netuid c" "ec_run_id c" "''/jobs/''" "''queue.json''"] assms(3,4)
      by (intro wrote_put) (auto simp: audit_keys_def audit_jobs_prefix_def)
  qed
  have uri: "queue_uri ?st (oq_netuid (em_queue s)) (oq_run_id (em_queue s)) (oq_role (em_queue s)) = Inr ?u"
    using assms(2) by (simp add: queue_of_def queue_uri_def queue_key_def)
  show ?thesis
    using assms(1) put unfolding flush_audits_def flush_def flush_begin_def flush_retry_def Let_def uri
    by (auto split: prod.splits sum.splits pyerr.splits)
qed

text \<open>
  C18. A pass of the audit job manager leaves no sampled receipt behind: when \<^verbatim>\<open>run_once\<close> without a job limit returns, every
  sampled receipt of the run has a verdict of this validator, or a stored audit result, or an audit job in the bucket. The pass writes
  nothing but audit jobs, their grants and the audit queue, and only allowed hotkeys have become auditors.
\<close>

theorem audit_pass_covers_sample:
  assumes "AuditJobManager_run_once E shuf c None s = (Inr n, s')" and "queue_of c (em_queue s)" and "auditors_ok c (em_quota s)"
    and "0 \<le> ee_base_quota E" and "CHR 0x0A \<notin> set (ec_run_id c)" and "bucket_name (lb_bucket (em_bucket s))"
  shows "\<exists>items. sample_receipts (ee_platform E) shuf (audit_validator c) (em_bucket s) = Inr items \<and>
    (\<forall>(u, r) \<in> set items. rc_run_id r = ec_run_id c \<longrightarrow> covered E c r (em_bucket s')) \<and>
    wrote (audit_keys c) (em_bucket s) (em_bucket s') \<and> auditors_ok c (em_quota s')"
proof -
  obtain ws s1 where d: "discover_auditors E c s = (Inr ws, s1)"
    using assms(1) by (cases "discover_auditors E c s", cases "fst (discover_auditors E c s)") (auto simp: AuditJobManager_run_once_def bindS_def)
  have q1: "auditors_ok c (em_quota s1)" and s1: "s1 = s\<lparr>em_quota := em_quota s1\<rparr>" using discover_auditors_state [OF d assms(3,4)] by auto
  have e1: "em_bucket s1 = em_bucket s" "em_queue s1 = em_queue s" by (subst s1, simp)+
  obtain items where it: "sample_receipts (ee_platform E) shuf (audit_validator c) (em_bucket s) = Inr items"
    using assms(1) d e1 by (cases "sample_receipts (ee_platform E) shuf (audit_validator c) (em_bucket s)") (auto simp: AuditJobManager_run_once_def bindS_def)
  obtain res k s2 where lp: "audit_loop E c None 0 items s1 = (res, k, s2)" by (metis prod_cases3)
  have res: "res = Inr ()" and fl: "k > 0 \<Longrightarrow> \<exists>x. flush_audits E s2 = (x, s')" "\<not> k > 0 \<Longrightarrow> s' = s2"
    using assms(1) d e1 it lp by (auto simp: AuditJobManager_run_once_def bindS_def liftS_def bindE_eq_Inr split: prod.splits sum.splits if_splits)
  note L = audit_loop_covers [OF lp assms(5) _ q1, unfolded e1, OF assms(6)]
  have b2: "bucket_name (lb_bucket (em_bucket s2))" using L assms(6) by (simp add: wrote_def)
  have W: "wrote (audit_keys c) (em_bucket s2) (em_bucket s') \<and> em_quota s' = em_quota s2"
    using fl flush_audits_wrote [OF _ _ assms(5) b2] L res assms(2) by (cases "k > 0") auto
  have "\<forall>(u, r) \<in> set items. rc_run_id r = ec_run_id c \<longrightarrow> covered E c r (em_bucket s')"
    using L res W covered_wrote [of E c _ "em_bucket s2" "em_bucket s'"] assms(5) b2 by fast
  with it L W show ?thesis using wrote_trans [of "audit_keys c" "em_bucket s" "em_bucket s2"] by auto
qed

subsection \<open>Witnesses\<close>

definition audit_env :: emit_env where
  "audit_env = \<lparr>ee_platform = reference_platform, ee_nacl = None, ee_btcli = (\<lambda>_. Inl (FileNotFoundError ''btcli'')), ee_ss58 = None,
     ee_presign = None, ee_base_quota = 8\<rparr>"

definition audit_job_config :: AuditJobConfig where
  "audit_job_config =
     \<lparr>ec_netuid = 1, ec_run_id = ''run'', ec_owner_secret = ''owner'', ec_owner_signer = None, ec_grant_mode = ''direct'', ec_grant_ttl_sec = 600,
      ec_assignment_secret = ''a'', ec_assignment_crypto = ''dev'', ec_network = ''finney'', ec_discovery_backend = ''bucket'',
      ec_discovery_heartbeat_ttl_sec = Some 30, aj_validator_hotkey = ''V'', aj_sample_rate = 1, aj_audit_eligible_hotkeys = [''A'', ''B'']\<rparr>"

definition audit_manager :: "LocalBucket \<Rightarrow> emitter" where
  "audit_manager st =
     \<lparr>em_bucket = st, em_quota = sample_book, em_queue = OrchestratorQueue_init 1 ''run'' ''audit'' 32, em_resolver = None, em_broker = None,
      em_now = 100, em_pauses = []\<rparr>"

lemma audit_manager_ok: "auditors_ok audit_job_config (em_quota (audit_manager st))" "queue_of audit_job_config (em_queue (audit_manager st))"
  using sample_book_ok by (auto simp: audit_manager_def auditors_ok_def allowed_def audit_job_config_def sample_book_eval queue_of_def OrchestratorQueue_init_def)

lemma audit_pick: "\<exists>w qb. pick_worker 1 None None sample_book = Inr (w, qb)"
  by (simp add: pick_worker_def sample_book_eval account_eligible_def available_quota_def max_inflight_cu_def
      MinerAccount_new_def sample_satisfies account_priority_def candidate_key_def sort_key_def insort_key_def)

lemma audit_emits:
  "\<exists>m s'. emit_audit_job audit_env audit_job_config ''u'' sample_receipt sample_manifest ''audit-1'' (audit_manager (LocalBucket_init ''b'')) = (Inr m, s')"
proof -
  obtain w qb where p: "pick_worker 1 None None sample_book = Inr (w, qb)" using audit_pick by blast
  have "parse_uri (uri_for_key (LocalBucket_init ''b'') (audit_job_manifest_key 1 ''run'' ''audit-1'')) =
      Inr (''b'', ''v3/netuid=1/audits/run/jobs/audit-1/manifest.json'')" by code_simp
  from lb.put_json_total [OF this] have "\<forall>d. \<exists>st. store_dict reference_platform (ns_of 100)
      (uri_for_key (LocalBucket_init ''b'') (audit_job_manifest_key 1 ''run'' ''audit-1'')) d (LocalBucket_init ''b'') = Inr st" by blast
  from choice [OF this] obtain f where f: "\<And>d. store_dict reference_platform (ns_of 100)
      (uri_for_key (LocalBucket_init ''b'') (audit_job_manifest_key 1 ''run'' ''audit-1'')) d (LocalBucket_init ''b'') = Inr (f d)" by blast
  show ?thesis
    by (simp add: emit_audit_job_def publish_manifest_def pickS_def bindS_def put_jsonS_def uri_of_def audit_manager_def p
        audit_env_def audit_job_config_def f emit_audit_grant_def queueS_def modifyS_def liftS_def)
qed

theorem audit_job_reaches_auditor_witness:
  "\<exists>m s' e m'. emit_audit_job audit_env audit_job_config ''u'' sample_receipt sample_manifest ''audit-1'' (audit_manager (LocalBucket_init ''b'')) = (Inr m, s') \<and>
     map_of (oq_outstanding (em_queue s')) ''audit-1'' = Some e \<and> allowed audit_job_config (mf_assigned_hotkey m) \<and>
     load_manifest reference_platform (qe_manifest_uri e) (em_bucket s') = Inr m' \<and>
     run_audit_replay sample_env m' ''A'' None ''skip'' [] ''m'' ''cpu'' [] audited_bucket =
       bindE (fst (AuditReplayRunner_run sample_env (sample_cfg\<lparr>ac_encryption_secret := ''teuton-dev-encryption'', ac_max_sample_elements := 4096\<rparr>) []
         audited_bucket ''u'' (JobManifestV3_raw norm_dict sample_manifest) (JobReceiptV3_raw norm_dict sample_receipt) ''A'' []))
       (\<lambda>a. Inr (AuditResultV3_sign reference_platform (Secret ''A'') a))"
proof -
  obtain m s' where e: "emit_audit_job audit_env audit_job_config ''u'' sample_receipt sample_manifest ''audit-1'' (audit_manager (LocalBucket_init ''b'')) = (Inr m, s')"
    using audit_emits by blast
  have P: "ee_platform audit_env = reference_platform" by (simp add: audit_env_def)
  from audit_job_reaches_auditor [OF e, of sample_env "''skip''" "[]" "''A''" None "''m''" "''cpu''" "[]" audited_bucket] audit_manager_ok
  show ?thesis using e
    by (auto simp: P reference_float_codec audit_job_config_def [THEN arg_cong [where f = ec_run_id]] audit_manager_def LocalBucket_init_def bucket_name_def
        sample_env_def [THEN arg_cong [where f = re_platform]] sample_cfg_def)
qed

definition verdict_bucket :: LocalBucket where
  "verdict_bucket = sample_bucket\<lparr>lb_objects := ((''b'', ''v3/netuid=1/verdicts/run/validator=V/run-s0-fwd_hk_0.json''), ([], 7)) # lb_objects sample_bucket\<rparr>"

lemma verdict_bucket_sample:
  "sample_receipts reference_platform id (audit_validator audit_job_config) verdict_bucket = Inr [(join_uri ''b'' sample_receipt_key, JobReceiptV3_raw norm_dict sample_receipt)]"
proof -
  have u: "uri_for_key verdict_bucket (receipts_prefix 1 ''run'') = ''s3://b/v3/netuid=1/receipts/run/''"
    by (simp add: uri_for_key_def verdict_bucket_def sample_bucket_def sample_prefixes join_uri_def)
  have l: "LocalBucket_list ''s3://b/v3/netuid=1/receipts/run/'' verdict_bucket = [join_uri ''b'' sample_receipt_key]"
    by (simp add: LocalBucket_list_def prefix_target_def parse_uri_def Let_def verdict_bucket_def sample_bucket_def is_dir_def dir_key_def
      sample_receipt_key_def ends_with_def starts_with_def)
  have "load_receipt reference_platform (join_uri ''b'' sample_receipt_key) verdict_bucket = load_receipt reference_platform (join_uri ''b'' sample_receipt_key) sample_bucket"
    by (simp add: load_receipt_def load_record_def get_json_def LocalBucket_get_def obj_at_def sample_parse verdict_bucket_def) (simp add: sample_receipt_key_def)
  moreover have "ends_with (join_uri ''b'' sample_receipt_key) ''.json''" by code_simp
  ultimately show ?thesis by (simp add: sample_receipts_def audit_validator_def audit_job_config_def u l sample_loads in_sample_def)
qed

theorem audit_pass_covers_sample_witness:
  "\<exists>n s'. AuditJobManager_run_once audit_env id audit_job_config None (audit_manager verdict_bucket) = (Inr n, s') \<and>
     covered audit_env audit_job_config (JobReceiptV3_raw norm_dict sample_receipt) (em_bucket s')"
proof -
  have "role_prefix 1 ''train'' = ''v3/netuid=1/miners/''" by code_simp
  then have "LocalBucket_list (uri_for_key verdict_bucket (role_prefix 1 ''train'')) verdict_bucket = []"
    by (simp add: LocalBucket_list_def prefix_target_def parse_uri_def Let_def verdict_bucket_def sample_bucket_def is_dir_def dir_key_def
        sample_receipt_key_def ends_with_def starts_with_def uri_for_key_def join_uri_def)
  then have d: "\<exists>qb. discover_auditors audit_env audit_job_config (audit_manager verdict_bucket) = (Inr [], (audit_manager verdict_bucket)\<lparr>em_quota := qb\<rparr>)"
    by (simp add: discover_auditors_def discover_workers_def scan_bucket_discovery_records_def discovery_backend_of_def discovery_role_def audit_job_config_def
        audit_manager_def bindS_def liftS_def learn_workers_def quotaS_def modifyS_def)
  have v: "needs_no_audit audit_env audit_job_config (JobReceiptV3_raw norm_dict sample_receipt) verdict_bucket = Inr True"
  proof -
    have "receipt_verdict_uri (audit_validator audit_job_config) verdict_bucket (JobReceiptV3_raw norm_dict sample_receipt) =
        ''s3://b/v3/netuid=1/verdicts/run/validator=V/run-s0-fwd_hk_0.json''"
    proof -
      have "verdict_key 1 ''run'' ''V'' ''run-s0-fwd:hk:0'' = ''v3/netuid=1/verdicts/run/validator=V/run-s0-fwd_hk_0.json''" by code_simp
      then show ?thesis
        by (simp add: receipt_verdict_uri_def sample_raw audit_validator_def audit_job_config_def uri_for_key_def verdict_bucket_def sample_bucket_def join_uri_def)
    qed
    moreover have "parse_uri ''s3://b/v3/netuid=1/verdicts/run/validator=V/run-s0-fwd_hk_0.json'' = Inr (''b'', ''v3/netuid=1/verdicts/run/validator=V/run-s0-fwd_hk_0.json'')"
      by code_simp
    ultimately show ?thesis by (simp add: needs_no_audit_def has_verdict_def LocalBucket_exists_def verdict_bucket_def)
  qed
  have b: "em_bucket (audit_manager verdict_bucket) = verdict_bucket" by (simp add: audit_manager_def)
  have P: "ee_platform audit_env = reference_platform" by (simp add: audit_env_def)
  obtain s' where r: "AuditJobManager_run_once audit_env id audit_job_config None (audit_manager verdict_bucket) = (Inr 0, s')"
    using d v verdict_bucket_sample by (auto simp: AuditJobManager_run_once_def bindS_def liftS_def b P)
  from audit_pass_covers_sample [OF r audit_manager_ok(2,1)] verdict_bucket_sample
  have "covered audit_env audit_job_config (JobReceiptV3_raw norm_dict sample_receipt) (em_bucket s')"
    by (auto simp: P b sample_raw audit_env_def [THEN arg_cong [where f = ee_base_quota]] audit_job_config_def [THEN arg_cong [where f = ec_run_id]]
        verdict_bucket_def [THEN arg_cong [where f = lb_bucket]] sample_bucket_def [THEN arg_cong [where f = lb_bucket]] bucket_name_def)
  with r show ?thesis by blast
qed

end
