(* ===== verification/Validator_Neuron.thy ===== *)
theory Validator_Neuron
  imports Verifier_Properties Scoring_Properties Subnet Lifecycle Emission_Logic
begin

text \<open>
  The validator neuron (\<^verbatim>\<open>teuton_validator/neuron.py\<close>): one pass verifies receipts, scores them, reports the scores,
  publishes the weights and reports the chain's answer. The bittensor chain, the wallet files and the measured times are
  arguments.
\<close>

subsection \<open>State\<close>

record ValidatorNeuronConfig =
  vn_netuid :: int
  vn_run_id :: string
  vn_validator_hotkey :: string
  vn_validator_secret :: string
  vn_owner_secret :: string
  vn_miner_secret :: string
  vn_device :: string
  vn_sample_rate :: pyfloat
  vn_encryption_secret :: string
  vn_timelock_provider :: "timelock_provider option"
  vn_dry_run_weights :: bool
  vn_wallet_path :: string
  vn_wallet_name :: "string option"
  vn_hotkey_name :: "string option"
  vn_network :: "string option"
  vn_audit_mode :: string
  vn_audit_eligible_hotkeys :: "string list"

record ValidatorNeuron =
  vu_config :: ValidatorNeuronConfig
  vu_verifier :: ValidatorConfig
  vu_telemetry :: TelemetryWriter

text \<open>What the constructor asks of its host: key files by path, PyNaCl's signing, \<^verbatim>\<open>bt.Wallet\<close> and \<^verbatim>\<open>bt.Subtensor\<close>.\<close>

record neuron_host =
  nh_keyfile :: "string \<Rightarrow> dict res"
  nh_sign :: "bytes \<Rightarrow> bytes \<Rightarrow> string"
  nh_bt_wallet :: "string \<Rightarrow> string \<Rightarrow> string \<Rightarrow> signer res"
  nh_subtensor :: "string option \<Rightarrow> unit res"

definition load_wallet_hotkey_signer :: "neuron_host \<Rightarrow> platform \<Rightarrow> string \<Rightarrow> string \<Rightarrow> string \<Rightarrow> signer res" where
  "load_wallet_hotkey_signer H P wallet_path wallet_name hotkey_name =
     (case bindE (nh_keyfile H (wallet_path @ ''/'' @ wallet_name @ ''/hotkeys/'' @ hotkey_name)) (NativeEd25519HotkeySigner_from_keyfile P) of
        Inr (seed, ident) \<Rightarrow> Inr (SignerObj ident (nh_sign H seed))
      | Inl (ValueError _) \<Rightarrow> nh_bt_wallet H wallet_name hotkey_name wallet_path
      | Inl e \<Rightarrow> Inl e)"

definition validator_signer :: "neuron_host \<Rightarrow> platform \<Rightarrow> ValidatorNeuronConfig \<Rightarrow> signer option res" where
  "validator_signer H P c =
     (if vn_wallet_name c \<notin> {None, Some []} \<and> vn_hotkey_name c \<notin> {None, Some []}
      then bindE (load_wallet_hotkey_signer H P (vn_wallet_path c) (the (vn_wallet_name c)) (the (vn_hotkey_name c))) (\<lambda>s.
             if vn_validator_hotkey c \<noteq> [] \<and> identity s \<noteq> vn_validator_hotkey c
             then Inl (ValueError ''validator hotkey file does not match configured validator_hotkey'')
             else Inr (Some s))
      else Inr None)"

definition verifier_config :: "ValidatorNeuronConfig \<Rightarrow> signer option \<Rightarrow> ValidatorConfig" where
  "verifier_config c s =
     \<lparr>vc_netuid = vn_netuid c, vc_run_id = vn_run_id c, vc_validator_hotkey = vn_validator_hotkey c, vc_validator_secret = vn_validator_secret c,
      vc_validator_signer = s, vc_owner_secret = vn_owner_secret c, vc_owner_hotkey = (if s \<noteq> None then vn_validator_hotkey c else []),
      vc_miner_secret = vn_miner_secret c, vc_device = vn_device c, vc_sample_rate = vn_sample_rate c, vc_max_sample_elements = 4096,
      vc_encryption_secret = vn_encryption_secret c, vc_timelock_provider = vn_timelock_provider c,
      vc_audit_eligible_hotkeys = vn_audit_eligible_hotkeys c\<rparr>"

definition ValidatorNeuron_init :: "neuron_host \<Rightarrow> platform \<Rightarrow> ValidatorNeuronConfig \<Rightarrow> ValidatorNeuron res" where
  "ValidatorNeuron_init H P c =
     bindE (validator_signer H P c) (\<lambda>s.
     bindE (if vn_dry_run_weights c then Inr () else nh_subtensor H (vn_network c)) (\<lambda>_.
       Inr \<lparr>vu_config = c, vu_verifier = verifier_config c s,
            vu_telemetry = \<lparr>tw_netuid = vn_netuid c, tw_run_id = vn_run_id c, tw_component = ''validator''\<rparr>\<rparr>))"

subsection \<open>A pass\<close>

text \<open>
  The environment of a pass: the replay's environment, the shuffle, the time of writes, the rounded durations the telemetry
  reports, the metagraph's hotkeys (or the \<^verbatim>\<open>repr\<close> of the exception that reading them raised) and \<^verbatim>\<open>set_weights\<close>.
\<close>

record 't neuron_env =
  ne_replay :: "'t replay_env"
  ne_shuffle :: shuffle
  ne_ns :: int
  ne_unix :: int
  ne_verify_seconds :: pyfloat
  ne_score_seconds :: pyfloat
  ne_publish_seconds :: pyfloat
  ne_hotkeys :: "string + string list"
  ne_set_weights :: "int list \<Rightarrow> pyfloat list \<Rightarrow> chain_result"

definition verify_pass :: "'t neuron_env \<Rightarrow> ValidatorNeuron \<Rightarrow> nat option \<Rightarrow> (LocalBucket, nat) sres" where
  "verify_pass E N max_receipts =
     (if vn_audit_mode (vu_config N) = ''consume''
      then consume_audit_results (re_platform (ne_replay E)) (ne_shuffle E) (vu_verifier N) (ne_ns E) (re_now (ne_replay E)) max_receipts
      else Verifier.run_once (ne_replay E) (ne_shuffle E) (vu_verifier N) (ne_ns E) max_receipts)"

definition score_pass :: "'t neuron_env \<Rightarrow> ValidatorNeuron \<Rightarrow> (LocalBucket, (string \<times> MinerScoreWindow) list) sres" where
  "score_pass E N st =
     (let c = vu_config N
      in case summarize_scores (re_platform (ne_replay E)) (ne_ns E) (vn_netuid c) (vn_run_id c) (Some (''run='' @ vn_run_id c))
                (vn_validator_secret c) (vn_validator_hotkey c) st of
           Inl e \<Rightarrow> (Inl e, st) | Inr (windows, st') \<Rightarrow> (Inr windows, st'))"

definition windows_dict :: "(string \<times> MinerScoreWindow) list \<Rightarrow> dict" where
  "windows_dict windows = map (\<lambda>(k, w). (k, JObj (MinerScoreWindow_to_dict w))) windows"

definition scores_payload :: "'t neuron_env \<Rightarrow> ValidatorNeuron \<Rightarrow> nat \<Rightarrow> (string \<times> MinerScoreWindow) list \<Rightarrow> dict" where
  "scores_payload E N checked windows =
     [(''validator_hotkey'', JStr (vn_validator_hotkey (vu_config N))), (''audit_mode'', JStr (vn_audit_mode (vu_config N))),
      (''verify_seconds'', JFloat (ne_verify_seconds E)), (''score_seconds'', JFloat (ne_score_seconds E)), (''checked'', JInt (int checked)),
      (''score_windows'', JObj (windows_dict windows)), (''n_hotkeys'', JInt (int (length windows)))]"

text \<open>\<^verbatim>\<open>dataclasses.asdict\<close> of the update.\<close>

definition WeightUpdate_asdict :: "WeightUpdate \<Rightarrow> dict" where
  "WeightUpdate_asdict u =
     [(''uids'', JList (map JInt (wu_uids u))), (''weights'', JList (map JFloat (wu_weights u))), (''submitted'', JBool (wu_submitted u)),
      (''reason'', JStr (wu_reason u)), (''message'', JStr (wu_message u)), (''extrinsic_hash'', opt_json JStr (wu_extrinsic_hash u)),
      (''block_hash'', opt_json JStr (wu_block_hash u)), (''dropped_hotkeys'', JList (map JStr (wu_dropped_hotkeys u))),
      (''extra'', JObj (map (\<lambda>(k, v). (k, JStr v)) (wu_extra u)))]"

definition score_table :: "(string \<times> MinerScoreWindow) list \<Rightarrow> (string \<times> pyfloat) list" where
  "score_table windows = map (\<lambda>(k, w). (k, sw_score w)) windows"

text \<open>The metagraph is read inside \<^verbatim>\<open>publish_weights\<close>; in a dry run it is not read at all.\<close>

definition weight_update :: "'t neuron_env \<Rightarrow> ValidatorNeuron \<Rightarrow> (string \<times> MinerScoreWindow) list \<Rightarrow> WeightUpdate" where
  "weight_update E N windows =
     (if vn_dry_run_weights (vu_config N) then publish_weights True [] (ne_set_weights E) (score_table windows)
      else case ne_hotkeys E of
             Inl e \<Rightarrow> (WeightUpdate_new [] [])\<lparr>wu_reason := ''publish_exception'', wu_message := e\<rparr>
           | Inr hotkeys \<Rightarrow> publish_weights False hotkeys (ne_set_weights E) (score_table windows))"

definition chain_payload :: "'t neuron_env \<Rightarrow> ValidatorNeuron \<Rightarrow> (string \<times> MinerScoreWindow) list \<Rightarrow> WeightUpdate \<Rightarrow> dict" where
  "chain_payload E N windows u =
     (let c = vu_config N
      in [(''validator_hotkey'', JStr (vn_validator_hotkey c)), (''wallet_name'', opt_json JStr (vn_wallet_name c)),
          (''hotkey_name'', opt_json JStr (vn_hotkey_name c)), (''network'', opt_json JStr (vn_network c)), (''dry_run'', JBool (vn_dry_run_weights c)),
          (''publish_seconds'', JFloat (ne_publish_seconds E)), (''update'', JObj (WeightUpdate_asdict u)), (''n_score_hotkeys'', JInt (int (length windows)))])"

text \<open>Telemetry on the bucket: whether it was stored is ignored.\<close>

definition report ::
  "'t neuron_env \<Rightarrow> ValidatorNeuron \<Rightarrow>
   (platform \<Rightarrow> (nat \<Rightarrow> string \<Rightarrow> bytes \<Rightarrow> LocalBucket \<Rightarrow> LocalBucket res) \<Rightarrow> (string \<Rightarrow> string) \<Rightarrow> int \<Rightarrow> TelemetryWriter \<Rightarrow> dict \<Rightarrow> LocalBucket \<Rightarrow> bool \<times> LocalBucket) \<Rightarrow>
   dict \<Rightarrow> (LocalBucket, unit) sres" where
  "report E N stream_emit payload st =
     (Inr (), snd (stream_emit (re_platform (ne_replay E)) (\<lambda>_. LocalBucket_put (ne_ns E)) (uri_for_key st) (ne_unix E) (vu_telemetry N) payload st))"

definition ValidatorNeuron_run_once :: "'t neuron_env \<Rightarrow> ValidatorNeuron \<Rightarrow> nat option \<Rightarrow> bool \<Rightarrow> (LocalBucket, dict) sres" where
  "ValidatorNeuron_run_once E N max_receipts publish =
     bindS (verify_pass E N max_receipts) (\<lambda>checked.
     bindS (score_pass E N) (\<lambda>windows.
     bindS (report E N emit_scores (scores_payload E N checked windows)) (\<lambda>_.
     bindS (if publish
            then (let u = weight_update E N windows in bindS (report E N emit_chain (chain_payload E N windows u)) (\<lambda>_. liftS (Inr (Some u))))
            else liftS (Inr None)) (\<lambda>update.
       liftS (Inr [(''checked'', JInt (int checked)), (''scores'', JObj (windows_dict windows)),
                   (''weight_update'', case update of None \<Rightarrow> JNull | Some u \<Rightarrow> JObj (WeightUpdate_asdict u))])))))"

subsection \<open>Telemetry\<close>

lemma emit_attempts_wrote:
  assumes "\<And>i st st'. put i st = Inr st' \<Longrightarrow> wrote K st st'"
  shows "wrote K st (snd (emit_attempts put is st))"
  by (induction "is") (auto split: sum.splits intro: assms)

lemma emit_event_wrote:
  assumes "CHR 0x0A \<notin> set (tw_run_id w)" "bucket_name (lb_bucket st)"
  shows "wrote (Emission_Logic.below (telemetry_run_prefix (tw_netuid w) (tw_run_id w))) st
    (snd (emit_event P (\<lambda>_. LocalBucket_put ns) (uri_for_key st) now w stream payload when st))"
  unfolding emit_event_def Let_def
proof (rule emit_attempts_wrote)
  fix st1 st2 :: LocalBucket and i :: nat and ts
  let ?p = "telemetry_run_prefix (tw_netuid w) (tw_run_id w)"
  have nl: "CHR 0x0A \<notin> set ?p" using assms(1) newline_free_root by (simp add: telemetry_run_prefix_def)
  let ?ts = "case when of None \<Rightarrow> now | Some t \<Rightarrow> t"
  assume "put_json P (LocalBucket_put ns) (uri_for_key st (telemetry_event_key (tw_netuid w) (tw_run_id w) stream ?ts))
     (JObj (telemetry_body w payload ?ts)) st1 = Inr st2"
  then show "wrote (Emission_Logic.below ?p) st1 st2"
    using parse_uri_prefix [of "lb_bucket st" ?p "stream @ ''/'' @ format_010d ?ts @ ''.json''"] nl assms(2)
    by (intro wrote_put) (auto simp: put_json_def Emission_Logic.below_def uri_for_key_def telemetry_event_key_def telemetry_stream_prefix_def)
qed

subsection \<open>Properties\<close>

lemma report_emits:
  assumes "CHR 0x0A \<notin> set (tw_run_id (vu_telemetry N))" "bucket_name (lb_bucket st)"
  shows "\<exists>st'. report E N emit_scores payload st = (Inr (), st') \<and>
      wrote (Emission_Logic.below (telemetry_run_prefix (tw_netuid (vu_telemetry N)) (tw_run_id (vu_telemetry N)))) st st'"
    "\<exists>st'. report E N emit_chain payload st = (Inr (), st') \<and>
      wrote (Emission_Logic.below (telemetry_run_prefix (tw_netuid (vu_telemetry N)) (tw_run_id (vu_telemetry N)))) st st'"
  using emit_event_wrote [OF assms] by (simp_all add: report_def emit_scores_def emit_chain_def)

lemma score_table_lookup: "(k, s) \<in> set (score_table ws) \<longleftrightarrow> (\<exists>w. (k, w) \<in> set ws \<and> s = sw_score w)"
  by (auto simp: score_table_def)

text \<open>Every published weight belongs to a scored hotkey of the metagraph.\<close>

lemma published_pair:
  assumes "(uid, v) \<in> set (zip (wu_uids (publish_weights False hotkeys sw (score_table ws))) (wu_weights (publish_weights False hotkeys sw (score_table ws))))"
  shows "0 \<le> uid \<and> nat uid < length hotkeys \<and> (\<exists>w. (hotkeys ! nat uid, w) \<in> set ws \<and>
    (0 < (\<Sum>(k, w)\<leftarrow>ws. max 0 (sw_score w)) \<longrightarrow> v = max 0 (sw_score w) / (\<Sum>(k, w)\<leftarrow>ws. max 0 (sw_score w))))"
proof -
  have sums: "(\<Sum>(k, v)\<leftarrow>score_table ws. max 0 v) = (\<Sum>(k, w)\<leftarrow>ws. max 0 (sw_score w))"
    by (simp add: score_table_def case_prod_unfold comp_def)
  from assms [unfolded publish_pairs] obtain h where h: "(h, v) \<in> set (normalize_scores (score_table ws))" "map_of (hotkey_to_uid False hotkeys) h = Some uid"
    by blast
  have "h \<in> set (map fst (score_table ws))" using h(1) normalize_keys [of "score_table ws"] by force
  then obtain w where "(h, w) \<in> set ws" by (auto simp: score_table_def)
  then show ?thesis
    using hotkey_to_uid_some [OF h(2)] normalize_value [OF h(1)] unfolding sums score_table_lookup by blast
qed

text \<open>
  C19. A pass pays by the verdicts and no chain failure stops it. Once the receipts are verified and scored, \<^verbatim>\<open>run_once\<close>
  returns, whatever the metagraph, \<^verbatim>\<open>set_weights\<close> or the telemetry do, and what it stores after the scores lies below the run's
  telemetry prefix. It reports the score windows of the bucket with this pass's verdicts in it. Outside a dry run the update names
  only uids of scored hotkeys, each with its window's share of the positive scores; when the metagraph cannot be read nothing is
  submitted and the update says why.
\<close>

theorem pass_publishes_scores:
  assumes "ValidatorNeuron_init H P c = Inr N" and "verify_pass E N mx st = (Inr checked, st1)" and "score_pass E N st1 = (Inr ws, st2)"
    and "CHR 0x0A \<notin> set (vn_run_id c)" and "bucket_name (lb_bucket st2)"
  shows "\<exists>result st'. ValidatorNeuron_run_once E N mx True st = (Inr result, st') \<and>
    wrote (Emission_Logic.below (telemetry_run_prefix (vn_netuid c) (vn_run_id c))) st2 st' \<and>
    map_of result ''checked'' = Some (JInt (int checked)) \<and> map_of result ''scores'' = Some (JObj (windows_dict ws)) \<and>
    (\<exists>u. map_of result ''weight_update'' = Some (JObj (WeightUpdate_asdict u)) \<and>
      (\<not> vn_dry_run_weights c \<longrightarrow>
        (case ne_hotkeys E of
           Inl e \<Rightarrow> \<not> wu_submitted u \<and> wu_reason u = ''publish_exception'' \<and> wu_message u = e
         | Inr hotkeys \<Rightarrow>
             \<forall>(uid, v) \<in> set (zip (wu_uids u) (wu_weights u)). 0 \<le> uid \<and> nat uid < length hotkeys \<and>
               (\<exists>w. (hotkeys ! nat uid, w) \<in> set ws \<and>
                 (0 < (\<Sum>(k, w)\<leftarrow>ws. max 0 (sw_score w)) \<longrightarrow> v = max 0 (sw_score w) / (\<Sum>(k, w)\<leftarrow>ws. max 0 (sw_score w)))))))"
proof -
  have N: "vu_config N = c" "tw_run_id (vu_telemetry N) = vn_run_id c" "tw_netuid (vu_telemetry N) = vn_netuid c"
    using assms(1) by (auto simp: ValidatorNeuron_init_def bindE_eq_Inr)
  let ?K = "Emission_Logic.below (telemetry_run_prefix (vn_netuid c) (vn_run_id c))" and ?u = "weight_update E N ws"
  obtain st3 where r1: "report E N emit_scores (scores_payload E N checked ws) st2 = (Inr (), st3)" "wrote ?K st2 st3"
    using report_emits(1) [of N st2] assms(4,5) N by metis
  have "bucket_name (lb_bucket st3)" using r1(2) assms(5) by (simp add: wrote_def)
  then obtain st4 where r2: "report E N emit_chain (chain_payload E N ws ?u) st3 = (Inr (), st4)" "wrote ?K st3 st4"
    using report_emits(2) [of N st3] assms(4) N by metis
  show ?thesis
  proof (intro exI conjI)
    show "ValidatorNeuron_run_once E N mx True st = (Inr [(''checked'', JInt (int checked)), (''scores'', JObj (windows_dict ws)),
        (''weight_update'', JObj (WeightUpdate_asdict ?u))], st4)"
      using assms(2,3) r1(1) r2(1) by (simp add: ValidatorNeuron_run_once_def bindS_def liftS_def Let_def)
    show "wrote ?K st2 st4" by (rule wrote_trans [OF r1(2) r2(2)])
    show "\<not> vn_dry_run_weights c \<longrightarrow> (case ne_hotkeys E of
           Inl e \<Rightarrow> \<not> wu_submitted ?u \<and> wu_reason ?u = ''publish_exception'' \<and> wu_message ?u = e
         | Inr hotkeys \<Rightarrow>
             \<forall>(uid, v) \<in> set (zip (wu_uids ?u) (wu_weights ?u)). 0 \<le> uid \<and> nat uid < length hotkeys \<and>
               (\<exists>w. (hotkeys ! nat uid, w) \<in> set ws \<and>
                 (0 < (\<Sum>(k, w)\<leftarrow>ws. max 0 (sw_score w)) \<longrightarrow> v = max 0 (sw_score w) / (\<Sum>(k, w)\<leftarrow>ws. max 0 (sw_score w)))))"
      using published_pair [of _ _ _ _ ws] by (auto simp: weight_update_def N WeightUpdate_new_def split: sum.split)
  qed simp_all
qed

subsection \<open>Witness\<close>

definition neuron_config :: ValidatorNeuronConfig where
  "neuron_config =
     \<lparr>vn_netuid = 1, vn_run_id = ''run'', vn_validator_hotkey = [], vn_validator_secret = ''s'', vn_owner_secret = ''o'', vn_miner_secret = ''m'',
      vn_device = ''cpu'', vn_sample_rate = 0, vn_encryption_secret = ''e'', vn_timelock_provider = None, vn_dry_run_weights = False,
      vn_wallet_path = ''w'', vn_wallet_name = None, vn_hotkey_name = None, vn_network = None, vn_audit_mode = ''consume'', vn_audit_eligible_hotkeys = []\<rparr>"

definition pass_env :: "string + string list \<Rightarrow> bytes neuron_env" where
  "pass_env hotkeys =
     \<lparr>ne_replay = sample_env, ne_shuffle = id, ne_ns = 9, ne_unix = 10, ne_verify_seconds = 1, ne_score_seconds = 1, ne_publish_seconds = 1,
      ne_hotkeys = hotkeys, ne_set_weights = (\<lambda>_ _. Chain_raises ''offline'')\<rparr>"

lemma pass_samples_nothing: "sample_receipts reference_platform id (verifier_config neuron_config None) sample_bucket = Inr []"
proof -
  have u: "uri_for_key sample_bucket (receipts_prefix 1 ''run'') = ''s3://b/v3/netuid=1/receipts/run/''"
    by (simp add: uri_for_key_def sample_bucket_def sample_prefixes join_uri_def)
  have "ends_with (join_uri ''b'' sample_receipt_key) ''.json''" by code_simp
  moreover have "0 \<le> sample_point hk rid" for hk rid by (simp add: sample_point_def)
  ultimately show ?thesis
    by (simp add: sample_receipts_def verifier_config_def neuron_config_def u sample_lists sample_loads in_sample_def del: be_nat.simps)
qed

theorem pass_publishes_scores_witness:
  "\<exists>N result st' u. ValidatorNeuron_run_once (pass_env (Inl ''no chain'')) N None True sample_bucket = (Inr result, st') \<and>
     map_of result ''weight_update'' = Some (JObj (WeightUpdate_asdict u)) \<and> \<not> wu_submitted u \<and> wu_message u = ''no chain''"
proof -
  define H where "H = \<lparr>nh_keyfile = (\<lambda>_. Inl (FileNotFoundError ''k'')), nh_sign = (\<lambda>_ _. ''s''), nh_bt_wallet = (\<lambda>_ _ _. Inl (ImportError ''bt'')),
    nh_subtensor = (\<lambda>_. Inr ())\<rparr>"
  obtain N where N: "ValidatorNeuron_init H reference_platform neuron_config = Inr N" and c: "vu_config N = neuron_config" "vu_verifier N = verifier_config neuron_config None"
    by (simp add: ValidatorNeuron_init_def validator_signer_def neuron_config_def H_def)
  have v: "verify_pass (pass_env (Inl ''no chain'')) N None sample_bucket = (Inr 0, sample_bucket)"
    using pass_samples_nothing
    by (simp add: verify_pass_def c neuron_config_def [THEN arg_cong [where f = vn_audit_mode]] consume_audit_results_def pass_env_def sample_env_def)
  obtain ws st2 where w: "summarize_scores reference_platform 9 1 ''run'' None ''s'' [] sample_bucket = Inr (ws, st2)" using sample_scores by blast
  then have s: "score_pass (pass_env (Inl ''no chain'')) N sample_bucket = (Inr ws, st2)"
    by (simp add: score_pass_def c neuron_config_def pass_env_def sample_env_def summarize_scores_def Let_def)
  have "lb_bucket st2 = lb_bucket sample_bucket"
    using w by (auto simp: summarize_scores_def Let_def bindE_eq_Inr put_json_def LocalBucket_put_def)
  then have b: "bucket_name (lb_bucket st2)" by (simp add: sample_bucket_def bucket_name_def)
  from pass_publishes_scores [OF N v s _ b] show ?thesis
    by (simp add: neuron_config_def pass_env_def) blast
qed

end
