(* ===== verification/Streaming.thy ===== *)
theory Streaming
  imports Emission_Logic Lifecycle
begin

text \<open>
  The streaming orchestrator (\<^verbatim>\<open>teuton_orchestrator/streaming.py\<close>): per epoch it emits the forward, backward and outer
  jobs of a pipeline at once, chained by their artifacts, and waits for the tail's outputs and the new weights; in stress mode
  it emits forward jobs without waiting. A streaming task (\<^verbatim>\<open>teuton_tasks\<close>, torch code) is a parameter: what its bootstrap
  writes and the stages and parameters it builds.
\<close>

subsection \<open>Pipelines\<close>

record PipelineStage =
  pg_stage_id :: int
  pg_forward_graph :: Graph
  pg_backward_graph :: "Graph option"
  pg_outer_graph :: "Graph option"
  pg_forward_input_specs :: "(string \<times> int list \<times> string) list"
  pg_forward_output_specs :: "(string \<times> int list \<times> string) list"
  pg_weights_input_name :: "string option"
  pg_weights_shape :: "int list"
  pg_weights_dtype :: string
  pg_backward_takes_loss_target :: bool
  pg_backward_emits_dx_in :: bool

record StreamingParams =
  sp_n_stages :: int
  sp_n_microbatches :: int
  sp_max_epochs :: int
  sp_common_params :: dict
  sp_forward_params :: dict
  sp_deadline_seconds :: int
  sp_training :: bool
  sp_target_static_uri :: "string option"
  sp_lr :: pyfloat
  sp_static_inputs :: "(string \<times> string \<times> string) list"
  sp_tokens_per_mb :: int
  sp_gpu_class_price_per_hour :: "(string \<times> pyfloat) list"

record pipeline =
  pl_stages :: "PipelineStage list"
  pl_params :: StreamingParams

record streaming_task =
  stk_bootstrap :: "string \<Rightarrow> int \<Rightarrow> (LocalBucket, unit) sres"
  stk_build_streaming_inputs :: "string \<Rightarrow> LocalBucket \<Rightarrow> pipeline res"

subsection \<open>The task registry\<close>

text \<open>\<^verbatim>\<open>teuton_tasks/__init__.py\<close>; importing a task's module is a parameter. \<open>load_task\<close> is what the run manager calls.\<close>

definition NATIVE_ROUND_TASKS :: "string list" where
  "NATIVE_ROUND_TASKS = [''mlp'']"

definition LEGACY_ROUND_TASKS :: "string list" where
  "LEGACY_ROUND_TASKS =
     [''adam_mlp'', ''data_parallel_mlp'', ''legacy_mlp'', ''locoprop_mlp'', ''pluralis_asymmetric'', ''pluralis_demo'', ''pluralis_full'',
      ''pluralis_gpt_10M'', ''pluralis_gpt_10M_v3'', ''pluralis_grassmann'', ''pluralis_grouped'', ''pluralis_int8'', ''pluralis_lossless_wire'',
      ''pluralis_subspace'', ''pluralis_tied'', ''relu_mlp'', ''sign_loco_mlp'', ''tiny_gpt'']"

definition STREAMING_TASKS :: "string list" where
  "STREAMING_TASKS = [''gpt_pipe'', ''pipe_demo'', ''pipe_train'']"

definition KNOWN_TASKS :: "string list" where
  "KNOWN_TASKS = NATIVE_ROUND_TASKS @ LEGACY_ROUND_TASKS"

definition load_task :: "(string \<Rightarrow> 't res) \<Rightarrow> string \<Rightarrow> 't res" where
  "load_task import_module name =
     (if name \<in> set STREAMING_TASKS then Inl (ValueError (''task '' @ name @ '' is a streaming task''))
      else if name \<in> set LEGACY_ROUND_TASKS then Inl (ValueError (''task '' @ name @ '' is preserved from v2''))
      else if name \<notin> set KNOWN_TASKS then Inl (ValueError (''unknown v3 task '' @ name))
      else import_module name)"

definition load_streaming_task :: "(string \<Rightarrow> 't res) \<Rightarrow> string \<Rightarrow> 't res" where
  "load_streaming_task import_module name =
     (if name \<notin> set STREAMING_TASKS then Inl (ValueError (''unknown v3 streaming task '' @ name)) else import_module name)"

subsection \<open>State\<close>

record StreamingRunConfig = emit_config +
  so_task :: string
  so_max_epochs :: int
  so_crypto_policy :: "ArtifactCryptoPolicy option"
  so_stress_emit :: bool
  so_stress_emit_interval :: pyfloat
  so_stress_epoch_base :: int
  so_stress_pin_weights_epoch :: int
  so_stress_skip_bootstrap_if_present :: bool
  so_stress_max_iterations :: int
  so_epoch_timeout_sec :: pyfloat
  so_max_inflight_per_hotkey :: int

text \<open>\<open>sm_released\<close> and \<open>sm_iteration\<close> are the local variables of \<^verbatim>\<open>wait_epoch\<close> and of the stress loop.\<close>

record streaming_manager = emitter +
  sm_emitted :: "string list"
  sm_jobs :: "(string \<times> JobManifestV3) list"
  sm_receipt_scan_cursor :: pyfloat
  sm_released :: "string list"
  sm_iteration :: int

definition StreamingRunManager_init ::
  "emit_env \<Rightarrow> (string \<Rightarrow> streaming_task res) \<Rightarrow> StreamingRunConfig \<Rightarrow> LocalBucket \<Rightarrow> pyfloat \<Rightarrow> pause list \<Rightarrow> (streaming_task \<times> streaming_manager) res" where
  "StreamingRunManager_init E import_module c st now pauses =
     bindE (load_streaming_task import_module (so_task c)) (\<lambda>tk.
     bindE (emitter_init E c ''train'' ''train'' st now pauses) (\<lambda>em.
       Inr (tk, emitter.extend em (streaming_manager.fields [] [] now [] 0))))"

subsection \<open>Bootstrap and workers\<close>

definition bootstrap_artifacts_present :: "StreamingRunConfig \<Rightarrow> streaming_manager \<Rightarrow> bool" where
  "bootstrap_artifacts_present c s =
     (so_stress_skip_bootstrap_if_present c \<and>
      LocalBucket_exists (uri_of s (manifest_config_key (ec_netuid c) (ec_run_id c))) (em_bucket s) = Inr True)"

definition bucketS :: "(LocalBucket, 'r) sres \<Rightarrow> ('a emitter_scheme, 'r) sres" where
  "bucketS f s = (case f (em_bucket s) of (r, st) \<Rightarrow> (r, s\<lparr>em_bucket := st\<rparr>))"

definition stream_bootstrap :: "streaming_task \<Rightarrow> StreamingRunConfig \<Rightarrow> (streaming_manager, pipeline) sres" where
  "stream_bootstrap tk c s =
     bindS (if so_stress_emit c \<and> bootstrap_artifacts_present c s then liftS (Inr ())
            else bucketS (stk_bootstrap tk (ec_run_id c) (so_max_epochs c))) (\<lambda>_ s.
       (bindE (stk_build_streaming_inputs tk (ec_run_id c) (em_bucket s)) (\<lambda>pl.
          Inr (pl\<lparr>pl_params := (pl_params pl)\<lparr>sp_max_epochs := so_max_epochs c\<rparr>\<rparr>)), s)) s"

definition stream_discover_workers :: "emit_env \<Rightarrow> StreamingRunConfig \<Rightarrow> (streaming_manager, WorkerIdentity list) sres" where
  "stream_discover_workers E c s =
     bindS (liftS (discover_workers (ee_platform E) (em_now s) (discovery_backend_of c ''train'') (em_bucket s))) (learn_workers E) s"

subsection \<open>URIs and ids\<close>

definition epoch_weights_uri :: "StreamingRunConfig \<Rightarrow> LocalBucket \<Rightarrow> int \<Rightarrow> int \<Rightarrow> string" where
  "epoch_weights_uri c st epoch stage_id =
     uri_for_key st (''runs/'' @ ec_run_id c @ ''/weights/epoch='' @ show_int (if so_stress_emit c then so_stress_pin_weights_epoch c else epoch) @
       ''/stage_'' @ show_int stage_id @ ''_W.bin'')"

definition fwd_output_uri :: "StreamingRunConfig \<Rightarrow> LocalBucket \<Rightarrow> int \<Rightarrow> int \<Rightarrow> nat \<Rightarrow> string \<Rightarrow> string" where
  "fwd_output_uri c st epoch stage_id mb name =
     uri_for_key st (''runs/'' @ ec_run_id c @ ''/streaming/epoch='' @ show_int epoch @ ''/stage='' @ show_int stage_id @ ''/outputs/mb='' @ show_nat mb @ ''/'' @ name @ ''.bin'')"

definition fwd_done_uri :: "StreamingRunConfig \<Rightarrow> LocalBucket \<Rightarrow> int \<Rightarrow> int \<Rightarrow> nat \<Rightarrow> string" where
  "fwd_done_uri c st epoch stage_id mb =
     uri_for_key st (''runs/'' @ ec_run_id c @ ''/streaming/epoch='' @ show_int epoch @ ''/stage='' @ show_int stage_id @ ''/outputs/mb='' @ show_nat mb @ ''/done.json'')"

definition bwd_output_uri :: "StreamingRunConfig \<Rightarrow> LocalBucket \<Rightarrow> int \<Rightarrow> int \<Rightarrow> nat \<Rightarrow> string \<Rightarrow> string" where
  "bwd_output_uri c st epoch stage_id mb name =
     uri_for_key st (''runs/'' @ ec_run_id c @ ''/streaming/epoch='' @ show_int epoch @ ''/stage='' @ show_int stage_id @ ''/bwd/mb='' @ show_nat mb @ ''/'' @ name @ ''.bin'')"

definition epoch_prefix :: "int \<Rightarrow> string" where
  "epoch_prefix epoch = ''j-e'' @ show_int epoch @ ''-''"

definition fwd_job_id :: "int \<Rightarrow> int \<Rightarrow> nat \<Rightarrow> string" where
  "fwd_job_id epoch s mb = ''j-e'' @ show_int epoch @ ''-s'' @ show_int s @ ''-mb'' @ show_nat mb @ ''-fwd''"

definition bwd_job_id :: "int \<Rightarrow> int \<Rightarrow> nat \<Rightarrow> string" where
  "bwd_job_id epoch s mb = ''j-e'' @ show_int epoch @ ''-s'' @ show_int s @ ''-mb'' @ show_nat mb @ ''-bwd''"

definition pipe_outer_id :: "int \<Rightarrow> int \<Rightarrow> string" where
  "pipe_outer_id epoch s = ''j-e'' @ show_int epoch @ ''-s'' @ show_int s @ ''-outer''"

definition stream_ref :: "string \<Rightarrow> string \<Rightarrow> ArtifactCryptoPolicy option \<Rightarrow> ArtifactRef" where
  "stream_ref name uri crypto = \<lparr>ar_name = name, ar_uri = uri, ar_sha256 = None, ar_size_bytes = None, ar_crypto = crypto\<rparr>"

definition stream_output_ref :: "StreamingRunConfig \<Rightarrow> string \<Rightarrow> string \<Rightarrow> ArtifactRef" where
  "stream_output_ref c name uri = stream_ref name uri (so_crypto_policy c)"

subsection \<open>Emitting a job\<close>

definition stream_manifest ::
  "emit_env \<Rightarrow> StreamingRunConfig \<Rightarrow> StreamingParams \<Rightarrow> int \<Rightarrow> LocalBucket \<Rightarrow> string \<Rightarrow> string \<Rightarrow> int \<Rightarrow> Graph \<Rightarrow> dict \<Rightarrow> ArtifactRef list \<Rightarrow> ArtifactRef list \<Rightarrow>
   WorkerIdentity \<Rightarrow> ResourceRequirements \<Rightarrow> JobManifestV3" where
  "stream_manifest E c sp now st job_id kind step graph params inputs outputs worker req =
     (let sha = graph_id (ee_platform E) graph
      in JobManifestV3_sign (ee_platform E) (owner_of c)
           \<lparr>mf_job_id = job_id, mf_run_id = ec_run_id c, mf_step_id = step, mf_kind = kind,
            mf_graph_ref = \<lparr>gr_sha256 = sha, gr_uri = uri_for_key st (graph_key (ec_netuid c) (ec_run_id c) sha)\<rparr>, mf_params = params,
            mf_inputs = inputs, mf_outputs = outputs, mf_assigned_hotkey = wi_hotkey_ss58 worker, mf_assigned_worker = Some (wi_worker_id worker),
            mf_attempt = 0, mf_deadline_unix = now + sp_deadline_seconds sp, mf_created_unix = now, mf_resource_requirements = req,
            mf_verification_policy = default_verification (kind = ''pipe_outer''), mf_owner_signature = None, mf_schema_version = 3\<rparr>)"

text \<open>The end of \<^verbatim>\<open>emit_job\<close>: the manifest and its grant are stored and the job is recorded.\<close>

definition stream_publish :: "emit_env \<Rightarrow> StreamingRunConfig \<Rightarrow> string \<Rightarrow> string \<Rightarrow> JobManifestV3 \<Rightarrow> (streaming_manager, JobManifestV3) sres" where
  "stream_publish E c job_id manifest_uri m =
     bindS (put_jsonS (ee_platform E) manifest_uri (JobManifestV3_to_dict (ee_platform E) m)) (\<lambda>_.
     bindS (emit_assignment_grant E c m) (\<lambda>grant_uri.
     bindS (modifyS (\<lambda>s. s\<lparr>sm_emitted := sm_emitted s @ [job_id], sm_jobs := AList.update job_id m (sm_jobs s)\<rparr>)) (\<lambda>_.
     bindS (queueS (add (QueueEntry_from_manifest m manifest_uri grant_uri))) (\<lambda>_. liftS (Inr m)))))"

definition stream_emit_job ::
  "emit_env \<Rightarrow> StreamingRunConfig \<Rightarrow> StreamingParams \<Rightarrow> string \<Rightarrow> string \<Rightarrow> int \<Rightarrow> Graph \<Rightarrow> dict \<Rightarrow> ArtifactRef list \<Rightarrow> ArtifactRef list \<Rightarrow> WorkerIdentity option \<Rightarrow>
   (streaming_manager, JobManifestV3) sres" where
  "stream_emit_job E c sp job_id kind step graph params inputs outputs force_worker =
     bindS (liftS (resource_requirements params)) (\<lambda>req.
     bindS (case force_worker of Some w \<Rightarrow> liftS (Inr w) | None \<Rightarrow> pickS (Some req) (below_inflight (so_max_inflight_per_hotkey c))) (\<lambda>worker.
     bindS (liftS (mapE (\<lambda>ref. resolve_output_crypto ref worker) outputs)) (\<lambda>outs s.
       stream_publish E c job_id (uri_of s (job_manifest_key (ec_netuid c) (ec_run_id c) job_id))
         (stream_manifest E c sp (unix_of (em_now s)) (em_bucket s) job_id kind step graph params inputs outs worker req) s)))"

definition dict_merge :: "dict \<Rightarrow> dict \<Rightarrow> dict" where
  "dict_merge d d' = fold (\<lambda>(k, v) d. AList.update k v d) d' d"

definition job_named :: "string \<Rightarrow> streaming_manager \<Rightarrow> JobManifestV3 res" where
  "job_named j s = (case map_of (sm_jobs s) j of None \<Rightarrow> Inl (KeyError j) | Some m \<Rightarrow> Inr m)"

definition first_output :: "JobManifestV3 \<Rightarrow> ArtifactRef res" where
  "first_output m = (case mf_outputs m of [] \<Rightarrow> Inl IndexError | ref # _ \<Rightarrow> Inr ref)"

definition output_named :: "string \<Rightarrow> JobManifestV3 \<Rightarrow> ArtifactRef res" where
  "output_named name m = (case filter (\<lambda>ref. ar_name ref = name) (mf_outputs m) of [] \<Rightarrow> Inl StopIteration | ref # _ \<Rightarrow> Inr ref)"

definition scope_applies :: "bool \<Rightarrow> bool \<Rightarrow> string \<Rightarrow> bool" where
  "scope_applies is_head is_tail scope =
     (scope = ''all'' \<or> scope = ''head'' \<and> is_head \<or> scope = ''tail'' \<and> is_tail \<or> scope = ''head_and_tail'' \<and> (is_head \<or> is_tail))"

definition static_refs :: "StreamingParams \<Rightarrow> bool \<Rightarrow> bool \<Rightarrow> ArtifactRef list" where
  "static_refs sp is_head is_tail =
     map (\<lambda>(name, uri, _). stream_ref name uri None) (filter (\<lambda>(_, _, scope). scope_applies is_head is_tail scope) (sp_static_inputs sp))"

definition target_refs :: "StreamingParams \<Rightarrow> bool \<Rightarrow> ArtifactRef list" where
  "target_refs sp wanted = (if wanted \<and> sp_target_static_uri sp \<notin> {None, Some []} then [stream_ref ''target'' (the (sp_target_static_uri sp)) None] else [])"

definition upstream_refs :: "int \<Rightarrow> nat \<Rightarrow> PipelineStage \<Rightarrow> streaming_manager \<Rightarrow> ArtifactRef list res" where
  "upstream_refs epoch mb stage s =
     (if pg_stage_id stage = 0 then Inr []
      else mapE (\<lambda>(name, _, _).
             bindE (bindE (job_named (fwd_job_id epoch (pg_stage_id stage - 1) mb) s) first_output) (\<lambda>up.
               Inr (stream_ref name (ar_uri up) (ar_crypto up)))) (pg_forward_input_specs stage))"

definition emit_pipe_forward ::
  "emit_env \<Rightarrow> StreamingRunConfig \<Rightarrow> StreamingParams \<Rightarrow> int \<Rightarrow> nat \<Rightarrow> PipelineStage \<Rightarrow> WorkerIdentity option \<Rightarrow> (streaming_manager, JobManifestV3) sres" where
  "emit_pipe_forward E c sp epoch mb stage force_worker s =
     (let sid = pg_stage_id stage; is_tail = (sid = sp_n_stages sp - 1); is_head = (sid = 0); st = em_bucket s
      in bindS (liftS (upstream_refs epoch mb stage s)) (\<lambda>ups.
           stream_emit_job E c sp (fwd_job_id epoch sid mb) ''pipe_forward'' epoch (pg_forward_graph stage)
             (dict_merge (dict_merge (sp_common_params sp) (sp_forward_params sp))
                [(''epoch'', JInt epoch), (''stage'', JInt sid), (''mb'', JInt (int mb)), (''mb_seed'', JInt (epoch * 10000 + int mb))])
             (ups @
              (if pg_weights_input_name stage \<notin> {None, Some []} \<and> sp_training sp
               then [stream_ref (the (pg_weights_input_name stage)) (epoch_weights_uri c st epoch sid) None] else []) @
              target_refs sp (is_tail \<and> sp_training sp) @ static_refs sp is_head is_tail)
             (map (\<lambda>(name, _, _). stream_output_ref c name (fwd_output_uri c st epoch sid mb name)) (pg_forward_output_specs stage) @
              (if is_tail then [stream_output_ref c (if sp_training sp then ''loss'' else ''done'') (fwd_done_uri c st epoch sid mb)] else []))
             force_worker) s)"

definition weights_name :: "PipelineStage \<Rightarrow> string" where
  "weights_name stage = (case pg_weights_input_name stage of None \<Rightarrow> ''W'' | Some n \<Rightarrow> if n = [] then ''W'' else n)"

definition emit_pipe_backward :: "emit_env \<Rightarrow> StreamingRunConfig \<Rightarrow> StreamingParams \<Rightarrow> int \<Rightarrow> nat \<Rightarrow> PipelineStage \<Rightarrow> Graph \<Rightarrow> (streaming_manager, JobManifestV3) sres" where
  "emit_pipe_backward E c sp epoch mb stage graph s =
     (let sid = pg_stage_id stage; is_tail = (sid = sp_n_stages sp - 1); is_head = (sid = 0); st = em_bucket s
      in bindS (liftS (if is_head then Inr []
                       else bindE (bindE (job_named (fwd_job_id epoch (sid - 1) mb) s) first_output) (\<lambda>up. Inr [stream_ref ''x_in'' (ar_uri up) (ar_crypto up)]))) (\<lambda>x_in.
         bindS (liftS (if is_tail then Inr []
                       else bindE (bindE (job_named (bwd_job_id epoch (sid + 1) mb) s) (output_named ''dL_dx_in'')) (\<lambda>dx.
                            Inr [stream_ref ''dL_dx_out'' (ar_uri dx) (ar_crypto dx)]))) (\<lambda>dx_out.
           stream_emit_job E c sp (bwd_job_id epoch sid mb) ''pipe_backward'' epoch graph
             (dict_merge (sp_common_params sp)
                [(''epoch'', JInt epoch), (''stage'', JInt sid), (''mb'', JInt (int mb)), (''mb_seed'', JInt (epoch * 10000 + int mb))])
             (stream_ref (weights_name stage) (epoch_weights_uri c st epoch sid) None # x_in @ target_refs sp is_tail @ static_refs sp is_head is_tail @ dx_out)
             (stream_output_ref c ''dW'' (bwd_output_uri c st epoch sid mb ''dW'') #
              (if \<not> is_head \<and> pg_backward_emits_dx_in stage then [stream_output_ref c ''dL_dx_in'' (bwd_output_uri c st epoch sid mb ''dL_dx_in'')] else []))
             None)) s)"

definition emit_pipe_outer :: "emit_env \<Rightarrow> StreamingRunConfig \<Rightarrow> StreamingParams \<Rightarrow> int \<Rightarrow> PipelineStage \<Rightarrow> Graph \<Rightarrow> (streaming_manager, JobManifestV3) sres" where
  "emit_pipe_outer E c sp epoch stage graph s =
     (let sid = pg_stage_id stage; st = em_bucket s
      in bindS (liftS (mapE (\<lambda>mb. bindE (bindE (job_named (bwd_job_id epoch sid mb) s) (output_named ''dW'')) (\<lambda>dw.
                         Inr (stream_ref (''dW_'' @ show_nat mb) (ar_uri dw) (ar_crypto dw)))) [0..<nat (sp_n_microbatches sp)])) (\<lambda>dws.
           stream_emit_job E c sp (pipe_outer_id epoch sid) ''pipe_outer'' epoch graph
             (dict_merge (sp_common_params sp) [(''epoch'', JInt epoch), (''stage'', JInt sid)])
             (stream_ref (weights_name stage) (epoch_weights_uri c st epoch sid) None # dws)
             [stream_output_ref c ''W_new'' (epoch_weights_uri c st (epoch + 1) sid)] None) s)"

subsection \<open>An epoch\<close>

definition put_graph :: "emit_env \<Rightarrow> StreamingRunConfig \<Rightarrow> Graph \<Rightarrow> (streaming_manager, unit) sres" where
  "put_graph E c g s =
     (let uri = uri_of s (graph_key (ec_netuid c) (ec_run_id c) (graph_id (ee_platform E) g))
      in bindS (existsS uri) (\<lambda>ok. if ok then liftS (Inr ()) else putS uri (Graph_to_canonical_json (ee_platform E) g)) s)"

definition stage_graphs :: "PipelineStage \<Rightarrow> Graph list" where
  "stage_graphs stage = pg_forward_graph stage # List.map_filter id [pg_backward_graph stage, pg_outer_graph stage]"

definition emit_epoch :: "emit_env \<Rightarrow> StreamingRunConfig \<Rightarrow> pipeline \<Rightarrow> int \<Rightarrow> bool \<Rightarrow> (streaming_manager, unit) sres" where
  "emit_epoch E c pl epoch forward_only =
     (let sp = pl_params pl; mbs = [0..<nat (sp_n_microbatches sp)]
      in bindS (mapS (put_graph E c) (concat (map stage_graphs (pl_stages pl)))) (\<lambda>_.
         bindS (mapS (\<lambda>(mb, stage). emit_pipe_forward E c sp epoch mb stage None) (List.product mbs (pl_stages pl))) (\<lambda>_.
         if forward_only \<or> \<not> sp_training sp then liftS (Inr ())
         else bindS (mapS (\<lambda>(mb, stage, g). emit_pipe_backward E c sp epoch mb stage g)
                      (concat (map (\<lambda>mb. List.map_filter (\<lambda>stage. map_option (\<lambda>g. (mb, stage, g)) (pg_backward_graph stage)) (rev (pl_stages pl))) mbs))) (\<lambda>_.
              bindS (mapS (\<lambda>(stage, g). emit_pipe_outer E c sp epoch stage g)
                      (List.map_filter (\<lambda>stage. map_option (\<lambda>g. (stage, g)) (pg_outer_graph stage)) (pl_stages pl))) (\<lambda>_. liftS (Inr ()))))))"

subsection \<open>Bookkeeping\<close>

definition release_job :: "JobManifestV3 \<Rightarrow> QuotaBook \<Rightarrow> QuotaBook" where
  "release_job m = release (mf_assigned_hotkey m) 1"

definition epoch_jobs :: "int \<Rightarrow> (string \<times> JobManifestV3) list \<Rightarrow> (string \<times> JobManifestV3) list" where
  "epoch_jobs epoch jobs = filter (\<lambda>(j, _). starts_with j (epoch_prefix epoch)) jobs"

definition release_epoch_quota :: "int \<Rightarrow> streaming_manager \<Rightarrow> streaming_manager" where
  "release_epoch_quota epoch s = s\<lparr>em_quota := fold (\<lambda>(_, m). release_job m) (epoch_jobs epoch (sm_jobs s)) (em_quota s)\<rparr>"

definition forget_epoch_jobs :: "int \<Rightarrow> streaming_manager \<Rightarrow> streaming_manager" where
  "forget_epoch_jobs epoch s = s\<lparr>sm_jobs := filter (\<lambda>(j, _). \<not> starts_with j (epoch_prefix epoch)) (sm_jobs s)\<rparr>"

definition drop_epoch_jobs :: "int \<Rightarrow> streaming_manager \<Rightarrow> streaming_manager" where
  "drop_epoch_jobs epoch s =
     forget_epoch_jobs epoch (s\<lparr>em_queue := snd (remove_many (map fst (epoch_jobs epoch (sm_jobs s))) (em_queue s))\<rparr>)"

text \<open>A failed scan counts as no receipts; the limit is the default of \<^verbatim>\<open>scan_recent_receipt_job_ids\<close>.\<close>

definition drain_queue_via_receipts :: "StreamingRunConfig \<Rightarrow> (streaming_manager, int) sres" where
  "drain_queue_via_receipts c s =
     (let since = max 0 (sm_receipt_scan_cursor s - 5);
          done_ids = (case scan_recent_receipt_job_ids (em_bucket s) (ec_netuid c) (ec_run_id c) (if since > 0 then Some since else None) 50000 of
                        Inl _ \<Rightarrow> [] | Inr ids \<Rightarrow> ids);
          (removed, q1) = (if done_ids \<noteq> [] then remove_many done_ids (em_queue s) else (0, em_queue s));
          (expired, q2) = prune_expired (em_now s) q1
      in (Inr (removed + int (length expired)), s\<lparr>em_queue := q2, sm_receipt_scan_cursor := em_now s\<rparr>))"

subsection \<open>Telemetry\<close>

text \<open>\<^verbatim>\<open>d[k] = d.get(k, 0) + 1\<close> for each key.\<close>

definition tally :: "string list \<Rightarrow> (string \<times> int) list" where
  "tally ks = fold (\<lambda>k d. AList.update k ((case map_of d k of None \<Rightarrow> 0 | Some n \<Rightarrow> n) + 1) d) ks []"

definition counts_dict :: "(string \<times> int) list \<Rightarrow> dict" where
  "counts_dict d = map (\<lambda>(k, n). (k, JInt n)) d"

definition queue_telemetry :: "StreamingRunConfig \<Rightarrow> OrchestratorQueue \<Rightarrow> dict" where
  "queue_telemetry c q =
     (let per_hotkey = tally (map (qe_assigned_hotkey \<circ> snd) (oq_outstanding q)); depths = sort (map snd per_hotkey); n = length depths
      in [(''depth'', JInt (sum_list (map snd per_hotkey))), (''n_hotkeys_with_work'', JInt (int (length per_hotkey))),
          (''depth_p99_per_hotkey'', JInt (if depths = [] then 0 else depths ! min (n - 1) (nat \<lfloor>99 / 100 * (of_nat n :: rat)\<rfloor>))),
          (''depth_max_per_hotkey'', JInt (if depths = [] then 0 else last depths)),
          (''max_inflight_per_hotkey'', JInt (so_max_inflight_per_hotkey c))])"

text \<open>\<^verbatim>\<open>round(x, n)\<close>: to the nearest, halves to even.\<close>

definition py_round :: "nat \<Rightarrow> pyfloat \<Rightarrow> pyfloat" where
  "py_round n x =
     (let y = x * 10 ^ n; f = \<lfloor>y\<rfloor>; d = y - of_int f
      in of_int (if d < 1 / 2 \<or> d = 1 / 2 \<and> even f then f else f + 1) / 10 ^ n)"

definition epoch_payload ::
  "StreamingRunConfig \<Rightarrow> StreamingParams \<Rightarrow> (string \<times> JobManifestV3) list \<Rightarrow> OrchestratorQueue \<Rightarrow> dict \<Rightarrow> int \<Rightarrow> int \<Rightarrow> int \<Rightarrow> pyfloat \<Rightarrow> pyfloat \<Rightarrow> string \<Rightarrow> dict" where
  "epoch_payload c sp jobs q cfg b t epoch emit_seconds wait_seconds result =
     (let mine = epoch_jobs epoch jobs; n_mb = sp_n_microbatches sp; wall = emit_seconds + wait_seconds;
          tokens = (if b \<noteq> 0 \<and> t \<noteq> 0 \<and> n_mb \<noteq> 0 then b * t * n_mb else 0)
      in [(''epoch'', JInt epoch), (''outcome'', JStr result), (''emit_seconds'', JFloat (py_round 3 emit_seconds)),
          (''wait_seconds'', JFloat (py_round 3 wait_seconds)), (''wall_seconds'', JFloat (py_round 3 wall)), (''tokens_in_epoch'', JInt tokens),
          (''tokens_per_sec'', if wall > 0 then JFloat (py_round 2 (of_int tokens / wall)) else JNull),
          (''n_jobs_emitted'', JInt (int (length mine))), (''n_microbatches'', JInt n_mb), (''n_stages'', JInt (sp_n_stages sp)),
          (''by_kind'', JObj (counts_dict (tally (map (mf_kind \<circ> snd) mine)))), (''queue'', JObj (queue_telemetry c q)),
          (''manifest_config'', JObj (map (\<lambda>k. (k, get_none cfg k))
             [''task'', ''d'', ''n_head'', ''d_ff'', ''B'', ''T'', ''n_stages'', ''n_microbatches'', ''n_blocks_per_stage'', ''tokens_uri'']))])"

definition manifest_int :: "dict \<Rightarrow> string \<Rightarrow> int res" where
  "manifest_int cfg k = py_int (or_else (get_or cfg k (JInt 0)) (JInt 0))"

definition stream_writer :: "StreamingRunConfig \<Rightarrow> TelemetryWriter" where
  "stream_writer c = \<lparr>tw_netuid = ec_netuid c, tw_run_id = ec_run_id c, tw_component = ''orchestrator''\<rparr>"

definition emit_epoch_telemetry ::
  "emit_env \<Rightarrow> StreamingRunConfig \<Rightarrow> StreamingParams \<Rightarrow> int \<Rightarrow> pyfloat \<Rightarrow> pyfloat \<Rightarrow> string \<Rightarrow> (streaming_manager, unit) sres" where
  "emit_epoch_telemetry E c sp epoch emit_seconds wait_seconds result s =
     bindS (liftS (bindE (case get_json (ee_platform E) LocalBucket_get (uri_of s (manifest_config_key (ec_netuid c) (ec_run_id c))) (em_bucket s) of
                            Inl e \<Rightarrow> if caught e then Inr [] else Inl e | Inr j \<Rightarrow> as_mapping j) (\<lambda>cfg.
                   bindE (manifest_int cfg ''B'') (\<lambda>b. bindE (manifest_int cfg ''T'') (\<lambda>t.
                     Inr (epoch_payload c sp (sm_jobs s) (em_queue s) cfg b t epoch emit_seconds wait_seconds result)))))) (\<lambda>payload.
       modifyS (\<lambda>s. s\<lparr>em_bucket := snd (emit_orchestrator (ee_platform E) (\<lambda>_. LocalBucket_put (ns_of (em_now s))) (uri_for_key (em_bucket s))
         (unix_of (em_now s)) (stream_writer c) payload (em_bucket s))\<rparr>)) s"

subsection \<open>Waiting for an epoch\<close>

definition job_outputs_present :: "LocalBucket \<Rightarrow> JobManifestV3 \<Rightarrow> bool" where
  "job_outputs_present st m = (all_exist (map ar_uri (mf_outputs m)) st = Inr True)"

text \<open>The loops over \<^verbatim>\<open>self.jobs\<close>: jobs of the epoch that are not released yet and satisfy \<open>p\<close> are released.\<close>

definition release_where :: "int \<Rightarrow> (JobManifestV3 \<Rightarrow> bool) \<Rightarrow> streaming_manager \<Rightarrow> streaming_manager" where
  "release_where epoch p s =
     (let js = filter (\<lambda>(j, m). j \<notin> set (sm_released s) \<and> p m) (epoch_jobs epoch (sm_jobs s))
      in s\<lparr>em_quota := fold (\<lambda>(_, m). release_job m) js (em_quota s), sm_released := sm_released s @ map fst js\<rparr>)"

definition done_count :: "StreamingRunConfig \<Rightarrow> StreamingParams \<Rightarrow> int \<Rightarrow> LocalBucket \<Rightarrow> nat res" where
  "done_count c sp epoch st =
     bindE (mapE (\<lambda>mb. LocalBucket_exists (fwd_done_uri c st epoch (sp_n_stages sp - 1) mb) st) [0..<nat (sp_n_microbatches sp)]) (\<lambda>oks.
       Inr (length (filter id oks)))"

definition outer_done :: "StreamingRunConfig \<Rightarrow> pipeline \<Rightarrow> int \<Rightarrow> LocalBucket \<Rightarrow> bool res" where
  "outer_done c pl epoch st =
     (if sp_training (pl_params pl)
      then all_exist (map (\<lambda>stage. epoch_weights_uri c st (epoch + 1) (pg_stage_id stage)) (filter (\<lambda>stage. pg_outer_graph stage \<noteq> None) (pl_stages pl))) st
      else Inr True)"

definition epoch_round :: "StreamingRunConfig \<Rightarrow> pipeline \<Rightarrow> int \<Rightarrow> (streaming_manager, unit option) sres" where
  "epoch_round c pl epoch =
     bindS (drain_queue_via_receipts c) (\<lambda>_.
     bindS (\<lambda>s. (done_count c (pl_params pl) epoch (em_bucket s), s)) (\<lambda>n.
     bindS (\<lambda>s. (outer_done c pl epoch (em_bucket s), s)) (\<lambda>outer.
     bindS (modifyS (\<lambda>s. release_where epoch (job_outputs_present (em_bucket s)) s)) (\<lambda>_.
       if int n \<ge> sp_n_microbatches (pl_params pl) \<and> outer
       then bindS (modifyS (release_where epoch (\<lambda>_. True))) (\<lambda>_. bindS (drain_queue_via_receipts c) (\<lambda>_. liftS (Inr (Some ()))))
       else liftS (Inr None)))))"

definition wait_epoch :: "StreamingRunConfig \<Rightarrow> pipeline \<Rightarrow> int \<Rightarrow> pyfloat \<Rightarrow> (streaming_manager, unit) sres" where
  "wait_epoch c pl epoch deadline =
     bindS (modifyS (\<lambda>s. s\<lparr>sm_released := []\<rparr>)) (\<lambda>_.
       poll deadline (epoch_round c pl epoch)
         (bindS (modifyS (release_where epoch (\<lambda>_. True))) (\<lambda>_.
            liftS (Inl (TimeoutError (''streaming epoch '' @ show_int epoch @ '' timed out''))))))"

subsection \<open>The run\<close>

definition stream_wait_for_workers :: "emit_env \<Rightarrow> StreamingRunConfig \<Rightarrow> string \<Rightarrow> pyfloat \<Rightarrow> (streaming_manager, unit) sres" where
  "stream_wait_for_workers E c msg deadline =
     bindS (poll deadline
              (bindS (stream_discover_workers E c) (\<lambda>workers. liftS (Inr (if workers \<noteq> [] then Some () else None))))
              (liftS (Inr ()))) (\<lambda>_ s.
       if em_now s \<ge> deadline then (Inl (TimeoutError msg), s) else (Inr (), s))"

definition run_epoch :: "emit_env \<Rightarrow> StreamingRunConfig \<Rightarrow> pipeline \<Rightarrow> pyfloat \<Rightarrow> int \<Rightarrow> (streaming_manager, unit) sres" where
  "run_epoch E c pl deadline epoch =
     bindS (stream_wait_for_workers E c ''no miners available for streaming run'' deadline) (\<lambda>_ s0.
     bindS (emit_epoch E c pl epoch False) (\<lambda>_ s1.
       let t_wait = em_now s1; report = (\<lambda>result s. emit_epoch_telemetry E c (pl_params pl) epoch (t_wait - em_now s0) (em_now s - t_wait) result s)
       in case wait_epoch c pl epoch (min deadline (t_wait + max 0 (so_epoch_timeout_sec c))) s1 of
            (Inr _, s2) \<Rightarrow> report ''ok'' s2
          | (Inl (TimeoutError msg), s2) \<Rightarrow> bindS (report ''timeout'') (\<lambda>_. liftS (Inl (TimeoutError msg))) s2
          | (Inl e, s2) \<Rightarrow> (Inl e, s2)) s0)"

text \<open>A round of the stress loop; it takes a pause at its end whether it sleeps or not, since emitting takes time.\<close>

definition stress_emitted :: "emit_env \<Rightarrow> StreamingRunConfig \<Rightarrow> pipeline \<Rightarrow> int \<Rightarrow> (streaming_manager, unit) sres" where
  "stress_emitted E c pl epoch s =
     (let s1 = release_epoch_quota epoch s
      in case emit_epoch_telemetry E c (pl_params pl) epoch 0 0 ''stress_emitted'' s1 of
           (Inl e, s2) \<Rightarrow> if caught e then (Inr (), forget_epoch_jobs epoch s2) else (Inl e, s2)
         | (Inr _, s2) \<Rightarrow> (Inr (), forget_epoch_jobs epoch s2))"

definition stress_body :: "emit_env \<Rightarrow> StreamingRunConfig \<Rightarrow> pipeline \<Rightarrow> int \<Rightarrow> (streaming_manager, unit option) sres" where
  "stress_body E c pl epoch s1 =
     (case emit_epoch E c pl epoch True (snd (drain_queue_via_receipts c s1)) of
        (Inl (RuntimeError _), s2) \<Rightarrow> (Inr None, drop_epoch_jobs epoch s2)
      | (Inl e, s2) \<Rightarrow> (Inl e, s2)
      | (Inr _, s2) \<Rightarrow> bindS (stress_emitted E c pl epoch) (\<lambda>_. liftS (Inr None)) s2)"

definition stress_round :: "emit_env \<Rightarrow> StreamingRunConfig \<Rightarrow> pipeline \<Rightarrow> (streaming_manager, unit option) sres" where
  "stress_round E c pl s =
     (if so_stress_max_iterations c \<noteq> 0 \<and> sm_iteration s \<ge> so_stress_max_iterations c then (Inr (Some ()), s)
      else let epoch = so_stress_epoch_base c + sm_iteration s; s0 = s\<lparr>sm_iteration := sm_iteration s + 1\<rparr>;
               (found, s1) = stream_discover_workers E c s0
           in case found of
                Inl e \<Rightarrow> if caught e then stress_body E c pl epoch s1 else (Inl e, s1)
              | Inr _ \<Rightarrow> stress_body E c pl epoch s1)"

definition stress_loop :: "emit_env \<Rightarrow> StreamingRunConfig \<Rightarrow> pipeline \<Rightarrow> pyfloat \<Rightarrow> (streaming_manager, unit) sres" where
  "stress_loop E c pl deadline =
     bindS (stream_wait_for_workers E c ''no miners available for streaming stress run'' deadline) (\<lambda>_.
     bindS (modifyS (\<lambda>s. s\<lparr>sm_iteration := 0\<rparr>)) (\<lambda>_.
       poll deadline (stress_round E c pl) (liftS (Inr ()))))"

definition stop_streaming :: "emit_env \<Rightarrow> streaming_manager \<Rightarrow> streaming_manager" where
  "stop_streaming E s =
     (let t = unix_of (em_now s); ns = ns_of (em_now s)
      in case stop_queue (ee_platform E) \<lparr>fc_snapshot1 = t, fc_write1 = ns, fc_snapshot2 = t, fc_write2 = ns\<rparr> True (em_queue s) (em_bucket s) of
           (q, st) \<Rightarrow> s\<lparr>em_queue := q, em_bucket := st\<rparr>)"

text \<open>What \<^verbatim>\<open>run_loop\<close> does inside its \<^verbatim>\<open>try\<close>.\<close>

definition stream_epochs :: "emit_env \<Rightarrow> StreamingRunConfig \<Rightarrow> pipeline \<Rightarrow> pyfloat \<Rightarrow> (streaming_manager, unit) sres" where
  "stream_epochs E c pl timeout_sec s =
     (let deadline = em_now s + timeout_sec
      in if so_stress_emit c then stress_loop E c pl deadline s
         else bindS (mapS (run_epoch E c pl deadline) (map int [0..<nat (so_max_epochs c)])) (\<lambda>_. liftS (Inr ())) s)"

definition stream_run_loop :: "emit_env \<Rightarrow> streaming_task \<Rightarrow> StreamingRunConfig \<Rightarrow> pyfloat \<Rightarrow> (streaming_manager, unit) sres" where
  "stream_run_loop E tk c timeout_sec =
     bindS (stream_bootstrap tk c) (\<lambda>pl s. case stream_epochs E c pl timeout_sec s of (r, s') \<Rightarrow> (r, stop_streaming E s'))"

end
