(* ===== verification/Streaming_Properties.thy ===== *)
theory Streaming_Properties
  imports Streaming Queue_Steps Record_Store "HOL-Library.Multiset"
begin

text \<open>
  What the streaming orchestrator guarantees: whatever epochs it runs, no miner is overloaded; waiting for an epoch
  returns only when its results are there and gives every reservation back once; and a stress round that fails forgets
  its jobs without giving theirs back.
\<close>

subsection \<open>Invariants of emission\<close>

text \<open>
  What a property of the manager needs to survive an epoch's emission: \<open>I\<close> before and after a job, \<open>Mid w\<close> between
  picking worker \<open>w\<close> and recording the job. Both must be blind to bucket and resolver.
\<close>

lemma frame_keeps:
  assumes "\<And>s. frame UNIV m s" "\<And>s st R. Q s \<Longrightarrow> Q (s\<lparr>em_bucket := st, em_resolver := R\<rparr>)"
  shows "valid Q m (\<lambda>_. Q) Q"
proof -
  have "Q s'" if "Q s" "m s = (r, s')" for s r s'
  proof -
    from assms(1) [of s] that(2) have "s' = s\<lparr>em_bucket := em_bucket s', em_resolver := em_resolver s'\<rparr>" by (simp add: frame_def Let_def)
    with assms(2) [OF that(1)] show ?thesis by metis
  qed
  then show ?thesis by (auto intro: validI)
qed

lemma frame_grant_any: "frame UNIV (emit_assignment_grant E c m) s"
proof -
  have "frame UNIV (bindS (liftS r) (store_grant E c key hk)) s" for r key hk
    by (rule frame_lift_bind) (auto intro: frame_store_grant)
  then show ?thesis by (cases "em_broker s") (simp_all add: frame_def emit_assignment_grant_def)
qed

locale emission_invariant =
  fixes c :: StreamingRunConfig and I :: "streaming_manager \<Rightarrow> bool" and Mid :: "string \<Rightarrow> streaming_manager \<Rightarrow> bool"
  assumes I_frame: "I s \<Longrightarrow> I (s\<lparr>em_bucket := st, em_resolver := R\<rparr>)"
    and Mid_frame: "Mid hk s \<Longrightarrow> Mid hk (s\<lparr>em_bucket := st, em_resolver := R\<rparr>)"
    and pick: "I s \<Longrightarrow> pickS (Some req) (below_inflight (so_max_inflight_per_hotkey c)) s = (Inr w, s') \<Longrightarrow> Mid (wi_hotkey_ss58 w) s'"
    and Mid_I: "Mid hk s \<Longrightarrow> I s"
    and recorded: "Mid (mf_assigned_hotkey m) s \<Longrightarrow>
      I (s\<lparr>sm_emitted := sm_emitted s @ [j], sm_jobs := AList.update j m (sm_jobs s), em_queue := add (QueueEntry_from_manifest m uri gu) (em_queue s)\<rparr>)"
begin

lemmas I_keeps = frame_keeps [where Q = I, OF _ I_frame]
lemmas Mid_keeps = frame_keeps [where Q = "Mid hk" for hk, OF _ Mid_frame]

lemma lift_keeps: "valid I (liftS r) (\<lambda>_. I) I"
  by (rule valid_lift)

lemma emit_keeps: "valid I (stream_emit_job E c sp j kind step g params ins outs None) (\<lambda>_. I) I"
proof -
  have pick': "valid I (pickS (Some req) (below_inflight (so_max_inflight_per_hotkey c))) (\<lambda>w. Mid (wi_hotkey_ss58 w)) I" for req
    by (rule validI) (use pick in \<open>auto simp: pickS_def split: sum.splits prod.splits\<close>)
  have store: "valid (Mid (mf_assigned_hotkey m)) (stream_publish E c j u m) (\<lambda>_. I) I" for m u
  proof -
    have a: "valid (Mid (mf_assigned_hotkey m)) (put_jsonS (ee_platform E) u d) (\<lambda>_. Mid (mf_assigned_hotkey m)) I" for d
      by (rule valid_weaken [OF Mid_keeps [OF frame_put_json]]) (auto intro: Mid_I)
    have b: "valid (Mid (mf_assigned_hotkey m)) (emit_assignment_grant E c m) (\<lambda>_. Mid (mf_assigned_hotkey m)) I"
      by (rule valid_weaken [OF Mid_keeps [OF frame_grant_any]]) (auto intro: Mid_I)
    show ?thesis unfolding stream_publish_def
      by (rule valid_bind [OF a], rule valid_bind [OF b]) (use recorded in \<open>auto simp: valid_def bindS_def modifyS_def queueS_def liftS_def\<close>)
  qed
  have last: "valid (Mid (wi_hotkey_ss58 w)) (\<lambda>s. stream_publish E c j (uri_of s (job_manifest_key (ec_netuid c) (ec_run_id c) j))
      (stream_manifest E c sp (unix_of (em_now s)) (em_bucket s) j kind step g params ins outs' w req) s) (\<lambda>_. I) I" for req w outs'
  proof -
    have "mf_assigned_hotkey (stream_manifest E c sp now st j kind step g params ins outs' w req) = wi_hotkey_ss58 w" for now st
      by (simp add: stream_manifest_def JobManifestV3_sign_def Let_def)
    with store [of "stream_manifest E c sp now st j kind step g params ins outs' w req" for now st] show ?thesis
      by (simp add: valid_def)
  qed
  have mid: "valid (Mid hk) (liftS r) (\<lambda>_. Mid hk) I" for hk r
    by (rule valid_lift) (auto intro: Mid_I)
  show ?thesis
    unfolding stream_emit_job_def option.case
    by (rule valid_bind [OF lift_keeps], rule valid_bind [OF pick'], rule valid_bind [OF mid], rule last)
qed

lemma at_state: "(\<And>t. valid I (f t) (\<lambda>_. I) I) \<Longrightarrow> valid I (\<lambda>s. f s s) (\<lambda>_. I) I"
  by (simp add: valid_def)

lemma epoch_keeps: "valid I (emit_epoch E c pl epoch fw) (\<lambda>_. I) I"
proof -
  note step = valid_bind [OF lift_keeps] emit_keeps
  have fwd: "valid I (emit_pipe_forward E c sp epoch mb stage None) (\<lambda>_. I) I" for sp mb stage
    unfolding emit_pipe_forward_def [abs_def] Let_def by (rule at_state, intro step)
  have bwd: "valid I (emit_pipe_backward E c sp epoch mb stage g) (\<lambda>_. I) I" for sp mb stage g
    unfolding emit_pipe_backward_def [abs_def] Let_def by (rule at_state, intro step)
  have out: "valid I (emit_pipe_outer E c sp epoch stage g) (\<lambda>_. I) I" for sp stage g
    unfolding emit_pipe_outer_def [abs_def] Let_def by (rule at_state, intro step)
  have "frame UNIV (put_graph E c g) s" for g s
    unfolding put_graph_def [abs_def] Let_def by (rule frame_at) (auto intro!: frame_bind frame_put split: if_splits)
  then have gr: "valid I (put_graph E c g) (\<lambda>_. I) I" for g by (rule I_keeps)
  have loop: "valid I (mapS f xs) (\<lambda>_. I) I" if "\<And>x. valid I (f x) (\<lambda>_. I) I" for f :: "'x \<Rightarrow> (streaming_manager, 'y) sres" and xs
    by (rule valid_mapS [where I = "\<lambda>_ _. I"]) (rule that)
  have f: "valid I (case x of (mb, stage) \<Rightarrow> emit_pipe_forward E c sp epoch mb stage None) (\<lambda>_. I) I" for x sp
    using fwd by (cases x) simp
  have b: "valid I (case x of (mb, stage, g) \<Rightarrow> emit_pipe_backward E c sp epoch mb stage g) (\<lambda>_. I) I" for x sp
    using bwd by (cases x) simp
  have o: "valid I (case x of (stage, g) \<Rightarrow> emit_pipe_outer E c sp epoch stage g) (\<lambda>_. I) I" for x sp
    using out by (cases x) simp
  show ?thesis
    unfolding emit_epoch_def Let_def
    by (intro valid_bind [OF loop [OF gr]] valid_bind [OF loop [OF f]])
      (auto intro!: valid_bind [OF loop [OF b]] valid_bind [OF loop [OF o]] lift_keeps)
qed

end

subsection \<open>Backpressure\<close>

definition stream_ok :: "StreamingRunConfig \<Rightarrow> streaming_manager \<Rightarrow> bool" where
  "stream_ok c s \<longleftrightarrow> book_ok (em_quota s) \<and> queue_inv (em_queue s) \<and>
     (\<forall>hk. int (depth (Some hk) (em_queue s)) \<le> max 0 (so_max_inflight_per_hotkey c))"

text \<open>During a pause nobody else changes what is outstanding: the background thread only publishes it.\<close>

definition quiet :: "LocalBucket \<times> OrchestratorQueue \<Rightarrow> LocalBucket \<times> OrchestratorQueue \<Rightarrow> bool" where
  "quiet x y \<longleftrightarrow> oq_outstanding (snd y) = oq_outstanding (snd x)"

definition stream_live :: "StreamingRunConfig \<Rightarrow> streaming_manager \<Rightarrow> bool" where
  "stream_live c s \<longleftrightarrow> stream_ok c s \<and> steady quiet s"

definition has_room :: "StreamingRunConfig \<Rightarrow> string \<Rightarrow> streaming_manager \<Rightarrow> bool" where
  "has_room c hk s \<longleftrightarrow> stream_live c s \<and> int (depth (Some hk) (em_queue s)) < so_max_inflight_per_hotkey c"

lemma stream_live_cong:
  "em_quota s' = em_quota s \<Longrightarrow> em_queue s' = em_queue s \<Longrightarrow> em_pauses s' = em_pauses s \<Longrightarrow> stream_live c s' = stream_live c s"
  by (simp add: stream_live_def stream_ok_def steady_def)

lemma stream_live_upd [simp]:
  "stream_live c (s\<lparr>em_bucket := st\<rparr>) = stream_live c s" "stream_live c (s\<lparr>em_resolver := R\<rparr>) = stream_live c s"
  "stream_live c (s\<lparr>sm_emitted := js\<rparr>) = stream_live c s" "stream_live c (s\<lparr>sm_jobs := ms\<rparr>) = stream_live c s"
  "stream_live c (s\<lparr>sm_released := js\<rparr>) = stream_live c s" "stream_live c (s\<lparr>sm_iteration := i\<rparr>) = stream_live c s"
  "stream_live c (s\<lparr>sm_receipt_scan_cursor := t\<rparr>) = stream_live c s"
  by (rule stream_live_cong; simp)+

lemma stable_quiet: "stable quiet (stream_ok c)"
  by (auto simp: stable_def quiet_def stream_ok_def queue_inv_def depth_def)

lemma add_room:
  assumes "has_room c (qe_assigned_hotkey e) s"
  shows "int (depth (Some hk) (add e (em_queue s))) \<le> max 0 (so_max_inflight_per_hotkey c)"
proof -
  have "int (depth (Some hk) (em_queue s)) \<le> max 0 (so_max_inflight_per_hotkey c)"
    using assms unfolding has_room_def stream_live_def stream_ok_def by blast
  with assms depth_add [of hk e "em_queue s"] show ?thesis by (auto simp: has_room_def split: if_splits)
qed

lemma pick_has_room:
  assumes "stream_live c s" "pickS req (below_inflight (so_max_inflight_per_hotkey c)) s = (Inr w, s')"
  shows "has_room c (wi_hotkey_ss58 w) s'"
proof -
  have bk: "book_ok (em_quota s)" using assms(1) by (simp add: stream_live_def stream_ok_def)
  from assms(2) obtain qb where p: "pick_worker 1 req (below_inflight (so_max_inflight_per_hotkey c) (em_queue s)) (em_quota s) = Inr (w, qb)"
    and s': "s' = s\<lparr>em_quota := qb\<rparr>" by (auto simp: pickS_def split: sum.splits prod.splits)
  obtain a where "map_of (em_quota s) (wi_hotkey_ss58 w) = Some a" "account_eligible 1 (below_inflight (so_max_inflight_per_hotkey c) (em_queue s)) a"
    using pick_worker_spec [OF p bk] by blast
  then have "int (depth (Some (wi_hotkey_ss58 w)) (em_queue s)) < so_max_inflight_per_hotkey c"
    using book_ok_lookup [OF bk] by (auto simp: account_eligible_def below_inflight_def account_ok_def)
  with assms(1) pick_worker_charges [OF p bk] show ?thesis by (simp add: has_room_def stream_live_def stream_ok_def steady_def s')
qed

interpretation bp: emission_invariant c "stream_live c" "has_room c" for c
proof unfold_locales
  fix s :: streaming_manager and m :: JobManifestV3 and uri gu j
  assume r: "has_room c (mf_assigned_hotkey m) s"
  let ?e = "QueueEntry_from_manifest m uri gu"
  have "has_room c (qe_assigned_hotkey ?e) s" using r by (simp add: QueueEntry_from_manifest_def)
  then have "\<forall>hk. int (depth (Some hk) (add ?e (em_queue s))) \<le> max 0 (so_max_inflight_per_hotkey c)" by (blast intro: add_room)
  moreover have "stream_live c s" using r by (simp add: has_room_def)
  ultimately show "stream_live c (s\<lparr>sm_emitted := sm_emitted s @ [j], sm_jobs := AList.update j m (sm_jobs s), em_queue := add ?e (em_queue s)\<rparr>)"
    unfolding stream_live_def stream_ok_def steady_def using queue_inv_ops(1) by fastforce
next
  fix s s' :: streaming_manager and req w
  assume "stream_live c s" "pickS (Some req) (below_inflight (so_max_inflight_per_hotkey c)) s = (Inr w, s')"
  then show "has_room c (wi_hotkey_ss58 w) s'" by (rule pick_has_room)
qed (simp_all add: has_room_def)

text \<open>The other operations never add an entry, and never move the book out of its invariant.\<close>

lemma queue_shrinks:
  assumes "stream_live c s" "queue_inv q" "\<And>hk. depth (Some hk) q \<le> depth (Some hk) (em_queue s)" "book_ok qb"
    "s' = s\<lparr>em_queue := q, em_quota := qb, em_bucket := em_bucket s', em_resolver := em_resolver s', sm_emitted := sm_emitted s',
       sm_jobs := sm_jobs s', sm_receipt_scan_cursor := sm_receipt_scan_cursor s', sm_released := sm_released s', sm_iteration := sm_iteration s'\<rparr>"
  shows "stream_live c s'"
proof -
  have "int (depth (Some hk) q) \<le> max 0 (so_max_inflight_per_hotkey c)" for hk
    by (rule order_trans [OF of_nat_mono [OF assms(3)]]) (use assms(1) in \<open>auto simp: stream_live_def stream_ok_def\<close>)
  with assms(1,2,4) show ?thesis by (subst assms(5)) (auto simp: stream_live_def stream_ok_def steady_def)
qed

lemma live_parts: "stream_live c s \<Longrightarrow> book_ok (em_quota s) \<and> queue_inv (em_queue s)"
  by (simp add: stream_live_def stream_ok_def)

lemma depth_filter: "oq_outstanding q' = filter P (oq_outstanding q) \<Longrightarrow> depth (Some hk) q' \<le> depth (Some hk) q"
proof -
  have "length (filter f (filter P xs)) \<le> length (filter f xs)" for f and xs :: "(string \<times> QueueEntry) list"
    by (induction xs) auto
  then show "oq_outstanding q' = filter P (oq_outstanding q) \<Longrightarrow> ?thesis" by (simp add: depth_def)
qed

lemma depth_remove_many: "queue_inv q \<Longrightarrow> depth (Some hk) (snd (remove_many js q)) \<le> depth (Some hk) q"
  by (rule depth_filter [where P = "\<lambda>(k, _). k \<notin> set js"]) (simp add: remove_many_eq Let_def mark_dirty_def)

lemma depth_prune: "queue_inv q \<Longrightarrow> depth (Some hk) (snd (prune_expired now q)) \<le> depth (Some hk) q"
  by (rule depth_filter [where P = "\<lambda>je. \<not> expired now (snd je)"]) (simp add: prune_expired_eq Let_def mark_dirty_def)

lemma drain_keeps: "stream_live c s \<Longrightarrow> stream_live c (snd (drain_queue_via_receipts c s))"
proof -
  assume s: "stream_live c s"
  then have q: "queue_inv (em_queue s)" by (simp add: live_parts)
  define q1 where "q1 js = (if js \<noteq> [] then remove_many js (em_queue s) else (0, em_queue s))" for js
  have q1: "queue_inv (snd (q1 js))" "depth (Some hk) (snd (q1 js)) \<le> depth (Some hk) (em_queue s)" for js hk
    using q queue_inv_ops(3) depth_remove_many by (auto simp: q1_def)
  define js where "js = (let since = max 0 (sm_receipt_scan_cursor s - 5)
    in case scan_recent_receipt_job_ids (em_bucket s) (ec_netuid c) (ec_run_id c) (if since > 0 then Some since else None) 50000 of
         Inl _ \<Rightarrow> [] | Inr ids \<Rightarrow> ids)"
  have d: "snd (drain_queue_via_receipts c s) = s\<lparr>em_queue := snd (prune_expired (em_now s) (snd (q1 js))), sm_receipt_scan_cursor := em_now s\<rparr>"
    unfolding drain_queue_via_receipts_def Let_def js_def [symmetric, unfolded Let_def] q1_def [symmetric] by (simp split: prod.splits)
  show ?thesis
    by (rule queue_shrinks [OF s, of "snd (prune_expired (em_now s) (snd (q1 js)))" "em_quota s"])
      (use q1 queue_inv_ops(5) [OF q1(1)] s order_trans [OF depth_prune [OF q1(1)] q1(2)] in \<open>simp_all add: d live_parts\<close>)
qed

lemma release_jobs_ok: "book_ok qb \<Longrightarrow> book_ok (fold (\<lambda>(_, m). release_job m) js qb)"
  by (induction js arbitrary: qb) (auto simp: release_job_def release_ok)

lemma release_keeps:
  assumes "stream_live c s"
  shows "stream_live c (release_where epoch p s)" "stream_live c (release_epoch_quota epoch s)"
  using assms by (auto simp: release_where_def release_epoch_quota_def Let_def stream_live_def stream_ok_def steady_def intro!: release_jobs_ok)

lemma drop_keeps: "stream_live c s \<Longrightarrow> stream_live c (drop_epoch_jobs epoch s)"
  by (rule queue_shrinks [of c s "snd (remove_many (map fst (epoch_jobs epoch (sm_jobs s))) (em_queue s))" "em_quota s"])
    (auto simp: drop_epoch_jobs_def forget_epoch_jobs_def live_parts queue_inv_ops(3) intro: depth_remove_many)

abbreviation stays_live :: "StreamingRunConfig \<Rightarrow> (streaming_manager, 'r) sres \<Rightarrow> bool" where
  "stays_live c m \<equiv> valid (stream_live c) m (\<lambda>_. stream_live c) (stream_live c)"

lemma stays_bind: "stays_live c m \<Longrightarrow> (\<And>a. stays_live c (f a)) \<Longrightarrow> stays_live c (bindS m f)"
  by (rule valid_bind)

lemma stays_at: "(\<And>t. stays_live c (f t)) \<Longrightarrow> stays_live c (\<lambda>s. f s s)"
  by (simp add: valid_def)

lemma stays_modify: "(\<And>s. stream_live c s \<Longrightarrow> stream_live c (f s)) \<Longrightarrow> stays_live c (modifyS f)"
  by (simp add: valid_def modifyS_def)

lemma stays_read: "stays_live c (\<lambda>s. (f s, s))"
  by (auto simp: valid_def split: sum.splits)

lemma stays_drain: "stays_live c (drain_queue_via_receipts c)"
  by (rule validI) (metis drain_keeps snd_conv)+

lemma stays_poll:
  assumes "stays_live c body" "stays_live c late"
  shows "stays_live c (poll deadline body late)"
proof -
  have "valid (\<lambda>s. stream_ok c s \<and> steady quiet s) (poll deadline body late) (\<lambda>_. stream_live c) (stream_live c)"
    by (rule valid_poll [OF stable_quiet valid_weaken [OF assms(1)] valid_weaken [OF assms(2)]])
      (auto simp: stream_live_def split: option.splits)
  then show ?thesis by (rule valid_weaken) (auto simp: stream_live_def)
qed

lemma stays_discover:
  assumes "0 \<le> ee_base_quota E"
  shows "stays_live c (stream_discover_workers E c)"
  by (rule validI) (use assms update_workers_ok in \<open>auto simp: stream_discover_workers_def learn_workers_def bindS_def liftS_def quotaS_def
      modifyS_def stream_live_def stream_ok_def steady_def split: sum.splits prod.splits\<close>)

lemma stays_telemetry: "stays_live c (emit_epoch_telemetry E c sp epoch a b res)"
  unfolding emit_epoch_telemetry_def [abs_def]
  by (rule stays_at) (intro stays_bind stays_modify bp.lift_keeps, simp)

lemmas stays_step = stays_bind stays_modify bp.lift_keeps bp.epoch_keeps stays_drain stays_telemetry stays_read stays_poll

lemma stays_wait: "stays_live c (wait_epoch c pl epoch deadline)"
proof -
  have r: "stays_live c (epoch_round c pl epoch)"
    unfolding epoch_round_def by (intro stays_step) (auto intro!: stays_step release_keeps)
  show ?thesis unfolding wait_epoch_def by (intro stays_step r) (auto intro: release_keeps)
qed

lemma stays_workers:
  assumes "0 \<le> ee_base_quota E"
  shows "stays_live c (stream_wait_for_workers E c msg deadline)"
proof -
  have "stays_live c (\<lambda>s. if em_now s \<ge> deadline then (Inl (TimeoutError msg), s) else (Inr (), s))"
    by (simp add: valid_def)
  then show ?thesis unfolding stream_wait_for_workers_def by (intro stays_step stays_discover [OF assms])
qed

lemma stays_iff: "stays_live c m \<longleftrightarrow> (\<forall>s. stream_live c s \<longrightarrow> stream_live c (snd (m s)))"
  unfolding valid_def by (intro iff_allI imp_cong refl) (simp split: prod.splits sum.splits)

lemma stays_handle:
  assumes "stays_live c m" "\<And>r. stays_live c (h r)"
  shows "stays_live c (\<lambda>s. case m s of (r, s') \<Rightarrow> h r s')"
  using assms unfolding stays_iff by (simp add: case_prod_beta)

lemma stays_raise: "stays_live c (\<lambda>s. (r, s))"
  by (rule stays_read)

lemma stays_run_epoch:
  assumes "0 \<le> ee_base_quota E"
  shows "stays_live c (run_epoch E c pl deadline epoch)"
proof -
  let ?report = "\<lambda>t0 t result s. emit_epoch_telemetry E c (pl_params pl) epoch (t - t0) (em_now s - t) result s"
  have rep: "stays_live c (?report t0 t x)" for t0 t x by (rule stays_at) (rule stays_telemetry)
  have rest: "stays_live c (\<lambda>s1. let t_wait = em_now s1; report = ?report t0 t_wait
       in case wait_epoch c pl epoch (min deadline (t_wait + max 0 (so_epoch_timeout_sec c))) s1 of
            (Inr _, s2) \<Rightarrow> report ''ok'' s2
          | (Inl (TimeoutError msg), s2) \<Rightarrow> bindS (report ''timeout'') (\<lambda>_. liftS (Inl (TimeoutError msg))) s2
          | (Inl e, s2) \<Rightarrow> (Inl e, s2))" for t0
    unfolding Let_def
  proof (rule stays_at, rule stays_handle [OF stays_wait], goal_cases)
    case (1 t r)
    show ?case
    proof (cases r)
      case (Inl e)
      then show ?thesis by (cases e) (simp_all add: stays_bind [OF rep bp.lift_keeps] stays_raise)
    qed (simp add: rep)
  qed
  show ?thesis
    unfolding run_epoch_def
    by (intro stays_bind [OF stays_workers [OF assms]]) (rule stays_at, intro stays_bind [OF bp.epoch_keeps] rest)
qed

lemma stays_forget: "stream_live c s \<Longrightarrow> stream_live c (forget_epoch_jobs epoch s)"
  by (simp add: forget_epoch_jobs_def)

lemma stays_stress_body: "stays_live c (stress_body E c pl epoch)"
proof -
  have em: "stays_live c (stress_emitted E c pl epoch)"
    unfolding stays_iff
  proof (intro allI impI)
    fix s assume "stream_live c s"
    then have "stream_live c (snd (emit_epoch_telemetry E c (pl_params pl) epoch 0 0 ''stress_emitted'' (release_epoch_quota epoch s)))"
      using stays_telemetry [unfolded stays_iff] release_keeps(2) by blast
    then show "stream_live c (snd (stress_emitted E c pl epoch s))"
      by (auto simp: stress_emitted_def Let_def stays_forget split: prod.splits sum.splits)
  qed
  have h: "stays_live c (\<lambda>s2. case r of
        Inl (RuntimeError x) \<Rightarrow> (Inr None, drop_epoch_jobs epoch s2)
      | Inl e \<Rightarrow> (Inl e, s2)
      | Inr _ \<Rightarrow> bindS (stress_emitted E c pl epoch) (\<lambda>_. liftS (Inr None)) s2)" (is "stays_live c (?h r)") for r :: "unit res"
  proof (cases r)
    case (Inl e)
    then show ?thesis by (cases e) (simp_all add: stays_raise, simp add: stays_iff drop_keeps)
  qed (simp add: stays_bind [OF em bp.lift_keeps])
  have k: "stays_live c (\<lambda>s. case emit_epoch E c pl epoch True s of (r, s') \<Rightarrow> ?h r s')" by (rule stays_handle [OF bp.epoch_keeps h])
  show ?thesis
    unfolding stays_iff stress_body_def
  proof (intro allI impI)
    fix s assume "stream_live c s"
    from k [unfolded stays_iff, rule_format, OF drain_keeps [OF this]]
    show "stream_live c (snd (case emit_epoch E c pl epoch True (snd (drain_queue_via_receipts c s)) of
        (Inl (RuntimeError x), s2) \<Rightarrow> (Inr None, drop_epoch_jobs epoch s2)
      | (Inl e, s2) \<Rightarrow> (Inl e, s2)
      | (Inr _, s2) \<Rightarrow> bindS (stress_emitted E c pl epoch) (\<lambda>_. liftS (Inr None)) s2))" .
  qed
qed

lemma stays_stress:
  assumes "0 \<le> ee_base_quota E"
  shows "stays_live c (stress_loop E c pl deadline)"
proof -
  have "stream_live c (snd (stress_round E c pl s))" if s: "stream_live c s" for s
  proof -
    let ?s0 = "s\<lparr>sm_iteration := sm_iteration s + 1\<rparr>"
    have "stream_live c (snd (stream_discover_workers E c ?s0))"
      using stays_discover [OF assms, unfolded stays_iff] s by simp
    then show ?thesis using s stays_stress_body [unfolded stays_iff]
      by (auto simp: stress_round_def Let_def split: prod.splits sum.splits)
  qed
  then have r: "stays_live c (stress_round E c pl)" by (simp add: stays_iff)
  show ?thesis unfolding stress_loop_def by (intro stays_step stays_workers [OF assms] r) simp
qed

lemma stays_epochs:
  assumes "0 \<le> ee_base_quota E"
  shows "stays_live c (stream_epochs E c pl timeout_sec)"
proof -
  have m: "stays_live c (mapS (run_epoch E c pl deadline) es)" for deadline es
    by (rule valid_mapS [where I = "\<lambda>_ _. stream_live c"]) (rule stays_run_epoch [OF assms])
  have "stays_live c (bindS (mapS (run_epoch E c pl deadline) es) (\<lambda>_. liftS (Inr ())))" for deadline es
    by (rule stays_bind [OF m bp.lift_keeps])
  then show ?thesis using stays_stress [OF assms, unfolded stays_iff]
    unfolding stream_epochs_def [abs_def] Let_def stays_iff by simp
qed

lemma stays_bootstrap: "stays_live c (stream_bootstrap tk c)"
proof -
  have b: "stays_live c (bucketS f)" for f :: "(LocalBucket, unit) sres" by (simp add: stays_iff bucketS_def case_prod_beta)
  have i: "stays_live c (if x then liftS (Inr ()) else bucketS f)" for x and f :: "(LocalBucket, unit) sres"
    by (simp add: b bp.lift_keeps)
  show ?thesis unfolding stream_bootstrap_def [abs_def] by (rule stays_at, rule stays_bind [OF i stays_read])
qed

subsection \<open>Waiting for an epoch\<close>

text \<open>Of the epoch's jobs, \<open>js\<close> have been given back since state \<open>s\<close>, each once.\<close>

definition given_back :: "int \<Rightarrow> streaming_manager \<Rightarrow> streaming_manager \<Rightarrow> (string \<times> JobManifestV3) list \<Rightarrow> bool" where
  "given_back epoch s t js \<longleftrightarrow> sm_jobs t = sm_jobs s \<and> set js \<subseteq> set (epoch_jobs epoch (sm_jobs s)) \<and> map fst js = sm_released t \<and>
     distinct (map fst js) \<and> em_quota t = fold (\<lambda>(_, m). release_job m) js (em_quota s)"

lemma given_back_more:
  assumes "given_back epoch s t js" "distinct (map fst (sm_jobs s))"
  shows "given_back epoch s (release_where epoch p t) (js @ filter (\<lambda>(j, m). j \<notin> set (sm_released t) \<and> p m) (epoch_jobs epoch (sm_jobs s)))"
proof -
  have "distinct (map fst (filter P (epoch_jobs epoch (sm_jobs s))))" for P
    using assms(2) by (simp add: epoch_jobs_def distinct_map_filter)
  moreover have "set (map fst js) \<inter> set (map fst (filter (\<lambda>(j, m). j \<notin> set (sm_released t) \<and> p m) (epoch_jobs epoch (sm_jobs s)))) = {}"
    using assms(1) by (auto simp: given_back_def)
  ultimately show ?thesis using assms(1) by (auto simp: given_back_def release_where_def Let_def)
qed

lemma given_back_all:
  assumes "given_back epoch s t js" "distinct (map fst (sm_jobs s))"
  obtains js' where "mset js' = mset (epoch_jobs epoch (sm_jobs s))" "em_quota (release_where epoch (\<lambda>_. True) t) = fold (\<lambda>(_, m). release_job m) js' (em_quota s)"
proof -
  let ?js = "js @ filter (\<lambda>(j, m). j \<notin> set (sm_released t) \<and> True) (epoch_jobs epoch (sm_jobs s))"
  have g: "given_back epoch s (release_where epoch (\<lambda>_. True) t) ?js" by (rule given_back_more [OF assms])
  have d: "distinct (map fst (epoch_jobs epoch (sm_jobs s)))" using assms(2) by (simp add: epoch_jobs_def distinct_map_filter)
  have sub: "set js \<subseteq> set (epoch_jobs epoch (sm_jobs s))" "set (sm_released t) = fst ` set js"
    using assms(1) by (auto simp: given_back_def simp flip: set_map)
  have "set (epoch_jobs epoch (sm_jobs s)) \<subseteq> set ?js"
  proof
    fix x assume x: "x \<in> set (epoch_jobs epoch (sm_jobs s))"
    show "x \<in> set ?js"
    proof (cases "fst x \<in> fst ` set js")
      case True
      then obtain y where "y \<in> set js" "fst y = fst x" by auto
      with sub(1) x d have "y = x" by (auto simp: distinct_map inj_on_def)
      with \<open>y \<in> set js\<close> show ?thesis by simp
    next
      case False
      with x sub(2) show ?thesis by (simp add: case_prod_unfold)
    qed
  qed
  with sub(1) have "set ?js = set (epoch_jobs epoch (sm_jobs s))" by auto
  moreover have "distinct ?js" "distinct (epoch_jobs epoch (sm_jobs s))"
    using g d distinct_map [of fst ?js] distinct_map [of fst "epoch_jobs epoch (sm_jobs s)"] unfolding given_back_def by blast+
  ultimately have "mset ?js = mset (epoch_jobs epoch (sm_jobs s))" by (metis set_eq_iff_mset_eq_distinct)
  from this g [unfolded given_back_def] show thesis by (intro that [of ?js]) blast+
qed

lemma drain_frame:
  "em_bucket (snd (drain_queue_via_receipts c s)) = em_bucket s" "em_quota (snd (drain_queue_via_receipts c s)) = em_quota s"
  "sm_jobs (snd (drain_queue_via_receipts c s)) = sm_jobs s" "sm_released (snd (drain_queue_via_receipts c s)) = sm_released s"
  "\<exists>n. fst (drain_queue_via_receipts c s) = Inr n"
  by (simp_all add: drain_queue_via_receipts_def Let_def split: prod.splits)

text \<open>The results an epoch is for: the tail's output of every microbatch and, in training, the new weights.\<close>

definition epoch_results :: "StreamingRunConfig \<Rightarrow> pipeline \<Rightarrow> int \<Rightarrow> LocalBucket \<Rightarrow> string set" where
  "epoch_results c pl epoch st =
     {fwd_done_uri c st epoch (sp_n_stages (pl_params pl) - 1) mb | mb. int mb < sp_n_microbatches (pl_params pl)} \<union>
     (if sp_training (pl_params pl)
      then {epoch_weights_uri c st (epoch + 1) (pg_stage_id stage) | stage. stage \<in> set (pl_stages pl) \<and> pg_outer_graph stage \<noteq> None} else {})"

lemma mapE_length_filter: "mapE f xs = Inr ys \<Longrightarrow> length ys = length xs"
  by (induction xs arbitrary: ys) (auto simp: bindE_eq_Inr)

lemma mapE_all_true:
  assumes "mapE f xs = Inr ys" "length xs \<le> length (filter id ys)" "x \<in> set xs"
  shows "f x = Inr True"
proof -
  have "filter id ys = ys" using assms(1,2) mapE_length_filter length_filter_less [of _ ys id] by (metis filter_True not_le)
  then have "\<forall>y \<in> set ys. y" by (metis filter_id_conv id_apply)
  with assms(1,3) show ?thesis by (induction xs arbitrary: ys) (auto simp: bindE_eq_Inr)
qed

lemma results_there:
  assumes "done_count c (pl_params pl) epoch st = Inr n" "int n \<ge> sp_n_microbatches (pl_params pl)" "outer_done c pl epoch st = Inr True"
    "u \<in> epoch_results c pl epoch st"
  shows "LocalBucket_exists u st = Inr True"
proof -
  obtain oks where oks: "mapE (\<lambda>mb. LocalBucket_exists (fwd_done_uri c st epoch (sp_n_stages (pl_params pl) - 1) mb) st)
      [0..<nat (sp_n_microbatches (pl_params pl))] = Inr oks" "n = length (filter id oks)"
    using assms(1) by (auto simp: done_count_def bindE_eq_Inr)
  have "LocalBucket_exists (fwd_done_uri c st epoch (sp_n_stages (pl_params pl) - 1) mb) st = Inr True"
    if "int mb < sp_n_microbatches (pl_params pl)" for mb
    by (rule mapE_all_true [OF oks(1)]) (use that oks(2) assms(2) in auto)
  moreover have "LocalBucket_exists (epoch_weights_uri c st (epoch + 1) (pg_stage_id stage)) st = Inr True"
    if "sp_training (pl_params pl)" "stage \<in> set (pl_stages pl)" "pg_outer_graph stage \<noteq> None" for stage
    using assms(3) that by (auto simp: outer_done_def all_exist_iff)
  ultimately show ?thesis using assms(4) by (auto simp: epoch_results_def split: if_splits)
qed

text \<open>Every job of the epoch has been given back exactly once since \<open>s\<close>.\<close>

definition settled :: "int \<Rightarrow> streaming_manager \<Rightarrow> streaming_manager \<Rightarrow> bool" where
  "settled epoch s t \<longleftrightarrow> (\<exists>js. mset js = mset (epoch_jobs epoch (sm_jobs s)) \<and> em_quota t = fold (\<lambda>(_, m). release_job m) js (em_quota s))"

lemma given_back_settles:
  "given_back epoch s t js \<Longrightarrow> distinct (map fst (sm_jobs s)) \<Longrightarrow> settled epoch s (release_where epoch (\<lambda>_. True) t)"
  unfolding settled_def by (erule given_back_all) auto

lemma given_back_cong:
  "sm_jobs t' = sm_jobs t \<Longrightarrow> sm_released t' = sm_released t \<Longrightarrow> em_quota t' = em_quota t \<Longrightarrow> given_back epoch s t' js = given_back epoch s t js"
  by (simp add: given_back_def)

lemma exists_error: "LocalBucket_exists u st = Inl e \<Longrightarrow> e \<noteq> TimeoutError msg"
  by (auto simp: LocalBucket_exists_def parse_uri_def Let_def bindE_def split: sum.splits if_splits prod.splits)

lemma mapE_error: "mapE f xs = Inl e \<Longrightarrow> \<exists>x \<in> set xs. f x = Inl e"
  by (induction xs) (auto simp: bindE_def split: sum.splits)

lemma all_exist_error: "all_exist us st = Inl e \<Longrightarrow> e \<noteq> TimeoutError msg"
  by (induction us) (auto simp: bindE_def exists_error split: sum.splits if_splits)

lemma epoch_round_outcome:
  assumes g: "given_back epoch s t js" and d: "distinct (map fst (sm_jobs s))" and r: "epoch_round c pl epoch t = (r, t')"
  shows "r = Inr None \<Longrightarrow> \<exists>js. given_back epoch s t' js"
    "r = Inr (Some v) \<Longrightarrow> settled epoch s t' \<and> (\<forall>u \<in> epoch_results c pl epoch (em_bucket t'). LocalBucket_exists u (em_bucket t') = Inr True)"
    "r \<noteq> Inl (TimeoutError msg)"
proof -
  obtain n0 t1 where 1: "drain_queue_via_receipts c t = (Inr n0, t1)" using drain_frame(5) [of c t] by (metis prod.collapse)
  have b1: "em_bucket t1 = em_bucket t" and g1: "given_back epoch s t1 js"
    using drain_frame [of c t] 1 g given_back_cong [of t1 t epoch s js] by simp_all
  let ?t2 = "release_where epoch (job_outputs_present (em_bucket t1)) t1"
  obtain js2 where g2: "given_back epoch s ?t2 js2" using given_back_more [OF g1 d] by blast
  let ?t3 = "release_where epoch (\<lambda>_. True) ?t2"
  have b3: "em_bucket ?t3 = em_bucket t1" by (simp add: release_where_def Let_def)
  obtain n4 t4 where 4: "drain_queue_via_receipts c ?t3 = (Inr n4, t4)" using drain_frame(5) [of c ?t3] by (metis prod.collapse)
  have b4: "em_bucket t4 = em_bucket t1" and q4: "em_quota t4 = em_quota ?t3" using drain_frame [of c ?t3] 4 b3 by simp_all
  have s4: "settled epoch s t4" using given_back_settles [OF g2 d] q4 by (simp add: settled_def)
  consider (err) e where "done_count c (pl_params pl) epoch (em_bucket t1) = Inl e" "r = Inl e"
    | (err2) n e where "done_count c (pl_params pl) epoch (em_bucket t1) = Inr n" "outer_done c pl epoch (em_bucket t1) = Inl e" "r = Inl e"
    | (ok) n where "done_count c (pl_params pl) epoch (em_bucket t1) = Inr n" "outer_done c pl epoch (em_bucket t1) = Inr True"
        "sp_n_microbatches (pl_params pl) \<le> int n" "r = Inr (Some ())" "t' = t4"
    | (none) "r = Inr None" "t' = ?t2"
    using r 1 4 by (cases "done_count c (pl_params pl) epoch (em_bucket t1)"; cases "outer_done c pl epoch (em_bucket t1)")
      (auto simp: epoch_round_def bindS_def modifyS_def liftS_def split: if_splits)
  then have "(r = Inr None \<longrightarrow> (\<exists>js. given_back epoch s t' js)) \<and>
      (r = Inr (Some v) \<longrightarrow> settled epoch s t' \<and> (\<forall>u \<in> epoch_results c pl epoch (em_bucket t'). LocalBucket_exists u (em_bucket t') = Inr True)) \<and>
      r \<noteq> Inl (TimeoutError msg)"
  proof cases
    case err
    then show ?thesis by (auto simp: done_count_def bindE_def dest!: mapE_error exists_error split: sum.splits)
  next
    case err2
    then show ?thesis by (auto simp: outer_done_def dest: all_exist_error split: if_splits)
  next
    case ok
    then show ?thesis using s4 results_there [OF ok(1,3,2)] b4 by simp
  next
    case none
    then show ?thesis using g2 by auto
  qed
  then show "r = Inr None \<Longrightarrow> \<exists>js. given_back epoch s t' js"
    "r = Inr (Some v) \<Longrightarrow> settled epoch s t' \<and> (\<forall>u \<in> epoch_results c pl epoch (em_bucket t'). LocalBucket_exists u (em_bucket t') = Inr True)"
    "r \<noteq> Inl (TimeoutError msg)" by blast+
qed

subsection \<open>Reservations of a failed stress round\<close>

text \<open>All compute units reserved in a quota book.\<close>

definition reserved :: "QuotaBook \<Rightarrow> pyfloat" where
  "reserved qb = sum_list (map (ma_inflight_cu \<circ> snd) qb)"

lemma reserved_update:
  "map_of qb k = Some a \<Longrightarrow> reserved (AList.update k a' qb) = reserved qb - ma_inflight_cu a + ma_inflight_cu a'"
  by (induction qb) (auto simp: reserved_def)

text \<open>\<open>d\<close> bounds how far the reservations may fall behind the jobs emitted; \<open>k\<close> are picked but not recorded yet.\<close>

definition charged :: "pyfloat \<Rightarrow> pyfloat \<Rightarrow> streaming_manager \<Rightarrow> bool" where
  "charged d k s \<longleftrightarrow> book_ok (em_quota s) \<and> queue_inv (em_queue s) \<and> of_nat (length (sm_emitted s)) + k \<le> reserved (em_quota s) + d"

interpretation ch: emission_invariant c "charged d 0" "\<lambda>_. charged d 1" for c d
proof unfold_locales
  fix s s' :: streaming_manager and req w
  assume s: "charged d 0 s" and p: "pickS (Some req) (below_inflight (so_max_inflight_per_hotkey c)) s = (Inr w, s')"
  have bk: "book_ok (em_quota s)" using s by (simp add: charged_def)
  from p obtain qb where q: "pick_worker 1 (Some req) (below_inflight (so_max_inflight_per_hotkey c) (em_queue s)) (em_quota s) = Inr (w, qb)"
    and s': "s' = s\<lparr>em_quota := qb\<rparr>" by (auto simp: pickS_def split: sum.splits prod.splits)
  obtain a where "map_of (em_quota s) (wi_hotkey_ss58 w) = Some a"
    "qb = AList.update (wi_hotkey_ss58 w) (a\<lparr>ma_inflight_cu := ma_inflight_cu a + 1\<rparr>) (em_quota s)"
    using pick_worker_spec [OF q bk] by blast
  then have "reserved qb = reserved (em_quota s) + 1" by (simp add: reserved_update)
  with s pick_worker_charges [OF q bk] show "charged d 1 s'" by (simp add: charged_def s')
qed (auto simp: charged_def queue_inv_ops(1))

lemma drain_queue_inv: "queue_inv (em_queue s) \<Longrightarrow> queue_inv (em_queue (snd (drain_queue_via_receipts c s)))"
  by (auto simp: drain_queue_via_receipts_def Let_def split: prod.splits if_splits)
    (metis queue_inv_ops(3) queue_inv_ops(5) snd_conv)+

lemma drain_broker: "em_broker (snd (drain_queue_via_receipts c s)) = em_broker s"
  by (simp add: drain_queue_via_receipts_def Let_def split: prod.splits)

lemma drain_empty: "oq_outstanding (em_queue s) = [] \<Longrightarrow> oq_outstanding (em_queue (snd (drain_queue_via_receipts c s))) = []"
proof -
  assume e: "oq_outstanding (em_queue s) = []"
  have r: "oq_outstanding (snd (remove_many js q)) = []" "oq_outstanding (snd (prune_expired now q)) = []" if "oq_outstanding q = []" for js now q
  proof -
    have "queue_inv q" using that by (simp add: queue_inv_def)
    with that show "oq_outstanding (snd (remove_many js q)) = []" "oq_outstanding (snd (prune_expired now q)) = []"
      by (simp_all add: remove_many_eq prune_expired_eq Let_def)
  qed
  show ?thesis using e r
    by (auto simp: drain_queue_via_receipts_def Let_def split: prod.splits if_splits) (metis snd_conv)+
qed

lemma drain_emitted: "sm_emitted (snd (drain_queue_via_receipts c s)) = sm_emitted s"
  by (simp add: drain_queue_via_receipts_def Let_def split: prod.splits)

subsection \<open>Samples\<close>

definition stream_env :: emit_env where
  "stream_env = \<lparr>ee_platform = reference_platform, ee_nacl = None, ee_btcli = (\<lambda>_. Inl (FileNotFoundError ''btcli'')), ee_ss58 = None,
     ee_presign = None, ee_base_quota = 8\<rparr>"

definition stream_config :: StreamingRunConfig where
  "stream_config =
     \<lparr>ec_netuid = 3, ec_run_id = ''run'', ec_owner_secret = ''owner'', ec_owner_signer = None, ec_grant_mode = ''direct'', ec_grant_ttl_sec = 600,
      ec_assignment_secret = ''a'', ec_assignment_crypto = ''dev'', ec_network = ''finney'', ec_discovery_backend = ''bucket'',
      ec_discovery_heartbeat_ttl_sec = Some 30, so_task = ''pipe_demo'', so_max_epochs = 1, so_crypto_policy = None, so_stress_emit = False,
      so_stress_emit_interval = 0, so_stress_epoch_base = 1000000, so_stress_pin_weights_epoch = 0, so_stress_skip_bootstrap_if_present = True,
      so_stress_max_iterations = 0, so_epoch_timeout_sec = 300, so_max_inflight_per_hotkey = 8\<rparr>"

definition stream_stage :: PipelineStage where
  "stream_stage =
     \<lparr>pg_stage_id = 0, pg_forward_graph = \<lparr>gh_inputs = [], gh_outputs = [], gh_params = [], gh_ops = [], gh_ir_version = 1\<rparr>, pg_backward_graph = None,
      pg_outer_graph = None, pg_forward_input_specs = [], pg_forward_output_specs = [(''y'', [2], ''float32'')], pg_weights_input_name = None,
      pg_weights_shape = [], pg_weights_dtype = ''float32'', pg_backward_takes_loss_target = False, pg_backward_emits_dx_in = False\<rparr>"

text \<open>One stage without training and two microbatches.\<close>

definition stream_pipeline :: pipeline where
  "stream_pipeline =
     \<lparr>pl_stages = [stream_stage],
      pl_params = \<lparr>sp_n_stages = 1, sp_n_microbatches = 2, sp_max_epochs = 1, sp_common_params = [], sp_forward_params = [], sp_deadline_seconds = 60,
        sp_training = False, sp_target_static_uri = None, sp_lr = 1, sp_static_inputs = [], sp_tokens_per_mb = 0, sp_gpu_class_price_per_hour = []\<rparr>\<rparr>"

definition stream_task :: streaming_task where
  "stream_task = \<lparr>stk_bootstrap = (\<lambda>_ _. liftS (Inr ())), stk_build_streaming_inputs = (\<lambda>_ _. Inr stream_pipeline)\<rparr>"

text \<open>A manager that knows one worker with room for one job.\<close>

definition small_book :: QuotaBook where
  "small_book = [(''A'', (MinerAccount_new 1 (bare_identity ''A''))\<lparr>ma_workers := [(''w0'', sample_worker ''A'' ''w0'')]\<rparr>)]"

definition stream_start :: streaming_manager where
  "stream_start =
     \<lparr>em_bucket = LocalBucket_init ''b'', em_quota = small_book, em_queue = OrchestratorQueue_init 3 ''run'' ''train'' 32, em_resolver = None,
      em_broker = None, em_now = 100, em_pauses = [\<lparr>ps_now = 101, ps_effect = id\<rparr>], sm_emitted = [], sm_jobs = [],
      sm_receipt_scan_cursor = 100, sm_released = [], sm_iteration = 0\<rparr>"

lemma small_book_ok: "book_ok small_book"
  by (simp add: small_book_def book_ok_def account_ok_def MinerAccount_new_def sample_worker_def max_inflight_cu_def)

lemma stream_start_live: "stream_live stream_config stream_start"
  by (simp add: stream_live_def stream_ok_def stream_start_def small_book_ok queue_inv_def OrchestratorQueue_init_def depth_def stream_config_def
      steady_def quiet_def)

subsection \<open>Properties\<close>

text \<open>
  C15. The streaming orchestrator never overloads a miner: over bootstrap and all epochs of a run, stress mode included, whatever
  fails on the way and whatever the miners do to the bucket, every hotkey has at most \<^verbatim>\<open>max_inflight_per_hotkey\<close> jobs outstanding at
  every moment at which others can look (the end of every prefix of pauses), and the quota book stays consistent. The
  manager must start that way, and no other process adds entries to its queue.
\<close>

theorem stream_respects_backpressure:
  assumes "0 \<le> ee_base_quota E" "book_ok (em_quota s)" "queue_inv (em_queue s)" "steady quiet s"
    and "\<And>hk. int (depth (Some hk) (em_queue s)) \<le> max 0 (so_max_inflight_per_hotkey c)"
  shows "(\<forall>hk. int (depth (Some hk) (em_queue (snd (bindS (stream_bootstrap tk c) (\<lambda>pl. stream_epochs E c pl timeout_sec) s)))) \<le> max 0 (so_max_inflight_per_hotkey c)) \<and>
    book_ok (em_quota (snd (bindS (stream_bootstrap tk c) (\<lambda>pl. stream_epochs E c pl timeout_sec) s)))"
proof -
  have "stream_live c s" using assms(2-5) by (simp add: stream_live_def stream_ok_def)
  moreover have "stays_live c (bindS (stream_bootstrap tk c) (\<lambda>pl. stream_epochs E c pl timeout_sec))"
    by (rule stays_bind [OF stays_bootstrap stays_epochs [OF assms(1)]])
  ultimately have "stream_live c (snd (bindS (stream_bootstrap tk c) (\<lambda>pl. stream_epochs E c pl timeout_sec) s))"
    unfolding stays_iff by blast
  then show ?thesis by (auto simp: stream_live_def stream_ok_def)
qed

theorem stream_respects_backpressure_witness:
  "int (depth (Some ''A'') (em_queue (snd (bindS (stream_bootstrap stream_task stream_config)
     (\<lambda>pl. stream_epochs stream_env stream_config pl 60) stream_start)))) \<le> 8"
proof -
  have "0 \<le> ee_base_quota stream_env" by (simp add: stream_env_def)
  from stream_respects_backpressure [OF this, of stream_start stream_config stream_task 60] stream_start_live show ?thesis
    by (auto simp: stream_live_def stream_ok_def) (simp add: stream_config_def)
qed

text \<open>
  C16. Waiting for an epoch: it returns only when the tail's output of every microbatch and, in training, the new weights of every
  stage with an outer step exist; and whether it returns or times out, the reservation of every job of the epoch
  has been given back exactly once, whatever the miners wrote meanwhile.
\<close>

theorem wait_settles_epoch:
  assumes d: "distinct (map fst (sm_jobs s))" and w: "wait_epoch c pl epoch deadline s = (r, s')"
  shows "(r = Inr () \<longrightarrow> settled epoch s s' \<and> (\<forall>u \<in> epoch_results c pl epoch (em_bucket s'). LocalBucket_exists u (em_bucket s') = Inr True)) \<and>
    (\<forall>msg. r = Inl (TimeoutError msg) \<longrightarrow> settled epoch s s')"
proof -
  let ?s = "s\<lparr>sm_released := []\<rparr>"
  let ?late = "bindS (modifyS (release_where epoch (\<lambda>_. True))) (\<lambda>_. liftS (Inl (TimeoutError (''streaming epoch '' @ show_int epoch @ '' timed out''))))"
  have p: "poll deadline (epoch_round c pl epoch) ?late ?s = (r, s')"
    using w by (simp add: wait_epoch_def bindS_def [of "modifyS _"] modifyS_def [of "\<lambda>s. s\<lparr>sm_released := []\<rparr>"])
  let ?I = "\<lambda>t. \<exists>js. given_back epoch s t js"
  have i: "?I ?s" by (rule exI [of _ "[]"]) (simp add: given_back_def)
  have b: "?I t'" if "?I t" "epoch_round c pl epoch t = (Inr None, t')" for t t'
    using that epoch_round_outcome(1) [OF _ d] by blast
  have z: "?I (resume p ps t)" if "?I t" for t p ps
    using that by (simp add: given_back_def resume_def split: prod.splits)
  show ?thesis
  proof (rule poll_ends_inv [where I = ?I, OF p i b z])
    fix t v assume "?I t" "epoch_round c pl epoch t = (Inr (Some v), s')" "r = Inr v"
    then show ?thesis using epoch_round_outcome(2) [OF _ d] by blast
  next
    fix t e assume t: "?I t" "epoch_round c pl epoch t = (Inl e, s')" and r: "r = Inl e"
    have "e \<noteq> TimeoutError msg" for msg using t epoch_round_outcome(3) [OF _ d] by blast
    with r show ?thesis by simp
  next
    fix t assume "?I t" "?late t = (r, s')"
    then show ?thesis using given_back_settles [OF _ d] by (auto simp: bindS_def modifyS_def liftS_def)
  qed simp_all
qed

definition tail_bucket :: LocalBucket where
  "tail_bucket =
     \<lparr>lb_bucket = ''b'', lb_objects =
        [((''b'', ''runs/run/streaming/epoch=7/stage=0/outputs/mb=0/done.json''), ([123], 0)),
         ((''b'', ''runs/run/streaming/epoch=7/stage=0/outputs/mb=1/done.json''), ([123], 0))]\<rparr>"

definition stream_waiting :: streaming_manager where
  "stream_waiting = stream_start\<lparr>em_bucket := tail_bucket, sm_jobs :=
     [(''j-e7-s0-mb0-fwd'', sample_manifest), (''j-e7-s0-mb1-fwd'', sample_manifest), (''j-e70-s0-mb0-fwd'', sample_manifest)]\<rparr>"

lemma sample_wait: "\<exists>s'. wait_epoch stream_config stream_pipeline 7 160 stream_waiting = (Inr (), s')"
proof -
  let ?s = "stream_waiting\<lparr>sm_released := []\<rparr>"
  obtain n t where t: "drain_queue_via_receipts stream_config ?s = (Inr n, t)" using drain_frame(5) [of stream_config ?s] by (metis prod.collapse)
  have b: "em_bucket t = tail_bucket" using drain_frame(1) [of stream_config ?s] t by (simp add: stream_waiting_def)
  have d: "done_count stream_config (pl_params stream_pipeline) 7 tail_bucket = Inr 2" by code_simp
  have o: "outer_done stream_config stream_pipeline 7 tail_bucket = Inr True" by (simp add: outer_done_def stream_pipeline_def)
  let ?t3 = "release_where 7 (\<lambda>_. True) (release_where 7 (job_outputs_present tail_bucket) t)"
  obtain k t4 where t4: "drain_queue_via_receipts stream_config ?t3 = (Inr k, t4)" using drain_frame(5) [of stream_config ?t3] by (metis prod.collapse)
  have "epoch_round stream_config stream_pipeline 7 ?s = (Inr (Some ()), t4)"
    using t t4 b d o by (simp add: epoch_round_def bindS_def modifyS_def liftS_def stream_pipeline_def)
  moreover have "em_now ?s < 160" by (simp add: stream_waiting_def stream_start_def)
  ultimately show ?thesis by (simp add: wait_epoch_def bindS_def modifyS_def poll_def liftS_def)
qed

theorem wait_settles_epoch_witness:
  "\<exists>s'. wait_epoch stream_config stream_pipeline 7 160 stream_waiting = (Inr (), s') \<and> settled 7 stream_waiting s'"
proof -
  obtain s' where s': "wait_epoch stream_config stream_pipeline 7 160 stream_waiting = (Inr (), s')" using sample_wait by blast
  have "distinct (map fst (sm_jobs stream_waiting))" by (simp add: stream_waiting_def)
  from wait_settles_epoch [OF this s'] s' show ?thesis by blast
qed

text \<open>
  C39. A stress round in which some job of the epoch finds no miner gives nothing back: its jobs are dropped from the
  manager's list and from the queue, so no later round can release them, while for each of them the reservation made when
  it was emitted stays in the quota book. Failing rounds thus use the quota up.
\<close>

theorem failed_stress_round_leaks:
  assumes "book_ok (em_quota s)" "queue_inv (em_queue s)"
    and "emit_epoch E c pl epoch True (snd (drain_queue_via_receipts c s)) = (Inl (RuntimeError msg), s2)"
  shows "\<exists>s'. stress_body E c pl epoch s = (Inr None, s') \<and> epoch_jobs epoch (sm_jobs s') = [] \<and>
    fst ` set (epoch_jobs epoch (sm_jobs s2)) \<inter> fst ` set (oq_outstanding (em_queue s')) = {} \<and>
    reserved (em_quota s) + (of_nat (length (sm_emitted s')) - of_nat (length (sm_emitted s))) \<le> reserved (em_quota s')"
proof -
  let ?d = "of_nat (length (sm_emitted s)) - reserved (em_quota s)" and ?s1 = "snd (drain_queue_via_receipts c s)"
  have "charged ?d 0 ?s1"
    using assms(1,2) drain_frame(2) [of c s] drain_queue_inv [of s c] drain_emitted [of c s] by (simp add: charged_def)
  from valid_Inl [OF ch.epoch_keeps this assms(3)] have s2: "charged ?d 0 s2" .
  then have q: "queue_inv (em_queue s2)" by (simp add: charged_def)
  have "stress_body E c pl epoch s = (Inr None, drop_epoch_jobs epoch s2)" using assms(3) by (simp add: stress_body_def)
  moreover have "epoch_jobs epoch (sm_jobs (drop_epoch_jobs epoch s2)) = []"
    by (auto simp: drop_epoch_jobs_def forget_epoch_jobs_def epoch_jobs_def filter_empty_conv)
  moreover have "fst ` set (epoch_jobs epoch (sm_jobs s2)) \<inter> fst ` set (oq_outstanding (em_queue (drop_epoch_jobs epoch s2))) = {}"
    using q by (auto simp: drop_epoch_jobs_def forget_epoch_jobs_def remove_many_eq Let_def mark_dirty_def) force+
  moreover have "reserved (em_quota s) + (of_nat (length (sm_emitted (drop_epoch_jobs epoch s2))) - of_nat (length (sm_emitted s))) \<le>
      reserved (em_quota (drop_epoch_jobs epoch s2))"
    using s2 by (simp add: charged_def drop_epoch_jobs_def forget_epoch_jobs_def)
  ultimately show ?thesis by blast
qed

text \<open>The sample: the first of two jobs takes the only free unit, the second finds no worker.\<close>

definition full_book :: QuotaBook where
  "full_book = [(''A'', (MinerAccount_new 1 (bare_identity ''A''))\<lparr>ma_workers := [(''w0'', sample_worker ''A'' ''w0'')], ma_inflight_cu := 1\<rparr>)]"

lemma small_requirements: "resource_requirements (dict_merge (dict_merge [] []) [(''epoch'', JInt e), (''stage'', JInt sid), (''mb'', JInt b), (''mb_seed'', JInt x)]) =
    Inr default_requirements"
  by (simp add: resource_requirements_def dict_merge_def get_or_def or_else_def dict_or_empty_def ResourceRequirements_from_dict_def default_requirements_def)

lemma small_pick:
  "oq_outstanding q = [] \<Longrightarrow> pick_worker 1 (Some default_requirements) (below_inflight 8 q) small_book = Inr (sample_worker ''A'' ''w0'', full_book)"
  by (simp add: pick_worker_def small_book_def full_book_def account_eligible_def available_quota_def max_inflight_cu_def below_inflight_def depth_def
      MinerAccount_new_def sample_satisfies account_priority_def candidate_key_def sort_key_def insort_key_def)

lemma full_pick:
  "pick_worker 1 (Some default_requirements) flt full_book = Inl (RuntimeError ''no miner workers have quota for assignment'')"
  by (simp add: pick_worker_def full_book_def account_eligible_def available_quota_def max_inflight_cu_def MinerAccount_new_def)

lemma hex_no_newline: "CHR 0x0A \<notin> set (sha256_hex m)"
proof -
  have "hex_nibble n \<in> set ''0123456789abcdef''" if "n < 16" for n
    unfolding hex_nibble_def by (rule nth_mem) (use that in simp)
  then have n: "hex_nibble n \<noteq> CHR 0x0A" if "n < 16" for n using that by fastforce
  have "CHR 0x0A \<notin> set (to_hex bs)" for bs
    using n [OF byte_nibbles(1), symmetric] n [OF byte_nibbles(2), symmetric] by (simp add: to_hex_def)
  then show ?thesis by (simp add: sha256_hex_def)
qed

lemma sample_uris:
  "parse_uri (join_uri ''b'' (graph_key 3 ''run'' (sha256_hex x))) = Inr (''b'', graph_key 3 ''run'' (sha256_hex x))"
  "\<exists>k. parse_uri (join_uri ''b'' (job_manifest_key 3 ''run'' (fwd_job_id 7 0 0))) = Inr (''b'', k)"
proof -
  show "parse_uri (join_uri ''b'' (graph_key 3 ''run'' (sha256_hex x))) = Inr (''b'', graph_key 3 ''run'' (sha256_hex x))"
    by (rule parse_join_uri) (auto simp: bucket_name_def object_key_def graph_key_def graphs_prefix_def run_root_def hex_no_newline)
  show "\<exists>k. parse_uri (join_uri ''b'' (job_manifest_key 3 ''run'' (fwd_job_id 7 0 0))) = Inr (''b'', k)"
    by (rule exI [of _ "''v3/netuid=3/jobs/run/j-e7-s0-mb0-fwd/manifest.json''"]) code_simp
qed

lemma sample_graph_stored:
  assumes "lb_bucket (em_bucket s) = ''b''"
  shows "\<exists>st. put_graph stream_env stream_config g s = (Inr (), s\<lparr>em_bucket := st\<rparr>) \<and> lb_bucket st = ''b''"
proof -
  let ?u = "join_uri ''b'' (graph_key 3 ''run'' (graph_id reference_platform g))"
  have u: "uri_of s (graph_key (ec_netuid stream_config) (ec_run_id stream_config) (graph_id (ee_platform stream_env) g)) = ?u"
    using assms by (simp add: uri_of_def uri_for_key_def stream_config_def stream_env_def)
  have p: "parse_uri ?u = Inr (''b'', graph_key 3 ''run'' (graph_id reference_platform g))"
    unfolding graph_id_def by (rule sample_uris)
  then obtain x where x: "LocalBucket_exists ?u (em_bucket s) = Inr x" by (simp add: LocalBucket_exists_def)
  obtain st where st: "LocalBucket_put (ns_of (em_now s)) ?u (Graph_to_canonical_json reference_platform g) (em_bucket s) = Inr st" "lb_bucket st = ''b''"
    using p assms by (auto simp: LocalBucket_put_def)
  show ?thesis
  proof (cases x)
    case True
    with u x assms show ?thesis by (intro exI [of _ "em_bucket s"]) (simp add: put_graph_def bindS_def existsS_def liftS_def)
  next
    case False
    with u x st show ?thesis by (intro exI [of _ st]) (simp add: put_graph_def bindS_def existsS_def putS_def stream_env_def)
  qed
qed

lemma sample_first_job:
  assumes "lb_bucket (em_bucket s) = ''b''" "em_broker s = None" "em_quota s = small_book" "oq_outstanding (em_queue s) = []"
  shows "\<exists>m s'. emit_pipe_forward stream_env stream_config (pl_params stream_pipeline) 7 0 stream_stage None s = (Inr m, s') \<and>
    em_quota s' = full_book \<and> length (sm_emitted s') = Suc (length (sm_emitted s))"
proof -
  let ?u = "join_uri ''b'' (job_manifest_key 3 ''run'' (fwd_job_id 7 0 0))"
  obtain k where k: "parse_uri ?u = Inr (''b'', k)" using sample_uris(2) by blast
  have pub: "\<exists>s'. stream_publish stream_env stream_config (fwd_job_id 7 0 0) ?u m t = (Inr m, s') \<and> em_quota s' = em_quota t \<and>
      length (sm_emitted s') = Suc (length (sm_emitted t))" if "em_broker t = None" for m t
    using that k by (simp add: stream_publish_def bindS_def put_jsonS_def put_json_def LocalBucket_put_def emit_assignment_grant_def
        modifyS_def queueS_def liftS_def)
  have u: "uri_of (s\<lparr>em_quota := full_book\<rparr>) (job_manifest_key (ec_netuid stream_config) (ec_run_id stream_config) (fwd_job_id 7 0 0)) = ?u"
    using assms(1) by (simp add: uri_of_def uri_for_key_def stream_config_def)
  have r: "resolve_output_crypto (stream_output_ref stream_config a b) w = Inr (stream_output_ref stream_config a b)" for w a b
    by (simp add: resolve_output_crypto_def stream_output_ref_def stream_ref_def stream_config_def)
  have f: "so_max_inflight_per_hotkey stream_config = 8" by (simp add: stream_config_def)
  have "\<exists>m. emit_pipe_forward stream_env stream_config (pl_params stream_pipeline) 7 0 stream_stage None s =
      stream_publish stream_env stream_config (fwd_job_id 7 0 0) ?u m (s\<lparr>em_quota := full_book\<rparr>)"
    using assms(3) small_pick [OF assms(4)]
    by (simp add: emit_pipe_forward_def Let_def upstream_refs_def stream_stage_def bindS_def [of "liftS _"] bindS_def [of "pickS _ _"] liftS_def
        stream_emit_job_def stream_pipeline_def small_requirements pickS_def f r u) (rule exI, rule refl)
  then obtain m where "emit_pipe_forward stream_env stream_config (pl_params stream_pipeline) 7 0 stream_stage None s =
      stream_publish stream_env stream_config (fwd_job_id 7 0 0) ?u m (s\<lparr>em_quota := full_book\<rparr>)" by blast
  with pub [of "s\<lparr>em_quota := full_book\<rparr>" m] assms(2) show ?thesis by auto
qed

lemma sample_second_job:
  assumes "em_quota s = full_book"
  shows "emit_pipe_forward stream_env stream_config (pl_params stream_pipeline) 7 1 stream_stage None s =
    (Inl (RuntimeError ''no miner workers have quota for assignment''), s)"
  using assms by (simp add: emit_pipe_forward_def Let_def upstream_refs_def stream_stage_def bindS_def liftS_def stream_emit_job_def stream_pipeline_def
      small_requirements pickS_def full_pick)

lemma sample_round_fails:
  "\<exists>s2. emit_epoch stream_env stream_config stream_pipeline 7 True (snd (drain_queue_via_receipts stream_config stream_start)) =
     (Inl (RuntimeError ''no miner workers have quota for assignment''), s2) \<and> length (sm_emitted s2) = 1"
proof -
  let ?s = "snd (drain_queue_via_receipts stream_config stream_start)"
  have s: "lb_bucket (em_bucket ?s) = ''b''" "em_broker ?s = None" "em_quota ?s = small_book" "oq_outstanding (em_queue ?s) = []" "sm_emitted ?s = []"
    using drain_frame [of stream_config stream_start] drain_broker drain_emitted drain_empty
    by (simp_all add: stream_start_def LocalBucket_init_def OrchestratorQueue_init_def)
  obtain st where g: "put_graph stream_env stream_config (pg_forward_graph stream_stage) ?s = (Inr (), ?s\<lparr>em_bucket := st\<rparr>)" "lb_bucket st = ''b''"
    using sample_graph_stored [OF s(1)] by blast
  obtain m s1 where f: "emit_pipe_forward stream_env stream_config (pl_params stream_pipeline) 7 0 stream_stage None (?s\<lparr>em_bucket := st\<rparr>) = (Inr m, s1)"
    "em_quota s1 = full_book" "length (sm_emitted s1) = 1"
    using sample_first_job [of "?s\<lparr>em_bucket := st\<rparr>"] s g(2) by auto
  have sp: "sp_n_microbatches (pl_params stream_pipeline) = 2" "pl_stages stream_pipeline = [stream_stage]"
      "stage_graphs stream_stage = [pg_forward_graph stream_stage]"
    by (simp_all add: stream_pipeline_def stage_graphs_def stream_stage_def map_filter_def)
  have mb: "List.product [0..<2] [stream_stage] = [(0, stream_stage), (1, stream_stage)]" by (simp add: upt_rec)
  show ?thesis
    using g(1) f sample_second_job [OF f(2)] by (simp add: emit_epoch_def Let_def sp mb bindS_def liftS_def)
qed

theorem failed_stress_round_leaks_witness:
  "\<exists>s'. stress_body stream_env stream_config stream_pipeline 7 stream_start = (Inr None, s') \<and> epoch_jobs 7 (sm_jobs s') = [] \<and>
     reserved (em_quota stream_start) = 0 \<and> 1 \<le> reserved (em_quota s')"
proof -
  obtain s2 where s2: "emit_epoch stream_env stream_config stream_pipeline 7 True (snd (drain_queue_via_receipts stream_config stream_start)) =
      (Inl (RuntimeError ''no miner workers have quota for assignment''), s2)" "length (sm_emitted s2) = 1"
    using sample_round_fails by blast
  have i: "book_ok (em_quota stream_start)" "queue_inv (em_queue stream_start)" using stream_start_live by (simp_all add: live_parts)
  have "sm_emitted (drop_epoch_jobs 7 s2) = sm_emitted s2" by (simp add: drop_epoch_jobs_def forget_epoch_jobs_def)
  moreover have "stress_body stream_env stream_config stream_pipeline 7 stream_start = (Inr None, drop_epoch_jobs 7 s2)"
    using s2(1) by (simp add: stress_body_def)
  moreover have "sm_emitted stream_start = []" "reserved (em_quota stream_start) = 0"
    by (simp_all add: stream_start_def reserved_def small_book_def MinerAccount_new_def)
  ultimately show ?thesis using failed_stress_round_leaks [OF i s2(1)] s2(2) by auto
qed

end
