(* ===== verification/Streaming_Telemetry.thy ===== *)
theory Streaming_Telemetry
  imports Streaming "HOL-Library.Multiset"
begin

text \<open>
  \<^verbatim>\<open>teuton_orchestrator/streaming_telemetry.py\<close>: summing up the receipts of a run. Shown: the summary is the reference sums
  over the receipts, the stored report does not depend on their order (up to the rounding of floats), every job is counted for exactly one worker, and time is
  split into compute and the rest without loss when no receipt claims more compute than it took.
\<close>

record StreamingTelemetrySummary =
  ts_n_jobs :: int
  ts_active_workers :: int
  ts_pool_busy_sec :: pyfloat
  ts_pool_compute_sec :: pyfloat
  ts_pool_io_sec :: pyfloat
  ts_claimed_bytes_read :: int
  ts_claimed_bytes_written :: int
  ts_per_worker_jobs :: "(string \<times> int) list"

definition compute_share_of_busy :: "StreamingTelemetrySummary \<Rightarrow> pyfloat" where
  "compute_share_of_busy t = ts_pool_compute_sec t / max (ts_pool_busy_sec t) (1 / 1000000000)"

definition StreamingTelemetrySummary_to_dict :: "StreamingTelemetrySummary \<Rightarrow> dict" where
  "StreamingTelemetrySummary_to_dict t =
     [(''n_jobs'', JInt (ts_n_jobs t)), (''active_workers'', JInt (ts_active_workers t)), (''pool_busy_sec'', JFloat (py_round 6 (ts_pool_busy_sec t))),
      (''pool_compute_sec'', JFloat (py_round 6 (ts_pool_compute_sec t))), (''pool_io_sec'', JFloat (py_round 6 (ts_pool_io_sec t))),
      (''compute_share_of_busy'', JFloat (py_round 6 (compute_share_of_busy t))), (''claimed_bytes_read'', JInt (ts_claimed_bytes_read t)),
      (''claimed_bytes_written'', JInt (ts_claimed_bytes_written t)), (''per_worker_jobs'', JObj (counts_dict (sort_key fst (ts_per_worker_jobs t))))]"

definition receipt_elapsed :: "JobReceiptV3 \<Rightarrow> pyfloat" where
  "receipt_elapsed r = max 0 (rc_finished_unix r - rc_started_unix r)"

text \<open>One round of the loop over the receipts.\<close>

definition add_receipt :: "JobReceiptV3 \<Rightarrow> StreamingTelemetrySummary \<Rightarrow> StreamingTelemetrySummary" where
  "add_receipt r t =
     (let worker = wi_worker_id (rc_worker r); elapsed = receipt_elapsed r
      in t\<lparr>ts_n_jobs := ts_n_jobs t + 1, ts_pool_busy_sec := ts_pool_busy_sec t + elapsed,
           ts_pool_compute_sec := ts_pool_compute_sec t + rc_compute_sec r,
           ts_pool_io_sec := ts_pool_io_sec t + max 0 (elapsed - rc_compute_sec r),
           ts_claimed_bytes_read := ts_claimed_bytes_read t + rc_claimed_bytes_read r,
           ts_claimed_bytes_written := ts_claimed_bytes_written t + rc_claimed_bytes_written r,
           ts_per_worker_jobs := AList.update worker ((case map_of (ts_per_worker_jobs t) worker of None \<Rightarrow> 0 | Some n \<Rightarrow> n) + 1) (ts_per_worker_jobs t)\<rparr>)"

definition summarize_receipts :: "JobReceiptV3 list \<Rightarrow> StreamingTelemetrySummary" where
  "summarize_receipts receipts =
     (let t = fold add_receipt receipts
        \<lparr>ts_n_jobs = 0, ts_active_workers = 0, ts_pool_busy_sec = 0, ts_pool_compute_sec = 0, ts_pool_io_sec = 0, ts_claimed_bytes_read = 0,
         ts_claimed_bytes_written = 0, ts_per_worker_jobs = []\<rparr>
      in t\<lparr>ts_active_workers := int (length (ts_per_worker_jobs t))\<rparr>)"

subsection \<open>Counting by key\<close>

text \<open>The table of \<open>tally\<close> holds each key that occurs once, with the number of its occurrences.\<close>

definition counts :: "string multiset \<Rightarrow> (string \<times> int) list \<Rightarrow> bool" where
  "counts M d \<longleftrightarrow> distinct (map fst d) \<and> map_of d = (\<lambda>k. if k \<in># M then Some (int (count M k)) else None)"

lemma counts_empty: "counts {#} []"
  by (simp add: counts_def)

lemma counts_add:
  assumes "counts M d"
  shows "counts (add_mset k M) (AList.update k ((case map_of d k of None \<Rightarrow> 0 | Some n \<Rightarrow> n) + 1) d)"
proof -
  have "(case map_of d k of None \<Rightarrow> 0 | Some n \<Rightarrow> n) = int (count M k)"
    using assms by (auto simp: counts_def count_eq_zero_iff)
  then show ?thesis using assms by (auto simp: counts_def distinct_update update_conv fun_eq_iff)
qed

lemma counts_total:
  assumes "counts M d"
  shows "sum_list (map snd d) = int (size M)" "set (map fst d) = set_mset M"
proof -
  show k: "set (map fst d) = set_mset M"
  proof -
    have "set (map fst d) = dom (map_of d)" by (simp add: dom_map_of_conv_image_fst)
    also have "\<dots> = set_mset M" using assms by (auto simp: counts_def split: if_splits)
    finally show ?thesis .
  qed
  have d: "distinct d" "inj_on fst (set d)" using assms by (simp_all add: counts_def distinct_map)
  have v: "snd x = int (count M (fst x))" if "x \<in> set d" for x
  proof -
    have "map_of d (fst x) = Some (snd x)" using that assms map_of_is_SomeI [of d "fst x" "snd x"] by (simp only: counts_def prod.collapse)
    with assms show ?thesis by (auto simp: counts_def split: if_splits)
  qed
  have "sum_list (map snd d) = (\<Sum>x \<in> set d. int (count M (fst x)))"
    using d(1) v by (simp add: sum_list_distinct_conv_sum_set cong: sum.cong)
  also have "\<dots> = (\<Sum>k \<in> set_mset M. int (count M k))"
    using sum.reindex [OF d(2), of "\<lambda>k. int (count M k)"] k by simp
  finally show "sum_list (map snd d) = int (size M)" by (simp add: size_multiset_overloaded_eq)
qed

subsection \<open>The summary\<close>

lemma summary_sums:
  "ts_n_jobs (summarize_receipts rs) = int (length rs)"
  "ts_pool_busy_sec (summarize_receipts rs) = (\<Sum>r\<leftarrow>rs. receipt_elapsed r)"
  "ts_pool_compute_sec (summarize_receipts rs) = (\<Sum>r\<leftarrow>rs. rc_compute_sec r)"
  "ts_pool_io_sec (summarize_receipts rs) = (\<Sum>r\<leftarrow>rs. max 0 (receipt_elapsed r - rc_compute_sec r))"
  "ts_claimed_bytes_read (summarize_receipts rs) = (\<Sum>r\<leftarrow>rs. rc_claimed_bytes_read r)"
  "ts_claimed_bytes_written (summarize_receipts rs) = (\<Sum>r\<leftarrow>rs. rc_claimed_bytes_written r)"
proof -
  have "ts_n_jobs (fold add_receipt rs t) = ts_n_jobs t + int (length rs) \<and>
      ts_pool_busy_sec (fold add_receipt rs t) = ts_pool_busy_sec t + (\<Sum>r\<leftarrow>rs. receipt_elapsed r) \<and>
      ts_pool_compute_sec (fold add_receipt rs t) = ts_pool_compute_sec t + (\<Sum>r\<leftarrow>rs. rc_compute_sec r) \<and>
      ts_pool_io_sec (fold add_receipt rs t) = ts_pool_io_sec t + (\<Sum>r\<leftarrow>rs. max 0 (receipt_elapsed r - rc_compute_sec r)) \<and>
      ts_claimed_bytes_read (fold add_receipt rs t) = ts_claimed_bytes_read t + (\<Sum>r\<leftarrow>rs. rc_claimed_bytes_read r) \<and>
      ts_claimed_bytes_written (fold add_receipt rs t) = ts_claimed_bytes_written t + (\<Sum>r\<leftarrow>rs. rc_claimed_bytes_written r)" for t
    by (induction rs arbitrary: t) (simp_all add: add_receipt_def Let_def)
  then show "ts_n_jobs (summarize_receipts rs) = int (length rs)"
    "ts_pool_busy_sec (summarize_receipts rs) = (\<Sum>r\<leftarrow>rs. receipt_elapsed r)"
    "ts_pool_compute_sec (summarize_receipts rs) = (\<Sum>r\<leftarrow>rs. rc_compute_sec r)"
    "ts_pool_io_sec (summarize_receipts rs) = (\<Sum>r\<leftarrow>rs. max 0 (receipt_elapsed r - rc_compute_sec r))"
    "ts_claimed_bytes_read (summarize_receipts rs) = (\<Sum>r\<leftarrow>rs. rc_claimed_bytes_read r)"
    "ts_claimed_bytes_written (summarize_receipts rs) = (\<Sum>r\<leftarrow>rs. rc_claimed_bytes_written r)"
    by (simp_all add: summarize_receipts_def Let_def)
qed

text \<open>For every worker the number of its receipts; they add up to the number of jobs.\<close>

lemma summary_per_worker:
  "counts (image_mset (wi_worker_id \<circ> rc_worker) (mset rs)) (ts_per_worker_jobs (summarize_receipts rs))"
  "ts_active_workers (summarize_receipts rs) = int (card (wi_worker_id ` rc_worker ` set rs))"
  "sum_list (map snd (ts_per_worker_jobs (summarize_receipts rs))) = ts_n_jobs (summarize_receipts rs)"
proof -
  let ?w = "wi_worker_id \<circ> rc_worker"
  have "counts (image_mset ?w (mset rs) + M) (ts_per_worker_jobs (fold add_receipt rs t))" if "counts M (ts_per_worker_jobs t)" for M t
    using that
  proof (induction rs arbitrary: t M)
    case (Cons r rs)
    have "counts (add_mset (?w r) M) (ts_per_worker_jobs (add_receipt r t))"
      using counts_add [OF Cons.prems, of "?w r"] by (simp add: add_receipt_def Let_def)
    from Cons.IH [OF this] show ?case by simp
  qed simp
  from this [of "{#}"] counts_empty show c: "counts (image_mset ?w (mset rs)) (ts_per_worker_jobs (summarize_receipts rs))"
    by (simp add: summarize_receipts_def Let_def)
  note total = counts_total [OF c]
  have "length (ts_per_worker_jobs (summarize_receipts rs)) = card (?w ` set rs)"
    using total(2) c by (metis counts_def distinct_card length_map set_image_mset set_mset_mset)
  then show "ts_active_workers (summarize_receipts rs) = int (card (wi_worker_id ` rc_worker ` set rs))"
    by (simp add: summarize_receipts_def Let_def image_comp)
  show "sum_list (map snd (ts_per_worker_jobs (summarize_receipts rs))) = ts_n_jobs (summarize_receipts rs)"
    using total(1) by (simp add: summary_sums)
qed

lemma summary_time_split:
  assumes "\<forall>r \<in> set rs. rc_compute_sec r \<le> receipt_elapsed r"
  shows "ts_pool_compute_sec (summarize_receipts rs) + ts_pool_io_sec (summarize_receipts rs) = ts_pool_busy_sec (summarize_receipts rs)"
proof -
  have "(\<Sum>r\<leftarrow>rs. rc_compute_sec r) + (\<Sum>r\<leftarrow>rs. max 0 (receipt_elapsed r - rc_compute_sec r)) = (\<Sum>r\<leftarrow>rs. receipt_elapsed r)"
    using assms by (induction rs) auto
  then show ?thesis using summary_sums [of rs] by simp
qed

text \<open>The stored report does not depend on the order in which the receipts are read.\<close>

lemma counts_unique: "counts M d \<Longrightarrow> counts M d' \<Longrightarrow> sort_key fst d = sort_key fst d'"
proof -
  assume c: "counts M d" "counts M d'"
  then have "set d = set d'" by (auto simp: counts_def) (metis map_of_eq_Some_iff)+
  with c show ?thesis
    by (intro map_sorted_distinct_set_unique [of fst]) (auto simp: counts_def distinct_map intro: inj_on_subset)
qed

lemma summary_order:
  assumes "mset rs = mset rs'"
  shows "StreamingTelemetrySummary_to_dict (summarize_receipts rs) = StreamingTelemetrySummary_to_dict (summarize_receipts rs')"
proof -
  have s: "(\<Sum>r\<leftarrow>rs. f r) = (\<Sum>r\<leftarrow>rs'. f r)" for f :: "JobReceiptV3 \<Rightarrow> 'b :: comm_monoid_add"
    using assms by (metis mset_map sum_mset_sum_list)
  have "sort_key fst (ts_per_worker_jobs (summarize_receipts rs)) = sort_key fst (ts_per_worker_jobs (summarize_receipts rs'))"
    using summary_per_worker(1) [of rs] summary_per_worker(1) [of rs'] assms by (metis counts_unique)
  moreover have "length rs = length rs'" "set rs = set rs'" using assms by (metis size_mset, metis set_mset_mset)
  ultimately show ?thesis
    using s [of receipt_elapsed] s [of rc_compute_sec] s [of "\<lambda>r. max 0 (receipt_elapsed r - rc_compute_sec r)"] s [of rc_claimed_bytes_read] s [of rc_claimed_bytes_written]
    by (simp add: StreamingTelemetrySummary_to_dict_def compute_share_of_busy_def summary_sums summary_per_worker(2))
qed

end
