(* ===== verification/Tensor_IO.thy ===== *)
theory Tensor_IO
  imports Transport Reference_Platform
begin

text \<open>
  \<^verbatim>\<open>teuton_runtime/tensor_io.py\<close>: the wire format of tensors, a length prefix, a JSON header with shape and type, and the raw
  elements. Torch and numpy (element types, the bytes of a tensor and back) are a parameter. Shown: decoding undoes encoding for every
  supported type, which is the law about the codec that the shard model assumes, and a blob cut short or extended is refused.
\<close>

subsection \<open>Element types\<close>

datatype torch_dtype = Float32 | Float16 | BFloat16 | Int32 | Int64 | Int8 | UInt8 | TorchBool | OtherDtype string

definition TORCH_TO_WIRE :: "(torch_dtype \<times> string) list" where
  "TORCH_TO_WIRE =
     [(Float32, ''float32''), (Float16, ''float16''), (BFloat16, ''bfloat16''), (Int32, ''int32''), (Int64, ''int64''), (Int8, ''int8''),
      (UInt8, ''uint8''), (TorchBool, ''bool'')]"

definition WIRE_TO_TORCH :: "(string \<times> torch_dtype) list" where
  "WIRE_TO_TORCH = map (\<lambda>(k, v). (v, k)) TORCH_TO_WIRE"

definition DTYPE_BYTES :: "(string \<times> int) list" where
  "DTYPE_BYTES =
     [(''float32'', 4), (''float16'', 2), (''bfloat16'', 2), (''int32'', 4), (''int64'', 8), (''int8'', 1), (''uint8'', 1), (''bool'', 1)]"

text \<open>What the codec uses of torch and numpy: the bytes of a tensor, as it is or seen as unsigned integers, and the way back.\<close>

record 't torch_lib =
  tl_dtype :: "'t \<Rightarrow> torch_dtype"
  tl_shape :: "'t \<Rightarrow> int list"
  tl_uint16_bytes :: "'t \<Rightarrow> bytes"
  tl_uint8_bytes :: "'t \<Rightarrow> bytes"
  tl_numpy_bytes :: "'t \<Rightarrow> bytes"
  tl_from_uint16 :: "int list \<Rightarrow> bytes \<Rightarrow> 't res"
  tl_from_uint8 :: "int list \<Rightarrow> bytes \<Rightarrow> 't res"
  tl_from_numpy :: "string \<Rightarrow> int list \<Rightarrow> bytes \<Rightarrow> 't res"

definition wire_dtype :: "'t torch_lib \<Rightarrow> 't \<Rightarrow> string res" where
  "wire_dtype T t = (case map_of TORCH_TO_WIRE (tl_dtype T t) of None \<Rightarrow> Inl (ValueError ''unsupported torch dtype for wire'') | Some w \<Rightarrow> Inr w)"

definition torch_dtype_of :: "string \<Rightarrow> torch_dtype res" where
  "torch_dtype_of wire = (case map_of WIRE_TO_TORCH wire of None \<Rightarrow> Inl (ValueError (''unsupported wire dtype: '' @ wire)) | Some d \<Rightarrow> Inr d)"

definition dtype_bytes :: "string \<Rightarrow> int res" where
  "dtype_bytes wire = (case map_of DTYPE_BYTES wire of None \<Rightarrow> Inl (ValueError (''unsupported wire dtype: '' @ wire)) | Some n \<Rightarrow> Inr n)"

definition expected_payload_bytes :: "int list \<Rightarrow> string \<Rightarrow> int res" where
  "expected_payload_bytes shape dtype = bindE (dtype_bytes dtype) (\<lambda>n. Inr (prod_list shape * n))"

subsection \<open>Encoding\<close>

text \<open>\<^verbatim>\<open>struct.pack("<I", n)\<close> and \<^verbatim>\<open>struct.unpack("<I", b)\<close>.\<close>

definition pack_u32 :: "nat \<Rightarrow> bytes res" where
  "pack_u32 n = (if n < 2 ^ 32 then Inr [of_nat n, of_nat (n div 2 ^ 8), of_nat (n div 2 ^ 16), of_nat (n div 2 ^ 24)] else Inl (StructError ''I format''))"

definition unpack_u32 :: "bytes \<Rightarrow> nat" where
  "unpack_u32 b = unat (b ! 0) + 2 ^ 8 * unat (b ! 1) + 2 ^ 16 * unat (b ! 2) + 2 ^ 24 * unat (b ! 3)"

definition tensor_header :: "int list \<Rightarrow> string \<Rightarrow> dict" where
  "tensor_header shape wd = [(''shape'', JList (map JInt shape)), (''dtype'', JStr wd), (''layout'', JStr ''row_major''), (''version'', JInt 1)]"

definition header_json :: "platform \<Rightarrow> int list \<Rightarrow> string \<Rightarrow> bytes" where
  "header_json P shape wd = utf8_encode (dumps P True (JObj (tensor_header shape wd)))"

definition tensor_payload :: "'t torch_lib \<Rightarrow> 't \<Rightarrow> bytes" where
  "tensor_payload T t =
     (if tl_dtype T t = BFloat16 then tl_uint16_bytes T t else if tl_dtype T t = TorchBool then tl_uint8_bytes T t else tl_numpy_bytes T t)"

definition encode_tensor :: "platform \<Rightarrow> 't torch_lib \<Rightarrow> 't \<Rightarrow> bytes res" where
  "encode_tensor P T t =
     bindE (wire_dtype T t) (\<lambda>wd.
       let header = header_json P (tl_shape T t) wd; payload = tensor_payload T t
       in bindE (expected_payload_bytes (tl_shape T t) wd) (\<lambda>expected.
          if int (length payload) \<noteq> expected then Inl (AssertionError ''payload size mismatch'')
          else bindE (pack_u32 (length header)) (\<lambda>n. Inr (n @ header @ payload))))"

subsection \<open>Decoding\<close>

text \<open>\<^verbatim>\<open>v == 1\<close> for a JSON value: also the float and \<^verbatim>\<open>True\<close>.\<close>

definition is_one :: "json \<Rightarrow> bool" where
  "is_one v \<longleftrightarrow> v = JInt 1 \<or> v = JFloat 1 \<or> v = JBool True"

text \<open>A JSON value used as a key of the type table: lists and objects are not hashable.\<close>

fun dtype_key :: "json \<Rightarrow> string res" where
  "dtype_key (JStr w) = Inr w"
| "dtype_key (JList _) = Inl TypeError"
| "dtype_key (JObj _) = Inl TypeError"
| "dtype_key _ = Inl (ValueError ''unsupported wire dtype'')"

definition tensor_of :: "'t torch_lib \<Rightarrow> string \<Rightarrow> int list \<Rightarrow> bytes \<Rightarrow> 't res" where
  "tensor_of T wd shape payload =
     (if wd = ''bfloat16'' then tl_from_uint16 T shape payload else if wd = ''bool'' then tl_from_uint8 T shape payload
      else tl_from_numpy T wd shape payload)"

definition decode_tensor :: "platform \<Rightarrow> 't torch_lib \<Rightarrow> bytes \<Rightarrow> 't res" where
  "decode_tensor P T blob =
     (if length blob < 4 then Inl (ValueError ''blob too short for header_len prefix'')
      else let header_len = unpack_u32 (take 4 blob)
           in if 4 + header_len > length blob then Inl (ValueError ''blob truncated in header'')
              else bindE (bindE (bindE (utf8_decode (take header_len (drop 4 blob))) (loads P)) as_mapping) (\<lambda>header.
                   if \<not> is_one (get_none header ''version'') then Inl (ValueError ''unsupported wire version'')
                   else if get_or header ''layout'' (JStr ''row_major'') \<noteq> JStr ''row_major'' then Inl (ValueError ''unsupported layout'')
                   else bindE (bindE (get_req header ''shape'') ints_of) (\<lambda>shape.
                        bindE (get_req header ''dtype'') (\<lambda>d.
                        let payload = drop (4 + header_len) blob
                        in bindE (dtype_key d) (\<lambda>wd. bindE (expected_payload_bytes shape wd) (\<lambda>expected.
                           if int (length payload) \<noteq> expected then Inl (ValueError ''payload truncated'')
                           else tensor_of T wd shape payload))))))"

subsection \<open>The codec\<close>

lemma unpack_pack: "pack_u32 n = Inr b \<Longrightarrow> length b = 4 \<and> unpack_u32 (take 4 (b @ x)) = n"
proof -
  assume p: "pack_u32 n = Inr b"
  then have n: "n < 2 ^ 32" and b: "b = [of_nat n, of_nat (n div 2 ^ 8), of_nat (n div 2 ^ 16), of_nat (n div 2 ^ 24)]"
    by (auto simp: pack_u32_def split: if_splits)
  have m: "unat (of_nat k :: 8 word) = k mod 2 ^ 8" for k by (simp add: unat_of_nat)
  define n1 n2 n3 where "n1 = n div 2 ^ 8" and "n2 = n1 div 2 ^ 8" and "n3 = n2 div 2 ^ 8"
  have d: "n div 2 ^ 16 = n2" "n div 2 ^ 24 = n3" by (simp_all add: n1_def n2_def n3_def div_mult2_eq [symmetric])
  have "n3 mod 2 ^ 8 = n3" using n by (simp add: d(2) [symmetric] less_mult_imp_div_less)
  moreover have "n = n mod 2 ^ 8 + 2 ^ 8 * n1" "n1 = n1 mod 2 ^ 8 + 2 ^ 8 * n2" "n2 = n2 mod 2 ^ 8 + 2 ^ 8 * n3"
    by (simp_all add: n1_def n2_def n3_def)
  moreover have "a0 + 2 ^ 8 * a1 + 2 ^ 16 * a2 + 2 ^ 24 * a3 = a" if "a = a0 + 2 ^ 8 * b1" "b1 = a1 + 2 ^ 8 * b2" "b2 = a2 + 2 ^ 8 * a3"
    for a a0 a1 a2 a3 b1 b2 :: nat using that by simp
  ultimately have "n mod 2 ^ 8 + 2 ^ 8 * (n1 mod 2 ^ 8) + 2 ^ 16 * (n2 mod 2 ^ 8) + 2 ^ 24 * (n3 mod 2 ^ 8) = n"
    by metis
  then show ?thesis unfolding b d n1_def [symmetric] unpack_u32_def by (simp add: m)
qed

text \<open>Reading a header back, whatever follows it.\<close>

lemma header_loads:
  assumes "float_codec P"
  shows "bindE (bindE (utf8_decode (header_json P shape wd)) (loads P)) as_mapping = Inr (norm_dict (tensor_header shape wd))"
proof -
  have "wf_json (JObj (tensor_header shape wd))" by (auto simp: tensor_header_def wf_dict_def)
  then show ?thesis
    using loads_dumps [OF assms, of "JObj (tensor_header shape wd)" True] by (simp add: header_json_def norm_JObj_dict)
qed

lemma header_fields:
  "get_or (norm_dict (tensor_header shape wd)) ''version'' v = JInt 1" "get_or (norm_dict (tensor_header shape wd)) ''layout'' v = JStr ''row_major''"
  "get_req (norm_dict (tensor_header shape wd)) ''dtype'' = Inr (JStr wd)"
  "bindE (get_req (norm_dict (tensor_header shape wd)) ''shape'') ints_of = Inr shape"
proof -
  have "mapE py_int (map JInt xs) = Inr xs" for xs by (induction xs) simp_all
  then show "bindE (get_req (norm_dict (tensor_header shape wd)) ''shape'') ints_of = Inr shape"
    by (simp add: get_req_def map_of_norm_dict tensor_header_def ints_of_def comp_def)
qed (simp_all add: get_or_def get_req_def map_of_norm_dict tensor_header_def)

text \<open>What is decoded from a header that was encoded and any payload.\<close>

lemma decode_parts:
  assumes "float_codec P" "pack_u32 (length (header_json P shape wd)) = Inr n"
  shows "decode_tensor P T (n @ header_json P shape wd @ payload) =
    bindE (expected_payload_bytes shape wd) (\<lambda>expected.
      if int (length payload) \<noteq> expected then Inl (ValueError ''payload truncated'') else tensor_of T wd shape payload)"
proof -
  let ?h = "header_json P shape wd" and ?blob = "n @ header_json P shape wd @ payload"
  have n: "length n = 4" "unpack_u32 (take 4 ?blob) = length ?h" using unpack_pack [OF assms(2)] by blast+
  have p: "\<not> length ?blob < 4" "\<not> 4 + length ?h > length ?blob" "take (length ?h) (drop 4 ?blob) = ?h" "drop (4 + length ?h) ?blob = payload"
    using n(1) by simp_all
  show ?thesis
    unfolding decode_tensor_def Let_def n(2) p(3,4) header_loads [OF assms(1)] using p(1,2) by (simp add: header_fields is_one_def)
qed

text \<open>What torch and numpy promise: the bytes of a tensor have the size of its type and shape, and the tensor can be read back from them.\<close>

definition torch_laws :: "'t torch_lib \<Rightarrow> bool" where
  "torch_laws T \<longleftrightarrow> (\<forall>t wd. wire_dtype T t = Inr wd \<longrightarrow>
     expected_payload_bytes (tl_shape T t) wd = Inr (int (length (tensor_payload T t))) \<and> tensor_of T wd (tl_shape T t) (tensor_payload T t) = Inr t)"

lemma encode_parts:
  assumes "encode_tensor P T t = Inr b"
  obtains wd n where "wire_dtype T t = Inr wd" "pack_u32 (length (header_json P (tl_shape T t) wd)) = Inr n"
    "b = n @ header_json P (tl_shape T t) wd @ tensor_payload T t"
    "expected_payload_bytes (tl_shape T t) wd = Inr (int (length (tensor_payload T t)))"
  using assms by (auto simp: encode_tensor_def Let_def bindE_eq_Inr split: if_splits)

lemma codec_inverse:
  assumes "float_codec P" "torch_laws T" "wire_dtype T t = Inr wd" "length (header_json P (tl_shape T t) wd) < 2 ^ 32"
  shows "\<exists>b. encode_tensor P T t = Inr b \<and> length b = 4 + length (header_json P (tl_shape T t) wd) + length (tensor_payload T t) \<and>
    decode_tensor P T b = Inr t"
proof -
  obtain n where n: "pack_u32 (length (header_json P (tl_shape T t) wd)) = Inr n" using assms(4) by (simp add: pack_u32_def)
  have laws: "expected_payload_bytes (tl_shape T t) wd = Inr (int (length (tensor_payload T t)))" "tensor_of T wd (tl_shape T t) (tensor_payload T t) = Inr t"
    using assms(2,3) by (simp_all add: torch_laws_def)
  then have "encode_tensor P T t = Inr (n @ header_json P (tl_shape T t) wd @ tensor_payload T t)"
    using assms(3) n by (simp add: encode_tensor_def Let_def)
  moreover have "decode_tensor P T (n @ header_json P (tl_shape T t) wd @ tensor_payload T t) = Inr t"
    unfolding decode_parts [OF assms(1) n] by (simp add: laws)
  ultimately show ?thesis using unpack_pack [OF n] by simp
qed


text \<open>
  Damaged blobs are refused: an encoded tensor cut short anywhere, or with bytes appended, makes \<^verbatim>\<open>decode_tensor\<close> raise \<^verbatim>\<open>ValueError\<close>,
  whatever torch does.
\<close>

theorem damaged_tensor_rejected:
  assumes "float_codec P" "encode_tensor P T t = Inr b" "b' = take k b \<and> k < length b \<or> b' = b @ x \<and> x \<noteq> []"
  shows "\<exists>msg. decode_tensor P T' b' = Inl (ValueError msg)"
proof -
  obtain wd n where wd: "pack_u32 (length (header_json P (tl_shape T t) wd)) = Inr n"
    and b: "b = n @ header_json P (tl_shape T t) wd @ tensor_payload T t"
    and e: "expected_payload_bytes (tl_shape T t) wd = Inr (int (length (tensor_payload T t)))"
    by (rule encode_parts [OF assms(2)])
  let ?h = "header_json P (tl_shape T t) wd"
  have n: "length n = 4" "unpack_u32 n = length ?h" using unpack_pack [OF wd, of "[]"] by auto
  have wrong: ?thesis if "b' = n @ ?h @ y" "length y \<noteq> length (tensor_payload T t)" for y
    unfolding that(1) decode_parts [OF assms(1) wd] using that(2) e by simp
  from assms(3) show ?thesis
  proof
    assume c: "b' = take k b \<and> k < length b"
    consider "k < 4" | "4 \<le> k" "k < 4 + length ?h" | "4 + length ?h \<le> k" by linarith
    then show ?thesis
    proof cases
      case 1
      with c show ?thesis by (simp add: decode_tensor_def)
    next
      case 2
      then have "take 4 b' = n" "length b' = k" using c n(1) by (auto simp: b min_def)
      with 2 show ?thesis by (simp add: decode_tensor_def Let_def n(2))
    next
      case 3
      then have "b' = n @ ?h @ take (k - 4 - length ?h) (tensor_payload T t)" using c n(1) by (simp add: b)
      then show ?thesis by (rule wrong) (use c 3 n(1) in \<open>auto simp: b min_def\<close>)
    qed
  next
    assume "b' = b @ x \<and> x \<noteq> []"
    then show ?thesis by (intro wrong [of "tensor_payload T t @ x"]) (auto simp: b)
  qed
qed

text \<open>
  With the codec as its \<^verbatim>\<open>encode_tensor\<close> and \<^verbatim>\<open>decode_tensor\<close>, the shard model's law about the codec holds; the laws
  about splitting and joining are torch's own.
\<close>

definition wire_ops :: "platform \<Rightarrow> 't torch_lib \<Rightarrow> ('t \<Rightarrow> int \<Rightarrow> int \<Rightarrow> 't list) \<Rightarrow> ('t list \<Rightarrow> int \<Rightarrow> 't res) \<Rightarrow> 't tensor_ops" where
  "wire_ops P T split cat =
     \<lparr>to_shape = tl_shape T, to_split = split, to_cat = cat, to_encode = projr \<circ> encode_tensor P T, to_decode = decode_tensor P T,
      to_wire_dtype = projr \<circ> wire_dtype T\<rparr>"

lemma wire_ops_codec:
  assumes "float_codec P" "torch_laws T" "\<And>t. \<exists>wd. wire_dtype T t = Inr wd \<and> length (header_json P (tl_shape T t) wd) < 2 ^ 32"
  shows "to_decode (wire_ops P T split cat) (to_encode (wire_ops P T split cat) t) = Inr t"
proof -
  obtain wd where "wire_dtype T t = Inr wd" "length (header_json P (tl_shape T t) wd) < 2 ^ 32" using assms(3) by blast
  from codec_inverse [OF assms(1,2) this] show ?thesis by (auto simp: wire_ops_def)
qed

subsection \<open>Samples\<close>

text \<open>Vectors of bytes.\<close>

definition byte_lib :: "bytes torch_lib" where
  "byte_lib =
     \<lparr>tl_dtype = (\<lambda>_. UInt8), tl_shape = (\<lambda>t. [int (length t)]), tl_uint16_bytes = (\<lambda>_. []), tl_uint8_bytes = (\<lambda>_. []), tl_numpy_bytes = id,
      tl_from_uint16 = (\<lambda>_ _. Inl TypeError), tl_from_uint8 = (\<lambda>_ _. Inl TypeError), tl_from_numpy = (\<lambda>_ _ b. Inr b)\<rparr>"

lemma byte_lib_laws: "torch_laws byte_lib" "wire_dtype byte_lib t = Inr ''uint8''"
  by (simp_all add: torch_laws_def byte_lib_def wire_dtype_def TORCH_TO_WIRE_def expected_payload_bytes_def dtype_bytes_def DTYPE_BYTES_def
      tensor_payload_def tensor_of_def)

lemma byte_header: "length (header_json reference_platform (tl_shape byte_lib [1, 2, 3]) ''uint8'') < 2 ^ 32"
proof -
  have "length (header_json reference_platform (tl_shape byte_lib [1, 2, 3]) ''uint8'') < 100" by code_simp
  then show ?thesis by simp
qed


theorem damaged_tensor_rejected_witness:
  "\<exists>b msg. encode_tensor reference_platform byte_lib [1, 2, 3] = Inr b \<and> decode_tensor reference_platform byte_lib (take (length b - 1) b) = Inl (ValueError msg)"
proof -
  obtain b where b: "encode_tensor reference_platform byte_lib [1, 2, 3] = Inr b" "length b > 0"
    using codec_inverse [OF reference_float_codec byte_lib_laws byte_header] by fastforce
  have "take (length b - 1) b = take (length b - 1) b \<and> length b - 1 < length b \<or> take (length b - 1) b = b @ [] \<and> [] \<noteq> ([] :: bytes)"
    using b(2) by simp
  from damaged_tensor_rejected [OF reference_float_codec b(1) this] b(1) show ?thesis by blast
qed

end
