(* ===== verification/Spec2Isabelle.thy ===== *)
theory Spec2Isabelle
  imports Queue_Properties IR_Properties Compute_Units_Properties Scheduler Crypto_Properties
    Scoring_Properties Subnet Transport Audit_Properties Verifier_Properties
    Executor_Properties Wallet_Crypto Lifecycle Discovery Run_Manager_Properties Miner_Properties Audit_Jobs_Properties
    Validator_Neuron Streaming_Properties
    Streaming_Telemetry Tensor_IO
begin

text \<open>
  A verification library for Teuton, a subnet in which an orchestrator hands out training jobs, miners execute
  them and validators audit and pay the work. All parties meet in one object store; nothing else is shared. The
  library models the Python packages \<^verbatim>\<open>teuton_core\<close>, \<^verbatim>\<open>teuton_runtime\<close>, \<^verbatim>\<open>teuton_orchestrator\<close>, \<^verbatim>\<open>teuton_miner\<close>
  and \<^verbatim>\<open>teuton_validator\<close> under \<^verbatim>\<open>src/\<close>.

  \<^bold>\<open>How the program is modelled.\<close> A dataclass is a \<^theory_text>\<open>record\<close> whose fields carry a two-letter prefix; a method is a
  function of the record and returns it updated; a raised exception is an \<open>Inl\<close> of \<open>pyerr\<close>, the result type being
  \<open>'a res\<close>; code that keeps what it changed before raising has type \<open>('s, 'a) sres\<close>. Dicts are association lists in
  insertion order, because their order reaches the bytes that are hashed and signed; Python integers are \<open>int\<close>, floats
  are exact rationals (\<open>pyfloat\<close>), and how a platform prints and parses them is the parameter \<open>platform\<close>, of which the
  theorems assume only that parsing undoes printing (\<open>float_codec\<close>). \<open>Untyped\<close> marks a JSON value of a type the
  dataclass annotation excludes, where the model does not follow Python; it is never caught. Clocks, random sources,
  wallets, PyNaCl, the \<^verbatim>\<open>tle\<close> tool, bittensor, HTTP and torch are arguments of the definitions that call them.

  \<^bold>\<open>Foundations.\<close> \<open>Prelude\<close>: errors, the error monad, Python's string functions, UTF-8, decimal numbers. \<open>Json\<close>:
  \<^verbatim>\<open>json.dumps\<close> with sorted keys and \<^verbatim>\<open>json.loads\<close>, with the theorem that parsing a printed value gives the value with
  its keys sorted; the parser recurses on fuel, the length of its input, which is shown to be enough. \<open>Json_Fields\<close>: how decoders read an object, and the
  locale \<open>json_view\<close> (interpreted as \<open>plain\<close> and as \<open>canon\<close>, the view through a print and parse). \<open>Sha256\<close>: SHA-256
  and HMAC on words. \<open>Reference_Platform\<close>: a concrete platform for the witnesses.

  \<^bold>\<open>Records and storage.\<close> \<open>Signatures\<close> (\<^verbatim>\<open>teuton_core/signatures.py\<close>): canonical bytes, digests, signers and
  verifiers. \<open>Protocol\<close> and \<open>Protocol_Codec\<close> (\<^verbatim>\<open>teuton_core/protocol.py\<close>): every wire record, and that decoding
  undoes encoding. \<open>Paths\<close> (\<^verbatim>\<open>teuton_core/paths.py\<close>): the bucket layout. \<open>Storage\<close> (\<^verbatim>\<open>teuton_runtime/storage.py\<close>):
  \<^verbatim>\<open>LocalBucket\<close> as a finite map with modification times, behind the locales \<open>object_store\<close> and \<open>etag_store\<close>.
  \<open>Record_Store\<close>: a manifest survives the bucket and its hash binds it. \<open>Lifecycle\<close> (\<^verbatim>\<open>teuton_runtime/lifecycle.py\<close>,
  \<^verbatim>\<open>teuton_core/telemetry.py\<close>): tearing a run down is exact; telemetry never fails its caller. \<open>Discovery\<close>
  (\<^verbatim>\<open>teuton_runtime/discovery.py\<close>): heartbeats are found exactly while they are fresh.

  \<^bold>\<open>Orchestrator.\<close> \<open>Queue\<close>, \<open>Queue_Steps\<close>, \<open>Queue_Properties\<close> (\<^verbatim>\<open>teuton_runtime/queue.py\<close>): the queue of outstanding
  work, its flush with conditional writes, merge and retry, and the step relation of its threads, in which the
  critical sections under the lock are the atomic steps; the sequential \<^verbatim>\<open>flush\<close> refines the steps, the invariant holds
  in every reachable state, and three behaviours are recorded that contradict the documentation. \<open>Scheduler\<close>
  (\<^verbatim>\<open>teuton_orchestrator/scheduler.py\<close>): quotas are never exceeded, the picked worker is a best one. \<open>IR\<close>,
  \<open>IR_Properties\<close> (\<^verbatim>\<open>teuton_core/ir.py\<close>): graphs, builder and registry. \<open>Wallet_Crypto\<close>
  (\<^verbatim>\<open>teuton_core/wallet_crypto.py\<close>): grants sealed for a hotkey, behind the locale \<open>grant_crypto\<close>. \<open>Metagraph\<close>
  (\<^verbatim>\<open>teuton_core/metagraph.py\<close>): the public key of a hotkey.

  \<^bold>\<open>Emitters of jobs.\<close> \<open>Emission\<close> is what the run manager, the streaming orchestrator and the audit job manager share: their
  state, grants, and the loop that waits for others. Miners and background threads act while an emitter sleeps: each sleep takes one
  \<open>pause\<close> off a list in the state, with the clock after it and any effect on bucket and queue, so that a theorem about all
  lists of pauses is one about all interleavings at the sleeps. A waiting loop runs at most one round more than
  there are pauses, which is shown to be enough (\<open>poll_rounds_enough\<close>, \<open>poll_unfold\<close>); \<open>Blocked\<close> stands for a loop still
  asleep. \<open>Emission_Logic\<close>: triples for code that may raise, the rule of the waiting loop, frames of writes. \<open>Run_Manager\<close>,
  \<open>Run_Manager_Invariant\<close>, \<open>Run_Manager_Properties\<close> (\<^verbatim>\<open>run_manager.py\<close>): every offered job has a stored manifest with
  existing inputs, no miner is overloaded, a wait settles its job, and the loop returns only when the run is complete. \<open>Streaming\<close>,
  \<open>Streaming_Properties\<close> (\<^verbatim>\<open>streaming.py\<close>): backpressure for every kind of epoch through the locale \<open>emission_invariant\<close>
  (interpreted for backpressure and for the reservations), the epoch's wait, and the reservations a failed stress round leaves
  behind; a round of the stress loop always takes a pause, since emitting takes time. \<open>Streaming_Telemetry\<close>
  (\<^verbatim>\<open>streaming_telemetry.py\<close>): summing up receipts, with every job counted for exactly one worker.

  \<^bold>\<open>Miner.\<close> \<open>Crypto\<close>, \<open>Crypto_Properties\<close> (\<^verbatim>\<open>teuton_runtime/crypto.py\<close>): signed and encrypted artifact envelopes,
  with the locale \<open>timelock\<close> for timelock providers. \<open>Transport\<close> (\<^verbatim>\<open>transport.py\<close>, \<^verbatim>\<open>grants.py\<close>,
  \<^verbatim>\<open>sharded_tensor.py\<close>): presigned access and sharded tensors. \<open>Tensor_IO\<close> (\<^verbatim>\<open>tensor_io.py\<close>): the wire format of a
  tensor, read back exactly and refused when cut or extended; it provides the codec law that the shards assume. \<open>Executor\<close>, \<open>Executor_Properties\<close>
  (\<^verbatim>\<open>teuton_runtime/executor.py\<close>): executing a job; its caches stay bounded, their eviction loop terminates, and honest work always passes the audit. \<open>Distributed_Executor\<close>
  (\<^verbatim>\<open>distributed_executor.py\<close>): the multi-GPU path around it, the ranks being a parameter. \<open>Capabilities\<close>, \<open>Miner_Worker\<close>,
  \<open>Miner_Properties\<close> (\<^verbatim>\<open>capabilities.py\<close>, \<^verbatim>\<open>worker.py\<close>, \<^verbatim>\<open>neuron.py\<close> of \<^verbatim>\<open>teuton_miner\<close>): the worker's loop from heartbeat and
  queues to receipts; an executed entry has a valid receipt, polling with entity tags reads the published queue, and completed jobs
  survive a restart (locale \<open>completion_log\<close>). The worker's loop takes the number of its rounds and what happens between them as
  arguments.

  \<^bold>\<open>Validator.\<close> \<open>Audit_Replay\<close>, \<open>Audit_Properties\<close> (\<^verbatim>\<open>audit.py\<close>, \<^verbatim>\<open>audit_dispatch.py\<close>): replaying a receipt; what a
  pass implies. \<open>Compute_Units\<close>, \<open>Compute_Units_Properties\<close> (\<^verbatim>\<open>compute_units.py\<close>): the work estimate and its bounds.
  \<open>Verifier\<close>, \<open>Verifier_Properties\<close> (\<^verbatim>\<open>verifier.py\<close>): sampling and verdicts, behind the locale \<open>verdict_judge\<close>
  interpreted for both ways of judging. \<open>Scoring\<close>, \<open>Scoring_Properties\<close> (\<^verbatim>\<open>verifier.py\<close>, \<^verbatim>\<open>ledger.py\<close>): score windows
  and the ledger. \<open>Subnet\<close> (\<^verbatim>\<open>subnet.py\<close>): normalised weights and their publication. \<open>Audit_Jobs\<close>, \<open>Audit_Jobs_Properties\<close>
  (\<^verbatim>\<open>audit_jobs.py\<close>): audits handed out as jobs reach an allowed auditor as the replay of the audited receipt, and a pass leaves no
  sampled receipt behind. \<open>Validator_Neuron\<close> (\<^verbatim>\<open>neuron.py\<close>): the pass that verifies, scores and publishes weights; no failure of
  the chain or of telemetry stops it.

  \<^bold>\<open>Abstractions.\<close> A local bucket holds objects by key: a key that is both an object and a directory of others, which a
  file system refuses, is not excluded. The thread pools of the executor are run in input order. Rounding of floats is
  not modelled. Messages of exceptions are kept up to quoting and appended lists of names.

  \<^bold>\<open>Not modelled.\<close> The S3 bucket (boto3 calls), the evaluation of graphs (torch), the threads of
  \<^verbatim>\<open>MinerNeuron.loop\<close>, the graph builders of the tasks, command lines, views,
  dashboards, the superseded v2 packages (apart from the stage records that streaming uses), scripts and benchmarks: they call
  libraries, render, or are not part of the running system.
\<close>

end
